(* ===== verification/GoBase.thy ===== *)
theory GoBase
  imports Complex_Main "HOL-Library.Sublist" "HOL-Library.Multiset"
begin

text \<open>
  The prelude: what the Go services use of the language and of its standard library.

  \<^item> strings are lists of bytes; the case mappings act on the ASCII letters and
    \<open>trim_space\<close> removes ASCII white space (the source compares identifiers, codes and
    names of that alphabet; bytes from 128 on are left alone);
  \<^item> \<open>int\<close> and \<open>time.Duration\<close> are 64-bit: values are integers, \<open>wrap64\<close> writes the
    wrap-around out, \<open>quot\<close> is Go's division towards zero;
  \<^item> \<open>time.Time\<close> is the number of nanoseconds since the Unix epoch, \<open>zero_time\<close> Go's zero value;
  \<^item> a Go map is a partial function; a loop over it takes the keys in an arbitrary order, which
    is an argument constrained by \<open>iterates\<close>; the theorems hold for every order;
  \<^item> \<open>sort.Slice\<close> is a stable insertion sort: as the order of its input (a map) is arbitrary,
    every order of equal elements that the unstable library sort could produce is covered.
\<close>

named_theorems go_simps
named_theorems go_inv

section \<open>Integers, durations and instants\<close>

type_synonym time = int
type_synonym duration = int

definition min_int64 :: int where "min_int64 = - (2 ^ 63)"
definition max_int64 :: int where "max_int64 = 2 ^ 63 - 1"

definition wrap64 :: "int \<Rightarrow> int" where
  "wrap64 x = (x + 2 ^ 63) mod 2 ^ 64 - 2 ^ 63"

definition fits64 :: "int \<Rightarrow> bool" where
  "fits64 x \<longleftrightarrow> min_int64 \<le> x \<and> x \<le> max_int64"

lemma wrap64_id [go_simps]: "fits64 x \<Longrightarrow> wrap64 x = x"
  by (simp add: fits64_def wrap64_def min_int64_def max_int64_def mod_pos_pos_trivial)

lemma fits64_wrap64: "fits64 (wrap64 x)"
  using pos_mod_bound [of "2 ^ 64" "x + 2 ^ 63"] pos_mod_sign [of "2 ^ 64" "x + 2 ^ 63"]
  by (simp add: fits64_def wrap64_def min_int64_def max_int64_def)

definition quot :: "int \<Rightarrow> int \<Rightarrow> int" where
  "quot a b = sgn a * sgn b * (\<bar>a\<bar> div \<bar>b\<bar>)"

lemma quot_pos: "0 \<le> a \<Longrightarrow> 0 < b \<Longrightarrow> quot a b = a div b"
  by (cases "a = 0") (auto simp: quot_def sgn_if)

definition zero_time :: time where
  "zero_time = - 62135596800000000000"

definition Millisecond :: duration where "Millisecond = 1000000"
definition Second :: duration where "Second = 1000000000"
definition Minute :: duration where "Minute = 60000000000"
definition Hour :: duration where "Hour = 3600000000000"

lemmas duration_defs = Millisecond_def Second_def Minute_def Hour_def

text \<open>\<open>t.Sub(u)\<close> saturates at the ends of the 64-bit range.\<close>

definition time_sub :: "time \<Rightarrow> time \<Rightarrow> duration" where
  "time_sub t u = max min_int64 (min max_int64 (t - u))"

lemma time_sub_less_iff:
  "min_int64 < d \<Longrightarrow> d \<le> max_int64 \<Longrightarrow> time_sub t u < d \<longleftrightarrow> t - u < d"
  by (auto simp: time_sub_def min_int64_def max_int64_def)

lemma time_sub_le_iff:
  "min_int64 \<le> d \<Longrightarrow> d < max_int64 \<Longrightarrow> time_sub t u \<le> d \<longleftrightarrow> t - u \<le> d"
  by (auto simp: time_sub_def min_int64_def max_int64_def)

section \<open>Strings\<close>

definition lower_char :: "char \<Rightarrow> char" where
  "lower_char c = (let n = (of_char c :: nat) in if 65 \<le> n \<and> n \<le> 90 then char_of (n + 32) else c)"

definition upper_char :: "char \<Rightarrow> char" where
  "upper_char c = (let n = (of_char c :: nat) in if 97 \<le> n \<and> n \<le> 122 then char_of (n - 32) else c)"

definition to_lower :: "string \<Rightarrow> string" where "to_lower s = map lower_char s"
definition to_upper :: "string \<Rightarrow> string" where "to_upper s = map upper_char s"

lemma of_char_of_small: "n < 256 \<Longrightarrow> (of_char (char_of n :: char) :: nat) = n"
  by simp

lemma lower_char_idem [simp]: "lower_char (lower_char c) = lower_char c"
  using nat_of_char_less_256 [of c] by (auto simp: lower_char_def Let_def mod_less)

lemma upper_char_idem [simp]: "upper_char (upper_char c) = upper_char c"
proof (cases "97 \<le> (of_char c :: nat) \<and> (of_char c :: nat) \<le> 122")
  case True
  then have "(of_char c - 32) mod 256 = (of_char c - 32 :: nat)"
    by (intro mod_less) linarith
  moreover have "\<not> 97 \<le> (of_char c - 32 :: nat)" using True by linarith
  ultimately show ?thesis using True by (simp add: upper_char_def Let_def)
qed (auto simp: upper_char_def Let_def)

lemma to_lower_idem [simp]: "to_lower (to_lower s) = to_lower s"
  by (simp add: to_lower_def)

lemma to_upper_idem [simp]: "to_upper (to_upper s) = to_upper s"
  by (simp add: to_upper_def)

lemma to_lower_Nil [simp]: "to_lower [] = []" "to_lower s = [] \<longleftrightarrow> s = []"
  by (auto simp: to_lower_def)

lemma to_upper_Nil [simp]: "to_upper [] = []" "to_upper s = [] \<longleftrightarrow> s = []"
  by (auto simp: to_upper_def)

text \<open>\<open>strings.EqualFold\<close> on the modelled alphabet.\<close>

definition equal_fold :: "string \<Rightarrow> string \<Rightarrow> bool" where
  "equal_fold s t \<longleftrightarrow> to_lower s = to_lower t"

lemma equal_fold_refl [simp]: "equal_fold s s"
  by (simp add: equal_fold_def)

definition is_space :: "char \<Rightarrow> bool" where
  "is_space c \<longleftrightarrow> (let n = (of_char c :: nat) in n = 32 \<or> (9 \<le> n \<and> n \<le> 13))"

definition trim :: "(char \<Rightarrow> bool) \<Rightarrow> string \<Rightarrow> string" where
  "trim p s = rev (dropWhile p (rev (dropWhile p s)))"

definition trim_space :: "string \<Rightarrow> string" where "trim_space s = trim is_space s"

lemma set_trim: "set (trim p s) \<subseteq> set s"
  by (metis (no_types, lifting) set_dropWhileD set_rev subsetI trim_def)

lemma trim_Nil [simp]: "trim p [] = []"
  by (simp add: trim_def)

lemma trim_space_Nil [simp]: "trim_space [] = []"
  by (simp add: trim_space_def)

lemma dropWhile_rev_dropWhile:
  assumes "u = [] \<or> \<not> p (hd u)"
  shows "dropWhile p (rev (dropWhile p (rev u))) = rev (dropWhile p (rev u))"
proof -
  let ?v = "rev (dropWhile p (rev u))"
  have u: "u = ?v @ rev (takeWhile p (rev u))"
    by (metis rev_append rev_rev_ident takeWhile_dropWhile_id)
  show ?thesis
  proof (cases ?v)
    case (Cons c cs)
    then have "hd u = c" "u \<noteq> []" using u by (metis append_Cons list.sel(1), auto)
    then show ?thesis using Cons assms by simp
  next
    case Nil
    then show ?thesis by (metis dropWhile.simps(1) rev.simps(1))
  qed
qed

lemma trim_idem [simp]: "trim p (trim p s) = trim p s"
proof -
  have "dropWhile p s = [] \<or> \<not> p (hd (dropWhile p s))" using hd_dropWhile by blast
  from dropWhile_rev_dropWhile [of _ p, OF this] show ?thesis by (simp add: trim_def)
qed

lemma trim_space_idem [simp]: "trim_space (trim_space s) = trim_space s"
  by (simp add: trim_space_def)

fun contains :: "string \<Rightarrow> string \<Rightarrow> bool" where
  "contains [] t = (t = [])"
| "contains (c # s) t = (prefix t (c # s) \<or> contains s t)"

lemma contains_iff_sublist: "contains s t \<longleftrightarrow> sublist t s"
proof (induction s)
  case Nil
  then show ?case by simp
next
  case (Cons c s)
  then show ?case by (simp add: sublist_Cons_right)
qed

lemma contains_refl [simp]: "contains s s"
  by (simp add: contains_iff_sublist)

lemma contains_empty [simp]: "contains s []"
  by (simp add: contains_iff_sublist)

definition has_prefix :: "string \<Rightarrow> string \<Rightarrow> bool" where
  "has_prefix s p \<longleftrightarrow> take (length p) s = p"

lemma has_prefix_append [simp]: "has_prefix (p @ s) p"
  by (simp add: has_prefix_def)

lemma has_prefixE: "has_prefix s p \<Longrightarrow> \<exists>r. s = p @ r"
  by (metis append_take_drop_id has_prefix_def)

definition trim_prefix :: "string \<Rightarrow> string \<Rightarrow> string" where
  "trim_prefix s p = (if has_prefix s p then drop (length p) s else s)"

text \<open>\<open>strings.TrimRight(s, cut)\<close> for a one-byte cut set.\<close>

definition trim_right :: "char \<Rightarrow> string \<Rightarrow> string" where
  "trim_right c s = rev (dropWhile (\<lambda>x. x = c) (rev s))"

text \<open>\<open>strings.Split(s, sep)\<close> for a one-byte separator, and \<open>strings.Join\<close>.\<close>

fun split_on :: "char \<Rightarrow> string \<Rightarrow> string list" where
  "split_on c [] = [[]]"
| "split_on c (x # s) =
     (if x = c then [] # split_on c s
      else (case split_on c s of [] \<Rightarrow> [[x]] | w # ws \<Rightarrow> (x # w) # ws))"

fun join :: "string \<Rightarrow> string list \<Rightarrow> string" where
  "join sep [] = []"
| "join sep [w] = w"
| "join sep (w # ws) = w @ sep @ join sep ws"

lemma join_Cons: "ws \<noteq> [] \<Longrightarrow> join sep (w # ws) = w @ sep @ join sep ws"
  by (cases ws) auto

lemma split_on_nonempty [simp]: "split_on c s \<noteq> []"
  by (induction s) (auto split: list.splits)

lemma split_on_no_sep: "c \<notin> set w \<Longrightarrow> split_on c w = [w]"
  by (induction w) auto

lemma split_on_append: "c \<notin> set w \<Longrightarrow> split_on c (w @ c # s) = w # split_on c s"
  by (induction w) auto

lemma split_on_join:
  "ws \<noteq> [] \<Longrightarrow> \<forall>w \<in> set ws. c \<notin> set w \<Longrightarrow> split_on c (join [c] ws) = ws"
proof (induction ws)
  case (Cons w ws)
  then show ?case by (cases "ws = []") (auto simp: split_on_append split_on_no_sep join_Cons)
qed simp

lemma join_split_on: "join [c] (split_on c s) = s"
proof (induction s)
  case (Cons x s)
  obtain w ws where "split_on c s = w # ws" by (meson neq_Nil_conv split_on_nonempty)
  with Cons show ?case by (cases ws) (auto simp: join_Cons)
qed simp

lemma split_on_parts: "w \<in> set (split_on c s) \<Longrightarrow> c \<notin> set w"
proof (induction s arbitrary: w)
  case (Cons x s)
  obtain v vs where "split_on c s = v # vs" by (meson neq_Nil_conv split_on_nonempty)
  with Cons show ?case by (auto split: if_splits)
qed simp

text \<open>Decimal output (\<open>%d\<close>, \<open>strconv.Itoa\<close>) and \<open>%v\<close> of a boolean.\<close>

fun dec_nat :: "nat \<Rightarrow> string" where
  "dec_nat n = (if n < 10 then [char_of (48 + n)] else dec_nat (n div 10) @ [char_of (48 + n mod 10)])"

declare dec_nat.simps [simp del]

definition dec_int :: "int \<Rightarrow> string" where
  "dec_int i = (if i < 0 then CHR ''-'' # dec_nat (nat (- i)) else dec_nat (nat i))"

definition show_bool :: "bool \<Rightarrow> string" where
  "show_bool b = (if b then ''true'' else ''false'')"

lemma show_bool_inj [simp]: "show_bool a = show_bool b \<longleftrightarrow> a = b"
  by (simp add: show_bool_def)

definition undec :: "string \<Rightarrow> nat" where
  "undec s = foldl (\<lambda>a c. 10 * a + (of_char c - 48)) 0 s"

definition is_digit :: "char \<Rightarrow> bool" where
  "is_digit c \<longleftrightarrow> (let n = (of_char c :: nat) in 48 \<le> n \<and> n \<le> 57)"

lemma undec_dec_nat: "undec (dec_nat n) = n"
proof (induction n rule: dec_nat.induct)
  case (1 n)
  show ?case
    by (cases "n < 10") (use 1 in \<open>auto simp: dec_nat.simps [of n] undec_def\<close>)
qed

lemma dec_nat_digits: "c \<in> set (dec_nat n) \<Longrightarrow> is_digit c"
proof (induction n rule: dec_nat.induct)
  case (1 n)
  then show ?case
    by (cases "n < 10") (auto simp: dec_nat.simps [of n] is_digit_def Let_def)
qed

lemma dec_nat_nonempty [simp]: "dec_nat n \<noteq> []"
  by (subst dec_nat.simps) simp

lemma dec_nat_inj [simp]: "dec_nat a = dec_nat b \<longleftrightarrow> a = b"
  by (metis undec_dec_nat)

lemma dec_nat_no_minus: "dec_nat n \<noteq> CHR ''-'' # s"
  using dec_nat_digits [of "CHR ''-''" n] by (auto simp: is_digit_def)

lemma dec_int_inj [simp]: "dec_int a = dec_int b \<longleftrightarrow> a = b"
  using dec_nat_no_minus dec_nat_no_minus [symmetric]
  by (auto simp: dec_int_def eq_nat_nat_iff)

text \<open>\<open>strconv.Atoi\<close>.\<close>

definition Atoi :: "string \<Rightarrow> int option" where
  "Atoi s =
     (let (neg, ds) = (case s of c # t \<Rightarrow> if c = CHR ''-'' then (True, t) else if c = CHR ''+'' then (False, t) else (False, s)
                       | [] \<Rightarrow> (False, []));
          n = (if neg then - int (undec ds) else int (undec ds))
      in if ds \<noteq> [] \<and> list_all is_digit ds \<and> fits64 n then Some n else None)"

text \<open>\<open>strconv.Atoi\<close> with its error ignored: 0 for text that is no number, the nearest bound for one out of range.\<close>

definition atoi_value :: "string \<Rightarrow> int" where
  "atoi_value s =
     (let (neg, ds) = (case s of c # t \<Rightarrow> if c = CHR ''-'' then (True, t) else if c = CHR ''+'' then (False, t) else (False, s)
                       | [] \<Rightarrow> (False, []));
          n = (if neg then - int (undec ds) else int (undec ds))
      in if ds = [] \<or> \<not> list_all is_digit ds then 0
         else if n < min_int64 then min_int64 else if n > max_int64 then max_int64 else n)"

text \<open>\<open>hex.EncodeToString\<close> and \<open>hex.DecodeString\<close>.\<close>

definition hex_digit :: "nat \<Rightarrow> char" where
  "hex_digit n = (if n < 10 then char_of (48 + n) else char_of (87 + n))"

definition hex_encode :: "string \<Rightarrow> string" where
  "hex_encode s = concat (map (\<lambda>c. let n = (of_char c :: nat) in [hex_digit (n div 16), hex_digit (n mod 16)]) s)"

definition hex_value :: "char \<Rightarrow> nat option" where
  "hex_value c =
     (let n = (of_char c :: nat)
      in if 48 \<le> n \<and> n \<le> 57 then Some (n - 48)
         else if 97 \<le> n \<and> n \<le> 102 then Some (n - 87)
         else if 65 \<le> n \<and> n \<le> 70 then Some (n - 55) else None)"

fun hex_decode :: "string \<Rightarrow> string option" where
  "hex_decode [] = Some []"
| "hex_decode [_] = None"
| "hex_decode (a # b # r) =
     (case hex_value a of None \<Rightarrow> None
      | Some x \<Rightarrow> (case hex_value b of None \<Rightarrow> None
         | Some y \<Rightarrow> map_option (\<lambda>t. char_of (16 * x + y) # t) (hex_decode r)))"

lemma hex_value_digit: "n < 16 \<Longrightarrow> hex_value (hex_digit n) = Some n"
  by (auto simp: hex_value_def hex_digit_def Let_def)

lemma hex_decode_encode [simp]: "hex_decode (hex_encode s) = Some s"
proof (induction s)
  case (Cons c s)
  have "(of_char c :: nat) div 16 < 16" by (rule less_mult_imp_div_less) simp
  then show ?case using Cons by (simp add: hex_encode_def Let_def hex_value_digit)
qed (simp add: hex_encode_def)

lemma length_hex_encode [simp]: "length (hex_encode s) = 2 * length s"
  by (induction s) (simp_all add: hex_encode_def Let_def)

text \<open>Go compares strings byte by byte.\<close>

fun string_less :: "string \<Rightarrow> string \<Rightarrow> bool" where
  "string_less [] [] = False"
| "string_less [] (_ # _) = True"
| "string_less (_ # _) [] = False"
| "string_less (a # s) (b # t) =
     ((of_char a :: nat) < of_char b \<or> (a = b \<and> string_less s t))"

lemma string_less_irrefl [simp]: "\<not> string_less s s"
  by (induction s) auto

lemma string_less_trans: "string_less r s \<Longrightarrow> string_less s t \<Longrightarrow> string_less r t"
proof (induction r s arbitrary: t rule: string_less.induct)
  case (2 b s)
  then show ?case by (cases t) auto
next
  case (4 a s b u)
  then show ?case by (cases t) auto
qed auto

lemma string_less_linear: "string_less s t \<or> s = t \<or> string_less t s"
proof (induction s t rule: string_less.induct)
  case (4 a s b t)
  then show ?case by (metis linorder_less_linear of_char_eq_iff string_less.simps(4))
qed auto

lemma string_less_asym: "string_less s t \<Longrightarrow> \<not> string_less t s"
  using string_less_trans string_less_irrefl by blast

section \<open>Maps and the order of a loop over a map\<close>

definition iterates :: "('k \<rightharpoonup> 'v) \<Rightarrow> 'k list \<Rightarrow> bool" where
  "iterates m ord \<longleftrightarrow> distinct ord \<and> set ord = dom m"

definition range_vals :: "('k \<rightharpoonup> 'v) \<Rightarrow> 'k list \<Rightarrow> 'v list" where
  "range_vals m ord = List.map_filter m ord"

lemma range_vals_simps [simp]:
  "range_vals m [] = []"
  "range_vals m (k # ks) = (case m k of None \<Rightarrow> range_vals m ks | Some v \<Rightarrow> v # range_vals m ks)"
  by (auto simp: range_vals_def List.map_filter_def split: option.splits)

lemma set_map_filter_iff: "set (List.map_filter f xs) = {y. \<exists>x \<in> set xs. f x = Some y}"
  by (induction xs) (auto simp: List.map_filter_def)

lemma set_range_vals: "set (range_vals m ord) = {v. \<exists>k \<in> set ord. m k = Some v}"
  by (induction ord) (auto split: option.splits)

lemma set_range_vals_iterates: "iterates m ord \<Longrightarrow> set (range_vals m ord) = ran m"
  by (auto simp: set_range_vals iterates_def ran_def domI)

lemma iterates_finite: "iterates m ord \<Longrightarrow> finite (dom m)"
  by (metis List.finite_set iterates_def)

section \<open>Sorting\<close>

fun insert_by :: "('a \<Rightarrow> 'a \<Rightarrow> bool) \<Rightarrow> 'a \<Rightarrow> 'a list \<Rightarrow> 'a list" where
  "insert_by lt x [] = [x]"
| "insert_by lt x (y # ys) = (if lt y x then y # insert_by lt x ys else x # y # ys)"

definition sort_slice :: "('a \<Rightarrow> 'a \<Rightarrow> bool) \<Rightarrow> 'a list \<Rightarrow> 'a list" where
  "sort_slice lt xs = foldr (insert_by lt) xs []"

lemma sort_slice_simps [simp]:
  "sort_slice lt [] = []"
  "sort_slice lt (x # xs) = insert_by lt x (sort_slice lt xs)"
  by (simp_all add: sort_slice_def)

lemma mset_insert_by [simp]: "mset (insert_by lt x xs) = add_mset x (mset xs)"
  by (induction xs) auto

lemma mset_sort_slice [simp]: "mset (sort_slice lt xs) = mset xs"
  by (induction xs) auto

lemma set_sort_slice [simp]: "set (sort_slice lt xs) = set xs"
  by (metis mset_sort_slice set_mset_mset)

lemma length_sort_slice [simp]: "length (sort_slice lt xs) = length xs"
  by (metis mset_sort_slice size_mset)

lemma set_insert_by [simp]: "set (insert_by lt x xs) = insert x (set xs)"
  by (induction xs) auto

text \<open>
  The contract of a comparison function handed to \<open>sort.Slice\<close>: a strict weak order. Under it
  no element of the result is less than one before it.
\<close>

locale strict_weak_order =
  fixes lt :: "'a \<Rightarrow> 'a \<Rightarrow> bool"
  assumes less_asym: "lt x y \<Longrightarrow> \<not> lt y x"
    and less_negtrans: "\<not> lt x y \<Longrightarrow> \<not> lt y z \<Longrightarrow> \<not> lt x z"
begin

definition in_order :: "'a list \<Rightarrow> bool" where
  "in_order xs \<longleftrightarrow> sorted_wrt (\<lambda>x y. \<not> lt y x) xs"

lemma in_order_insert_by: "in_order xs \<Longrightarrow> in_order (insert_by lt x xs)"
proof (induction xs)
  case (Cons y ys)
  then show ?case
    by (auto simp: in_order_def) (metis less_asym less_negtrans)+
qed (simp add: in_order_def)

lemma in_order_sort_slice: "in_order (sort_slice lt xs)"
  by (induction xs) (simp_all add: in_order_insert_by, simp add: in_order_def)

lemma sorted_sort_slice: "sorted_wrt (\<lambda>x y. \<not> lt y x) (sort_slice lt xs)"
  using in_order_sort_slice by (simp add: in_order_def)

end

interpretation string_order: strict_weak_order string_less
  by unfold_locales (blast dest: string_less_asym, metis string_less_linear string_less_trans)

section \<open>Pagination of query results\<close>

definition clamp_limit :: "int \<Rightarrow> int" where
  "clamp_limit l = (if l \<le> 0 then 50 else if l > 200 then 200 else l)"

definition clamp_offset :: "int \<Rightarrow> int" where
  "clamp_offset off = (if off < 0 then 0 else off)"

definition page :: "int \<Rightarrow> int \<Rightarrow> 'a list \<Rightarrow> 'a list" where
  "page limit off xs =
     (if off < int (length xs)
      then (let e = off + limit; e' = (if e > int (length xs) then int (length xs) else e)
            in take (nat (e' - off)) (drop (nat off) xs))
      else [])"

lemma clamp_limit_bounds: "1 \<le> clamp_limit l \<and> clamp_limit l \<le> 200"
  by (simp add: clamp_limit_def)

lemma page_take_drop:
  "0 \<le> off \<Longrightarrow> 0 \<le> limit \<Longrightarrow> page limit off xs = take (nat limit) (drop (nat off) xs)"
  by (auto simp: page_def Let_def nat_diff_distrib nat_add_distrib)

lemma length_page: "0 \<le> off \<Longrightarrow> 0 \<le> limit \<Longrightarrow> int (length (page limit off xs)) \<le> limit"
  by (simp add: page_take_drop)

lemma page_append:
  assumes "0 \<le> off" "0 \<le> l" "0 \<le> l'"
  shows "page l off xs @ page l' (off + l) xs = page (l + l') off xs"
  using assms by (simp add: page_take_drop nat_add_distrib take_add add.commute)

section \<open>Folding a state over a list\<close>

lemma foldl_invariant:
  "I s \<Longrightarrow> (\<And>s x. I s \<Longrightarrow> x \<in> set xs \<Longrightarrow> I (f s x)) \<Longrightarrow> I (foldl f s xs)"
  by (induction xs arbitrary: s) auto

end
