(* ===== verification/Snapshot.thy ===== *)
theory Snapshot
  imports GoBase
begin

text \<open>
  The host snapshot a scan produces (\<open>models/snapshot.go\<close>): one record per structure of the
  payload, with a pointer that may be nil as an \<open>option\<close>, and the boundary validation.
\<close>

record SnapshotAuditMetadata =
  SAM_EngineVersion :: string
  SAM_TimestampUTC :: string
  SAM_ScanProtocol :: string
  SAM_TargetHost :: string

record SnapshotSystemIdentity =
  SSI_Hostname :: string
  SSI_Domain :: "string option"
  SSI_Manufacturer :: string
  SSI_Model :: string
  SSI_SystemType :: "string option"
  SSI_ChassisType :: string
  SSI_OSName :: string
  SSI_OSVersion :: string
  SSI_OSBuild :: string
  SSI_OSArchitecture :: "string option"
  SSI_SerialNumber :: "string option"
  SSI_InstallDate :: "string option"
  SSI_LastBootTime :: "string option"

record SnapshotFirmwareBios =
  SFB_MotherboardSerial :: "string option"
  SFB_MotherboardManufacturer :: "string option"
  SFB_MotherboardProduct :: "string option"
  SFB_Vendor :: string
  SFB_Version :: string
  SFB_ReleaseDate :: "string option"
  SFB_SMBIOSVersion :: "string option"
  SFB_SMBIOSGUID :: "string option"
  SFB_SecureBootEnabled :: bool
  SFB_UEFIMode :: bool

record SnapshotCPUDetail =
  SCD_DeviceID :: string
  SCD_Name :: string
  SCD_Manufacturer :: string
  SCD_Cores :: int
  SCD_Threads :: int
  SCD_MaxClockMHz :: int
  SCD_Architecture :: string
  SCD_Socket :: string

record SnapshotProcessor =
  SPR_Models :: "string list"
  SPR_SocketCount :: int
  SPR_TotalCores :: int
  SPR_TotalThreads :: int
  SPR_VirtualizationFirmwareEnabled :: "bool option"
  SPR_VBSStatus :: "string option"
  SPR_HVCIStatus :: "string option"
  SPR_Processors :: "SnapshotCPUDetail list"

record SnapshotDIMMEntry =
  SDI_Slot :: string
  SDI_CapacityBytes :: int
  SDI_SpeedMHz :: "int option"
  SDI_Manufacturer :: "string option"
  SDI_PartNumber :: "string option"
  SDI_SerialNumber :: "string option"
  SDI_FormFactor :: "string option"

record SnapshotMemory =
  SME_TotalCapacityBytes :: int
  SME_SlotsUsed :: int
  SME_TotalSlots :: int
  SME_DIMMs :: "SnapshotDIMMEntry list"

record SnapshotDiskEntry =
  SDE_Index :: int
  SDE_Model :: string
  SDE_BusType :: string
  SDE_SizeBytes :: int
  SDE_Partitions :: int
  SDE_SMARTStatus :: string
  SDE_SerialNumber :: "string option"
  SDE_MediaType :: "string option"

record SnapshotPartitionEntry =
  SPE_Name :: string
  SPE_DiskIndex :: int
  SPE_SizeBytes :: int
  SPE_Bootable :: bool
  SPE_Primary :: bool

record SnapshotStorage =
  SST_DiskCount :: int
  SST_Disks :: "SnapshotDiskEntry list"
  SST_Partitions :: "SnapshotPartitionEntry list"

record SnapshotTPM =
  STP_Present :: bool
  STP_SpecVersion :: "string option"
  STP_ManufacturerID :: "string option"
  STP_ManufacturerVersion :: "string option"
  STP_IsEnabled :: "bool option"
  STP_IsActivated :: "bool option"
  STP_IsOwned :: "bool option"
  STP_PCRBanks :: "string list"

record SnapshotNICEntry =
  SNE_Description :: string
  SNE_MACAddress :: string
  SNE_IPAddresses :: "string list"
  SNE_IPSubnets :: "string list"
  SNE_DefaultGateways :: "string list"
  SNE_DNSServers :: "string list"
  SNE_DHCPEnabled :: bool
  SNE_LinkSpeedMbps :: "int option"
  SNE_PhysicalAdapter :: "bool option"

record SnapshotNetwork =
  SNW_Adapters :: "SnapshotNICEntry list"

record SnapshotVideoController =
  SVC_Name :: string
  SVC_DriverVersion :: "string option"
  SVC_AdapterRAMBytes :: "int option"
  SVC_VideoProcessor :: "string option"

record SnapshotUSBDevice =
  SUD_DeviceID :: string
  SUD_Name :: string
  SUD_Manufacturer :: "string option"
  SUD_Status :: "string option"

record SnapshotMonitorEntry =
  SMO_Manufacturer :: "string option"
  SMO_ProductCode :: "string option"
  SMO_SerialNumber :: "string option"
  SMO_YearOfManufacture :: "int option"

record SnapshotPeripherals =
  SPH_VideoControllers :: "SnapshotVideoController list"
  SPH_USBDevices :: "SnapshotUSBDevice list"
  SPH_Monitors :: "SnapshotMonitorEntry list"

record SnapshotApplicationEntry =
  SAP_Name :: string
  SAP_Version :: "string option"
  SAP_Publisher :: "string option"
  SAP_InstallDate :: "string option"
  SAP_Architecture :: "string option"

record SnapshotHotfixEntry =
  SHF_HotFixID :: string
  SHF_Description :: "string option"
  SHF_InstalledOn :: "string option"

record SnapshotSoftware =
  SSW_Applications :: "SnapshotApplicationEntry list"
  SSW_Hotfixes :: "SnapshotHotfixEntry list"

record SnapshotBitLockerVolume =
  SBV_DriveLetter :: string
  SBV_ProtectionStatus :: int
  SBV_ConversionStatus :: int
  SBV_EncryptionMethod :: string
  SBV_LockStatus :: int
  SBV_KeyProtectors :: "string list"

record SnapshotBitLockerInfo =
  SBI_Volumes :: "SnapshotBitLockerVolume list"

record SnapshotDefenderInfo =
  SDF_RealTimeProtectionEnabled :: "bool option"
  SDF_AntivirusEnabled :: "bool option"
  SDF_AntispywareEnabled :: "bool option"
  SDF_BehaviorMonitorEnabled :: "bool option"
  SDF_IoavProtectionEnabled :: "bool option"
  SDF_TamperProtectionEnabled :: "bool option"
  SDF_AntivirusSignatureVersion :: "string option"
  SDF_AntivirusEngineVersion :: "string option"
  SDF_QuickScanAgeDays :: "int option"

record SnapshotFirewallProfile =
  SFP_Enabled :: bool
  SFP_DefaultInbound :: string
  SFP_DefaultOutbound :: string

record SnapshotFirewallProfiles =
  SFS_Domain :: SnapshotFirewallProfile
  SFS_Private :: SnapshotFirewallProfile
  SFS_Public :: SnapshotFirewallProfile

record SnapshotSecurityBaseline =
  SSB_BitLocker :: SnapshotBitLockerInfo
  SSB_Defender :: SnapshotDefenderInfo
  SSB_FirewallProfiles :: SnapshotFirewallProfiles
  SSB_SMB1Enabled :: bool
  SSB_LSAProtectionEnabled :: bool
  SSB_CredentialGuardRunning :: bool

record SnapshotPrivilegedGroup =
  SPG_GroupName :: string
  SPG_Members :: "string list"

record SnapshotDormantProfile =
  SDP_Username :: string
  SDP_LocalPath :: string
  SDP_LastUseTime :: "string option"
  SDP_InactiveDays :: int

record SnapshotUserAccess =
  SUA_LocalAdministrators :: "string list"
  SUA_RemoteDesktopUsers :: "string list"
  SUA_PrivilegedGroups :: "SnapshotPrivilegedGroup list"
  SUA_DormantProfiles :: "SnapshotDormantProfile list"
  SUA_GuestAccountDisabled :: "bool option"

record HostSnapshotPayload =
  HS_AuditMetadata :: SnapshotAuditMetadata
  HS_SystemIdentity :: SnapshotSystemIdentity
  HS_FirmwareBios :: SnapshotFirmwareBios
  HS_Processor :: SnapshotProcessor
  HS_Memory :: SnapshotMemory
  HS_Storage :: SnapshotStorage
  HS_TPM :: SnapshotTPM
  HS_Network :: SnapshotNetwork
  HS_Peripherals :: SnapshotPeripherals
  HS_Software :: SnapshotSoftware
  HS_SecurityBaseline :: SnapshotSecurityBaseline
  HS_UserAccess :: SnapshotUserAccess

text \<open>A concrete payload, for examples.\<close>

definition demo_snapshot :: HostSnapshotPayload where
  "demo_snapshot =
     \<lparr>HS_AuditMetadata = \<lparr>SAM_EngineVersion = ''1'', SAM_TimestampUTC = [], SAM_ScanProtocol = [],
        SAM_TargetHost = []\<rparr>,
      HS_SystemIdentity = \<lparr>SSI_Hostname = ''host'', SSI_Domain = None, SSI_Manufacturer = [],
        SSI_Model = [], SSI_SystemType = None, SSI_ChassisType = ''Laptop'', SSI_OSName = [], SSI_OSVersion = [],
        SSI_OSBuild = [], SSI_OSArchitecture = None, SSI_SerialNumber = None, SSI_InstallDate = None,
        SSI_LastBootTime = None\<rparr>,
      HS_FirmwareBios = \<lparr>SFB_MotherboardSerial = None, SFB_MotherboardManufacturer = None,
        SFB_MotherboardProduct = None, SFB_Vendor = [], SFB_Version = [], SFB_ReleaseDate = None,
        SFB_SMBIOSVersion = None, SFB_SMBIOSGUID = None, SFB_SecureBootEnabled = True, SFB_UEFIMode = True\<rparr>,
      HS_Processor = \<lparr>SPR_Models = [], SPR_SocketCount = 1, SPR_TotalCores = 0, SPR_TotalThreads = 0,
        SPR_VirtualizationFirmwareEnabled = None, SPR_VBSStatus = None, SPR_HVCIStatus = None,
        SPR_Processors = []\<rparr>,
      HS_Memory = \<lparr>SME_TotalCapacityBytes = 0, SME_SlotsUsed = 0, SME_TotalSlots = 0, SME_DIMMs = []\<rparr>,
      HS_Storage = \<lparr>SST_DiskCount = 0, SST_Disks = [], SST_Partitions = []\<rparr>,
      HS_TPM = \<lparr>STP_Present = True, STP_SpecVersion = None, STP_ManufacturerID = None,
        STP_ManufacturerVersion = None, STP_IsEnabled = None, STP_IsActivated = None, STP_IsOwned = None,
        STP_PCRBanks = []\<rparr>,
      HS_Network = \<lparr>SNW_Adapters = []\<rparr>,
      HS_Peripherals = \<lparr>SPH_VideoControllers = [], SPH_USBDevices = [], SPH_Monitors = []\<rparr>,
      HS_Software = \<lparr>SSW_Applications = [], SSW_Hotfixes = []\<rparr>,
      HS_SecurityBaseline = \<lparr>SSB_BitLocker = \<lparr>SBI_Volumes = []\<rparr>,
        SSB_Defender = \<lparr>SDF_RealTimeProtectionEnabled = None, SDF_AntivirusEnabled = None,
        SDF_AntispywareEnabled = None, SDF_BehaviorMonitorEnabled = None, SDF_IoavProtectionEnabled = None,
        SDF_TamperProtectionEnabled = None, SDF_AntivirusSignatureVersion = None,
        SDF_AntivirusEngineVersion = None, SDF_QuickScanAgeDays = None\<rparr>,
        SSB_FirewallProfiles = \<lparr>SFS_Domain = \<lparr>SFP_Enabled = False, SFP_DefaultInbound = [],
        SFP_DefaultOutbound = []\<rparr>, SFS_Private = \<lparr>SFP_Enabled = False, SFP_DefaultInbound = [],
        SFP_DefaultOutbound = []\<rparr>, SFS_Public = \<lparr>SFP_Enabled = False, SFP_DefaultInbound = [],
        SFP_DefaultOutbound = []\<rparr>\<rparr>, SSB_SMB1Enabled = False, SSB_LSAProtectionEnabled = True,
        SSB_CredentialGuardRunning = True\<rparr>,
      HS_UserAccess = \<lparr>SUA_LocalAdministrators = [], SUA_RemoteDesktopUsers = [], SUA_PrivilegedGroups = [],
        SUA_DormantProfiles = [], SUA_GuestAccountDisabled = None\<rparr>\<rparr>"

datatype snapshot_error =
  EmptyPayload | BadSnapshotJSON | MissingEngineVersion | MissingHostname | BadSocketCount

text \<open>\<open>unmarshal\<close> decodes the JSON; \<open>None\<close> is its error.\<close>

definition ValidateSnapshotPayload ::
  "(string \<Rightarrow> HostSnapshotPayload option) \<Rightarrow> string \<Rightarrow> snapshot_error + HostSnapshotPayload" where
  "ValidateSnapshotPayload unmarshal data =
     (if data = [] then Inl EmptyPayload
      else case unmarshal data of
        None \<Rightarrow> Inl BadSnapshotJSON
      | Some payload \<Rightarrow>
          if SAM_EngineVersion (HS_AuditMetadata payload) = [] then Inl MissingEngineVersion
          else if SSI_Hostname (HS_SystemIdentity payload) = [] then Inl MissingHostname
          else if SPR_SocketCount (HS_Processor payload) \<le> 0 then Inl BadSocketCount
          else Inr payload)"

lemma ValidateSnapshotPayload_Inr:
  "ValidateSnapshotPayload unmarshal data = Inr p \<longleftrightarrow>
     data \<noteq> [] \<and> unmarshal data = Some p \<and> SAM_EngineVersion (HS_AuditMetadata p) \<noteq> []
     \<and> SSI_Hostname (HS_SystemIdentity p) \<noteq> [] \<and> 1 \<le> SPR_SocketCount (HS_Processor p)"
  by (auto simp: ValidateSnapshotPayload_def split: option.splits if_splits)

end
