(* ===== verification/Json.thy ===== *)
theory Json
  imports GoBase
begin

text \<open>
  JSON values as Go decodes them into \<open>interface{}\<close>, and the decoder \<open>json.Unmarshal\<close> on documents
  of ASCII text: numbers are rationals where the library has \<open>float64\<close>, an object is the list of
  its members (of a repeated key the last one counts), and a nil slice, which the evaluator of the compliance rules produces for an
  empty list, is a value of its own. Also the encoder of the structures of the host snapshot.
\<close>

datatype json =
    JNull
  | JBool bool
  | JNum rat
  | JStr string
  | JArr "json list"
  | JNilArr
  | JObj "(string \<times> json) list"

section \<open>The decoder\<close>

fun skip_ws :: "string \<Rightarrow> string" where
  "skip_ws [] = []"
| "skip_ws (c # s) = (if c = CHR '' '' \<or> c = CHR 0x09 \<or> c = CHR 0x0A \<or> c = CHR 0x0D then skip_ws s else c # s)"

definition hex_val :: "char \<Rightarrow> nat option" where
  "hex_val c = (let n = (of_char c :: nat) in
     if 48 \<le> n \<and> n \<le> 57 then Some (n - 48)
     else if 65 \<le> n \<and> n \<le> 70 then Some (n - 55)
     else if 97 \<le> n \<and> n \<le> 102 then Some (n - 87) else None)"

definition utf8 :: "nat \<Rightarrow> string" where
  "utf8 n = (if n < 128 then [char_of n]
     else if n < 2048 then [char_of (192 + n div 64), char_of (128 + n mod 64)]
     else [char_of (224 + n div 4096), char_of (128 + n div 64 mod 64), char_of (128 + n mod 64)])"

definition unescape :: "char \<Rightarrow> char option" where
  "unescape c =
     (if c = CHR 0x22 \<or> c = CHR 0x5C \<or> c = CHR ''/'' then Some c
      else if c = CHR ''b'' then Some (CHR 0x08) else if c = CHR ''f'' then Some (CHR 0x0C)
      else if c = CHR ''n'' then Some (CHR 0x0A) else if c = CHR ''r'' then Some (CHR 0x0D)
      else if c = CHR ''t'' then Some (CHR 0x09) else None)"

text \<open>The rest of a string after its opening quote: its contents and what follows.\<close>

fun parse_string :: "string \<Rightarrow> (string \<times> string) option" where
  "parse_string [] = None"
| "parse_string (c # s) =
     (if c = CHR 0x22 then Some ([], s)
      else if c = CHR 0x5C then
        (case s of
           [] \<Rightarrow> None
         | e # s' \<Rightarrow>
             if e = CHR ''u'' then
               (case s' of
                  h1 # h2 # h3 # h4 # s'' \<Rightarrow>
                    (case (hex_val h1, hex_val h2, hex_val h3, hex_val h4) of
                       (Some a, Some b, Some x, Some d) \<Rightarrow>
                         map_option (\<lambda>(w, r). (utf8 (4096 * a + 256 * b + 16 * x + d) @ w, r)) (parse_string s'')
                     | _ \<Rightarrow> None)
                | _ \<Rightarrow> None)
             else (case unescape e of None \<Rightarrow> None
                   | Some u \<Rightarrow> map_option (\<lambda>(w, r). (u # w, r)) (parse_string s')))
      else if (of_char c :: nat) < 32 then None
      else map_option (\<lambda>(w, r). (c # w, r)) (parse_string s))"

definition digits :: "string \<Rightarrow> string \<times> string" where
  "digits s = (takeWhile is_digit s, dropWhile is_digit s)"

definition power10 :: "int \<Rightarrow> rat" where
  "power10 e = (if e < 0 then 1 / 10 ^ nat (- e) else 10 ^ nat e)"

text \<open>A number without its sign: integer part without superfluous zero, fraction, exponent.\<close>

definition parse_number :: "string \<Rightarrow> (rat \<times> string) option" where
  "parse_number s =
     (let (ip, r) = digits s in
      if ip = [] \<or> (hd ip = CHR ''0'' \<and> tl ip \<noteq> []) then None
      else
        (let (fp, r, ok) = (case r of
                c # r' \<Rightarrow> if c = CHR ''.'' then (let (f, r'') = digits r' in (f, r'', f \<noteq> [])) else ([], r, True)
              | [] \<Rightarrow> ([], r, True));
             mantissa = (of_nat (undec (ip @ fp)) :: rat) * power10 (- int (length fp))
         in if \<not> ok then None
            else (case r of
                    c # r' \<Rightarrow>
                      if c = CHR ''e'' \<or> c = CHR ''E'' then
                        (let (neg, r'') = (case r' of
                               d # t \<Rightarrow> if d = CHR ''-'' then (True, t) else if d = CHR ''+'' then (False, t) else (False, r')
                             | [] \<Rightarrow> (False, r'));
                             (ex, r3) = digits r'';
                             e = int (undec ex)
                         in if ex = [] then None else Some (mantissa * power10 (if neg then - e else e), r3))
                      else Some (mantissa, r)
                  | [] \<Rightarrow> Some (mantissa, r))))"

definition keyword :: "string \<Rightarrow> json \<Rightarrow> string \<Rightarrow> (json \<times> string) option" where
  "keyword w v s = (if has_prefix s w then Some (v, drop (length w) s) else None)"

text \<open>Members of an object: a later one of the same key replaces the earlier.\<close>

definition put_member :: "string \<Rightarrow> json \<Rightarrow> (string \<times> json) list \<Rightarrow> (string \<times> json) list" where
  "put_member k v kvs = filter (\<lambda>p. fst p \<noteq> k) kvs @ [(k, v)]"

text \<open>Each call is paid for by one element of the first list; a document needs no more than twice its length.\<close>

fun parse_value :: "string \<Rightarrow> string \<Rightarrow> (json \<times> string) option"
  and parse_items :: "string \<Rightarrow> json list \<Rightarrow> string \<Rightarrow> (json \<times> string) option"
  and parse_members :: "string \<Rightarrow> (string \<times> json) list \<Rightarrow> string \<Rightarrow> (json \<times> string) option" where
  "parse_value [] s = None"
| "parse_value (_ # fuel) s =
     (case skip_ws s of
        [] \<Rightarrow> None
      | c # r \<Rightarrow>
          if c = CHR 0x22 then map_option (\<lambda>(w, r). (JStr w, r)) (parse_string r)
          else if c = CHR ''['' then
            (case skip_ws r of
               [] \<Rightarrow> None
             | d # r' \<Rightarrow> if d = CHR '']'' then Some (JArr [], r') else parse_items fuel [] (d # r'))
          else if c = CHR ''{'' then
            (case skip_ws r of
               [] \<Rightarrow> None
             | d # r' \<Rightarrow> if d = CHR ''}'' then Some (JObj [], r') else parse_members fuel [] (d # r'))
          else if c = CHR ''t'' then keyword ''true'' (JBool True) (c # r)
          else if c = CHR ''f'' then keyword ''false'' (JBool False) (c # r)
          else if c = CHR ''n'' then keyword ''null'' JNull (c # r)
          else if c = CHR ''-'' then map_option (\<lambda>(n, r). (JNum (- n), r)) (parse_number r)
          else map_option (\<lambda>(n, r). (JNum n, r)) (parse_number (c # r)))"
| "parse_items [] acc s = None"
| "parse_items (_ # fuel) acc s =
     (case parse_value fuel s of
        None \<Rightarrow> None
      | Some (v, r) \<Rightarrow>
          (case skip_ws r of
             [] \<Rightarrow> None
           | c # r' \<Rightarrow>
               if c = CHR '','' then parse_items fuel (acc @ [v]) r'
               else if c = CHR '']'' then Some (JArr (acc @ [v]), r') else None))"
| "parse_members [] acc s = None"
| "parse_members (_ # fuel) acc s =
     (case skip_ws s of
        [] \<Rightarrow> None
      | q # r0 \<Rightarrow>
          if q \<noteq> CHR 0x22 then None
          else
            (case parse_string r0 of
               None \<Rightarrow> None
             | Some (k, r) \<Rightarrow>
                 (case skip_ws r of
                    [] \<Rightarrow> None
                  | c # r1 \<Rightarrow>
                      if c \<noteq> CHR '':'' then None
                      else
                        (case parse_value fuel r1 of
                           None \<Rightarrow> None
                         | Some (v, r2) \<Rightarrow>
                             (case skip_ws r2 of
                                [] \<Rightarrow> None
                              | d # r3 \<Rightarrow>
                                  if d = CHR '','' then parse_members fuel (put_member k v acc) r3
                                  else if d = CHR ''}'' then Some (JObj (put_member k v acc), r3) else None)))))"

definition unmarshal :: "string \<Rightarrow> json option" where
  "unmarshal s =
     (case parse_value (s @ s) s of
        None \<Rightarrow> None
      | Some (v, r) \<Rightarrow> if skip_ws r = [] then Some v else None)"

lemma unmarshal_example:
  "unmarshal ''{\"<=\": [{\"var\": \"a.b\"}, -7.50e1, [], null]}'' =
     Some (JObj [(''<='', JArr [JObj [(''var'', JStr ''a.b'')], JNum (- 75), JArr [], JNull])])"
  by code_simp

end
