(* ===== verification/FleetTypes.thy ===== *)
theory FleetTypes
  imports Snapshot Json
begin

text \<open>
  The data of the fleet repository (\<open>api/internal/models/models.go\<close>): endpoints and their inventories, scan jobs,
  gateways, credentials, audit entries, snapshots and the retention requests and results. A free-form Go map is the list of
  its members (a nil map the empty list), a pointer field an option, a nil slice the empty list.
\<close>

type_synonym details = "(string \<times> json) list"

record Endpoint =
  EP_ID :: string
  EP_Hostname :: string
  EP_Domain :: string
  EP_IPAddress :: string
  EP_MACAddress :: string
  EP_OSName :: string
  EP_OSBuild :: string
  EP_SerialNumber :: string
  EP_Manufacturer :: string
  EP_Model :: string
  EP_ChassisType :: string
  EP_Status :: string
  EP_AgentlessProtocol :: string
  EP_ComplianceScore :: rat
  EP_RolloutTier :: string
  EP_OrganizationalUnit :: string
  EP_SubnetCIDR :: string
  EP_TierPromotedAt :: "time option"
  EP_TierPromotedBy :: string
  EP_TierPromotionReason :: string
  EP_LastScannedAt :: "time option"
  EP_CreatedAt :: time
  EP_UpdatedAt :: time

record HardwareInventory =
  HI_ID :: string
  HI_EndpointID :: string
  HI_CPUDetails :: details
  HI_MemoryDetails :: details
  HI_StorageDetails :: details
  HI_NetworkDetails :: details
  HI_BIOSDetails :: details
  HI_TPMDetails :: details
  HI_CreatedAt :: time
  HI_UpdatedAt :: time

record SecurityPosture =
  SPO_ID :: string
  SPO_EndpointID :: string
  SPO_BitLockerStatus :: details
  SPO_DefenderStatus :: details
  SPO_FirewallStatus :: details
  SPO_UACStatus :: details
  SPO_RebootPending :: details
  SPO_CutoverReadiness :: details
  SPO_Hotfixes :: "details list"
  SPO_LocalAdmins :: "string list"
  SPO_CreatedAt :: time
  SPO_UpdatedAt :: time

record CISResult =
  CIR_ID :: string
  CIR_EndpointID :: string
  CIR_BenchmarkName :: string
  CIR_BenchmarkLevel :: string
  CIR_RuleID :: string
  CIR_RuleTitle :: string
  CIR_Category :: string
  CIR_Status :: string
  CIR_ActualValue :: string
  CIR_ExpectedValue :: string
  CIR_Rationale :: string
  CIR_RemediationScript :: string
  CIR_EvaluatedAt :: time

record EndpointDetail =
  EDT_Endpoint :: Endpoint
  EDT_Hardware :: HardwareInventory
  EDT_SecurityPosture :: SecurityPosture
  EDT_CISResults :: "CISResult list"

record ScanJob =
  SJ_ID :: string
  SJ_Name :: string
  SJ_TargetCIDR :: string
  SJ_ScanProfile :: string
  SJ_Protocol :: string
  SJ_VaultSecretRef :: string
  SJ_GatewayID :: string
  SJ_Status :: string
  SJ_TotalHosts :: int
  SJ_ScannedHosts :: int
  SJ_CompliantHosts :: int
  SJ_FailedHosts :: int
  SJ_Logs :: "string list"
  SJ_StartedAt :: "time option"
  SJ_CompletedAt :: "time option"
  SJ_CreatedAt :: time

record CollectorGateway =
  CG_ID :: string
  CG_GatewayCode :: string
  CG_Name :: string
  CG_SubnetCIDR :: string
  CG_MTLSCertFingerprint :: string
  CG_Status :: string
  CG_Version :: string
  CG_LatencyMs :: int
  CG_LastHeartbeatAt :: time
  CG_CreatedAt :: time

record NetworkSubnet =
  NSU_ID :: string
  NSU_SubnetCIDR :: string
  NSU_Name :: string
  NSU_Location :: string
  NSU_AssignedGatewayCode :: string
  NSU_GatewayName :: string
  NSU_GatewayStatus :: string
  NSU_GatewayLatencyMs :: int
  NSU_HostCount :: int
  NSU_OnlineCount :: int
  NSU_CompliantCount :: int
  NSU_AllowInsecureHTTP :: bool
  NSU_TransportProtocol :: string
  NSU_LastScanAt :: string

record VaultCredentialSummary =
  VCS_ID :: string
  VCS_OpaqueID :: string
  VCS_Name :: string
  VCS_CredentialType :: string
  VCS_DomainOrHost :: string
  VCS_Username :: string
  VCS_CreatedAt :: time
  VCS_UpdatedAt :: time

record CreateVaultCredentialRequest =
  CVR_Name :: string
  CVR_CredentialType :: string
  CVR_DomainOrHost :: string
  CVR_Username :: string
  CVR_SecretValue :: string

record CreateScanJobRequest =
  CSJ_Name :: string
  CSJ_TargetCIDR :: string
  CSJ_ScanProfile :: string
  CSJ_Protocol :: string
  CSJ_VaultSecretRef :: string
  CSJ_GatewayID :: string

record SecurityAuditLog =
  SAL_ID :: string
  SAL_CorrelationID :: string
  SAL_Timestamp :: time
  SAL_Actor :: string
  SAL_Action :: string
  SAL_ResourceType :: string
  SAL_ResourceID :: string
  SAL_Status :: string
  SAL_IPAddress :: string
  SAL_Details :: details

record FleetMetrics =
  FM_TotalEndpoints :: int
  FM_OnlineEndpoints :: int
  FM_BitLockerRate :: rat
  FM_TPMRate :: rat
  FM_DefenderRate :: rat
  FM_AverageCompliance :: rat
  FM_ActiveGateways :: int
  FM_TotalGateways :: int
  FM_CriticalIssuesCount :: int

record HostSnapshotEntry =
  HSE_ID :: string
  HSE_TenantID :: string
  HSE_HostID :: string
  HSE_Hostname :: string
  HSE_ScanJobID :: string
  HSE_PayloadHash :: string
  HSE_Payload :: HostSnapshotPayload
  HSE_IsArchived :: bool
  HSE_ArchivedAt :: "time option"
  HSE_ArchiveLocation :: string
  HSE_ArchiveChecksum :: string
  HSE_ArchiveStrategy :: string
  HSE_IsDownsampleRetained :: bool
  HSE_PayloadSizeBytes :: int
  HSE_CreatedAt :: time

record SnapshotRetentionPolicy =
  SRP_RetentionDays :: int
  SRP_Strategy :: string
  SRP_ColdStoragePath :: string
  SRP_KeepWeeklyIntervalDays :: int
  SRP_IsEnabled :: bool
  SRP_LastRunAt :: "time option"
  SRP_LastRunStatus :: string
  SRP_LastReclaimedBytes :: int
  SRP_UpdatedAt :: time
  SRP_UpdatedBy :: string

record SnapshotArchiveSummary =
  SAS_SnapshotID :: string
  SAS_HostID :: string
  SAS_Hostname :: string
  SAS_CapturedAt :: time
  SAS_PayloadSizeBytes :: int
  SAS_Action :: string
  SAS_TargetLocation :: string

record SnapshotRetentionDryRun =
  SRD_RetentionDays :: int
  SRD_Strategy :: string
  SRD_CutoffDate :: time
  SRD_TotalSnapshotsEvaluated :: int
  SRD_SnapshotsEligibleForAction :: int
  SRD_SnapshotsToArchive :: int
  SRD_SnapshotsToPrune :: int
  SRD_SnapshotsWeeklyRetained :: int
  SRD_EstimatedReclaimedBytes :: int
  SRD_EstimatedStorageSavedMB :: rat
  SRD_AffectedEndpointsCount :: int
  SRD_AffectedEndpoints :: "string list"
  SRD_SampleSnapshots :: "SnapshotArchiveSummary list"
  SRD_PreservedDerivedRecordsNotice :: string
  SRD_DryRunGeneratedAt :: time

record SnapshotRetentionExecuteRequest =
  RXQ_RetentionDays :: int
  RXQ_Strategy :: string
  RXQ_ColdStoragePath :: string
  RXQ_DryRun :: bool
  RXQ_Justification :: string

record SnapshotRetentionExecuteResult =
  RXR_ExecutionID :: string
  RXR_Strategy :: string
  RXR_RetentionDays :: int
  RXR_CutoffDate :: time
  RXR_SnapshotsProcessed :: int
  RXR_SnapshotsArchived :: int
  RXR_SnapshotsDownsampled :: int
  RXR_SnapshotsWeeklyRetained :: int
  RXR_ReclaimedBytes :: int
  RXR_StorageSavedMB :: rat
  RXR_ArchiveDirectory :: string
  RXR_DurationMs :: int
  RXR_Status :: string
  RXR_ExecutedAt :: time
  RXR_ExecutedBy :: string
  RXR_AuditLogID :: string

record PilotHealthSummary =
  PHS_TotalPilotHosts :: int
  PHS_OnlinePilotHosts :: int
  PHS_ScanSuccessRate :: rat
  PHS_AuthFailureCount :: int
  PHS_LockoutRiskCount :: int
  PHS_EDRAlertCorrelationCount :: int
  PHS_AverageScanDurationMs :: int
  PHS_AverageComplianceScore :: rat
  PHS_PilotHosts :: "Endpoint list"

record PromoteTierRequest =
  PTR_TargetTier :: string
  PTR_Justification :: string
  PTR_EndpointIDs :: "string list"
  PTR_SubnetCIDR :: string
  PTR_OrganizationalUnit :: string

record BulkAssignTierRequest =
  BAT_RolloutTier :: string
  BAT_Justification :: string
  BAT_SubnetCIDR :: string
  BAT_OrganizationalUnit :: string
  BAT_EndpointIDs :: "string list"

record RolloutSettings =
  ROS_ActiveTiers :: "string list"
  ROS_ScheduleEnforceTiers :: bool
  ROS_UpdatedAt :: time
  ROS_UpdatedBy :: string

record AlertHealthStatus =
  AHS_LastTestAlertAt :: "time option"
  AHS_LastTestAlertStatus :: string
  AHS_LastTestAlertOperator :: string
  AHS_LastTestAlertTargetURL :: string
  AHS_LastTestAlertReceipt :: string
  AHS_TestAlertLapseDays :: int
  AHS_TestAlertLapsed :: bool
  AHS_ConfiguredWebhookCount :: int
  AHS_ActiveAlertRulesCount :: int

section \<open>Zero values\<close>

text \<open>\<open>models.HostSnapshotPayload{}\<close>, what is left of a snapshot once its payload has been cleared.\<close>

definition zero_payload :: HostSnapshotPayload where
  "zero_payload =
     \<lparr>HS_AuditMetadata = \<lparr>SAM_EngineVersion = [], SAM_TimestampUTC = [], SAM_ScanProtocol = [], SAM_TargetHost = []\<rparr>,
      HS_SystemIdentity = \<lparr>SSI_Hostname = [], SSI_Domain = None, SSI_Manufacturer = [], SSI_Model = [], SSI_SystemType = None, SSI_ChassisType = [], SSI_OSName = [], SSI_OSVersion = [], SSI_OSBuild = [], SSI_OSArchitecture = None, SSI_SerialNumber = None, SSI_InstallDate = None, SSI_LastBootTime = None\<rparr>,
      HS_FirmwareBios = \<lparr>SFB_MotherboardSerial = None, SFB_MotherboardManufacturer = None, SFB_MotherboardProduct = None, SFB_Vendor = [], SFB_Version = [], SFB_ReleaseDate = None, SFB_SMBIOSVersion = None, SFB_SMBIOSGUID = None, SFB_SecureBootEnabled = False, SFB_UEFIMode = False\<rparr>,
      HS_Processor = \<lparr>SPR_Models = [], SPR_SocketCount = 0, SPR_TotalCores = 0, SPR_TotalThreads = 0, SPR_VirtualizationFirmwareEnabled = None, SPR_VBSStatus = None, SPR_HVCIStatus = None, SPR_Processors = []\<rparr>,
      HS_Memory = \<lparr>SME_TotalCapacityBytes = 0, SME_SlotsUsed = 0, SME_TotalSlots = 0, SME_DIMMs = []\<rparr>,
      HS_Storage = \<lparr>SST_DiskCount = 0, SST_Disks = [], SST_Partitions = []\<rparr>,
      HS_TPM = \<lparr>STP_Present = False, STP_SpecVersion = None, STP_ManufacturerID = None, STP_ManufacturerVersion = None, STP_IsEnabled = None, STP_IsActivated = None, STP_IsOwned = None, STP_PCRBanks = []\<rparr>,
      HS_Network = \<lparr>SNW_Adapters = []\<rparr>,
      HS_Peripherals = \<lparr>SPH_VideoControllers = [], SPH_USBDevices = [], SPH_Monitors = []\<rparr>,
      HS_Software = \<lparr>SSW_Applications = [], SSW_Hotfixes = []\<rparr>,
      HS_SecurityBaseline = \<lparr>SSB_BitLocker = \<lparr>SBI_Volumes = []\<rparr>, SSB_Defender = \<lparr>SDF_RealTimeProtectionEnabled = None, SDF_AntivirusEnabled = None, SDF_AntispywareEnabled = None, SDF_BehaviorMonitorEnabled = None, SDF_IoavProtectionEnabled = None, SDF_TamperProtectionEnabled = None, SDF_AntivirusSignatureVersion = None, SDF_AntivirusEngineVersion = None, SDF_QuickScanAgeDays = None\<rparr>, SSB_FirewallProfiles = \<lparr>SFS_Domain = \<lparr>SFP_Enabled = False, SFP_DefaultInbound = [], SFP_DefaultOutbound = []\<rparr>, SFS_Private = \<lparr>SFP_Enabled = False, SFP_DefaultInbound = [], SFP_DefaultOutbound = []\<rparr>, SFS_Public = \<lparr>SFP_Enabled = False, SFP_DefaultInbound = [], SFP_DefaultOutbound = []\<rparr>\<rparr>, SSB_SMB1Enabled = False, SSB_LSAProtectionEnabled = False, SSB_CredentialGuardRunning = False\<rparr>,
      HS_UserAccess = \<lparr>SUA_LocalAdministrators = [], SUA_RemoteDesktopUsers = [], SUA_PrivilegedGroups = [], SUA_DormantProfiles = [], SUA_GuestAccountDisabled = None\<rparr>\<rparr>"

definition zero_hardware_of :: "string \<Rightarrow> HardwareInventory" where
  "zero_hardware_of i = \<lparr>HI_ID = [], HI_EndpointID = i, HI_CPUDetails = [], HI_MemoryDetails = [], HI_StorageDetails = [],
     HI_NetworkDetails = [], HI_BIOSDetails = [], HI_TPMDetails = [], HI_CreatedAt = zero_time, HI_UpdatedAt = zero_time\<rparr>"

definition zero_posture_of :: "string \<Rightarrow> SecurityPosture" where
  "zero_posture_of i = \<lparr>SPO_ID = [], SPO_EndpointID = i, SPO_BitLockerStatus = [], SPO_DefenderStatus = [],
     SPO_FirewallStatus = [], SPO_UACStatus = [], SPO_RebootPending = [], SPO_CutoverReadiness = [], SPO_Hotfixes = [],
     SPO_LocalAdmins = [], SPO_CreatedAt = zero_time, SPO_UpdatedAt = zero_time\<rparr>"

end
