(* ===== verification/Base64.thy ===== *)
theory Base64
  imports GoBase
begin

text \<open>
  \<open>base64.RawURLEncoding\<close> of the standard library (URL alphabet, no padding), as the token
  service and the keyset cursors use it. The decoder skips carriage returns and line feeds, does
  not look at the unused low bits of a short last group, and fails on any other byte outside the
  alphabet and on a single left-over character, like Go's.
\<close>

definition b64char :: "nat \<Rightarrow> char" where
  "b64char n = (if n < 26 then char_of (65 + n) else if n < 52 then char_of (71 + n)
     else if n < 62 then char_of (n - 4) else if n = 62 then CHR ''-'' else CHR ''_'')"

definition b64val :: "char \<Rightarrow> nat option" where
  "b64val c = (let n = (of_char c :: nat) in
     if 65 \<le> n \<and> n \<le> 90 then Some (n - 65)
     else if 97 \<le> n \<and> n \<le> 122 then Some (n - 71)
     else if 48 \<le> n \<and> n \<le> 57 then Some (n + 4)
     else if c = CHR ''-'' then Some 62 else if c = CHR ''_'' then Some 63 else None)"

lemma b64val_b64char [simp]: "n < 64 \<Longrightarrow> b64val (b64char n) = Some n"
  by (auto simp: b64char_def b64val_def Let_def)

lemma b64char_alphabet:
  assumes "n < 64"
  shows "b64char n \<noteq> CHR ''.''" "b64char n \<noteq> CHR 0x0A" "b64char n \<noteq> CHR 0x0D"
proof -
  have "b64val (b64char n) \<noteq> None" using assms by simp
  then show "b64char n \<noteq> CHR ''.''" "b64char n \<noteq> CHR 0x0A" "b64char n \<noteq> CHR 0x0D"
    by (auto simp: b64val_def)
qed

fun b64encode_vals :: "nat list \<Rightarrow> nat list" where
  "b64encode_vals [] = []"
| "b64encode_vals [a] = [a div 4, a mod 4 * 16]"
| "b64encode_vals [a, b] = [a div 4, a mod 4 * 16 + b div 16, b mod 16 * 4]"
| "b64encode_vals (a # b # c # r) =
     a div 4 # (a mod 4 * 16 + b div 16) # (b mod 16 * 4 + c div 64) # c mod 64 # b64encode_vals r"

fun b64decode_vals :: "nat list \<Rightarrow> nat list option" where
  "b64decode_vals [] = Some []"
| "b64decode_vals [_] = None"
| "b64decode_vals [x, y] = Some [x * 4 + y div 16]"
| "b64decode_vals [x, y, z] = Some [x * 4 + y div 16, y mod 16 * 16 + z div 4]"
| "b64decode_vals (x # y # z # w # r) =
     map_option (\<lambda>bs. (x * 4 + y div 16) # (y mod 16 * 16 + z div 4) # (z mod 4 * 64 + w) # bs)
       (b64decode_vals r)"

definition b64encode :: "string \<Rightarrow> string" where
  "b64encode s = map b64char (b64encode_vals (map of_char s))"

definition b64decode :: "string \<Rightarrow> string option" where
  "b64decode s =
     (case those (map b64val (filter (\<lambda>c. c \<noteq> CHR 0x0A \<and> c \<noteq> CHR 0x0D) s)) of
        None \<Rightarrow> None
      | Some vs \<Rightarrow> map_option (map char_of) (b64decode_vals vs))"

lemma b64encode_vals_bound:
  "\<forall>b \<in> set bs. b < 256 \<Longrightarrow> v \<in> set (b64encode_vals bs) \<Longrightarrow> v < 64"
proof (induction bs rule: b64encode_vals.induct)
  case (4 a b c r)
  have "a mod 4 * 16 + b div 16 < 64" "b mod 16 * 4 + c div 64 < 64" using "4.prems" by auto
  with 4 show ?case by auto
qed auto

lemma div_mod_glue: "(a :: nat) div 4 * 4 + (a mod 4 * 16 + x) div 16 = a" if "x < 16"
  using that by (simp add: div_mult_mod_eq)

lemma b64decode_encode_vals:
  "\<forall>b \<in> set bs. b < 256 \<Longrightarrow> b64decode_vals (b64encode_vals bs) = Some bs"
proof (induction bs rule: b64encode_vals.induct)
  case (4 a b c r)
  have "b div 16 < 16" "c div 64 < 4" using "4.prems" by auto
  then have "(b mod 16 * 4 + c div 64) div 4 = b mod 16"
    "(b mod 16 * 4 + c div 64) mod 4 = c div 64"
    "(a mod 4 * 16 + b div 16) div 16 = a mod 4" "(a mod 4 * 16 + b div 16) mod 16 = b div 16"
    by simp_all
  with 4 show ?case by simp
next
  case (3 a b)
  then have "b div 16 < 16" by auto
  then have "(a mod 4 * 16 + b div 16) div 16 = a mod 4" "(a mod 4 * 16 + b div 16) mod 16 = b div 16"
    by simp_all
  then show ?case by simp
qed auto

lemma those_map_Some: "(\<And>x. x \<in> set xs \<Longrightarrow> f x = Some (g x)) \<Longrightarrow> those (map f xs) = Some (map g xs)"
  by (induction xs) auto

lemma b64encode_alphabet: "c \<in> set (b64encode s) \<Longrightarrow> c \<noteq> CHR ''.'' \<and> c \<noteq> CHR 0x0A \<and> c \<noteq> CHR 0x0D"
proof -
  assume "c \<in> set (b64encode s)"
  then obtain v where v: "v \<in> set (b64encode_vals (map of_char s))" and c: "c = b64char v"
    by (auto simp: b64encode_def)
  have "\<forall>b \<in> set (map of_char s). b < (256 :: nat)" by auto
  then have "v < 64" using v by (rule b64encode_vals_bound)
  then show ?thesis unfolding c by (simp add: b64char_alphabet)
qed

lemma no_dot_b64encode [simp]: "CHR ''.'' \<notin> set (b64encode s)"
  using b64encode_alphabet by blast

lemma b64decode_encode [simp]: "b64decode (b64encode s) = Some s"
proof -
  let ?v = "b64encode_vals (map of_char s)"
  have b: "\<forall>v \<in> set ?v. v < 64" using b64encode_vals_bound [of "map of_char s"] by auto
  have "filter (\<lambda>c. c \<noteq> CHR 0x0A \<and> c \<noteq> CHR 0x0D) (b64encode s) = b64encode s"
    using b64encode_alphabet by (simp add: filter_id_conv)
  moreover have "those (map b64val (b64encode s)) = Some ?v"
    using those_map_Some [of ?v "b64val \<circ> b64char" "\<lambda>x. x"] b by (simp add: b64encode_def)
  moreover have "b64decode_vals ?v = Some (map of_char s)"
    by (rule b64decode_encode_vals) auto
  ultimately show ?thesis by (simp add: b64decode_def comp_def)
qed

lemma b64encode_inj [simp]: "b64encode s = b64encode t \<longleftrightarrow> s = t"
  by (metis b64decode_encode option.inject)

lemma b64encode_Nil [simp]: "b64encode s = [] \<longleftrightarrow> s = []"
  by (metis b64encode_inj b64encode_def b64encode_vals.simps(1) list.simps(8))

section \<open>Standard base64\<close>

text \<open>\<open>base64.StdEncoding\<close>: the URL alphabet with two other letters, padded; the decoder skips line breaks.\<close>

definition std_char :: "char \<Rightarrow> char" where
  "std_char c = (if c = CHR ''-'' then CHR ''+'' else if c = CHR ''_'' then CHR ''/'' else c)"

definition url_char :: "char \<Rightarrow> char" where
  "url_char c = (if c = CHR ''+'' then CHR ''-'' else if c = CHR ''/'' then CHR ''_'' else c)"

definition b64std_encode :: "string \<Rightarrow> string" where
  "b64std_encode s = (let t = b64encode s in map std_char t @ replicate ((4 - length t mod 4) mod 4) (CHR ''=''))"

definition b64std_decode :: "string \<Rightarrow> string option" where
  "b64std_decode s =
     (let t = filter (\<lambda>c. c \<noteq> CHR 0x0A \<and> c \<noteq> CHR 0x0D) s;
          body = takeWhile (\<lambda>c. c \<noteq> CHR ''='') t; padding = dropWhile (\<lambda>c. c \<noteq> CHR ''='') t
      in if length t mod 4 \<noteq> 0 \<or> 2 < length padding \<or> (\<exists>c \<in> set padding. c \<noteq> CHR ''='')
            \<or> CHR ''-'' \<in> set body \<or> CHR ''_'' \<in> set body then None
         else b64decode (map url_char body))"

lemma b64encode_val: "c \<in> set (b64encode s) \<Longrightarrow> b64val c \<noteq> None"
proof -
  assume "c \<in> set (b64encode s)"
  then obtain v where v: "v \<in> set (b64encode_vals (map of_char s))" and c: "c = b64char v"
    by (auto simp: b64encode_def)
  have "\<forall>b \<in> set (map of_char s). b < (256 :: nat)" by auto
  then have "v < 64" using v by (rule b64encode_vals_bound)
  then show ?thesis unfolding c by simp
qed

lemma b64val_others:
  "b64val (CHR ''='') = None" "b64val (CHR ''+'') = None" "b64val (CHR ''/'') = None"
  "b64val (CHR 0x0A) = None" "b64val (CHR 0x0D) = None"
  by (simp_all add: b64val_def)

lemma std_url_char:
  assumes "c \<in> set (b64encode s)"
  shows "url_char (std_char c) = c" "std_char c \<noteq> CHR ''=''" "std_char c \<noteq> CHR ''-''" "std_char c \<noteq> CHR ''_''"
    "std_char c \<noteq> CHR 0x0A" "std_char c \<noteq> CHR 0x0D"
proof -
  have v: "c \<noteq> CHR ''=''" "c \<noteq> CHR ''+''" "c \<noteq> CHR ''/''" "c \<noteq> CHR 0x0A" "c \<noteq> CHR 0x0D"
    using b64encode_val [OF assms] by (auto simp: b64val_others)
  show "url_char (std_char c) = c" using v by (simp add: url_char_def std_char_def)
  show "std_char c \<noteq> CHR ''=''" "std_char c \<noteq> CHR ''-''" "std_char c \<noteq> CHR ''_''"
    "std_char c \<noteq> CHR 0x0A" "std_char c \<noteq> CHR 0x0D"
    using v by (auto simp: std_char_def)
qed

lemma length_b64encode_vals: "length (b64encode_vals xs) mod 4 \<noteq> 1"
  by (induction xs rule: b64encode_vals.induct) (simp_all add: mod_simps)

lemma pad_multiple: "((m :: nat) + (4 - m mod 4) mod 4) mod 4 = 0"
proof -
  have "m mod 4 = 0 \<or> m mod 4 = 1 \<or> m mod 4 = 2 \<or> m mod 4 = 3" by linarith
  then have "(m mod 4 + (4 - m mod 4) mod 4) mod 4 = 0" by (elim disjE) simp_all
  then show ?thesis by (simp only: mod_add_left_eq)
qed

lemma pad_at_most_two:
  assumes "(m :: nat) mod 4 \<noteq> 1"
  shows "\<not> 2 < (4 - m mod 4) mod 4"
proof -
  have "m mod 4 = 0 \<or> m mod 4 = 2 \<or> m mod 4 = 3" using assms by linarith
  then show ?thesis by (elim disjE) simp_all
qed

lemma b64std_decode_encode [simp]: "b64std_decode (b64std_encode s) = Some s"
proof -
  let ?t = "b64encode s"
  let ?n = "(4 - length ?t mod 4) mod 4"
  let ?e = "map std_char ?t @ replicate ?n (CHR ''='')"
  have m: "length ?t mod 4 \<noteq> 1" using length_b64encode_vals [of "map of_char s"] by (simp add: b64encode_def)
  have f: "filter (\<lambda>c. c \<noteq> CHR 0x0A \<and> c \<noteq> CHR 0x0D) ?e = ?e"
    by (rule filter_True) (auto dest: std_url_char)
  have tw: "takeWhile (\<lambda>c. c \<noteq> CHR ''='') ?e = map std_char ?t" "dropWhile (\<lambda>c. c \<noteq> CHR ''='') ?e = replicate ?n (CHR ''='')"
    by (auto simp: takeWhile_append dropWhile_append dest: std_url_char)
  have l: "length ?e mod 4 = 0" using pad_multiple [of "length ?t"] by simp
  have n: "\<not> 2 < ?n" using m by (rule pad_at_most_two)
  have u: "map url_char (map std_char ?t) = ?t" by (simp add: map_idI std_url_char)
  have no: "CHR ''-'' \<notin> set (map std_char ?t)" "CHR ''_'' \<notin> set (map std_char ?t)" by (auto dest: std_url_char)
  show ?thesis unfolding b64std_encode_def b64std_decode_def Let_def f tw u using l n no by simp
qed

end
