(* ===== verification/Keyset.thy ===== *)
theory Keyset
  imports Base64
begin

text \<open>
  Keyset pagination (\<open>repository/keyset.go\<close>, and the listing code that \<open>ListSnapshotsKeyset\<close> and
  \<open>ListAuditLogsKeyset\<close> of \<open>repository/repository.go\<close> share): cursors, the exchange sort, the page after a
  cursor. The locale \<open>keyset\<close> is the contract of a listing: what its limits are and what its items are ordered by.
\<close>

section \<open>Cursors\<close>

record KeysetCursor =
  KC_CreatedAt :: time
  KC_ID :: string

record KeysetPageRequest =
  PQ_Cursor :: string
  PQ_Limit :: int

record 'a KeysetPageResponse =
  PR_Items :: "'a list"
  PR_NextCursor :: string
  PR_HasMore :: bool
  PR_Limit :: int

definition EncodeCursor :: "time \<Rightarrow> string \<Rightarrow> string" where
  "EncodeCursor t i = b64encode (dec_int (wrap64 t) @ ''|'' @ i)"

datatype cursor_error = InvalidBase64 | MalformedCursor | InvalidTimestamp

text \<open>\<open>fmt.Sscanf\<close> with \<open>%d\<close>: blanks are skipped (a line break is an error), then a sign and at least one digit are
  read; what follows is left alone.\<close>

fun skip_blanks :: "string \<Rightarrow> string option" where
  "skip_blanks [] = Some []"
| "skip_blanks (c # s) =
     (if c = CHR 0x0A \<or> (c = CHR 0x0D \<and> (case s of [] \<Rightarrow> False | d # _ \<Rightarrow> d = CHR 0x0A)) then None
      else if is_space c then skip_blanks s else Some (c # s))"

definition scan_digits :: "bool \<Rightarrow> string \<Rightarrow> int option" where
  "scan_digits neg s =
     (let ds = takeWhile is_digit s; n = (if neg then - int (undec ds) else int (undec ds))
      in if ds = [] \<or> \<not> fits64 n then None else Some n)"

definition scan_int64 :: "string \<Rightarrow> int option" where
  "scan_int64 s =
     (case skip_blanks s of
        None \<Rightarrow> None
      | Some [] \<Rightarrow> None
      | Some (c # r) \<Rightarrow>
          if c = CHR ''-'' then scan_digits True r
          else if c = CHR ''+'' then scan_digits False r
          else scan_digits False (c # r))"

text \<open>The empty string is no cursor and no error.\<close>

definition DecodeCursor :: "string \<Rightarrow> cursor_error + KeysetCursor option" where
  "DecodeCursor cursorStr =
     (if cursorStr = [] then Inr None
      else
        (case b64decode cursorStr of
           None \<Rightarrow> Inl InvalidBase64
         | Some bytes \<Rightarrow>
             (if CHR ''|'' \<notin> set bytes then Inl MalformedCursor
              else
                (case scan_int64 (takeWhile (\<lambda>c. c \<noteq> CHR ''|'') bytes) of
                   None \<Rightarrow> Inl InvalidTimestamp
                 | Some nanos \<Rightarrow>
                     Inr (Some \<lparr>KC_CreatedAt = nanos, KC_ID = tl (dropWhile (\<lambda>c. c \<noteq> CHR ''|'') bytes)\<rparr>)))))"

section \<open>The exchange sort\<close>

text \<open>The inner loop carries the item at the outer index: a later item that comes before it takes its place.\<close>

fun swap_pass :: "('a \<Rightarrow> 'a \<Rightarrow> bool) \<Rightarrow> 'a \<Rightarrow> 'a list \<Rightarrow> 'a \<times> 'a list" where
  "swap_pass before x [] = (x, [])"
| "swap_pass before x (y # ys) =
     (if before y x then (let (m, r) = swap_pass before y ys in (m, x # r))
      else (let (m, r) = swap_pass before x ys in (m, y # r)))"

lemma length_swap_pass [simp]: "length (snd (swap_pass before x ys)) = length ys"
  by (induction before x ys rule: swap_pass.induct) (simp_all add: split_beta)

function exchange_sort :: "('a \<Rightarrow> 'a \<Rightarrow> bool) \<Rightarrow> 'a list \<Rightarrow> 'a list" where
  "exchange_sort before [] = []"
| "exchange_sort before (x # xs) = fst (swap_pass before x xs) # exchange_sort before (snd (swap_pass before x xs))"
  by pat_completeness auto
termination by (relation "measure (length \<circ> snd)") auto

lemma mset_swap_pass: "add_mset (fst (swap_pass before x ys)) (mset (snd (swap_pass before x ys))) = add_mset x (mset ys)"
proof (induction before x ys rule: swap_pass.induct)
  case (2 before x y ys)
  then show ?case by (simp add: split_beta)
qed simp

lemma mset_exchange_sort [simp]: "mset (exchange_sort before xs) = mset xs"
proof (induction before xs rule: exchange_sort.induct)
  case (2 before x xs)
  then show ?case using mset_swap_pass [of before x xs] by simp
qed simp

lemma set_exchange_sort [simp]: "set (exchange_sort before xs) = set xs"
  by (rule mset_eq_setD [OF mset_exchange_sort])

lemma length_exchange_sort [simp]: "length (exchange_sort before xs) = length xs"
  by (rule mset_eq_length [OF mset_exchange_sort])

lemma distinct_exchange_sort [simp]: "distinct (exchange_sort before xs) = distinct xs"
  by (rule mset_eq_imp_distinct_iff [OF mset_exchange_sort])

section \<open>The order of a listing\<close>

text \<open>Newest first, then by descending identifier.\<close>

definition newer :: "('a \<Rightarrow> time \<times> string) \<Rightarrow> 'a \<Rightarrow> 'a \<Rightarrow> bool" where
  "newer key a b \<longleftrightarrow> fst (key a) > fst (key b) \<or> (fst (key a) = fst (key b) \<and> string_less (snd (key b)) (snd (key a)))"

lemma newer_irrefl [simp]: "\<not> newer key a a"
  by (simp add: newer_def)

lemma newer_trans: "newer key a b \<Longrightarrow> newer key b c \<Longrightarrow> newer key a c"
  unfolding newer_def using string_less_trans by (smt (verit))

lemma newer_linear: "newer key a b \<or> key a = key b \<or> newer key b a"
  using string_less_linear [of "snd (key a)" "snd (key b)"] by (auto simp: newer_def prod_eq_iff)

lemma newer_asym: "newer key a b \<Longrightarrow> \<not> newer key b a"
  using newer_trans [of key a b a] by auto

text \<open>The pass leaves in front an item that no other is newer than.\<close>

lemma swap_pass_front:
  "fst (swap_pass (newer key) x ys) = x \<or> newer key (fst (swap_pass (newer key) x ys)) x"
proof (induction ys arbitrary: x)
  case (Cons y ys)
  show ?case
  proof (cases "newer key y x")
    case True
    then have "newer key (fst (swap_pass (newer key) y ys)) x"
      using Cons [of y] by (elim disjE) (simp, rule newer_trans)
    with True show ?thesis by (simp add: split_beta)
  qed (use Cons [of x] in \<open>simp add: split_beta\<close>)
qed simp

lemma newer_front: "\<not> newer key w x \<Longrightarrow> \<not> newer key w (fst (swap_pass (newer key) x ys))"
  using swap_pass_front [of key x ys] newer_trans [of key w "fst (swap_pass (newer key) x ys)" x] by auto

lemma swap_pass_first:
  "z \<in> set (snd (swap_pass (newer key) x ys)) \<Longrightarrow> \<not> newer key z (fst (swap_pass (newer key) x ys))"
proof (induction ys arbitrary: x z)
  case (Cons y ys)
  show ?case
  proof (cases "newer key y x")
    case True
    then have "\<not> newer key x y" by (rule newer_asym)
    then show ?thesis using Cons True newer_front [of key x y ys] by (auto simp: split_beta)
  next
    case False
    then show ?thesis using Cons newer_front [of key y x ys] by (auto simp: split_beta)
  qed
qed simp

lemma sorted_exchange_sort: "sorted_wrt (\<lambda>a b. \<not> newer key b a) (exchange_sort (newer key) xs)"
proof (induction "newer key" xs rule: exchange_sort.induct)
  case (2 x xs)
  then show ?case using swap_pass_first by fastforce
qed simp

lemma sorted_wrt_distinct_key:
  "sorted_wrt P xs \<Longrightarrow> distinct (map key xs) \<Longrightarrow> sorted_wrt (\<lambda>a b. P a b \<and> key a \<noteq> key b) xs"
  by (induction xs) auto

lemma newest_first:
  assumes "distinct (map key xs)"
  shows "sorted_wrt (newer key) (exchange_sort (newer key) xs)"
proof -
  have "mset (map key (exchange_sort (newer key) xs)) = mset (map key xs)" by simp
  from mset_eq_imp_distinct_iff [OF this] assms
  have d: "distinct (map key (exchange_sort (newer key) xs))" by simp
  have n: "\<And>a b. \<not> newer key b a \<and> key a \<noteq> key b \<Longrightarrow> newer key a b" using newer_linear [of key] by blast
  show ?thesis
    by (rule sorted_wrt_mono_rel [OF n sorted_wrt_distinct_key [OF sorted_exchange_sort d]])
qed

section \<open>Cursors are read back\<close>

lemma is_digit_not_blank: "is_digit c \<Longrightarrow> \<not> is_space c \<and> c \<noteq> CHR 0x0A \<and> c \<noteq> CHR 0x0D \<and> c \<noteq> CHR ''-'' \<and> c \<noteq> CHR ''+'' \<and> c \<noteq> CHR ''|''"
  by (auto simp: is_digit_def is_space_def Let_def)

lemma scan_digits_dec_nat: "fits64 (if neg then - int n else int n) \<Longrightarrow> scan_digits neg (dec_nat n) = Some (if neg then - int n else int n)"
proof -
  have t: "takeWhile is_digit (dec_nat n) = dec_nat n" using dec_nat_digits [of _ n] by (intro takeWhile_eq_all_conv [THEN iffD2] ballI)
  show "fits64 (if neg then - int n else int n) \<Longrightarrow> ?thesis" by (auto simp: scan_digits_def undec_dec_nat Let_def t)
qed

lemma scan_int64_dec_int:
  assumes "fits64 i"
  shows "scan_int64 (dec_int i) = Some i"
proof (cases "i < 0")
  case True
  have b: "\<not> is_space (CHR ''-'')" by (simp add: is_space_def)
  show ?thesis using scan_digits_dec_nat [of True "nat (- i)"] assms True
    by (simp add: dec_int_def scan_int64_def b)
next
  case False
  obtain c s where d: "dec_nat (nat i) = c # s" by (cases "dec_nat (nat i)") auto
  then have "is_digit c" using dec_nat_digits [of c "nat i"] by simp
  note c = is_digit_not_blank [OF this]
  show ?thesis using scan_digits_dec_nat [of False "nat i"] assms False c
    by (simp add: dec_int_def scan_int64_def d)
qed

lemma dec_int_no_bar: "CHR ''|'' \<notin> set (dec_int i)"
  using dec_nat_digits is_digit_not_blank by (auto simp: dec_int_def)

lemma EncodeCursor_nonempty [simp]: "EncodeCursor t i \<noteq> []"
  by (simp add: EncodeCursor_def)

lemma DecodeCursor_EncodeCursor:
  assumes "fits64 t"
  shows "DecodeCursor (EncodeCursor t i) = Inr (Some \<lparr>KC_CreatedAt = t, KC_ID = i\<rparr>)"
proof -
  have n: "c \<noteq> CHR ''|''" if "c \<in> set (dec_int t)" for c using that dec_int_no_bar [of t] by auto
  have "takeWhile (\<lambda>c. c \<noteq> CHR ''|'') (dec_int t @ CHR ''|'' # i) = dec_int t"
    "dropWhile (\<lambda>c. c \<noteq> CHR ''|'') (dec_int t @ CHR ''|'' # i) = CHR ''|'' # i"
    using n by (simp_all add: takeWhile_append dropWhile_append)
  then show ?thesis using assms EncodeCursor_nonempty [of t i]
    by (simp add: DecodeCursor_def EncodeCursor_def scan_int64_dec_int wrap64_id del: b64encode_Nil)
qed

section \<open>A page\<close>

definition past :: "('a \<Rightarrow> time \<times> string) \<Rightarrow> KeysetCursor \<Rightarrow> 'a \<Rightarrow> bool" where
  "past key c x \<longleftrightarrow> fst (key x) < KC_CreatedAt c \<or> (fst (key x) = KC_CreatedAt c \<and> string_less (snd (key x)) (KC_ID c))"

text \<open>The index of the first item after the cursor; the variable keeps its initial 0 when there is none.\<close>

definition start_index :: "('a \<Rightarrow> time \<times> string) \<Rightarrow> KeysetCursor \<Rightarrow> 'a list \<Rightarrow> nat" where
  "start_index key c xs = (let i = length (takeWhile (\<lambda>x. \<not> past key c x) xs) in if i < length xs then i else 0)"

definition page_limit :: "int \<Rightarrow> int \<Rightarrow> int \<Rightarrow> int" where
  "page_limit dflt maxl limit = (if limit \<le> 0 then dflt else if limit > maxl then maxl else limit)"

definition page_start :: "('a \<Rightarrow> time \<times> string) \<Rightarrow> string \<Rightarrow> 'a list \<Rightarrow> nat" where
  "page_start key cursor all =
     (if cursor = [] then 0
      else (case DecodeCursor cursor of Inr (Some c) \<Rightarrow> start_index key c all | _ \<Rightarrow> 0))"

definition keyset_page :: "('a \<Rightarrow> time \<times> string) \<Rightarrow> int \<Rightarrow> int \<Rightarrow> 'a list \<Rightarrow> KeysetPageRequest \<Rightarrow> 'a KeysetPageResponse" where
  "keyset_page key dflt maxl unsorted req =
     (let all = exchange_sort (newer key) unsorted;
          startIndex = page_start key (PQ_Cursor req) all;
          limit = page_limit dflt maxl (PQ_Limit req);
          endIndex = startIndex + nat limit
      in if startIndex < length all then
           (if endIndex < length all then
              (let items = take (nat limit) (drop startIndex all); lastItem = last items
               in \<lparr>PR_Items = items, PR_NextCursor = EncodeCursor (fst (key lastItem)) (snd (key lastItem)),
                    PR_HasMore = True, PR_Limit = limit\<rparr>)
            else \<lparr>PR_Items = drop startIndex all, PR_NextCursor = [], PR_HasMore = False, PR_Limit = limit\<rparr>)
         else \<lparr>PR_Items = [], PR_NextCursor = [], PR_HasMore = False, PR_Limit = limit\<rparr>)"

text \<open>A client that follows the cursors, for at most so many requests.\<close>

fun walk :: "nat \<Rightarrow> (KeysetPageRequest \<Rightarrow> 'a KeysetPageResponse) \<Rightarrow> int \<Rightarrow> string \<Rightarrow> 'a list" where
  "walk 0 ask limit cursor = []"
| "walk (Suc n) ask limit cursor =
     (let p = ask \<lparr>PQ_Cursor = cursor, PQ_Limit = limit\<rparr>
      in PR_Items p @ (if PR_HasMore p then walk n ask limit (PR_NextCursor p) else []))"

lemma set_keyset_page: "set (PR_Items (keyset_page key dflt maxl all req)) \<subseteq> set all"
proof -
  let ?xs = "exchange_sort (newer key) all"
  have "set (take m (drop n ?xs)) \<subseteq> set all" "set (drop n ?xs) \<subseteq> set all" for m n
    using set_take_subset [of m "drop n ?xs"] set_drop_subset [of n ?xs] by auto
  note this this [where n = 0, simplified]
  then show ?thesis by (auto simp: keyset_page_def Let_def)
qed

locale keyset =
  fixes key :: "'a \<Rightarrow> time \<times> string" and dflt maxl :: int
  assumes limits: "1 \<le> dflt" "dflt \<le> maxl"
begin

lemma page_limit_bounds: "1 \<le> page_limit dflt maxl l \<and> page_limit dflt maxl l \<le> maxl"
  using limits by (simp add: page_limit_def)

lemma page_length_le: "int (length (PR_Items (keyset_page key dflt maxl all req))) \<le> PR_Limit (keyset_page key dflt maxl all req)"
  using page_limit_bounds [of "PQ_Limit req"] by (auto simp: keyset_page_def Let_def)

lemma start_after:
  assumes "sorted_wrt (newer key) (xs @ x # ys)" "ys \<noteq> []"
  shows "start_index key \<lparr>KC_CreatedAt = fst (key x), KC_ID = snd (key x)\<rparr> (xs @ x # ys) = length xs + 1"
proof -
  let ?c = "\<lparr>KC_CreatedAt = fst (key x), KC_ID = snd (key x)\<rparr>"
  have p: "past key ?c z \<longleftrightarrow> newer key x z" for z by (auto simp: past_def newer_def)
  have "\<forall>z \<in> set xs. \<not> newer key x z"
  proof
    fix z assume "z \<in> set xs"
    then have "newer key z x" using assms(1) by (simp add: sorted_wrt_append)
    then show "\<not> newer key x z" by (rule newer_asym)
  qed
  moreover have "newer key x (hd ys)" using assms by (cases ys) (auto simp: sorted_wrt_append)
  ultimately have "takeWhile (\<lambda>z. \<not> past key ?c z) (xs @ x # ys) = xs @ [x]"
    using assms(2) by (cases ys) (auto simp: p takeWhile_append)
  then show ?thesis using assms(2) by (simp add: start_index_def)
qed

lemma page_from:
  assumes "exchange_sort (newer key) all = xs @ ys" "ys \<noteq> []" "distinct (map key all)" "\<forall>x \<in> set all. fits64 (fst (key x))"
    and "xs = [] \<and> cursor = [] \<or> xs \<noteq> [] \<and> cursor = EncodeCursor (fst (key (last xs))) (snd (key (last xs)))"
  shows "keyset_page key dflt maxl all \<lparr>PQ_Cursor = cursor, PQ_Limit = l\<rparr> =
    (let n = nat (page_limit dflt maxl l); x = last (take n ys)
     in if n < length ys
        then \<lparr>PR_Items = take n ys, PR_NextCursor = EncodeCursor (fst (key x)) (snd (key x)), PR_HasMore = True, PR_Limit = page_limit dflt maxl l\<rparr>
        else \<lparr>PR_Items = ys, PR_NextCursor = [], PR_HasMore = False, PR_Limit = page_limit dflt maxl l\<rparr>)"
proof -
  have s: "sorted_wrt (newer key) (xs @ ys)" using newest_first [OF assms(3)] assms(1) by simp
  have "page_start key cursor (xs @ ys) = length xs"
  proof (cases "xs = []")
    case False
    then have e: "xs @ ys = butlast xs @ last xs # ys" by simp
    have "last xs \<in> set all"
      using False set_exchange_sort [of "newer key" all] unfolding assms(1) by (metis UnCI last_in_set set_append)
    then have "DecodeCursor cursor = Inr (Some \<lparr>KC_CreatedAt = fst (key (last xs)), KC_ID = snd (key (last xs))\<rparr>)"
      using assms(4,5) False DecodeCursor_EncodeCursor by auto
    moreover have "start_index key \<lparr>KC_CreatedAt = fst (key (last xs)), KC_ID = snd (key (last xs))\<rparr> (xs @ ys) = length xs"
      using start_after [of "butlast xs" "last xs" ys] s assms(2) False unfolding e by simp
    ultimately show ?thesis using assms(5) False by (simp add: page_start_def)
  qed (use assms(5) in \<open>simp add: page_start_def\<close>)
  then show ?thesis using assms(2) by (simp add: keyset_page_def assms(1) Let_def)
qed

lemma walk_from:
  assumes "exchange_sort (newer key) all = xs @ ys" "ys \<noteq> []" "distinct (map key all)" "\<forall>x \<in> set all. fits64 (fst (key x))"
    and "xs = [] \<and> cursor = [] \<or> xs \<noteq> [] \<and> cursor = EncodeCursor (fst (key (last xs))) (snd (key (last xs)))"
    and "length ys \<le> n"
  shows "walk n (keyset_page key dflt maxl all) l cursor = ys"
  using assms
proof (induction n arbitrary: xs ys cursor)
  case (Suc n)
  let ?n = "nat (page_limit dflt maxl l)"
  have pos: "1 \<le> ?n" using page_limit_bounds [of l] by arith
  note p = page_from [OF Suc.prems(1-5), of l]
  show ?case
  proof (cases "?n < length ys")
    case True
    have t: "take ?n ys \<noteq> []" using pos Suc.prems(2) by simp
    have "walk n (keyset_page key dflt maxl all) l
        (EncodeCursor (fst (key (last (xs @ take ?n ys)))) (snd (key (last (xs @ take ?n ys))))) = drop ?n ys"
      by (rule Suc.IH [where xs = "xs @ take ?n ys"]) (use Suc.prems True pos t in \<open>auto\<close>)
    then show ?thesis using True t by (simp add: p Let_def)
  next
    case False
    then show ?thesis by (simp add: p Let_def)
  qed
qed simp

text \<open>A client that follows the cursors from the beginning sees every item exactly once, newest first.\<close>

lemma walk_all:
  assumes "distinct (map key all)" "\<forall>x \<in> set all. fits64 (fst (key x))" "length all \<le> n"
  shows "walk n (keyset_page key dflt maxl all) l [] = exchange_sort (newer key) all"
proof (cases "all = []")
  case True
  then show ?thesis by (cases n) (simp_all add: keyset_page_def Let_def)
next
  case False
  then have "exchange_sort (newer key) all \<noteq> []" using length_exchange_sort [of "newer key" all] by force
  then show ?thesis using walk_from [of all "[]" "exchange_sort (newer key) all" "[]" n l] assms by simp
qed

end

end
