(* ===== verification/Drift.thy ===== *)
theory Drift
  imports Snapshot
begin

text \<open>
  Configuration drift (\<open>drift/types.go\<close>, \<open>drift/differ.go\<close>): the comparison of two consecutive
  snapshots of a host, field by field, with the severity of each change. The hash of a payload is a
  parameter (\<open>None\<close> when the payload cannot be encoded), and so are the identifiers of the events.
\<close>

section \<open>Data\<close>

type_synonym DriftSeverity = string

definition SeverityCritical :: DriftSeverity where "SeverityCritical = ''CRITICAL''"
definition SeverityWarning :: DriftSeverity where "SeverityWarning = ''WARNING''"
definition SeverityInfo :: DriftSeverity where "SeverityInfo = ''INFO''"

lemma severity_distinct [simp]:
  "SeverityCritical \<noteq> SeverityWarning" "SeverityCritical \<noteq> SeverityInfo" "SeverityWarning \<noteq> SeverityInfo"
  "SeverityWarning \<noteq> SeverityCritical" "SeverityInfo \<noteq> SeverityCritical" "SeverityInfo \<noteq> SeverityWarning"
  by (simp_all add: SeverityCritical_def SeverityWarning_def SeverityInfo_def)

record DriftEvent =
  DE_ID :: string
  DE_TenantID :: string
  DE_HostID :: string
  DE_Hostname :: string
  DE_DriftCategory :: string
  DE_PropertyName :: string
  DE_BaselineValue :: string
  DE_CurrentValue :: string
  DE_Severity :: DriftSeverity
  DE_IsAcknowledged :: bool
  DE_AcknowledgedBy :: "string option"
  DE_AcknowledgedAt :: "time option"
  DE_DetectedAt :: time
  DE_CreatedAt :: time

section \<open>Helpers of the comparison\<close>

definition getBitLockerStatus :: "SnapshotBitLockerInfo \<Rightarrow> int" where
  "getBitLockerStatus info = (case SBI_Volumes info of [] \<Rightarrow> 0 | v # _ \<Rightarrow> SBV_ProtectionStatus v)"

definition getBitLockerMethod :: "SnapshotBitLockerInfo \<Rightarrow> string" where
  "getBitLockerMethod info = (case SBI_Volumes info of [] \<Rightarrow> [] | v # _ \<Rightarrow> SBV_EncryptionMethod v)"

definition boolVal :: "bool option \<Rightarrow> bool \<Rightarrow> bool" where
  "boolVal p d = (case p of None \<Rightarrow> d | Some b \<Rightarrow> b)"

definition strVal :: "string option \<Rightarrow> string \<Rightarrow> string" where
  "strVal p d = (case p of None \<Rightarrow> d | Some s \<Rightarrow> s)"

definition diffStringSlices :: "string list \<Rightarrow> string list \<Rightarrow> string list \<times> string list" where
  "diffStringSlices oldList newList =
     (let oldMap = set oldList; newMap = set newList;
          added = filter (\<lambda>item. item \<notin> oldMap) newList;
          removed = filter (\<lambda>item. item \<notin> newMap) oldList
      in (sort_slice string_less added, sort_slice string_less removed))"

definition extractNICDescriptions :: "SnapshotNICEntry list \<Rightarrow> string list" where
  "extractNICDescriptions adapters =
     map (\<lambda>a. SNE_Description a @ '' ('' @ SNE_MACAddress a @ '')'')
       (filter (\<lambda>a. SNE_Description a \<noteq> []) adapters)"

definition extractAppNames :: "SnapshotApplicationEntry list \<Rightarrow> string list" where
  "extractAppNames apps =
     map (\<lambda>a. SAP_Name a @ (case SAP_Version a of None \<Rightarrow> [] | Some v \<Rightarrow> '' '' @ v)) apps"

text \<open>The arguments of one call of \<open>addEvent\<close>.\<close>

record change =
  CH_category :: string
  CH_prop :: string
  CH_baseline :: string
  CH_current :: string
  CH_severity :: DriftSeverity

definition addEvent :: "string \<Rightarrow> string \<Rightarrow> string \<Rightarrow> string \<Rightarrow> DriftSeverity \<Rightarrow> change list" where
  "addEvent category prop baseline current severity =
     [\<lparr>CH_category = category, CH_prop = prop, CH_baseline = baseline, CH_current = current, CH_severity = severity\<rparr>]"

text \<open>The recurring comparison of a flag: a change is critical when \<open>lost\<close> says so.\<close>

definition bool_change :: "string \<Rightarrow> string \<Rightarrow> bool \<Rightarrow> bool \<Rightarrow> bool \<Rightarrow> change list" where
  "bool_change category prop p n lost =
     (if n \<noteq> p then addEvent category prop (show_bool p) (show_bool n) (if lost then SeverityCritical else SeverityInfo)
      else [])"

definition diffFirewallProfile ::
  "string \<Rightarrow> SnapshotFirewallProfile \<Rightarrow> SnapshotFirewallProfile \<Rightarrow> change list" where
  "diffFirewallProfile name prev next =
     (let propEnabled = ''security_baseline.firewall_profiles.'' @ to_lower name @ ''.enabled'';
          propInbound = ''security_baseline.firewall_profiles.'' @ to_lower name @ ''.default_inbound''
      in bool_change ''SecurityBaseline'' propEnabled (SFP_Enabled prev) (SFP_Enabled next)
           (SFP_Enabled prev \<and> \<not> SFP_Enabled next)
         @ (if SFP_DefaultInbound prev \<noteq> SFP_DefaultInbound next \<and> SFP_DefaultInbound prev \<noteq> [] then
              addEvent ''SecurityBaseline'' propInbound (SFP_DefaultInbound prev) (SFP_DefaultInbound next)
                (if equal_fold (SFP_DefaultInbound prev) ''Block'' \<and> equal_fold (SFP_DefaultInbound next) ''Allow''
                 then SeverityCritical else SeverityInfo)
            else []))"

section \<open>The sections of the comparison\<close>

definition security_changes :: "SnapshotSecurityBaseline \<Rightarrow> SnapshotSecurityBaseline \<Rightarrow> change list" where
  "security_changes nSec pSec =
     (let nBLProt = getBitLockerStatus (SSB_BitLocker nSec); pBLProt = getBitLockerStatus (SSB_BitLocker pSec);
          nBLMeth = getBitLockerMethod (SSB_BitLocker nSec); pBLMeth = getBitLockerMethod (SSB_BitLocker pSec);
          nDef = SSB_Defender nSec; pDef = SSB_Defender pSec;
          nAV = boolVal (SDF_AntivirusEnabled nDef) True; pAV = boolVal (SDF_AntivirusEnabled pDef) True;
          nRTP = boolVal (SDF_RealTimeProtectionEnabled nDef) True;
          pRTP = boolVal (SDF_RealTimeProtectionEnabled pDef) True;
          nTP = boolVal (SDF_TamperProtectionEnabled nDef) True; pTP = boolVal (SDF_TamperProtectionEnabled pDef) True;
          nBM = boolVal (SDF_BehaviorMonitorEnabled nDef) True; pBM = boolVal (SDF_BehaviorMonitorEnabled pDef) True;
          nFire = SSB_FirewallProfiles nSec; pFire = SSB_FirewallProfiles pSec
      in (if nBLProt \<noteq> pBLProt then
            addEvent ''SecurityBaseline'' ''security_baseline.bitlocker.protection_status'' (dec_int pBLProt) (dec_int nBLProt)
              (if pBLProt = 1 \<and> nBLProt \<noteq> 1 then SeverityCritical else SeverityInfo)
          else [])
         @ (if nBLMeth \<noteq> pBLMeth \<and> pBLMeth \<noteq> [] then
              addEvent ''SecurityBaseline'' ''security_baseline.bitlocker.encryption_method'' pBLMeth nBLMeth
                (if contains (to_lower nBLMeth) ''none'' then SeverityCritical else SeverityWarning)
            else [])
         @ bool_change ''SecurityBaseline'' ''security_baseline.defender.antivirus_enabled'' pAV nAV (pAV \<and> \<not> nAV)
         @ bool_change ''SecurityBaseline'' ''security_baseline.defender.realtime_protection_enabled'' pRTP nRTP (pRTP \<and> \<not> nRTP)
         @ bool_change ''SecurityBaseline'' ''security_baseline.defender.tamper_protection_enabled'' pTP nTP (pTP \<and> \<not> nTP)
         @ bool_change ''SecurityBaseline'' ''security_baseline.defender.behavior_monitor_enabled'' pBM nBM (pBM \<and> \<not> nBM)
         @ bool_change ''SecurityBaseline'' ''security_baseline.smb1_enabled'' (SSB_SMB1Enabled pSec) (SSB_SMB1Enabled nSec)
             (\<not> SSB_SMB1Enabled pSec \<and> SSB_SMB1Enabled nSec)
         @ bool_change ''SecurityBaseline'' ''security_baseline.lsa_protection_enabled''
             (SSB_LSAProtectionEnabled pSec) (SSB_LSAProtectionEnabled nSec)
             (SSB_LSAProtectionEnabled pSec \<and> \<not> SSB_LSAProtectionEnabled nSec)
         @ bool_change ''SecurityBaseline'' ''security_baseline.credential_guard_running''
             (SSB_CredentialGuardRunning pSec) (SSB_CredentialGuardRunning nSec)
             (SSB_CredentialGuardRunning pSec \<and> \<not> SSB_CredentialGuardRunning nSec)
         @ diffFirewallProfile ''Domain'' (SFS_Domain pFire) (SFS_Domain nFire)
         @ diffFirewallProfile ''Private'' (SFS_Private pFire) (SFS_Private nFire)
         @ diffFirewallProfile ''Public'' (SFS_Public pFire) (SFS_Public nFire))"

definition firmware_changes :: "SnapshotFirmwareBios \<Rightarrow> SnapshotFirmwareBios \<Rightarrow> change list" where
  "firmware_changes nFW pFW =
     bool_change ''Firmware'' ''firmware_bios.secure_boot_enabled'' (SFB_SecureBootEnabled pFW) (SFB_SecureBootEnabled nFW)
       (SFB_SecureBootEnabled pFW \<and> \<not> SFB_SecureBootEnabled nFW)
     @ bool_change ''Firmware'' ''firmware_bios.uefi_mode'' (SFB_UEFIMode pFW) (SFB_UEFIMode nFW)
         (SFB_UEFIMode pFW \<and> \<not> SFB_UEFIMode nFW)
     @ (if SFB_Version nFW \<noteq> SFB_Version pFW \<and> SFB_Version pFW \<noteq> [] then
          addEvent ''Firmware'' ''firmware_bios.version'' (SFB_Version pFW) (SFB_Version nFW) SeverityWarning
        else [])"

definition tpm_changes :: "SnapshotTPM \<Rightarrow> SnapshotTPM \<Rightarrow> change list" where
  "tpm_changes nTPM pTPM =
     (let nTPMEn = boolVal (STP_IsEnabled nTPM) True; pTPMEn = boolVal (STP_IsEnabled pTPM) True
      in bool_change ''TPM'' ''tpm.present'' (STP_Present pTPM) (STP_Present nTPM) (STP_Present pTPM \<and> \<not> STP_Present nTPM)
         @ bool_change ''TPM'' ''tpm.is_enabled'' pTPMEn nTPMEn (pTPMEn \<and> \<not> nTPMEn))"

definition isolation_change :: "string \<Rightarrow> string \<Rightarrow> string \<Rightarrow> string \<Rightarrow> change list" where
  "isolation_change prop on p n =
     (if n \<noteq> p then
        addEvent ''Processor'' prop p n
          (if (p = on \<or> p = ''1'' \<or> p = ''2'') \<and> (n = ''Disabled'' \<or> n = ''0'') then SeverityCritical else SeverityWarning)
      else [])"

definition processor_changes :: "SnapshotProcessor \<Rightarrow> SnapshotProcessor \<Rightarrow> change list" where
  "processor_changes nCPU pCPU =
     isolation_change ''processor.vbs_status'' ''Running'' (strVal (SPR_VBSStatus pCPU) ''Running'') (strVal (SPR_VBSStatus nCPU) ''Running'')
     @ isolation_change ''processor.hvci_status'' ''Enabled'' (strVal (SPR_HVCIStatus pCPU) ''Enabled'') (strVal (SPR_HVCIStatus nCPU) ''Enabled'')"

definition user_changes :: "SnapshotUserAccess \<Rightarrow> SnapshotUserAccess \<Rightarrow> change list" where
  "user_changes nUA pUA =
     (let (addedAdmins, removedAdmins) = diffStringSlices (SUA_LocalAdministrators pUA) (SUA_LocalAdministrators nUA);
          before = join '', '' (SUA_LocalAdministrators pUA); after = join '', '' (SUA_LocalAdministrators nUA);
          nGuest = boolVal (SUA_GuestAccountDisabled nUA) True; pGuest = boolVal (SUA_GuestAccountDisabled pUA) True
      in (if addedAdmins \<noteq> [] then
            addEvent ''UserAccess'' ''user_access.local_administrators.added'' before after SeverityCritical
          else if removedAdmins \<noteq> [] then
            addEvent ''UserAccess'' ''user_access.local_administrators.removed'' before after SeverityInfo
          else [])
         @ (if nGuest \<noteq> pGuest then
              addEvent ''UserAccess'' ''user_access.guest_account_disabled'' (show_bool pGuest) (show_bool nGuest)
                (if pGuest \<and> \<not> nGuest then SeverityWarning else SeverityInfo)
            else []))"

definition hardware_changes :: "HostSnapshotPayload \<Rightarrow> HostSnapshotPayload \<Rightarrow> change list" where
  "hardware_changes new prev =
     (let nMem = SME_TotalCapacityBytes (HS_Memory new); pMem = SME_TotalCapacityBytes (HS_Memory prev);
          nDisks = SST_DiskCount (HS_Storage new); pDisks = SST_DiskCount (HS_Storage prev);
          nNICs = extractNICDescriptions (SNW_Adapters (HS_Network new));
          pNICs = extractNICDescriptions (SNW_Adapters (HS_Network prev));
          (addedNICs, _) = diffStringSlices pNICs nNICs
      in (if nMem \<noteq> pMem \<and> pMem > 0 then
            addEvent ''Hardware'' ''memory.total_capacity_bytes'' (dec_int pMem) (dec_int nMem) SeverityWarning
          else [])
         @ (if nDisks \<noteq> pDisks \<and> pDisks > 0 then
              addEvent ''Hardware'' ''storage.disk_count'' (dec_int pDisks) (dec_int nDisks) SeverityWarning
            else [])
         @ (if addedNICs \<noteq> [] then
              addEvent ''Hardware'' ''network.adapters'' (join ''; '' pNICs) (join ''; '' nNICs) SeverityWarning
            else []))"

definition software_changes :: "SnapshotSoftware \<Rightarrow> SnapshotSoftware \<Rightarrow> change list" where
  "software_changes nSW pSW =
     (let (addedApps, removedApps) = diffStringSlices (extractAppNames (SSW_Applications pSW)) (extractAppNames (SSW_Applications nSW))
      in (if addedApps \<noteq> [] then
            addEvent ''Software'' ''software.applications.installed'' [] (join '', '' addedApps) SeverityInfo
          else [])
         @ (if removedApps \<noteq> [] then
              addEvent ''Software'' ''software.applications.uninstalled'' (join '', '' removedApps) [] SeverityInfo
            else []))"

definition changes :: "HostSnapshotPayload \<Rightarrow> HostSnapshotPayload \<Rightarrow> change list" where
  "changes new prev =
     security_changes (HS_SecurityBaseline new) (HS_SecurityBaseline prev)
     @ firmware_changes (HS_FirmwareBios new) (HS_FirmwareBios prev)
     @ tpm_changes (HS_TPM new) (HS_TPM prev)
     @ processor_changes (HS_Processor new) (HS_Processor prev)
     @ user_changes (HS_UserAccess new) (HS_UserAccess prev)
     @ hardware_changes new prev
     @ software_changes (HS_Software new) (HS_Software prev)"

datatype drift_error = NilNewSnapshot | DriftMissingTenant | DriftMissingHost

definition mk_event :: "(nat \<Rightarrow> string) \<Rightarrow> time \<Rightarrow> string \<Rightarrow> string \<Rightarrow> string \<Rightarrow> nat \<Rightarrow> change \<Rightarrow> DriftEvent" where
  "mk_event uid now tenantID hostID hostname i c =
     \<lparr>DE_ID = uid i, DE_TenantID = tenantID, DE_HostID = hostID, DE_Hostname = hostname,
      DE_DriftCategory = CH_category c, DE_PropertyName = CH_prop c, DE_BaselineValue = CH_baseline c,
      DE_CurrentValue = CH_current c, DE_Severity = CH_severity c, DE_IsAcknowledged = False,
      DE_AcknowledgedBy = None, DE_AcknowledgedAt = None, DE_DetectedAt = now, DE_CreatedAt = now\<rparr>"

text \<open>The hash of a payload, for an encoder and a digest; the comparison takes it as an argument.\<close>

definition ComputePayloadHash :: "(string \<Rightarrow> string) \<Rightarrow> (HostSnapshotPayload \<Rightarrow> string option) \<Rightarrow> HostSnapshotPayload option \<Rightarrow> string option" where
  "ComputePayloadHash sha256 marshal snapshot =
     (case snapshot of None \<Rightarrow> None
      | Some s \<Rightarrow> (case marshal s of None \<Rightarrow> None | Some b \<Rightarrow> Some (hex_encode (sha256 b))))"

definition DiffSnapshots ::
  "(HostSnapshotPayload \<Rightarrow> string option) \<Rightarrow> (nat \<Rightarrow> string) \<Rightarrow> time \<Rightarrow> string \<Rightarrow> string \<Rightarrow> string
   \<Rightarrow> HostSnapshotPayload option \<Rightarrow> HostSnapshotPayload option \<Rightarrow> drift_error + DriftEvent list" where
  "DiffSnapshots payload_hash uid now tenantID hostID hostname newSnapshot prevSnapshot =
     (case newSnapshot of
        None \<Rightarrow> Inl NilNewSnapshot
      | Some new \<Rightarrow>
          (case prevSnapshot of
             None \<Rightarrow> Inr []
           | Some prev \<Rightarrow>
               if payload_hash new \<noteq> None \<and> payload_hash prev \<noteq> None \<and> payload_hash new = payload_hash prev
               then Inr []
               else Inr (map (\<lambda>(i, c). mk_event uid now tenantID hostID hostname i c)
                           (List.enumerate 0 (changes new prev)))))"

section \<open>Protections\<close>

text \<open>The protections whose loss is a critical event, with the property that reports it.\<close>

definition defender_on :: "(SnapshotDefenderInfo \<Rightarrow> bool option) \<Rightarrow> HostSnapshotPayload \<Rightarrow> bool" where
  "defender_on f s = boolVal (f (SSB_Defender (HS_SecurityBaseline s))) True"

definition firewall_on :: "(SnapshotFirewallProfiles \<Rightarrow> SnapshotFirewallProfile) \<Rightarrow> HostSnapshotPayload \<Rightarrow> bool" where
  "firewall_on f s = SFP_Enabled (f (SSB_FirewallProfiles (HS_SecurityBaseline s)))"

definition protections :: "(string \<times> (HostSnapshotPayload \<Rightarrow> bool)) list" where
  "protections =
     [(''security_baseline.bitlocker.protection_status'',
         \<lambda>s. getBitLockerStatus (SSB_BitLocker (HS_SecurityBaseline s)) = 1),
      (''security_baseline.defender.antivirus_enabled'', defender_on SDF_AntivirusEnabled),
      (''security_baseline.defender.realtime_protection_enabled'', defender_on SDF_RealTimeProtectionEnabled),
      (''security_baseline.defender.tamper_protection_enabled'', defender_on SDF_TamperProtectionEnabled),
      (''security_baseline.defender.behavior_monitor_enabled'', defender_on SDF_BehaviorMonitorEnabled),
      (''security_baseline.smb1_enabled'', \<lambda>s. \<not> SSB_SMB1Enabled (HS_SecurityBaseline s)),
      (''security_baseline.lsa_protection_enabled'', \<lambda>s. SSB_LSAProtectionEnabled (HS_SecurityBaseline s)),
      (''security_baseline.credential_guard_running'', \<lambda>s. SSB_CredentialGuardRunning (HS_SecurityBaseline s)),
      (''security_baseline.firewall_profiles.domain.enabled'', firewall_on SFS_Domain),
      (''security_baseline.firewall_profiles.private.enabled'', firewall_on SFS_Private),
      (''security_baseline.firewall_profiles.public.enabled'', firewall_on SFS_Public),
      (''firmware_bios.secure_boot_enabled'', \<lambda>s. SFB_SecureBootEnabled (HS_FirmwareBios s)),
      (''firmware_bios.uefi_mode'', \<lambda>s. SFB_UEFIMode (HS_FirmwareBios s)),
      (''tpm.present'', \<lambda>s. STP_Present (HS_TPM s)),
      (''tpm.is_enabled'', \<lambda>s. boolVal (STP_IsEnabled (HS_TPM s)) True)]"

text \<open>A critical change of a property is among the changes.\<close>

definition crit :: "string \<Rightarrow> change list \<Rightarrow> bool" where
  "crit x cs \<longleftrightarrow> (\<exists>c \<in> set cs. CH_prop c = x \<and> CH_severity c = SeverityCritical)"

lemma crit_simps [simp]:
  "\<not> crit x []" "crit x (as @ bs) \<longleftrightarrow> crit x as \<or> crit x bs"
  "crit x (addEvent cat prop b c sev) \<longleftrightarrow> x = prop \<and> sev = SeverityCritical"
  "crit x (bool_change cat prop p n lost) \<longleftrightarrow> x = prop \<and> n \<noteq> p \<and> lost"
  "crit x (if P then as else bs) \<longleftrightarrow> (if P then crit x as else crit x bs)"
  by (auto simp: crit_def addEvent_def bool_change_def)

lemmas crit_append = crit_simps(2)

lemma crit_loss:
  "crit x (bool_change cat prop p n (p \<and> \<not> n)) \<longleftrightarrow> x = prop \<and> p \<and> \<not> n"
  "crit x (bool_change cat prop p n (\<not> p \<and> n)) \<longleftrightarrow> x = prop \<and> \<not> p \<and> n"
  by auto

lemma crit_if_event:
  "crit x (if P then addEvent cat prop b c (if Q then SeverityCritical else SeverityInfo) else []) \<longleftrightarrow> x = prop \<and> P \<and> Q"
  "crit x (if P then addEvent cat prop b c (if Q then SeverityCritical else SeverityWarning) else []) \<longleftrightarrow> x = prop \<and> P \<and> Q"
  by auto

lemma lower_names [simp]:
  "to_lower ''Domain'' = ''domain''" "to_lower ''Private'' = ''private''" "to_lower ''Public'' = ''public''"
  by code_simp+

lemma diff_slices_empty:
  "fst (diffStringSlices old new) = [] \<longleftrightarrow> set new \<subseteq> set old"
  "snd (diffStringSlices old new) = [] \<longleftrightarrow> set old \<subseteq> set new"
proof -
  have e: "sort_slice string_less xs = [] \<longleftrightarrow> xs = []" for xs
    by (metis length_0_conv length_sort_slice)
  show "fst (diffStringSlices old new) = [] \<longleftrightarrow> set new \<subseteq> set old"
    "snd (diffStringSlices old new) = [] \<longleftrightarrow> set old \<subseteq> set new"
    by (auto simp: diffStringSlices_def Let_def e filter_empty_conv)
qed

lemma crit_firewall [simp]:
  "crit x (diffFirewallProfile name p n) \<longleftrightarrow>
     (x = ''security_baseline.firewall_profiles.'' @ to_lower name @ ''.enabled'' \<and> SFP_Enabled p \<and> \<not> SFP_Enabled n)
     \<or> (x = ''security_baseline.firewall_profiles.'' @ to_lower name @ ''.default_inbound''
        \<and> equal_fold (SFP_DefaultInbound p) ''Block'' \<and> equal_fold (SFP_DefaultInbound n) ''Allow'')"
proof -
  have g: "a \<noteq> b \<and> a \<noteq> []" if "to_lower u \<noteq> to_lower v" "u \<noteq> []" "equal_fold a u" "equal_fold b v" for a b u v
    using that by (metis equal_fold_def to_lower_Nil)
  have "to_lower ''Block'' \<noteq> to_lower ''Allow''" "''Block'' \<noteq> []" by code_simp+
  note g = g [OF this, of "SFP_DefaultInbound p" "SFP_DefaultInbound n"]
  have e: "(SFP_DefaultInbound p \<noteq> SFP_DefaultInbound n \<and> SFP_DefaultInbound p \<noteq> [])
      \<and> equal_fold (SFP_DefaultInbound p) ''Block'' \<and> equal_fold (SFP_DefaultInbound n) ''Allow''
      \<longleftrightarrow> equal_fold (SFP_DefaultInbound p) ''Block'' \<and> equal_fold (SFP_DefaultInbound n) ''Allow''" using g by blast
  show ?thesis unfolding diffFirewallProfile_def Let_def crit_append crit_loss crit_if_event e by (rule refl)
qed

lemma crit_isolation [simp]:
  "crit x (isolation_change prop on p n) \<longleftrightarrow>
     x = prop \<and> n \<noteq> p \<and> (p = on \<or> p = ''1'' \<or> p = ''2'') \<and> (n = ''Disabled'' \<or> n = ''0'')"
  by (simp add: isolation_change_def)

text \<open>Which properties the sections after the security baseline can report as critical.\<close>

lemma crit_sections:
  "crit x (firmware_changes a b) \<longleftrightarrow>
     x = ''firmware_bios.secure_boot_enabled'' \<and> SFB_SecureBootEnabled b \<and> \<not> SFB_SecureBootEnabled a
     \<or> x = ''firmware_bios.uefi_mode'' \<and> SFB_UEFIMode b \<and> \<not> SFB_UEFIMode a"
  "crit x (tpm_changes c d) \<longleftrightarrow>
     x = ''tpm.present'' \<and> STP_Present d \<and> \<not> STP_Present c
     \<or> x = ''tpm.is_enabled'' \<and> boolVal (STP_IsEnabled d) True \<and> \<not> boolVal (STP_IsEnabled c) True"
  "crit x (user_changes e f) \<longleftrightarrow>
     x = ''user_access.local_administrators.added'' \<and> \<not> set (SUA_LocalAdministrators e) \<subseteq> set (SUA_LocalAdministrators f)"
  "crit x (hardware_changes g h) = False" "crit x (software_changes i j) = False"
  by (auto simp: firmware_changes_def tpm_changes_def user_changes_def hardware_changes_def software_changes_def
      Let_def diff_slices_empty(1) [symmetric] split: prod.splits)

lemma crit_processor:
  "crit x (processor_changes a b) \<Longrightarrow> x = ''processor.vbs_status'' \<or> x = ''processor.hvci_status''"
  by (auto simp: processor_changes_def)

lemmas crit_changes = changes_def crit_simps crit_sections processor_changes_def crit_isolation

lemma crit_security:
  "crit x (security_changes n p) \<longleftrightarrow>
     x = ''security_baseline.bitlocker.protection_status''
       \<and> getBitLockerStatus (SSB_BitLocker n) \<noteq> getBitLockerStatus (SSB_BitLocker p)
       \<and> getBitLockerStatus (SSB_BitLocker p) = 1 \<and> getBitLockerStatus (SSB_BitLocker n) \<noteq> 1
     \<or> x = ''security_baseline.bitlocker.encryption_method''
       \<and> (getBitLockerMethod (SSB_BitLocker n) \<noteq> getBitLockerMethod (SSB_BitLocker p)
       \<and> getBitLockerMethod (SSB_BitLocker p) \<noteq> []) \<and> contains (to_lower (getBitLockerMethod (SSB_BitLocker n))) ''none''
     \<or> x = ''security_baseline.defender.antivirus_enabled''
       \<and> boolVal (SDF_AntivirusEnabled (SSB_Defender p)) True \<and> \<not> boolVal (SDF_AntivirusEnabled (SSB_Defender n)) True
     \<or> x = ''security_baseline.defender.realtime_protection_enabled''
       \<and> boolVal (SDF_RealTimeProtectionEnabled (SSB_Defender p)) True
       \<and> \<not> boolVal (SDF_RealTimeProtectionEnabled (SSB_Defender n)) True
     \<or> x = ''security_baseline.defender.tamper_protection_enabled''
       \<and> boolVal (SDF_TamperProtectionEnabled (SSB_Defender p)) True
       \<and> \<not> boolVal (SDF_TamperProtectionEnabled (SSB_Defender n)) True
     \<or> x = ''security_baseline.defender.behavior_monitor_enabled''
       \<and> boolVal (SDF_BehaviorMonitorEnabled (SSB_Defender p)) True
       \<and> \<not> boolVal (SDF_BehaviorMonitorEnabled (SSB_Defender n)) True
     \<or> x = ''security_baseline.smb1_enabled'' \<and> \<not> SSB_SMB1Enabled p \<and> SSB_SMB1Enabled n
     \<or> x = ''security_baseline.lsa_protection_enabled'' \<and> SSB_LSAProtectionEnabled p \<and> \<not> SSB_LSAProtectionEnabled n
     \<or> x = ''security_baseline.credential_guard_running'' \<and> SSB_CredentialGuardRunning p \<and> \<not> SSB_CredentialGuardRunning n
     \<or> crit x (diffFirewallProfile ''Domain'' (SFS_Domain (SSB_FirewallProfiles p)) (SFS_Domain (SSB_FirewallProfiles n)))
     \<or> crit x (diffFirewallProfile ''Private'' (SFS_Private (SSB_FirewallProfiles p)) (SFS_Private (SSB_FirewallProfiles n)))
     \<or> crit x (diffFirewallProfile ''Public'' (SFS_Public (SSB_FirewallProfiles p)) (SFS_Public (SSB_FirewallProfiles n)))"
  unfolding security_changes_def Let_def crit_append crit_loss crit_if_event by (rule refl)

lemmas crit_unfold = crit_changes crit_security crit_firewall lower_names append.simps

lemma protections_crit:
  "list_all (\<lambda>(name, on). crit name (changes new prev) \<longleftrightarrow> on prev \<and> \<not> on new) protections"
  unfolding protections_def list.pred_inject prod.case crit_unfold defender_on_def firewall_on_def
  by (intro conjI) (simp_all, auto)

lemma admins_crit:
  "crit ''user_access.local_administrators.added'' (changes new prev) \<longleftrightarrow>
     \<not> set (SUA_LocalAdministrators (HS_UserAccess new)) \<subseteq> set (SUA_LocalAdministrators (HS_UserAccess prev))"
  unfolding crit_unfold by simp

lemma no_changes: "changes s s = []"
proof -
  have d: "diffStringSlices l l = ([], [])" for l using diff_slices_empty [of l l] by (metis prod.collapse subset_refl)
  show ?thesis
    by (simp add: changes_def security_changes_def firmware_changes_def tpm_changes_def processor_changes_def
        user_changes_def hardware_changes_def software_changes_def bool_change_def diffFirewallProfile_def
        isolation_change_def d)
qed

lemma ex_event:
  "(\<exists>e \<in> set (map (\<lambda>(i, c). mk_event uid now t h hn i c) (List.enumerate k cs)).
      DE_PropertyName e = x \<and> DE_Severity e = SeverityCritical) \<longleftrightarrow> crit x cs"
proof (induction cs arbitrary: k)
  case (Cons c cs)
  have "crit x (c # cs) \<longleftrightarrow> (CH_prop c = x \<and> CH_severity c = SeverityCritical) \<or> crit x cs" by (simp add: crit_def)
  with Cons show ?case by (simp add: mk_event_def)
qed simp

lemma DiffSnapshots_crit:
  assumes "payload_hash new = payload_hash prev \<longrightarrow> new = prev"
    and "DiffSnapshots payload_hash uid now t h hn (Some new) (Some prev) = Inr events"
  shows "(\<exists>e \<in> set events. DE_PropertyName e = x \<and> DE_Severity e = SeverityCritical) \<longleftrightarrow> crit x (changes new prev)"
proof (cases "new = prev")
  case True
  then have "events = []" using assms(2) by (auto simp: DiffSnapshots_def no_changes split: if_splits)
  then show ?thesis using True by (simp add: no_changes)
next
  case False
  then have "events = map (\<lambda>(i, c). mk_event uid now t h hn i c) (List.enumerate 0 (changes new prev))"
    using assms by (auto simp: DiffSnapshots_def split: if_splits)
  then show ?thesis by (simp only: ex_event)
qed

section \<open>Theorems\<close>

text \<open>C22. No loss of protection goes unreported and none is made up: comparing two snapshots that the
  payload hash tells apart, for each of the fifteen protections (BitLocker, the Defender switches,
  SMBv1 off, LSA protection, Credential Guard, the firewall profiles, Secure Boot, UEFI, the TPM) a
  critical event with its property is emitted exactly when the protection was on and is off, and one
  for the administrators exactly when somebody was added. Every event carries the tenant and host
  and is unacknowledged.\<close>

theorem DiffSnapshots_protection_loss:
  assumes "payload_hash new = payload_hash prev \<longrightarrow> new = prev"
  shows "\<exists>events. DiffSnapshots payload_hash uid now t h hn (Some new) (Some prev) = Inr events
    \<and> (\<forall>name on. (name, on) \<in> set protections \<longrightarrow>
         (on prev \<and> \<not> on new \<longleftrightarrow>
            (\<exists>e \<in> set events. DE_PropertyName e = name \<and> DE_Severity e = SeverityCritical)))
    \<and> (\<not> set (SUA_LocalAdministrators (HS_UserAccess new)) \<subseteq> set (SUA_LocalAdministrators (HS_UserAccess prev)) \<longleftrightarrow>
         (\<exists>e \<in> set events. DE_PropertyName e = ''user_access.local_administrators.added''
            \<and> DE_Severity e = SeverityCritical))
    \<and> (\<forall>e \<in> set events. DE_TenantID e = t \<and> DE_HostID e = h \<and> \<not> DE_IsAcknowledged e)
    \<and> (new = prev \<longrightarrow> events = [])"
proof -
  obtain events where ev: "DiffSnapshots payload_hash uid now t h hn (Some new) (Some prev) = Inr events"
    by (cases "DiffSnapshots payload_hash uid now t h hn (Some new) (Some prev)") (simp_all add: DiffSnapshots_def split: if_splits)
  note C = DiffSnapshots_crit [OF assms ev]
  have prot: "on prev \<and> \<not> on new \<longleftrightarrow> (\<exists>e \<in> set events. DE_PropertyName e = name \<and> DE_Severity e = SeverityCritical)"
    if "(name, on) \<in> set protections" for name on
    using protections_crit [of new prev] that by (auto simp: C list_all_iff)
  have same: "new = prev \<Longrightarrow> events = []" using ev by (auto simp: DiffSnapshots_def no_changes split: if_splits)
  have own: "\<forall>e \<in> set events. DE_TenantID e = t \<and> DE_HostID e = h \<and> \<not> DE_IsAcknowledged e"
    using ev by (auto simp: DiffSnapshots_def mk_event_def split: if_splits)
  show ?thesis
    by (intro exI [of _ events] conjI allI impI ev prot own same) (simp_all add: C admins_crit)
qed

text \<open>Witness of C22: the LSA protection of a host is switched off.\<close>

definition demo_unprotected :: HostSnapshotPayload where
  "demo_unprotected = demo_snapshot\<lparr>HS_SecurityBaseline :=
     (HS_SecurityBaseline demo_snapshot)\<lparr>SSB_LSAProtectionEnabled := False\<rparr>\<rparr>"

theorem DiffSnapshots_protection_loss_witness:
  "\<exists>events. DiffSnapshots (\<lambda>s. Some (show_bool (SSB_LSAProtectionEnabled (HS_SecurityBaseline s)))) (\<lambda>_. ''id'') 7 ''t'' ''h'' []
       (Some demo_unprotected) (Some demo_snapshot) = Inr events
     \<and> (\<exists>e \<in> set events. DE_PropertyName e = ''security_baseline.lsa_protection_enabled''
          \<and> DE_Severity e = SeverityCritical)"
proof -
  let ?hash = "\<lambda>s. Some (show_bool (SSB_LSAProtectionEnabled (HS_SecurityBaseline s)))"
  have hash: "?hash demo_unprotected = ?hash demo_snapshot \<longrightarrow> demo_unprotected = demo_snapshot"
    by (simp add: demo_unprotected_def demo_snapshot_def)
  have mem: "(''security_baseline.lsa_protection_enabled'', \<lambda>s. SSB_LSAProtectionEnabled (HS_SecurityBaseline s))
      \<in> set protections" unfolding protections_def by (simp only: list.set insert_iff) simp
  have lost: "SSB_LSAProtectionEnabled (HS_SecurityBaseline demo_snapshot)"
    "\<not> SSB_LSAProtectionEnabled (HS_SecurityBaseline demo_unprotected)"
    by (simp_all add: demo_unprotected_def demo_snapshot_def)
  from DiffSnapshots_protection_loss [where payload_hash = ?hash, OF hash, of "\<lambda>_. ''id''" 7 "''t''" "''h''" "[]"]
  obtain events where e: "DiffSnapshots ?hash (\<lambda>_. ''id'') 7 ''t'' ''h'' [] (Some demo_unprotected) (Some demo_snapshot) = Inr events"
    "\<forall>name on. (name, on) \<in> set protections \<longrightarrow> (on demo_snapshot \<and> \<not> on demo_unprotected \<longleftrightarrow>
       (\<exists>e \<in> set events. DE_PropertyName e = name \<and> DE_Severity e = SeverityCritical))" by (elim exE conjE) (rule that)
  from e(2) [rule_format, OF mem] lost have "\<exists>e \<in> set events. DE_PropertyName e = ''security_baseline.lsa_protection_enabled''
      \<and> DE_Severity e = SeverityCritical" by iprover
  with e(1) show ?thesis by (intro exI conjI)
qed

text \<open>The comparison of two lists of names: what was added and removed is exactly the difference of
  the two sets, each in ascending order, and exchanging the lists exchanges the two answers.\<close>

theorem diffStringSlices_exact:
  "case diffStringSlices old new of
     (added, removed) \<Rightarrow>
       set added = set new - set old \<and> set removed = set old - set new
       \<and> sorted_wrt (\<lambda>x y. \<not> string_less y x) added \<and> sorted_wrt (\<lambda>x y. \<not> string_less y x) removed
       \<and> diffStringSlices new old = (removed, added)"
  using string_order.sorted_sort_slice by (auto simp: diffStringSlices_def Let_def)

end
