(* ===== verification/Versions.thy ===== *)
theory Versions
  imports GoBase
begin

text \<open>
  Version comparison and matching of a host component against the criteria of a vulnerability
  feed (\<open>vulnscan/matcher.go\<close>), with the CPE 2.3 record of \<open>vulnscan/cpe.go\<close>.
\<close>

section \<open>Data\<close>

record CPE23 =
  CPE_Part :: string
  CPE_Vendor :: string
  CPE_Product :: string
  CPE_Version :: string
  CPE_Update :: string
  CPE_Edition :: string
  CPE_Language :: string
  CPE_SwEdition :: string
  CPE_TargetSw :: string
  CPE_TargetHw :: string
  CPE_Other :: string
  CPE_RawApp :: string
  CPE_AppVersion :: string

record NVDCpeMatch =
  NM_Vulnerable :: bool
  NM_Criteria :: string
  NM_MatchCriteriaID :: string
  NM_VersionStartIncluding :: string
  NM_VersionStartExcluding :: string
  NM_VersionEndIncluding :: string
  NM_VersionEndExcluding :: string

section \<open>Comparing versions\<close>

definition cleanNumber :: "string \<Rightarrow> string" where
  "cleanNumber s = takeWhile is_digit s"

text \<open>\<open>strconv.ParseInt(s, 10, 64)\<close> on a string of digits: empty and too large are errors.\<close>

definition parse_int64 :: "string \<Rightarrow> int option" where
  "parse_int64 s = (if s = [] then None
     else let n = int (undec s) in if n \<le> max_int64 then Some n else None)"

text \<open>The number of a component: a missing one counts as 0.\<close>

definition component_number :: "string option \<Rightarrow> int option" where
  "component_number p = (case p of None \<Rightarrow> Some 0 | Some s \<Rightarrow> parse_int64 (cleanNumber s))"

definition component_text :: "string option \<Rightarrow> string" where
  "component_text p = (case p of None \<Rightarrow> [] | Some s \<Rightarrow> s)"

definition compare_component :: "string option \<Rightarrow> string option \<Rightarrow> int" where
  "compare_component p q =
     (case (component_number p, component_number q) of
        (Some n1, Some n2) \<Rightarrow> if n1 < n2 then -1 else if n1 > n2 then 1 else 0
      | _ \<Rightarrow> if string_less (component_text p) (component_text q) then -1
             else if string_less (component_text q) (component_text p) then 1 else 0)"

fun compare_parts :: "string list \<Rightarrow> string list \<Rightarrow> int" where
  "compare_parts [] [] = 0"
| "compare_parts (p # ps) [] =
     (let c = compare_component (Some p) None in if c \<noteq> 0 then c else compare_parts ps [])"
| "compare_parts [] (q # qs) =
     (let c = compare_component None (Some q) in if c \<noteq> 0 then c else compare_parts [] qs)"
| "compare_parts (p # ps) (q # qs) =
     (let c = compare_component (Some p) (Some q) in if c \<noteq> 0 then c else compare_parts ps qs)"

definition CompareVersions :: "string \<Rightarrow> string \<Rightarrow> int" where
  "CompareVersions v1 v2 =
     (let v1Clean = trim_prefix (trim_space v1) ''v'';
          v2Clean = trim_prefix (trim_space v2) ''v''
      in if v1Clean = v2Clean then 0
         else compare_parts (split_on CHR ''.'' v1Clean) (split_on CHR ''.'' v2Clean))"

section \<open>Matching\<close>

definition cpe_part :: "string list \<Rightarrow> nat \<Rightarrow> string" where
  "cpe_part parts i = (if i < length parts then parts ! i else [])"

definition ParseCPE23String :: "string \<Rightarrow> CPE23 option" where
  "ParseCPE23String cpeStr =
     (let parts = split_on CHR '':'' cpeStr in
      if length parts < 5 \<or> parts ! 0 \<noteq> ''cpe'' \<or> parts ! 1 \<noteq> ''2.3'' then None
      else Some \<lparr>CPE_Part = parts ! 2, CPE_Vendor = parts ! 3, CPE_Product = parts ! 4,
                 CPE_Version = cpe_part parts 5, CPE_Update = cpe_part parts 6,
                 CPE_Edition = cpe_part parts 7, CPE_Language = cpe_part parts 8,
                 CPE_SwEdition = cpe_part parts 9, CPE_TargetSw = cpe_part parts 10,
                 CPE_TargetHw = cpe_part parts 11, CPE_Other = cpe_part parts 12,
                 CPE_RawApp = [], CPE_AppVersion = []\<rparr>)"

definition checkVersionBounds :: "string \<Rightarrow> NVDCpeMatch \<Rightarrow> bool" where
  "checkVersionBounds hostVer criteria =
     (if hostVer = [] \<or> hostVer = ''*'' then True
      else
        (let hasRange = (NM_VersionStartIncluding criteria \<noteq> [] \<or> NM_VersionStartExcluding criteria \<noteq> []
               \<or> NM_VersionEndIncluding criteria \<noteq> [] \<or> NM_VersionEndExcluding criteria \<noteq> []) in
         if hasRange then
           (if NM_VersionStartIncluding criteria \<noteq> []
               \<and> CompareVersions hostVer (NM_VersionStartIncluding criteria) < 0 then False
            else if NM_VersionStartExcluding criteria \<noteq> []
               \<and> CompareVersions hostVer (NM_VersionStartExcluding criteria) \<le> 0 then False
            else if NM_VersionEndIncluding criteria \<noteq> []
               \<and> CompareVersions hostVer (NM_VersionEndIncluding criteria) > 0 then False
            else if NM_VersionEndExcluding criteria \<noteq> []
               \<and> CompareVersions hostVer (NM_VersionEndExcluding criteria) \<ge> 0 then False
            else True)
         else
           (case ParseCPE23String (NM_Criteria criteria) of
              None \<Rightarrow> True
            | Some critCPE \<Rightarrow>
                if CPE_Version critCPE = ''*'' \<or> CPE_Version critCPE = ''-'' then True
                else CompareVersions hostVer (CPE_Version critCPE) = 0
                     \<or> equal_fold hostVer (CPE_Version critCPE))))"

text \<open>The name check shared by vendor and product.\<close>

definition name_mismatch :: "string \<Rightarrow> string \<Rightarrow> bool" where
  "name_mismatch crit host \<longleftrightarrow>
     crit \<noteq> ''*'' \<and> host \<noteq> ''*'' \<and> \<not> equal_fold crit host
     \<and> \<not> contains (to_lower host) (to_lower crit) \<and> \<not> contains (to_lower crit) (to_lower host)"

definition MatchesCPE :: "CPE23 \<Rightarrow> NVDCpeMatch \<Rightarrow> bool" where
  "MatchesCPE hostCPE criteria =
     (if \<not> NM_Vulnerable criteria \<and> NM_Criteria criteria = [] then False
      else case ParseCPE23String (NM_Criteria criteria) of
        None \<Rightarrow>
          if contains (to_lower (NM_Criteria criteria)) (CPE_Product hostCPE)
          then checkVersionBounds (CPE_Version hostCPE) criteria else False
      | Some critCPE \<Rightarrow>
          if CPE_Part critCPE \<noteq> ''*'' \<and> CPE_Part hostCPE \<noteq> ''*'' \<and> CPE_Part critCPE \<noteq> CPE_Part hostCPE
          then False
          else if name_mismatch (CPE_Vendor critCPE) (CPE_Vendor hostCPE) then False
          else if name_mismatch (CPE_Product critCPE) (CPE_Product hostCPE) then False
          else checkVersionBounds (CPE_Version hostCPE) criteria)"

section \<open>Comparison is antisymmetric\<close>

lemma compare_component_antisym: "compare_component q p = - compare_component p q"
proof -
  let ?l = "string_less (component_text p) (component_text q)"
  let ?g = "string_less (component_text q) (component_text p)"
  have t: "(if ?g then -1 else if ?l then 1 else 0) = - (if ?l then -1 else if ?g then 1 else (0 :: int))"
    using string_less_asym [of "component_text p" "component_text q"] by simp
  show ?thesis
  proof (cases "\<exists>a b. component_number p = Some a \<and> component_number q = Some b")
    case True
    then show ?thesis by (auto simp: compare_component_def)
  next
    case False
    then have c: "compare_component p q = (if ?l then -1 else if ?g then 1 else 0)"
      "compare_component q p = (if ?g then -1 else if ?l then 1 else 0)"
      by (cases "component_number p"; cases "component_number q"; simp add: compare_component_def)+
    show ?thesis unfolding c by (rule t)
  qed
qed

lemma compare_parts_antisym: "compare_parts qs ps = - compare_parts ps qs"
proof (induction ps qs rule: compare_parts.induct)
  case (2 p ps)
  then show ?case using compare_component_antisym [of None "Some p"] by (auto simp: Let_def)
next
  case (3 q qs)
  then show ?case using compare_component_antisym [of "Some q" None] by (auto simp: Let_def)
next
  case (4 p ps q qs)
  then show ?case using compare_component_antisym [of "Some q" "Some p"] by (auto simp: Let_def)
qed simp

lemma CompareVersions_antisym: "CompareVersions v2 v1 = - CompareVersions v1 v2"
proof -
  let ?c = "\<lambda>v. trim_prefix (trim_space v) ''v''"
  have "compare_parts (split_on CHR ''.'' (?c v2)) (split_on CHR ''.'' (?c v1))
      = - compare_parts (split_on CHR ''.'' (?c v1)) (split_on CHR ''.'' (?c v2))"
    by (rule compare_parts_antisym)
  then show ?thesis by (cases "?c v1 = ?c v2") (simp_all add: CompareVersions_def Let_def)
qed

section \<open>Numeric versions\<close>

text \<open>A numeric version is a list of numbers, printed with dots and perhaps a leading \<open>v\<close>.\<close>

definition render :: "bool \<Rightarrow> nat list \<Rightarrow> string" where
  "render v xs = (if v then ''v'' else []) @ join ''.'' (map dec_nat xs)"

definition fits_version :: "nat list \<Rightarrow> bool" where
  "fits_version xs \<longleftrightarrow> xs \<noteq> [] \<and> (\<forall>x \<in> set xs. int x \<le> max_int64)"

definition comp :: "nat list \<Rightarrow> nat \<Rightarrow> nat" where
  "comp xs i = (if i < length xs then xs ! i else 0)"

text \<open>Order of the component sequences, padded with zeros.\<close>

definition version_less :: "nat list \<Rightarrow> nat list \<Rightarrow> bool" where
  "version_less xs ys \<longleftrightarrow> (\<exists>i. (\<forall>j < i. comp xs j = comp ys j) \<and> comp xs i < comp ys i)"

lemma comp_simps [simp]: "comp [] i = 0" "comp (x # xs) 0 = x" "comp (x # xs) (Suc i) = comp xs i"
  by (simp_all add: comp_def)

lemma version_less_Cons:
  assumes "\<And>i. a (Suc i) = comp xs i" "\<And>i. b (Suc i) = comp ys i"
  shows "(\<exists>i. (\<forall>j < i. a j = b j) \<and> a i < b i) \<longleftrightarrow> a 0 < b 0 \<or> (a 0 = b 0 \<and> version_less xs ys)"
proof
  assume "\<exists>i. (\<forall>j < i. a j = b j) \<and> a i < (b i :: nat)"
  then obtain i where i: "\<forall>j < i. a j = b j" "a i < b i" by blast
  show "a 0 < b 0 \<or> (a 0 = b 0 \<and> version_less xs ys)"
  proof (cases i)
    case (Suc k)
    then have "\<forall>j < k. comp xs j = comp ys j" "comp xs k < comp ys k" "a 0 = b 0"
      using i assms by (metis Suc_less_eq, metis, metis zero_less_Suc)
    then show ?thesis by (auto simp: version_less_def)
  qed (use i in simp)
next
  assume "a 0 < b 0 \<or> (a 0 = b 0 \<and> version_less xs ys)"
  then show "\<exists>i. (\<forall>j < i. a j = b j) \<and> a i < b i"
  proof
    assume "a 0 = b 0 \<and> version_less xs ys"
    then obtain i where "a 0 = b 0" "\<forall>j < i. comp xs j = comp ys j" "comp xs i < comp ys i"
      by (auto simp: version_less_def)
    then show ?thesis using assms by (intro exI [of _ "Suc i"]) (auto simp: less_Suc_eq_0_disj)
  qed auto
qed

lemma version_less_simps [simp]:
  "\<not> version_less [] []"
  "version_less (x # xs) [] \<longleftrightarrow> x = 0 \<and> version_less xs []"
  "version_less [] (y # ys) \<longleftrightarrow> 0 < y \<or> version_less [] ys"
  "version_less (x # xs) (y # ys) \<longleftrightarrow> x < y \<or> (x = y \<and> version_less xs ys)"
  using version_less_Cons [of "comp (x # xs)" xs "comp []" "[]"]
    version_less_Cons [of "comp []" "[]" "comp (y # ys)" ys]
    version_less_Cons [of "comp (x # xs)" xs "comp (y # ys)" ys]
  by (auto simp: version_less_def)

lemma digits_dec_nat: "\<forall>c \<in> set (dec_nat n). is_digit c"
  using dec_nat_digits by blast

lemma cleanNumber_dec_nat [simp]: "cleanNumber (dec_nat n) = dec_nat n"
  using digits_dec_nat by (simp add: cleanNumber_def takeWhile_eq_all_conv)

lemma component_number_dec_nat [simp]:
  "int n \<le> max_int64 \<Longrightarrow> component_number (Some (dec_nat n)) = Some (int n)" "component_number None = Some 0"
  by (simp_all add: component_number_def parse_int64_def undec_dec_nat)

lemma compare_parts_numeric:
  assumes "\<forall>x \<in> set xs. int x \<le> max_int64" "\<forall>y \<in> set ys. int y \<le> max_int64"
  shows "compare_parts (map dec_nat xs) (map dec_nat ys) =
     (if version_less xs ys then -1 else if version_less ys xs then 1 else 0)"
  using assms
proof (induction "map dec_nat xs" "map dec_nat ys" arbitrary: xs ys rule: compare_parts.induct)
  case 1
  then show ?case by simp
next
  case (2 p ps)
  then obtain z zs where "xs = z # zs" "p = dec_nat z" "ps = map dec_nat zs" "ys = []" by auto
  with 2 show ?case by (auto simp: compare_component_def Let_def)
next
  case (3 q qs)
  then obtain z zs where "ys = z # zs" "q = dec_nat z" "qs = map dec_nat zs" "xs = []" by auto
  with 3 show ?case by (auto simp: compare_component_def Let_def)
next
  case (4 p ps q qs)
  then obtain z zs w ws where "xs = z # zs" "p = dec_nat z" "ps = map dec_nat zs"
    "ys = w # ws" "q = dec_nat w" "qs = map dec_nat ws" by auto
  with 4 show ?case by (auto simp: compare_component_def Let_def)
qed

lemma render_chars: "c \<in> set (join ''.'' (map dec_nat xs)) \<Longrightarrow> is_digit c \<or> c = CHR ''.''"
proof (induction xs)
  case (Cons x xs)
  then show ?case using dec_nat_digits by (cases xs) auto
qed simp

lemma trim_id: "\<forall>c \<in> set s. \<not> p c \<Longrightarrow> trim p s = s"
proof -
  have d: "dropWhile p t = t" if "\<forall>c \<in> set t. \<not> p c" for t using that by (cases t) auto
  assume s: "\<forall>c \<in> set s. \<not> p c"
  then have "\<forall>c \<in> set (rev s). \<not> p c" by simp
  from d [OF s] d [OF this] show ?thesis by (simp add: trim_def)
qed

lemma clean_render [simp]:
  "trim_prefix (trim_space (render v xs)) ''v'' = join ''.'' (map dec_nat xs)"
proof -
  have "\<not> is_space c" if "is_digit c \<or> c = CHR ''.'' \<or> c = CHR ''v''" for c
    using that by (auto simp: is_space_def is_digit_def Let_def)
  then have "\<forall>c \<in> set (render v xs). \<not> is_space c" using render_chars by (auto simp: render_def)
  then have t: "trim_space (render v xs) = render v xs" by (simp add: trim_space_def trim_id)
  have "CHR ''v'' \<notin> set (join ''.'' (map dec_nat xs))"
    using render_chars [of "CHR ''v''" xs] by (auto simp: is_digit_def)
  then have "\<not> has_prefix (join ''.'' (map dec_nat xs)) ''v''"
    by (cases "join ''.'' (map dec_nat xs)") (auto simp: has_prefix_def)
  then show ?thesis unfolding t by (simp add: render_def trim_prefix_def has_prefix_def)
qed

lemma split_render: "xs \<noteq> [] \<Longrightarrow> split_on CHR ''.'' (join ''.'' (map dec_nat xs)) = map dec_nat xs"
proof (rule split_on_join)
  have "CHR ''.'' \<notin> set (dec_nat n)" for n using dec_nat_digits [of "CHR ''.''" n] by (auto simp: is_digit_def)
  then show "\<forall>w \<in> set (map dec_nat xs). CHR ''.'' \<notin> set w" by auto
qed simp

lemma version_less_irrefl [simp]: "\<not> version_less xs xs"
  by (simp add: version_less_def)

lemma CompareVersions_render:
  assumes "fits_version xs" "fits_version ys"
  shows "CompareVersions (render v xs) (render w ys) =
     (if version_less xs ys then -1 else if version_less ys xs then 1 else 0)"
proof (cases "join ''.'' (map dec_nat xs) = join ''.'' (map dec_nat ys)")
  case True
  then have "map dec_nat xs = map dec_nat ys"
    using split_render assms by (metis fits_version_def)
  then have "xs = ys" by (rule map_injective) (simp add: inj_def)
  then show ?thesis by (simp add: CompareVersions_def)
next
  case False
  then show ?thesis using assms compare_parts_numeric
    by (simp add: CompareVersions_def split_render fits_version_def)
qed

lemma version_less_total:
  "\<not> version_less xs ys \<Longrightarrow> \<not> version_less ys xs \<Longrightarrow> comp xs = comp ys"
proof (rule ccontr)
  assume n: "\<not> version_less xs ys" "\<not> version_less ys xs" and "comp xs \<noteq> comp ys"
  then obtain i where "comp xs i \<noteq> comp ys i" by (auto simp: fun_eq_iff)
  then obtain k where "comp xs k \<noteq> comp ys k" "\<forall>j < k. comp xs j = comp ys j"
    using exists_least_iff [of "\<lambda>i. comp xs i \<noteq> comp ys i"] by blast
  then show False using n unfolding version_less_def by (metis linorder_less_linear)
qed

lemma version_less_antisym: "version_less xs ys \<Longrightarrow> \<not> version_less ys xs"
proof
  assume "version_less xs ys" "version_less ys xs"
  then obtain i k where "\<forall>j < i. comp xs j = comp ys j" "comp xs i < comp ys i"
    "\<forall>j < k. comp ys j = comp xs j" "comp ys k < comp xs k" by (auto simp: version_less_def)
  then show False by (cases i k rule: linorder_cases) auto
qed

section \<open>Theorems\<close>

text \<open>C17. On versions made of numbers (each within 64 bits, with or without a leading \<open>v\<close>) the
  comparison is the numeric order of the components, missing ones counting as zero: the first
  component that differs decides, and versions are equal exactly when they agree up to trailing
  zeros. On all strings whatsoever it is antisymmetric.\<close>

theorem CompareVersions_numeric:
  assumes "fits_version xs" "fits_version ys"
  shows "(CompareVersions (render v xs) (render w ys) = -1 \<longleftrightarrow> version_less xs ys)
   \<and> (CompareVersions (render v xs) (render w ys) = 1 \<longleftrightarrow> version_less ys xs)
   \<and> (CompareVersions (render v xs) (render w ys) = 0 \<longleftrightarrow> comp xs = comp ys)
   \<and> CompareVersions s t = - CompareVersions t s"
proof -
  have "comp xs = comp ys \<longleftrightarrow> \<not> version_less xs ys \<and> \<not> version_less ys xs"
    using version_less_total [of xs ys] by (auto simp: version_less_def)
  then have "(CompareVersions (render v xs) (render w ys) = -1 \<longleftrightarrow> version_less xs ys)
   \<and> (CompareVersions (render v xs) (render w ys) = 1 \<longleftrightarrow> version_less ys xs)
   \<and> (CompareVersions (render v xs) (render w ys) = 0 \<longleftrightarrow> comp xs = comp ys)"
    using CompareVersions_render [OF assms, of v w] version_less_antisym [of xs ys] by simp
  with CompareVersions_antisym show ?thesis by blast
qed

text \<open>Witness of C17: 1.9 precedes v1.10, and 1.0 equals 1.\<close>

theorem CompareVersions_numeric_witness:
  "CompareVersions (render False [1, 9]) (render True [1, 10]) = -1
   \<and> CompareVersions (render False [1, 0]) (render False [1]) = 0"
proof -
  have f: "fits_version [1, 9]" "fits_version [1, 10]" "fits_version [1, 0]" "fits_version [1]"
    by (simp_all add: fits_version_def max_int64_def)
  have "comp [1, 0] = comp [1]" by (auto simp: fun_eq_iff comp_def less_Suc_eq)
  then show ?thesis
    using conjunct1 [OF CompareVersions_numeric [OF f(1,2), of False True]]
      CompareVersions_numeric [OF f(3,4), of False False, THEN conjunct2, THEN conjunct2, THEN conjunct1]
    by simp
qed

text \<open>A host is matched by a criterion that names its product and the first fixed version exactly
  when its own version precedes the fixed one; so an updated host is never reported, and a host
  below the fix always is.\<close>

theorem MatchesCPE_fixed_version:
  assumes "ParseCPE23String (NM_Criteria crit) = Some c" "CPE_Part c = CPE_Part host"
    and "CPE_Vendor c = CPE_Vendor host" "CPE_Product c = CPE_Product host"
    and "NM_VersionStartIncluding crit = []" "NM_VersionStartExcluding crit = []"
    and "NM_VersionEndIncluding crit = []" "NM_VersionEndExcluding crit = render w ys"
    and "CPE_Version host = render v xs" "fits_version xs" "fits_version ys"
  shows "MatchesCPE host crit \<longleftrightarrow> version_less xs ys"
proof -
  have ne: "join ''.'' (map dec_nat zs) \<noteq> []" if "fits_version zs" for zs
    using that by (cases zs rule: list.exhaust; cases "tl zs") (auto simp: fits_version_def)
  have "NM_Criteria crit \<noteq> []" using assms(1) by (auto simp: ParseCPE23String_def)
  moreover have "\<not> name_mismatch s s" for s by (simp add: name_mismatch_def)
  moreover have "CPE_Version host \<noteq> []" "CPE_Version host \<noteq> ''*''" "NM_VersionEndExcluding crit \<noteq> []"
    using ne [OF assms(10)] ne [OF assms(11)] render_chars [of "CHR ''*''" xs] assms(8,9)
    by (auto simp: render_def is_digit_def Cons_eq_append_conv)
  moreover have "CompareVersions (CPE_Version host) (NM_VersionEndExcluding crit) \<ge> 0 \<longleftrightarrow> \<not> version_less xs ys"
    using CompareVersions_render [OF assms(10,11)] by (simp add: assms(8,9))
  ultimately show ?thesis using assms(1-7) by (simp add: MatchesCPE_def checkVersionBounds_def)
qed

text \<open>A concrete instance.\<close>

theorem MatchesCPE_fixed_version_witness:
  "MatchesCPE \<lparr>CPE_Part = ''a'', CPE_Vendor = ''google'', CPE_Product = ''chrome'', CPE_Version = render False [9, 10],
      CPE_Update = [], CPE_Edition = [], CPE_Language = [], CPE_SwEdition = [], CPE_TargetSw = [],
      CPE_TargetHw = [], CPE_Other = [], CPE_RawApp = [], CPE_AppVersion = []\<rparr>
    \<lparr>NM_Vulnerable = True, NM_Criteria = ''cpe:2.3:a:google:chrome:*'', NM_MatchCriteriaID = [],
     NM_VersionStartIncluding = [], NM_VersionStartExcluding = [], NM_VersionEndIncluding = [],
     NM_VersionEndExcluding = render True [10]\<rparr>"
proof -
  let ?c = "''cpe:2.3:a:google:chrome:*''"
  have p: "ParseCPE23String ?c = Some \<lparr>CPE_Part = ''a'', CPE_Vendor = ''google'', CPE_Product = ''chrome'',
      CPE_Version = ''*'', CPE_Update = [], CPE_Edition = [], CPE_Language = [], CPE_SwEdition = [],
      CPE_TargetSw = [], CPE_TargetHw = [], CPE_Other = [], CPE_RawApp = [], CPE_AppVersion = []\<rparr>"
    by (simp add: ParseCPE23String_def cpe_part_def)
  have "fits_version [9, 10]" "fits_version [10]" by (simp_all add: fits_version_def max_int64_def)
  then show ?thesis
    by (subst MatchesCPE_fixed_version [where v = False and w = True and xs = "[9, 10]" and ys = "[10]"])
      (simp_all only: p option.inject CPE23.select_convs NVDCpeMatch.select_convs, simp_all)
qed

end
