(* ===== verification/Cpe.thy ===== *)
theory Cpe
  imports Versions Snapshot
begin

text \<open>
  Construction of CPE 2.3 identifiers from installed applications and the operating system
  (\<open>vulnscan/cpe.go\<close>). The regular expressions are written out as functions on the bytes.
\<close>

section \<open>Field sanitising\<close>

text \<open>\<open>nonAlphanumericRegex\<close> keeps letters, digits, underscore, dot and hyphen.\<close>

definition cpe_char :: "char \<Rightarrow> bool" where
  "cpe_char c \<longleftrightarrow> (let n = (of_char c :: nat) in
     (97 \<le> n \<and> n \<le> 122) \<or> (65 \<le> n \<and> n \<le> 90) \<or> (48 \<le> n \<and> n \<le> 57)
     \<or> c = CHR ''_'' \<or> c = CHR ''.'' \<or> c = CHR ''-'')"

text \<open>\<open>multipleUnderscores\<close>: a run of underscores becomes one.\<close>

fun collapse :: "string \<Rightarrow> string" where
  "collapse [] = []"
| "collapse [c] = [c]"
| "collapse (c # d # s) =
     (if c = CHR ''_'' \<and> d = CHR ''_'' then collapse (d # s) else c # collapse (d # s))"

definition sanitizeCPEField :: "string \<Rightarrow> string" where
  "sanitizeCPEField val =
     (let v = to_lower (trim_space val);
          v = map (\<lambda>c. if c = CHR '' '' then CHR ''_'' else c) v;
          v = filter cpe_char v;
          v = collapse v
      in trim (\<lambda>c. c = CHR ''_'') v)"

text \<open>A field of the printed identifier: \<open>*\<close> stands for an empty one.\<close>

definition cpe_field :: "string \<Rightarrow> string" where
  "cpe_field val = (let v = sanitizeCPEField val in if v = [] then ''*'' else v)"

definition CPE_String :: "CPE23 \<Rightarrow> string" where
  "CPE_String c =
     join '':'' [''cpe'', ''2.3'', if CPE_Part c = [] then ''a'' else CPE_Part c,
       cpe_field (CPE_Vendor c), cpe_field (CPE_Product c), cpe_field (CPE_Version c),
       cpe_field (CPE_Update c), cpe_field (CPE_Edition c), cpe_field (CPE_Language c),
       cpe_field (CPE_SwEdition c), cpe_field (CPE_TargetSw c), cpe_field (CPE_TargetHw c),
       cpe_field (CPE_Other c)]"

section \<open>Normalisation\<close>

text \<open>First word of \<open>strings.Fields\<close>, if there is one.\<close>

definition first_field :: "string \<Rightarrow> string option" where
  "first_field s = (let t = dropWhile is_space s in
     if t = [] then None else Some (takeWhile (\<lambda>c. \<not> is_space c) t))"

definition normalizeVendor :: "string option \<Rightarrow> string \<Rightarrow> string" where
  "normalizeVendor publisher appName =
     (let pub = (case publisher of None \<Rightarrow> [] | Some p \<Rightarrow> to_lower (trim_space p));
          appLow = to_lower appName
      in if contains pub ''google'' \<or> contains appLow ''google chrome'' then ''google''
         else if contains pub ''microsoft'' \<or> contains appLow ''microsoft edge''
            \<or> contains appLow ''visual studio'' then ''microsoft''
         else if contains pub ''mozilla'' \<or> contains appLow ''firefox'' then ''mozilla''
         else if contains pub ''adobe'' \<or> contains appLow ''acrobat'' \<or> contains appLow ''photoshop''
         then ''adobe''
         else if contains pub ''oracle'' \<or> contains appLow ''java'' \<or> contains appLow ''virtualbox''
         then ''oracle''
         else if contains pub ''cisco'' \<or> contains appLow ''anyconnect'' then ''cisco''
         else if contains pub ''docker'' \<or> contains appLow ''docker desktop'' then ''docker''
         else if contains pub ''python'' \<or> contains appLow ''python 3'' then ''python''
         else if contains pub ''7-zip'' \<or> contains appLow ''7-zip'' then ''7-zip''
         else if contains pub ''wireshark'' \<or> contains appLow ''wireshark'' then ''wireshark''
         else if contains pub ''notepad++'' \<or> contains appLow ''notepad++'' then ''notepad-plus-plus''
         else if pub \<noteq> [] \<and> sanitizeCPEField pub \<noteq> [] then sanitizeCPEField pub
         else (case first_field appName of Some w \<Rightarrow> sanitizeCPEField w | None \<Rightarrow> ''unknown''))"

definition normalizeProduct :: "string \<Rightarrow> string" where
  "normalizeProduct appName =
     (let appLow = to_lower (trim_space appName)
      in if contains appLow ''google chrome'' \<or> appLow = ''chrome'' then ''chrome''
         else if contains appLow ''microsoft edge'' \<or> appLow = ''edge'' then ''edge''
         else if contains appLow ''mozilla firefox'' \<or> appLow = ''firefox'' then ''firefox''
         else if contains appLow ''adobe acrobat reader'' \<or> contains appLow ''acrobat reader''
         then ''acrobat_reader''
         else if contains appLow ''7-zip'' then ''7-zip''
         else if contains appLow ''wireshark'' then ''wireshark''
         else if contains appLow ''notepad++'' then ''notepad'' @ [CHR 0x5C, CHR ''+'', CHR 0x5C, CHR ''+'']
         else if contains appLow ''docker desktop'' then ''docker_desktop''
         else if contains appLow ''python'' then ''python''
         else if contains appLow ''vlc media player'' \<or> contains appLow ''vlc'' then ''vlc_media_player''
         else if contains appLow ''git'' then ''git''
         else if sanitizeCPEField appLow = [] then ''unknown'' else sanitizeCPEField appLow)"

text \<open>\<open>versionExtractRegex\<close>: digits, then groups of a dot and digits, after an optional \<open>v\<close>.\<close>

function dotted_tail :: "string \<Rightarrow> string" where
  "dotted_tail s =
     (case s of
        c # d # r \<Rightarrow>
          if c = CHR ''.'' \<and> is_digit d
          then c # takeWhile is_digit (d # r) @ dotted_tail (dropWhile is_digit (d # r)) else []
      | _ \<Rightarrow> [])"
  by auto
termination
proof (relation "measure length")
  fix s :: string and c x d r
  assume "s = c # x" "x = d # r" "c = CHR ''.'' \<and> is_digit d"
  then show "(dropWhile is_digit (d # r), s) \<in> measure length"
    using length_dropWhile_le [of is_digit "d # r"] by simp
qed simp

declare dotted_tail.simps [simp del]

definition extract_version :: "string \<Rightarrow> string option" where
  "extract_version v =
     (let s = trim_prefix v ''v''; digits = takeWhile is_digit s in
      if digits = [] then None else Some (digits @ dotted_tail (dropWhile is_digit s)))"

definition normalizeVersion :: "string option \<Rightarrow> string" where
  "normalizeVersion ver =
     (case ver of None \<Rightarrow> ''*''
      | Some w \<Rightarrow>
          (let v = trim_space w in
           if v = [] then ''*''
           else case extract_version v of Some m \<Rightarrow> m | None \<Rightarrow> sanitizeCPEField v))"

definition BuildCPEFromApp :: "SnapshotApplicationEntry \<Rightarrow> CPE23" where
  "BuildCPEFromApp app =
     (let vendor = normalizeVendor (SAP_Publisher app) (SAP_Name app);
          product = normalizeProduct (SAP_Name app);
          version = normalizeVersion (SAP_Version app);
          targetHw = (case SAP_Architecture app of
              None \<Rightarrow> ''*''
            | Some a \<Rightarrow>
                (let arch = to_lower a in
                 if contains arch ''64'' then ''x64''
                 else if contains arch ''86'' \<or> contains arch ''32'' then ''x86'' else ''*''))
      in \<lparr>CPE_Part = ''a'', CPE_Vendor = vendor, CPE_Product = product, CPE_Version = version,
          CPE_Update = [], CPE_Edition = [], CPE_Language = [], CPE_SwEdition = [],
          CPE_TargetSw = ''windows'', CPE_TargetHw = targetHw, CPE_Other = [],
          CPE_RawApp = SAP_Name app, CPE_AppVersion = version\<rparr>)"

definition BuildCPEFromOS :: "string \<Rightarrow> string \<Rightarrow> string \<Rightarrow> CPE23" where
  "BuildCPEFromOS osName osVersion osBuild =
     (let lowOS = to_lower osName;
          (product, update) =
            (if contains lowOS ''windows 11'' then
               (''windows_11'', if contains lowOS ''23h2'' then ''23h2''
                  else if contains lowOS ''22h2'' then ''22h2'' else ''*'')
             else if contains lowOS ''windows 10'' then (''windows_10'', ''*'')
             else if contains lowOS ''server 2022'' then (''windows_server_2022'', ''*'')
             else if contains lowOS ''server 2025'' then (''windows_server_2025'', ''*'')
             else if contains lowOS ''server 2019'' then (''windows_server_2019'', ''*'')
             else (''windows'', ''*''));
          version = (if osVersion = [] \<and> osBuild \<noteq> [] then osBuild else osVersion)
      in \<lparr>CPE_Part = ''o'', CPE_Vendor = ''microsoft'', CPE_Product = product,
          CPE_Version = normalizeVersion (Some version), CPE_Update = update, CPE_Edition = [],
          CPE_Language = [], CPE_SwEdition = [], CPE_TargetSw = ''*'', CPE_TargetHw = ''x64'',
          CPE_Other = [], CPE_RawApp = osName, CPE_AppVersion = version\<rparr>)"

definition ExtractHostCPEs :: "HostSnapshotPayload option \<Rightarrow> CPE23 list" where
  "ExtractHostCPEs snapshot =
     (case snapshot of None \<Rightarrow> []
      | Some s \<Rightarrow>
          BuildCPEFromOS (SSI_OSName (HS_SystemIdentity s)) (SSI_OSVersion (HS_SystemIdentity s))
            (SSI_OSBuild (HS_SystemIdentity s))
          # map BuildCPEFromApp
              (filter (\<lambda>app. trim_space (SAP_Name app) \<noteq> []) (SSW_Applications (HS_Software s))))"

section \<open>The shape of sanitised fields\<close>

definition no_double :: "string \<Rightarrow> bool" where
  "no_double s \<longleftrightarrow> successively (\<lambda>a b. \<not> (a = CHR ''_'' \<and> b = CHR ''_'')) s"

text \<open>What sanitising produces, and leaves alone.\<close>

definition clean_field :: "string \<Rightarrow> bool" where
  "clean_field s \<longleftrightarrow> (\<forall>c \<in> set s. cpe_char c \<and> lower_char c = c) \<and> no_double s
     \<and> (s = [] \<or> hd s \<noteq> CHR ''_'' \<and> last s \<noteq> CHR ''_'')"

lemma collapse_hd: "s \<noteq> [] \<Longrightarrow> collapse s \<noteq> [] \<and> hd (collapse s) = hd s"
  by (induction s rule: collapse.induct) auto

lemma set_collapse: "set (collapse s) = set s"
  by (induction s rule: collapse.induct) auto

lemma no_double_Cons:
  "no_double (c # s) \<longleftrightarrow> no_double s \<and> (s = [] \<or> \<not> (c = CHR ''_'' \<and> hd s = CHR ''_''))"
  by (cases s) (auto simp: no_double_def)

lemma no_double_collapse: "no_double (collapse s)"
proof (induction s rule: collapse.induct)
  case (3 c d s)
  then show ?case using collapse_hd [of "d # s"] by (auto simp: no_double_Cons)
qed (simp_all add: no_double_def)

lemma collapse_id: "no_double s \<Longrightarrow> collapse s = s"
  by (induction s rule: collapse.induct) (auto simp: no_double_Cons)

lemma no_double_append: "no_double (a @ b) \<Longrightarrow> no_double a \<and> no_double b"
  by (auto simp: no_double_def successively_append_iff)

lemma no_double_rev: "no_double s \<Longrightarrow> no_double (rev s)"
  by (auto simp: no_double_def elim: successively_mono)

lemma no_double_dropWhile: "no_double s \<Longrightarrow> no_double (dropWhile p s)"
  by (metis no_double_append takeWhile_dropWhile_id)

lemma no_double_trim: "no_double s \<Longrightarrow> no_double (trim p s)"
  by (simp add: trim_def no_double_rev no_double_dropWhile)

lemma trim_ends: "trim p s = [] \<or> \<not> p (hd (trim p s)) \<and> \<not> p (last (trim p s))"
proof -
  have l: "trim p s = [] \<or> \<not> p (last (trim p s))"
    unfolding trim_def using hd_dropWhile [of p "rev (dropWhile p s)"]
    by (cases "dropWhile p (rev (dropWhile p s)) = []") (simp_all only: last_rev rev_is_Nil_conv rev.simps, auto)
  have "dropWhile p s = [] \<or> \<not> p (hd (dropWhile p s))" using hd_dropWhile by blast
  from dropWhile_rev_dropWhile [of _ p, OF this]
  have "dropWhile p (trim p s) = trim p s" by (simp only: trim_def)
  then have "trim p s = [] \<or> \<not> p (hd (trim p s))" by (metis hd_dropWhile)
  with l show ?thesis by blast
qed

lemma cpe_underscore: "cpe_char CHR ''_''" "lower_char CHR ''_'' = CHR ''_''" "\<not> is_space CHR ''_''"
  by (simp_all add: cpe_char_def lower_char_def is_space_def)

lemma cpe_char_not_space: "cpe_char c \<Longrightarrow> \<not> is_space c \<and> c \<noteq> CHR '' ''"
  by (auto simp: cpe_char_def is_space_def Let_def)

lemma clean_sanitize: "clean_field (sanitizeCPEField val)"
proof -
  let ?l = "to_lower (trim_space val)"
  let ?r = "map (\<lambda>c. if c = CHR '' '' then CHR ''_'' else c) ?l"
  let ?f = "collapse (filter cpe_char ?r)"
  have s: "sanitizeCPEField val = trim (\<lambda>c. c = CHR ''_'') ?f" by (simp only: sanitizeCPEField_def Let_def)
  have "lower_char c = c" if "c \<in> set ?r" for c using that by (auto simp: to_lower_def cpe_underscore)
  then have "\<forall>c \<in> set ?f. cpe_char c \<and> lower_char c = c" by (simp only: set_collapse set_filter) blast
  then have "\<forall>c \<in> set (sanitizeCPEField val). cpe_char c \<and> lower_char c = c"
    unfolding s using set_trim [of "\<lambda>c. c = CHR ''_''" ?f] by blast
  moreover have "no_double (sanitizeCPEField val)" unfolding s by (rule no_double_trim [OF no_double_collapse])
  ultimately show ?thesis using trim_ends [of "\<lambda>c. c = CHR ''_''" ?f] unfolding clean_field_def s by blast
qed

lemma sanitize_clean:
  assumes "clean_field s" shows "sanitizeCPEField s = s"
proof -
  have c: "\<forall>c \<in> set s. cpe_char c \<and> lower_char c = c" "no_double s"
    "s = [] \<or> hd s \<noteq> CHR ''_'' \<and> last s \<noteq> CHR ''_''" using assms by (auto simp: clean_field_def)
  have "\<forall>c \<in> set s. \<not> is_space c" using c(1) cpe_char_not_space by blast
  then have "trim_space s = s" unfolding trim_space_def by (rule trim_id)
  moreover have "to_lower s = s" using c(1) by (simp add: to_lower_def map_idI)
  moreover have "map (\<lambda>c. if c = CHR '' '' then CHR ''_'' else c) s = s"
    using c(1) cpe_char_not_space by (intro map_idI) auto
  moreover have "filter cpe_char s = s" using c(1) by (simp add: filter_id_conv)
  moreover have "collapse s = s" by (rule collapse_id [OF c(2)])
  moreover have "trim (\<lambda>c. c = CHR ''_'') s = s"
  proof (cases "s = []")
    case False
    have d: "dropWhile p t = t" if "t \<noteq> []" "\<not> p (hd t)" for p and t :: string
      using that by (cases t) auto
    have "dropWhile (\<lambda>c. c = CHR ''_'') s = s" "dropWhile (\<lambda>c. c = CHR ''_'') (rev s) = rev s"
      using False c(3) by (auto intro!: d simp: hd_rev)
    then show ?thesis by (simp add: trim_def)
  qed simp
  ultimately show ?thesis by (simp add: sanitizeCPEField_def Let_def)
qed

lemma sanitize_idem [simp]: "sanitizeCPEField (sanitizeCPEField v) = sanitizeCPEField v"
  by (rule sanitize_clean [OF clean_sanitize])

lemma cpe_field_idem [simp]: "cpe_field (cpe_field v) = cpe_field v"
proof -
  have "sanitizeCPEField ''*'' = []"
    by (simp add: sanitizeCPEField_def trim_space_def trim_def is_space_def to_lower_def lower_char_def cpe_char_def)
  then show ?thesis by (simp add: cpe_field_def Let_def)
qed

lemma cpe_field_no_colon: "CHR '':'' \<notin> set (cpe_field v)"
proof -
  have "\<not> cpe_char CHR '':''" by (simp add: cpe_char_def)
  then show ?thesis using clean_sanitize [of v] by (auto simp: cpe_field_def Let_def clean_field_def)
qed

section \<open>Theorems\<close>

text \<open>C18. Round trip of identifiers: a printed identifier parses back to its part and its sanitised
  fields, and printing the parsed record gives the same identifier again; so hosts and cached
  criteria that agree in their sanitised fields have one canonical spelling.\<close>

theorem CPE_roundtrip:
  assumes "CHR '':'' \<notin> set (CPE_Part c)"
  shows "\<exists>d. ParseCPE23String (CPE_String c) = Some d \<and> CPE_String d = CPE_String c
     \<and> CPE_Part d = (if CPE_Part c = [] then ''a'' else CPE_Part c)
     \<and> CPE_Vendor d = cpe_field (CPE_Vendor c) \<and> CPE_Product d = cpe_field (CPE_Product c)
     \<and> CPE_Version d = cpe_field (CPE_Version c) \<and> CPE_TargetHw d = cpe_field (CPE_TargetHw c)
     \<and> (\<forall>ch \<in> set (CPE_Product d). ch = CHR ''*'' \<or> cpe_char ch)"
proof -
  let ?part = "if CPE_Part c = [] then ''a'' else CPE_Part c"
  let ?ws = "[''cpe'', ''2.3'', ?part,
       cpe_field (CPE_Vendor c), cpe_field (CPE_Product c), cpe_field (CPE_Version c),
       cpe_field (CPE_Update c), cpe_field (CPE_Edition c), cpe_field (CPE_Language c),
       cpe_field (CPE_SwEdition c), cpe_field (CPE_TargetSw c), cpe_field (CPE_TargetHw c),
       cpe_field (CPE_Other c)]"
  have "\<forall>w \<in> set ?ws. CHR '':'' \<notin> set w" using assms cpe_field_no_colon by simp
  then have split: "split_on CHR '':'' (CPE_String c) = ?ws"
    unfolding CPE_String_def by (intro split_on_join) simp_all
  let ?d = "\<lparr>CPE_Part = ?part, CPE_Vendor = cpe_field (CPE_Vendor c), CPE_Product = cpe_field (CPE_Product c),
       CPE_Version = cpe_field (CPE_Version c), CPE_Update = cpe_field (CPE_Update c),
       CPE_Edition = cpe_field (CPE_Edition c), CPE_Language = cpe_field (CPE_Language c),
       CPE_SwEdition = cpe_field (CPE_SwEdition c), CPE_TargetSw = cpe_field (CPE_TargetSw c),
       CPE_TargetHw = cpe_field (CPE_TargetHw c), CPE_Other = cpe_field (CPE_Other c),
       CPE_RawApp = [], CPE_AppVersion = []\<rparr>"
  have "ParseCPE23String (CPE_String c) = Some ?d"
    unfolding ParseCPE23String_def split by (simp add: cpe_part_def)
  moreover have "CPE_String ?d = CPE_String c" by (simp add: CPE_String_def)
  moreover have "\<forall>ch \<in> set (CPE_Product ?d). ch = CHR ''*'' \<or> cpe_char ch"
    using clean_sanitize [of "CPE_Product c"] by (auto simp: cpe_field_def Let_def clean_field_def)
  ultimately show ?thesis by (intro exI [of _ ?d]) simp
qed

text \<open>Witness of C18: the operating-system identifier of a Windows 10 host.\<close>

theorem CPE_roundtrip_witness:
  "\<exists>d. ParseCPE23String (CPE_String (BuildCPEFromOS ''Windows 10 Pro'' ''10.0.19045'' [])) = Some d
     \<and> CPE_Part d = ''o'' \<and> CPE_Vendor d = cpe_field ''microsoft''"
proof -
  let ?c = "BuildCPEFromOS ''Windows 10 Pro'' ''10.0.19045'' []"
  have p: "CPE_Part ?c = ''o''" "CPE_Vendor ?c = ''microsoft''"
    by (simp_all add: BuildCPEFromOS_def Let_def split: prod.split)
  then have "CHR '':'' \<notin> set (CPE_Part ?c)" by simp
  from CPE_roundtrip [OF this] p show ?thesis by auto
qed

end
