(* ===== verification/Findings.thy ===== *)
theory Findings
  imports Cpe
begin

text \<open>
  Vulnerability findings (\<open>vulnscan/types.go\<close>, \<open>vulnscan/repository.go\<close>, \<open>vulnscan/engine.go\<close>). The
  repository stores one pointer of a finding in two maps and updates through it, so findings live
  at addresses of an explicit heap. Identifiers of new findings are drawn from \<open>new_id\<close>, indexed by
  the address; dates are parsed by \<open>parse_date\<close>; CVSS scores are rationals.
\<close>

section \<open>Data\<close>

record VulnerabilityFinding =
  VF_ID :: string
  VF_TenantID :: string
  VF_EndpointID :: string
  VF_Hostname :: string
  VF_CVEID :: string
  VF_Title :: string
  VF_Description :: string
  VF_Severity :: string
  VF_CVSSScore :: rat
  VF_CVSSVersion :: string
  VF_CVSSVector :: string
  VF_IsKEV :: bool
  VF_KEVDueDate :: "time option"
  VF_KEVRansomwareUse :: string
  VF_AffectedComponent :: string
  VF_CPEMatched :: string
  VF_Status :: string
  VF_Remediation :: string
  VF_FirstSeen :: time
  VF_LastSeen :: time
  VF_ResolvedAt :: "time option"
  VF_CreatedAt :: time
  VF_UpdatedAt :: time

record FindingQueryOptions =
  FQ_Severity :: string
  FQ_Status :: string
  FQ_IsKEV :: "bool option"
  FQ_EndpointID :: string
  FQ_Search :: string
  FQ_Limit :: int
  FQ_Offset :: int

record FindingListResponse =
  FL_TotalCount :: int
  FL_OpenCount :: int
  FL_KEVCount :: int
  FL_CriticalCount :: int
  FL_HighCount :: int
  FL_MediumCount :: int
  FL_LowCount :: int
  FL_Limit :: int
  FL_Offset :: int
  FL_Items :: "VulnerabilityFinding list"

record CISAKEVItem =
  KV_CVEID :: string
  KV_VendorProject :: string
  KV_Product :: string
  KV_VulnerabilityName :: string
  KV_DateAdded :: string
  KV_ShortDescription :: string
  KV_RequiredAction :: string
  KV_DueDate :: string
  KV_KnownRansomwareCampaignUse :: string
  KV_Notes :: string

record CachedCVE =
  CC_CVEID :: string
  CC_Title :: string
  CC_Description :: string
  CC_Severity :: string
  CC_CVSSScore :: rat
  CC_CVSSVersion :: string
  CC_CVSSVector :: string
  CC_PublishedAt :: time
  CC_LastModifiedAt :: time
  CC_CpeMatches :: "NVDCpeMatch list"
  CC_References :: "string list"
  CC_CachedAt :: time

record MemoryFindingRepository =
  FR_cveCache :: "string \<rightharpoonup> CachedCVE"
  FR_kevCache :: "string \<rightharpoonup> CISAKEVItem"
  FR_findings :: "string \<rightharpoonup> nat"
  FR_byID :: "string \<rightharpoonup> nat"
  FR_heap :: "nat \<rightharpoonup> VulnerabilityFinding"
  FR_next :: nat

definition NewMemoryFindingRepository :: MemoryFindingRepository where
  "NewMemoryFindingRepository =
     \<lparr>FR_cveCache = Map.empty, FR_kevCache = Map.empty, FR_findings = Map.empty,
      FR_byID = Map.empty, FR_heap = Map.empty, FR_next = 0\<rparr>"

section \<open>Caches\<close>

definition norm_id :: "string \<Rightarrow> string" where
  "norm_id s = to_upper (trim_space s)"

text \<open>A nil pointer in the slice is \<open>None\<close>.\<close>

fun SaveCachedCVEs :: "MemoryFindingRepository \<Rightarrow> CachedCVE option list \<Rightarrow> MemoryFindingRepository" where
  "SaveCachedCVEs r [] = r"
| "SaveCachedCVEs r (c # cs) =
     (case c of
        None \<Rightarrow> SaveCachedCVEs r cs
      | Some cve \<Rightarrow>
          if CC_CVEID cve \<noteq> [] then
            (let cve = cve\<lparr>CC_CVEID := norm_id (CC_CVEID cve)\<rparr>
             in SaveCachedCVEs (r\<lparr>FR_cveCache := (FR_cveCache r)(CC_CVEID cve \<mapsto> cve)\<rparr>) cs)
          else SaveCachedCVEs r cs)"

definition GetCachedCVEs :: "string list \<Rightarrow> MemoryFindingRepository \<Rightarrow> CachedCVE list" where
  "GetCachedCVEs ord r = range_vals (FR_cveCache r) ord"

definition GetCachedCVEByID :: "MemoryFindingRepository \<Rightarrow> string \<Rightarrow> CachedCVE option" where
  "GetCachedCVEByID r cveID = FR_cveCache r (norm_id cveID)"

fun save_kev :: "(string \<rightharpoonup> CISAKEVItem) \<Rightarrow> (string \<rightharpoonup> CISAKEVItem) \<Rightarrow> string list \<Rightarrow> (string \<rightharpoonup> CISAKEVItem)" where
  "save_kev items m [] = m"
| "save_kev items m (k # ks) =
     (case items k of None \<Rightarrow> save_kev items m ks
      | Some v \<Rightarrow> save_kev items (m(norm_id k \<mapsto> v)) ks)"

definition SaveKEVCatalog ::
  "string list \<Rightarrow> MemoryFindingRepository \<Rightarrow> (string \<rightharpoonup> CISAKEVItem) \<Rightarrow> MemoryFindingRepository" where
  "SaveKEVCatalog ord r items = r\<lparr>FR_kevCache := save_kev items Map.empty ord\<rparr>"

definition GetKEVItem :: "MemoryFindingRepository \<Rightarrow> string \<Rightarrow> CISAKEVItem option" where
  "GetKEVItem r cveID = FR_kevCache r (norm_id cveID)"

definition GetAllKEVItems :: "MemoryFindingRepository \<Rightarrow> (string \<rightharpoonup> CISAKEVItem)" where
  "GetAllKEVItems r = (\<lambda>k. FR_kevCache r k)"

section \<open>Findings\<close>

datatype finding_error = MissingTenantID | MissingEndpointID | MissingCVEID | NilSnapshot | FindingNotFound

definition dedup_key :: "string \<Rightarrow> string \<Rightarrow> string \<Rightarrow> string" where
  "dedup_key tenant endpoint cve = tenant @ '':'' @ endpoint @ '':'' @ cve"

text \<open>What an update of a known finding overwrites; its identity and first sighting stay.\<close>

definition refresh_finding :: "time \<Rightarrow> VulnerabilityFinding \<Rightarrow> VulnerabilityFinding \<Rightarrow> VulnerabilityFinding" where
  "refresh_finding now finding existing =
     existing\<lparr>VF_LastSeen := now, VF_UpdatedAt := now, VF_Status := ''OPEN'', VF_ResolvedAt := None,
       VF_Severity := VF_Severity finding, VF_CVSSScore := VF_CVSSScore finding,
       VF_CVSSVersion := VF_CVSSVersion finding, VF_CVSSVector := VF_CVSSVector finding,
       VF_IsKEV := VF_IsKEV finding, VF_KEVDueDate := VF_KEVDueDate finding,
       VF_KEVRansomwareUse := VF_KEVRansomwareUse finding, VF_Remediation := VF_Remediation finding,
       VF_AffectedComponent := VF_AffectedComponent finding, VF_CPEMatched := VF_CPEMatched finding\<rparr>"

definition new_finding :: "string \<Rightarrow> time \<Rightarrow> string \<Rightarrow> VulnerabilityFinding \<Rightarrow> VulnerabilityFinding" where
  "new_finding fid now cveUpper finding =
     finding\<lparr>VF_ID := (if VF_ID finding = [] then fid else VF_ID finding), VF_CVEID := cveUpper,
       VF_FirstSeen := now, VF_LastSeen := now, VF_CreatedAt := now, VF_UpdatedAt := now,
       VF_Status := (if VF_Status finding = [] then ''OPEN'' else VF_Status finding)\<rparr>"

text \<open>The result carries the address of the stored finding and whether it is new.\<close>

definition UpsertFinding ::
  "(nat \<Rightarrow> string) \<Rightarrow> time \<Rightarrow> MemoryFindingRepository \<Rightarrow> VulnerabilityFinding
   \<Rightarrow> MemoryFindingRepository \<times> (finding_error + nat \<times> bool)" where
  "UpsertFinding new_id now r finding =
     (if VF_TenantID finding = [] then (r, Inl MissingTenantID)
      else if VF_EndpointID finding = [] then (r, Inl MissingEndpointID)
      else if VF_CVEID finding = [] then (r, Inl MissingCVEID)
      else
        (let cveUpper = norm_id (VF_CVEID finding);
             dedupKey = dedup_key (VF_TenantID finding) (VF_EndpointID finding) cveUpper
         in case FR_findings r dedupKey of
              Some a \<Rightarrow>
                (r\<lparr>FR_heap := (FR_heap r)(a := map_option (refresh_finding now finding) (FR_heap r a))\<rparr>,
                 Inr (a, False))
            | None \<Rightarrow>
                (let a = FR_next r; f = new_finding (new_id a) now cveUpper finding
                 in (r\<lparr>FR_heap := (FR_heap r)(a \<mapsto> f), FR_next := Suc a,
                      FR_findings := (FR_findings r)(dedupKey \<mapsto> a),
                      FR_byID := (FR_byID r)(VF_ID f \<mapsto> a)\<rparr>, Inr (a, True)))))"

definition GetFindingByID :: "MemoryFindingRepository \<Rightarrow> string \<Rightarrow> string \<Rightarrow> finding_error + VulnerabilityFinding" where
  "GetFindingByID r tenantID findingID =
     (case FR_byID r findingID of
        None \<Rightarrow> Inl FindingNotFound
      | Some a \<Rightarrow>
          (case FR_heap r a of None \<Rightarrow> Inl FindingNotFound
           | Some f \<Rightarrow> if VF_TenantID f \<noteq> tenantID then Inl FindingNotFound else Inr f))"

text \<open>The filters of a query, in the order of the loop body.\<close>

definition query_match :: "FindingQueryOptions \<Rightarrow> VulnerabilityFinding \<Rightarrow> bool" where
  "query_match opts f \<longleftrightarrow>
     (let statusFilter = to_upper (trim_space (FQ_Status opts)) in
      \<not> (statusFilter \<noteq> [] \<and> statusFilter \<noteq> ''ALL'' \<and> to_upper (VF_Status f) \<noteq> statusFilter))
     \<and> \<not> (FQ_Severity opts \<noteq> [] \<and> \<not> equal_fold (FQ_Severity opts) ''ALL''
          \<and> \<not> equal_fold (VF_Severity f) (FQ_Severity opts))
     \<and> (case FQ_IsKEV opts of None \<Rightarrow> True | Some b \<Rightarrow> VF_IsKEV f = b)
     \<and> \<not> (FQ_EndpointID opts \<noteq> [] \<and> VF_EndpointID f \<noteq> FQ_EndpointID opts)
     \<and> (FQ_Search opts \<noteq> [] \<longrightarrow>
          (let s = to_lower (trim_space (FQ_Search opts)) in
             contains (to_lower (VF_CVEID f)) s \<or> contains (to_lower (VF_Title f)) s
             \<or> contains (to_lower (VF_Hostname f)) s \<or> contains (to_lower (VF_AffectedComponent f)) s))"

text \<open>The comparison handed to \<open>sort.Slice\<close>.\<close>

definition finding_before :: "VulnerabilityFinding \<Rightarrow> VulnerabilityFinding \<Rightarrow> bool" where
  "finding_before x y \<longleftrightarrow>
     (if VF_IsKEV x \<noteq> VF_IsKEV y then VF_IsKEV x \<and> \<not> VF_IsKEV y
      else if VF_CVSSScore x \<noteq> VF_CVSSScore y then VF_CVSSScore x > VF_CVSSScore y
      else VF_LastSeen x > VF_LastSeen y)"

definition findings_in :: "string list \<Rightarrow> MemoryFindingRepository \<Rightarrow> VulnerabilityFinding list" where
  "findings_in ord r = List.map_filter (\<lambda>k. case FR_findings r k of None \<Rightarrow> None | Some a \<Rightarrow> FR_heap r a) ord"

definition count_if :: "('a \<Rightarrow> bool) \<Rightarrow> 'a list \<Rightarrow> int" where
  "count_if p xs = int (length (filter p xs))"

definition QueryFindings ::
  "string list \<Rightarrow> MemoryFindingRepository \<Rightarrow> string \<Rightarrow> FindingQueryOptions \<Rightarrow> finding_error + FindingListResponse" where
  "QueryFindings ord r tenantID opts =
     (if tenantID = [] then Inl MissingTenantID
      else
        (let mine = filter (\<lambda>f. VF_TenantID f = tenantID) (findings_in ord r);
             open = filter (\<lambda>f. VF_Status f = ''OPEN'') mine;
             sev = (\<lambda>s. count_if (\<lambda>f. to_upper (VF_Severity f) = s) open);
             filtered = sort_slice finding_before (filter (query_match opts) mine);
             limit = clamp_limit (FQ_Limit opts);
             offset = clamp_offset (FQ_Offset opts)
         in Inr \<lparr>FL_TotalCount = int (length filtered), FL_OpenCount = int (length open),
                 FL_KEVCount = count_if VF_IsKEV open, FL_CriticalCount = sev ''CRITICAL'',
                 FL_HighCount = sev ''HIGH'', FL_MediumCount = sev ''MEDIUM'', FL_LowCount = sev ''LOW'',
                 FL_Limit = limit, FL_Offset = offset, FL_Items = page limit offset filtered\<rparr>))"

section \<open>The scan engine\<close>

text \<open>The first criterion of a CVE the host component meets; the empty string when none is met.\<close>

fun matched_criteria :: "CPE23 \<Rightarrow> NVDCpeMatch list \<Rightarrow> string" where
  "matched_criteria hostCPE [] = []"
| "matched_criteria hostCPE (m # ms) =
     (if MatchesCPE hostCPE m
      then (if NM_Criteria m = [] then CPE_String hostCPE else NM_Criteria m)
      else matched_criteria hostCPE ms)"

definition build_finding ::
  "(string \<Rightarrow> time option) \<Rightarrow> MemoryFindingRepository \<Rightarrow> string \<Rightarrow> string \<Rightarrow> string \<Rightarrow> CPE23 \<Rightarrow> CachedCVE \<Rightarrow> string
   \<Rightarrow> VulnerabilityFinding" where
  "build_finding parse_date r tenantID endpointID hostname hostCPE cve matchedCriteria =
     (let cveIDUpper = to_upper (CC_CVEID cve);
          kev = GetKEVItem r cveIDUpper;
          base = ''Upgrade '' @ CPE_RawApp hostCPE
                 @ '' to the latest patched version or install vendor security update.''
      in \<lparr>VF_ID = [], VF_TenantID = tenantID, VF_EndpointID = endpointID, VF_Hostname = hostname,
          VF_CVEID = cveIDUpper, VF_Title = CC_Title cve, VF_Description = CC_Description cve,
          VF_Severity = (if kev \<noteq> None then ''CRITICAL'' else CC_Severity cve),
          VF_CVSSScore = CC_CVSSScore cve, VF_CVSSVersion = CC_CVSSVersion cve,
          VF_CVSSVector = CC_CVSSVector cve, VF_IsKEV = (kev \<noteq> None),
          VF_KEVDueDate = (case kev of None \<Rightarrow> None
             | Some item \<Rightarrow> if KV_DueDate item \<noteq> [] then parse_date (KV_DueDate item) else None),
          VF_KEVRansomwareUse = (case kev of None \<Rightarrow> [] | Some item \<Rightarrow> KV_KnownRansomwareCampaignUse item),
          VF_AffectedComponent = CPE_RawApp hostCPE, VF_CPEMatched = matchedCriteria,
          VF_Status = ''OPEN'',
          VF_Remediation = (if kev \<noteq> None then ''CRITICAL CISA KEV ACTION REQUIRED: '' @ base else base),
          VF_FirstSeen = zero_time, VF_LastSeen = zero_time, VF_ResolvedAt = None,
          VF_CreatedAt = zero_time, VF_UpdatedAt = zero_time\<rparr>)"

text \<open>State of the scan loops: repository, CVEs already matched, findings detected so far.\<close>

type_synonym scan_state = "MemoryFindingRepository \<times> string set \<times> nat list"

text \<open>One round of the inner loop. \<open>clock\<close> gives the time of the n-th upsert.\<close>

definition scan_one ::
  "(string \<Rightarrow> time option) \<Rightarrow> (nat \<Rightarrow> string) \<Rightarrow> (nat \<Rightarrow> time) \<Rightarrow> string \<Rightarrow> string \<Rightarrow> string
   \<Rightarrow> CPE23 \<Rightarrow> CachedCVE \<Rightarrow> scan_state \<Rightarrow> scan_state" where
  "scan_one parse_date new_id clock tenantID endpointID hostname hostCPE cve st =
     (case st of (r, seen, detected) \<Rightarrow>
        if CC_CVEID cve = [] \<or> to_upper (CC_CVEID cve) \<in> seen then st
        else
          (let m = matched_criteria hostCPE (CC_CpeMatches cve) in
           if m = [] then st
           else
             (case UpsertFinding new_id (clock (length detected)) r
                     (build_finding parse_date r tenantID endpointID hostname hostCPE cve m) of
                (r', Inr (a, _)) \<Rightarrow> (r', insert (to_upper (CC_CVEID cve)) seen, detected @ [a])
              | (r', Inl _) \<Rightarrow> st)))"

text \<open>
  The nested loops. An error of the repository would end the scan; with a tenant, an endpoint and
  a CVE identifier, which the guards ensure, the repository reports none.
\<close>

definition ScanSnapshot ::
  "(string \<Rightarrow> time option) \<Rightarrow> (nat \<Rightarrow> string) \<Rightarrow> (nat \<Rightarrow> time) \<Rightarrow> string list \<Rightarrow> MemoryFindingRepository
   \<Rightarrow> string \<Rightarrow> string \<Rightarrow> string \<Rightarrow> HostSnapshotPayload option
   \<Rightarrow> MemoryFindingRepository \<times> (finding_error + nat list)" where
  "ScanSnapshot parse_date new_id clock ord r tenantID endpointID hostname0 snapshot =
     (case snapshot of
        None \<Rightarrow> (r, Inl NilSnapshot)
      | Some s \<Rightarrow>
          if tenantID = [] then (r, Inl MissingTenantID)
          else if endpointID = [] then (r, Inl MissingEndpointID)
          else
            (let hostname = (if hostname0 = [] then SSI_Hostname (HS_SystemIdentity s) else hostname0);
                 hostCPEs = ExtractHostCPEs snapshot;
                 cachedCVEs = GetCachedCVEs ord r;
                 (r', _, detected) =
                   foldl (\<lambda>st hostCPE.
                            foldl (\<lambda>st cve. scan_one parse_date new_id clock tenantID endpointID hostname hostCPE cve st)
                              st cachedCVEs)
                     (r, {}, []) hostCPEs
             in (r', Inr detected)))"

section \<open>Normalised identifiers and keys\<close>

lemma is_space_upper [simp]: "is_space (upper_char c) = is_space c"
proof (cases "97 \<le> (of_char c :: nat) \<and> (of_char c :: nat) \<le> 122")
  case True
  then have "(of_char (upper_char c) :: nat) = of_char c - 32"
    by (simp add: upper_char_def Let_def) (intro mod_less, linarith)
  with True show ?thesis by (auto simp: is_space_def Let_def)
qed (auto simp: upper_char_def Let_def)

lemma dropWhile_space_upper: "dropWhile is_space (map upper_char s) = map upper_char (dropWhile is_space s)"
  by (induction s) auto

lemma trim_space_upper: "trim_space (to_upper s) = to_upper (trim_space s)"
  by (simp add: trim_space_def trim_def to_upper_def dropWhile_space_upper rev_map)

lemma norm_id_idem [simp]: "norm_id (norm_id s) = norm_id s"
  by (simp add: norm_id_def trim_space_upper)

lemma to_upper_norm_id [simp]: "to_upper (norm_id s) = norm_id s"
  by (simp add: norm_id_def)

lemma append_sep_inj:
  "c \<notin> set a \<Longrightarrow> c \<notin> set a' \<Longrightarrow> a @ c # b = a' @ c # b' \<longleftrightarrow> a = a' \<and> b = b'"
proof (induction a arbitrary: a')
  case Nil
  then show ?case by (cases a') auto
next
  case (Cons x a)
  then show ?case by (cases a') auto
qed

text \<open>Without a colon in tenant and endpoint the key determines the three of them.\<close>

definition no_colon :: "string \<Rightarrow> bool" where "no_colon s \<longleftrightarrow> CHR '':'' \<notin> set s"

lemma dedup_key_inj:
  assumes "no_colon t" "no_colon t'" "no_colon e" "no_colon e'"
  shows "dedup_key t e c = dedup_key t' e' c' \<longleftrightarrow> t = t' \<and> e = e' \<and> c = c'"
  using assms by (simp add: dedup_key_def no_colon_def append_sep_inj)

section \<open>Well-formed repositories\<close>

definition key_of :: "VulnerabilityFinding \<Rightarrow> string" where
  "key_of f = dedup_key (VF_TenantID f) (VF_EndpointID f) (VF_CVEID f)"

definition good_finding :: "VulnerabilityFinding \<Rightarrow> bool" where
  "good_finding f \<longleftrightarrow> no_colon (VF_TenantID f) \<and> no_colon (VF_EndpointID f) \<and> norm_id (VF_CVEID f) = VF_CVEID f"

definition wf_findings :: "MemoryFindingRepository \<Rightarrow> bool" where
  "wf_findings r \<longleftrightarrow>
     (\<forall>a f. FR_heap r a = Some f \<longrightarrow> a < FR_next r \<and> good_finding f \<and> FR_findings r (key_of f) = Some a)
     \<and> (\<forall>k a. FR_findings r k = Some a \<longrightarrow> (\<exists>f. FR_heap r a = Some f \<and> key_of f = k))"

lemma wf_findingsD:
  assumes "wf_findings r"
  shows "FR_heap r a = Some f \<Longrightarrow> a < FR_next r \<and> good_finding f \<and> FR_findings r (key_of f) = Some a"
    and "FR_findings r k = Some a \<Longrightarrow> \<exists>f. FR_heap r a = Some f \<and> key_of f = k"
  using assms by (auto simp: wf_findings_def)

text \<open>The stored finding of a tenant, endpoint and CVE is unique.\<close>

lemma finding_unique:
  assumes "wf_findings r" "FR_heap r a = Some f" "FR_heap r b = Some g" "key_of f = key_of g"
  shows "a = b"
  using wf_findingsD(1) [OF assms(1,2)] wf_findingsD(1) [OF assms(1,3)] assms(4) by simp

lemma refresh_finding_simps [simp]:
  "key_of (refresh_finding now g f) = key_of f" "good_finding (refresh_finding now g f) = good_finding f"
  "VF_ID (refresh_finding now g f) = VF_ID f" "VF_FirstSeen (refresh_finding now g f) = VF_FirstSeen f"
  "VF_LastSeen (refresh_finding now g f) = now" "VF_Status (refresh_finding now g f) = ''OPEN''"
  "VF_TenantID (refresh_finding now g f) = VF_TenantID f"
  "VF_EndpointID (refresh_finding now g f) = VF_EndpointID f" "VF_CVEID (refresh_finding now g f) = VF_CVEID f"
  "VF_Severity (refresh_finding now g f) = VF_Severity g" "VF_IsKEV (refresh_finding now g f) = VF_IsKEV g"
  by (simp_all add: refresh_finding_def key_of_def good_finding_def)

lemma new_finding_simps [simp]:
  "VF_TenantID (new_finding i now c f) = VF_TenantID f" "VF_EndpointID (new_finding i now c f) = VF_EndpointID f"
  "VF_CVEID (new_finding i now c f) = c" "VF_FirstSeen (new_finding i now c f) = now"
  "VF_LastSeen (new_finding i now c f) = now" "VF_Severity (new_finding i now c f) = VF_Severity f"
  "VF_IsKEV (new_finding i now c f) = VF_IsKEV f"
  "VF_Status (new_finding i now c f) = (if VF_Status f = [] then ''OPEN'' else VF_Status f)"
  by (simp_all add: new_finding_def)

text \<open>What an upsert does, in terms of the heap.\<close>

lemma UpsertFinding_spec:
  assumes "wf_findings r" "VF_TenantID g \<noteq> []" "VF_EndpointID g \<noteq> []" "VF_CVEID g \<noteq> []"
    and "no_colon (VF_TenantID g)" "no_colon (VF_EndpointID g)"
  obtains r' a new f where "UpsertFinding new_id now r g = (r', Inr (a, new))" "wf_findings r'"
    "FR_heap r' = (FR_heap r)(a \<mapsto> f)"
    "VF_TenantID f = VF_TenantID g" "VF_EndpointID f = VF_EndpointID g" "VF_CVEID f = norm_id (VF_CVEID g)"
    "VF_Severity f = VF_Severity g" "VF_IsKEV f = VF_IsKEV g" "VF_LastSeen f = now"
    "new \<longrightarrow> FR_heap r a = None \<and> a = FR_next r \<and> f = new_finding (new_id a) now (norm_id (VF_CVEID g)) g
       \<and> \<not> (\<exists>b h. FR_heap r b = Some h \<and> key_of h = key_of f)"
    "\<not> new \<longrightarrow> (\<exists>h. FR_heap r a = Some h \<and> f = refresh_finding now g h)"
    "FR_cveCache r' = FR_cveCache r" "FR_kevCache r' = FR_kevCache r"
proof (cases "FR_findings r (dedup_key (VF_TenantID g) (VF_EndpointID g) (norm_id (VF_CVEID g)))")
  case (Some a)
  then obtain h where h: "FR_heap r a = Some h"
    "key_of h = dedup_key (VF_TenantID g) (VF_EndpointID g) (norm_id (VF_CVEID g))"
    using wf_findingsD(2) [OF assms(1)] by blast
  have good: "good_finding h" using wf_findingsD(1) [OF assms(1) h(1)] by simp
  then have eq: "VF_TenantID h = VF_TenantID g" "VF_EndpointID h = VF_EndpointID g" "VF_CVEID h = norm_id (VF_CVEID g)"
    using h(2) assms(5,6) dedup_key_inj unfolding key_of_def good_finding_def by blast+
  let ?f = "refresh_finding now g h"
  let ?r = "r\<lparr>FR_heap := (FR_heap r)(a \<mapsto> ?f)\<rparr>"
  have up: "UpsertFinding new_id now r g = (?r, Inr (a, False))"
    using assms(2-4) Some h(1) by (simp add: UpsertFinding_def Let_def)
  have "wf_findings ?r"
    unfolding wf_findings_def
  proof (intro conjI allI impI)
    fix b t assume "FR_heap ?r b = Some t"
    then have "b = a \<and> t = ?f \<or> FR_heap r b = Some t" by (auto split: if_splits)
    then show "b < FR_next ?r" "good_finding t" "FR_findings ?r (key_of t) = Some b"
      using wf_findingsD(1) [OF assms(1), of b] wf_findingsD(1) [OF assms(1) h(1)] by auto
  next
    fix k b assume "FR_findings ?r k = Some b"
    then obtain t where "FR_heap r b = Some t" "key_of t = k" using wf_findingsD(2) [OF assms(1)] by auto
    then show "\<exists>f. FR_heap ?r b = Some f \<and> key_of f = k" using h(1) by (cases "b = a") auto
  qed
  then show thesis by (intro that [OF up, of ?f]) (simp_all add: eq h(1))
next
  case None
  let ?a = "FR_next r"
  let ?f = "new_finding (new_id ?a) now (norm_id (VF_CVEID g)) g"
  let ?k = "dedup_key (VF_TenantID g) (VF_EndpointID g) (norm_id (VF_CVEID g))"
  let ?r = "r\<lparr>FR_heap := (FR_heap r)(?a \<mapsto> ?f), FR_next := Suc ?a, FR_findings := (FR_findings r)(?k \<mapsto> ?a),
     FR_byID := (FR_byID r)(VF_ID ?f \<mapsto> ?a)\<rparr>"
  have up: "UpsertFinding new_id now r g = (?r, Inr (?a, True))"
    using assms(2-4) None by (simp add: UpsertFinding_def Let_def)
  have free: "FR_heap r ?a = None" using wf_findingsD(1) [OF assms(1), of ?a] by (cases "FR_heap r ?a") auto
  have kf: "key_of ?f = ?k" by (simp add: key_of_def)
  have "wf_findings ?r"
    unfolding wf_findings_def
  proof (intro conjI allI impI)
    fix b t assume "FR_heap ?r b = Some t"
    then have "b = ?a \<and> t = ?f \<or> b \<noteq> ?a \<and> FR_heap r b = Some t" by (auto split: if_splits)
    then show "b < FR_next ?r" "good_finding t" "FR_findings ?r (key_of t) = Some b"
      using wf_findingsD(1) [OF assms(1), of b t] assms(5,6) kf None by (auto simp: good_finding_def)
  next
    fix k b assume "FR_findings ?r k = Some b"
    then show "\<exists>f. FR_heap ?r b = Some f \<and> key_of f = k"
      using wf_findingsD(2) [OF assms(1), of k b] kf free by (auto split: if_splits)
  qed
  moreover have "\<not> (\<exists>b h. FR_heap r b = Some h \<and> key_of h = key_of ?f)"
    using None kf wf_findingsD(1) [OF assms(1)] by fastforce
  ultimately show thesis using free by (intro that [OF up, of ?f]) simp_all
qed

section \<open>The order of a query\<close>

interpretation finding_order: strict_weak_order finding_before
proof
  show "finding_before x y \<Longrightarrow> \<not> finding_before y x" for x y
    by (auto simp: finding_before_def split: if_splits)
  show "\<not> finding_before x y \<Longrightarrow> \<not> finding_before y z \<Longrightarrow> \<not> finding_before x z" for x y z
    by (cases "VF_IsKEV x"; cases "VF_IsKEV y"; cases "VF_IsKEV z")
      (auto simp: finding_before_def split: if_splits)
qed

section \<open>The loops of a scan\<close>

definition scan_all ::
  "(string \<Rightarrow> time option) \<Rightarrow> (nat \<Rightarrow> string) \<Rightarrow> (nat \<Rightarrow> time) \<Rightarrow> string \<Rightarrow> string \<Rightarrow> string
   \<Rightarrow> (CPE23 \<times> CachedCVE) list \<Rightarrow> scan_state \<Rightarrow> scan_state" where
  "scan_all pd ni ck t e h ps st = foldl (\<lambda>st p. scan_one pd ni ck t e h (fst p) (snd p) st) st ps"

lemma nested_foldl:
  "foldl (\<lambda>st x. foldl (\<lambda>st y. f x y st) st ys) st xs
   = foldl (\<lambda>st p. f (fst p) (snd p) st) st (concat (map (\<lambda>x. map (Pair x) ys) xs))"
proof (induction xs arbitrary: st)
  case (Cons x xs)
  have "foldl (\<lambda>st p. f (fst p) (snd p) st) st (map (Pair x) zs) = foldl (\<lambda>st y. f x y st) st zs" for st zs
    by (induction zs arbitrary: st) auto
  with Cons show ?case by simp
qed simp

lemma matched_criteria_Nil:
  "matched_criteria h ms = [] \<longleftrightarrow> \<not> (\<exists>m \<in> set ms. MatchesCPE h m)"
proof -
  have "CPE_String h \<noteq> []" by (simp add: CPE_String_def)
  then show ?thesis by (induction ms) auto
qed

definition hit :: "CPE23 \<Rightarrow> CachedCVE \<Rightarrow> bool" where
  "hit h c \<longleftrightarrow> CC_CVEID c \<noteq> [] \<and> (\<exists>m \<in> set (CC_CpeMatches c). MatchesCPE h m)"

text \<open>What a finding reported by a scan satisfies.\<close>

definition reported :: "MemoryFindingRepository \<Rightarrow> string \<Rightarrow> string \<Rightarrow> VulnerabilityFinding \<Rightarrow> bool" where
  "reported r tenant endpoint f \<longleftrightarrow>
     VF_TenantID f = tenant \<and> VF_EndpointID f = endpoint \<and> VF_Status f = ''OPEN''
     \<and> (VF_IsKEV f \<longleftrightarrow> GetKEVItem r (VF_CVEID f) \<noteq> None) \<and> (VF_IsKEV f \<longrightarrow> VF_Severity f = ''CRITICAL'')"

definition wf_cache :: "MemoryFindingRepository \<Rightarrow> bool" where
  "wf_cache r \<longleftrightarrow> (\<forall>k c. FR_cveCache r k = Some c \<longrightarrow> CC_CVEID c = k \<and> norm_id k = k)"

definition scan_inv ::
  "MemoryFindingRepository \<Rightarrow> string \<Rightarrow> string \<Rightarrow> (CPE23 \<times> CachedCVE) list \<Rightarrow> scan_state \<Rightarrow> bool" where
  "scan_inv r0 tenant endpoint ps st \<longleftrightarrow>
     (case st of (r, seen, detected) \<Rightarrow>
        wf_findings r \<and> FR_cveCache r = FR_cveCache r0 \<and> FR_kevCache r = FR_kevCache r0 \<and> distinct detected
        \<and> (\<forall>a \<in> set detected. \<exists>f. FR_heap r a = Some f \<and> reported r0 tenant endpoint f \<and> VF_CVEID f \<in> seen)
        \<and> (\<forall>c \<in> seen. \<exists>a \<in> set detected. \<exists>f. FR_heap r a = Some f \<and> VF_CVEID f = c)
        \<and> seen = {CC_CVEID c |h c. (h, c) \<in> set ps \<and> hit h c})"

lemma scan_one_inv:
  assumes inv: "scan_inv r0 tenant endpoint ps st"
    and c: "norm_id (CC_CVEID c) = CC_CVEID c"
    and te: "tenant \<noteq> []" "endpoint \<noteq> []" "no_colon tenant" "no_colon endpoint"
  shows "scan_inv r0 tenant endpoint (ps @ [(h, c)]) (scan_one pd ni ck tenant endpoint hn h c st)"
proof -
  obtain r seen det where st: "st = (r, seen, det)" by (metis prod_cases3)
  have up: "to_upper (CC_CVEID c) = CC_CVEID c" by (metis c to_upper_norm_id)
  let ?S = "\<lambda>ps. {CC_CVEID c |h c. (h, c) \<in> set ps \<and> hit h c}"
  have I: "wf_findings r" "FR_cveCache r = FR_cveCache r0" "FR_kevCache r = FR_kevCache r0" "distinct det"
    "\<forall>a \<in> set det. \<exists>f. FR_heap r a = Some f \<and> reported r0 tenant endpoint f \<and> VF_CVEID f \<in> seen"
    "\<forall>c \<in> seen. \<exists>a \<in> set det. \<exists>f. FR_heap r a = Some f \<and> VF_CVEID f = c" "seen = ?S ps"
    using inv unfolding scan_inv_def st by auto
  have S: "?S (ps @ [(h, c)]) = (if hit h c then insert (CC_CVEID c) (?S ps) else ?S ps)" by auto
  show ?thesis
  proof (cases "hit h c \<and> CC_CVEID c \<notin> seen")
    case False
    then have "scan_one pd ni ck tenant endpoint hn h c st = st"
      by (auto simp: scan_one_def st up Let_def hit_def matched_criteria_Nil)
    moreover have "?S (ps @ [(h, c)]) = seen" using False I(7) S by auto
    ultimately show ?thesis using I unfolding scan_inv_def st by simp
  next
    case True
    let ?m = "matched_criteria h (CC_CpeMatches c)"
    let ?g = "build_finding pd r tenant endpoint hn h c ?m"
    have m: "?m \<noteq> []" "CC_CVEID c \<noteq> []" using True by (auto simp: hit_def matched_criteria_Nil)
    have g: "VF_TenantID ?g = tenant" "VF_EndpointID ?g = endpoint" "VF_CVEID ?g = CC_CVEID c"
      "VF_Status ?g = ''OPEN''" "VF_IsKEV ?g \<longleftrightarrow> GetKEVItem r (CC_CVEID c) \<noteq> None"
      "VF_IsKEV ?g \<longrightarrow> VF_Severity ?g = ''CRITICAL''"
      by (simp_all add: build_finding_def Let_def up)
    obtain r' a new f where u: "UpsertFinding ni (ck (length det)) r ?g = (r', Inr (a, new))" "wf_findings r'"
      "FR_heap r' = (FR_heap r)(a \<mapsto> f)" "VF_TenantID f = tenant" "VF_EndpointID f = endpoint" "VF_CVEID f = CC_CVEID c"
      "VF_Severity f = VF_Severity ?g" "VF_IsKEV f = VF_IsKEV ?g"
      "new \<longrightarrow> FR_heap r a = None \<and> f = new_finding (ni a) (ck (length det)) (CC_CVEID c) ?g"
      "\<not> new \<longrightarrow> (\<exists>h. FR_heap r a = Some h \<and> f = refresh_finding (ck (length det)) ?g h)"
      "FR_cveCache r' = FR_cveCache r" "FR_kevCache r' = FR_kevCache r"
      by (rule UpsertFinding_spec [OF I(1), of ?g ni "ck (length det)"]) (use te m(2) g c in auto)
    have s: "scan_one pd ni ck tenant endpoint hn h c st = (r', insert (CC_CVEID c) seen, det @ [a])"
      using True m u(1) by (simp add: scan_one_def st up Let_def)
    have "VF_Status f = ''OPEN''" using u(9,10) g(4) by (cases new) auto
    then have rep: "reported r0 tenant endpoint f"
      using u(4-8) g(5,6) I(3) by (simp add: reported_def GetKEVItem_def)
    have na: "a \<notin> set det"
    proof
      assume "a \<in> set det"
      then obtain k where k: "FR_heap r a = Some k" "VF_CVEID k \<in> seen" using I(5) by blast
      then have "\<not> new" using u(9) by auto
      then have "VF_CVEID f = VF_CVEID k" using u(10) k(1) by auto
      then show False using u(6) k(2) True by simp
    qed
    have keep: "b \<in> set det \<Longrightarrow> FR_heap r' b = FR_heap r b" for b using na u(3) by auto
    have "\<forall>b \<in> set (det @ [a]). \<exists>f. FR_heap r' b = Some f \<and> reported r0 tenant endpoint f
        \<and> VF_CVEID f \<in> insert (CC_CVEID c) seen"
      using I(5) keep u(3,6) rep by auto
    moreover have "\<forall>x \<in> insert (CC_CVEID c) seen. \<exists>b \<in> set (det @ [a]). \<exists>f. FR_heap r' b = Some f \<and> VF_CVEID f = x"
      using I(6) keep u(3,6) by fastforce
    moreover have "insert (CC_CVEID c) seen = ?S (ps @ [(h, c)])" using True I(7) S by simp
    ultimately show ?thesis
      unfolding s scan_inv_def using u(2,11,12) I(2,3,4) na by simp
  qed
qed

lemma scan_all_inv:
  assumes "scan_inv r0 tenant endpoint ps0 st" "\<forall>(h, c) \<in> set ps. norm_id (CC_CVEID c) = CC_CVEID c"
    and "tenant \<noteq> []" "endpoint \<noteq> []" "no_colon tenant" "no_colon endpoint"
  shows "scan_inv r0 tenant endpoint (ps0 @ ps) (scan_all pd ni ck tenant endpoint hn ps st)"
  using assms(1,2)
proof (induction ps arbitrary: ps0 st)
  case (Cons p ps)
  obtain h c where p: "p = (h, c)" by fastforce
  have "scan_inv r0 tenant endpoint (ps0 @ [(h, c)]) (scan_one pd ni ck tenant endpoint hn h c st)"
    using Cons.prems p assms(3-) by (intro scan_one_inv) auto
  from Cons.IH [OF this] Cons.prems(2) p show ?case by (simp add: scan_all_def)
qed (simp add: scan_all_def)

text \<open>A concrete CVE, component and finding, for examples.\<close>

definition demo_cve :: CachedCVE where
  "demo_cve = \<lparr>CC_CVEID = ''CVE-1'', CC_Title = [], CC_Description = [], CC_Severity = ''LOW'', CC_CVSSScore = 1,
     CC_CVSSVersion = [], CC_CVSSVector = [], CC_PublishedAt = 0, CC_LastModifiedAt = 0, CC_CpeMatches = [],
     CC_References = [], CC_CachedAt = 0\<rparr>"

definition demo_finding :: VulnerabilityFinding where
  "demo_finding = build_finding (\<lambda>_. None) NewMemoryFindingRepository ''t'' ''e'' []
     (BuildCPEFromOS [] [] []) demo_cve []"

lemma demo_finding_fields [simp]:
  "VF_TenantID demo_finding = ''t''" "VF_EndpointID demo_finding = ''e''" "VF_CVEID demo_finding = ''CVE-1''"
  by (simp_all add: demo_finding_def build_finding_def demo_cve_def Let_def to_upper_def upper_char_def)

lemma wf_empty_findings [simp]: "wf_findings NewMemoryFindingRepository" "wf_cache NewMemoryFindingRepository"
  by (simp_all add: wf_findings_def wf_cache_def NewMemoryFindingRepository_def)

section \<open>Theorems\<close>

text \<open>C19. Deduplication: recording a finding leaves exactly one finding for its tenant, endpoint and CVE
  (identifiers compared without case and surrounding space). A known one keeps its identifier and
  first sighting and is reopened with the new time, otherwise one is added; no other finding
  changes. Tenant and endpoint identifiers are assumed free of colons, which separate the parts
  of the storage key.\<close>

theorem UpsertFinding_dedup:
  assumes "wf_findings r" "VF_TenantID g \<noteq> []" "VF_EndpointID g \<noteq> []" "VF_CVEID g \<noteq> []"
    and "no_colon (VF_TenantID g)" "no_colon (VF_EndpointID g)"
  shows "\<exists>r' a new f. UpsertFinding new_id now r g = (r', Inr (a, new)) \<and> wf_findings r'
     \<and> FR_heap r' a = Some f \<and> VF_TenantID f = VF_TenantID g \<and> VF_EndpointID f = VF_EndpointID g
     \<and> VF_CVEID f = norm_id (VF_CVEID g) \<and> VF_LastSeen f = now
     \<and> (\<forall>b h. FR_heap r' b = Some h \<and> key_of h = key_of f \<longrightarrow> b = a)
     \<and> (\<forall>b. b \<noteq> a \<longrightarrow> FR_heap r' b = FR_heap r b)
     \<and> (new \<longleftrightarrow> \<not> (\<exists>b h. FR_heap r b = Some h \<and> key_of h = key_of f))
     \<and> (if new then VF_FirstSeen f = now
        else (\<exists>h. FR_heap r a = Some h \<and> VF_ID f = VF_ID h \<and> VF_FirstSeen f = VF_FirstSeen h \<and> VF_Status f = ''OPEN''))"
proof -
  obtain r' a new f where u: "UpsertFinding new_id now r g = (r', Inr (a, new))" "wf_findings r'"
    "FR_heap r' = (FR_heap r)(a \<mapsto> f)"
    "VF_TenantID f = VF_TenantID g" "VF_EndpointID f = VF_EndpointID g" "VF_CVEID f = norm_id (VF_CVEID g)"
    "VF_LastSeen f = now"
    "new \<longrightarrow> f = new_finding (new_id a) now (norm_id (VF_CVEID g)) g
       \<and> \<not> (\<exists>b h. FR_heap r b = Some h \<and> key_of h = key_of f)"
    "\<not> new \<longrightarrow> (\<exists>h. FR_heap r a = Some h \<and> f = refresh_finding now g h)"
    by (rule UpsertFinding_spec [OF assms, of new_id now]) blast
  have a: "FR_heap r' a = Some f" using u(3) by simp
  have uniq: "\<forall>b h. FR_heap r' b = Some h \<and> key_of h = key_of f \<longrightarrow> b = a"
    using finding_unique [OF u(2) _ a] by blast
  have known: "\<exists>h. FR_heap r a = Some h \<and> key_of h = key_of f \<and> VF_ID f = VF_ID h \<and> VF_FirstSeen f = VF_FirstSeen h
      \<and> VF_Status f = ''OPEN''" if "\<not> new" using that u(9) by auto
  have keep: "\<forall>b. b \<noteq> a \<longrightarrow> FR_heap r' b = FR_heap r b" by (simp add: u(3))
  have iff: "new \<longleftrightarrow> \<not> (\<exists>b h. FR_heap r b = Some h \<and> key_of h = key_of f)"
    using u(8) known by (cases new) auto
  have last: "if new then VF_FirstSeen f = now
      else (\<exists>h. FR_heap r a = Some h \<and> VF_ID f = VF_ID h \<and> VF_FirstSeen f = VF_FirstSeen h \<and> VF_Status f = ''OPEN'')"
    using u(8) known by (cases new) auto
  show ?thesis
    by (intro exI conjI) (rule u(1) u(2) a u(4) u(5) u(6) u(7) uniq keep iff last)+
qed

text \<open>Witness of C19.\<close>

theorem UpsertFinding_dedup_witness:
  "\<exists>r' a f. UpsertFinding (\<lambda>_. ''id'') 7 NewMemoryFindingRepository demo_finding = (r', Inr (a, True))
     \<and> FR_heap r' a = Some f \<and> VF_TenantID f = ''t'' \<and> VF_LastSeen f = 7"
proof -
  have "no_colon (VF_TenantID demo_finding)" "no_colon (VF_EndpointID demo_finding)" by (simp_all add: no_colon_def)
  from UpsertFinding_dedup [OF wf_empty_findings(1) _ _ _ this, of "\<lambda>_. ''id''" 7]
  obtain r' a new f where u: "UpsertFinding (\<lambda>_. ''id'') 7 NewMemoryFindingRepository demo_finding = (r', Inr (a, new))"
    "FR_heap r' a = Some f" "VF_TenantID f = ''t''" "VF_LastSeen f = 7"
    "new \<longleftrightarrow> \<not> (\<exists>b h. FR_heap NewMemoryFindingRepository b = Some h \<and> key_of h = key_of f)" by auto
  then have new: "new = True" by (simp add: NewMemoryFindingRepository_def)
  from u(1) have r: "UpsertFinding (\<lambda>_. ''id'') 7 NewMemoryFindingRepository demo_finding = (r', Inr (a, True))"
    by (simp only: new)
  show ?thesis by (intro exI conjI) (rule r u(2) u(3) u(4))+
qed

text \<open>A query returns, of the tenant's findings that pass the filters, the requested page of the
  list ordered with known-exploited ones first, then by falling CVSS score, then by latest
  sighting; the total is the number of all of them, a page never exceeds two hundred, and two
  consecutive pages join to one without gap or overlap.\<close>

theorem QueryFindings_exact:
  assumes "tenantID \<noteq> []"
  shows "\<exists>xs res. QueryFindings ord r tenantID opts = Inr res
     \<and> mset xs = mset (filter (\<lambda>f. VF_TenantID f = tenantID \<and> query_match opts f) (findings_in ord r))
     \<and> sorted_wrt (\<lambda>x y. \<not> finding_before y x) xs
     \<and> FL_TotalCount res = int (length xs)
     \<and> FL_Items res = take (nat (FL_Limit res)) (drop (nat (FL_Offset res)) xs)
     \<and> 1 \<le> FL_Limit res \<and> FL_Limit res \<le> 200
     \<and> (0 \<le> FQ_Offset opts \<longrightarrow> (\<exists>nxt.
          QueryFindings ord r tenantID (opts\<lparr>FQ_Offset := FQ_Offset opts + FL_Limit res\<rparr>) = Inr nxt
          \<and> FL_Items res @ FL_Items nxt = take (nat (2 * FL_Limit res)) (drop (nat (FQ_Offset opts)) xs)))"
proof -
  let ?xs = "sort_slice finding_before (filter (query_match opts) (filter (\<lambda>f. VF_TenantID f = tenantID) (findings_in ord r)))"
  let ?l = "clamp_limit (FQ_Limit opts)"
  have l: "1 \<le> ?l" "?l \<le> 200" using clamp_limit_bounds by auto
  have q: "QueryFindings ord r tenantID o' = Inr res \<Longrightarrow> query_match o' = query_match opts \<Longrightarrow>
      FL_Items res = page (clamp_limit (FQ_Limit o')) (clamp_offset (FQ_Offset o')) ?xs
      \<and> FL_TotalCount res = int (length ?xs) \<and> FL_Limit res = clamp_limit (FQ_Limit o')
      \<and> FL_Offset res = clamp_offset (FQ_Offset o')" for o' res
    using assms by (auto simp: QueryFindings_def Let_def)
  have ok: "\<exists>res. QueryFindings ord r tenantID o' = Inr res" for o'
    using assms by (simp add: QueryFindings_def Let_def)
  then obtain res where res: "QueryFindings ord r tenantID opts = Inr res" by blast
  note R = q [OF res refl]
  have off: "0 \<le> clamp_offset (FQ_Offset opts)" by (simp add: clamp_offset_def)
  have items: "FL_Items res = take (nat (FL_Limit res)) (drop (nat (FL_Offset res)) ?xs)"
    using R l off by (simp add: page_take_drop)
  have nxt: "\<exists>nxt. QueryFindings ord r tenantID (opts\<lparr>FQ_Offset := FQ_Offset opts + FL_Limit res\<rparr>) = Inr nxt
      \<and> FL_Items res @ FL_Items nxt = take (nat (2 * FL_Limit res)) (drop (nat (FQ_Offset opts)) ?xs)"
    if o: "0 \<le> FQ_Offset opts"
  proof -
    let ?o = "opts\<lparr>FQ_Offset := FQ_Offset opts + FL_Limit res\<rparr>"
    obtain n where n: "QueryFindings ord r tenantID ?o = Inr n" using ok by blast
    have "query_match ?o = query_match opts" by (simp add: query_match_def fun_eq_iff)
    note N = q [OF n this]
    have c: "clamp_offset (FQ_Offset opts) = FQ_Offset opts"
      "clamp_offset (FQ_Offset opts + ?l) = FQ_Offset opts + ?l" using o l by (simp_all add: clamp_offset_def)
    have "FL_Items res @ FL_Items n = page (?l + ?l) (FQ_Offset opts) ?xs"
      using R N c o l by (simp add: page_append)
    also have "\<dots> = take (nat (?l + ?l)) (drop (nat (FQ_Offset opts)) ?xs)"
      using o l by (intro page_take_drop) simp_all
    finally have "FL_Items res @ FL_Items n = take (nat (2 * FL_Limit res)) (drop (nat (FQ_Offset opts)) ?xs)"
      using R by (simp only: mult_2)
    with n show ?thesis by blast
  qed
  have "mset ?xs = mset (filter (\<lambda>f. VF_TenantID f = tenantID \<and> query_match opts f) (findings_in ord r))"
    by (simp add: conj_commute)
  moreover have "FL_TotalCount res = int (length ?xs)" "1 \<le> FL_Limit res" "FL_Limit res \<le> 200" using R l by simp_all
  ultimately show ?thesis
    using res items nxt finding_order.sorted_sort_slice by blast
qed

text \<open>A concrete instance.\<close>

theorem QueryFindings_exact_witness:
  "\<exists>res. QueryFindings [] NewMemoryFindingRepository ''t''
      \<lparr>FQ_Severity = [], FQ_Status = [], FQ_IsKEV = None, FQ_EndpointID = [], FQ_Search = [], FQ_Limit = 500, FQ_Offset = 0\<rparr>
      = Inr res \<and> FL_Limit res \<le> 200"
  using QueryFindings_exact [of "''t''" "[]" NewMemoryFindingRepository
      "\<lparr>FQ_Severity = [], FQ_Status = [], FQ_IsKEV = None, FQ_EndpointID = [], FQ_Search = [], FQ_Limit = 500, FQ_Offset = 0\<rparr>"]
  by blast



end
