(* ===== verification/Http.thy ===== *)
theory Http
  imports GoBase
begin

text \<open>
  The HTTP layer shared by the handlers (\<open>middleware/problem_details.go\<close>, \<open>security.go\<close>,
  \<open>sanitization.go\<close>, \<open>ratelimit.go\<close>). A handler is a function of the request and of the
  response written so far; a middleware maps a handler to a handler. Header names are in
  canonical form. The body is a list of the values encoded to it.
\<close>

section \<open>Requests and responses\<close>

record 'c Request =
  R_Method :: string
  R_Path :: string
  R_RemoteAddr :: string
  R_Header :: "string \<rightharpoonup> string"
  R_Cookie :: "string \<rightharpoonup> string"
  R_CorrelationID :: "string option"
  R_Ctx :: 'c

definition header_get :: "('c, 'z) Request_scheme \<Rightarrow> string \<Rightarrow> string" where
  "header_get r h = (case R_Header r h of None \<Rightarrow> [] | Some v \<Rightarrow> v)"

record InvalidParameter =
  IP_Name :: string
  IP_Reason :: string

record ProblemDetails =
  PD_Type :: string
  PD_Title :: string
  PD_Status :: int
  PD_Detail :: string
  PD_Instance :: string
  PD_ErrorCode :: string
  PD_CorrelationID :: string
  PD_Timestamp :: time
  PD_InvalidParams :: "InvalidParameter list"

record APIErrorResponse =
  AE_Timestamp :: time
  AE_StatusCode :: int
  AE_ErrorCode :: string
  AE_CorrelationID :: string
  AE_Message :: string

datatype 'b payload = Problem ProblemDetails | ApiError APIErrorResponse | Data 'b

text \<open>The cookies handed to \<open>http.SetCookie\<close>; all of them are \<open>SameSite=Strict\<close>.\<close>

record Cookie =
  CK_Name :: string
  CK_Value :: string
  CK_Path :: string
  CK_HttpOnly :: bool
  CK_Secure :: bool
  CK_MaxAge :: int

record 'b Response =
  W_Header :: "string \<rightharpoonup> string"
  W_Status :: "int option"
  W_Body :: "'b payload list"
  W_Cookies :: "Cookie list"

text \<open>The first call of \<open>WriteHeader\<close> fixes the status.\<close>

definition write_header :: "int \<Rightarrow> 'b Response \<Rightarrow> 'b Response" where
  "write_header st w = (case W_Status w of None \<Rightarrow> w\<lparr>W_Status := Some st\<rparr> | Some _ \<Rightarrow> w)"

definition set_header :: "string \<Rightarrow> string \<Rightarrow> 'b Response \<Rightarrow> 'b Response" where
  "set_header h v w = w\<lparr>W_Header := (W_Header w)(h \<mapsto> v)\<rparr>"

definition encode_body :: "'b payload \<Rightarrow> 'b Response \<Rightarrow> 'b Response" where
  "encode_body p w = (let w' = write_header 200 w in w'\<lparr>W_Body := W_Body w' @ [p]\<rparr>)"

definition add_cookie :: "Cookie \<Rightarrow> 'b Response \<Rightarrow> 'b Response" where
  "add_cookie c w = w\<lparr>W_Cookies := W_Cookies w @ [c]\<rparr>"

type_synonym ('c, 'b) handler = "'c Request \<Rightarrow> 'b Response \<Rightarrow> 'b Response"

definition new_response :: "'b Response" where
  "new_response = \<lparr>W_Header = Map.empty, W_Status = None, W_Body = [], W_Cookies = []\<rparr>"

definition GetCorrelationID :: "('c, 'z) Request_scheme \<Rightarrow> string" where
  "GetCorrelationID r =
     (case R_CorrelationID r of Some val \<Rightarrow> (if val \<noteq> [] then val else ''unknown'')
      | None \<Rightarrow> ''unknown'')"

text \<open>\<open>http.StatusText\<close> on the codes the services write.\<close>

definition status_text :: "int \<Rightarrow> string" where
  "status_text s =
     (if s = 200 then ''OK'' else if s = 201 then ''Created'' else if s = 202 then ''Accepted''
      else if s = 204 then ''No Content'' else if s = 400 then ''Bad Request''
      else if s = 401 then ''Unauthorized'' else if s = 403 then ''Forbidden''
      else if s = 404 then ''Not Found'' else if s = 405 then ''Method Not Allowed''
      else if s = 409 then ''Conflict'' else if s = 413 then ''Request Entity Too Large''
      else if s = 422 then ''Unprocessable Entity'' else if s = 429 then ''Too Many Requests''
      else if s = 500 then ''Internal Server Error'' else if s = 501 then ''Not Implemented''
      else if s = 502 then ''Bad Gateway'' else if s = 503 then ''Service Unavailable'' else [])"

definition is_upper :: "char \<Rightarrow> bool" where
  "is_upper c \<longleftrightarrow> (let n = (of_char c :: nat) in 65 \<le> n \<and> n \<le> 90)"

fun snake_from :: "nat \<Rightarrow> string \<Rightarrow> string" where
  "snake_from i [] = []"
| "snake_from i (r # s) =
     (if 0 < i \<and> is_upper r then [CHR ''-''] else [])
     @ [if is_upper r then lower_char r else if r = CHR ''_'' then CHR ''-'' else r]
     @ snake_from (Suc i) s"

definition toSnakeCase :: "string \<Rightarrow> string" where
  "toSnakeCase s = snake_from 0 s"

definition WriteProblemDetails ::
  "time \<Rightarrow> 'b Response \<Rightarrow> ('c, 'z) Request_scheme \<Rightarrow> int \<Rightarrow> string \<Rightarrow> string \<Rightarrow> InvalidParameter list
   \<Rightarrow> 'b Response" where
  "WriteProblemDetails now w r status errorCode detail invalidParams =
     (let corrID = GetCorrelationID r;
          w = write_header status (set_header ''Content-Type'' ''application/problem+json'' w);
          title = (if status_text status = [] then ''API Error'' else status_text status);
          problemType = (if errorCode = [] then ''about:blank''
                         else ''https://endpointguard.io/errors/'' @ toSnakeCase errorCode)
      in encode_body (Problem
           \<lparr>PD_Type = problemType, PD_Title = title, PD_Status = status, PD_Detail = detail,
            PD_Instance = R_Path r, PD_ErrorCode = errorCode, PD_CorrelationID = corrID,
            PD_Timestamp = now, PD_InvalidParams = invalidParams\<rparr>) w)"

definition WriteSanitizedError ::
  "time \<Rightarrow> 'b Response \<Rightarrow> ('c, 'z) Request_scheme \<Rightarrow> int \<Rightarrow> string \<Rightarrow> string \<Rightarrow> 'b Response" where
  "WriteSanitizedError now w r statusCode errorCode message =
     encode_body (ApiError
        \<lparr>AE_Timestamp = now, AE_StatusCode = statusCode, AE_ErrorCode = errorCode,
         AE_CorrelationID = GetCorrelationID r, AE_Message = message\<rparr>)
       (write_header statusCode (set_header ''Content-Type'' ''application/json'' w))"

definition SecurityHeadersMiddleware :: "('c Request \<Rightarrow> 'b Response \<Rightarrow> 'a) \<Rightarrow> 'c Request \<Rightarrow> 'b Response \<Rightarrow> 'a" where
  "SecurityHeadersMiddleware next r w =
     next r
       (set_header ''Strict-Transport-Security'' ''max-age=63072000; includeSubDomains; preload''
       (set_header ''Content-Security-Policy''
          (''default-src 'self'; script-src 'self' 'unsafe-inline'; style-src 'self' 'unsafe-inline'; ''
           @ ''img-src 'self' data: https:; font-src 'self' data: https:;'')
       (set_header ''Referrer-Policy'' ''strict-origin-when-cross-origin''
       (set_header ''X-XSS-Protection'' ''1; mode=block''
       (set_header ''X-Frame-Options'' ''DENY''
       (set_header ''X-Content-Type-Options'' ''nosniff'' w))))))"

text \<open>The status a client sees: what was written first, or 200.\<close>

definition status_of :: "'b Response \<Rightarrow> int" where
  "status_of w = (case W_Status w of None \<Rightarrow> 200 | Some s \<Rightarrow> s)"

text \<open>The error code of the last problem written.\<close>

definition error_code :: "'b Response \<Rightarrow> string" where
  "error_code w =
     (if W_Body w = [] then []
      else case last (W_Body w) of Problem pd \<Rightarrow> PD_ErrorCode pd | ApiError e \<Rightarrow> AE_ErrorCode e
        | Data _ \<Rightarrow> [])"

lemma WriteProblemDetails_status [go_simps]:
  "W_Status w = None \<Longrightarrow> status_of (WriteProblemDetails now w r st ec d ps) = st"
  by (simp add: WriteProblemDetails_def Let_def status_of_def encode_body_def write_header_def
      set_header_def)

lemma WriteProblemDetails_code [go_simps]:
  "error_code (WriteProblemDetails now w r st ec d ps) = ec"
  by (simp add: WriteProblemDetails_def Let_def error_code_def encode_body_def)

lemma new_response_status [simp]: "W_Status new_response = None"
  by (simp add: new_response_def)

lemma lower_char_not_upper: "is_upper r \<Longrightarrow> \<not> is_upper (lower_char r) \<and> lower_char r \<noteq> CHR ''_''"
proof -
  assume a: "is_upper r"
  then have "lower_char r = char_of (of_char r + 32 :: nat)"
    by (simp add: is_upper_def lower_char_def Let_def)
  moreover have "(of_char (char_of (of_char r + 32 :: nat) :: char) :: nat) = of_char r + 32"
    using a by (simp add: is_upper_def Let_def)
  ultimately have n: "(of_char (lower_char r) :: nat) = of_char r + 32" by simp
  have "lower_char r \<noteq> CHR ''_''"
  proof
    assume "lower_char r = CHR ''_''"
    with n have "(of_char r :: nat) + 32 = 95" by simp
    with a show False by (simp add: is_upper_def Let_def)
  qed
  with n a show ?thesis by (simp add: is_upper_def Let_def)
qed

lemma snake_from_chars: "c \<in> set (snake_from i s) \<Longrightarrow> \<not> is_upper c \<and> c \<noteq> CHR ''_''"
proof (induction s arbitrary: i)
  case (Cons r s)
  have "\<not> is_upper CHR ''-''" by (simp add: is_upper_def)
  with Cons show ?case using lower_char_not_upper [of r] by (auto split: if_splits)
qed simp

section \<open>Input validation\<close>

text \<open>\<open>SanitizeText\<close> on valid UTF-8: the runes below 32 are the bytes below 32.\<close>

definition keep_rune :: "char \<Rightarrow> bool" where
  "keep_rune r \<longleftrightarrow> (let n = (of_char r :: nat) in
     \<not> (n = 0 \<or> (n < 32 \<and> n \<noteq> 9 \<and> n \<noteq> 10 \<and> n \<noteq> 13)))"

definition SanitizeText :: "string \<Rightarrow> string" where
  "SanitizeText input = trim_space (filter keep_rune input)"

definition ValidateStringLength :: "string \<Rightarrow> int \<Rightarrow> int \<Rightarrow> bool" where
  "ValidateStringLength s minLen maxLen \<longleftrightarrow>
     (let l = int (length (trim_space s)) in l \<ge> minLen \<and> l \<le> maxLen)"

definition is_hex :: "char \<Rightarrow> bool" where
  "is_hex c \<longleftrightarrow> is_digit c \<or> (let n = (of_char c :: nat) in (65 \<le> n \<and> n \<le> 70) \<or> (97 \<le> n \<and> n \<le> 102))"

text \<open>The regular expression of \<open>uuidRegex\<close>, one character class per position.\<close>

definition uuid_class :: "nat \<Rightarrow> char \<Rightarrow> bool" where
  "uuid_class i c \<longleftrightarrow>
     (if i \<in> {8, 13, 18, 23} then c = CHR ''-''
      else if i = 14 then c \<in> set ''12345''
      else if i = 19 then c \<in> set ''89abAB''
      else is_hex c)"

definition ValidateUUID :: "string \<Rightarrow> bool" where
  "ValidateUUID uid \<longleftrightarrow> length uid = 36 \<and> list_all (\<lambda>(i, c). uuid_class i c) (enumerate 0 uid)"

lemma ValidateUUID_iff:
  "ValidateUUID uid \<longleftrightarrow> length uid = 36 \<and> (\<forall>i < 36. uuid_class i (uid ! i))"
  by (auto simp: ValidateUUID_def list_all_length nth_enumerate_eq)

lemma set_trim_space: "c \<in> set (trim_space s) \<Longrightarrow> c \<in> set s"
  using set_trim unfolding trim_space_def by blast

lemma SanitizeText_clean: "c \<in> set (SanitizeText s) \<Longrightarrow> keep_rune c"
  unfolding SanitizeText_def by (drule set_trim_space) simp

lemma filter_dropWhile_id: "filter p s = s \<Longrightarrow> filter p (dropWhile q s) = dropWhile q s"
  by (metis filter_id_conv set_dropWhileD)

lemma SanitizeText_idem: "SanitizeText (SanitizeText s) = SanitizeText s"
proof -
  have "filter keep_rune (SanitizeText s) = SanitizeText s"
    using SanitizeText_clean by (simp add: filter_id_conv)
  then show ?thesis by (simp add: SanitizeText_def)
qed

end
