(* ===== verification/RateLimit.thy ===== *)
theory RateLimit
  imports Http
begin

text \<open>
  The token-bucket limiter of the mutating endpoints (\<open>middleware/ratelimit.go\<close>): its state is
  the map of entries, and its operations are \<open>Allow\<close>, the clean-up tick and the middleware.
  The mutex makes each of them one step. Token counts are rationals where the source has
  \<open>float64\<close>; the clock is an argument.
\<close>

section \<open>State and operations\<close>

record rateLimiterEntry =
  RL_tokens :: rat
  RL_lastUpdate :: time

record RateLimiter =
  RL_rate :: rat
  RL_capacity :: rat
  RL_entries :: "string \<rightharpoonup> rateLimiterEntry"

definition NewRateLimiter :: "int \<Rightarrow> int \<Rightarrow> RateLimiter" where
  "NewRateLimiter reqsPerMinute burst =
     (let reqsPerMinute = (if reqsPerMinute \<le> 0 then 60 else reqsPerMinute);
          burst = (if burst \<le> 0 then 20 else burst)
      in \<lparr>RL_rate = of_int reqsPerMinute / 60, RL_capacity = of_int burst, RL_entries = Map.empty\<rparr>)"

definition Seconds :: "duration \<Rightarrow> rat" where "Seconds d = of_int d / 1000000000"

text \<open>Conversion of a floating-point number to an integer drops the fraction.\<close>

definition trunc :: "rat \<Rightarrow> int" where
  "trunc x = (if x < 0 then - \<lfloor>- x\<rfloor> else \<lfloor>x\<rfloor>)"

text \<open>One tick of \<open>cleanupLoop\<close>.\<close>

definition cleanup :: "time \<Rightarrow> RateLimiter \<Rightarrow> RateLimiter" where
  "cleanup now rl = rl\<lparr>RL_entries := (\<lambda>key.
     case RL_entries rl key of None \<Rightarrow> None
     | Some entry \<Rightarrow> if time_sub now (RL_lastUpdate entry) > 10 * Minute then None else Some entry)\<rparr>"

definition Allow :: "time \<Rightarrow> RateLimiter \<Rightarrow> string \<Rightarrow> RateLimiter \<times> bool \<times> int \<times> duration" where
  "Allow now rl key =
     (case RL_entries rl key of
        None \<Rightarrow>
          (let entry = \<lparr>RL_tokens = RL_capacity rl - 1, RL_lastUpdate = now\<rparr>
           in (rl\<lparr>RL_entries := (RL_entries rl)(key \<mapsto> entry)\<rparr>, True, trunc (RL_tokens entry), 0))
      | Some entry \<Rightarrow>
          (let elapsed = Seconds (time_sub now (RL_lastUpdate entry));
               tokens = RL_tokens entry + elapsed * RL_rate rl;
               tokens = (if tokens > RL_capacity rl then RL_capacity rl else tokens);
               put = (\<lambda>tk. rl\<lparr>RL_entries := (RL_entries rl)(key \<mapsto>
                        \<lparr>RL_tokens = tk, RL_lastUpdate = now\<rparr>)\<rparr>)
           in if tokens \<ge> 1 then (put (tokens - 1), True, trunc (tokens - 1), 0)
              else (let missingTokens = 1 - tokens;
                        retryAfter = wrap64 (trunc (missingTokens / RL_rate rl) * Second)
                    in (put tokens, False, 0, retryAfter))))"

text \<open>\<open>net.SplitHostPort\<close>: the host, or \<open>None\<close> for its errors.\<close>

definition last_index :: "char \<Rightarrow> string \<Rightarrow> nat option" where
  "last_index c s = (if c \<in> set s then Some (length s - 1 - length (takeWhile (\<lambda>x. x \<noteq> c) (rev s))) else None)"

definition first_index :: "char \<Rightarrow> string \<Rightarrow> nat option" where
  "first_index c s = (if c \<in> set s then Some (length (takeWhile (\<lambda>x. x \<noteq> c) s)) else None)"

definition SplitHostPort :: "string \<Rightarrow> string option" where
  "SplitHostPort hp =
     (case last_index CHR '':'' hp of None \<Rightarrow> None
      | Some i \<Rightarrow>
          if hd hp = CHR ''['' then
            (case first_index CHR '']'' hp of None \<Rightarrow> None
             | Some e \<Rightarrow>
                 if e + 1 \<noteq> i then None
                 else if CHR ''['' \<in> set (drop 1 hp) \<or> CHR '']'' \<in> set (drop (e + 1) hp) then None
                 else Some (take (e - 1) (drop 1 hp)))
          else
            (let host = take i hp in
             if CHR '':'' \<in> set host then None
             else if CHR ''['' \<in> set hp \<or> CHR '']'' \<in> set hp then None
             else Some host))"

definition extractClientKey :: "('c, 'z) Request_scheme \<Rightarrow> string" where
  "extractClientKey r =
     (let authHeader = header_get r ''Authorization'' in
      if authHeader \<noteq> [] then ''user:'' @ authHeader
      else
        (let ip = (case SplitHostPort (R_RemoteAddr r) of None \<Rightarrow> R_RemoteAddr r | Some h \<Rightarrow> h);
             forwarded = header_get r ''X-Forwarded-For'';
             ip = (if forwarded \<noteq> [] then trim_space (hd (split_on CHR '','' forwarded)) else ip)
         in ''ip:'' @ ip))"

definition safe_method :: "string \<Rightarrow> bool" where
  "safe_method m \<longleftrightarrow> m = ''GET'' \<or> m = ''HEAD'' \<or> m = ''OPTIONS''"

definition RateLimitMutatingMiddleware ::
  "time \<Rightarrow> ('c, 'b) handler \<Rightarrow> RateLimiter \<Rightarrow> 'c Request \<Rightarrow> 'b Response \<Rightarrow> RateLimiter \<times> 'b Response" where
  "RateLimitMutatingMiddleware now next rl r w =
     (if safe_method (R_Method r) then (rl, next r w)
      else
        (let clientKey = extractClientKey r;
             (rl', allowed, remaining, retryAfter) = Allow now rl clientKey;
             w = set_header ''X-RateLimit-Limit'' (dec_int (trunc (RL_capacity rl))) w;
             w = set_header ''X-RateLimit-Remaining'' (dec_int remaining) w
         in if \<not> allowed then
              (let secs = trunc (Seconds retryAfter);
                   secs = (if secs < 1 then 1 else secs);
                   w = set_header ''Retry-After'' (dec_int secs) w;
                   w = set_header ''X-RateLimit-Reset'' (dec_int secs) w
               in (rl', WriteProblemDetails now w r 429 ''RATE_LIMIT_EXCEEDED''
                     (''Rate limit exceeded for mutating operations. Please retry in '' @ dec_int secs
                      @ '' seconds.'') []))
            else (rl', next r w)))"

section \<open>Runs of the limiter\<close>

datatype rl_event = Call string time | Tick time

fun event_time :: "rl_event \<Rightarrow> time" where
  "event_time (Call _ t) = t"
| "event_time (Tick t) = t"

text \<open>The limiter after an event, and 1 if the event was an admitted call for the key.\<close>

fun rl_step :: "string \<Rightarrow> RateLimiter \<Rightarrow> rl_event \<Rightarrow> RateLimiter \<times> nat" where
  "rl_step key rl (Call k t) = (case Allow t rl k of (rl', ok, _) \<Rightarrow> (rl', if ok \<and> k = key then 1 else 0))"
| "rl_step key rl (Tick t) = (cleanup t rl, 0)"

fun admitted :: "string \<Rightarrow> RateLimiter \<Rightarrow> rl_event list \<Rightarrow> nat" where
  "admitted key rl [] = 0"
| "admitted key rl (e # es) = (case rl_step key rl e of (rl', n) \<Rightarrow> n + admitted key rl' es)"

text \<open>
  Well-formed limiter at a time: positive rate, room for one request, buckets between empty and
  full and not from the future; an idle bucket is full again before the clean-up drops it.
\<close>

definition wf_entry :: "RateLimiter \<Rightarrow> time \<Rightarrow> rateLimiterEntry \<Rightarrow> bool" where
  "wf_entry rl t e \<longleftrightarrow> 0 \<le> RL_tokens e \<and> RL_tokens e \<le> RL_capacity rl \<and> RL_lastUpdate e \<le> t"

definition wf_limiter :: "RateLimiter \<Rightarrow> time \<Rightarrow> bool" where
  "wf_limiter rl t \<longleftrightarrow> 0 < RL_rate rl \<and> 1 \<le> RL_capacity rl \<and> RL_capacity rl \<le> 600 * RL_rate rl
     \<and> (\<forall>e \<in> ran (RL_entries rl). wf_entry rl t e)"

text \<open>What the bucket of a key can spend at a time.\<close>

definition credit :: "RateLimiter \<Rightarrow> string \<Rightarrow> time \<Rightarrow> rat" where
  "credit rl key t =
     (case RL_entries rl key of None \<Rightarrow> RL_capacity rl
      | Some e \<Rightarrow> min (RL_capacity rl) (RL_tokens e + Seconds (t - RL_lastUpdate e) * RL_rate rl))"

lemma Seconds_mono: "a \<le> b \<Longrightarrow> Seconds a \<le> Seconds b"
  by (simp add: Seconds_def divide_right_mono)

lemma Seconds_nonneg: "0 \<le> a \<Longrightarrow> 0 \<le> Seconds a"
  by (simp add: Seconds_def)

lemma time_sub_nonneg: "u \<le> t \<Longrightarrow> 0 \<le> time_sub t u \<and> time_sub t u \<le> t - u"
  by (auto simp: time_sub_def min_int64_def max_int64_def)

lemma Allow_config [simp]:
  "RL_rate (fst (Allow t rl k)) = RL_rate rl" "RL_capacity (fst (Allow t rl k)) = RL_capacity rl"
  by (auto simp: Allow_def Let_def split: option.splits)

lemma Allow_other:
  "k \<noteq> key \<Longrightarrow> RL_entries (fst (Allow t rl k)) key = RL_entries rl key"
  by (auto simp: Allow_def Let_def split: option.splits)

lemma Allow_own:
  assumes "wf_limiter rl t" "t \<le> t'" "Allow t' rl k = (rl', ok, rem, ra)"
  obtains e where "RL_entries rl' = (RL_entries rl)(k \<mapsto> e)" "wf_entry rl t' e" "RL_lastUpdate e = t'"
    "RL_tokens e + (if ok then 1 else 0) \<le> credit rl k t'"
proof (cases "RL_entries rl k")
  case None
  then show ?thesis
    using assms that [of "\<lparr>RL_tokens = RL_capacity rl - 1, RL_lastUpdate = t'\<rparr>"]
    by (auto simp: Allow_def Let_def wf_limiter_def wf_entry_def credit_def)
next
  case (Some e0)
  then have e0: "wf_entry rl t e0" using assms(1) by (auto simp: wf_limiter_def ran_def)
  define s where "s = Seconds (time_sub t' (RL_lastUpdate e0)) * RL_rate rl"
  define tk where "tk = (if RL_tokens e0 + s > RL_capacity rl then RL_capacity rl else RL_tokens e0 + s)"
  have r: "0 < RL_rate rl" "1 \<le> RL_capacity rl" using assms(1) by (auto simp: wf_limiter_def)
  have "RL_lastUpdate e0 \<le> t'" using e0 assms(2) by (simp add: wf_entry_def)
  from time_sub_nonneg [OF this] have s: "0 \<le> s" "s \<le> Seconds (t' - RL_lastUpdate e0) * RL_rate rl"
    using r by (auto simp: s_def Seconds_nonneg Seconds_mono mult_right_mono)
  have tk: "0 \<le> tk" "tk \<le> RL_capacity rl" "tk \<le> credit rl k t'"
    using e0 s r Some by (auto simp: tk_def credit_def wf_entry_def)
  have "Allow t' rl k = (rl\<lparr>RL_entries := (RL_entries rl)(k \<mapsto>
      \<lparr>RL_tokens = (if tk \<ge> 1 then tk - 1 else tk), RL_lastUpdate = t'\<rparr>)\<rparr>, tk \<ge> 1,
      (if tk \<ge> 1 then trunc (tk - 1) else 0),
      (if tk \<ge> 1 then 0 else wrap64 (trunc ((1 - tk) / RL_rate rl) * Second)))"
    using Some by (simp add: Allow_def Let_def tk_def s_def)
  then show ?thesis
    using assms(3) tk that [of "\<lparr>RL_tokens = (if tk \<ge> 1 then tk - 1 else tk), RL_lastUpdate = t'\<rparr>"]
    by (auto simp: wf_entry_def split: if_splits)
qed

lemma wf_entry_config:
  "RL_capacity rl' = RL_capacity rl \<Longrightarrow> wf_entry rl' t e = wf_entry rl t e"
  by (simp add: wf_entry_def)

lemma wf_limiter_mono: "wf_limiter rl t \<Longrightarrow> t \<le> t' \<Longrightarrow> wf_limiter rl t'"
  by (fastforce simp: wf_limiter_def wf_entry_def)

lemma wf_Allow [go_inv]:
  assumes "wf_limiter rl t" "t \<le> t'"
  shows "wf_limiter (fst (Allow t' rl k)) t'"
proof -
  obtain rl' ok rem ra where a: "Allow t' rl k = (rl', ok, rem, ra)" by (metis prod_cases4)
  from Allow_own [OF assms a] obtain e where
    e: "RL_entries rl' = (RL_entries rl)(k \<mapsto> e)" "wf_entry rl t' e" by metis
  have "RL_rate rl' = RL_rate rl" "RL_capacity rl' = RL_capacity rl"
    using Allow_config [of t' rl k] a by simp_all
  with e wf_limiter_mono [OF assms] show ?thesis
    by (auto simp: a wf_limiter_def wf_entry_config [of rl' rl] ran_def split: if_splits)
qed

lemma wf_cleanup [go_inv]: "wf_limiter rl t \<Longrightarrow> t \<le> t' \<Longrightarrow> wf_limiter (cleanup t' rl) t'"
  using wf_limiter_mono [of rl t t']
  by (auto simp: wf_limiter_def cleanup_def wf_entry_def ran_def split: option.splits if_splits)

lemma credit_mono:
  assumes "wf_limiter rl t" "t \<le> t'"
  shows "credit rl key t' \<le> credit rl key t + Seconds (t' - t) * RL_rate rl"
proof (cases "RL_entries rl key")
  case None
  then show ?thesis using assms by (simp add: credit_def Seconds_nonneg wf_limiter_def)
next
  case (Some e)
  have "Seconds (t' - RL_lastUpdate e) = Seconds (t - RL_lastUpdate e) + Seconds (t' - t)"
    by (simp add: Seconds_def diff_divide_distrib)
  moreover have "0 \<le> Seconds (t' - t) * RL_rate rl"
    using assms by (simp add: Seconds_nonneg wf_limiter_def)
  ultimately show ?thesis using Some by (auto simp: credit_def distrib_right min_def)
qed

lemma credit_nonneg:
  assumes "wf_limiter rl t" shows "0 \<le> credit rl key t"
proof (cases "RL_entries rl key")
  case None
  then show ?thesis using assms by (simp add: credit_def wf_limiter_def)
next
  case (Some e)
  then have "wf_entry rl t e" using assms by (auto simp: wf_limiter_def ran_def)
  then have "0 \<le> RL_tokens e" "0 \<le> Seconds (t - RL_lastUpdate e) * RL_rate rl"
    using assms by (auto simp: wf_entry_def Seconds_nonneg wf_limiter_def)
  with Some assms show ?thesis by (simp add: credit_def wf_limiter_def)
qed

lemma credit_cleanup:
  assumes "wf_limiter rl t" "t \<le> t'"
  shows "credit (cleanup t' rl) key t' = credit rl key t'"
proof (cases "RL_entries rl key")
  case (Some e)
  then have w: "wf_entry rl t e" using assms by (auto simp: wf_limiter_def ran_def)
  show ?thesis
  proof (cases "time_sub t' (RL_lastUpdate e) > 10 * Minute")
    case True
    then have "600 * 1000000000 \<le> t' - RL_lastUpdate e"
      using time_sub_nonneg [of "RL_lastUpdate e" t'] w assms(2) by (simp add: Minute_def wf_entry_def)
    then have "(of_int (600 * 1000000000) :: rat) \<le> of_int (t' - RL_lastUpdate e)"
      using of_int_le_iff by blast
    then have "600 \<le> Seconds (t' - RL_lastUpdate e)" by (simp add: Seconds_def field_simps)
    then have "600 * RL_rate rl \<le> Seconds (t' - RL_lastUpdate e) * RL_rate rl"
      using assms(1) by (intro mult_right_mono) (simp_all add: wf_limiter_def)
    moreover have "RL_capacity rl \<le> 600 * RL_rate rl" using assms(1) by (simp add: wf_limiter_def)
    ultimately have "RL_capacity rl \<le> Seconds (t' - RL_lastUpdate e) * RL_rate rl" by (rule order_trans [rotated])
    with Some w True show ?thesis by (simp add: credit_def cleanup_def wf_entry_def)
  qed (simp add: Some credit_def cleanup_def)
qed (simp add: credit_def cleanup_def)

lemma rl_step_credit:
  assumes "wf_limiter rl t" "t \<le> event_time e" "rl_step key rl e = (rl', n)"
  shows "wf_limiter rl' (event_time e) \<and> RL_rate rl' = RL_rate rl
     \<and> of_nat n + credit rl' key (event_time e) \<le> credit rl key t + Seconds (event_time e - t) * RL_rate rl"
proof (cases e)
  case (Tick t')
  with assms credit_cleanup [of rl t t' key] credit_mono [of rl t t' key] wf_cleanup [of rl t t']
  show ?thesis by (auto simp: cleanup_def)
next
  case (Call k t')
  obtain ok rem ra where a: "Allow t' rl k = (rl', ok, rem, ra)" and n: "n = (if ok \<and> k = key then 1 else 0)"
    using assms(3) Call by (auto split: prod.splits)
  have t': "t \<le> t'" using assms(2) Call by simp
  from Allow_own [OF assms(1) t' a] obtain x where
    x: "RL_entries rl' = (RL_entries rl)(k \<mapsto> x)" "wf_entry rl t' x" "RL_lastUpdate x = t'"
      "RL_tokens x + (if ok then 1 else 0) \<le> credit rl k t'" by metis
  have c: "RL_rate rl' = RL_rate rl" "RL_capacity rl' = RL_capacity rl"
    using Allow_config [of t' rl k] a by simp_all
  have "of_nat n + credit rl' key t' \<le> credit rl key t'"
  proof (cases "k = key")
    case True
    then have "credit rl' key t' \<le> RL_tokens x" using x by (simp add: credit_def Seconds_def)
    with x(4) True n show ?thesis by auto
  next
    case False
    then show ?thesis using x(1) n c by (simp add: credit_def split: option.split)
  qed
  with credit_mono [OF assms(1) t', of key] wf_Allow [OF assms(1) t', of k] c Call a show ?thesis by simp
qed

lemma admitted_bound:
  "wf_limiter rl t \<Longrightarrow> sorted (t # map event_time es) \<Longrightarrow>
   of_nat (admitted key rl es) \<le> credit rl key t + Seconds (last (t # map event_time es) - t) * RL_rate rl"
proof (induction es arbitrary: rl t)
  case Nil
  then show ?case using credit_nonneg by (simp add: Seconds_def)
next
  case (Cons e es)
  obtain rl' n where s: "rl_step key rl e = (rl', n)" by fastforce
  have t: "t \<le> event_time e" using Cons.prems(2) by simp
  note st = rl_step_credit [OF Cons.prems(1) t s]
  let ?l = "last (event_time e # map event_time es)"
  have "of_nat (admitted key rl' es) \<le> credit rl' key (event_time e) + Seconds (?l - event_time e) * RL_rate rl'"
    using Cons.IH [of rl' "event_time e"] st Cons.prems(2) by simp
  moreover have "Seconds (?l - t) = Seconds (event_time e - t) + Seconds (?l - event_time e)"
    by (simp add: Seconds_def diff_divide_distrib)
  ultimately show ?case using st s by (simp add: distrib_right)
qed

section \<open>Theorems\<close>

text \<open>C11. The limiter keeps its promise: over any history of calls (of any clients) and clean-up
  ticks in clock order, a client is admitted at most \<open>burst\<close> times plus the configured rate times
  the elapsed time, provided an idle bucket refills within the ten minutes after which the
  clean-up forgets it.\<close>

theorem RateLimiter_bound:
  assumes "0 < rpm" "0 < burst" "burst \<le> 10 * rpm" "sorted (t # map event_time es)"
  shows "of_nat (admitted key (NewRateLimiter rpm burst) es)
         \<le> (of_int burst :: rat) + Seconds (last (t # map event_time es) - t) * (of_int rpm / 60)"
proof -
  let ?rl = "NewRateLimiter rpm burst"
  have cfg: "RL_rate ?rl = of_int rpm / 60" "RL_capacity ?rl = of_int burst" "RL_entries ?rl = Map.empty"
    using assms by (simp_all add: NewRateLimiter_def Let_def)
  have "(of_int burst :: rat) \<le> of_int (10 * rpm)" using assms(3) of_int_le_iff by blast
  moreover have "(1 :: rat) \<le> of_int burst" using assms(2) by simp
  ultimately have "wf_limiter ?rl t" using assms(1) by (simp add: wf_limiter_def cfg)
  from admitted_bound [OF this assms(4), of key] show ?thesis by (simp add: cfg credit_def)
qed

text \<open>Witness of C11: with one request per minute and a burst of two, the third call within the
  first second is not admitted.\<close>

theorem RateLimiter_bound_witness:
  "admitted ''a'' (NewRateLimiter 60 2) [Call ''a'' 0, Tick 1, Call ''b'' 1, Call ''a'' 2, Call ''a'' 3] \<le> 2"
proof -
  let ?es = "[Call ''a'' 0, Tick 1, Call ''b'' 1, Call ''a'' 2, Call ''a'' 3]"
  let ?n = "admitted ''a'' (NewRateLimiter 60 2) ?es"
  have "(of_nat ?n :: rat) \<le> of_int 2 + Seconds (last (0 # map event_time ?es) - 0) * (of_int 60 / 60)"
    by (rule RateLimiter_bound) simp_all
  then have "(of_nat ?n :: rat) < of_nat 3" by (simp add: Seconds_def)
  then have "?n < 3" using of_nat_less_iff by blast
  then show ?thesis by simp
qed

end
