(* ===== verification/Feeds.thy ===== *)
theory Feeds
  imports Findings RateLimit
begin

text \<open>
  Ingestion of the vulnerability feeds (\<open>vulnscan/ratelimit.go\<close>, \<open>kev_client.go\<close>, \<open>nvd_client.go\<close>,
  \<open>worker.go\<close>): the request budget, the retry loops, the conversion of feed items and the
  synchronisation that fills the caches of the finding repository. What one attempt meets outside
  (clock, network, cancellation) is a value of \<open>attempt_env\<close>; the decoders of the answers, the
  date parser and the random source are arguments. A client leaves a trace of its requests and pauses.
\<close>

section \<open>The request budget\<close>

record NVDRateLimiter =
  NL_interval :: duration
  NL_lastRequest :: time
  NL_maxBurst :: int
  NL_tokens :: rat
  NL_fillRate :: rat
  NL_apiKeySet :: bool

definition NewNVDRateLimiter :: "bool \<Rightarrow> NVDRateLimiter" where
  "NewNVDRateLimiter hasAPIKey =
     \<lparr>NL_interval = (if hasAPIKey then 600 * Millisecond else 6000 * Millisecond), NL_lastRequest = zero_time,
      NL_maxBurst = 3, NL_tokens = 1, NL_fillRate = (if hasAPIKey then 50 / 30 else 5 / 30),
      NL_apiKeySet = hasAPIKey\<rparr>"

text \<open>The first critical section of \<open>Wait\<close>: replenish, then how long to sleep.\<close>

definition replenish :: "time \<Rightarrow> NVDRateLimiter \<Rightarrow> NVDRateLimiter" where
  "replenish now r =
     (if NL_lastRequest r \<noteq> zero_time then
        (let elapsed = Seconds (time_sub now (NL_lastRequest r));
             tokens = NL_tokens r + elapsed * NL_fillRate r
         in r\<lparr>NL_tokens := (if tokens > of_int (NL_maxBurst r) then of_int (NL_maxBurst r) else tokens)\<rparr>)
      else r)"

definition wait_duration :: "time \<Rightarrow> NVDRateLimiter \<Rightarrow> duration" where
  "wait_duration now r =
     (if NL_tokens r < 1 then
        (let missing = 1 - NL_tokens r; waitSec = missing / NL_fillRate r
         in trunc (waitSec * of_int Second))
      else if NL_lastRequest r \<noteq> zero_time then
        (let sinceLast = time_sub now (NL_lastRequest r)
         in if sinceLast < NL_interval r then NL_interval r - sinceLast else 0)
      else 0)"

text \<open>The second one, entered at \<open>woke\<close>.\<close>

definition take_token :: "time \<Rightarrow> NVDRateLimiter \<Rightarrow> NVDRateLimiter" where
  "take_token woke r =
     (let tokens = NL_tokens r - 1
      in r\<lparr>NL_tokens := (if tokens < 0 then 0 else tokens), NL_lastRequest := woke\<rparr>)"

text \<open>A call that nobody overtakes; \<open>cancelled\<close>: the context ends during the sleep.\<close>

definition Wait :: "time \<Rightarrow> bool \<Rightarrow> time \<Rightarrow> NVDRateLimiter \<Rightarrow> NVDRateLimiter \<times> bool" where
  "Wait now cancelled woke r =
     (let r' = replenish now r in
      if wait_duration now r' > 0 \<and> cancelled then (r', False) else (take_token woke r', True))"

text \<open>Backoff between attempts; \<open>rnd n\<close> is \<open>rand.Int63n(n)\<close>.\<close>

definition CalculateBackoff :: "(int \<Rightarrow> int) \<Rightarrow> int \<Rightarrow> duration \<Rightarrow> duration \<Rightarrow> duration" where
  "CalculateBackoff rnd attempt baseDelay maxDelay =
     (let attempt = (if attempt \<le> 0 then 1 else attempt);
          multiplier = wrap64 (2 ^ nat (attempt - 1));
          multiplier = (if multiplier > 32 then 32 else multiplier);
          temp = wrap64 (multiplier * baseDelay);
          temp = (if temp > maxDelay then maxDelay else temp);
          halfBase = quot baseDelay 2;
          maxJitter = temp
      in if maxJitter \<le> halfBase then baseDelay
         else wrap64 (halfBase + rnd (wrap64 (maxJitter - halfBase))))"

section \<open>Feed documents\<close>

record NVDDescription =
  ND_Lang :: string
  ND_Value :: string

record NVDCvssV31Data =
  N3_Version :: string
  N3_VectorString :: string
  N3_BaseScore :: rat
  N3_BaseSeverity :: string

record NVDCvssV31 =
  NA_Source :: string
  NA_Type :: string
  NA_CvssData :: NVDCvssV31Data

record NVDCvssV30 =
  NB_Source :: string
  NB_Type :: string
  NB_CvssData :: NVDCvssV31Data

record NVDCvssV2Data =
  N2_Version :: string
  N2_VectorString :: string
  N2_BaseScore :: rat

record NVDCvssV2 =
  NC_Source :: string
  NC_Type :: string
  NC_CvssData :: NVDCvssV2Data

record NVDMetrics =
  NX_CvssMetricV31 :: "NVDCvssV31 list"
  NX_CvssMetricV30 :: "NVDCvssV30 list"
  NX_CvssMetricV2 :: "NVDCvssV2 list"

record NVDNode =
  NN_Operator :: string
  NN_Negate :: bool
  NN_CpeMatch :: "NVDCpeMatch list"

record NVDConfiguration =
  NG_Nodes :: "NVDNode list"

record NVDReference =
  NR_URL :: string
  NR_Source :: string
  NR_Tags :: "string list"

record NVDCVEItem =
  NI_ID :: string
  NI_SourceIdentifier :: string
  NI_Published :: string
  NI_LastModified :: string
  NI_VulnStatus :: string
  NI_Descriptions :: "NVDDescription list"
  NI_Metrics :: NVDMetrics
  NI_Configurations :: "NVDConfiguration list"
  NI_References :: "NVDReference list"

record NVDVulnerability =
  NV_CVE :: NVDCVEItem

record NVDResponse =
  NP_ResultsPerPage :: int
  NP_StartIndex :: int
  NP_TotalResults :: int
  NP_Format :: string
  NP_Version :: string
  NP_Timestamp :: string
  NP_Vulnerabilities :: "NVDVulnerability list"

record CISAKEVFeed =
  KF_Title :: string
  KF_CatalogVersion :: string
  KF_DateReleased :: string
  KF_Count :: int
  KF_Vulnerabilities :: "CISAKEVItem list"

record FetchCVEsOptions =
  FO_StartIndex :: int
  FO_ResultsPerPage :: int
  FO_LastModStartDate :: "time option"
  FO_LastModEndDate :: "time option"
  FO_CveID :: string
  FO_CpeName :: string
  FO_VirtualMatchString :: string


section \<open>Clients\<close>

text \<open>Outcome of one exchange: a transport error, or a status and a body.\<close>

datatype exchange = TransportFailed string | Answered int string

datatype last_error = NoError | TransportError string | StatusError int

datatype fetch_error =
    InvalidBaseURL
  | RateLimiterCancelled
  | CreateRequestFailed
  | ContextDone
  | UnexpectedStatus int
  | DecodeFailed
  | RetriesExhausted last_error

text \<open>What the n-th attempt of a client meets: the two clock readings of the limiter and whether the
  context ends during its sleep, whether the request can be built, the exchange, the random source
  and whether the context ends during the backoff.\<close>

record attempt_env =
  AE_now :: time
  AE_woke :: time
  AE_wait_cancelled :: bool
  AE_request_ok :: bool
  AE_exchange :: exchange
  AE_rnd :: "int \<Rightarrow> int"
  AE_backoff_cancelled :: bool

datatype fetch_event = Requested | Slept duration

text \<open>The loop of \<open>FetchCatalog\<close> over the attempts.\<close>

fun catalog_loop ::
  "(string \<Rightarrow> CISAKEVFeed option) \<Rightarrow> (nat \<Rightarrow> attempt_env) \<Rightarrow> last_error \<Rightarrow> nat list
   \<Rightarrow> fetch_event list \<times> (fetch_error + CISAKEVFeed)" where
  "catalog_loop dec env lastErr [] = ([], Inl (RetriesExhausted lastErr))"
| "catalog_loop dec env lastErr (attempt # rest) =
     (let e = env attempt in
      if \<not> AE_request_ok e then ([], Inl CreateRequestFailed)
      else
        (case AE_exchange e of
           TransportFailed err \<Rightarrow>
             (let backoff = CalculateBackoff (AE_rnd e) (int attempt) (500 * Millisecond) (5 * Second) in
              if AE_backoff_cancelled e then ([Requested], Inl ContextDone)
              else (let (t, res) = catalog_loop dec env (TransportError err) rest
                    in (Requested # Slept backoff # t, res)))
         | Answered status body \<Rightarrow>
             if status \<noteq> 200 then
               (let backoff = CalculateBackoff (AE_rnd e) (int attempt) (1 * Second) (5 * Second) in
                if AE_backoff_cancelled e then ([Requested], Inl ContextDone)
                else (let (t, res) = catalog_loop dec env (StatusError status) rest
                      in (Requested # Slept backoff # t, res)))
             else
               (case dec body of
                  None \<Rightarrow> ([Requested], Inl DecodeFailed)
                | Some feed \<Rightarrow> ([Requested], Inr feed))))"

definition maxRetries :: nat where "maxRetries = 3"

definition kev_lookup :: "CISAKEVItem list \<Rightarrow> (string \<rightharpoonup> CISAKEVItem)" where
  "kev_lookup items =
     foldl (\<lambda>m item. let cveKey = norm_id (KV_CVEID item) in if cveKey \<noteq> [] then m(cveKey \<mapsto> item) else m)
       Map.empty items"

definition FetchCatalog ::
  "(string \<Rightarrow> CISAKEVFeed option) \<Rightarrow> (nat \<Rightarrow> attempt_env)
   \<Rightarrow> fetch_event list \<times> (fetch_error + CISAKEVFeed \<times> (string \<rightharpoonup> CISAKEVItem))" where
  "FetchCatalog dec env =
     (case catalog_loop dec env NoError [1..<Suc maxRetries] of
        (t, Inl err) \<Rightarrow> (t, Inl err)
      | (t, Inr feed) \<Rightarrow> (t, Inr (feed, kev_lookup (KF_Vulnerabilities feed))))"

text \<open>The query of a page; \<open>fmt\<close> formats an instant.\<close>

definition MaxNVDResultsPerPage :: int where "MaxNVDResultsPerPage = 2000"

definition nvd_query :: "(time \<Rightarrow> string) \<Rightarrow> FetchCVEsOptions \<Rightarrow> (string \<rightharpoonup> string)" where
  "nvd_query fmt opts0 =
     (let opts = (if FO_ResultsPerPage opts0 \<le> 0 \<or> FO_ResultsPerPage opts0 > MaxNVDResultsPerPage
                  then opts0\<lparr>FO_ResultsPerPage := 100\<rparr> else opts0);
          q = [''startIndex'' \<mapsto> dec_int (FO_StartIndex opts), ''resultsPerPage'' \<mapsto> dec_int (FO_ResultsPerPage opts)];
          q = (if FO_CveID opts \<noteq> [] then q(''cveId'' \<mapsto> FO_CveID opts) else q);
          q = (if FO_CpeName opts \<noteq> [] then q(''cpeName'' \<mapsto> FO_CpeName opts) else q);
          q = (if FO_VirtualMatchString opts \<noteq> [] then q(''virtualMatchString'' \<mapsto> FO_VirtualMatchString opts) else q)
      in case (FO_LastModStartDate opts, FO_LastModEndDate opts) of
           (Some s, Some e) \<Rightarrow> q(''lastModStartDate'' \<mapsto> fmt s, ''lastModEndDate'' \<mapsto> fmt e)
         | _ \<Rightarrow> q)"

text \<open>The loop of \<open>FetchCVEPage\<close>; the limiter is threaded through. The exchange may depend on the
  query, so \<open>env\<close> takes it.\<close>

fun page_loop ::
  "(string \<Rightarrow> NVDResponse option) \<Rightarrow> (nat \<Rightarrow> attempt_env) \<Rightarrow> NVDRateLimiter \<Rightarrow> last_error \<Rightarrow> nat list
   \<Rightarrow> NVDRateLimiter \<times> fetch_event list \<times> (fetch_error + NVDResponse)" where
  "page_loop dec env rl lastErr [] = (rl, [], Inl (RetriesExhausted lastErr))"
| "page_loop dec env rl lastErr (attempt # rest) =
     (let e = env attempt; (rl, granted) = Wait (AE_now e) (AE_wait_cancelled e) (AE_woke e) rl in
      if \<not> granted then (rl, [], Inl RateLimiterCancelled)
      else if \<not> AE_request_ok e then (rl, [], Inl CreateRequestFailed)
      else
        (case AE_exchange e of
           TransportFailed err \<Rightarrow>
             (let backoff = CalculateBackoff (AE_rnd e) (int attempt) (500 * Millisecond) (5 * Second) in
              if AE_backoff_cancelled e then (rl, [Requested], Inl ContextDone)
              else (let (rl, t, res) = page_loop dec env rl (TransportError err) rest
                    in (rl, Requested # Slept backoff # t, res)))
         | Answered status body \<Rightarrow>
             if status = 429 \<or> status \<ge> 500 then
               (let backoff = CalculateBackoff (AE_rnd e) (int attempt) (1 * Second) (10 * Second) in
                if AE_backoff_cancelled e then (rl, [Requested], Inl ContextDone)
                else (let (rl, t, res) = page_loop dec env rl (StatusError status) rest
                      in (rl, Requested # Slept backoff # t, res)))
             else if status \<noteq> 200 then (rl, [Requested], Inl (UnexpectedStatus status))
             else
               (case dec body of
                  None \<Rightarrow> (rl, [Requested], Inl DecodeFailed)
                | Some resp \<Rightarrow> (rl, [Requested], Inr resp))))"

text \<open>\<open>url_ok\<close>: the base URL of the client parses.\<close>

definition FetchCVEPage ::
  "bool \<Rightarrow> (time \<Rightarrow> string) \<Rightarrow> (string \<Rightarrow> NVDResponse option) \<Rightarrow> ((string \<rightharpoonup> string) \<Rightarrow> nat \<Rightarrow> attempt_env)
   \<Rightarrow> NVDRateLimiter \<Rightarrow> FetchCVEsOptions \<Rightarrow> NVDRateLimiter \<times> fetch_event list \<times> (fetch_error + NVDResponse)" where
  "FetchCVEPage url_ok fmt dec env rl opts =
     (if \<not> url_ok then (rl, [], Inl InvalidBaseURL)
      else page_loop dec (env (nvd_query fmt opts)) rl NoError [1..<Suc maxRetries])"

section \<open>Conversion\<close>

fun english_description :: "NVDDescription list \<Rightarrow> string" where
  "english_description [] = []"
| "english_description (d # ds) = (if ND_Lang d = ''en'' then ND_Value d else english_description ds)"

definition v2_severity :: "rat \<Rightarrow> string" where
  "v2_severity score = (if score \<ge> 7 then ''HIGH'' else if score \<ge> 4 then ''MEDIUM'' else ''LOW'')"

text \<open>\<open>parse_date\<close> is \<open>time.Parse(time.RFC3339, _)\<close> with its error dropped.\<close>

definition ConvertNVDItemToCached :: "(string \<Rightarrow> time) \<Rightarrow> time \<Rightarrow> NVDCVEItem \<Rightarrow> CachedCVE" where
  "ConvertNVDItemToCached parse_date now item =
     (let desc = english_description (NI_Descriptions item);
          desc = (if desc = [] \<and> NI_Descriptions item \<noteq> [] then ND_Value (hd (NI_Descriptions item)) else desc);
          metrics = NI_Metrics item;
          (cvssScore, cvssVer, cvssVector, severity) =
            (case NX_CvssMetricV31 metrics of
               a # _ \<Rightarrow> (let m = NA_CvssData a in (N3_BaseScore m, ''v3.1'', N3_VectorString m, N3_BaseSeverity m))
             | [] \<Rightarrow>
               (case NX_CvssMetricV30 metrics of
                  b # _ \<Rightarrow> (let m = NB_CvssData b in (N3_BaseScore m, ''v3.0'', N3_VectorString m, N3_BaseSeverity m))
                | [] \<Rightarrow>
                  (case NX_CvssMetricV2 metrics of
                     c # _ \<Rightarrow> (let m = NC_CvssData c
                               in (N2_BaseScore m, ''v2.0'', N2_VectorString m, v2_severity (N2_BaseScore m)))
                   | [] \<Rightarrow> (0, ''v3.1'', [], ''UNKNOWN''))))
      in \<lparr>CC_CVEID = NI_ID item, CC_Title = NI_ID item, CC_Description = desc, CC_Severity = severity,
          CC_CVSSScore = cvssScore, CC_CVSSVersion = cvssVer, CC_CVSSVector = cvssVector,
          CC_PublishedAt = parse_date (NI_Published item), CC_LastModifiedAt = parse_date (NI_LastModified item),
          CC_CpeMatches = concat (map (\<lambda>config. concat (map NN_CpeMatch (NG_Nodes config))) (NI_Configurations item)),
          CC_References = filter (\<lambda>u. u \<noteq> []) (map NR_URL (NI_References item)),
          CC_CachedAt = now\<rparr>)"

section \<open>The synchronisation worker\<close>

text \<open>The state of the worker: its clients' limiter, the repository it fills, whether the loop runs
  and the time of the last complete synchronisation.\<close>

record VulnScanWorker =
  VW_limiter :: NVDRateLimiter
  VW_repo :: MemoryFindingRepository
  VW_running :: bool
  VW_lastSyncAt :: time

datatype sync_error = KEVFetchFailed fetch_error | NVDQueryFailed fetch_error

definition sync_options :: "time \<Rightarrow> time \<Rightarrow> FetchCVEsOptions" where
  "sync_options now lastSyncAt =
     (let lastModStart = (if lastSyncAt \<noteq> zero_time then Some (lastSyncAt - 24 * Hour) else None)
      in \<lparr>FO_StartIndex = 0, FO_ResultsPerPage = 200, FO_LastModStartDate = lastModStart,
          FO_LastModEndDate = (case lastModStart of None \<Rightarrow> None | Some _ \<Rightarrow> Some now),
          FO_CveID = [], FO_CpeName = [], FO_VirtualMatchString = []\<rparr>)"

text \<open>What a run of the synchronisation meets: the attempts of the two clients, the order in which the
  catalogue map is iterated, the clock readings and whether the base URL parses.\<close>

record sync_env =
  SE_kev :: "nat \<Rightarrow> attempt_env"
  SE_nvd :: "(string \<rightharpoonup> string) \<Rightarrow> nat \<Rightarrow> attempt_env"
  SE_ord :: "(string \<rightharpoonup> CISAKEVItem) \<Rightarrow> string list"
  SE_now :: time
  SE_done :: time
  SE_url_ok :: bool

record sync_lib =
  SL_dec_kev :: "string \<Rightarrow> CISAKEVFeed option"
  SL_dec_nvd :: "string \<Rightarrow> NVDResponse option"
  SL_fmt :: "time \<Rightarrow> string"
  SL_parse_date :: "string \<Rightarrow> time"

definition SyncFeedsNow :: "sync_lib \<Rightarrow> sync_env \<Rightarrow> VulnScanWorker \<Rightarrow> VulnScanWorker \<times> sync_error option" where
  "SyncFeedsNow lib env w =
     (case FetchCatalog (SL_dec_kev lib) (SE_kev env) of
        (_, Inl err) \<Rightarrow> (w, Some (KEVFetchFailed err))
      | (_, Inr (_, kevMap)) \<Rightarrow>
          (let w = w\<lparr>VW_repo := SaveKEVCatalog (SE_ord env kevMap) (VW_repo w) kevMap\<rparr>;
               opts = sync_options (SE_now env) (VW_lastSyncAt w)
           in case FetchCVEPage (SE_url_ok env) (SL_fmt lib) (SL_dec_nvd lib) (SE_nvd env) (VW_limiter w) opts of
                (rl, _, Inl err) \<Rightarrow> (w\<lparr>VW_limiter := rl\<rparr>, Some (NVDQueryFailed err))
              | (rl, _, Inr resp) \<Rightarrow>
                  (let cachedItems = map (\<lambda>v. Some (ConvertNVDItemToCached (SL_parse_date lib) (SE_now env) (NV_CVE v)))
                                       (NP_Vulnerabilities resp)
                   in (w\<lparr>VW_limiter := rl, VW_repo := SaveCachedCVEs (VW_repo w) cachedItems,
                        VW_lastSyncAt := SE_done env\<rparr>, None))))"

definition Start :: "VulnScanWorker \<Rightarrow> VulnScanWorker option" where
  "Start w = (if VW_running w then None else Some (w\<lparr>VW_running := True\<rparr>))"

definition Stop :: "VulnScanWorker \<Rightarrow> VulnScanWorker" where
  "Stop w = (if \<not> VW_running w then w else w\<lparr>VW_running := False\<rparr>)"

section \<open>The budget of consecutive calls\<close>

text \<open>Calls that are not cancelled, one after the other: each starts no earlier than the one before
  woke, and wakes no earlier than its sleep ends.\<close>

fun valid_waits :: "NVDRateLimiter \<Rightarrow> (time \<times> time) list \<Rightarrow> bool" where
  "valid_waits r [] = True"
| "valid_waits r ((now, woke) # ws) =
     (0 \<le> now \<and> NL_lastRequest r \<le> now \<and> now \<le> woke \<and> now + wait_duration now (replenish now r) \<le> woke
      \<and> valid_waits (fst (Wait now False woke r)) ws)"

definition budget_inv :: "NVDRateLimiter \<Rightarrow> bool" where
  "budget_inv r \<longleftrightarrow> 0 < NL_interval r \<and> NL_fillRate r * of_int (NL_interval r) = of_int Second
     \<and> NL_maxBurst r = 3 \<and> 0 \<le> NL_tokens r \<and> NL_tokens r \<le> 2 \<and> 0 \<le> NL_lastRequest r"

lemma zero_time_neg: "zero_time < 0"
  by (simp add: zero_time_def)

lemma trunc_ge: "x - 1 \<le> of_int (trunc x)" if "0 \<le> x"
  using that by (simp add: trunc_def) linarith

lemma time_sub_le_diff: "u \<le> t \<Longrightarrow> 0 \<le> time_sub t u \<and> time_sub t u \<le> t - u"
  by (auto simp: time_sub_def min_int64_def max_int64_def)

text \<open>One call costs an interval of time or a token kept from before.\<close>

lemma wait_step:
  assumes I: "budget_inv r" and v: "NL_lastRequest r \<le> now" "now \<le> woke"
    and w: "now + wait_duration now (replenish now r) \<le> woke"
    and r': "r' = fst (Wait now False woke r)"
  shows "budget_inv r'" "NL_lastRequest r' = woke" "NL_interval r' = NL_interval r"
    "of_int (NL_interval r) * (1 + min (NL_tokens r') 1 - min (NL_tokens r) 1) \<le> of_int (woke - NL_lastRequest r) + (1::rat)"
proof -
  let ?I = "of_int (NL_interval r) :: rat"
  let ?x = "NL_tokens r" and ?e = "time_sub now (NL_lastRequest r)" and ?f = "NL_fillRate r"
  let ?T = "NL_tokens (replenish now r)"
  have i: "0 < ?I" "?f * ?I = of_int Second" "NL_maxBurst r = 3" "0 \<le> ?x" "?x \<le> 2" "0 \<le> NL_lastRequest r"
    using I by (auto simp: budget_inv_def)
  have f: "?f = of_int Second / ?I" using i(1,2) by (simp add: field_simps)
  have nz: "NL_lastRequest r \<noteq> zero_time" using i(6) zero_time_neg by linarith
  have e: "0 \<le> ?e" "?e \<le> now - NL_lastRequest r" using time_sub_le_diff [OF v(1)] by auto
  have gain: "Seconds ?e * ?f = of_int ?e / ?I" by (simp add: Seconds_def f Second_def)
  have T: "?T = (if ?x + of_int ?e / ?I > 3 then 3 else ?x + of_int ?e / ?I)"
    using nz i(3) by (simp add: replenish_def Let_def gain)
  have g0: "0 \<le> of_int ?e / ?I" using e i(1) by simp
  have T0: "0 \<le> ?T" "?T \<le> 3" "?T \<le> ?x + of_int ?e / ?I" using T g0 i(4) by (auto split: if_splits)
  have fields: "NL_interval (replenish now r) = NL_interval r" "NL_fillRate (replenish now r) = ?f"
    "NL_maxBurst (replenish now r) = 3" "NL_lastRequest (replenish now r) = NL_lastRequest r"
    using i(3) by (auto simp: replenish_def Let_def)
  have r2: "r' = take_token woke (replenish now r)" using r' by (simp add: Wait_def Let_def)
  have t': "NL_tokens r' = (if ?T < 1 then 0 else ?T - 1)"
    by (simp add: r2 take_token_def Let_def)
  show "NL_lastRequest r' = woke" "NL_interval r' = NL_interval r"
    by (simp_all add: r2 take_token_def Let_def fields)
  show "budget_inv r'"
    using I T0 v i(6) by (auto simp: budget_inv_def t') (simp_all add: r2 take_token_def Let_def fields)
  have E: "?I * (of_int ?e / ?I) = of_int ?e" using i(1) by simp
  show "?I * (1 + min (NL_tokens r') 1 - min ?x 1) \<le> of_int (woke - NL_lastRequest r) + 1"
  proof (cases "?T < 1")
    case True
    then have T1: "?T = ?x + of_int ?e / ?I" using T by (auto split: if_splits)
    with True g0 have x1: "?x < 1" by linarith
    have "(1 - ?T) / ?f * of_int Second = (1 - ?T) * ?I"
      using i(1) by (simp add: f Second_def)
    then have "wait_duration now (replenish now r) = trunc ((1 - ?T) * ?I)"
      using True by (simp add: wait_duration_def Let_def fields)
    moreover have "0 \<le> (1 - ?T) * ?I" using True i(1) by simp
    ultimately have "(1 - ?T) * ?I - 1 \<le> of_int (wait_duration now (replenish now r))" using trunc_ge by metis
    then have "(1 - ?T) * ?I - 1 \<le> of_int (woke - now)" using w by linarith
    moreover have "(1 - ?T) * ?I = ?I * (1 - ?x) - of_int ?e"
      using E by (simp add: T1 algebra_simps)
    ultimately have "?I * (1 - ?x) \<le> of_int (woke - now) + of_int ?e + 1" by linarith
    also have "\<dots> \<le> of_int (woke - NL_lastRequest r) + 1" using e(2) by linarith
    finally show ?thesis using True x1 by (simp add: t')
  next
    case False
    have s: "NL_interval r \<le> woke - NL_lastRequest r"
    proof (cases "?e < NL_interval r")
      case True
      then have "wait_duration now (replenish now r) = NL_interval r - ?e"
        using False nz by (simp add: wait_duration_def Let_def fields)
      then show ?thesis using w e(2) by linarith
    next
      case ge: False
      then show ?thesis using e(2) v(2) by linarith
    qed
    show ?thesis
    proof (cases "1 \<le> ?x")
      case True
      then have "1 + min (NL_tokens r') 1 - min ?x 1 \<le> 1" by linarith
      then have "?I * (1 + min (NL_tokens r') 1 - min ?x 1) \<le> ?I"
        using i(1) mult_left_mono [of _ 1 ?I] by fastforce
      also have "\<dots> \<le> of_int (woke - NL_lastRequest r) + 1" using s by linarith
      finally show ?thesis .
    next
      case lt: False
      have "1 + min (NL_tokens r') 1 - min ?x 1 \<le> of_int ?e / ?I"
        using lt False T0(3) by (simp add: t')
      then have "?I * (1 + min (NL_tokens r') 1 - min ?x 1) \<le> of_int ?e"
        using i(1) E mult_left_mono [of _ "of_int ?e / ?I" ?I] by fastforce
      also have "\<dots> \<le> of_int (woke - NL_lastRequest r) + 1" using e(2) v(2) by linarith
      finally show ?thesis .
    qed
  qed
qed

text \<open>The times at which a sequence of calls is let through, and the limiter after it.\<close>

definition grants :: "(time \<times> time) list \<Rightarrow> time list" where
  "grants ws = map snd ws"

lemma wait_sequence:
  assumes "budget_inv r" "valid_waits r ws" "n < length ws"
  shows "int n * NL_interval r \<le> grants ws ! n - NL_lastRequest r + int (Suc n)"
proof -
  have "of_int (NL_interval r) * (of_nat (Suc n) - min (NL_tokens r) 1)
      \<le> of_int (grants ws ! n - NL_lastRequest r) + (of_nat (Suc n) :: rat)"
    using assms
  proof (induction ws arbitrary: r n)
    case (Cons p ws)
    obtain now woke where p: "p = (now, woke)" by fastforce
    let ?r = "fst (Wait now False woke r)"
    have v: "NL_lastRequest r \<le> now" "now \<le> woke" "now + wait_duration now (replenish now r) \<le> woke"
      "valid_waits ?r ws" using Cons.prems(2) by (auto simp: p)
    note S = wait_step [OF Cons.prems(1) v(1-3) refl]
    have i: "0 < (of_int (NL_interval r) :: rat)" using Cons.prems(1) by (simp add: budget_inv_def)
    have t: "0 \<le> min (NL_tokens ?r) 1" using S(1) by (simp add: budget_inv_def)
    show ?case
    proof (cases n)
      case 0
      have "of_int (NL_interval r) * (1 - min (NL_tokens r) 1)
          \<le> of_int (NL_interval r) * (1 + min (NL_tokens ?r) 1 - min (NL_tokens r) 1)"
        using t i by (intro mult_left_mono) simp_all
      also note S(4)
      finally show ?thesis by (simp add: 0 p grants_def)
    next
      case (Suc m)
      have "of_int (NL_interval ?r) * (of_nat (Suc m) - min (NL_tokens ?r) 1)
          \<le> of_int (grants ws ! m - NL_lastRequest ?r) + (of_nat (Suc m) :: rat)"
        using Cons.IH [OF S(1) v(4)] Cons.prems(3) Suc by simp
      then have "of_int (NL_interval r) * (of_nat (Suc m) - min (NL_tokens ?r) 1)
          \<le> of_int (grants ws ! m - woke) + (of_nat (Suc m) :: rat)" by (simp only: S(2,3))
      from add_mono [OF this S(4)]
      have "of_int (NL_interval r) * (of_nat (Suc m) - min (NL_tokens ?r) 1)
            + of_int (NL_interval r) * (1 + min (NL_tokens ?r) 1 - min (NL_tokens r) 1)
          \<le> of_int (grants ws ! m - NL_lastRequest r) + (of_nat (Suc n) :: rat)" by (simp add: Suc)
      moreover have "of_int (NL_interval r) * (of_nat (Suc m) - min (NL_tokens ?r) 1)
            + of_int (NL_interval r) * (1 + min (NL_tokens ?r) 1 - min (NL_tokens r) 1)
          = of_int (NL_interval r) * (of_nat (Suc n) - min (NL_tokens r) 1)"
        by (simp add: Suc algebra_simps)
      ultimately show ?thesis by (simp add: p Suc grants_def)
    qed
  qed simp
  moreover have "of_int (NL_interval r) * of_nat n \<le> of_int (NL_interval r) * (of_nat (Suc n) - min (NL_tokens r) 1 :: rat)"
    using assms(1) by (intro mult_left_mono) (simp_all add: budget_inv_def)
  ultimately have "of_int (NL_interval r) * of_nat n \<le> of_int (grants ws ! n - NL_lastRequest r) + (of_nat (Suc n) :: rat)"
    by linarith
  then have "(of_int (NL_interval r * int n) :: rat) \<le> of_int (grants ws ! n - NL_lastRequest r + int (Suc n))"
    by simp
  then show ?thesis by (simp only: of_int_le_iff mult.commute)
qed

text \<open>After the first call of a fresh limiter the budget starts.\<close>

lemma first_wait:
  assumes "0 \<le> now" "now \<le> woke" "r = NewNVDRateLimiter key"
  shows "budget_inv (fst (Wait now False woke r))" "NL_lastRequest (fst (Wait now False woke r)) = woke"
    "NL_interval (fst (Wait now False woke r)) = NL_interval r"
  using assms by (simp_all add: Wait_def replenish_def NewNVDRateLimiter_def take_token_def budget_inv_def
      Millisecond_def Second_def Let_def)

lemma valid_waits_drop:
  assumes "budget_inv r" "valid_waits r ws" "i < length ws"
  shows "\<exists>r'. budget_inv r' \<and> valid_waits r' (drop (Suc i) ws) \<and> NL_lastRequest r' = grants ws ! i
    \<and> NL_interval r' = NL_interval r"
  using assms
proof (induction ws arbitrary: r i)
  case (Cons p ws)
  obtain now woke where p: "p = (now, woke)" by fastforce
  let ?r = "fst (Wait now False woke r)"
  have v: "NL_lastRequest r \<le> now" "now \<le> woke" "now + wait_duration now (replenish now r) \<le> woke"
    "valid_waits ?r ws" using Cons.prems(2) by (auto simp: p)
  note S = wait_step [OF Cons.prems(1) v(1-3) refl]
  show ?case
  proof (cases i)
    case 0
    then show ?thesis using S v(4) by (auto simp: p grants_def)
  next
    case (Suc m)
    then obtain r' where "budget_inv r'" "valid_waits r' (drop (Suc m) ws)" "NL_lastRequest r' = grants ws ! m"
      "NL_interval r' = NL_interval ?r" using Cons.IH [OF S(1) v(4), of m] Cons.prems(3) by auto
    then show ?thesis using S(3) by (auto simp: p Suc grants_def)
  qed
qed simp

text \<open>A cancelled call keeps the tokens it was credited with, but not the time it was credited for: the
  next call is credited for the same time again and is let through early.\<close>

lemma cancelled_wait_credits_twice:
  "let r = fst (Wait 0 False 0 (NewNVDRateLimiter True));
       (r', ok) = Wait 180000000 True 180000000 r
   in \<not> ok \<and> wait_duration 300000000 (replenish 300000000 r) = 300000000
      \<and> wait_duration 300000000 (replenish 300000000 r') = 120000000"
  by (simp add: Wait_def replenish_def NewNVDRateLimiter_def take_token_def wait_duration_def Let_def
      Millisecond_def Second_def zero_time_def time_sub_def min_int64_def max_int64_def Seconds_def trunc_def)

text \<open>The lock is released during the sleep: of two overlapping calls the second is credited again for
  the same time, both sleep on what they read, and they are let through a tenth of the interval apart.\<close>

lemma overlapping_waits_share_the_credit:
  "let r = fst (Wait 0 False 0 (NewNVDRateLimiter True));
       first = replenish 60000000 r; second = replenish 60000000 first
   in wait_duration 60000000 first = 540000000 \<and> wait_duration 60000000 second = 480000000
      \<and> NL_interval r = 600000000"
  by (simp add: Wait_def replenish_def NewNVDRateLimiter_def take_token_def wait_duration_def Let_def
      Millisecond_def Second_def zero_time_def time_sub_def min_int64_def max_int64_def Seconds_def trunc_def)

section \<open>Backoff\<close>

lemma CalculateBackoff_range:
  assumes "\<And>n. 0 < n \<Longrightarrow> 0 \<le> rnd n \<and> rnd n < n"
    and "0 < base" "fits64 (32 * base)" "base \<le> maxd" "fits64 maxd"
  shows "base div 2 \<le> CalculateBackoff rnd attempt base maxd"
    "CalculateBackoff rnd attempt base maxd \<le> maxd" "CalculateBackoff rnd attempt base maxd \<le> 32 * base"
proof -
  let ?a = "if attempt \<le> 0 then 1 else attempt"
  define m0 where "m0 = wrap64 (2 ^ nat (?a - 1))"
  define m where "m = (if m0 > 32 then 32 else m0)"
  define t0 where "t0 = wrap64 (m * base)"
  define t where "t = (if t0 > maxd then maxd else t0)"
  have h: "quot base 2 = base div 2" using assms(2) by (simp add: quot_pos)
  have b: "CalculateBackoff rnd attempt base maxd
      = (if t \<le> base div 2 then base else wrap64 (base div 2 + rnd (wrap64 (t - base div 2))))"
    by (simp add: CalculateBackoff_def Let_def m0_def m_def t0_def t_def h)
  have t32: "t \<le> 32 * base \<or> t \<le> base div 2"
  proof (cases "0 \<le> m")
    case True
    then have "0 \<le> m * base" "m * base \<le> 32 * base" using assms(2) by (auto simp: m_def)
    then have "t0 = m * base" using assms(3) unfolding t0_def by (intro wrap64_id) (auto simp: fits64_def min_int64_def)
    then show ?thesis using \<open>m * base \<le> 32 * base\<close> by (simp add: t_def)
  next
    case False
    have "m0 = 0 \<or> 0 < m0 \<or> m0 = - (2 ^ 63)"
    proof (cases "nat (?a - 1) \<le> 62")
      case True
      then have "(2::int) ^ nat (?a - 1) \<le> 2 ^ 62" by (intro power_increasing) auto
      moreover have "fits64 q" if "0 \<le> q" "q \<le> 2 ^ 62" for q
        using that by (simp add: fits64_def min_int64_def max_int64_def)
      ultimately have "m0 = 2 ^ nat (?a - 1)" unfolding m0_def by (intro wrap64_id) simp
      then show ?thesis by simp
    next
      case False
      define k where "k = nat (?a - 1)"
      have k: "63 \<le> k" using False by (simp add: k_def)
      show ?thesis
      proof (cases "k = 63")
        case True
        then show ?thesis by (simp add: m0_def k_def [symmetric] wrap64_def)
      next
        case False
        then obtain d where "k = 64 + d" using k le_Suc_ex [of 64 k] by auto
        then have "m0 = wrap64 (2 ^ 64 * 2 ^ d)" by (simp only: m0_def k_def [symmetric] power_add)
        then have "m0 = 0" by (simp add: wrap64_def)
        then show ?thesis by simp
      qed
    qed
    with False have "m = - (2 ^ 63)" by (auto simp: m_def split: if_splits)
    then have "t0 = 0 \<or> t0 = - (2 ^ 63)"
    proof -
      assume m: "m = - (2 ^ 63)"
      have "(- (2 ^ 63) * base + 2 ^ 63) mod 2 ^ 64 = (2 ^ 63 * (1 - base)) mod (2 ^ 63 * (2::int))"
        by (simp add: algebra_simps)
      also have "\<dots> = 2 ^ 63 * ((1 - base) mod 2)" by (rule mult_mod_right [symmetric])
      finally have "t0 = 2 ^ 63 * ((1 - base) mod 2) - 2 ^ 63" by (simp add: t0_def m wrap64_def)
      moreover have "(1 - base) mod 2 = 0 \<or> (1 - base) mod 2 = 1" by presburger
      ultimately show ?thesis by auto
    qed
    then have "t \<le> 0" using assms(2,4) by (auto simp: t_def)
    then show ?thesis using assms(2) by (intro disjI2) linarith
  qed
  have tm: "t \<le> maxd" by (simp add: t_def)
  have "base div 2 \<le> CalculateBackoff rnd attempt base maxd \<and> CalculateBackoff rnd attempt base maxd \<le> maxd
      \<and> CalculateBackoff rnd attempt base maxd \<le> 32 * base"
  proof (cases "t \<le> base div 2")
    case True
    then show ?thesis using assms(2,4) by (simp add: b)
  next
    case False
    have f: "wrap64 (t - base div 2) = t - base div 2"
      using False tm assms(2,5) by (intro wrap64_id) (auto simp: fits64_def min_int64_def max_int64_def)
    have r: "0 \<le> rnd (t - base div 2)" "rnd (t - base div 2) < t - base div 2" using assms(1) False by auto
    have "wrap64 (base div 2 + rnd (t - base div 2)) = base div 2 + rnd (t - base div 2)"
      using r tm assms(2,5) by (intro wrap64_id) (auto simp: fits64_def min_int64_def max_int64_def)
    then show ?thesis using False r tm t32 by (simp add: b f)
  qed
  then show "base div 2 \<le> CalculateBackoff rnd attempt base maxd"
    "CalculateBackoff rnd attempt base maxd \<le> maxd" "CalculateBackoff rnd attempt base maxd \<le> 32 * base" by auto
qed

section \<open>The retry loops\<close>

definition retryable :: "exchange \<Rightarrow> bool" where
  "retryable x = (case x of TransportFailed _ \<Rightarrow> True | Answered st _ \<Rightarrow> st = 429 \<or> st \<ge> 500)"

definition exchange_error :: "exchange \<Rightarrow> last_error" where
  "exchange_error x = (case x of TransportFailed err \<Rightarrow> TransportError err | Answered st _ \<Rightarrow> StatusError st)"

definition exchange_result :: "(string \<Rightarrow> 'r option) \<Rightarrow> exchange \<Rightarrow> fetch_error + 'r" where
  "exchange_result dec x =
     (case x of
        TransportFailed _ \<Rightarrow> Inl DecodeFailed
      | Answered st body \<Rightarrow>
          if st \<noteq> 200 then Inl (UnexpectedStatus st)
          else (case dec body of None \<Rightarrow> Inl DecodeFailed | Some r \<Rightarrow> Inr r))"

definition requests :: "fetch_event list \<Rightarrow> nat" where
  "requests t = length (filter (\<lambda>e. e = Requested) t)"

definition pauses :: "fetch_event list \<Rightarrow> duration list" where
  "pauses t = List.map_filter (\<lambda>e. case e of Slept d \<Rightarrow> Some d | Requested \<Rightarrow> None) t"

lemma trace_simps [simp]:
  "requests [] = 0" "requests (Requested # t) = Suc (requests t)" "requests (Slept d # t) = requests t"
  "pauses [] = []" "pauses (Requested # t) = pauses t" "pauses (Slept d # t) = d # pauses t"
  by (simp_all add: requests_def pauses_def List.map_filter_def)

text \<open>Nothing outside stops the attempts of a client.\<close>

definition undisturbed :: "(nat \<Rightarrow> attempt_env) \<Rightarrow> bool" where
  "undisturbed env \<longleftrightarrow> (\<forall>k. \<not> AE_wait_cancelled (env k) \<and> AE_request_ok (env k) \<and> \<not> AE_backoff_cancelled (env k))"

definition random_source :: "(nat \<Rightarrow> attempt_env) \<Rightarrow> bool" where
  "random_source env \<longleftrightarrow> (\<forall>k n. 0 < n \<longrightarrow> 0 \<le> AE_rnd (env k) n \<and> AE_rnd (env k) n < n)"

lemma undisturbedD:
  "undisturbed env \<Longrightarrow> \<not> AE_wait_cancelled (env k)" "undisturbed env \<Longrightarrow> AE_request_ok (env k)"
  "undisturbed env \<Longrightarrow> \<not> AE_backoff_cancelled (env k)"
  by (simp_all add: undisturbed_def)

lemma Wait_granted: "snd (Wait now False woke r)"
  by (simp add: Wait_def Let_def)

lemma page_loop_exact:
  assumes "undisturbed env"
  shows "\<exists>rl' t. page_loop dec env rl lastErr ks = (rl', t,
      (case find (\<lambda>k. \<not> retryable (AE_exchange (env k))) ks of
         Some k \<Rightarrow> exchange_result dec (AE_exchange (env k))
       | None \<Rightarrow> Inl (RetriesExhausted (if ks = [] then lastErr else exchange_error (AE_exchange (env (last ks)))))))
    \<and> requests t = (case find (\<lambda>k. \<not> retryable (AE_exchange (env k))) ks of
        None \<Rightarrow> length ks | Some k \<Rightarrow> Suc (length (takeWhile (\<lambda>k. retryable (AE_exchange (env k))) ks)))"
proof (induction ks arbitrary: rl lastErr)
  case (Cons k ks)
  obtain rl1 where W: "Wait (AE_now (env k)) False (AE_woke (env k)) rl = (rl1, True)"
    using Wait_granted by (metis prod.collapse)
  note U = undisturbedD [OF assms, of k]
  show ?case
  proof (cases "retryable (AE_exchange (env k))")
    case False
    then obtain st body where x: "AE_exchange (env k) = Answered st body" "\<not> (st = 429 \<or> st \<ge> 500)"
      by (auto simp: retryable_def split: exchange.splits)
    then show ?thesis using W U False
      by (auto simp: Let_def exchange_result_def split: option.splits)
  next
    case True
    obtain rl' t where IH: "page_loop dec env rl1 (exchange_error (AE_exchange (env k))) ks = (rl', t,
      (case find (\<lambda>k. \<not> retryable (AE_exchange (env k))) ks of
         Some k \<Rightarrow> exchange_result dec (AE_exchange (env k))
       | None \<Rightarrow> Inl (RetriesExhausted (if ks = [] then exchange_error (AE_exchange (env k))
                   else exchange_error (AE_exchange (env (last ks)))))))"
      "requests t = (case find (\<lambda>k. \<not> retryable (AE_exchange (env k))) ks of
        None \<Rightarrow> length ks | Some k \<Rightarrow> Suc (length (takeWhile (\<lambda>k. retryable (AE_exchange (env k))) ks)))"
      using Cons.IH [of rl1 "exchange_error (AE_exchange (env k))"] by blast
    show ?thesis
    proof (cases "AE_exchange (env k)")
      case (TransportFailed err)
      then show ?thesis using W U IH True
        by (auto simp: Let_def exchange_error_def split: option.splits)
    next
      case (Answered st body)
      then have "st = 429 \<or> st \<ge> 500" using True by (simp add: retryable_def)
      then show ?thesis using W U IH True Answered
        by (auto simp: Let_def exchange_error_def split: option.splits)
    qed
  qed
qed simp

lemma backoff_pause:
  assumes "random_source env" "base = 500 * Millisecond \<or> base = 1 * Second" "maxd = 5 * Second \<or> maxd = 10 * Second"
  shows "250 * Millisecond \<le> CalculateBackoff (AE_rnd (env k)) a base maxd
    \<and> CalculateBackoff (AE_rnd (env k)) a base maxd \<le> 10 * Second"
proof -
  have r: "0 \<le> AE_rnd (env k) n \<and> AE_rnd (env k) n < n" if "0 < n" for n
    using assms(1) that by (simp add: random_source_def)
  have b: "0 < base" "fits64 (32 * base)" "base \<le> maxd" "fits64 maxd" "250 * Millisecond \<le> base div 2" "maxd \<le> 10 * Second"
    using assms(2,3) by (auto simp: fits64_def min_int64_def max_int64_def duration_defs)
  from CalculateBackoff_range [OF r b(1-4), of a] b(5,6) show ?thesis by linarith
qed

text \<open>Whatever happens outside, an attempt is one request at most and pauses are bounded.\<close>

lemma page_loop_trace:
  assumes "random_source env" "page_loop dec env rl lastErr ks = (rl', t, res)"
  shows "requests t \<le> length ks \<and> list_all (\<lambda>d. 250 * Millisecond \<le> d \<and> d \<le> 10 * Second) (pauses t)"
  using assms(2)
proof (induction ks arbitrary: rl lastErr rl' t res)
  case (Cons k ks)
  obtain rl1 ok where W: "Wait (AE_now (env k)) (AE_wait_cancelled (env k)) (AE_woke (env k)) rl = (rl1, ok)"
    by fastforce
  show ?case using Cons.prems W Cons.IH backoff_pause [OF assms(1)]
    by (auto simp: Let_def split: if_splits exchange.splits option.splits prod.splits)
qed simp

lemma catalog_loop_trace:
  assumes "random_source env" "catalog_loop dec env lastErr ks = (t, res)"
  shows "requests t \<le> length ks \<and> list_all (\<lambda>d. 250 * Millisecond \<le> d \<and> d \<le> 10 * Second) (pauses t)"
  using assms(2)
proof (induction ks arbitrary: lastErr t res)
  case (Cons k ks)
  show ?case using Cons.prems Cons.IH backoff_pause [OF assms(1)]
    by (auto simp: Let_def split: if_splits exchange.splits option.splits prod.splits)
qed simp

section \<open>What the caches hold after a synchronisation\<close>

lemma kev_lookup_spec:
  "kev_lookup items k = (if k = [] then None else find (\<lambda>i. norm_id (KV_CVEID i) = k) (rev items))"
  by (induction items rule: rev_induct) (auto simp: kev_lookup_def Let_def)

lemma find_SomeD: "find P xs = Some x \<Longrightarrow> P x \<and> x \<in> set xs"
  by (induction xs) (auto split: if_splits)

lemma kev_lookup_dom: "dom (kev_lookup items) \<subseteq> norm_id ` KV_CVEID ` set items"
proof
  fix k
  assume "k \<in> dom (kev_lookup items)"
  then obtain i where "find (\<lambda>i. norm_id (KV_CVEID i) = k) (rev items) = Some i"
    by (auto simp: kev_lookup_spec split: if_splits)
  from find_SomeD [OF this] show "k \<in> norm_id ` KV_CVEID ` set items" by auto
qed

lemma save_kev_spec:
  "\<forall>k \<in> dom items. norm_id k = k \<Longrightarrow> set ord \<subseteq> dom items \<Longrightarrow>
   save_kev items m ord k = (if k \<in> set ord then items k else m k)"
  by (induction ord arbitrary: m) (auto split: option.splits)

lemma SaveKEVCatalog_lookup:
  assumes "iterates (kev_lookup items) ord"
  shows "GetKEVItem (SaveKEVCatalog ord r (kev_lookup items)) cve = kev_lookup items (norm_id cve)"
proof -
  have n: "\<forall>k \<in> dom (kev_lookup items). norm_id k = k" using kev_lookup_dom by fastforce
  show ?thesis
    using save_kev_spec [OF n, of ord Map.empty "norm_id cve"] assms
    by (auto simp: GetKEVItem_def SaveKEVCatalog_def iterates_def)
qed

lemma SaveCachedCVEs_lookup:
  "FR_cveCache (SaveCachedCVEs r (map Some cs)) k =
     (case find (\<lambda>c. CC_CVEID c \<noteq> [] \<and> norm_id (CC_CVEID c) = k) (rev cs) of
        None \<Rightarrow> FR_cveCache r k
      | Some c \<Rightarrow> Some (c\<lparr>CC_CVEID := k\<rparr>))"
proof (induction cs arbitrary: r)
  case (Cons c cs)
  have f: "find P (xs @ [x]) = (case find P xs of None \<Rightarrow> (if P x then Some x else None) | Some y \<Rightarrow> Some y)" for P xs x
    by (induction xs) (auto split: option.splits)
  show ?case by (auto simp: Cons.IH f Let_def split: option.splits)
qed simp

lemma SaveCachedCVEs_frame:
  "FR_kevCache (SaveCachedCVEs r cs) = FR_kevCache r" "FR_findings (SaveCachedCVEs r cs) = FR_findings r"
  "FR_byID (SaveCachedCVEs r cs) = FR_byID r" "FR_heap (SaveCachedCVEs r cs) = FR_heap r"
  "FR_next (SaveCachedCVEs r cs) = FR_next r"
  by (induction cs arbitrary: r) (auto simp: Let_def split: option.splits)

lemma SaveKEVCatalog_frame:
  "FR_cveCache (SaveKEVCatalog ord r m) = FR_cveCache r" "FR_findings (SaveKEVCatalog ord r m) = FR_findings r"
  "FR_byID (SaveKEVCatalog ord r m) = FR_byID r" "FR_heap (SaveKEVCatalog ord r m) = FR_heap r"
  "FR_next (SaveKEVCatalog ord r m) = FR_next r"
  by (simp_all add: SaveKEVCatalog_def)

lemma pauses_all:
  "list_all P (pauses t) \<longleftrightarrow> (\<forall>d. Slept d \<in> set t \<longrightarrow> P d)"
  by (induction t) (auto simp: pauses_def List.map_filter_def split: fetch_event.splits)

lemma list_all_pausesD: "list_all P (pauses t) \<Longrightarrow> d \<in> set (pauses t) \<Longrightarrow> P d"
  by (simp add: list_all_iff)

section \<open>Theorems\<close>

text \<open>C21. The request budget: among calls that do not overlap and are not cancelled, the j-th and a
  later i-th are let through at least i - j - 1 intervals apart (600 ms with a key, 6 s without), less
  a nanosecond of rounding for each, whatever tokens were saved up before.\<close>

theorem Wait_spacing:
  assumes "0 \<le> now0" "now0 \<le> woke0" "r = fst (Wait now0 False woke0 (NewNVDRateLimiter key))"
    and "valid_waits r ws" "j < i" "i < length ws"
  shows "int (i - j - 1) * NL_interval (NewNVDRateLimiter key) \<le> grants ws ! i - grants ws ! j + int (i - j)"
proof -
  note F = first_wait [OF assms(1,2) refl, of key, folded assms(3)]
  obtain r' where r': "budget_inv r'" "valid_waits r' (drop (Suc j) ws)" "NL_lastRequest r' = grants ws ! j"
    "NL_interval r' = NL_interval r"
    using valid_waits_drop [of r ws j] F(1) assms(3-6) by auto
  have "int (i - j - 1) * NL_interval r' \<le> grants (drop (Suc j) ws) ! (i - j - 1) - NL_lastRequest r' + int (Suc (i - j - 1))"
    by (rule wait_sequence [OF r'(1,2)]) (use assms(5,6) in simp)
  moreover have "grants (drop (Suc j) ws) ! (i - j - 1) = grants ws ! i"
    using assms(5,6) by (simp add: grants_def)
  moreover have "Suc (i - j - 1) = i - j" using assms(5) by simp
  ultimately show ?thesis using r'(3,4) F(3) assms(3) by simp
qed

text \<open>Witness of C21.\<close>

theorem Wait_spacing_witness:
  "let ws = [(0, 600000000), (600000000, 1200000000), (3000000000, 3000000000)]
   in valid_waits (fst (Wait 0 False 0 (NewNVDRateLimiter True))) ws
      \<and> 600000000 \<le> grants ws ! 2 - grants ws ! 0 + 2"
proof -
  let ?ws = "[(0, 600000000), (600000000, 1200000000), (3000000000, 3000000000)] :: (time \<times> time) list"
  have v: "valid_waits (fst (Wait 0 False 0 (NewNVDRateLimiter True))) ?ws"
    by (simp add: Wait_def replenish_def NewNVDRateLimiter_def take_token_def wait_duration_def Let_def
      Millisecond_def Second_def zero_time_def time_sub_def min_int64_def max_int64_def Seconds_def trunc_def)
  show ?thesis
    using Wait_spacing [OF _ _ refl v, of 0 2] v by (simp add: NewNVDRateLimiter_def Millisecond_def)
qed

text \<open>The retry loop of the CVE client: at most three requests are sent, with pauses of 250
  milliseconds to ten seconds. Undisturbed, the client sends requests until the first answer that is
  final (neither a transport error nor status 429 nor 5xx) and returns what that answer says: its
  document, or an error for another status or a document that does not parse.\<close>

theorem FetchCVEPage_exact:
  assumes "random_source (env (nvd_query fmt opts))"
    and "FetchCVEPage url_ok fmt dec env rl opts = (rl', t, res)"
  shows "requests t \<le> 3 \<and> (\<forall>d. d \<in> set (pauses t) \<longrightarrow> 250 * Millisecond \<le> d \<and> d \<le> 10 * Second)
    \<and> (undisturbed (env (nvd_query fmt opts)) \<and> url_ok \<longrightarrow>
        (let x = (\<lambda>k. AE_exchange (env (nvd_query fmt opts) k))
         in if \<not> retryable (x 1) then res = exchange_result dec (x 1) \<and> requests t = 1
            else if \<not> retryable (x 2) then res = exchange_result dec (x 2) \<and> requests t = 2
            else if \<not> retryable (x 3) then res = exchange_result dec (x 3) \<and> requests t = 3
            else res = Inl (RetriesExhausted (exchange_error (x 3))) \<and> requests t = 3))"
proof -
  let ?env = "env (nvd_query fmt opts)"
  have ks: "[1..<Suc maxRetries] = [1, 2, 3]" by (simp add: maxRetries_def upt_rec)
  have tr: "requests t \<le> 3 \<and> list_all (\<lambda>d. 250 * Millisecond \<le> d \<and> d \<le> 10 * Second) (pauses t)"
  proof (cases url_ok)
    case True
    then have "page_loop dec ?env rl NoError [1, 2, 3] = (rl', t, res)"
      using assms(2) ks by (simp add: FetchCVEPage_def)
    from page_loop_trace [OF assms(1) this] show ?thesis by (simp add: numeral_3_eq_3)
  qed (use assms(2) in \<open>simp add: FetchCVEPage_def\<close>)
  have ex: "let x = (\<lambda>k. AE_exchange (?env k))
         in if \<not> retryable (x 1) then res = exchange_result dec (x 1) \<and> requests t = 1
            else if \<not> retryable (x 2) then res = exchange_result dec (x 2) \<and> requests t = 2
            else if \<not> retryable (x 3) then res = exchange_result dec (x 3) \<and> requests t = 3
            else res = Inl (RetriesExhausted (exchange_error (x 3))) \<and> requests t = 3"
    if u: "undisturbed ?env" "url_ok"
  proof -
    have p: "page_loop dec ?env rl NoError [1, 2, 3] = (rl', t, res)"
      using assms(2) ks u(2) by (simp add: FetchCVEPage_def)
    show ?thesis
      using page_loop_exact [OF u(1), of dec rl NoError "[1, 2, 3]"] unfolding p
      by (auto simp: Let_def)
  qed
  show ?thesis using tr list_all_pausesD ex by blast
qed

text \<open>A concrete instance.\<close>

definition demo_attempt :: "nat \<Rightarrow> attempt_env" where
  "demo_attempt k = \<lparr>AE_now = 0, AE_woke = 0, AE_wait_cancelled = False, AE_request_ok = True,
     AE_exchange = (if k = 1 then Answered 503 [] else Answered 200 ''doc''), AE_rnd = (\<lambda>n. 0),
     AE_backoff_cancelled = False\<rparr>"

definition demo_response :: NVDResponse where
  "demo_response = \<lparr>NP_ResultsPerPage = 200, NP_StartIndex = 0, NP_TotalResults = 0, NP_Format = [],
     NP_Version = [], NP_Timestamp = [], NP_Vulnerabilities = []\<rparr>"

lemma demo_attempt_ok: "undisturbed demo_attempt" "random_source demo_attempt"
  by (simp_all add: undisturbed_def random_source_def demo_attempt_def)

theorem FetchCVEPage_exact_witness:
  "\<exists>rl' t. FetchCVEPage True (\<lambda>_. []) (\<lambda>_. Some demo_response) (\<lambda>_. demo_attempt) (NewNVDRateLimiter True)
      (sync_options 0 zero_time) = (rl', t, Inr demo_response) \<and> requests t = 2"
proof -
  obtain rl' t res where f: "FetchCVEPage True (\<lambda>_. []) (\<lambda>_. Some demo_response) (\<lambda>_. demo_attempt)
      (NewNVDRateLimiter True) (sync_options 0 zero_time) = (rl', t, res)" by (metis prod_cases3)
  have x: "AE_exchange (demo_attempt 1) = Answered 503 []" "AE_exchange (demo_attempt (Suc 0)) = Answered 503 []"
    "AE_exchange (demo_attempt 2) = Answered 200 ''doc''"
    by (simp_all add: demo_attempt_def)
  from FetchCVEPage_exact [OF _ f] demo_attempt_ok
  have "res = exchange_result (\<lambda>_. Some demo_response) (AE_exchange (demo_attempt 2)) \<and> requests t = 2"
    by (simp add: Let_def x retryable_def)
  then show ?thesis using f by (simp add: x exchange_result_def)
qed

text \<open>A synchronisation is atomic in its bookkeeping: when the catalogue cannot be fetched nothing
  changes; when the CVE query fails only the catalogue is replaced and the time of the last
  synchronisation stays, so that the next run asks for the same window again; on success the
  catalogue lookup answers exactly from the fetched catalogue (the last entry of an identifier
  wins), the CVE lookup answers from the fetched page and, for identifiers it does not hold, as before.
  Findings are never touched.\<close>

theorem SyncFeedsNow_outcomes:
  assumes "\<forall>t feed m. FetchCatalog (SL_dec_kev lib) (SE_kev env) = (t, Inr (feed, m)) \<longrightarrow> iterates m (SE_ord env m)"
    and "SyncFeedsNow lib env w = (w', out)"
  shows "FR_heap (VW_repo w') = FR_heap (VW_repo w) \<and> FR_findings (VW_repo w') = FR_findings (VW_repo w)
    \<and> (case out of
        Some (KEVFetchFailed _) \<Rightarrow> w' = w
      | Some (NVDQueryFailed _) \<Rightarrow>
          VW_lastSyncAt w' = VW_lastSyncAt w \<and> FR_cveCache (VW_repo w') = FR_cveCache (VW_repo w)
          \<and> (\<exists>t feed m. FetchCatalog (SL_dec_kev lib) (SE_kev env) = (t, Inr (feed, m))
              \<and> (\<forall>cve. GetKEVItem (VW_repo w') cve = kev_lookup (KF_Vulnerabilities feed) (norm_id cve)))
      | None \<Rightarrow>
          VW_lastSyncAt w' = SE_done env
          \<and> (\<exists>t feed m rl t' resp.
              FetchCatalog (SL_dec_kev lib) (SE_kev env) = (t, Inr (feed, m))
              \<and> FetchCVEPage (SE_url_ok env) (SL_fmt lib) (SL_dec_nvd lib) (SE_nvd env) (VW_limiter w)
                  (sync_options (SE_now env) (VW_lastSyncAt w)) = (rl, t', Inr resp)
              \<and> (\<forall>cve. GetKEVItem (VW_repo w') cve =
                    (if norm_id cve = [] then None
                     else find (\<lambda>i. norm_id (KV_CVEID i) = norm_id cve) (rev (KF_Vulnerabilities feed))))
              \<and> (\<forall>cve. GetCachedCVEByID (VW_repo w') cve =
                    (case find (\<lambda>v. NI_ID (NV_CVE v) \<noteq> [] \<and> norm_id (NI_ID (NV_CVE v)) = norm_id cve)
                            (rev (NP_Vulnerabilities resp)) of
                       None \<Rightarrow> GetCachedCVEByID (VW_repo w) cve
                     | Some v \<Rightarrow> Some ((ConvertNVDItemToCached (SL_parse_date lib) (SE_now env) (NV_CVE v))
                                       \<lparr>CC_CVEID := norm_id cve\<rparr>)))))"
proof -
  obtain t kr where k: "FetchCatalog (SL_dec_kev lib) (SE_kev env) = (t, kr)" by fastforce
  show ?thesis
  proof (cases kr)
    case (Inl err)
    then show ?thesis using assms(2) k by (auto simp: SyncFeedsNow_def)
  next
    case (Inr fm)
    then obtain feed m where fm: "kr = Inr (feed, m)" by (cases fm) auto
    have m: "m = kev_lookup (KF_Vulnerabilities feed)"
      using k fm by (auto simp: FetchCatalog_def split: prod.splits sum.splits)
    let ?r = "SaveKEVCatalog (SE_ord env m) (VW_repo w) m"
    have it: "iterates m (SE_ord env m)" using assms(1) k fm by blast
    have kev: "GetKEVItem ?r cve = kev_lookup (KF_Vulnerabilities feed) (norm_id cve)" for cve
      using SaveKEVCatalog_lookup it by (simp add: m)
    obtain rl t' nr where n: "FetchCVEPage (SE_url_ok env) (SL_fmt lib) (SL_dec_nvd lib) (SE_nvd env) (VW_limiter w)
        (sync_options (SE_now env) (VW_lastSyncAt w)) = (rl, t', nr)" by (metis prod_cases3)
    show ?thesis
    proof (cases nr)
      case (Inl err)
      then have "w' = w\<lparr>VW_repo := ?r, VW_limiter := rl\<rparr>" "out = Some (NVDQueryFailed err)"
        using assms(2) k fm n by (auto simp: SyncFeedsNow_def Let_def)
      then show ?thesis using k fm kev by (simp add: SaveKEVCatalog_frame)
    next
      case (Inr resp)
      let ?conv = "\<lambda>v. ConvertNVDItemToCached (SL_parse_date lib) (SE_now env) (NV_CVE v)"
      let ?vs = "NP_Vulnerabilities resp"
      have "w' = w\<lparr>VW_limiter := rl, VW_repo := SaveCachedCVEs ?r (map (\<lambda>v. Some (?conv v)) ?vs), VW_lastSyncAt := SE_done env\<rparr>
          \<and> out = None"
        using assms(2) k fm n Inr by (auto simp: SyncFeedsNow_def Let_def)
      moreover have "map (\<lambda>v. Some (?conv v)) ?vs = map Some (map ?conv ?vs)" by simp
      ultimately have w': "w' = w\<lparr>VW_limiter := rl, VW_repo := SaveCachedCVEs ?r (map Some (map ?conv ?vs)), VW_lastSyncAt := SE_done env\<rparr>"
        "out = None" by (simp_all only:)
      have id: "CC_CVEID (?conv v) = NI_ID (NV_CVE v)" for v
        by (simp add: ConvertNVDItemToCached_def Let_def split: list.splits)
      have fmap: "find P (map ?conv vs) = map_option ?conv (find (\<lambda>v. P (?conv v)) vs)" for P vs
        by (induction vs) auto
      have cve: "GetCachedCVEByID (VW_repo w') cve =
          (case find (\<lambda>v. NI_ID (NV_CVE v) \<noteq> [] \<and> norm_id (NI_ID (NV_CVE v)) = norm_id cve) (rev ?vs) of
             None \<Rightarrow> GetCachedCVEByID (VW_repo w) cve
           | Some v \<Rightarrow> Some ((?conv v)\<lparr>CC_CVEID := norm_id cve\<rparr>))" for cve
        using SaveCachedCVEs_lookup [of ?r "map ?conv ?vs" "norm_id cve"]
        by (simp add: w'(1) GetCachedCVEByID_def rev_map fmap id SaveKEVCatalog_frame split: option.splits)
      have kv: "GetKEVItem (VW_repo w') cve = (if norm_id cve = [] then None
           else find (\<lambda>i. norm_id (KV_CVEID i) = norm_id cve) (rev (KF_Vulnerabilities feed)))" for cve
        using kev [of cve] by (simp add: w'(1) GetKEVItem_def SaveCachedCVEs_frame kev_lookup_spec)
      have fr: "FR_heap (VW_repo w') = FR_heap (VW_repo w)" "FR_findings (VW_repo w') = FR_findings (VW_repo w)"
        "VW_lastSyncAt w' = SE_done env"
        by (simp_all add: w'(1) SaveCachedCVEs_frame SaveKEVCatalog_frame)
      have k': "FetchCatalog (SL_dec_kev lib) (SE_kev env) = (t, Inr (feed, m))" using k fm by simp
      have n': "FetchCVEPage (SE_url_ok env) (SL_fmt lib) (SL_dec_nvd lib) (SE_nvd env) (VW_limiter w)
        (sync_options (SE_now env) (VW_lastSyncAt w)) = (rl, t', Inr resp)" using n Inr by simp
      show ?thesis unfolding w'(2) option.case
        by (intro conjI exI [of _ t] exI [of _ feed] exI [of _ m] exI [of _ rl] exI [of _ t'] exI [of _ resp] allI
            fr k' n' kv cve)
    qed
  qed
qed

text \<open>A concrete instance.\<close>

definition demo_kev :: CISAKEVItem where
  "demo_kev = \<lparr>KV_CVEID = '' CVE-1'', KV_VendorProject = [], KV_Product = [], KV_VulnerabilityName = [],
     KV_DateAdded = [], KV_ShortDescription = [], KV_RequiredAction = [], KV_DueDate = [],
     KV_KnownRansomwareCampaignUse = [], KV_Notes = []\<rparr>"

definition demo_sync_lib :: sync_lib where
  "demo_sync_lib = \<lparr>SL_dec_kev = (\<lambda>_. Some \<lparr>KF_Title = [], KF_CatalogVersion = [], KF_DateReleased = [], KF_Count = 1,
       KF_Vulnerabilities = [demo_kev]\<rparr>),
     SL_dec_nvd = (\<lambda>_. Some demo_response), SL_fmt = (\<lambda>_. []), SL_parse_date = (\<lambda>_. 0)\<rparr>"

definition demo_sync_env :: sync_env where
  "demo_sync_env = \<lparr>SE_kev = demo_attempt, SE_nvd = (\<lambda>_. demo_attempt), SE_ord = (\<lambda>_. [''CVE-1'']), SE_now = 5,
     SE_done = 9, SE_url_ok = True\<rparr>"

definition demo_worker :: VulnScanWorker where
  "demo_worker = \<lparr>VW_limiter = NewNVDRateLimiter True, VW_repo = NewMemoryFindingRepository,
     VW_running = False, VW_lastSyncAt = zero_time\<rparr>"

lemma demo_catalog:
  "FetchCatalog (SL_dec_kev demo_sync_lib) (SE_kev demo_sync_env) = (t, Inr (feed, m))
   \<Longrightarrow> KF_Vulnerabilities feed = [demo_kev] \<and> m = [''CVE-1'' \<mapsto> demo_kev]"
  by (auto simp: FetchCatalog_def demo_sync_lib_def demo_sync_env_def maxRetries_def upt_rec demo_attempt_def
      Let_def kev_lookup_def demo_kev_def norm_id_def to_upper_def trim_space_def trim_def upper_char_def is_space_def)

lemma demo_sync: "snd (SyncFeedsNow demo_sync_lib demo_sync_env demo_worker) = None"
  by (simp add: SyncFeedsNow_def FetchCatalog_def FetchCVEPage_def demo_sync_lib_def demo_sync_env_def demo_worker_def
      maxRetries_def upt_rec demo_attempt_def Let_def Wait_def split: prod.splits)

theorem SyncFeedsNow_outcomes_witness:
  "case SyncFeedsNow demo_sync_lib demo_sync_env demo_worker of
     (w', out) \<Rightarrow> out = None \<and> VW_lastSyncAt w' = 9 \<and> GetKEVItem (VW_repo w') ''CVE-1'' = Some demo_kev"
proof -
  obtain w' out where s: "SyncFeedsNow demo_sync_lib demo_sync_env demo_worker = (w', out)" by fastforce
  then have out: "out = None" using demo_sync by (metis snd_conv)
  have n: "norm_id ''CVE-1'' = ''CVE-1''" "norm_id (KV_CVEID demo_kev) = ''CVE-1''"
    by (simp_all add: demo_kev_def norm_id_def to_upper_def trim_space_def trim_def upper_char_def is_space_def)
  have it: "\<forall>t feed m. FetchCatalog (SL_dec_kev demo_sync_lib) (SE_kev demo_sync_env) = (t, Inr (feed, m))
      \<longrightarrow> iterates m (SE_ord demo_sync_env m)"
  proof (intro allI impI)
    fix t feed m
    assume "FetchCatalog (SL_dec_kev demo_sync_lib) (SE_kev demo_sync_env) = (t, Inr (feed, m))"
    then have "m = [''CVE-1'' \<mapsto> demo_kev]" using demo_catalog by blast
    then show "iterates m (SE_ord demo_sync_env m)" by (simp add: iterates_def demo_sync_env_def)
  qed
  note R = SyncFeedsNow_outcomes [OF it s, unfolded out option.case]
  then obtain t feed m where c:
    "FetchCatalog (SL_dec_kev demo_sync_lib) (SE_kev demo_sync_env) = (t, Inr (feed, m))"
    "\<forall>cve. GetKEVItem (VW_repo w') cve = (if norm_id cve = [] then None
       else find (\<lambda>i. norm_id (KV_CVEID i) = norm_id cve) (rev (KF_Vulnerabilities feed)))"
    by (elim conjE exE) (rule that)
  have "KF_Vulnerabilities feed = [demo_kev]" using demo_catalog [OF c(1)] by simp
  then have "GetKEVItem (VW_repo w') ''CVE-1'' = Some demo_kev" using n by (simp add: c(2))
  moreover have "VW_lastSyncAt w' = 9" using R by (simp add: demo_sync_env_def)
  ultimately show ?thesis by (simp add: s out)
qed

end
