(* ===== verification/Alerts.thy ===== *)
theory Alerts
  imports Drift Feeds Json
begin

text \<open>
  Alerting on drift (\<open>drift/alerts.go\<close>, \<open>drift/repository.go\<close>, \<open>drift/webhook.go\<close>, \<open>drift/worker.go\<close>): the
  rules with their suppression windows, the store of events, rules and delivery logs, the signed
  webhook with its retries, and the worker that puts them together. HMAC, JSON encoding, identifiers,
  the network and the clock are arguments.
\<close>

section \<open>Data\<close>

type_synonym AlertChannel = string

record DriftQueryOptions =
  DQ_Severity :: string
  DQ_Category :: string
  DQ_HostID :: string
  DQ_IsAcknowledged :: "bool option"
  DQ_Limit :: int
  DQ_Offset :: int

record DriftListResponse =
  DL_TotalCount :: int
  DL_Unacknowledged :: int
  DL_CriticalCount :: int
  DL_WarningCount :: int
  DL_InfoCount :: int
  DL_Limit :: int
  DL_Offset :: int
  DL_Items :: "DriftEvent list"

record AlertRule =
  AL_ID :: string
  AL_TenantID :: string
  AL_Name :: string
  AL_Description :: string
  AL_SeverityFilter :: DriftSeverity
  AL_AssetClassFilter :: string
  AL_CategoryFilter :: string
  AL_Channel :: AlertChannel
  AL_WebhookURL :: string
  AL_SecretKey :: string
  AL_SuppressionWindowHours :: int
  AL_IsActive :: bool
  AL_CreatedAt :: time
  AL_UpdatedAt :: time

record WebhookNotificationPayload =
  WP_DeliveryID :: string
  WP_TimestampUTC :: string
  WP_TenantID :: string
  WP_RuleID :: string
  WP_RuleName :: string
  WP_HostID :: string
  WP_Hostname :: string
  WP_AssetClass :: string
  WP_Event :: DriftEvent

record WebhookDeliveryLog =
  WL_ID :: string
  WL_TenantID :: string
  WL_RuleID :: string
  WL_EventID :: string
  WL_TargetURL :: string
  WL_StatusCode :: int
  WL_DurationMs :: int
  WL_Attempts :: int
  WL_Status :: string
  WL_ErrorMessage :: "string option"
  WL_DeliveredAt :: time

record TestAlertResponse =
  TR_Status :: string
  TR_TargetURL :: string
  TR_StatusCode :: int
  TR_DurationMs :: int
  TR_DeliveryID :: string
  TR_VerificationReceipt :: string
  TR_ErrorMessage :: string
  TR_TestedAt :: time
  TR_TestedBy :: string
  TR_AlertNotice :: string

section \<open>Rules and suppression\<close>

text \<open>The engine keeps the time of the last alert per tenant, host and property.\<close>

type_synonym AlertEngine = "string \<rightharpoonup> time"

definition suppression_key :: "string \<Rightarrow> string \<Rightarrow> string \<Rightarrow> string" where
  "suppression_key tenantID hostID propertyName = tenantID @ '':'' @ hostID @ '':'' @ propertyName"

definition isSuppressed :: "AlertEngine \<Rightarrow> string \<Rightarrow> string \<Rightarrow> string \<Rightarrow> int \<Rightarrow> time \<Rightarrow> bool" where
  "isSuppressed e tenantID hostID propertyName windowHours now =
     (if windowHours \<le> 0 then False
      else
        (case e (suppression_key tenantID hostID propertyName) of
           None \<Rightarrow> False
         | Some lastAlert \<Rightarrow>
             (let windowDuration = wrap64 (windowHours * Hour) in time_sub now lastAlert < windowDuration)))"

text \<open>The filters of a rule other than the suppression window.\<close>

definition rule_matches :: "DriftEvent \<Rightarrow> string \<Rightarrow> AlertRule \<Rightarrow> bool" where
  "rule_matches event assetClass rule \<longleftrightarrow>
     AL_IsActive rule
     \<and> (AL_SeverityFilter rule \<noteq> [] \<longrightarrow> equal_fold (AL_SeverityFilter rule) (DE_Severity event))
     \<and> (AL_AssetClassFilter rule \<noteq> [] \<longrightarrow>
          equal_fold (AL_AssetClassFilter rule) assetClass
          \<or> contains (to_lower assetClass) (to_lower (AL_AssetClassFilter rule)))
     \<and> (AL_CategoryFilter rule \<noteq> [] \<longrightarrow> equal_fold (AL_CategoryFilter rule) (DE_DriftCategory event))"

definition EvaluateRules :: "AlertEngine \<Rightarrow> time \<Rightarrow> DriftEvent \<Rightarrow> string \<Rightarrow> AlertRule list \<Rightarrow> AlertRule list" where
  "EvaluateRules e now event assetClass rules =
     filter (\<lambda>rule. rule_matches event assetClass rule
       \<and> \<not> isSuppressed e (DE_TenantID event) (DE_HostID event) (DE_PropertyName event) (AL_SuppressionWindowHours rule) now) rules"

definition MarkAlertDispatched :: "AlertEngine \<Rightarrow> string \<Rightarrow> string \<Rightarrow> string \<Rightarrow> time \<Rightarrow> AlertEngine" where
  "MarkAlertDispatched e tenantID hostID propertyName sentAt = e(suppression_key tenantID hostID propertyName \<mapsto> sentAt)"

definition ClearSuppression :: "AlertEngine \<Rightarrow> string \<Rightarrow> string \<Rightarrow> string \<Rightarrow> AlertEngine" where
  "ClearSuppression e tenantID hostID propertyName = e(suppression_key tenantID hostID propertyName := None)"

section \<open>Repository\<close>

record MemoryDriftRepository =
  MD_events :: "string \<rightharpoonup> DriftEvent"
  MD_rules :: "string \<rightharpoonup> AlertRule"
  MD_deliveryLogs :: "string \<rightharpoonup> WebhookDeliveryLog"

text \<open>\<open>uid\<close> supplies the identifier of an entry that has none.\<close>

definition SaveDriftEvents :: "(nat \<Rightarrow> string) \<Rightarrow> MemoryDriftRepository \<Rightarrow> DriftEvent list \<Rightarrow> MemoryDriftRepository" where
  "SaveDriftEvents uid r events =
     foldl (\<lambda>r (i, ev).
         let ev = (if DE_ID ev = [] then ev\<lparr>DE_ID := uid i\<rparr> else ev)
         in r\<lparr>MD_events := (MD_events r)(DE_ID ev \<mapsto> ev)\<rparr>) r (List.enumerate 0 events)"

definition drift_match :: "DriftQueryOptions \<Rightarrow> DriftEvent \<Rightarrow> bool" where
  "drift_match opts ev \<longleftrightarrow>
     (DQ_Severity opts \<noteq> [] \<and> \<not> equal_fold (DQ_Severity opts) ''ALL'' \<longrightarrow> equal_fold (DE_Severity ev) (DQ_Severity opts))
     \<and> (DQ_Category opts \<noteq> [] \<longrightarrow> equal_fold (DE_DriftCategory ev) (DQ_Category opts))
     \<and> (DQ_HostID opts \<noteq> [] \<longrightarrow> DE_HostID ev = DQ_HostID opts)
     \<and> (case DQ_IsAcknowledged opts of None \<Rightarrow> True | Some b \<Rightarrow> DE_IsAcknowledged ev = b)"

definition QueryDriftEvents ::
  "string list \<Rightarrow> MemoryDriftRepository \<Rightarrow> string \<Rightarrow> DriftQueryOptions \<Rightarrow> DriftListResponse" where
  "QueryDriftEvents ord r tenantID opts =
     (let mine = filter (\<lambda>ev. DE_TenantID ev = tenantID) (range_vals (MD_events r) ord);
          filtered = sort_slice (\<lambda>a b. DE_DetectedAt a > DE_DetectedAt b) (filter (drift_match opts) mine);
          limit = clamp_limit (DQ_Limit opts);
          offset = clamp_offset (DQ_Offset opts)
      in \<lparr>DL_TotalCount = int (length filtered),
          DL_Unacknowledged = count_if (\<lambda>ev. \<not> DE_IsAcknowledged ev) mine,
          DL_CriticalCount = count_if (\<lambda>ev. DE_Severity ev = SeverityCritical) mine,
          DL_WarningCount = count_if (\<lambda>ev. DE_Severity ev = SeverityWarning) mine,
          DL_InfoCount = count_if (\<lambda>ev. DE_Severity ev = SeverityInfo) mine,
          DL_Limit = limit, DL_Offset = offset, DL_Items = page limit offset filtered\<rparr>)"

text \<open>\<open>None\<close>: no such event of the tenant.\<close>

definition AcknowledgeDriftEvent ::
  "time \<Rightarrow> MemoryDriftRepository \<Rightarrow> string \<Rightarrow> string \<Rightarrow> string \<Rightarrow> MemoryDriftRepository option" where
  "AcknowledgeDriftEvent now r tenantID eventID acknowledgedBy =
     (case MD_events r eventID of
        None \<Rightarrow> None
      | Some ev \<Rightarrow>
          if DE_TenantID ev \<noteq> tenantID then None
          else Some (r\<lparr>MD_events := (MD_events r)(eventID \<mapsto>
                 ev\<lparr>DE_IsAcknowledged := True, DE_AcknowledgedBy := Some acknowledgedBy, DE_AcknowledgedAt := Some now\<rparr>)\<rparr>))"

definition SaveAlertRule :: "string \<Rightarrow> time \<Rightarrow> MemoryDriftRepository \<Rightarrow> AlertRule \<Rightarrow> MemoryDriftRepository" where
  "SaveAlertRule uid now r rule =
     (let rule = (if AL_ID rule = [] then rule\<lparr>AL_ID := uid\<rparr> else rule);
          rule = (if AL_CreatedAt rule = zero_time then rule\<lparr>AL_CreatedAt := now\<rparr> else rule);
          rule = rule\<lparr>AL_UpdatedAt := now\<rparr>
      in r\<lparr>MD_rules := (MD_rules r)(AL_ID rule \<mapsto> rule)\<rparr>)"

definition ListAlertRules :: "string list \<Rightarrow> MemoryDriftRepository \<Rightarrow> string \<Rightarrow> AlertRule list" where
  "ListAlertRules ord r tenantID = filter (\<lambda>rule. AL_TenantID rule = tenantID) (range_vals (MD_rules r) ord)"

definition GetAlertRuleByID :: "MemoryDriftRepository \<Rightarrow> string \<Rightarrow> string \<Rightarrow> AlertRule option" where
  "GetAlertRuleByID r tenantID ruleID =
     (case MD_rules r ruleID of None \<Rightarrow> None
      | Some rule \<Rightarrow> if AL_TenantID rule \<noteq> tenantID then None else Some rule)"

definition SaveDeliveryLog :: "string \<Rightarrow> MemoryDriftRepository \<Rightarrow> WebhookDeliveryLog \<Rightarrow> MemoryDriftRepository" where
  "SaveDeliveryLog uid r lg =
     (let lg = (if WL_ID lg = [] then lg\<lparr>WL_ID := uid\<rparr> else lg)
      in r\<lparr>MD_deliveryLogs := (MD_deliveryLogs r)(WL_ID lg \<mapsto> lg)\<rparr>)"

definition ListDeliveryLogs :: "string list \<Rightarrow> MemoryDriftRepository \<Rightarrow> string \<Rightarrow> int \<Rightarrow> WebhookDeliveryLog list" where
  "ListDeliveryLogs ord r tenantID limit =
     (let list = sort_slice (\<lambda>a b. WL_DeliveredAt a > WL_DeliveredAt b)
                   (filter (\<lambda>lg. WL_TenantID lg = tenantID) (range_vals (MD_deliveryLogs r) ord))
      in if limit > 0 \<and> int (length list) > limit then take (nat limit) list else list)"

definition default_rule :: "time \<Rightarrow> AlertRule" where
  "default_rule now =
     \<lparr>AL_ID = ''rule-default-critical-laptop'', AL_TenantID = ''tenant-default-01'',
      AL_Name = ''Critical Laptop Security Baseline Drift'',
      AL_Description = ''Sends an immediate webhook alert when BitLocker, TPM, Secure Boot, or Local Admin drifts on mobile laptops.'',
      AL_SeverityFilter = SeverityCritical, AL_AssetClassFilter = ''Laptop'', AL_CategoryFilter = [],
      AL_Channel = ''WEBHOOK'', AL_WebhookURL = ''https://hooks.slack.com/services/T000/B000/XXXX'',
      AL_SecretKey = ''default-webhook-hmac-secret-key-32b!'', AL_SuppressionWindowHours = 4,
      AL_IsActive = True, AL_CreatedAt = now, AL_UpdatedAt = now\<rparr>"

definition NewMemoryDriftRepository :: "time \<Rightarrow> MemoryDriftRepository" where
  "NewMemoryDriftRepository now =
     SaveAlertRule [] now \<lparr>MD_events = Map.empty, MD_rules = Map.empty, MD_deliveryLogs = Map.empty\<rparr> (default_rule now)"

section \<open>Webhooks\<close>

definition ComputeHMACSignature :: "(string \<Rightarrow> string \<Rightarrow> string) \<Rightarrow> string \<Rightarrow> string \<Rightarrow> string" where
  "ComputeHMACSignature hmac secretKey payload = hex_encode (hmac secretKey payload)"

definition VerifyWebhookSignature :: "(string \<Rightarrow> string \<Rightarrow> string) \<Rightarrow> string \<Rightarrow> string \<Rightarrow> string \<Rightarrow> bool" where
  "VerifyWebhookSignature hmac secretKey payload signatureHeader \<longleftrightarrow>
     trim_prefix signatureHeader ''sha256='' = ComputeHMACSignature hmac secretKey payload"

record WebhookDispatcher =
  WD_maxRetries :: int
  WD_baseDelay :: duration

definition NewWebhookDispatcher :: "int \<Rightarrow> WebhookDispatcher" where
  "NewWebhookDispatcher retries =
     \<lparr>WD_maxRetries = (if retries \<le> 0 then 3 else retries), WD_baseDelay = 100 * Millisecond\<rparr>"

datatype webhook_error = NoWebhookError | WebhookTransport string | WebhookStatus int | WebhookCancelled

text \<open>What one delivery meets: its identifiers and times, and per attempt whether the request can be
  built, the exchange, and whether the context ends during the pause.\<close>

record delivery_env =
  VE_delivery_id :: string
  VE_timestamp :: string
  VE_log_id :: string
  VE_start :: time
  VE_finish :: time
  VE_request_ok :: "nat \<Rightarrow> bool"
  VE_exchange :: "nat \<Rightarrow> exchange"
  VE_cancelled :: "nat \<Rightarrow> bool"

record webhook_request =
  WR_url :: string
  WR_body :: string
  WR_signature :: string
  WR_timestamp :: string
  WR_delivery_id :: string

datatype delivery_outcome =
    DeliverySucceeded nat int
  | DeliveryFailed webhook_error int
  | RequestNotBuilt
  | JitterPanic

text \<open>The pause before the next attempt; \<open>rand.Int63n\<close> panics on an argument that is not positive.\<close>

definition webhook_delay :: "WebhookDispatcher \<Rightarrow> nat \<Rightarrow> duration" where
  "webhook_delay d attempt = wrap64 (WD_baseDelay d * wrap64 (2 ^ (attempt - 1)))"

fun dispatch_loop ::
  "WebhookDispatcher \<Rightarrow> delivery_env \<Rightarrow> webhook_request \<Rightarrow> webhook_error \<Rightarrow> int \<Rightarrow> nat list
   \<Rightarrow> webhook_request list \<times> delivery_outcome" where
  "dispatch_loop d env req lastErr statusCode [] = ([], DeliveryFailed lastErr statusCode)"
| "dispatch_loop d env req lastErr statusCode (attempt # rest) =
     (if \<not> VE_request_ok env attempt then ([], RequestNotBuilt)
      else
        (let (delivered, statusCode, lastErr) =
           (case VE_exchange env attempt of
              Answered st _ \<Rightarrow> if 200 \<le> st \<and> st < 300 then (True, st, lastErr) else (False, st, WebhookStatus st)
            | TransportFailed err \<Rightarrow> (False, statusCode, WebhookTransport err))
         in if delivered then ([req], DeliverySucceeded attempt statusCode)
            else if int attempt < WD_maxRetries d then
              (if quot (webhook_delay d attempt) 2 \<le> 0 then ([req], JitterPanic)
               else
                 (let (reqs, out) = dispatch_loop d env req
                        (if VE_cancelled env attempt then WebhookCancelled else lastErr) statusCode rest
                  in (req # reqs, out)))
            else (let (reqs, out) = dispatch_loop d env req lastErr statusCode rest in (req # reqs, out))))"

datatype dispatch_result =
    NotEncoded
  | NotBuilt
  | Panicked
  | Logged WebhookDeliveryLog webhook_error

record webhook_lib =
  WB_hmac :: "string \<Rightarrow> string \<Rightarrow> string"
  WB_marshal :: "WebhookNotificationPayload \<Rightarrow> string option"
  WB_error_text :: "webhook_error \<Rightarrow> string"

definition webhook_payload :: "delivery_env \<Rightarrow> AlertRule \<Rightarrow> DriftEvent \<Rightarrow> string \<Rightarrow> WebhookNotificationPayload" where
  "webhook_payload env rule event assetClass =
     \<lparr>WP_DeliveryID = VE_delivery_id env, WP_TimestampUTC = VE_timestamp env, WP_TenantID = DE_TenantID event,
      WP_RuleID = AL_ID rule, WP_RuleName = AL_Name rule, WP_HostID = DE_HostID event,
      WP_Hostname = DE_Hostname event, WP_AssetClass = assetClass, WP_Event = event\<rparr>"

definition delivery_log ::
  "delivery_env \<Rightarrow> AlertRule \<Rightarrow> DriftEvent \<Rightarrow> int \<Rightarrow> int \<Rightarrow> string \<Rightarrow> string option \<Rightarrow> WebhookDeliveryLog" where
  "delivery_log env rule event statusCode attempts status err =
     \<lparr>WL_ID = VE_log_id env, WL_TenantID = DE_TenantID event, WL_RuleID = AL_ID rule, WL_EventID = DE_ID event,
      WL_TargetURL = AL_WebhookURL rule, WL_StatusCode = statusCode,
      WL_DurationMs = quot (time_sub (VE_finish env) (VE_start env)) Millisecond, WL_Attempts = attempts,
      WL_Status = status, WL_ErrorMessage = err, WL_DeliveredAt = VE_finish env\<rparr>"

definition Dispatch ::
  "webhook_lib \<Rightarrow> WebhookDispatcher \<Rightarrow> delivery_env \<Rightarrow> AlertRule \<Rightarrow> DriftEvent \<Rightarrow> string
   \<Rightarrow> webhook_request list \<times> dispatch_result" where
  "Dispatch lib d env rule event assetClass =
     (case WB_marshal lib (webhook_payload env rule event assetClass) of
        None \<Rightarrow> ([], NotEncoded)
      | Some payloadBytes \<Rightarrow>
          (let signatureHex = ComputeHMACSignature (WB_hmac lib) (AL_SecretKey rule) payloadBytes;
               req = \<lparr>WR_url = AL_WebhookURL rule, WR_body = payloadBytes, WR_signature = ''sha256='' @ signatureHex,
                      WR_timestamp = VE_timestamp env, WR_delivery_id = VE_delivery_id env\<rparr>;
               (reqs, out) = dispatch_loop d env req NoWebhookError 0 [1..<Suc (nat (WD_maxRetries d))]
           in (reqs,
               case out of
                 DeliverySucceeded attempt st \<Rightarrow>
                   Logged (delivery_log env rule event st (int attempt) ''SUCCESS'' None) NoWebhookError
               | DeliveryFailed err st \<Rightarrow>
                   Logged (delivery_log env rule event st (WD_maxRetries d) ''FAILED''
                     (Some (if err = NoWebhookError then [] else WB_error_text lib err))) err
               | RequestNotBuilt \<Rightarrow> NotBuilt
               | JitterPanic \<Rightarrow> Panicked)))"

section \<open>The worker\<close>

record DriftWorker =
  DW_alertEng :: AlertEngine
  DW_repo :: MemoryDriftRepository

definition NewDriftWorker :: "time \<Rightarrow> MemoryDriftRepository option \<Rightarrow> WebhookDispatcher option \<Rightarrow> DriftWorker \<times> WebhookDispatcher" where
  "NewDriftWorker now repo dispatcher =
     (\<lparr>DW_alertEng = Map.empty, DW_repo = (case repo of None \<Rightarrow> NewMemoryDriftRepository now | Some r \<Rightarrow> r)\<rparr>,
      case dispatcher of None \<Rightarrow> NewWebhookDispatcher 3 | Some d \<Rightarrow> d)"

text \<open>What a run meets: identifiers of events, the order of the rules, the clock per event and per
  delivery, and the deliveries in their order.\<close>

record process_env =
  PE_event_id :: "nat \<Rightarrow> string"
  PE_diff_now :: time
  PE_ord :: "string list"
  PE_eval_now :: "nat \<Rightarrow> time"
  PE_delivery :: "nat \<Rightarrow> delivery_env"
  PE_mark_now :: "nat \<Rightarrow> time"

text \<open>State of the loops: worker, logs so far, number of deliveries, and whether a delivery has panicked
  (nothing runs after a panic).\<close>

type_synonym worker_state = "DriftWorker \<times> WebhookDeliveryLog list \<times> nat \<times> bool"

definition deliver ::
  "webhook_lib \<Rightarrow> WebhookDispatcher \<Rightarrow> process_env \<Rightarrow> string \<Rightarrow> string \<Rightarrow> string \<Rightarrow> DriftEvent
   \<Rightarrow> worker_state \<Rightarrow> AlertRule \<Rightarrow> worker_state" where
  "deliver lib d env tenantID hostID assetClass ev = (\<lambda>(w, logs, n, panicked) rule.
     if panicked then (w, logs, n, True)
     else
       (case snd (Dispatch lib d (PE_delivery env n) rule ev assetClass) of
          Logged lg _ \<Rightarrow>
            (let w = w\<lparr>DW_repo := SaveDeliveryLog [] (DW_repo w) lg\<rparr>;
                 w = (if WL_Status lg = ''SUCCESS''
                      then w\<lparr>DW_alertEng := MarkAlertDispatched (DW_alertEng w) tenantID hostID (DE_PropertyName ev) (PE_mark_now env n)\<rparr>
                      else w)
             in (w, logs @ [lg], Suc n, False))
        | Panicked \<Rightarrow> (w, logs, Suc n, True)
        | NotEncoded \<Rightarrow> (w, logs, Suc n, False)
        | NotBuilt \<Rightarrow> (w, logs, Suc n, False)))"

definition process_event ::
  "webhook_lib \<Rightarrow> WebhookDispatcher \<Rightarrow> process_env \<Rightarrow> string \<Rightarrow> string \<Rightarrow> string \<Rightarrow> AlertRule list
   \<Rightarrow> worker_state \<Rightarrow> nat \<times> DriftEvent \<Rightarrow> worker_state" where
  "process_event lib d env tenantID hostID assetClass rules = (\<lambda>(w, logs, n, panicked) (i, ev).
     foldl (deliver lib d env tenantID hostID assetClass ev) (w, logs, n, panicked)
       (EvaluateRules (DW_alertEng w) (PE_eval_now env i) ev assetClass rules))"

datatype process_result =
    ProcessFailed drift_error
  | Processed "DriftEvent list" "WebhookDeliveryLog list"
  | ProcessPanicked

definition ProcessSnapshot ::
  "webhook_lib \<Rightarrow> (HostSnapshotPayload \<Rightarrow> string option) \<Rightarrow> WebhookDispatcher \<Rightarrow> process_env \<Rightarrow> DriftWorker
   \<Rightarrow> string \<Rightarrow> string \<Rightarrow> string \<Rightarrow> string \<Rightarrow> HostSnapshotPayload option \<Rightarrow> HostSnapshotPayload option
   \<Rightarrow> DriftWorker \<times> process_result" where
  "ProcessSnapshot lib payload_hash d env w tenantID hostID hostname0 assetClass0 newSnapshot prevSnapshot =
     (case newSnapshot of
        None \<Rightarrow> (w, ProcessFailed NilNewSnapshot)
      | Some new \<Rightarrow>
          if tenantID = [] then (w, ProcessFailed DriftMissingTenant)
          else if hostID = [] then (w, ProcessFailed DriftMissingHost)
          else
            (let hostname = (if hostname0 = [] then SSI_Hostname (HS_SystemIdentity new) else hostname0);
                 assetClass = (if assetClass0 = [] then SSI_ChassisType (HS_SystemIdentity new) else assetClass0)
             in case DiffSnapshots payload_hash (PE_event_id env) (PE_diff_now env) tenantID hostID hostname newSnapshot prevSnapshot of
                  Inl err \<Rightarrow> (w, ProcessFailed err)
                | Inr events \<Rightarrow>
                    if events = [] then (w, Processed [] [])
                    else
                      (let w = w\<lparr>DW_repo := SaveDriftEvents (PE_event_id env) (DW_repo w) events\<rparr>;
                           rules = ListAlertRules (PE_ord env) (DW_repo w) tenantID;
                           (w, logs, _, panicked) =
                             foldl (process_event lib d env tenantID hostID assetClass rules) (w, [], 0, False)
                               (List.enumerate 0 events)
                       in (w, if panicked then ProcessPanicked else Processed events logs))))"

section \<open>Test alerts\<close>

record TestAlertPayload =
  TP_AlertNotice :: string
  TP_AlertType :: string
  TP_Message :: string
  TP_DeliveryID :: string
  TP_TimestampUTC :: string
  TP_Operator :: string
  TP_System :: string
  TP_SimulatedMetrics :: "(string \<times> json) list"
  TP_VerificationReceipt :: string

record test_request =
  TQ_url :: string
  TQ_body :: string
  TQ_delivery_id :: string
  TQ_timestamp :: string
  TQ_signature :: "string option"

text \<open>Two fresh identifiers, the clock, the outcome of building the request and of the exchange.\<close>

record test_env =
  TE_delivery_uuid :: string
  TE_receipt_uuid :: string
  TE_timestamp :: string
  TE_start :: time
  TE_finish :: time
  TE_request_ok :: bool
  TE_exchange :: exchange

datatype test_error = TestNotEncoded | TestNotBuilt | TestTransport string

definition test_payload :: "test_env \<Rightarrow> string \<Rightarrow> string \<Rightarrow> TestAlertPayload" where
  "test_payload env operatorID reason =
     \<lparr>TP_AlertNotice = ''[SYNTHETIC TEST ALERT - NOT A REAL INCIDENT]'',
      TP_AlertType = ''FLEET_FAILURE_RATE_SIMULATION'',
      TP_Message = ''ZeroAgent-Scan Alert Delivery Verification: Simulated 12.5% scan failure threshold exceeded across pilot ring. Reason: '' @ reason,
      TP_DeliveryID = ''test-'' @ TE_delivery_uuid env,
      TP_TimestampUTC = TE_timestamp env,
      TP_Operator = operatorID,
      TP_System = ''ZeroAgent-Scan / EndpointGuard EMS Enterprise'',
      TP_SimulatedMetrics =
        [(''simulated_failure_rate'', JStr ''12.5%''), (''pilot_hosts_evaluated'', JNum 15),
         (''failure_threshold'', JStr ''5.0%''), (''probe_type'', JStr ''WinRM HTTPS 5986 Handshake'')],
      TP_VerificationReceipt = ''RECEIPT-'' @ to_upper (take 8 (TE_receipt_uuid env))\<rparr>"

definition test_response :: "test_env \<Rightarrow> string \<Rightarrow> string \<Rightarrow> TestAlertPayload \<Rightarrow> string \<Rightarrow> int \<Rightarrow> string \<Rightarrow> TestAlertResponse" where
  "test_response env webhookURL operatorID payload status statusCode errMsg =
     \<lparr>TR_Status = status, TR_TargetURL = webhookURL, TR_StatusCode = statusCode,
      TR_DurationMs = quot (time_sub (TE_finish env) (TE_start env)) Millisecond,
      TR_DeliveryID = TP_DeliveryID payload, TR_VerificationReceipt = TP_VerificationReceipt payload,
      TR_ErrorMessage = errMsg, TR_TestedAt = TE_finish env, TR_TestedBy = operatorID,
      TR_AlertNotice = TP_AlertNotice payload\<rparr>"

definition DispatchTestAlert ::
  "(string \<Rightarrow> string \<Rightarrow> string) \<Rightarrow> (TestAlertPayload \<Rightarrow> string option) \<Rightarrow> (int \<Rightarrow> string) \<Rightarrow> test_env
   \<Rightarrow> string \<Rightarrow> string \<Rightarrow> string \<Rightarrow> string
   \<Rightarrow> test_request option \<times> TestAlertResponse option \<times> test_error option" where
  "DispatchTestAlert hmac marshal itoa env webhookURL secretKey operatorID reason0 =
     (let reason = (if reason0 = [] then ''Scheduled verification of on-call notification pipeline'' else reason0);
          payload = test_payload env operatorID reason
      in case marshal payload of
           None \<Rightarrow> (None, None, Some TestNotEncoded)
         | Some payloadBytes \<Rightarrow>
             if \<not> TE_request_ok env then (None, None, Some TestNotBuilt)
             else
               (let req = \<lparr>TQ_url = webhookURL, TQ_body = payloadBytes, TQ_delivery_id = TP_DeliveryID payload,
                           TQ_timestamp = TE_timestamp env,
                           TQ_signature = (if secretKey \<noteq> [] then Some (''sha256='' @ ComputeHMACSignature hmac secretKey payloadBytes)
                                           else None)\<rparr>
                in case TE_exchange env of
                     TransportFailed err \<Rightarrow>
                       (Some req, Some (test_response env webhookURL operatorID payload ''FAILED'' 0 err), Some (TestTransport err))
                   | Answered statusCode _ \<Rightarrow>
                       (Some req,
                        Some (if statusCode < 200 \<or> 300 \<le> statusCode
                              then test_response env webhookURL operatorID payload ''FAILED'' statusCode
                                     (''Remote webhook endpoint returned HTTP '' @ itoa statusCode)
                              else test_response env webhookURL operatorID payload ''DELIVERED'' statusCode []),
                        None)))"

section \<open>Suppression\<close>

lemma suppression_key_inj:
  assumes "no_colon t" "no_colon t'" "no_colon h" "no_colon h'"
  shows "suppression_key t h p = suppression_key t' h' p' \<longleftrightarrow> t = t' \<and> h = h' \<and> p = p'"
  using assms by (simp add: suppression_key_def no_colon_def append_sep_inj)

text \<open>A history of alerts: who was alerted when, earliest first.\<close>

record alert =
  AT_tenant :: string
  AT_host :: string
  AT_prop :: string
  AT_at :: time

definition mark_all :: "AlertEngine \<Rightarrow> alert list \<Rightarrow> AlertEngine" where
  "mark_all = foldl (\<lambda>e a. MarkAlertDispatched e (AT_tenant a) (AT_host a) (AT_prop a) (AT_at a))"

lemma mark_all_lookup:
  assumes "no_colon t" "no_colon h" "\<forall>a \<in> set as. no_colon (AT_tenant a) \<and> no_colon (AT_host a)"
  shows "mark_all Map.empty as (suppression_key t h p) =
    (case filter (\<lambda>a. AT_tenant a = t \<and> AT_host a = h \<and> AT_prop a = p) as of
       [] \<Rightarrow> None | xs \<Rightarrow> Some (AT_at (last xs)))"
  using assms(3)
proof (induction as rule: rev_induct)
  case (snoc a as)
  have key: "suppression_key t h p = suppression_key (AT_tenant a) (AT_host a) (AT_prop a)
      \<longleftrightarrow> AT_tenant a = t \<and> AT_host a = h \<and> AT_prop a = p"
    using suppression_key_inj [of t "AT_tenant a" h "AT_host a" p "AT_prop a"] assms(1,2) snoc.prems by auto
  have step: "mark_all Map.empty (as @ [a]) (suppression_key t h p)
      = (if AT_tenant a = t \<and> AT_host a = h \<and> AT_prop a = p then Some (AT_at a)
         else mark_all Map.empty as (suppression_key t h p))"
    by (simp add: mark_all_def MarkAlertDispatched_def key)
  show ?case using snoc unfolding step by (auto split: list.splits)
qed (simp add: mark_all_def)

lemma last_sorted:
  "sorted (map f xs) \<Longrightarrow> x \<in> set xs \<Longrightarrow> f x \<le> (f (last xs) :: int)"
  by (induction xs) (auto split: if_splits)

section \<open>Deliveries\<close>

lemma trim_prefix_append: "trim_prefix (p @ w) p = w"
  by (simp add: trim_prefix_def)

lemma VerifyWebhookSignature_own:
  "VerifyWebhookSignature hmac k body (''sha256='' @ ComputeHMACSignature hmac k body)"
  unfolding VerifyWebhookSignature_def by (rule trim_prefix_append)

definition delivered :: "delivery_env \<Rightarrow> nat \<Rightarrow> bool" where
  "delivered env k = (case VE_exchange env k of Answered st _ \<Rightarrow> 200 \<le> st \<and> st < 300 | TransportFailed _ \<Rightarrow> False)"

text \<open>For up to thirty attempts the pauses are positive.\<close>

lemma webhook_delay_positive:
  assumes "WD_baseDelay d = 100 * Millisecond" "k \<le> 30"
  shows "0 < quot (webhook_delay d k) 2"
proof -
  have p: "(2::int) ^ (k - 1) \<le> 2 ^ 29" using assms(2) by (intro power_increasing) auto
  have f: "fits64 q" if "0 \<le> q" "q \<le> 2 ^ 29" for q
    using that by (simp add: fits64_def min_int64_def max_int64_def)
  have "wrap64 (2 ^ (k - 1)) = 2 ^ (k - 1)" using p by (intro wrap64_id f) simp_all
  moreover have "wrap64 (100 * Millisecond * q) = 100 * Millisecond * q" if "0 \<le> q" "q \<le> 2 ^ 29" for q
    using that by (intro wrap64_id) (simp add: fits64_def min_int64_def max_int64_def Millisecond_def)
  ultimately have d: "webhook_delay d k = 100 * Millisecond * 2 ^ (k - 1)" using p by (simp add: webhook_delay_def assms(1))
  have "quot (100 * Millisecond * q) 2 > 0" if "0 < q" for q
    using that by (simp add: quot_pos Millisecond_def)
  then show ?thesis unfolding d by simp
qed

lemma dispatch_loop_spec:
  assumes "\<forall>k. VE_request_ok env k" "WD_baseDelay d = 100 * Millisecond" "\<forall>k \<in> set ks. k \<le> 30"
  shows "case find (delivered env) ks of
      Some k \<Rightarrow> dispatch_loop d env req le sc ks
          = (replicate (Suc (length (takeWhile (\<lambda>k. \<not> delivered env k) ks))) req,
             DeliverySucceeded k (case VE_exchange env k of Answered st _ \<Rightarrow> st | TransportFailed _ \<Rightarrow> 0))
    | None \<Rightarrow> (\<exists>err st. dispatch_loop d env req le sc ks = (replicate (length ks) req, DeliveryFailed err st))"
  using assms(3)
proof (induction ks arbitrary: le sc)
  case (Cons k ks)
  have IH: "case find (delivered env) ks of
      Some k \<Rightarrow> dispatch_loop d env req le sc ks
          = (replicate (Suc (length (takeWhile (\<lambda>k. \<not> delivered env k) ks))) req,
             DeliverySucceeded k (case VE_exchange env k of Answered st _ \<Rightarrow> st | TransportFailed _ \<Rightarrow> 0))
    | None \<Rightarrow> (\<exists>err st. dispatch_loop d env req le sc ks = (replicate (length ks) req, DeliveryFailed err st))" for le sc
    using Cons by simp
  have q: "\<not> quot (webhook_delay d k) 2 \<le> 0"
    using webhook_delay_positive [OF assms(2), of k] Cons.prems by simp
  show ?case
  proof (cases "delivered env k")
    case True
    then obtain st b where "VE_exchange env k = Answered st b" "200 \<le> st" "st < 300"
      by (auto simp: delivered_def split: exchange.splits)
    then show ?thesis using True assms(1) by simp
  next
    case False
    have step: "\<exists>le' sc'. dispatch_loop d env req le sc (k # ks)
        = (case dispatch_loop d env req le' sc' ks of (reqs, out) \<Rightarrow> (req # reqs, out))"
    proof (cases "VE_exchange env k")
      case (TransportFailed err)
      then show ?thesis using assms(1) q by (auto simp: Let_def)
    next
      case (Answered st b)
      then have "\<not> (200 \<le> st \<and> st < 300)" using False by (simp add: delivered_def)
      then show ?thesis using Answered assms(1) q by (auto simp: Let_def)
    qed
    then obtain le' sc' where s: "dispatch_loop d env req le sc (k # ks)
        = (case dispatch_loop d env req le' sc' ks of (reqs, out) \<Rightarrow> (req # reqs, out))" by blast
    show ?thesis unfolding s using IH [of le' sc'] False by (auto split: option.splits)
  qed
qed simp

section \<open>Theorems\<close>

text \<open>C25. The suppression window: with alerts marked in the order of time, a rule is selected for an event
  exactly when it is active, its filters match and its window, if it has one, has passed since every
  earlier alert about the same tenant, host and property. Tenant and host identifiers are
  assumed free of colons, which separate the parts of the key.\<close>

theorem EvaluateRules_window:
  assumes "no_colon (DE_TenantID ev)" "no_colon (DE_HostID ev)"
    and "\<forall>a \<in> set as. no_colon (AT_tenant a) \<and> no_colon (AT_host a)" "sorted (map AT_at as)"
    and "AL_SuppressionWindowHours rule \<le> 2562047"
  shows "rule \<in> set (EvaluateRules (mark_all Map.empty as) now ev assetClass rules) \<longleftrightarrow>
    rule \<in> set rules \<and> rule_matches ev assetClass rule
    \<and> (AL_SuppressionWindowHours rule \<le> 0
       \<or> (\<forall>a \<in> set as. AT_tenant a = DE_TenantID ev \<and> AT_host a = DE_HostID ev \<and> AT_prop a = DE_PropertyName ev \<longrightarrow>
            AT_at a + AL_SuppressionWindowHours rule * Hour \<le> now))"
proof -
  let ?W = "AL_SuppressionWindowHours rule"
  let ?about = "\<lambda>a. AT_tenant a = DE_TenantID ev \<and> AT_host a = DE_HostID ev \<and> AT_prop a = DE_PropertyName ev"
  let ?xs = "filter ?about as"
  have sup: "isSuppressed (mark_all Map.empty as) (DE_TenantID ev) (DE_HostID ev) (DE_PropertyName ev) ?W now
      \<longleftrightarrow> (\<exists>a \<in> set ?xs. now < AT_at a + ?W * Hour)" if W: "0 < ?W"
  proof -
    have w: "wrap64 (?W * Hour) = ?W * Hour"
      using W assms(5) by (intro wrap64_id) (simp add: fits64_def min_int64_def max_int64_def Hour_def)
    have lt: "time_sub now l < ?W * Hour \<longleftrightarrow> now - l < ?W * Hour" for l
      using W assms(5) by (intro time_sub_less_iff) (simp_all add: min_int64_def max_int64_def Hour_def)
    note L = mark_all_lookup [OF assms(1,2,3), of "DE_PropertyName ev"]
    show ?thesis
    proof (cases "?xs = []")
      case True
      then show ?thesis using W L by (simp add: isSuppressed_def)
    next
      case False
      have "mark_all Map.empty as (suppression_key (DE_TenantID ev) (DE_HostID ev) (DE_PropertyName ev))
          = Some (AT_at (last ?xs))"
        using L False by (cases ?xs) simp_all
      then have s: "isSuppressed (mark_all Map.empty as) (DE_TenantID ev) (DE_HostID ev) (DE_PropertyName ev) ?W now
          \<longleftrightarrow> now - AT_at (last ?xs) < ?W * Hour" using W by (simp add: isSuppressed_def w lt)
      have "sorted (map AT_at ?xs)" using assms(4) by (rule sorted_filter)
      then have mx: "a \<in> set ?xs \<Longrightarrow> AT_at a \<le> AT_at (last ?xs)" for a by (rule last_sorted)
      have "last ?xs \<in> set ?xs" using False by (rule last_in_set)
      then show ?thesis unfolding s using mx by fastforce
    qed
  qed
  have none: "?W \<le> 0 \<Longrightarrow> \<not> isSuppressed (mark_all Map.empty as) (DE_TenantID ev) (DE_HostID ev) (DE_PropertyName ev) ?W now"
    by (simp add: isSuppressed_def)
  show ?thesis
  proof (cases "?W \<le> 0")
    case True
    then show ?thesis using none by (auto simp: EvaluateRules_def)
  next
    case False
    then have "0 < ?W" by simp
    from sup [OF this] show ?thesis using False by (auto simp: EvaluateRules_def not_less)
  qed
qed

text \<open>Witness of C25: an alert four hours ago no longer suppresses.\<close>

definition demo_event :: DriftEvent where
  "demo_event = mk_event (\<lambda>_. ''e'') 0 ''t'' ''h'' ''host'' 0
     \<lparr>CH_category = ''TPM'', CH_prop = ''tpm.present'', CH_baseline = ''true'', CH_current = ''false'',
      CH_severity = SeverityCritical\<rparr>"

lemma demo_event_fields [simp]:
  "DE_TenantID demo_event = ''t''" "DE_HostID demo_event = ''h''" "DE_PropertyName demo_event = ''tpm.present''"
  "DE_Severity demo_event = SeverityCritical"
  by (simp_all add: demo_event_def mk_event_def)

theorem EvaluateRules_window_witness:
  "let as = [\<lparr>AT_tenant = ''t'', AT_host = ''h'', AT_prop = ''tpm.present'', AT_at = 0\<rparr>]
   in default_rule 0 \<notin> set (EvaluateRules (mark_all Map.empty as) (4 * Hour - 1) demo_event ''Laptop'' [default_rule 0])
      \<and> default_rule 0 \<in> set (EvaluateRules (mark_all Map.empty as) (4 * Hour) demo_event ''Laptop'' [default_rule 0])"
proof -
  let ?as = "[\<lparr>AT_tenant = ''t'', AT_host = ''h'', AT_prop = ''tpm.present'', AT_at = 0\<rparr>]"
  have n: "no_colon (DE_TenantID demo_event)" "no_colon (DE_HostID demo_event)"
    "\<forall>a \<in> set ?as. no_colon (AT_tenant a) \<and> no_colon (AT_host a)" "sorted (map AT_at ?as)"
    "AL_SuppressionWindowHours (default_rule 0) \<le> 2562047"
    by (simp_all add: no_colon_def default_rule_def)
  have m: "rule_matches demo_event ''Laptop'' (default_rule 0)" by (simp add: rule_matches_def default_rule_def)
  have w: "AL_SuppressionWindowHours (default_rule 0) = 4" by (simp add: default_rule_def)
  show ?thesis
    using EvaluateRules_window [OF n, of "4 * Hour - 1" "''Laptop''" "[default_rule 0]"]
      EvaluateRules_window [OF n, of "4 * Hour" "''Laptop''" "[default_rule 0]"] m w
    by (simp add: Let_def Hour_def)
qed

text \<open>C26. A webhook delivery (up to thirty attempts, every request buildable): each request carries the
  encoded event and a signature that verifies under the rule's secret; the log says SUCCESS exactly
  when some attempt is answered with a 2xx status, and then names the first one, after which nothing
  is sent; otherwise all attempts are made and the log says FAILED.\<close>

theorem Dispatch_exact:
  assumes "WB_marshal lib (webhook_payload env rule ev assetClass) = Some body"
    and "\<forall>k. VE_request_ok env k" "1 \<le> n" "n \<le> 30" "Dispatch lib (NewWebhookDispatcher n) env rule ev assetClass = (reqs, out)"
  shows "(\<forall>req. req \<in> set reqs \<longrightarrow> WR_body req = body \<and> WR_url req = AL_WebhookURL rule
            \<and> VerifyWebhookSignature (WB_hmac lib) (AL_SecretKey rule) (WR_body req) (WR_signature req))
    \<and> (\<exists>lg err. out = Logged lg err \<and> WL_RuleID lg = AL_ID rule \<and> WL_EventID lg = DE_ID ev
        \<and> WL_TenantID lg = DE_TenantID ev
        \<and> (case find (delivered env) [1..<Suc (nat n)] of
             Some k \<Rightarrow> WL_Status lg = ''SUCCESS'' \<and> WL_Attempts lg = int k \<and> length reqs = k
           | None \<Rightarrow> WL_Status lg = ''FAILED'' \<and> WL_Attempts lg = n \<and> length reqs = nat n))"
proof -
  let ?d = "NewWebhookDispatcher n" and ?ks = "[1..<Suc (nat n)]"
  let ?req = "\<lparr>WR_url = AL_WebhookURL rule, WR_body = body,
      WR_signature = ''sha256='' @ ComputeHMACSignature (WB_hmac lib) (AL_SecretKey rule) body,
      WR_timestamp = VE_timestamp env, WR_delivery_id = VE_delivery_id env\<rparr>"
  have d: "WD_maxRetries ?d = n" "WD_baseDelay ?d = 100 * Millisecond"
    using assms(3) by (simp_all add: NewWebhookDispatcher_def)
  have ks: "\<forall>k \<in> set ?ks. k \<le> 30" using assms(4) by auto
  have tw: "find (delivered env) [Suc j..<m] = Some k \<Longrightarrow>
      Suc (length (takeWhile (\<lambda>k. \<not> delivered env k) [Suc j..<m])) + j = k" for j m k
  proof (induction "m - Suc j" arbitrary: j)
    case (Suc x)
    then have u: "[Suc j..<m] = Suc j # [Suc (Suc j)..<m]" by (simp add: upt_conv_Cons)
    show ?case
    proof (cases "delivered env (Suc j)")
      case False
      then have "find (delivered env) [Suc (Suc j)..<m] = Some k" using Suc.prems u by simp
      from Suc.hyps(1) [OF _ this] Suc.hyps(2) show ?thesis using False u by simp
    qed (use Suc.prems u in simp)
  qed simp
  obtain rs o' where loop: "dispatch_loop ?d env ?req NoWebhookError 0 ?ks = (rs, o')" by fastforce
  note S = dispatch_loop_spec [OF assms(2) d(2) ks, of ?req NoWebhookError 0, unfolded loop]
  have run: "Dispatch lib ?d env rule ev assetClass = (rs, case o' of
        DeliverySucceeded attempt st \<Rightarrow> Logged (delivery_log env rule ev st (int attempt) ''SUCCESS'' None) NoWebhookError
      | DeliveryFailed err st \<Rightarrow> Logged (delivery_log env rule ev st n ''FAILED''
          (Some (if err = NoWebhookError then [] else WB_error_text lib err))) err
      | RequestNotBuilt \<Rightarrow> NotBuilt | JitterPanic \<Rightarrow> Panicked)"
    unfolding Dispatch_def assms(1) d(1) option.case Let_def loop by simp
  then have rs: "reqs = rs" and o': "out = (case o' of
        DeliverySucceeded attempt st \<Rightarrow> Logged (delivery_log env rule ev st (int attempt) ''SUCCESS'' None) NoWebhookError
      | DeliveryFailed err st \<Rightarrow> Logged (delivery_log env rule ev st n ''FAILED''
          (Some (if err = NoWebhookError then [] else WB_error_text lib err))) err
      | RequestNotBuilt \<Rightarrow> NotBuilt | JitterPanic \<Rightarrow> Panicked)" using assms(5) by simp_all
  show ?thesis
  proof (cases "find (delivered env) ?ks")
    case None
    then obtain err st where e: "rs = replicate (length ?ks) ?req" "o' = DeliveryFailed err st" using S by auto
    have "\<forall>req. req \<in> set reqs \<longrightarrow> req = ?req" using e(1) rs by simp
    then show ?thesis using None e assms(3) VerifyWebhookSignature_own
      by (auto simp: o' rs delivery_log_def simp del: upt_Suc)
  next
    case (Some k)
    then have e: "rs = replicate (Suc (length (takeWhile (\<lambda>k. \<not> delivered env k) ?ks))) ?req"
      "\<exists>st. o' = DeliverySucceeded k st" using S by auto
    have "\<forall>req. req \<in> set reqs \<longrightarrow> req = ?req" using e(1) rs by (metis in_set_replicate)
    moreover have "length reqs = k" using e(1) rs tw [of 0 "Suc (nat n)" k] Some by (simp del: upt_Suc)
    ultimately show ?thesis using Some e(2) VerifyWebhookSignature_own
      by (auto simp: o' delivery_log_def simp del: upt_Suc)
  qed
qed

text \<open>Witness of C26: two failures, then an accepted request.\<close>

definition demo_delivery :: delivery_env where
  "demo_delivery = \<lparr>VE_delivery_id = ''d'', VE_timestamp = ''now'', VE_log_id = ''l'', VE_start = 0, VE_finish = 5,
     VE_request_ok = (\<lambda>_. True),
     VE_exchange = (\<lambda>k. if k = 1 then TransportFailed ''refused'' else if k = 2 then Answered 500 [] else Answered 204 []),
     VE_cancelled = (\<lambda>_. False)\<rparr>"

definition demo_webhook_lib :: webhook_lib where
  "demo_webhook_lib = \<lparr>WB_hmac = (\<lambda>k m. k @ m), WB_marshal = (\<lambda>_. Some ''body''), WB_error_text = (\<lambda>_. ''error'')\<rparr>"

theorem Dispatch_exact_witness:
  "\<exists>lg err. snd (Dispatch demo_webhook_lib (NewWebhookDispatcher 5) demo_delivery (default_rule 0) demo_event ''Laptop'')
      = Logged lg err \<and> WL_Status lg = ''SUCCESS'' \<and> WL_Attempts lg = 3"
proof -
  obtain reqs out where r: "Dispatch demo_webhook_lib (NewWebhookDispatcher 5) demo_delivery (default_rule 0) demo_event ''Laptop''
      = (reqs, out)" by fastforce
  have m: "WB_marshal demo_webhook_lib (webhook_payload demo_delivery (default_rule 0) demo_event ''Laptop'') = Some ''body''"
    by (simp add: demo_webhook_lib_def)
  have ok: "\<forall>k. VE_request_ok demo_delivery k" by (simp add: demo_delivery_def)
  have f: "find (delivered demo_delivery) [1..<Suc (nat 5)] = Some 3"
    by (simp add: upt_rec delivered_def demo_delivery_def)
  from Dispatch_exact [OF m ok _ _ r] f r show ?thesis by auto
qed

end
