(* ===== verification/SecretVault.thy ===== *)
theory SecretVault
  imports GoBase
begin

text \<open>
  The credential vault (\<open>vault/provider.go\<close>, \<open>vault/service.go\<close>): credential references, the provider
  interface as a record of operations on a provider state, the contract of a provider as a locale, and
  the manager, a client of any provider. Each provider operation also takes what the call meets from
  outside (random bytes, clock, network), of a type the provider chooses. Go's byte slices are strings
  of bytes; the operations that clear the caller's slice return its contents afterwards.
\<close>

section \<open>References, errors, provider interface\<close>

record CredentialRef =
  CX_OpaqueID :: string
  CX_TenantID :: string
  CX_CredentialType :: string
  CX_DomainOrHost :: string
  CX_Username :: string
  CX_VaultPath :: string
  CX_RotationVersion :: int

record SecretResolutionAuditEntry =
  SA_CorrelationID :: string
  SA_GatewayID :: string
  SA_CredentialRef :: string
  SA_TenantID :: string
  SA_ScanJobID :: string
  SA_Action :: string
  SA_Timestamp :: time
  SA_IPAddress :: string

text \<open>The sentinel errors, the plain errors of the providers, and the wrapping the manager adds.\<close>

datatype crypto_step = SaltStep | HkdfStep | CipherStep | GcmStep | NonceStep | OpenStep

datatype vault_error =
    ErrSecretNotFound string
  | ErrProviderUnavailable string
  | ErrAuthorizationDenied
  | ErrAuditWriteFailed string
  | ErrInvalidCredentialRef string
  | MasterKeyLength nat
  | EmptyVaultAddress
  | EmptyVaultToken
  | CryptoFailed crypto_step
  | VaultStatus int string
  | RequestNotBuilt
  | BodyNotRead
  | BodyNotParsed
  | SecretNotBase64
  | StoreFailed string vault_error
  | ResolveFailed string vault_error
  | GatewayResolveFailed string string vault_error
  | IntegrityCheckFailed string vault_error
  | RotationFailed string vault_error

text \<open>\<open>errors.Is(err, ErrSecretNotFound)\<close> looks through the wrapping.\<close>

fun is_not_found :: "vault_error \<Rightarrow> bool" where
  "is_not_found (ErrSecretNotFound _) = True"
| "is_not_found (StoreFailed _ e) = is_not_found e"
| "is_not_found (ResolveFailed _ e) = is_not_found e"
| "is_not_found (GatewayResolveFailed _ _ e) = is_not_found e"
| "is_not_found (IntegrityCheckFailed _ e) = is_not_found e"
| "is_not_found (RotationFailed _ e) = is_not_found e"
| "is_not_found _ = False"

record ('e, 's) SecretProvider =
  SP_StoreSecret :: "'e \<Rightarrow> 's \<Rightarrow> CredentialRef \<Rightarrow> string \<Rightarrow> 's \<times> vault_error option"
  SP_ResolveSecret :: "'e \<Rightarrow> 's \<Rightarrow> CredentialRef \<Rightarrow> 's \<times> (vault_error + string)"
  SP_RotateSecret :: "'e \<Rightarrow> 's \<Rightarrow> CredentialRef \<Rightarrow> string \<Rightarrow> 's \<times> vault_error option"
  SP_DeleteSecret :: "'e \<Rightarrow> 's \<Rightarrow> CredentialRef \<Rightarrow> 's \<times> vault_error option"
  SP_HealthCheck :: "'e \<Rightarrow> 's \<Rightarrow> 's \<times> vault_error option"
  SP_Name :: string

text \<open>\<open>zeroize\<close> overwrites a slice with zeros.\<close>

definition zeroize :: "string \<Rightarrow> string" where
  "zeroize b = map (\<lambda>_. CHR 0x00) b"

lemma zeroize_replicate: "zeroize b = replicate (length b) (CHR 0x00)"
  by (simp add: zeroize_def map_replicate_const)

definition buildVaultPath :: "CredentialRef \<Rightarrow> string" where
  "buildVaultPath ref = ''tenants/'' @ CX_TenantID ref @ ''/credentials/'' @ CX_OpaqueID ref"

section \<open>The manager\<close>

text \<open>The sanitiser of \<open>GenerateOpaqueID\<close> drops every byte outside \<open>a-zA-Z0-9_-\<close>.\<close>

definition opaque_char :: "char \<Rightarrow> bool" where
  "opaque_char c \<longleftrightarrow> (let n = (of_char c :: nat) in
     97 \<le> n \<and> n \<le> 122 \<or> 65 \<le> n \<and> n \<le> 90 \<or> 48 \<le> n \<and> n \<le> 57 \<or> n = 95 \<or> n = 45)"

definition GenerateOpaqueID :: "string \<Rightarrow> string \<Rightarrow> string" where
  "GenerateOpaqueID uuid typ =
     (let cleanPrefix = to_lower (filter opaque_char typ);
          cleanPrefix = (if cleanPrefix = [] then ''cred'' else cleanPrefix)
      in ''sec_ref_'' @ cleanPrefix @ ''_'' @ take 12 uuid)"

text \<open>The reference \<open>StoreCredential\<close> stores under: identifier and path are filled in when blank.\<close>

definition stored_ref :: "string \<Rightarrow> CredentialRef \<Rightarrow> CredentialRef" where
  "stored_ref uuid ref0 =
     (let ref1 = (if trim_space (CX_OpaqueID ref0) = []
                  then ref0\<lparr>CX_OpaqueID := GenerateOpaqueID uuid (CX_CredentialType ref0)\<rparr> else ref0)
      in if CX_VaultPath ref1 = [] then ref1\<lparr>CX_VaultPath := buildVaultPath ref1\<rparr> else ref1)"

definition StoreCredential ::
  "('e, 's) SecretProvider \<Rightarrow> 'e \<Rightarrow> string \<Rightarrow> 's \<Rightarrow> CredentialRef \<Rightarrow> string \<Rightarrow> 's \<times> string \<times> (vault_error + string)" where
  "StoreCredential provider e uuid s ref0 plaintext =
     (if trim_space (CX_TenantID ref0) = [] then (s, zeroize plaintext, Inl (ErrInvalidCredentialRef ''tenant_id''))
      else
        (let ref = stored_ref uuid ref0
         in case SP_StoreSecret provider e s ref plaintext of
              (s', Some err) \<Rightarrow> (s', zeroize plaintext, Inl (StoreFailed (CX_OpaqueID ref) err))
            | (s', None) \<Rightarrow> (s', zeroize plaintext, Inr (CX_OpaqueID ref))))"

text \<open>What a resolution does, in its order: audit writes and provider calls.\<close>

datatype vault_event = AuditWritten SecretResolutionAuditEntry | ProviderAsked CredentialRef

definition audit_entry :: "time \<Rightarrow> string \<Rightarrow> string \<Rightarrow> string \<Rightarrow> string \<Rightarrow> CredentialRef \<Rightarrow> SecretResolutionAuditEntry" where
  "audit_entry now gatewayID scanJobID correlationID ipAddress ref =
     \<lparr>SA_CorrelationID = correlationID, SA_GatewayID = gatewayID, SA_CredentialRef = CX_OpaqueID ref,
      SA_TenantID = CX_TenantID ref, SA_ScanJobID = scanJobID, SA_Action = ''credential.resolved'',
      SA_Timestamp = now, SA_IPAddress = ipAddress\<rparr>"

definition ResolveCredentialForGateway ::
  "('e, 's) SecretProvider \<Rightarrow> (SecretResolutionAuditEntry \<Rightarrow> string option) \<Rightarrow> 'e \<Rightarrow> time \<Rightarrow> 's
   \<Rightarrow> string \<Rightarrow> string \<Rightarrow> string \<Rightarrow> string \<Rightarrow> CredentialRef \<Rightarrow> 's \<times> vault_event list \<times> (vault_error + string)" where
  "ResolveCredentialForGateway provider auditFn e now s gatewayID scanJobID correlationID ipAddress ref =
     (if trim_space gatewayID = [] then (s, [], Inl ErrAuthorizationDenied)
      else if trim_space (CX_OpaqueID ref) = [] then (s, [], Inl (ErrInvalidCredentialRef ''opaque_id''))
      else if trim_space (CX_TenantID ref) = [] then (s, [], Inl (ErrInvalidCredentialRef ''tenant_id''))
      else
        (let entry = audit_entry now gatewayID scanJobID correlationID ipAddress ref
         in case auditFn entry of
              Some err \<Rightarrow> (s, [], Inl (ErrAuditWriteFailed err))
            | None \<Rightarrow>
                (case SP_ResolveSecret provider e s ref of
                   (s', Inl err) \<Rightarrow>
                     (s', [AuditWritten entry, ProviderAsked ref], Inl (GatewayResolveFailed (CX_OpaqueID ref) gatewayID err))
                 | (s', Inr secret) \<Rightarrow> (s', [AuditWritten entry, ProviderAsked ref], Inr secret))))"

definition RotateCredential ::
  "('e, 's) SecretProvider \<Rightarrow> 'e \<Rightarrow> 's \<Rightarrow> CredentialRef \<Rightarrow> string \<Rightarrow> 's \<times> string \<times> vault_error option" where
  "RotateCredential provider e s ref newPlaintext =
     (if trim_space (CX_OpaqueID ref) = [] then (s, zeroize newPlaintext, Some (ErrInvalidCredentialRef ''opaque_id''))
      else
        (case SP_RotateSecret provider e s ref newPlaintext of
           (s', Some err) \<Rightarrow> (s', zeroize newPlaintext, Some (RotationFailed (CX_OpaqueID ref) err))
         | (s', None) \<Rightarrow> (s', zeroize newPlaintext, None)))"

definition DeleteCredential ::
  "('e, 's) SecretProvider \<Rightarrow> 'e \<Rightarrow> 's \<Rightarrow> CredentialRef \<Rightarrow> 's \<times> vault_error option" where
  "DeleteCredential provider e s ref =
     (if trim_space (CX_OpaqueID ref) = [] then (s, Some (ErrInvalidCredentialRef ''opaque_id''))
      else SP_DeleteSecret provider e s ref)"

definition VaultHealthCheck :: "('e, 's) SecretProvider \<Rightarrow> 'e \<Rightarrow> 's \<Rightarrow> 's \<times> vault_error option" where
  "VaultHealthCheck provider e s = SP_HealthCheck provider e s"

definition ProviderName :: "('e, 's) SecretProvider \<Rightarrow> string" where
  "ProviderName provider = SP_Name provider"

text \<open>\<open>NewVaultManager\<close> panics (\<open>None\<close>) on a nil provider or audit callback.\<close>

definition NewVaultManager ::
  "('e, 's) SecretProvider option \<Rightarrow> (SecretResolutionAuditEntry \<Rightarrow> string option) option
   \<Rightarrow> (('e, 's) SecretProvider \<times> (SecretResolutionAuditEntry \<Rightarrow> string option)) option" where
  "NewVaultManager provider auditFn =
     (case provider of None \<Rightarrow> None
      | Some p \<Rightarrow> (case auditFn of None \<Rightarrow> None | Some f \<Rightarrow> Some (p, f)))"

text \<open>Sequences of calls.\<close>

datatype 'e vault_op =
    StoreOp 'e string CredentialRef string
  | ResolveOp 'e time string string string string CredentialRef
  | RotateOp 'e CredentialRef string
  | DeleteOp 'e CredentialRef

fun vault_step :: "('e, 's) SecretProvider \<Rightarrow> (SecretResolutionAuditEntry \<Rightarrow> string option) \<Rightarrow> 's \<Rightarrow> 'e vault_op \<Rightarrow> 's" where
  "vault_step provider f s (StoreOp e uuid ref p) = fst (StoreCredential provider e uuid s ref p)"
| "vault_step provider f s (ResolveOp e now g j c ip ref) = fst (ResolveCredentialForGateway provider f e now s g j c ip ref)"
| "vault_step provider f s (RotateOp e ref p) = fst (RotateCredential provider e s ref p)"
| "vault_step provider f s (DeleteOp e ref) = fst (DeleteCredential provider e s ref)"

definition vault_run :: "('e, 's) SecretProvider \<Rightarrow> (SecretResolutionAuditEntry \<Rightarrow> string option) \<Rightarrow> 's \<Rightarrow> 'e vault_op list \<Rightarrow> 's" where
  "vault_run provider f = foldl (vault_step provider f)"

text \<open>The references a call may write.\<close>

fun op_target :: "'e vault_op \<Rightarrow> CredentialRef option" where
  "op_target (StoreOp e uuid ref p) = Some (stored_ref uuid ref)"
| "op_target (ResolveOp e now g j c ip ref) = None"
| "op_target (RotateOp e ref p) = Some ref"
| "op_target (DeleteOp e ref) = Some ref"

section \<open>Opaque identifiers\<close>

lemma stored_ref_simps [simp]:
  "CX_OpaqueID (stored_ref uuid ref) =
     (if trim_space (CX_OpaqueID ref) = [] then GenerateOpaqueID uuid (CX_CredentialType ref) else CX_OpaqueID ref)"
  "CX_TenantID (stored_ref uuid ref) = CX_TenantID ref"
  by (simp_all add: stored_ref_def Let_def)

lemma stored_ref_update:
  "stored_ref uuid ref = (ref\<lparr>CX_OpaqueID := CX_OpaqueID (stored_ref uuid ref)\<rparr>)\<lparr>CX_VaultPath := CX_VaultPath (stored_ref uuid ref)\<rparr>"
  by (simp add: stored_ref_def Let_def)

lemma opaque_char_lower: "opaque_char c \<Longrightarrow> opaque_char (lower_char c)"
proof (cases "65 \<le> (of_char c :: nat) \<and> of_char c \<le> (90 :: nat)")
  case True
  then have "(of_char (lower_char c) :: nat) = of_char c + 32"
    by (simp add: lower_char_def Let_def of_char_of_small)
  then show ?thesis using True unfolding opaque_char_def Let_def by linarith
next
  case False
  then have "lower_char c = c" by (auto simp: lower_char_def Let_def)
  then show "opaque_char c \<Longrightarrow> ?thesis" by simp
qed

lemma GenerateOpaqueID_chars:
  assumes "list_all opaque_char uuid"
  shows "list_all opaque_char (GenerateOpaqueID uuid typ)"
proof -
  have lits: "list_all opaque_char ''sec_ref_''" "list_all opaque_char ''cred''" "list_all opaque_char ''_''"
    by (simp_all add: opaque_char_def)
  have low: "list_all opaque_char (to_lower (filter opaque_char typ))"
    by (auto simp: to_lower_def list_all_iff opaque_char_lower)
  have "list_all opaque_char (if to_lower (filter opaque_char typ) = [] then ''cred'' else to_lower (filter opaque_char typ))"
    by (rule if_split [THEN iffD2]) (intro conjI impI lits low)
  moreover have "list_all opaque_char (take 12 uuid)" using assms by (auto simp: list_all_iff dest: in_set_takeD)
  ultimately show ?thesis
    unfolding GenerateOpaqueID_def Let_def list_all_append using lits by (intro conjI)
qed

section \<open>Contract of a provider\<close>

text \<open>
  \<open>content s ref\<close> is the secret a provider state holds for a reference, \<open>apart ref ref'\<close> says that two
  references address different secrets, and \<open>sound\<close> collects what the provider assumes of the outside
  world. A provider keeps its promises when reading returns the content and changes nothing, a
  successful write is readable, a successful deletion leaves nothing, and other secrets are untouched.
\<close>

locale secret_provider =
  fixes provider :: "('e, 's) SecretProvider"
    and content :: "'s \<Rightarrow> CredentialRef \<Rightarrow> string option"
    and apart :: "CredentialRef \<Rightarrow> CredentialRef \<Rightarrow> bool"
    and sound :: bool
  assumes resolve_keeps: "sound \<Longrightarrow> SP_ResolveSecret provider e s ref = (s', res) \<Longrightarrow> content s' ref' = content s ref'"
    and resolve_content: "sound \<Longrightarrow> SP_ResolveSecret provider e s ref = (s', Inr p) \<Longrightarrow> content s ref = Some p"
    and store_content: "sound \<Longrightarrow> SP_StoreSecret provider e s ref p = (s', None) \<Longrightarrow> content s' ref = Some p"
    and store_apart: "sound \<Longrightarrow> SP_StoreSecret provider e s ref p = (s', r) \<Longrightarrow> apart ref ref' \<Longrightarrow> content s' ref' = content s ref'"
    and rotate_content: "sound \<Longrightarrow> SP_RotateSecret provider e s ref p = (s', None) \<Longrightarrow> content s' ref = Some p"
    and rotate_apart: "sound \<Longrightarrow> SP_RotateSecret provider e s ref p = (s', r) \<Longrightarrow> apart ref ref' \<Longrightarrow> content s' ref' = content s ref'"
    and delete_content: "sound \<Longrightarrow> SP_DeleteSecret provider e s ref = (s', None) \<Longrightarrow> content s' ref = None"
    and delete_apart: "sound \<Longrightarrow> SP_DeleteSecret provider e s ref = (s', r) \<Longrightarrow> apart ref ref' \<Longrightarrow> content s' ref' = content s ref'"
    and content_path: "content s (ref\<lparr>CX_VaultPath := vp\<rparr>) = content s ref"
begin

text \<open>What the gateway obtains is the content, and asking does not change it.\<close>

lemma resolved_content:
  assumes "sound" "ResolveCredentialForGateway provider f e now s g j c ip ref = (s', tr, Inr p)"
  shows "content s ref = Some p" "content s' ref' = content s ref'"
  using assms resolve_content resolve_keeps
  by (auto simp: ResolveCredentialForGateway_def Let_def split: if_splits option.splits prod.splits sum.splits)

lemma stored_content:
  assumes "sound" "StoreCredential provider e uuid s ref p = (s', buf, Inr oid)"
  shows "oid = CX_OpaqueID (stored_ref uuid ref)" "content s' (ref\<lparr>CX_OpaqueID := oid\<rparr>) = Some p"
proof -
  have r: "SP_StoreSecret provider e s (stored_ref uuid ref) p = (s', None)" "oid = CX_OpaqueID (stored_ref uuid ref)"
    using assms(2) unfolding StoreCredential_def Let_def
    by (auto simp del: stored_ref_simps split: if_splits prod.splits option.splits)
  show "oid = CX_OpaqueID (stored_ref uuid ref)" by (fact r(2))
  have "content s' (stored_ref uuid ref) = Some p" by (rule store_content [OF assms(1) r(1)])
  then show "content s' (ref\<lparr>CX_OpaqueID := oid\<rparr>) = Some p" unfolding r(2)
    by (subst (asm) stored_ref_update) (simp only: content_path)
qed

lemma step_apart:
  assumes "sound" "case op_target op of None \<Rightarrow> True | Some ref \<Rightarrow> apart ref ref'"
  shows "content (vault_step provider f s op) ref' = content s ref'"
proof (cases op)
  case (StoreOp e uuid ref p)
  then show ?thesis using assms store_apart [OF assms(1)]
    by (auto simp: StoreCredential_def Let_def simp del: stored_ref_simps split: prod.split option.split)
next
  case (ResolveOp e now g j c ip ref)
  then show ?thesis using resolve_keeps [OF assms(1)]
    by (auto simp: ResolveCredentialForGateway_def Let_def split: prod.split option.split sum.split)
next
  case (RotateOp e ref p)
  then show ?thesis using assms rotate_apart [OF assms(1)]
    by (auto simp: RotateCredential_def split: prod.split option.split)
next
  case (DeleteOp e ref)
  then show ?thesis using assms delete_apart [OF assms(1)]
    by (cases "SP_DeleteSecret provider e s ref") (auto simp: DeleteCredential_def)
qed

lemma run_apart:
  assumes "sound" "list_all (\<lambda>op. case op_target op of None \<Rightarrow> True | Some ref \<Rightarrow> apart ref ref') ops"
  shows "content (vault_run provider f s ops) ref' = content s ref'"
  using assms(2) step_apart [OF assms(1)]
  by (induction ops arbitrary: s) (simp_all add: vault_run_def)

lemma rotated_content:
  assumes "sound" "RotateCredential provider e s ref p = (s', buf, None)"
  shows "content s' ref = Some p"
  using assms rotate_content by (auto simp: RotateCredential_def split: if_splits prod.splits option.splits)

lemma deleted_content:
  assumes "sound" "DeleteCredential provider e s ref = (s', None)"
  shows "content s' ref = None"
  using assms delete_content by (auto simp: DeleteCredential_def split: if_splits)

lemma read_after_store:
  assumes "sound" "StoreCredential provider e uuid s ref p = (s1, buf, Inr oid)"
    and "ResolveCredentialForGateway provider f e' now s1 g j c ip (ref\<lparr>CX_OpaqueID := oid\<rparr>) = (s2, tr, Inr q)"
  shows "q = p"
  using stored_content(2) [OF assms(1,2)] resolved_content(1) [OF assms(1,3)] by simp

lemma read_after_rotate:
  assumes "sound" "RotateCredential provider e s ref p = (s1, buf, None)"
    and "ResolveCredentialForGateway provider f e' now s1 g j c ip ref = (s2, tr, Inr q)"
  shows "q = p"
  using rotated_content [OF assms(1,2)] resolved_content(1) [OF assms(1,3)] by simp

lemma no_read_after_delete:
  assumes "sound" "DeleteCredential provider e s ref = (s1, None)"
    and "ResolveCredentialForGateway provider f e' now s1 g j c ip ref = (s2, tr, r)"
  shows "\<exists>err. r = Inl err"
  using deleted_content [OF assms(1,2)] resolved_content(1) [OF assms(1), where p = "projr r"] assms(3)
  by (cases r) auto

end

text \<open>Whatever the provider, a secret leaves the manager only for a named gateway, after the audit entry
  of exactly this resolution has been written.\<close>

lemma resolution_audited:
  assumes "ResolveCredentialForGateway provider f e now s g j c ip ref = (s', tr, Inr p)"
  shows "trim_space g \<noteq> [] \<and> trim_space (CX_OpaqueID ref) \<noteq> [] \<and> trim_space (CX_TenantID ref) \<noteq> []
    \<and> f (audit_entry now g j c ip ref) = None
    \<and> tr = [AuditWritten (audit_entry now g j c ip ref), ProviderAsked ref]
    \<and> SP_ResolveSecret provider e s ref = (s', Inr p)"
  using assms by (auto simp: ResolveCredentialForGateway_def Let_def split: if_splits option.splits prod.splits sum.splits)

lemma resolution_without_audit:
  assumes "f (audit_entry now g j c ip ref) = Some err"
  shows "\<exists>er. ResolveCredentialForGateway provider f e now s g j c ip ref = (s, [], Inl er)"
  using assms by (simp add: ResolveCredentialForGateway_def Let_def)

text \<open>The caller's slice is cleared on every path.\<close>

lemma StoreCredential_clears:
  "fst (snd (StoreCredential provider e uuid s ref p)) = replicate (length p) (CHR 0x00)"
  by (auto simp: StoreCredential_def Let_def zeroize_replicate split: prod.splits option.splits)

lemma RotateCredential_clears:
  "fst (snd (RotateCredential provider e s ref p)) = replicate (length p) (CHR 0x00)"
  by (auto simp: RotateCredential_def zeroize_replicate split: prod.splits option.splits)

end
