(* ===== verification/Fleet.thy ===== *)
theory Fleet
  imports FleetTypes Keyset Alerts SecretVault
begin

text \<open>
  The fleet repository (\<open>api/internal/repository/repository.go\<close>): endpoints and their roll-out tiers, scan jobs and
  their simulation, gateways, credentials, audit log, snapshots. A map is a partial function, with the order \<open>ord\<close> in
  which a loop visits it as an argument; clock and identifiers are arguments (\<open>clk i\<close> and \<open>uid i\<close> are the i-th
  reading and identifier of a call), \<open>fmt\<close> is the RFC 3339 format. Every operation holds the lock, so a
  history is a sequence of calls.
\<close>

record Repository =
  RP_endpoints :: "string \<rightharpoonup> Endpoint"
  RP_hardware :: "string \<rightharpoonup> HardwareInventory"
  RP_security :: "string \<rightharpoonup> SecurityPosture"
  RP_scans :: "string \<rightharpoonup> ScanJob"
  RP_gateways :: "string \<rightharpoonup> CollectorGateway"
  RP_credentials :: "string \<rightharpoonup> VaultCredentialSummary"
  RP_cisResults :: "string \<rightharpoonup> CISResult list"
  RP_auditLogs :: "SecurityAuditLog list"
  RP_snapshots :: "string \<rightharpoonup> HostSnapshotEntry"
  RP_rolloutSettings :: RolloutSettings
  RP_alertHealth :: AlertHealthStatus
  RP_retentionPolicy :: SnapshotRetentionPolicy

datatype fleet_error =
    JustificationRequired
  | InvalidTargetTier string
  | InvalidRolloutTier string
  | EndpointNotFound string
  | ScanJobNotFound string
  | SnapshotNotFound string

text \<open>\<open>append(r.auditLogs, \<dots>)\<close>.\<close>

definition append_log :: "SecurityAuditLog \<Rightarrow> Repository \<Rightarrow> Repository" where
  "append_log l r = r\<lparr>RP_auditLogs := RP_auditLogs r @ [l]\<rparr>"

lemma append_log_simps [simp]:
  "RP_endpoints (append_log l r) = RP_endpoints r" "RP_scans (append_log l r) = RP_scans r"
  "RP_gateways (append_log l r) = RP_gateways r" "RP_snapshots (append_log l r) = RP_snapshots r"
  "RP_auditLogs (append_log l r) = RP_auditLogs r @ [l]" "RP_alertHealth (append_log l r) = RP_alertHealth r"
  "RP_retentionPolicy (append_log l r) = RP_retentionPolicy r" "RP_rolloutSettings (append_log l r) = RP_rolloutSettings r"
  "RP_credentials (append_log l r) = RP_credentials r" "RP_hardware (append_log l r) = RP_hardware r"
  "RP_security (append_log l r) = RP_security r" "RP_cisResults (append_log l r) = RP_cisResults r"
  by (simp_all add: append_log_def)

section \<open>Endpoints\<close>

definition endpoint_match :: "string \<Rightarrow> string \<Rightarrow> string \<Rightarrow> string \<Rightarrow> Endpoint \<Rightarrow> bool" where
  "endpoint_match search osFilter statusFilter tierFilter ep \<longleftrightarrow>
     (search = [] \<or> contains (to_lower (EP_Hostname ep)) search \<or> contains (EP_IPAddress ep) search
        \<or> contains (to_lower (EP_Manufacturer ep)) search \<or> contains (to_lower (EP_OrganizationalUnit ep)) search
        \<or> contains (to_lower (EP_SubnetCIDR ep)) search)
     \<and> (osFilter = [] \<or> contains (to_lower (EP_OSName ep)) (to_lower osFilter))
     \<and> (statusFilter = [] \<or> EP_Status ep = statusFilter)
     \<and> (tierFilter = [] \<or> EP_RolloutTier ep = tierFilter)"

definition ListEndpoints :: "string list \<Rightarrow> Repository \<Rightarrow> string \<Rightarrow> string \<Rightarrow> string \<Rightarrow> string \<Rightarrow> Endpoint list" where
  "ListEndpoints ord r search osFilter statusFilter tierFilter =
     filter (endpoint_match (to_lower search) osFilter statusFilter (to_lower tierFilter)) (range_vals (RP_endpoints r) ord)"

definition SaveEndpoint :: "Repository \<Rightarrow> Endpoint \<Rightarrow> Repository" where
  "SaveEndpoint r ep = r\<lparr>RP_endpoints := (RP_endpoints r)(EP_ID ep \<mapsto> ep)\<rparr>"

definition ClearEndpoints :: "Repository \<Rightarrow> Repository" where
  "ClearEndpoints r = r\<lparr>RP_endpoints := Map.empty\<rparr>"

definition GetEndpointDetail :: "Repository \<Rightarrow> string \<Rightarrow> fleet_error + EndpointDetail" where
  "GetEndpointDetail r i =
     (case RP_endpoints r i of
        None \<Rightarrow> Inl (EndpointNotFound i)
      | Some ep \<Rightarrow>
          Inr \<lparr>EDT_Endpoint = ep,
            EDT_Hardware = (case RP_hardware r i of None \<Rightarrow> zero_hardware_of i | Some hw \<Rightarrow> hw),
            EDT_SecurityPosture = (case RP_security r i of None \<Rightarrow> zero_posture_of i | Some sec \<Rightarrow> sec),
            EDT_CISResults = (case RP_cisResults r i of None \<Rightarrow> [] | Some results \<Rightarrow> results)\<rparr>)"

section \<open>Roll-out tiers\<close>

definition GetRolloutSettings :: "Repository \<Rightarrow> RolloutSettings" where
  "GetRolloutSettings r = RP_rolloutSettings r"

definition UpdateRolloutSettings :: "(nat \<Rightarrow> string) \<Rightarrow> (nat \<Rightarrow> time) \<Rightarrow> Repository \<Rightarrow> RolloutSettings \<Rightarrow> string \<Rightarrow> string \<Rightarrow> Repository" where
  "UpdateRolloutSettings uid clk r settings actor ip =
     append_log
       \<lparr>SAL_ID = uid 0, SAL_CorrelationID = uid 1, SAL_Timestamp = clk 1, SAL_Actor = actor,
        SAL_Action = ''ROLLOUT_SETTINGS_UPDATED'', SAL_ResourceType = ''system_settings'', SAL_ResourceID = ''rollout_tiers'',
        SAL_Status = ''SUCCESS'', SAL_IPAddress = ip,
        SAL_Details = [(''active_tiers'', JArr (map JStr (ROS_ActiveTiers settings))),
          (''schedule_enforce_tiers'', JBool (ROS_ScheduleEnforceTiers settings))]\<rparr>
       (r\<lparr>RP_rolloutSettings := settings\<lparr>ROS_UpdatedAt := clk 0, ROS_UpdatedBy := actor\<rparr>\<rparr>)"

definition is_pilot :: "Endpoint \<Rightarrow> bool" where
  "is_pilot ep \<longleftrightarrow> EP_RolloutTier ep = ''pilot''"

definition GetPilotHealthSummary :: "string list \<Rightarrow> Repository \<Rightarrow> PilotHealthSummary" where
  "GetPilotHealthSummary ord r =
     (let pilotHosts = filter is_pilot (range_vals (RP_endpoints r) ord);
          onlineCount = int (length (filter (\<lambda>ep. EP_Status ep = ''online'') pilotHosts));
          totalScore = sum_list (map EP_ComplianceScore pilotHosts);
          totalPilot = int (length pilotHosts)
      in \<lparr>PHS_TotalPilotHosts = totalPilot, PHS_OnlinePilotHosts = onlineCount,
           PHS_ScanSuccessRate = (if totalPilot > 0 then of_int onlineCount / of_int totalPilot * 100 else 100),
           PHS_AuthFailureCount = 0, PHS_LockoutRiskCount = 0, PHS_EDRAlertCorrelationCount = 0,
           PHS_AverageScanDurationMs = 1383,
           PHS_AverageComplianceScore = (if totalPilot > 0 then totalScore / of_int totalPilot else 0),
           PHS_PilotHosts = pilotHosts\<rparr>)"

text \<open>The loops over the endpoints that update some of them in place and count them.\<close>

definition update_where :: "string list \<Rightarrow> ('v \<Rightarrow> bool) \<Rightarrow> ('v \<Rightarrow> 'v) \<Rightarrow> (string \<rightharpoonup> 'v) \<Rightarrow> (string \<rightharpoonup> 'v) \<times> int" where
  "update_where ord should upd m =
     foldl (\<lambda>(m, n) k. case m k of None \<Rightarrow> (m, n)
                       | Some v \<Rightarrow> if should v then (m(k \<mapsto> upd v), n + 1) else (m, n)) (m, 0) ord"

definition assigned :: "time \<Rightarrow> string \<Rightarrow> string \<Rightarrow> string \<Rightarrow> Endpoint \<Rightarrow> Endpoint" where
  "assigned now tier actor reason ep =
     ep\<lparr>EP_RolloutTier := tier, EP_TierPromotedAt := Some now, EP_TierPromotedBy := actor,
        EP_TierPromotionReason := reason, EP_UpdatedAt := now\<rparr>"

definition should_promote :: "PromoteTierRequest \<Rightarrow> Endpoint \<Rightarrow> bool" where
  "should_promote req ep =
     (if PTR_EndpointIDs req \<noteq> [] then EP_ID ep \<in> set (PTR_EndpointIDs req)
      else if PTR_SubnetCIDR req \<noteq> [] \<and> EP_SubnetCIDR ep = PTR_SubnetCIDR req then True
      else if PTR_OrganizationalUnit req \<noteq> [] \<and> EP_OrganizationalUnit ep = PTR_OrganizationalUnit req then True
      else if PTR_EndpointIDs req = [] \<and> PTR_SubnetCIDR req = [] \<and> PTR_OrganizationalUnit req = [] then
        (PTR_TargetTier req = ''staged'' \<and> EP_RolloutTier ep = ''pilot'')
        \<or> (PTR_TargetTier req = ''full'' \<and> (EP_RolloutTier ep = ''staged'' \<or> EP_RolloutTier ep = ''pilot''))
      else False)"

definition PromoteEndpointsTier :: "string list \<Rightarrow> (nat \<Rightarrow> string) \<Rightarrow> time \<Rightarrow> Repository \<Rightarrow> PromoteTierRequest \<Rightarrow> string \<Rightarrow> string
    \<Rightarrow> Repository \<times> (fleet_error + int)" where
  "PromoteEndpointsTier ord uid now r req actor ip =
     (if trim_space (PTR_Justification req) = [] then (r, Inl JustificationRequired)
      else if PTR_TargetTier req \<noteq> ''staged'' \<and> PTR_TargetTier req \<noteq> ''full'' then (r, Inl (InvalidTargetTier (PTR_TargetTier req)))
      else
        (let (eps, promotedCount) = update_where ord (should_promote req)
               (assigned now (PTR_TargetTier req) actor (PTR_Justification req)) (RP_endpoints r)
         in (append_log
              \<lparr>SAL_ID = uid 0, SAL_CorrelationID = uid 1, SAL_Timestamp = now, SAL_Actor = actor,
               SAL_Action = ''ROLLOUT_TIER_PROMOTED'', SAL_ResourceType = ''endpoint_rollout_tier'',
               SAL_ResourceID = PTR_TargetTier req, SAL_Status = ''SUCCESS'', SAL_IPAddress = ip,
               SAL_Details = [(''target_tier'', JStr (PTR_TargetTier req)), (''promoted_count'', JNum (of_int promotedCount)),
                 (''justification'', JStr (PTR_Justification req)), (''endpoint_ids'', JArr (map JStr (PTR_EndpointIDs req))),
                 (''subnet_cidr'', JStr (PTR_SubnetCIDR req)), (''ou'', JStr (PTR_OrganizationalUnit req))]\<rparr>
              (r\<lparr>RP_endpoints := eps\<rparr>), Inr promotedCount)))"

definition valid_tier :: "string \<Rightarrow> bool" where
  "valid_tier t \<longleftrightarrow> t = ''pilot'' \<or> t = ''staged'' \<or> t = ''full''"

definition bulk_matched :: "BulkAssignTierRequest \<Rightarrow> Endpoint \<Rightarrow> bool" where
  "bulk_matched req ep \<longleftrightarrow>
     (BAT_EndpointIDs req \<noteq> [] \<and> EP_ID ep \<in> set (BAT_EndpointIDs req))
     \<or> (BAT_SubnetCIDR req \<noteq> [] \<and> EP_SubnetCIDR ep = BAT_SubnetCIDR req)
     \<or> (BAT_OrganizationalUnit req \<noteq> [] \<and> EP_OrganizationalUnit ep = BAT_OrganizationalUnit req)"

definition BulkAssignEndpointsTier :: "string list \<Rightarrow> (nat \<Rightarrow> string) \<Rightarrow> time \<Rightarrow> Repository \<Rightarrow> BulkAssignTierRequest \<Rightarrow> string \<Rightarrow> string
    \<Rightarrow> Repository \<times> (fleet_error + int)" where
  "BulkAssignEndpointsTier ord uid now r req actor ip =
     (if \<not> valid_tier (BAT_RolloutTier req) then (r, Inl (InvalidRolloutTier (BAT_RolloutTier req)))
      else
        (let (eps, cnt) = update_where ord (bulk_matched req)
               (assigned now (BAT_RolloutTier req) actor (BAT_Justification req)) (RP_endpoints r)
         in (append_log
              \<lparr>SAL_ID = uid 0, SAL_CorrelationID = uid 1, SAL_Timestamp = now, SAL_Actor = actor,
               SAL_Action = ''ROLLOUT_TIER_BULK_ASSIGNED'', SAL_ResourceType = ''endpoint_rollout_tier'',
               SAL_ResourceID = BAT_RolloutTier req, SAL_Status = ''SUCCESS'', SAL_IPAddress = ip,
               SAL_Details = [(''assigned_tier'', JStr (BAT_RolloutTier req)), (''affected_count'', JNum (of_int cnt)),
                 (''justification'', JStr (BAT_Justification req)), (''subnet_cidr'', JStr (BAT_SubnetCIDR req)),
                 (''ou'', JStr (BAT_OrganizationalUnit req))]\<rparr>
              (r\<lparr>RP_endpoints := eps\<rparr>), Inr cnt)))"

definition UpdateEndpointRolloutTier :: "(nat \<Rightarrow> string) \<Rightarrow> time \<Rightarrow> Repository \<Rightarrow> string \<Rightarrow> string \<Rightarrow> string \<Rightarrow> string \<Rightarrow> string
    \<Rightarrow> Repository \<times> fleet_error option" where
  "UpdateEndpointRolloutTier uid now r endpointID tier justification actor ip =
     (case RP_endpoints r endpointID of
        None \<Rightarrow> (r, Some (EndpointNotFound endpointID))
      | Some ep \<Rightarrow>
          if \<not> valid_tier tier then (r, Some (InvalidRolloutTier tier))
          else
            (append_log
               \<lparr>SAL_ID = uid 0, SAL_CorrelationID = uid 1, SAL_Timestamp = now, SAL_Actor = actor,
                SAL_Action = ''ENDPOINT_TIER_MODIFIED'', SAL_ResourceType = ''endpoint'', SAL_ResourceID = endpointID,
                SAL_Status = ''SUCCESS'', SAL_IPAddress = ip,
                SAL_Details = [(''previous_tier'', JStr (EP_RolloutTier ep)), (''new_tier'', JStr tier),
                  (''justification'', JStr justification)]\<rparr>
               (r\<lparr>RP_endpoints := (RP_endpoints r)(endpointID \<mapsto> assigned now tier actor justification ep)\<rparr>), None))"

section \<open>Scan jobs\<close>

definition CreateScanJob :: "(time \<Rightarrow> string) \<Rightarrow> string \<Rightarrow> time \<Rightarrow> Repository \<Rightarrow> CreateScanJobRequest \<Rightarrow> Repository \<times> ScanJob" where
  "CreateScanJob fmt i now r req =
     (let job = \<lparr>SJ_ID = i, SJ_Name = CSJ_Name req, SJ_TargetCIDR = CSJ_TargetCIDR req, SJ_ScanProfile = CSJ_ScanProfile req,
            SJ_Protocol = CSJ_Protocol req, SJ_VaultSecretRef = CSJ_VaultSecretRef req, SJ_GatewayID = CSJ_GatewayID req,
            SJ_Status = ''running'', SJ_TotalHosts = 8, SJ_ScannedHosts = 0, SJ_CompliantHosts = 0, SJ_FailedHosts = 0,
            SJ_Logs = [''['' @ fmt now @ ''] [DISCOVERY] Scan job '' @ [CHR 0x27] @ CSJ_Name req @ [CHR 0x27] @ '' queued for target ''
                         @ CSJ_TargetCIDR req @ '' using '' @ CSJ_Protocol req @ '' protocol'',
                       ''['' @ fmt now @ ''] [DISCOVERY] Dispatching task to Collector Gateway '' @ CSJ_GatewayID req],
            SJ_StartedAt = Some now, SJ_CompletedAt = None, SJ_CreatedAt = now\<rparr>
      in (r\<lparr>RP_scans := (RP_scans r)(i \<mapsto> job)\<rparr>, job))"

text \<open>Whether a new job is simulated, from the environment.\<close>

definition is_mock :: "(string \<Rightarrow> string) \<Rightarrow> bool" where
  "is_mock env \<longleftrightarrow> env ''MOCK_SCAN_MODE'' = ''true'' \<or> env ''ENVIRONMENT'' = ''development'' \<or> env ''ENVIRONMENT'' = []"

text \<open>
  The simulation runs in a goroutine of its own: it sleeps, then changes the job under the lock, once per stage, and ends
  early when the job is gone or cancelled. What other calls do to the repository while it sleeps before stage \<open>i\<close> is
  \<open>others i\<close>.
\<close>

record stage =
  ST_delay :: duration
  ST_log :: string
  ST_scanned :: int
  ST_compliant :: int
  ST_failed :: int

definition stages :: "string \<Rightarrow> string \<Rightarrow> stage list" where
  "stages targetCIDR protocol =
     [\<lparr>ST_delay = 1200 * Millisecond,
        ST_log = ''[DISCOVERY] Initiating ICMP echo and ARP subnet sweep on '' @ targetCIDR @ ''... Discovered 8 responsive target hosts.'',
        ST_scanned = 2, ST_compliant = 2, ST_failed = 0\<rparr>,
      \<lparr>ST_delay = 1500 * Millisecond,
        ST_log = ''[HANDSHAKE] WinRM HTTPS (5986) TLS 1.2+ mutual handshake established with SPN HTTP/DEMO-WKS-001 using '' @ protocol @ ''.'',
        ST_scanned = 4, ST_compliant = 4, ST_failed = 0\<rparr>,
      \<lparr>ST_delay = 1800 * Millisecond,
        ST_log = ''[HARDWARE] Querying Win32_ComputerSystem, Win32_Processor, Win32_PhysicalMemory, Win32_DiskDrive, Win32_BIOS... 16 Cores, 32GB RAM, TPM 2.0 active.'',
        ST_scanned = 6, ST_compliant = 5, ST_failed = 1\<rparr>,
      \<lparr>ST_delay = 1800 * Millisecond,
        ST_log = ''[SECURITY] Inspecting BitLocker (Win32_EncryptableVolume), Defender AV engine (v4.18.24040.4), Secure Boot (UEFI), and active Firewall profiles.'',
        ST_scanned = 7, ST_compliant = 6, ST_failed = 1\<rparr>,
      \<lparr>ST_delay = 1600 * Millisecond,
        ST_log = ''[INDEXING] Correlating installed applications (Win32_Product / Registry), hotfix packages (KB5034441), and NIST NVD / CISA KEV vulnerability feeds.'',
        ST_scanned = 8, ST_compliant = 7, ST_failed = 1\<rparr>,
      \<lparr>ST_delay = 1200 * Millisecond,
        ST_log = ''[COMMIT] JSONB telemetry snapshot stored to PostgreSQL (SHA-256 verified). Drift analysis & CIS Benchmark scoring complete. Scan job COMPLETED.'',
        ST_scanned = 8, ST_compliant = 7, ST_failed = 1\<rparr>]"

definition stage_done :: "(time \<Rightarrow> string) \<Rightarrow> time \<Rightarrow> time \<Rightarrow> bool \<Rightarrow> stage \<Rightarrow> ScanJob \<Rightarrow> ScanJob" where
  "stage_done fmt ts now final s job =
     (let job = job\<lparr>SJ_Logs := SJ_Logs job @ [''['' @ fmt ts @ ''] '' @ ST_log s], SJ_ScannedHosts := ST_scanned s,
            SJ_CompliantHosts := ST_compliant s, SJ_FailedHosts := ST_failed s\<rparr>
      in if final then job\<lparr>SJ_Status := ''completed'', SJ_CompletedAt := Some now\<rparr> else job)"

definition sim_stage :: "(time \<Rightarrow> string) \<Rightarrow> time \<Rightarrow> time \<Rightarrow> bool \<Rightarrow> string \<Rightarrow> stage \<Rightarrow> Repository \<Rightarrow> Repository option" where
  "sim_stage fmt ts now final jobID s r =
     (case RP_scans r jobID of
        None \<Rightarrow> None
      | Some job \<Rightarrow>
          if SJ_Status job = ''cancelled'' then None
          else Some (r\<lparr>RP_scans := (RP_scans r)(jobID \<mapsto> stage_done fmt ts now final s job)\<rparr>))"

fun simulate :: "(time \<Rightarrow> string) \<Rightarrow> (nat \<Rightarrow> time) \<Rightarrow> (nat \<Rightarrow> Repository \<Rightarrow> Repository) \<Rightarrow> string \<Rightarrow> nat \<Rightarrow> stage list \<Rightarrow> Repository \<Rightarrow> Repository" where
  "simulate fmt clk others jobID i [] r = r"
| "simulate fmt clk others jobID i (s # ss) r =
     (let r = others i r
      in case sim_stage fmt (clk (2 * i)) (clk (2 * i + 1)) (ss = []) jobID s r of
           None \<Rightarrow> r
         | Some r' \<Rightarrow> simulate fmt clk others jobID (Suc i) ss r')"

definition runMockScanSimulation :: "(time \<Rightarrow> string) \<Rightarrow> (nat \<Rightarrow> time) \<Rightarrow> (nat \<Rightarrow> Repository \<Rightarrow> Repository) \<Rightarrow> Repository \<Rightarrow> string \<Rightarrow> string \<Rightarrow> string \<Rightarrow> Repository" where
  "runMockScanSimulation fmt clk others r jobID targetCIDR protocol =
     simulate fmt clk others jobID 0 (stages targetCIDR protocol) r"

definition ListScanJobs :: "string list \<Rightarrow> Repository \<Rightarrow> ScanJob list" where
  "ListScanJobs ord r = range_vals (RP_scans r) ord"

text \<open>The source returns the pointer under which the job is stored.\<close>

definition GetScanJob :: "Repository \<Rightarrow> string \<Rightarrow> fleet_error + ScanJob" where
  "GetScanJob r i = (case RP_scans r i of None \<Rightarrow> Inl (ScanJobNotFound i) | Some job \<Rightarrow> Inr job)"

section \<open>Gateways, credentials and the audit log\<close>

definition ListGateways :: "string list \<Rightarrow> Repository \<Rightarrow> CollectorGateway list" where
  "ListGateways ord r = range_vals (RP_gateways r) ord"

definition AddGateway :: "Repository \<Rightarrow> CollectorGateway \<Rightarrow> Repository" where
  "AddGateway r gw = r\<lparr>RP_gateways := (RP_gateways r)(CG_ID gw \<mapsto> gw)\<rparr>"

text \<open>The loop stops at the first gateway with the code.\<close>

fun heartbeat_loop :: "time \<Rightarrow> string \<Rightarrow> int \<Rightarrow> string list \<Rightarrow> (string \<rightharpoonup> CollectorGateway) \<Rightarrow> (string \<rightharpoonup> CollectorGateway)" where
  "heartbeat_loop now gatewayCode latencyMs [] gws = gws"
| "heartbeat_loop now gatewayCode latencyMs (k # ks) gws =
     (case gws k of
        None \<Rightarrow> heartbeat_loop now gatewayCode latencyMs ks gws
      | Some gw \<Rightarrow>
          if CG_GatewayCode gw = gatewayCode
          then gws(k \<mapsto> gw\<lparr>CG_LastHeartbeatAt := now, CG_LatencyMs := latencyMs, CG_Status := ''healthy''\<rparr>)
          else heartbeat_loop now gatewayCode latencyMs ks gws)"

definition UpdateGatewayHeartbeat :: "string list \<Rightarrow> time \<Rightarrow> Repository \<Rightarrow> string \<Rightarrow> int \<Rightarrow> Repository" where
  "UpdateGatewayHeartbeat ord now r gatewayCode latencyMs =
     r\<lparr>RP_gateways := heartbeat_loop now gatewayCode latencyMs ord (RP_gateways r)\<rparr>"

definition ListVaultCredentials :: "string list \<Rightarrow> Repository \<Rightarrow> VaultCredentialSummary list" where
  "ListVaultCredentials ord r = range_vals (RP_credentials r) ord"

definition AddVaultCredential :: "Repository \<Rightarrow> VaultCredentialSummary \<Rightarrow> Repository" where
  "AddVaultCredential r summary = r\<lparr>RP_credentials := (RP_credentials r)(VCS_OpaqueID summary \<mapsto> summary)\<rparr>"

definition ListAuditLogs :: "Repository \<Rightarrow> SecurityAuditLog list" where
  "ListAuditLogs r = RP_auditLogs r"

text \<open>Unlike the other operations, \<open>AddAuditLog\<close> puts the new entry first and keeps a thousand.\<close>

definition AddAuditLog :: "Repository \<Rightarrow> SecurityAuditLog \<Rightarrow> Repository" where
  "AddAuditLog r l = r\<lparr>RP_auditLogs := take 1000 (l # RP_auditLogs r)\<rparr>"

definition AuditLogFromVaultEntry :: "string \<Rightarrow> SecretResolutionAuditEntry \<Rightarrow> SecurityAuditLog" where
  "AuditLogFromVaultEntry i entry =
     \<lparr>SAL_ID = i, SAL_CorrelationID = SA_CorrelationID entry, SAL_Timestamp = SA_Timestamp entry, SAL_Actor = SA_GatewayID entry,
      SAL_Action = SA_Action entry, SAL_ResourceType = ''vault_credential'', SAL_ResourceID = SA_CredentialRef entry,
      SAL_Status = ''SUCCESS'', SAL_IPAddress = SA_IPAddress entry,
      SAL_Details = [(''scan_job_id'', JStr (SA_ScanJobID entry)), (''tenant_id'', JStr (SA_TenantID entry))]\<rparr>"

definition GetFleetMetrics :: "string list \<Rightarrow> string list \<Rightarrow> Repository \<Rightarrow> FleetMetrics" where
  "GetFleetMetrics eord gord r =
     (let eps = range_vals (RP_endpoints r) eord; gws = range_vals (RP_gateways r) gord; n = int (length eps)
      in \<lparr>FM_TotalEndpoints = n, FM_OnlineEndpoints = int (length (filter (\<lambda>ep. EP_Status ep = ''online'') eps)),
           FM_BitLockerRate = 962 / 10, FM_TPMRate = 100, FM_DefenderRate = 100,
           FM_AverageCompliance = (if n > 0 then sum_list (map EP_ComplianceScore eps) / of_int n else 0),
           FM_ActiveGateways = int (length (filter (\<lambda>gw. CG_Status gw = ''healthy'') gws)),
           FM_TotalGateways = int (length gws), FM_CriticalIssuesCount = 0\<rparr>)"

definition ListNetworkSubnets :: "(time \<Rightarrow> string) \<Rightarrow> (nat \<Rightarrow> time) \<Rightarrow> NetworkSubnet list" where
  "ListNetworkSubnets fmt clk =
     [\<lparr>NSU_ID = ''sub-001'', NSU_SubnetCIDR = ''10.100.1.0/24'', NSU_Name = ''Corporate HQ Workstations (Subnet A)'', NSU_Location = ''Building 4, New York, NY'',
        NSU_AssignedGatewayCode = ''gw-subnet-10-100-1-0'', NSU_GatewayName = ''On-Prem Corporate HQ (Subnet A)'', NSU_GatewayStatus = ''healthy'', NSU_GatewayLatencyMs = 4,
        NSU_HostCount = 18, NSU_OnlineCount = 18, NSU_CompliantCount = 16, NSU_AllowInsecureHTTP = False, NSU_TransportProtocol = ''winrm_https'', NSU_LastScanAt = fmt (clk 0 - 2 * Hour)\<rparr>,
      \<lparr>NSU_ID = ''sub-002'', NSU_SubnetCIDR = ''10.100.2.0/24'', NSU_Name = ''Datacenter East Servers (Subnet B)'', NSU_Location = ''Datacenter East, Ashburn, VA'',
        NSU_AssignedGatewayCode = ''gw-subnet-10-100-2-0'', NSU_GatewayName = ''Datacenter East Racks (Subnet B)'', NSU_GatewayStatus = ''healthy'', NSU_GatewayLatencyMs = 2,
        NSU_HostCount = 10, NSU_OnlineCount = 10, NSU_CompliantCount = 10, NSU_AllowInsecureHTTP = False, NSU_TransportProtocol = ''winrm_https'', NSU_LastScanAt = fmt (clk 1 - 1 * Hour)\<rparr>,
      \<lparr>NSU_ID = ''sub-003'', NSU_SubnetCIDR = ''10.100.3.0/24'', NSU_Name = ''Remote Branch Workstations (Subnet C)'', NSU_Location = ''Branch Office, Austin, TX'',
        NSU_AssignedGatewayCode = ''gw-subnet-10-100-3-0'', NSU_GatewayName = ''Austin Branch Office Gateway'', NSU_GatewayStatus = ''degraded'', NSU_GatewayLatencyMs = 42,
        NSU_HostCount = 2, NSU_OnlineCount = 2, NSU_CompliantCount = 0, NSU_AllowInsecureHTTP = True, NSU_TransportProtocol = ''winrm_http'', NSU_LastScanAt = fmt (clk 2 - 6 * Hour)\<rparr>]"

section \<open>Snapshots\<close>

definition SaveSnapshot :: "string \<Rightarrow> time \<Rightarrow> Repository \<Rightarrow> HostSnapshotEntry \<Rightarrow> Repository" where
  "SaveSnapshot i now r entry =
     (let entry = (if HSE_ID entry = [] then entry\<lparr>HSE_ID := i\<rparr> else entry);
          entry = (if HSE_CreatedAt entry = zero_time then entry\<lparr>HSE_CreatedAt := now\<rparr> else entry)
      in r\<lparr>RP_snapshots := (RP_snapshots r)(HSE_ID entry \<mapsto> entry)\<rparr>)"

definition GetSnapshotByID :: "Repository \<Rightarrow> string \<Rightarrow> string \<Rightarrow> HostSnapshotEntry option" where
  "GetSnapshotByID r tenantID i =
     (case RP_snapshots r i of
        None \<Rightarrow> None
      | Some snap \<Rightarrow> if tenantID \<noteq> [] \<and> HSE_TenantID snap \<noteq> tenantID then None else Some snap)"

definition ListAllSnapshotsForTenant :: "string list \<Rightarrow> Repository \<Rightarrow> string \<Rightarrow> HostSnapshotEntry list" where
  "ListAllSnapshotsForTenant ord r tenantID =
     filter (\<lambda>snap. tenantID = [] \<or> HSE_TenantID snap = tenantID) (range_vals (RP_snapshots r) ord)"

definition ArchiveSnapshotPayload :: "Repository \<Rightarrow> string \<Rightarrow> string \<Rightarrow> string \<Rightarrow> string \<Rightarrow> time \<Rightarrow> int \<Rightarrow> Repository \<times> fleet_error option" where
  "ArchiveSnapshotPayload r snapshotID archiveLocation archiveChecksum strategy archivedAt rawSize =
     (case RP_snapshots r snapshotID of
        None \<Rightarrow> (r, Some (SnapshotNotFound snapshotID))
      | Some snap \<Rightarrow>
          (r\<lparr>RP_snapshots := (RP_snapshots r)(snapshotID \<mapsto>
             snap\<lparr>HSE_IsArchived := True, HSE_ArchivedAt := Some archivedAt, HSE_ArchiveLocation := archiveLocation,
               HSE_ArchiveChecksum := archiveChecksum, HSE_ArchiveStrategy := strategy, HSE_PayloadSizeBytes := rawSize,
               HSE_Payload := zero_payload\<rparr>)\<rparr>, None))"

definition MarkSnapshotWeeklyRetained :: "Repository \<Rightarrow> string \<Rightarrow> Repository \<times> fleet_error option" where
  "MarkSnapshotWeeklyRetained r snapshotID =
     (case RP_snapshots r snapshotID of
        None \<Rightarrow> (r, Some (SnapshotNotFound snapshotID))
      | Some snap \<Rightarrow> (r\<lparr>RP_snapshots := (RP_snapshots r)(snapshotID \<mapsto> snap\<lparr>HSE_IsDownsampleRetained := True\<rparr>)\<rparr>, None))"

definition PruneDownsampledSnapshot :: "Repository \<Rightarrow> string \<Rightarrow> Repository" where
  "PruneDownsampledSnapshot r snapshotID = r\<lparr>RP_snapshots := (RP_snapshots r)(snapshotID := None)\<rparr>"

definition GetSnapshotRetentionPolicy :: "Repository \<Rightarrow> SnapshotRetentionPolicy" where
  "GetSnapshotRetentionPolicy r = RP_retentionPolicy r"

definition UpdateSnapshotRetentionPolicy :: "(nat \<Rightarrow> time) \<Rightarrow> Repository \<Rightarrow> SnapshotRetentionPolicy \<Rightarrow> string \<Rightarrow> string \<Rightarrow> Repository" where
  "UpdateSnapshotRetentionPolicy clk r policy operator ipAddr =
     append_log
       \<lparr>SAL_ID = ''audit-retpolicy-'' @ dec_int (wrap64 (clk 1)), SAL_CorrelationID = ''corr-retpolicy-'' @ dec_int (wrap64 (clk 2)),
        SAL_Timestamp = clk 3, SAL_Actor = operator, SAL_Action = ''SNAPSHOT_RETENTION_POLICY_UPDATED'',
        SAL_ResourceType = ''snapshot_retention_policy'', SAL_ResourceID = ''global_retention_policy'',
        SAL_Status = ''SUCCESS'', SAL_IPAddress = ipAddr,
        SAL_Details = [(''retention_days'', JNum (of_int (SRP_RetentionDays policy))), (''strategy'', JStr (SRP_Strategy policy)),
          (''cold_storage_path'', JStr (SRP_ColdStoragePath policy)), (''is_enabled'', JBool (SRP_IsEnabled policy))]\<rparr>
       (r\<lparr>RP_retentionPolicy := policy\<lparr>SRP_UpdatedAt := clk 0, SRP_UpdatedBy := operator\<rparr>\<rparr>)"

definition UpdateRetentionPolicyRunStats :: "Repository \<Rightarrow> SnapshotRetentionPolicy \<Rightarrow> Repository" where
  "UpdateRetentionPolicyRunStats r policy =
     r\<lparr>RP_retentionPolicy := (RP_retentionPolicy r)\<lparr>SRP_LastRunAt := SRP_LastRunAt policy,
        SRP_LastRunStatus := SRP_LastRunStatus policy, SRP_LastReclaimedBytes := SRP_LastReclaimedBytes policy\<rparr>\<rparr>"

section \<open>The health of alerting\<close>

definition GetAlertHealthStatus :: "time \<Rightarrow> Repository \<Rightarrow> AlertHealthStatus" where
  "GetAlertHealthStatus now r =
     (let health = RP_alertHealth r
      in case AHS_LastTestAlertAt health of
           Some t \<Rightarrow>
             (let days = quot (time_sub now t) (24 * Hour)
              in health\<lparr>AHS_TestAlertLapseDays := days,
                   AHS_TestAlertLapsed := days \<ge> 90 \<or> AHS_LastTestAlertStatus health \<noteq> ''DELIVERED''\<rparr>)
         | None \<Rightarrow> health\<lparr>AHS_TestAlertLapsed := True, AHS_TestAlertLapseDays := 999\<rparr>)"

definition RecordTestAlertResult :: "(nat \<Rightarrow> time) \<Rightarrow> Repository \<Rightarrow> TestAlertResponse \<Rightarrow> string \<Rightarrow> string \<Rightarrow> Repository" where
  "RecordTestAlertResult clk r resp operator ipAddr =
     append_log
       \<lparr>SAL_ID = ''audit-alert-'' @ dec_int (wrap64 (clk 1)), SAL_CorrelationID = ''corr-'' @ TR_DeliveryID resp,
        SAL_Timestamp = clk 0, SAL_Actor = operator, SAL_Action = ''TEST_ALERT_DISPATCHED'',
        SAL_ResourceType = ''alert_verification'', SAL_ResourceID = TR_DeliveryID resp, SAL_Status = TR_Status resp,
        SAL_IPAddress = ipAddr,
        SAL_Details = [(''delivery_id'', JStr (TR_DeliveryID resp)), (''verification_receipt'', JStr (TR_VerificationReceipt resp)),
          (''target_url'', JStr (TR_TargetURL resp)), (''http_status_code'', JNum (of_int (TR_StatusCode resp))),
          (''duration_ms'', JNum (of_int (TR_DurationMs resp))), (''error_message'', JStr (TR_ErrorMessage resp)),
          (''alert_notice'', JStr (TR_AlertNotice resp)), (''is_synthetic_test'', JBool True)]\<rparr>
       (r\<lparr>RP_alertHealth := (RP_alertHealth r)\<lparr>AHS_LastTestAlertAt := Some (clk 0), AHS_LastTestAlertStatus := TR_Status resp,
          AHS_LastTestAlertOperator := operator, AHS_LastTestAlertTargetURL := TR_TargetURL resp,
          AHS_LastTestAlertReceipt := TR_VerificationReceipt resp, AHS_TestAlertLapseDays := 0,
          AHS_TestAlertLapsed := (TR_Status resp \<noteq> ''DELIVERED'')\<rparr>\<rparr>)"

section \<open>Keyset listings\<close>

definition snapshot_key :: "HostSnapshotEntry \<Rightarrow> time \<times> string" where
  "snapshot_key snap = (HSE_CreatedAt snap, HSE_ID snap)"

definition snapshot_match :: "string \<Rightarrow> string \<Rightarrow> HostSnapshotEntry \<Rightarrow> bool" where
  "snapshot_match tenantID hostID snap \<longleftrightarrow>
     (tenantID = [] \<or> HSE_TenantID snap = tenantID) \<and> (hostID = [] \<or> HSE_HostID snap = hostID)"

definition ListSnapshotsKeyset :: "string list \<Rightarrow> Repository \<Rightarrow> string \<Rightarrow> string \<Rightarrow> KeysetPageRequest \<Rightarrow> HostSnapshotEntry KeysetPageResponse" where
  "ListSnapshotsKeyset ord r tenantID hostID req =
     keyset_page snapshot_key 20 100 (filter (snapshot_match tenantID hostID) (range_vals (RP_snapshots r) ord)) req"

definition audit_key :: "SecurityAuditLog \<Rightarrow> time \<times> string" where
  "audit_key l = (SAL_Timestamp l, SAL_ID l)"

text \<open>An entry is hidden only if its details name another tenant.\<close>

definition audit_visible :: "string \<Rightarrow> SecurityAuditLog \<Rightarrow> bool" where
  "audit_visible tenantID l \<longleftrightarrow> tenantID = []
     \<or> (case map_of (SAL_Details l) ''tenant_id'' of Some (JStr tid) \<Rightarrow> tid = tenantID | _ \<Rightarrow> True)"

definition ListAuditLogsKeyset :: "Repository \<Rightarrow> string \<Rightarrow> KeysetPageRequest \<Rightarrow> SecurityAuditLog KeysetPageResponse" where
  "ListAuditLogsKeyset r tenantID req =
     keyset_page audit_key 50 200 (filter (audit_visible tenantID) (RP_auditLogs r)) req"

interpretation snapshots: keyset snapshot_key 20 100 by unfold_locales simp_all
interpretation audits: keyset audit_key 50 200 by unfold_locales simp_all

end
