(* ===== verification/FleetSeed.thy ===== *)
theory FleetSeed
  imports Fleet
begin

text \<open>
  The repository a server starts with (\<open>NewRepository\<close> and \<open>seedInitialData\<close> of
  \<open>api/internal/repository/repository.go\<close>): two gateways, two credentials, five endpoints, one finished scan, one audit
  entry and four snapshots. Identifiers (\<open>uid i\<close>), clock readings and the RFC 3339 format are arguments.
\<close>

definition seed_gateway_hq :: "time \<Rightarrow> CollectorGateway" where
  "seed_gateway_hq now =
     \<lparr>CG_ID = ''gw-10-100-1-0'', CG_GatewayCode = ''gw-subnet-10-100-1-0'',
        CG_Name = ''On-Prem Corporate HQ (Subnet A)'', CG_SubnetCIDR = ''10.100.1.0/24'',
        CG_MTLSCertFingerprint = ''SHA256:4a8f9b2c3d1e5a7b8c9d0e1f2a3b4c5d6e7f8a9b0c1d2e3f4a5b6c7d8e9f0a1b'',
        CG_Status = ''healthy'', CG_Version = ''v1.2.4'', CG_LatencyMs = 4, CG_LastHeartbeatAt = (now - 5 * Second),
        CG_CreatedAt = (now - 48 * Hour)\<rparr>"

definition seed_gateway_dc :: "time \<Rightarrow> CollectorGateway" where
  "seed_gateway_dc now =
     \<lparr>CG_ID = ''gw-10-100-2-0'', CG_GatewayCode = ''gw-subnet-10-100-2-0'',
        CG_Name = ''Datacenter East Racks (Subnet B)'', CG_SubnetCIDR = ''10.100.2.0/24'',
        CG_MTLSCertFingerprint = ''SHA256:9b2c3d1e5a7b8c9d0e1f2a3b4c5d6e7f8a9b0c1d2e3f4a5b6c7d8e9f0a1b4a8f'',
        CG_Status = ''healthy'', CG_Version = ''v1.2.4'', CG_LatencyMs = 2, CG_LastHeartbeatAt = (now - 2 * Second),
        CG_CreatedAt = (now - 72 * Hour)\<rparr>"

definition seed_credential_domain :: "(nat \<Rightarrow> string) \<Rightarrow> time \<Rightarrow> VaultCredentialSummary" where
  "seed_credential_domain uid now =
     \<lparr>VCS_ID = uid 0, VCS_OpaqueID = ''sec_ref_winrm_domain_prod_01'',
        VCS_Name = ''Active Directory Domain Scan Account (gMSA)'', VCS_CredentialType = ''domain_kerberos'',
        VCS_DomainOrHost = ''CORP.ENDPOINTGUARD.LOCAL'', VCS_Username = ''svc_endpointguard_winrm'',
        VCS_CreatedAt = (now - 100 * Hour), VCS_UpdatedAt = (now - 100 * Hour)\<rparr>"

definition seed_credential_snmp :: "(nat \<Rightarrow> string) \<Rightarrow> time \<Rightarrow> VaultCredentialSummary" where
  "seed_credential_snmp uid now =
     \<lparr>VCS_ID = uid 1, VCS_OpaqueID = ''sec_ref_bmc_snmpv3_dc_01'',
        VCS_Name = ''Datacenter BMC/iLO SNMPv3 Auth Profile'', VCS_CredentialType = ''snmp_v3'',
        VCS_DomainOrHost = ''10.100.2.0/24'', VCS_Username = ''sec_admin_snmp'', VCS_CreatedAt = (now - 120 * Hour),
        VCS_UpdatedAt = (now - 120 * Hour)\<rparr>"

definition seed_host1 :: "time \<Rightarrow> Endpoint" where
  "seed_host1 now =
     \<lparr>EP_ID = ''host-w11-exec-01'', EP_Hostname = ''W11-EXEC-LP04'', EP_Domain = ''CORP.ENDPOINTGUARD.LOCAL'',
        EP_IPAddress = ''10.100.1.42'', EP_MACAddress = ''00:1A:2B:3C:4D:5E'',
        EP_OSName = ''Microsoft Windows 11 Enterprise 23H2'', EP_OSBuild = ''22631.3296'',
        EP_SerialNumber = ''8XKJ9201'', EP_Manufacturer = ''Dell Inc.'', EP_Model = ''Latitude 7440'',
        EP_ChassisType = ''Laptop'', EP_Status = ''online'', EP_AgentlessProtocol = ''winrm_https'',
        EP_ComplianceScore = 945 / 10, EP_RolloutTier = ''pilot'',
        EP_OrganizationalUnit = ''OU=Executive,OU=Workstations,DC=corp,DC=local'', EP_SubnetCIDR = ''10.100.1.0/24'',
        EP_TierPromotedAt = None, EP_TierPromotedBy = [], EP_TierPromotionReason = [],
        EP_LastScannedAt = Some (now - 12 * Minute), EP_CreatedAt = (now - 24 * Hour), EP_UpdatedAt = now\<rparr>"

definition seed_hardware1 :: "(nat \<Rightarrow> string) \<Rightarrow> time \<Rightarrow> HardwareInventory" where
  "seed_hardware1 uid now =
     \<lparr>HI_ID = uid 2, HI_EndpointID = ''host-w11-exec-01'',
        HI_CPUDetails = [(''name'', JStr ''13th Gen Intel(R) Core(TM) i7-1365U''), (''architecture'', JStr ''x64''), (''sockets'', JNum 1), (''cores'', JNum 10), (''logical_processors'', JNum 12), (''max_clock_mhz'', JNum 5200)],
        HI_MemoryDetails = [(''total_bytes'', JNum 34359738368), (''slots_used'', JNum 2), (''total_slots'', JNum 2), (''dimms'', JArr [JObj [(''slot'', JStr ''DIMM 1''), (''capacity_bytes'', JNum 17179869184), (''speed_mhz'', JNum 5600), (''manufacturer'', JStr ''SK Hynix''), (''part_number'', JStr ''HMCG78AGBUA'')], JObj [(''slot'', JStr ''DIMM 2''), (''capacity_bytes'', JNum 17179869184), (''speed_mhz'', JNum 5600), (''manufacturer'', JStr ''SK Hynix''), (''part_number'', JStr ''HMCG78AGBUA'')]])],
        HI_StorageDetails = [(''disks'', JArr [JObj [(''index'', JNum 0), (''model'', JStr ''NVMe KIOXIA 1024GB SSD''), (''bus_type'', JStr ''NVMe''), (''size_bytes'', JNum 1024209543168), (''partition_count'', JNum 4), (''smart_status'', JStr ''Healthy''), (''serial'', JStr ''KX9820194A'')]])],
        HI_NetworkDetails = [(''adapters'', JArr [JObj [(''name'', JStr ''Intel(R) Wi-Fi 6E AX211 160MHz''), (''mac'', JStr ''00:1A:2B:3C:4D:5E''), (''ip_addresses'', JArr [JStr ''10.100.1.42'']), (''subnet_mask'', JStr ''255.255.255.0''), (''default_gateway'', JStr ''10.100.1.1''), (''dhcp_enabled'', JBool True), (''link_speed_mbps'', JNum 1200)]])],
        HI_BIOSDetails = [(''version'', JStr ''1.11.0''), (''release_date'', JStr ''2024-01-15''), (''smbios_version'', JStr ''3.5''), (''manufacturer'', JStr ''Dell Inc.''), (''secure_boot'', JBool True)],
        HI_TPMDetails = [(''present'', JBool True), (''spec_version'', JStr ''2.0''), (''manufacturer_id'', JStr ''NTC''), (''enabled'', JBool True), (''activated'', JBool True)],
        HI_CreatedAt = now, HI_UpdatedAt = now\<rparr>"

definition seed_security1 :: "(nat \<Rightarrow> string) \<Rightarrow> (time \<Rightarrow> string) \<Rightarrow> time \<Rightarrow> SecurityPosture" where
  "seed_security1 uid fmt now =
     \<lparr>SPO_ID = uid 3, SPO_EndpointID = ''host-w11-exec-01'',
        SPO_BitLockerStatus = [(''volumes'', JArr [JObj [(''drive_letter'', JStr ''C:''), (''protection_status'', JNum 1), (''encryption_method'', JStr ''XtsAes256''), (''lock_status'', JNum 0), (''key_protectors'', JArr [JStr ''TPM'', JStr ''RecoveryPassword''])]])],
        SPO_DefenderStatus = [(''realtime_enabled'', JBool True), (''cloud_protection'', JBool True), (''tamper_protection'', JBool True), (''antimalware_version'', JStr ''4.18.24030.9''), (''signatures_updated'', JStr (fmt (now - 2 * Hour)))],
        SPO_FirewallStatus = [(''domain_profile'', JBool True), (''private_profile'', JBool True), (''public_profile'', JBool True)],
        SPO_UACStatus = [(''admin_approval_mode'', JBool True)], SPO_RebootPending = [], SPO_CutoverReadiness = [],
        SPO_Hotfixes = [[(''hotfix_id'', JStr ''KB5036893''), (''description'', JStr ''Security Update''), (''installed_on'', JStr ''2024-04-12'')], [(''hotfix_id'', JStr ''KB5037771''), (''description'', JStr ''Cumulative Update''), (''installed_on'', JStr ''2024-05-14'')]],
        SPO_LocalAdmins = [''Administrator'', ''CORP'' @ [CHR 0x5C] @ ''Domain Admins''], SPO_CreatedAt = now,
        SPO_UpdatedAt = now\<rparr>"

definition seed_cis1 :: "(nat \<Rightarrow> string) \<Rightarrow> time \<Rightarrow> CISResult list" where
  "seed_cis1 uid now =
     [\<lparr>CIR_ID = uid 4, CIR_EndpointID = ''host-w11-exec-01'',
        CIR_BenchmarkName = ''CIS Microsoft Windows 11 Enterprise Benchmark v3.0.0'', CIR_BenchmarkLevel = ''Level 1'',
        CIR_RuleID = ''CIS-1.1.1'', CIR_RuleTitle = ''Ensure BitLocker Drive Encryption is Enabled on OS Volume'',
        CIR_Category = ''Storage & Encryption'', CIR_Status = ''PASS'',
        CIR_ActualValue = ''ProtectionStatus: 1 (Encrypted with XTS-AES 256)'',
        CIR_ExpectedValue = ''ProtectionStatus: 1'',
        CIR_Rationale = ''Protects volume confidentiality if host is misplaced or physically accessed.'',
        CIR_RemediationScript = ''Enable-BitLocker -MountPoint '' @ [CHR 0x27] @ ''C:'' @ [CHR 0x27] @ '' -EncryptionMethod XtsAes256 -UsedSpaceOnly -TpmProtector'',
        CIR_EvaluatedAt = now\<rparr>, \<lparr>CIR_ID = uid 5, CIR_EndpointID = ''host-w11-exec-01'',
        CIR_BenchmarkName = ''CIS Microsoft Windows 11 Enterprise Benchmark v3.0.0'', CIR_BenchmarkLevel = ''Level 1'',
        CIR_RuleID = ''CIS-1.2.1'',
        CIR_RuleTitle = ''Ensure Trusted Platform Module (TPM) 2.0 is Active and Attested'',
        CIR_Category = ''Hardware & Firmware'', CIR_Status = ''PASS'', CIR_ActualValue = ''TPM 2.0 Present & Enabled'',
        CIR_ExpectedValue = ''TPM 2.0 Present, Enabled, and Activated'',
        CIR_Rationale = ''TPM 2.0 establishes cryptographic root of trust.'',
        CIR_RemediationScript = ''Enable-TpmAutoProvisioning; Initialize-Tpm'', CIR_EvaluatedAt = now\<rparr>, \<lparr>CIR_ID = uid 6, CIR_EndpointID = ''host-w11-exec-01'',
        CIR_BenchmarkName = ''CIS Microsoft Windows 11 Enterprise Benchmark v3.0.0'', CIR_BenchmarkLevel = ''Level 1'',
        CIR_RuleID = ''CIS-1.3.1'', CIR_RuleTitle = ''Ensure Microsoft Defender Real-Time Protection is Enabled'',
        CIR_Category = ''System Defenses'', CIR_Status = ''PASS'', CIR_ActualValue = ''RealTimeProtection: Enabled'',
        CIR_ExpectedValue = ''RealTimeProtection: Enabled'',
        CIR_Rationale = ''Real-time scanning detects and prevents malicious code execution.'',
        CIR_RemediationScript = ''Set-MpPreference -DisableRealtimeMonitoring $false'', CIR_EvaluatedAt = now\<rparr>, \<lparr>CIR_ID = uid 7, CIR_EndpointID = ''host-w11-exec-01'',
        CIR_BenchmarkName = ''CIS Microsoft Windows 11 Enterprise Benchmark v3.0.0'', CIR_BenchmarkLevel = ''Level 1'',
        CIR_RuleID = ''CIS-1.4.1'', CIR_RuleTitle = ''Ensure Microsoft Defender Tamper Protection is Enabled'',
        CIR_Category = ''System Defenses'', CIR_Status = ''PASS'', CIR_ActualValue = ''TamperProtection: Enabled'',
        CIR_ExpectedValue = ''TamperProtection: Enabled'',
        CIR_Rationale = ''Tamper protection blocks malicious disabling of security tools.'',
        CIR_RemediationScript = ''Set-MpPreference -EnableTamperProtection $true'', CIR_EvaluatedAt = now\<rparr>, \<lparr>CIR_ID = uid 8, CIR_EndpointID = ''host-w11-exec-01'',
        CIR_BenchmarkName = ''CIS Microsoft Windows 11 Enterprise Benchmark v3.0.0'', CIR_BenchmarkLevel = ''Level 1'',
        CIR_RuleID = ''CIS-1.5.1'', CIR_RuleTitle = ''Ensure SMBv1 (Legacy Protocol) is Completely Disabled'',
        CIR_Category = ''Network Security'', CIR_Status = ''PASS'', CIR_ActualValue = ''SMBv1: Disabled'',
        CIR_ExpectedValue = ''SMBv1: Disabled'',
        CIR_Rationale = ''SMBv1 is vulnerable to remote code execution attacks.'',
        CIR_RemediationScript = ''Disable-WindowsOptionalFeature -Online -FeatureName smb1protocol -NoRestart'',
        CIR_EvaluatedAt = now\<rparr>]"

definition seed_host2 :: "time \<Rightarrow> Endpoint" where
  "seed_host2 now =
     \<lparr>EP_ID = ''host-ws22-dc-01'', EP_Hostname = ''DC01-PROD-EAST'', EP_Domain = ''CORP.ENDPOINTGUARD.LOCAL'',
        EP_IPAddress = ''10.100.2.10'', EP_MACAddress = ''52:54:00:12:34:56'',
        EP_OSName = ''Microsoft Windows Server 2022 Datacenter'', EP_OSBuild = ''20348.2407'',
        EP_SerialNumber = ''VMware-56 4d 8a 91'', EP_Manufacturer = ''VMware, Inc.'', EP_Model = ''VMware7,1'',
        EP_ChassisType = ''Server'', EP_Status = ''online'', EP_AgentlessProtocol = ''winrm_https'',
        EP_ComplianceScore = 980 / 10, EP_RolloutTier = ''pilot'',
        EP_OrganizationalUnit = ''OU=DomainControllers,DC=corp,DC=local'', EP_SubnetCIDR = ''10.100.2.0/24'',
        EP_TierPromotedAt = None, EP_TierPromotedBy = [], EP_TierPromotionReason = [],
        EP_LastScannedAt = Some (now - 12 * Minute), EP_CreatedAt = (now - 48 * Hour), EP_UpdatedAt = now\<rparr>"

definition seed_host3 :: "time \<Rightarrow> Endpoint" where
  "seed_host3 now =
     \<lparr>EP_ID = ''host-w11-fin-02'', EP_Hostname = ''W11-FIN-WK02'', EP_Domain = ''CORP.ENDPOINTGUARD.LOCAL'',
        EP_IPAddress = ''10.100.1.55'', EP_MACAddress = ''00:1A:2B:3C:4D:77'',
        EP_OSName = ''Microsoft Windows 11 Enterprise 23H2'', EP_OSBuild = ''22631.3296'',
        EP_SerialNumber = ''8XKJ9209'', EP_Manufacturer = ''Lenovo'', EP_Model = ''ThinkPad X1 Carbon Gen 11'',
        EP_ChassisType = ''Laptop'', EP_Status = ''online'', EP_AgentlessProtocol = ''winrm_https'',
        EP_ComplianceScore = 910 / 10, EP_RolloutTier = ''staged'',
        EP_OrganizationalUnit = ''OU=Finance,OU=Workstations,DC=corp,DC=local'', EP_SubnetCIDR = ''10.100.1.0/24'',
        EP_TierPromotedAt = None, EP_TierPromotedBy = [], EP_TierPromotionReason = [],
        EP_LastScannedAt = Some (now - 12 * Minute), EP_CreatedAt = (now - 72 * Hour), EP_UpdatedAt = now\<rparr>"

definition seed_host4 :: "time \<Rightarrow> Endpoint" where
  "seed_host4 now =
     \<lparr>EP_ID = ''host-ws22-sql-01'', EP_Hostname = ''SQL01-PROD-EAST'', EP_Domain = ''CORP.ENDPOINTGUARD.LOCAL'',
        EP_IPAddress = ''10.100.2.25'', EP_MACAddress = ''52:54:00:12:34:88'',
        EP_OSName = ''Microsoft Windows Server 2022 Datacenter'', EP_OSBuild = ''20348.2407'',
        EP_SerialNumber = ''VMware-56 4d 8a 99'', EP_Manufacturer = ''VMware, Inc.'', EP_Model = ''VMware7,1'',
        EP_ChassisType = ''Server'', EP_Status = ''online'', EP_AgentlessProtocol = ''winrm_https'',
        EP_ComplianceScore = 965 / 10, EP_RolloutTier = ''full'',
        EP_OrganizationalUnit = ''OU=Datacenter,OU=Servers,DC=corp,DC=local'', EP_SubnetCIDR = ''10.100.2.0/24'',
        EP_TierPromotedAt = None, EP_TierPromotedBy = [], EP_TierPromotionReason = [],
        EP_LastScannedAt = Some (now - 12 * Minute), EP_CreatedAt = (now - 96 * Hour), EP_UpdatedAt = now\<rparr>"

definition seed_host5 :: "time \<Rightarrow> Endpoint" where
  "seed_host5 now =
     \<lparr>EP_ID = ''host-w11-eng-09'', EP_Hostname = ''W11-ENG-DEV09'', EP_Domain = ''CORP.ENDPOINTGUARD.LOCAL'',
        EP_IPAddress = ''10.100.3.18'', EP_MACAddress = ''00:1A:2B:3C:4D:99'',
        EP_OSName = ''Microsoft Windows 11 Pro 23H2'', EP_OSBuild = ''22631.3296'', EP_SerialNumber = ''8XKJ9999'',
        EP_Manufacturer = ''HP'', EP_Model = ''EliteBook 840 G10'', EP_ChassisType = ''Laptop'',
        EP_Status = ''online'', EP_AgentlessProtocol = ''winrm_https'', EP_ComplianceScore = 930 / 10,
        EP_RolloutTier = ''pilot'', EP_OrganizationalUnit = ''OU=Engineering,OU=Workstations,DC=corp,DC=local'',
        EP_SubnetCIDR = ''10.100.3.0/24'', EP_TierPromotedAt = None, EP_TierPromotedBy = [],
        EP_TierPromotionReason = [], EP_LastScannedAt = Some (now - 12 * Minute), EP_CreatedAt = (now - 12 * Hour),
        EP_UpdatedAt = now\<rparr>"

definition seed_hardware2 :: "(nat \<Rightarrow> string) \<Rightarrow> time \<Rightarrow> HardwareInventory" where
  "seed_hardware2 uid now =
     \<lparr>HI_ID = uid 9, HI_EndpointID = ''host-ws22-dc-01'',
        HI_CPUDetails = [(''name'', JStr (''Intel(R) Xeon(R) Platinum 8370C CPU @ 2.80GHz'')), (''architecture'', JStr ''x64''), (''sockets'', JNum 2), (''cores'', JNum 16), (''logical_processors'', JNum 32), (''max_clock_mhz'', JNum 2800)],
        HI_MemoryDetails = [(''total_bytes'', JNum 68719476736), (''slots_used'', JNum 4), (''total_slots'', JNum 8), (''dimms'', JArr [JObj [(''slot'', JStr ''DIMM 1''), (''capacity_bytes'', JNum 17179869184), (''speed_mhz'', JNum 3200), (''manufacturer'', JStr ''Micron''), (''part_number'', JStr ''MTA36ASF4G72PZ'')], JObj [(''slot'', JStr ''DIMM 2''), (''capacity_bytes'', JNum 17179869184), (''speed_mhz'', JNum 3200), (''manufacturer'', JStr ''Micron''), (''part_number'', JStr ''MTA36ASF4G72PZ'')], JObj [(''slot'', JStr ''DIMM 3''), (''capacity_bytes'', JNum 17179869184), (''speed_mhz'', JNum 3200), (''manufacturer'', JStr ''Micron''), (''part_number'', JStr ''MTA36ASF4G72PZ'')], JObj [(''slot'', JStr ''DIMM 4''), (''capacity_bytes'', JNum 17179869184), (''speed_mhz'', JNum 3200), (''manufacturer'', JStr ''Micron''), (''part_number'', JStr ''MTA36ASF4G72PZ'')]])],
        HI_StorageDetails = [(''disks'', JArr [JObj [(''index'', JNum 0), (''model'', JStr ''VMware Virtual disk''), (''bus_type'', JStr ''SCSI''), (''size_bytes'', JNum 214748364800), (''partition_count'', JNum 3), (''smart_status'', JStr ''Healthy''), (''serial'', JStr ''6000c291982a'')]])],
        HI_NetworkDetails = [(''adapters'', JArr [JObj [(''name'', JStr ''vmxnet3 Ethernet Adapter''), (''mac'', JStr ''52:54:00:12:34:56''), (''ip_addresses'', JArr [JStr ''10.100.2.10'']), (''subnet_mask'', JStr ''255.255.255.0''), (''default_gateway'', JStr ''10.100.2.1''), (''dhcp_enabled'', JBool False), (''link_speed_mbps'', JNum 10000)]])],
        HI_BIOSDetails = [(''version'', JStr ''VMW71.00V.21100004.B64''), (''release_date'', JStr ''2023-11-12''), (''smbios_version'', JStr ''2.8''), (''manufacturer'', JStr ''Phoenix Technologies LTD''), (''secure_boot'', JBool True)],
        HI_TPMDetails = [(''present'', JBool True), (''spec_version'', JStr ''2.0''), (''manufacturer_id'', JStr ''VMW''), (''enabled'', JBool True), (''activated'', JBool True)],
        HI_CreatedAt = now, HI_UpdatedAt = now\<rparr>"

definition seed_security2 :: "(nat \<Rightarrow> string) \<Rightarrow> (time \<Rightarrow> string) \<Rightarrow> time \<Rightarrow> SecurityPosture" where
  "seed_security2 uid fmt now =
     \<lparr>SPO_ID = uid 10, SPO_EndpointID = ''host-ws22-dc-01'',
        SPO_BitLockerStatus = [(''volumes'', JArr [JObj [(''drive_letter'', JStr ''C:''), (''protection_status'', JNum 1), (''encryption_method'', JStr ''XtsAes256''), (''lock_status'', JNum 0), (''key_protectors'', JArr [JStr ''TPM''])]])],
        SPO_DefenderStatus = [(''realtime_enabled'', JBool True), (''cloud_protection'', JBool True), (''tamper_protection'', JBool True), (''antimalware_version'', JStr ''4.18.24030.9''), (''signatures_updated'', JStr (fmt (now - 1 * Hour)))],
        SPO_FirewallStatus = [(''domain_profile'', JBool True), (''private_profile'', JBool True), (''public_profile'', JBool True)],
        SPO_UACStatus = [(''admin_approval_mode'', JBool True)], SPO_RebootPending = [], SPO_CutoverReadiness = [],
        SPO_Hotfixes = [[(''hotfix_id'', JStr ''KB5037782''), (''description'', JStr ''Security Update''), (''installed_on'', JStr ''2024-05-14'')]],
        SPO_LocalAdmins = [''Administrator'', ''CORP'' @ [CHR 0x5C] @ ''Domain Admins''], SPO_CreatedAt = now,
        SPO_UpdatedAt = now\<rparr>"

definition seed_cis2 :: "(nat \<Rightarrow> string) \<Rightarrow> time \<Rightarrow> CISResult list" where
  "seed_cis2 uid now =
     [\<lparr>CIR_ID = uid 11, CIR_EndpointID = ''host-ws22-dc-01'',
        CIR_BenchmarkName = ''CIS Microsoft Windows Server 2022 Benchmark v2.0.0'', CIR_BenchmarkLevel = ''Level 1'',
        CIR_RuleID = ''CIS-1.1.1'', CIR_RuleTitle = ''Ensure BitLocker Drive Encryption is Enabled on OS Volume'',
        CIR_Category = ''Storage & Encryption'', CIR_Status = ''PASS'',
        CIR_ActualValue = ''ProtectionStatus: 1 (Encrypted)'', CIR_ExpectedValue = ''ProtectionStatus: 1'',
        CIR_Rationale = ''Protects volume confidentiality.'',
        CIR_RemediationScript = ''Enable-BitLocker -MountPoint '' @ [CHR 0x27] @ ''C:'' @ [CHR 0x27] @ '' -EncryptionMethod XtsAes256'',
        CIR_EvaluatedAt = now\<rparr>]"

definition seed_scan :: "(nat \<Rightarrow> string) \<Rightarrow> (time \<Rightarrow> string) \<Rightarrow> time \<Rightarrow> ScanJob" where
  "seed_scan uid fmt now =
     \<lparr>SJ_ID = uid 12, SJ_Name = ''HQ Subnet A - Full Hardware & CIS Audit'', SJ_TargetCIDR = ''10.100.1.0/24'',
        SJ_ScanProfile = ''full_hardware_os'', SJ_Protocol = ''winrm_https'',
        SJ_VaultSecretRef = ''sec_ref_winrm_domain_prod_01'', SJ_GatewayID = ''gw-10-100-1-0'',
        SJ_Status = ''completed'', SJ_TotalHosts = 42, SJ_ScannedHosts = 42, SJ_CompliantHosts = 40,
        SJ_FailedHosts = 2,
        SJ_Logs = [''['' @ fmt (now - 15 * Minute) @ ''] [INFO] Authenticating to Subnet Gateway gw-subnet-10-100-1-0 via mTLS 1.3'', ''['' @ fmt ((now - 15 * Minute) + 2 * Second) @ ''] [INFO] Resolved opaque credential sec_ref_winrm_domain_prod_01 from Vault memory buffer'', ''['' @ fmt ((now - 15 * Minute) + 5 * Second) @ ''] [INFO] Probing 42 target hosts across 10.100.1.0/24 over WinRM HTTPS (Port 5986)'', ''['' @ fmt ((now - 15 * Minute) + 30 * Second) @ ''] [INFO] Batch WQL CIM queries executed successfully for Win32_OperatingSystem, Win32_Processor, Win32_DiskDrive'', ''['' @ fmt ((now - 15 * Minute) + 60 * Second) @ ''] [INFO] Querying Root'' @ [CHR 0x5C] @ ''CIMv2'' @ [CHR 0x5C] @ ''Security'' @ [CHR 0x5C] @ ''MicrosoftVolumeEncryption (BitLocker) and TPM 2.0 classes'', ''['' @ fmt ((now - 15 * Minute) + 90 * Second) @ ''] [INFO] Evaluating telemetry against CIS Windows 11 Benchmark v3.0.0'', ''['' @ fmt (now - 12 * Minute) @ ''] [INFO] Scan completed successfully. 40/42 hosts compliant (95.2%).''],
        SJ_StartedAt = Some (now - 15 * Minute), SJ_CompletedAt = Some (now - 12 * Minute),
        SJ_CreatedAt = (now - 15 * Minute)\<rparr>"

definition seed_audit :: "(nat \<Rightarrow> string) \<Rightarrow> time \<Rightarrow> SecurityAuditLog" where
  "seed_audit uid now =
     \<lparr>SAL_ID = uid 13, SAL_CorrelationID = ''req-init-bootstrap'', SAL_Timestamp = (now - 1 * Hour),
        SAL_Actor = ''system_bootstrap'', SAL_Action = ''VAULT_MASTER_KEY_LOADED'', SAL_ResourceType = ''vault'',
        SAL_ResourceID = ''master_key'', SAL_Status = ''SUCCESS'', SAL_IPAddress = ''127.0.0.1'',
        SAL_Details = [(''algorithm'', JStr ''AES-256-GCM''), (''kdf'', JStr ''HKDF-SHA256'')]\<rparr>"

definition seed_snapshot_recent :: "time \<Rightarrow> HostSnapshotEntry" where
  "seed_snapshot_recent now =
     \<lparr>HSE_ID = ''snap-recent-01'', HSE_TenantID = ''tenant-default-01'', HSE_HostID = ''host-ws22-dc-01'',
        HSE_Hostname = ''W11-EXEC-LP04'', HSE_ScanJobID = [], HSE_PayloadHash = ''a1b2c3d4e5f67890'',
        HSE_Payload = \<lparr>HS_AuditMetadata = \<lparr>SAM_EngineVersion = ''v3.0.0'', SAM_TimestampUTC = [], SAM_ScanProtocol = ''winrm_https'',
        SAM_TargetHost = ''W11-EXEC-LP04''\<rparr>,
        HS_SystemIdentity = \<lparr>SSI_Hostname = [], SSI_Domain = None, SSI_Manufacturer = [], SSI_Model = [], SSI_SystemType = None, SSI_ChassisType = [], SSI_OSName = [], SSI_OSVersion = [], SSI_OSBuild = [], SSI_OSArchitecture = None, SSI_SerialNumber = None, SSI_InstallDate = None, SSI_LastBootTime = None\<rparr>,
        HS_FirmwareBios = \<lparr>SFB_MotherboardSerial = None, SFB_MotherboardManufacturer = None, SFB_MotherboardProduct = None, SFB_Vendor = [], SFB_Version = [], SFB_ReleaseDate = None, SFB_SMBIOSVersion = None, SFB_SMBIOSGUID = None, SFB_SecureBootEnabled = False, SFB_UEFIMode = False\<rparr>,
        HS_Processor = \<lparr>SPR_Models = [], SPR_SocketCount = 0, SPR_TotalCores = 0, SPR_TotalThreads = 0, SPR_VirtualizationFirmwareEnabled = None, SPR_VBSStatus = None, SPR_HVCIStatus = None, SPR_Processors = []\<rparr>,
        HS_Memory = \<lparr>SME_TotalCapacityBytes = 0, SME_SlotsUsed = 0, SME_TotalSlots = 0, SME_DIMMs = []\<rparr>,
        HS_Storage = \<lparr>SST_DiskCount = 0, SST_Disks = [], SST_Partitions = []\<rparr>,
        HS_TPM = \<lparr>STP_Present = False, STP_SpecVersion = None, STP_ManufacturerID = None, STP_ManufacturerVersion = None, STP_IsEnabled = None, STP_IsActivated = None, STP_IsOwned = None, STP_PCRBanks = []\<rparr>,
        HS_Network = \<lparr>SNW_Adapters = []\<rparr>,
        HS_Peripherals = \<lparr>SPH_VideoControllers = [], SPH_USBDevices = [], SPH_Monitors = []\<rparr>,
        HS_Software = \<lparr>SSW_Applications = [], SSW_Hotfixes = []\<rparr>,
        HS_SecurityBaseline = \<lparr>SSB_BitLocker = \<lparr>SBI_Volumes = []\<rparr>, SSB_Defender = \<lparr>SDF_RealTimeProtectionEnabled = None, SDF_AntivirusEnabled = None, SDF_AntispywareEnabled = None, SDF_BehaviorMonitorEnabled = None, SDF_IoavProtectionEnabled = None, SDF_TamperProtectionEnabled = None, SDF_AntivirusSignatureVersion = None, SDF_AntivirusEngineVersion = None, SDF_QuickScanAgeDays = None\<rparr>, SSB_FirewallProfiles = \<lparr>SFS_Domain = \<lparr>SFP_Enabled = False, SFP_DefaultInbound = [], SFP_DefaultOutbound = []\<rparr>, SFS_Private = \<lparr>SFP_Enabled = False, SFP_DefaultInbound = [], SFP_DefaultOutbound = []\<rparr>, SFS_Public = \<lparr>SFP_Enabled = False, SFP_DefaultInbound = [], SFP_DefaultOutbound = []\<rparr>\<rparr>, SSB_SMB1Enabled = False, SSB_LSAProtectionEnabled = False, SSB_CredentialGuardRunning = False\<rparr>,
        HS_UserAccess = \<lparr>SUA_LocalAdministrators = [], SUA_RemoteDesktopUsers = [], SUA_PrivilegedGroups = [], SUA_DormantProfiles = [], SUA_GuestAccountDisabled = None\<rparr>\<rparr>,
        HSE_IsArchived = False, HSE_ArchivedAt = None, HSE_ArchiveLocation = [], HSE_ArchiveChecksum = [],
        HSE_ArchiveStrategy = [], HSE_IsDownsampleRetained = False, HSE_PayloadSizeBytes = 84200,
        HSE_CreatedAt = (now - 5 * 24 * Hour)\<rparr>"

definition seed_snapshot_100d :: "time \<Rightarrow> HostSnapshotEntry" where
  "seed_snapshot_100d now =
     \<lparr>HSE_ID = ''snap-historical-100d'', HSE_TenantID = ''tenant-default-01'', HSE_HostID = ''host-ws22-dc-01'',
        HSE_Hostname = ''W11-EXEC-LP04'', HSE_ScanJobID = [], HSE_PayloadHash = ''b2c3d4e5f6a17890'',
        HSE_Payload = \<lparr>HS_AuditMetadata = \<lparr>SAM_EngineVersion = ''v3.0.0'', SAM_TimestampUTC = [], SAM_ScanProtocol = ''winrm_https'',
        SAM_TargetHost = ''W11-EXEC-LP04''\<rparr>,
        HS_SystemIdentity = \<lparr>SSI_Hostname = [], SSI_Domain = None, SSI_Manufacturer = [], SSI_Model = [], SSI_SystemType = None, SSI_ChassisType = [], SSI_OSName = [], SSI_OSVersion = [], SSI_OSBuild = [], SSI_OSArchitecture = None, SSI_SerialNumber = None, SSI_InstallDate = None, SSI_LastBootTime = None\<rparr>,
        HS_FirmwareBios = \<lparr>SFB_MotherboardSerial = None, SFB_MotherboardManufacturer = None, SFB_MotherboardProduct = None, SFB_Vendor = [], SFB_Version = [], SFB_ReleaseDate = None, SFB_SMBIOSVersion = None, SFB_SMBIOSGUID = None, SFB_SecureBootEnabled = False, SFB_UEFIMode = False\<rparr>,
        HS_Processor = \<lparr>SPR_Models = [], SPR_SocketCount = 0, SPR_TotalCores = 0, SPR_TotalThreads = 0, SPR_VirtualizationFirmwareEnabled = None, SPR_VBSStatus = None, SPR_HVCIStatus = None, SPR_Processors = []\<rparr>,
        HS_Memory = \<lparr>SME_TotalCapacityBytes = 0, SME_SlotsUsed = 0, SME_TotalSlots = 0, SME_DIMMs = []\<rparr>,
        HS_Storage = \<lparr>SST_DiskCount = 0, SST_Disks = [], SST_Partitions = []\<rparr>,
        HS_TPM = \<lparr>STP_Present = False, STP_SpecVersion = None, STP_ManufacturerID = None, STP_ManufacturerVersion = None, STP_IsEnabled = None, STP_IsActivated = None, STP_IsOwned = None, STP_PCRBanks = []\<rparr>,
        HS_Network = \<lparr>SNW_Adapters = []\<rparr>,
        HS_Peripherals = \<lparr>SPH_VideoControllers = [], SPH_USBDevices = [], SPH_Monitors = []\<rparr>,
        HS_Software = \<lparr>SSW_Applications = [], SSW_Hotfixes = []\<rparr>,
        HS_SecurityBaseline = \<lparr>SSB_BitLocker = \<lparr>SBI_Volumes = []\<rparr>, SSB_Defender = \<lparr>SDF_RealTimeProtectionEnabled = None, SDF_AntivirusEnabled = None, SDF_AntispywareEnabled = None, SDF_BehaviorMonitorEnabled = None, SDF_IoavProtectionEnabled = None, SDF_TamperProtectionEnabled = None, SDF_AntivirusSignatureVersion = None, SDF_AntivirusEngineVersion = None, SDF_QuickScanAgeDays = None\<rparr>, SSB_FirewallProfiles = \<lparr>SFS_Domain = \<lparr>SFP_Enabled = False, SFP_DefaultInbound = [], SFP_DefaultOutbound = []\<rparr>, SFS_Private = \<lparr>SFP_Enabled = False, SFP_DefaultInbound = [], SFP_DefaultOutbound = []\<rparr>, SFS_Public = \<lparr>SFP_Enabled = False, SFP_DefaultInbound = [], SFP_DefaultOutbound = []\<rparr>\<rparr>, SSB_SMB1Enabled = False, SSB_LSAProtectionEnabled = False, SSB_CredentialGuardRunning = False\<rparr>,
        HS_UserAccess = \<lparr>SUA_LocalAdministrators = [], SUA_RemoteDesktopUsers = [], SUA_PrivilegedGroups = [], SUA_DormantProfiles = [], SUA_GuestAccountDisabled = None\<rparr>\<rparr>,
        HSE_IsArchived = False, HSE_ArchivedAt = None, HSE_ArchiveLocation = [], HSE_ArchiveChecksum = [],
        HSE_ArchiveStrategy = [], HSE_IsDownsampleRetained = False, HSE_PayloadSizeBytes = 83500,
        HSE_CreatedAt = (now - 100 * 24 * Hour)\<rparr>"

definition seed_snapshot_105d :: "time \<Rightarrow> HostSnapshotEntry" where
  "seed_snapshot_105d now =
     \<lparr>HSE_ID = ''snap-historical-105d'', HSE_TenantID = ''tenant-default-01'', HSE_HostID = ''host-ws22-dc-01'',
        HSE_Hostname = ''W11-EXEC-LP04'', HSE_ScanJobID = [], HSE_PayloadHash = ''c3d4e5f6a1b27890'',
        HSE_Payload = \<lparr>HS_AuditMetadata = \<lparr>SAM_EngineVersion = ''v3.0.0'', SAM_TimestampUTC = [], SAM_ScanProtocol = ''winrm_https'',
        SAM_TargetHost = ''W11-EXEC-LP04''\<rparr>,
        HS_SystemIdentity = \<lparr>SSI_Hostname = [], SSI_Domain = None, SSI_Manufacturer = [], SSI_Model = [], SSI_SystemType = None, SSI_ChassisType = [], SSI_OSName = [], SSI_OSVersion = [], SSI_OSBuild = [], SSI_OSArchitecture = None, SSI_SerialNumber = None, SSI_InstallDate = None, SSI_LastBootTime = None\<rparr>,
        HS_FirmwareBios = \<lparr>SFB_MotherboardSerial = None, SFB_MotherboardManufacturer = None, SFB_MotherboardProduct = None, SFB_Vendor = [], SFB_Version = [], SFB_ReleaseDate = None, SFB_SMBIOSVersion = None, SFB_SMBIOSGUID = None, SFB_SecureBootEnabled = False, SFB_UEFIMode = False\<rparr>,
        HS_Processor = \<lparr>SPR_Models = [], SPR_SocketCount = 0, SPR_TotalCores = 0, SPR_TotalThreads = 0, SPR_VirtualizationFirmwareEnabled = None, SPR_VBSStatus = None, SPR_HVCIStatus = None, SPR_Processors = []\<rparr>,
        HS_Memory = \<lparr>SME_TotalCapacityBytes = 0, SME_SlotsUsed = 0, SME_TotalSlots = 0, SME_DIMMs = []\<rparr>,
        HS_Storage = \<lparr>SST_DiskCount = 0, SST_Disks = [], SST_Partitions = []\<rparr>,
        HS_TPM = \<lparr>STP_Present = False, STP_SpecVersion = None, STP_ManufacturerID = None, STP_ManufacturerVersion = None, STP_IsEnabled = None, STP_IsActivated = None, STP_IsOwned = None, STP_PCRBanks = []\<rparr>,
        HS_Network = \<lparr>SNW_Adapters = []\<rparr>,
        HS_Peripherals = \<lparr>SPH_VideoControllers = [], SPH_USBDevices = [], SPH_Monitors = []\<rparr>,
        HS_Software = \<lparr>SSW_Applications = [], SSW_Hotfixes = []\<rparr>,
        HS_SecurityBaseline = \<lparr>SSB_BitLocker = \<lparr>SBI_Volumes = []\<rparr>, SSB_Defender = \<lparr>SDF_RealTimeProtectionEnabled = None, SDF_AntivirusEnabled = None, SDF_AntispywareEnabled = None, SDF_BehaviorMonitorEnabled = None, SDF_IoavProtectionEnabled = None, SDF_TamperProtectionEnabled = None, SDF_AntivirusSignatureVersion = None, SDF_AntivirusEngineVersion = None, SDF_QuickScanAgeDays = None\<rparr>, SSB_FirewallProfiles = \<lparr>SFS_Domain = \<lparr>SFP_Enabled = False, SFP_DefaultInbound = [], SFP_DefaultOutbound = []\<rparr>, SFS_Private = \<lparr>SFP_Enabled = False, SFP_DefaultInbound = [], SFP_DefaultOutbound = []\<rparr>, SFS_Public = \<lparr>SFP_Enabled = False, SFP_DefaultInbound = [], SFP_DefaultOutbound = []\<rparr>\<rparr>, SSB_SMB1Enabled = False, SSB_LSAProtectionEnabled = False, SSB_CredentialGuardRunning = False\<rparr>,
        HS_UserAccess = \<lparr>SUA_LocalAdministrators = [], SUA_RemoteDesktopUsers = [], SUA_PrivilegedGroups = [], SUA_DormantProfiles = [], SUA_GuestAccountDisabled = None\<rparr>\<rparr>,
        HSE_IsArchived = False, HSE_ArchivedAt = None, HSE_ArchiveLocation = [], HSE_ArchiveChecksum = [],
        HSE_ArchiveStrategy = [], HSE_IsDownsampleRetained = False, HSE_PayloadSizeBytes = 83900,
        HSE_CreatedAt = (now - 105 * 24 * Hour)\<rparr>"

definition seed_snapshot_120d :: "time \<Rightarrow> HostSnapshotEntry" where
  "seed_snapshot_120d now =
     \<lparr>HSE_ID = ''snap-historical-120d'', HSE_TenantID = ''tenant-default-01'', HSE_HostID = ''host-w11-fin-02'',
        HSE_Hostname = ''W11-FIN-LT03'', HSE_ScanJobID = [], HSE_PayloadHash = ''d4e5f6a1b2c37890'',
        HSE_Payload = \<lparr>HS_AuditMetadata = \<lparr>SAM_EngineVersion = ''v3.0.0'', SAM_TimestampUTC = [], SAM_ScanProtocol = ''winrm_https'',
        SAM_TargetHost = ''W11-FIN-LT03''\<rparr>,
        HS_SystemIdentity = \<lparr>SSI_Hostname = [], SSI_Domain = None, SSI_Manufacturer = [], SSI_Model = [], SSI_SystemType = None, SSI_ChassisType = [], SSI_OSName = [], SSI_OSVersion = [], SSI_OSBuild = [], SSI_OSArchitecture = None, SSI_SerialNumber = None, SSI_InstallDate = None, SSI_LastBootTime = None\<rparr>,
        HS_FirmwareBios = \<lparr>SFB_MotherboardSerial = None, SFB_MotherboardManufacturer = None, SFB_MotherboardProduct = None, SFB_Vendor = [], SFB_Version = [], SFB_ReleaseDate = None, SFB_SMBIOSVersion = None, SFB_SMBIOSGUID = None, SFB_SecureBootEnabled = False, SFB_UEFIMode = False\<rparr>,
        HS_Processor = \<lparr>SPR_Models = [], SPR_SocketCount = 0, SPR_TotalCores = 0, SPR_TotalThreads = 0, SPR_VirtualizationFirmwareEnabled = None, SPR_VBSStatus = None, SPR_HVCIStatus = None, SPR_Processors = []\<rparr>,
        HS_Memory = \<lparr>SME_TotalCapacityBytes = 0, SME_SlotsUsed = 0, SME_TotalSlots = 0, SME_DIMMs = []\<rparr>,
        HS_Storage = \<lparr>SST_DiskCount = 0, SST_Disks = [], SST_Partitions = []\<rparr>,
        HS_TPM = \<lparr>STP_Present = False, STP_SpecVersion = None, STP_ManufacturerID = None, STP_ManufacturerVersion = None, STP_IsEnabled = None, STP_IsActivated = None, STP_IsOwned = None, STP_PCRBanks = []\<rparr>,
        HS_Network = \<lparr>SNW_Adapters = []\<rparr>,
        HS_Peripherals = \<lparr>SPH_VideoControllers = [], SPH_USBDevices = [], SPH_Monitors = []\<rparr>,
        HS_Software = \<lparr>SSW_Applications = [], SSW_Hotfixes = []\<rparr>,
        HS_SecurityBaseline = \<lparr>SSB_BitLocker = \<lparr>SBI_Volumes = []\<rparr>, SSB_Defender = \<lparr>SDF_RealTimeProtectionEnabled = None, SDF_AntivirusEnabled = None, SDF_AntispywareEnabled = None, SDF_BehaviorMonitorEnabled = None, SDF_IoavProtectionEnabled = None, SDF_TamperProtectionEnabled = None, SDF_AntivirusSignatureVersion = None, SDF_AntivirusEngineVersion = None, SDF_QuickScanAgeDays = None\<rparr>, SSB_FirewallProfiles = \<lparr>SFS_Domain = \<lparr>SFP_Enabled = False, SFP_DefaultInbound = [], SFP_DefaultOutbound = []\<rparr>, SFS_Private = \<lparr>SFP_Enabled = False, SFP_DefaultInbound = [], SFP_DefaultOutbound = []\<rparr>, SFS_Public = \<lparr>SFP_Enabled = False, SFP_DefaultInbound = [], SFP_DefaultOutbound = []\<rparr>\<rparr>, SSB_SMB1Enabled = False, SSB_LSAProtectionEnabled = False, SSB_CredentialGuardRunning = False\<rparr>,
        HS_UserAccess = \<lparr>SUA_LocalAdministrators = [], SUA_RemoteDesktopUsers = [], SUA_PrivilegedGroups = [], SUA_DormantProfiles = [], SUA_GuestAccountDisabled = None\<rparr>\<rparr>,
        HSE_IsArchived = False, HSE_ArchivedAt = None, HSE_ArchiveLocation = [], HSE_ArchiveChecksum = [],
        HSE_ArchiveStrategy = [], HSE_IsDownsampleRetained = False, HSE_PayloadSizeBytes = 79400,
        HSE_CreatedAt = (now - 120 * 24 * Hour)\<rparr>"

definition seedInitialData :: "(nat \<Rightarrow> string) \<Rightarrow> (time \<Rightarrow> string) \<Rightarrow> time \<Rightarrow> Repository \<Rightarrow> Repository" where
  "seedInitialData uid fmt now r =
     r\<lparr>RP_gateways := (RP_gateways r)(''gw-10-100-1-0'' \<mapsto> seed_gateway_hq now, ''gw-10-100-2-0'' \<mapsto> seed_gateway_dc now),
       RP_credentials := (RP_credentials r)(''sec_ref_winrm_domain_prod_01'' \<mapsto> seed_credential_domain uid now,
         ''sec_ref_bmc_snmpv3_dc_01'' \<mapsto> seed_credential_snmp uid now),
       RP_endpoints := (RP_endpoints r)(''host-w11-exec-01'' \<mapsto> seed_host1 now, ''host-ws22-dc-01'' \<mapsto> seed_host2 now,
         ''host-w11-fin-02'' \<mapsto> seed_host3 now, ''host-ws22-sql-01'' \<mapsto> seed_host4 now, ''host-w11-eng-09'' \<mapsto> seed_host5 now),
       RP_hardware := (RP_hardware r)(''host-w11-exec-01'' \<mapsto> seed_hardware1 uid now, ''host-ws22-dc-01'' \<mapsto> seed_hardware2 uid now),
       RP_security := (RP_security r)(''host-w11-exec-01'' \<mapsto> seed_security1 uid fmt now, ''host-ws22-dc-01'' \<mapsto> seed_security2 uid fmt now),
       RP_cisResults := (RP_cisResults r)(''host-w11-exec-01'' \<mapsto> seed_cis1 uid now, ''host-ws22-dc-01'' \<mapsto> seed_cis2 uid now),
       RP_scans := (RP_scans r)(uid 12 \<mapsto> seed_scan uid fmt now),
       RP_auditLogs := RP_auditLogs r @ [seed_audit uid now],
       RP_snapshots := (RP_snapshots r)(''snap-recent-01'' \<mapsto> seed_snapshot_recent now, ''snap-historical-100d'' \<mapsto> seed_snapshot_100d now,
         ''snap-historical-105d'' \<mapsto> seed_snapshot_105d now, ''snap-historical-120d'' \<mapsto> seed_snapshot_120d now)\<rparr>"

definition default_rollout :: "time \<Rightarrow> RolloutSettings" where
  "default_rollout now = \<lparr>ROS_ActiveTiers = [''pilot''], ROS_ScheduleEnforceTiers = True, ROS_UpdatedAt = now,
     ROS_UpdatedBy = ''system_init''\<rparr>"

definition default_alert_health :: AlertHealthStatus where
  "default_alert_health = \<lparr>AHS_LastTestAlertAt = None, AHS_LastTestAlertStatus = ''NEVER_TESTED'', AHS_LastTestAlertOperator = [],
     AHS_LastTestAlertTargetURL = [], AHS_LastTestAlertReceipt = [], AHS_TestAlertLapseDays = 999, AHS_TestAlertLapsed = True,
     AHS_ConfiguredWebhookCount = 1, AHS_ActiveAlertRulesCount = 3\<rparr>"

definition default_retention :: "time \<Rightarrow> SnapshotRetentionPolicy" where
  "default_retention now = \<lparr>SRP_RetentionDays = 90, SRP_Strategy = ''archive'',
     SRP_ColdStoragePath = ''D:'' @ [CHR 0x5C] @ ''archives'' @ [CHR 0x5C] @ ''snapshots'', SRP_KeepWeeklyIntervalDays = 7,
     SRP_IsEnabled = True, SRP_LastRunAt = None, SRP_LastRunStatus = ''IDLE'', SRP_LastReclaimedBytes = 0,
     SRP_UpdatedAt = now, SRP_UpdatedBy = ''system_init''\<rparr>"

text \<open>The clock is read for the settings, for the policy and for the seeds.\<close>

definition NewRepository :: "(nat \<Rightarrow> string) \<Rightarrow> (nat \<Rightarrow> time) \<Rightarrow> (time \<Rightarrow> string) \<Rightarrow> Repository" where
  "NewRepository uid clk fmt =
     seedInitialData uid fmt (clk 2)
       \<lparr>RP_endpoints = Map.empty, RP_hardware = Map.empty, RP_security = Map.empty, RP_scans = Map.empty, RP_gateways = Map.empty,
        RP_credentials = Map.empty, RP_cisResults = Map.empty, RP_auditLogs = [], RP_snapshots = Map.empty,
        RP_rolloutSettings = default_rollout (clk 0), RP_alertHealth = default_alert_health,
        RP_retentionPolicy = default_retention (clk 1)\<rparr>"

end
