(* ===== verification/FleetProps.thy ===== *)
theory FleetProps
  imports FleetSeed
begin

text \<open>
  Properties of the fleet repository: its invariant over every history of calls, the exact effect of a promotion, the
  listings a client pages through, the simulated scan.
\<close>

section \<open>Histories\<close>

text \<open>Every operation of the repository that changes it, and the cancellation, which the handler writes through the
  pointer \<open>GetScanJob\<close> returns.\<close>

definition cancel_job :: "time \<Rightarrow> string \<Rightarrow> Repository \<Rightarrow> Repository" where
  "cancel_job now i r =
     (case RP_scans r i of
        None \<Rightarrow> r
      | Some job \<Rightarrow> r\<lparr>RP_scans := (RP_scans r)(i \<mapsto> job\<lparr>SJ_Status := ''cancelled'', SJ_CompletedAt := Some now\<rparr>)\<rparr>)"

datatype fleet_op =
    OpSaveEndpoint Endpoint
  | OpClearEndpoints
  | OpRollout "nat \<Rightarrow> string" "nat \<Rightarrow> time" RolloutSettings string string
  | OpPromote "string list" "nat \<Rightarrow> string" time PromoteTierRequest string string
  | OpBulkAssign "string list" "nat \<Rightarrow> string" time BulkAssignTierRequest string string
  | OpUpdateTier "nat \<Rightarrow> string" time string string string string string
  | OpCreateScan "time \<Rightarrow> string" string time CreateScanJobRequest
  | OpStage "time \<Rightarrow> string" time time bool string stage
  | OpCancel time string
  | OpAddGateway CollectorGateway
  | OpHeartbeat "string list" time string int
  | OpAddCredential VaultCredentialSummary
  | OpAddAudit SecurityAuditLog
  | OpSaveSnapshot string time HostSnapshotEntry
  | OpArchive string string string string time int
  | OpRetain string
  | OpPrune string
  | OpPolicy "nat \<Rightarrow> time" SnapshotRetentionPolicy string string
  | OpRunStats SnapshotRetentionPolicy
  | OpTestAlert "nat \<Rightarrow> time" TestAlertResponse string string

fun apply_op :: "fleet_op \<Rightarrow> Repository \<Rightarrow> Repository" where
  "apply_op (OpSaveEndpoint ep) r = SaveEndpoint r ep"
| "apply_op OpClearEndpoints r = ClearEndpoints r"
| "apply_op (OpRollout uid clk s actor ip) r = UpdateRolloutSettings uid clk r s actor ip"
| "apply_op (OpPromote ord uid now req actor ip) r = fst (PromoteEndpointsTier ord uid now r req actor ip)"
| "apply_op (OpBulkAssign ord uid now req actor ip) r = fst (BulkAssignEndpointsTier ord uid now r req actor ip)"
| "apply_op (OpUpdateTier uid now i tier j actor ip) r = fst (UpdateEndpointRolloutTier uid now r i tier j actor ip)"
| "apply_op (OpCreateScan fmt i now req) r = fst (CreateScanJob fmt i now r req)"
| "apply_op (OpStage fmt ts now final i s) r = (case sim_stage fmt ts now final i s r of None \<Rightarrow> r | Some r' \<Rightarrow> r')"
| "apply_op (OpCancel now i) r = cancel_job now i r"
| "apply_op (OpAddGateway gw) r = AddGateway r gw"
| "apply_op (OpHeartbeat ord now code ms) r = UpdateGatewayHeartbeat ord now r code ms"
| "apply_op (OpAddCredential c) r = AddVaultCredential r c"
| "apply_op (OpAddAudit l) r = AddAuditLog r l"
| "apply_op (OpSaveSnapshot i now e) r = SaveSnapshot i now r e"
| "apply_op (OpArchive i loc checksum strategy at_time bytes) r = fst (ArchiveSnapshotPayload r i loc checksum strategy at_time bytes)"
| "apply_op (OpRetain i) r = fst (MarkSnapshotWeeklyRetained r i)"
| "apply_op (OpPrune i) r = PruneDownsampledSnapshot r i"
| "apply_op (OpPolicy clk p operator ip) r = UpdateSnapshotRetentionPolicy clk r p operator ip"
| "apply_op (OpRunStats p) r = UpdateRetentionPolicyRunStats r p"
| "apply_op (OpTestAlert clk resp operator ip) r = RecordTestAlertResult clk r resp operator ip"

definition run_ops :: "fleet_op list \<Rightarrow> Repository \<Rightarrow> Repository" where
  "run_ops ops r = foldl (\<lambda>r op. apply_op op r) r ops"

section \<open>The invariant\<close>

text \<open>Every entity is stored under its own identifier and every endpoint is in one of the three tiers.\<close>

definition keyed :: "('v \<Rightarrow> string) \<Rightarrow> ('v \<Rightarrow> bool) \<Rightarrow> (string \<rightharpoonup> 'v) \<Rightarrow> bool" where
  "keyed ident ok m \<longleftrightarrow> finite (dom m) \<and> (\<forall>k v. m k = Some v \<longrightarrow> ident v = k \<and> ok v)"

lemma keyed_empty [simp]: "keyed ident ok Map.empty"
  by (simp add: keyed_def)

lemma keyed_upd: "keyed ident ok m \<Longrightarrow> ident v = k \<Longrightarrow> ok v \<Longrightarrow> keyed ident ok (m(k \<mapsto> v))"
  by (auto simp: keyed_def)

lemma keyed_del: "keyed ident ok m \<Longrightarrow> keyed ident ok (m(k := None))"
  by (auto simp: keyed_def)

lemma keyedD: "keyed ident ok m \<Longrightarrow> m k = Some v \<Longrightarrow> ident v = k \<and> ok v"
  by (simp add: keyed_def)

lemma keyed_update_where:
  assumes "keyed ident ok m" "\<And>v. should v \<Longrightarrow> ident (upd v) = ident v \<and> ok (upd v)"
  shows "keyed ident ok (fst (update_where ord should upd m))"
proof -
  have "keyed ident ok m \<Longrightarrow> keyed ident ok (fst (foldl (\<lambda>(m, n) k. case m k of None \<Rightarrow> (m, n)
           | Some v \<Rightarrow> if should v then (m(k \<mapsto> upd v), n + 1) else (m, n)) (m, n) ord))" for m n
  proof (induction ord arbitrary: m n)
    case (Cons k ord)
    show ?case
    proof (cases "m k")
      case (Some v)
      then show ?thesis using Cons assms(2) keyedD [OF Cons.prems Some] by (auto intro: keyed_upd)
    qed (use Cons in simp)
  qed simp
  then show ?thesis using assms(1) by (simp add: update_where_def)
qed

definition fleet_inv :: "Repository \<Rightarrow> bool" where
  "fleet_inv r \<longleftrightarrow>
     keyed EP_ID (\<lambda>ep. valid_tier (EP_RolloutTier ep)) (RP_endpoints r)
     \<and> keyed SJ_ID (\<lambda>j. SJ_CompletedAt j = None \<longrightarrow> SJ_Status j = ''running'') (RP_scans r)
     \<and> keyed CG_ID (\<lambda>_. True) (RP_gateways r)
     \<and> keyed VCS_OpaqueID (\<lambda>_. True) (RP_credentials r)
     \<and> keyed HSE_ID (\<lambda>s. HSE_IsArchived s \<longrightarrow> HSE_ArchivedAt s \<noteq> None) (RP_snapshots r)"

text \<open>What the callers owe: an endpoint or snapshot they hand over is in order itself.\<close>

definition op_ok :: "fleet_op \<Rightarrow> bool" where
  "op_ok op =
     (case op of
        OpSaveEndpoint ep \<Rightarrow> valid_tier (EP_RolloutTier ep)
      | OpSaveSnapshot i now e \<Rightarrow> HSE_IsArchived e \<longrightarrow> HSE_ArchivedAt e \<noteq> None
      | _ \<Rightarrow> True)"

lemmas fleet_op_defs = SaveEndpoint_def ClearEndpoints_def UpdateRolloutSettings_def PromoteEndpointsTier_def
  BulkAssignEndpointsTier_def UpdateEndpointRolloutTier_def CreateScanJob_def cancel_job_def AddGateway_def
  UpdateGatewayHeartbeat_def AddVaultCredential_def AddAuditLog_def SaveSnapshot_def ArchiveSnapshotPayload_def
  MarkSnapshotWeeklyRetained_def PruneDownsampledSnapshot_def UpdateSnapshotRetentionPolicy_def
  UpdateRetentionPolicyRunStats_def RecordTestAlertResult_def sim_stage_def

lemma keyed_heartbeat: "keyed CG_ID (\<lambda>_. True) g \<Longrightarrow> keyed CG_ID (\<lambda>_. True) (heartbeat_loop now code ms ord g)"
  by (induction ord) (auto split: option.split intro!: keyed_upd dest: keyedD)

lemma promoted_tier: "should_promote req ep \<Longrightarrow> PTR_TargetTier req = ''staged'' \<or> PTR_TargetTier req = ''full'' \<Longrightarrow>
    EP_ID (assigned now (PTR_TargetTier req) actor j ep) = EP_ID ep \<and> valid_tier (EP_RolloutTier (assigned now (PTR_TargetTier req) actor j ep))"
  by (auto simp: assigned_def valid_tier_def)

lemma stage_done_fields:
  "SJ_ID (stage_done fmt ts now final s job) = SJ_ID job"
  "SJ_CompletedAt (stage_done fmt ts now final s job) = None \<Longrightarrow> SJ_CompletedAt job = None \<and> \<not> final"
  "\<not> final \<Longrightarrow> SJ_Status (stage_done fmt ts now final s job) = SJ_Status job"
  by (auto simp: stage_done_def Let_def split: if_splits)

lemma fleet_inv_step:
  assumes i: "fleet_inv r" and "op_ok op"
  shows "fleet_inv (apply_op op r)"
proof (cases op)
  case (OpSaveEndpoint ep)
  then show ?thesis using assms by (simp add: fleet_inv_def SaveEndpoint_def op_ok_def keyed_upd)
next
  case (OpPromote ord uid now req actor ip)
  have "keyed EP_ID (\<lambda>ep. valid_tier (EP_RolloutTier ep)) (fst (update_where ord (should_promote req)
      (assigned now (PTR_TargetTier req) actor (PTR_Justification req)) (RP_endpoints r)))"
    if "PTR_TargetTier req = ''staged'' \<or> PTR_TargetTier req = ''full''"
    using keyed_update_where promoted_tier [OF _ that] i unfolding fleet_inv_def by blast
  then show ?thesis using i unfolding OpPromote fleet_inv_def
    by (simp add: PromoteEndpointsTier_def split_beta)
next
  case (OpBulkAssign ord uid now req actor ip)
  have "keyed EP_ID (\<lambda>ep. valid_tier (EP_RolloutTier ep)) (fst (update_where ord (bulk_matched req)
      (assigned now (BAT_RolloutTier req) actor (BAT_Justification req)) (RP_endpoints r)))"
    if "valid_tier (BAT_RolloutTier req)"
    by (rule keyed_update_where) (use i that in \<open>simp_all add: fleet_inv_def assigned_def\<close>)
  then show ?thesis using i unfolding OpBulkAssign fleet_inv_def
    by (simp add: BulkAssignEndpointsTier_def split_beta)
next
  case (OpUpdateTier uid now e tier j actor ip)
  have "EP_ID ep = e" if "RP_endpoints r e = Some ep" for ep
    using i that unfolding fleet_inv_def by (blast dest: keyedD)
  then show ?thesis using i unfolding OpUpdateTier fleet_inv_def
    by (auto simp: UpdateEndpointRolloutTier_def assigned_def split: option.split intro!: keyed_upd)
next
  case (OpStage fmt ts now final j s)
  have "SJ_ID job = j \<and> (SJ_CompletedAt job = None \<longrightarrow> SJ_Status job = ''running'')" if "RP_scans r j = Some job" for job
    using i that unfolding fleet_inv_def by (blast dest: keyedD)
  then show ?thesis using i unfolding OpStage fleet_inv_def
    by (auto simp: sim_stage_def stage_done_fields split: option.split intro!: keyed_upd dest: stage_done_fields(2))
next
  case (OpCancel now j)
  have "SJ_ID job = j" if "RP_scans r j = Some job" for job
    using i that unfolding fleet_inv_def by (blast dest: keyedD)
  then show ?thesis using i unfolding OpCancel fleet_inv_def
    by (auto simp: cancel_job_def split: option.split intro!: keyed_upd)
next
  case (OpArchive e loc checksum strategy t bytes)
  have "HSE_ID s = e" if "RP_snapshots r e = Some s" for s
    using i that unfolding fleet_inv_def by (blast dest: keyedD)
  then show ?thesis using i unfolding OpArchive fleet_inv_def
    by (auto simp: ArchiveSnapshotPayload_def split: option.split intro!: keyed_upd)
next
  case (OpRetain e)
  have "HSE_ID s = e \<and> (HSE_IsArchived s \<longrightarrow> HSE_ArchivedAt s \<noteq> None)" if "RP_snapshots r e = Some s" for s
    using i that unfolding fleet_inv_def by (blast dest: keyedD)
  then show ?thesis using i unfolding OpRetain fleet_inv_def
    by (auto simp: MarkSnapshotWeeklyRetained_def split: option.split intro!: keyed_upd)
next
  case (OpSaveSnapshot e now s)
  then show ?thesis using assms unfolding OpSaveSnapshot fleet_inv_def
    by (auto simp: SaveSnapshot_def op_ok_def Let_def intro!: keyed_upd)
next
  case (OpHeartbeat ord now code ms)
  then show ?thesis using i keyed_heartbeat unfolding OpHeartbeat fleet_inv_def
    by (simp add: UpdateGatewayHeartbeat_def)
qed (use i in \<open>simp_all add: fleet_inv_def fleet_op_defs Let_def keyed_upd keyed_del\<close>)


lemma seed_fields [simp]:
  "CG_ID (seed_gateway_hq now) = ''gw-10-100-1-0''" "CG_ID (seed_gateway_dc now) = ''gw-10-100-2-0''"
  "VCS_OpaqueID (seed_credential_domain uid now) = ''sec_ref_winrm_domain_prod_01''"
  "VCS_OpaqueID (seed_credential_snmp uid now) = ''sec_ref_bmc_snmpv3_dc_01''"
  "EP_ID (seed_host1 now) = ''host-w11-exec-01''" "EP_ID (seed_host2 now) = ''host-ws22-dc-01''"
  "EP_ID (seed_host3 now) = ''host-w11-fin-02''" "EP_ID (seed_host4 now) = ''host-ws22-sql-01''"
  "EP_ID (seed_host5 now) = ''host-w11-eng-09''" "valid_tier (EP_RolloutTier (seed_host1 now))"
  "valid_tier (EP_RolloutTier (seed_host2 now))" "valid_tier (EP_RolloutTier (seed_host3 now))"
  "valid_tier (EP_RolloutTier (seed_host4 now))" "valid_tier (EP_RolloutTier (seed_host5 now))"
  "SJ_ID (seed_scan uid fmt now) = uid 12" "SJ_CompletedAt (seed_scan uid fmt now) \<noteq> None"
  "HSE_ID (seed_snapshot_recent now) = ''snap-recent-01''" "HSE_ID (seed_snapshot_100d now) = ''snap-historical-100d''"
  "HSE_ID (seed_snapshot_105d now) = ''snap-historical-105d''" "HSE_ID (seed_snapshot_120d now) = ''snap-historical-120d''"
  "\<not> HSE_IsArchived (seed_snapshot_recent now)" "\<not> HSE_IsArchived (seed_snapshot_100d now)"
  "\<not> HSE_IsArchived (seed_snapshot_105d now)" "\<not> HSE_IsArchived (seed_snapshot_120d now)"
  by (simp_all add: seed_gateway_hq_def seed_gateway_dc_def seed_credential_domain_def seed_credential_snmp_def seed_host1_def
      seed_host2_def seed_host3_def seed_host4_def seed_host5_def seed_scan_def seed_snapshot_recent_def
      seed_snapshot_100d_def seed_snapshot_105d_def seed_snapshot_120d_def valid_tier_def)

lemma fleet_inv_NewRepository: "fleet_inv (NewRepository uid clk fmt)"
  unfolding fleet_inv_def NewRepository_def seedInitialData_def
  by (simp add: keyed_upd del: fun_upd_apply)

lemma fleet_inv_run: "fleet_inv r \<Longrightarrow> \<forall>op \<in> set ops. op_ok op \<Longrightarrow> fleet_inv (run_ops ops r)"
  unfolding run_ops_def by (induction ops arbitrary: r) (auto intro: fleet_inv_step)




section \<open>Changing tiers\<close>

lemma update_where_spec:
  "distinct ord \<Longrightarrow>
   foldl (\<lambda>(m, n) k. case m k of None \<Rightarrow> (m, n) | Some v \<Rightarrow> if should v then (m(k \<mapsto> upd v), n + 1) else (m, n)) (m, n) ord =
   ((\<lambda>k. if k \<in> set ord then map_option (\<lambda>v. if should v then upd v else v) (m k) else m k),
    n + int (card {k \<in> set ord. \<exists>v. m k = Some v \<and> should v}))"
proof (induction ord arbitrary: m n)
  case (Cons k ord)
  show ?case
  proof (cases "\<exists>v. m k = Some v \<and> should v")
    case True
    then obtain v where v: "m k = Some v" "should v" by blast
    have "{x \<in> set (k # ord). \<exists>v. m x = Some v \<and> should v} = insert k {x \<in> set ord. \<exists>w. (m(k \<mapsto> upd v)) x = Some w \<and> should w}"
      using v Cons.prems by auto
    moreover have "k \<notin> {x \<in> set ord. \<exists>w. (m(k \<mapsto> upd v)) x = Some w \<and> should w}" using Cons.prems by simp
    ultimately show ?thesis using v Cons by (auto simp: fun_eq_iff)
  next
    case False
    then have "{x \<in> set (k # ord). \<exists>v. m x = Some v \<and> should v} = {x \<in> set ord. \<exists>w. m x = Some w \<and> should w}" by auto
    then show ?thesis using False Cons by (auto simp: fun_eq_iff split: option.split)
  qed
qed simp

definition chosen :: "(Endpoint \<Rightarrow> bool) \<Rightarrow> Repository \<Rightarrow> string set" where
  "chosen should r = {k. \<exists>ep. RP_endpoints r k = Some ep \<and> should ep}"

lemma update_where_endpoints:
  assumes "iterates (RP_endpoints r) ord"
  shows "update_where ord should upd (RP_endpoints r) =
    (\<lambda>k. map_option (\<lambda>v. if should v then upd v else v) (RP_endpoints r k), int (card (chosen should r)))"
proof -
  have "{k \<in> set ord. \<exists>v. RP_endpoints r k = Some v \<and> should v} = chosen should r"
    using assms by (auto simp: iterates_def chosen_def)
  moreover have "k \<in> set ord \<longleftrightarrow> RP_endpoints r k \<noteq> None" for k using assms by (auto simp: iterates_def)
  ultimately show ?thesis using assms by (auto simp: update_where_def update_where_spec iterates_def fun_eq_iff)
qed

text \<open>A promotion without a justification or to another tier than staged or full changes nothing and is refused;
  any other moves exactly the endpoints the request designates, says how many these are, records who did it and why, and
  touches nothing else.\<close>

theorem PromoteEndpointsTier_exact:
  assumes "iterates (RP_endpoints r) ord"
  shows "(let res = PromoteEndpointsTier ord uid now r req actor ip; S = chosen (should_promote req) r;
              bad = (trim_space (PTR_Justification req) = [] \<or> (PTR_TargetTier req \<noteq> ''staged'' \<and> PTR_TargetTier req \<noteq> ''full''))
     in (bad \<longrightarrow> fst res = r \<and> isl (snd res))
      \<and> (\<not> bad \<longrightarrow> snd res = Inr (int (card S))
          \<and> (\<forall>k. RP_endpoints (fst res) k = (if k \<in> S then map_option (assigned now (PTR_TargetTier req) actor (PTR_Justification req)) (RP_endpoints r k)
                                              else RP_endpoints r k))
          \<and> (\<exists>l. RP_auditLogs (fst res) = RP_auditLogs r @ [l] \<and> SAL_Actor l = actor \<and> SAL_Action l = ''ROLLOUT_TIER_PROMOTED''
               \<and> map_of (SAL_Details l) ''promoted_count'' = Some (JNum (of_int (int (card S))))
               \<and> map_of (SAL_Details l) ''justification'' = Some (JStr (PTR_Justification req)))
          \<and> (fst res)\<lparr>RP_endpoints := RP_endpoints r, RP_auditLogs := RP_auditLogs r\<rparr> = r))"
proof -
  have m: "map_option (\<lambda>v. if should v then upd v else v) (RP_endpoints r k)
      = (if k \<in> chosen should r then map_option upd (RP_endpoints r k) else RP_endpoints r k)" for should upd k
    by (cases "RP_endpoints r k") (auto simp: chosen_def)
  show ?thesis
    by (simp add: PromoteEndpointsTier_def Let_def update_where_endpoints [OF assms] m append_log_def)
qed


text \<open>A concrete instance.\<close>

theorem PromoteEndpointsTier_exact_witness:
  "\<exists>l. RP_auditLogs (fst (PromoteEndpointsTier [''host-w11-exec-01'', ''host-ws22-dc-01'', ''host-w11-fin-02'', ''host-ws22-sql-01'', ''host-w11-eng-09'']
           (\<lambda>_. ''u'') 9 (NewRepository (\<lambda>_. ''u'') (\<lambda>_. 5) (\<lambda>_. []))
           \<lparr>PTR_TargetTier = ''staged'', PTR_Justification = ''ok'', PTR_EndpointIDs = [], PTR_SubnetCIDR = [], PTR_OrganizationalUnit = []\<rparr> ''alice'' []))
       = RP_auditLogs (NewRepository (\<lambda>_. ''u'') (\<lambda>_. 5) (\<lambda>_. [])) @ [l] \<and> SAL_Actor l = ''alice''"
proof -
  let ?r = "NewRepository (\<lambda>_. ''u'') (\<lambda>_. 5) (\<lambda>_. [])"
  let ?o = "[''host-w11-exec-01'', ''host-ws22-dc-01'', ''host-w11-fin-02'', ''host-ws22-sql-01'', ''host-w11-eng-09'']"
  let ?q = "\<lparr>PTR_TargetTier = ''staged'', PTR_Justification = ''ok'', PTR_EndpointIDs = [], PTR_SubnetCIDR = [], PTR_OrganizationalUnit = []\<rparr>"
  have i: "iterates (RP_endpoints ?r) ?o"
    by (auto simp: iterates_def NewRepository_def seedInitialData_def)
  have t: "trim_space ''ok'' \<noteq> []" by code_simp
  show ?thesis
    using PromoteEndpointsTier_exact [OF i, of "\<lambda>_. ''u''" 9 ?q "''alice''" "[]"] t unfolding Let_def by auto
qed

lemma update_where_val:
  "fst (update_where ord should upd m) k = Some v' \<Longrightarrow> m k = Some v' \<or> (\<exists>v. v' = upd v)"
proof -
  have "fst (foldl (\<lambda>(m, n) k. case m k of None \<Rightarrow> (m, n) | Some v \<Rightarrow> if should v then (m(k \<mapsto> upd v), n + 1) else (m, n)) (m, n) ord) k
      = Some v' \<Longrightarrow> m k = Some v' \<or> (\<exists>v. v' = upd v)" for m n
  proof (induction ord arbitrary: m n)
    case (Cons x ord)
    show ?case
    proof (cases "\<exists>v. m x = Some v \<and> should v")
      case True
      then obtain v where v: "m x = Some v" "should v" by blast
      then have "(m(x \<mapsto> upd v)) k = Some v' \<or> (\<exists>v. v' = upd v)" using Cons.prems Cons.IH [of "m(x \<mapsto> upd v)" "n + 1"] by (simp del: fun_upd_apply)
      then show ?thesis by (auto split: if_splits)
    qed (use Cons in \<open>auto split: option.splits\<close>)
  qed simp
  then show "fst (update_where ord should upd m) k = Some v' \<Longrightarrow> ?thesis" unfolding update_where_def by blast
qed

lemma assigned_by [simp]: "EP_TierPromotedBy (assigned now tier actor j ep) = actor"
  by (simp add: assigned_def)

text \<open>C35. Besides storing an endpoint afresh, no operation changes the tier of an endpoint without an audit entry
  that names who did it.\<close>

theorem tier_changes_audited:
  assumes d: "RP_endpoints r k = Some ep" "RP_endpoints (apply_op op r) k = Some ep'" "EP_RolloutTier ep \<noteq> EP_RolloutTier ep'"
    and n: "\<forall>ep. op \<noteq> OpSaveEndpoint ep"
  shows "\<exists>l. RP_auditLogs (apply_op op r) = RP_auditLogs r @ [l] \<and> SAL_Actor l = EP_TierPromotedBy ep'
     \<and> SAL_Action l \<in> {''ROLLOUT_TIER_PROMOTED'', ''ROLLOUT_TIER_BULK_ASSIGNED'', ''ENDPOINT_TIER_MODIFIED''}"
proof -
  from d have ne: "RP_endpoints (apply_op op r) k \<noteq> RP_endpoints r k" by auto
  show ?thesis
  proof (cases op)
    case (OpPromote ord uid now req actor ip)
    then show ?thesis using d ne update_where_val [of ord "should_promote req" "assigned now (PTR_TargetTier req) actor (PTR_Justification req)" "RP_endpoints r" k ep']
      by (auto simp: PromoteEndpointsTier_def split_beta Let_def split: if_splits)
  next
    case (OpBulkAssign ord uid now req actor ip)
    then show ?thesis using d ne update_where_val [of ord "bulk_matched req" "assigned now (BAT_RolloutTier req) actor (BAT_Justification req)" "RP_endpoints r" k ep']
      by (auto simp: BulkAssignEndpointsTier_def split_beta Let_def split: if_splits)
  next
    case (OpUpdateTier uid now e tier j actor ip)
    then show ?thesis using d ne by (auto simp: UpdateEndpointRolloutTier_def split: option.splits if_splits)
  next
    case (OpStage fmt ts now final j s)
    then show ?thesis using ne by (auto simp: sim_stage_def split: option.splits if_splits)
  next
    case OpClearEndpoints
    then show ?thesis using d by (simp add: ClearEndpoints_def)
  qed (use ne n in \<open>simp_all add: fleet_op_defs Let_def split: option.splits if_splits\<close>)
qed

text \<open>Witness of C35.\<close>

theorem tier_changes_audited_witness:
  "\<exists>l. RP_auditLogs (apply_op (OpUpdateTier (\<lambda>_. ''u'') 9 ''host-w11-exec-01'' ''full'' ''why'' ''bob'' []) (NewRepository (\<lambda>_. ''u'') (\<lambda>_. 5) (\<lambda>_. [])))
        = RP_auditLogs (NewRepository (\<lambda>_. ''u'') (\<lambda>_. 5) (\<lambda>_. [])) @ [l] \<and> SAL_Actor l = ''bob''"
proof -
  let ?r = "NewRepository (\<lambda>_. ''u'') (\<lambda>_. 5) (\<lambda>_. [])"
  let ?op = "OpUpdateTier (\<lambda>_. ''u'') 9 ''host-w11-exec-01'' ''full'' ''why'' ''bob'' []"
  have "RP_endpoints ?r ''host-w11-exec-01'' = Some (seed_host1 5)" by (simp add: NewRepository_def seedInitialData_def)
  then have "RP_endpoints (apply_op ?op ?r) ''host-w11-exec-01'' = Some (assigned 9 ''full'' ''bob'' ''why'' (seed_host1 5))"
    by (simp add: UpdateEndpointRolloutTier_def valid_tier_def)
  moreover have "EP_RolloutTier (seed_host1 5) \<noteq> EP_RolloutTier (assigned 9 ''full'' ''bob'' ''why'' (seed_host1 5))"
    by (simp add: seed_host1_def assigned_def)
  ultimately show ?thesis
    using tier_changes_audited [of ?r "''host-w11-exec-01''" "seed_host1 5" ?op] \<open>RP_endpoints ?r ''host-w11-exec-01'' = Some (seed_host1 5)\<close>
    by (metis (no_types) assigned_by fleet_op.distinct(9))
qed

section \<open>Paging\<close>

lemma iterates_range_vals_keyed:
  assumes "keyed ident ok m" "iterates m ord"
  shows "distinct (map ident (range_vals m ord)) \<and> length (range_vals m ord) = card (dom m)"
proof -
  have "distinct ord \<Longrightarrow> set ord \<subseteq> dom m \<Longrightarrow> map ident (range_vals m ord) = ord"
  proof (induction ord)
    case (Cons k ord)
    then obtain v where "m k = Some v" by auto
    with Cons keyedD [OF assms(1), of k v] show ?case by simp
  qed simp
  then have "map ident (range_vals m ord) = ord" using assms(2) by (simp add: iterates_def)
  moreover from arg_cong [OF this, of length] have "length (range_vals m ord) = length ord" by simp
  ultimately show ?thesis using assms(2) distinct_card [of ord] by (simp add: iterates_def)
qed

text \<open>C34. A client that asks for the snapshots of a tenant page by page and follows the cursors gets, after finitely
  many pages, every matching snapshot exactly once, newest first, and nothing of another tenant, whatever the page size; no
  page is longer than a hundred.\<close>

theorem ListSnapshotsKeyset_complete:
  assumes "fleet_inv r" "iterates (RP_snapshots r) ord" "\<forall>s \<in> ran (RP_snapshots r). fits64 (HSE_CreatedAt s)"
    and "card (dom (RP_snapshots r)) \<le> n"
  shows "(let xs = walk n (ListSnapshotsKeyset ord r tenantID hostID) l []
     in set xs = {s \<in> ran (RP_snapshots r). snapshot_match tenantID hostID s} \<and> distinct xs \<and> sorted_wrt (newer snapshot_key) xs
        \<and> length (PR_Items (ListSnapshotsKeyset ord r tenantID hostID req)) \<le> 100)"
proof -
  let ?all = "filter (snapshot_match tenantID hostID) (range_vals (RP_snapshots r) ord)"
  have k: "keyed HSE_ID (\<lambda>s. HSE_IsArchived s \<longrightarrow> HSE_ArchivedAt s \<noteq> None) (RP_snapshots r)" using assms(1) by (simp add: fleet_inv_def)
  have s: "set (range_vals (RP_snapshots r) ord) = ran (RP_snapshots r)" using assms(2) by (rule set_range_vals_iterates)
  have di: "distinct (map HSE_ID ?all)" using iterates_range_vals_keyed [OF k assms(2)] by (simp add: distinct_map_filter)
  moreover have "map snd (map snapshot_key ?all) = map HSE_ID ?all" by (simp add: snapshot_key_def)
  ultimately have "distinct (map snd (map snapshot_key ?all))" by (simp only:)
  then have dk: "distinct (map snapshot_key ?all)" by (simp only: distinct_map [of snd "map snapshot_key ?all"])
  have le: "length ?all \<le> n" using iterates_range_vals_keyed [OF k assms(2)] assms(4) length_filter_le [of "snapshot_match tenantID hostID" "range_vals (RP_snapshots r) ord"]
    by linarith
  have w: "walk n (ListSnapshotsKeyset ord r tenantID hostID) l [] = exchange_sort (newer snapshot_key) ?all"
    using snapshots.walk_all [OF dk _ le, of l] assms(3) s by (auto simp: ListSnapshotsKeyset_def [abs_def] snapshot_key_def)
  have "int (length (PR_Items (ListSnapshotsKeyset ord r tenantID hostID req))) \<le> 100"
    using snapshots.page_length_le [of ?all req] snapshots.page_limit_bounds [of "PQ_Limit req"]
    by (auto simp: ListSnapshotsKeyset_def keyset_page_def Let_def)
  moreover have "distinct ?all" using di by (simp only: distinct_map)
  moreover have "set ?all = {s \<in> ran (RP_snapshots r). snapshot_match tenantID hostID s}" using s by auto
  ultimately show ?thesis using newest_first [OF dk] unfolding w Let_def by simp
qed

text \<open>Witness of C34.\<close>

theorem ListSnapshotsKeyset_complete_witness:
  "distinct (walk 4 (ListSnapshotsKeyset [''snap-recent-01'', ''snap-historical-100d'', ''snap-historical-105d'', ''snap-historical-120d'']
      (NewRepository (\<lambda>_. ''u'') (\<lambda>_. 5) (\<lambda>_. [])) ''tenant-default-01'' []) 1 [])"
proof -
  let ?r = "NewRepository (\<lambda>_. ''u'') (\<lambda>_. 5) (\<lambda>_. [])"
  have s: "RP_snapshots ?r = [''snap-recent-01'' \<mapsto> seed_snapshot_recent 5, ''snap-historical-100d'' \<mapsto> seed_snapshot_100d 5,
      ''snap-historical-105d'' \<mapsto> seed_snapshot_105d 5, ''snap-historical-120d'' \<mapsto> seed_snapshot_120d 5]"
    by (simp add: NewRepository_def seedInitialData_def)
  have i: "iterates (RP_snapshots ?r) [''snap-recent-01'', ''snap-historical-100d'', ''snap-historical-105d'', ''snap-historical-120d'']"
    unfolding s by (auto simp: iterates_def)
  have c: "\<forall>s \<in> ran (RP_snapshots ?r). fits64 (HSE_CreatedAt s)"
    unfolding set_range_vals_iterates [OF i, symmetric] s
    by (simp add: seed_snapshot_recent_def seed_snapshot_100d_def seed_snapshot_105d_def seed_snapshot_120d_def Hour_def fits64_def min_int64_def max_int64_def)
  have n: "card (dom (RP_snapshots ?r)) \<le> 4"
    using i distinct_card [of "[''snap-recent-01'', ''snap-historical-100d'', ''snap-historical-105d'', ''snap-historical-120d'']"]
    unfolding iterates_def by simp
  show ?thesis
    using ListSnapshotsKeyset_complete [OF fleet_inv_NewRepository i c n, of "''tenant-default-01''" "[]" 1] unfolding Let_def by blast
qed

section \<open>The simulated scan\<close>

text \<open>The job after \<open>n\<close> of the stages.\<close>

fun after_stages :: "(time \<Rightarrow> string) \<Rightarrow> (nat \<Rightarrow> time) \<Rightarrow> nat \<Rightarrow> nat \<Rightarrow> stage list \<Rightarrow> ScanJob \<Rightarrow> ScanJob" where
  "after_stages fmt clk 0 i ss job = job"
| "after_stages fmt clk (Suc n) i [] job = job"
| "after_stages fmt clk (Suc n) i (s # ss) job =
     after_stages fmt clk n (Suc i) ss (stage_done fmt (clk (2 * i)) (clk (2 * i + 1)) (ss = []) s job)"

lemma simulate_cancelled:
  assumes "\<forall>i r. i \<noteq> c \<longrightarrow> RP_scans (others i r) jobID = RP_scans r jobID"
    and "\<forall>r. RP_scans (others c r) jobID = RP_scans (cancel_job t jobID r) jobID"
    and "RP_scans r jobID = Some job" "SJ_Status job = ''running''" "i \<le> c"
  shows "RP_scans (simulate fmt clk others jobID i ss r) jobID =
    Some (if c < i + length ss then (after_stages fmt clk (c - i) i ss job)\<lparr>SJ_Status := ''cancelled'', SJ_CompletedAt := Some t\<rparr>
          else after_stages fmt clk (length ss) i ss job)"
  using assms(3-)
proof (induction ss arbitrary: i r job)
  case (Cons s ss)
  show ?case
  proof (cases "i = c")
    case True
    then have "RP_scans (others i r) jobID = Some (job\<lparr>SJ_Status := ''cancelled'', SJ_CompletedAt := Some t\<rparr>)"
      using assms(2) Cons.prems by (simp add: cancel_job_def)
    then show ?thesis using True by (simp add: sim_stage_def)
  next
    case False
    then have o: "RP_scans (others i r) jobID = Some job" using assms(1) Cons.prems by simp
    let ?job = "stage_done fmt (clk (2 * i)) (clk (2 * i + 1)) (ss = []) s job"
    let ?r = "(others i r)\<lparr>RP_scans := (RP_scans (others i r))(jobID \<mapsto> ?job)\<rparr>"
    have st: "sim_stage fmt (clk (2 * i)) (clk (2 * i + 1)) (ss = []) jobID s (others i r) = Some ?r"
      using o Cons.prems by (simp add: sim_stage_def)
    obtain d where d: "c - i = Suc d" "d = c - Suc i" using False Cons.prems by (metis Suc_diff_Suc le_neq_implies_less)
    show ?thesis
    proof (cases "ss = []")
      case True
      then show ?thesis using o st d False Cons.prems by (simp add: Let_def)
    next
      case ne: False
      have "RP_scans ?r jobID = Some ?job" "SJ_Status ?job = ''running''" "Suc i \<le> c"
        using Cons.prems False ne by (simp_all add: stage_done_fields)
      from Cons.IH [OF this] st d show ?thesis by (simp add: Let_def)
    qed
  qed
qed simp

text \<open>A simulated job nobody cancels goes through its six stages and ends completed with eight hosts scanned, seven compliant and
  one failed, its completion time set; cancelled while it waits before stage \<open>c\<close>, it keeps the progress of the stages
  before and never completes.\<close>

theorem simulated_scan_outcome:
  assumes "\<forall>i r. i \<noteq> c \<longrightarrow> RP_scans (others i r) jobID = RP_scans r jobID"
    and "\<forall>r. RP_scans (others c r) jobID = RP_scans (cancel_job t jobID r) jobID"
  shows "\<exists>job. RP_scans (runMockScanSimulation fmt clk others (fst (CreateScanJob fmt jobID now r req)) jobID (CSJ_TargetCIDR req) (CSJ_Protocol req)) jobID = Some job
     \<and> SJ_Status job = (if c < 6 then ''cancelled'' else ''completed'')
     \<and> SJ_CompletedAt job = Some (if c < 6 then t else clk 11)
     \<and> SJ_ScannedHosts job = [0, 2, 4, 6, 7, 8, 8] ! min c 6
     \<and> SJ_CompliantHosts job = [0, 2, 4, 5, 6, 7, 7] ! min c 6
     \<and> SJ_FailedHosts job = [0, 0, 0, 1, 1, 1, 1] ! min c 6
     \<and> length (SJ_Logs job) = 2 + min c 6"
proof -
  define job where "job = snd (CreateScanJob fmt jobID now r req)"
  have j: "RP_scans (fst (CreateScanJob fmt jobID now r req)) jobID = Some job" "SJ_Status job = ''running''"
    "length (SJ_Logs job) = 2" "SJ_ScannedHosts job = 0" "SJ_CompliantHosts job = 0" "SJ_FailedHosts job = 0"
    by (simp_all add: CreateScanJob_def job_def Let_def)
  note s = simulate_cancelled [OF assms j(1,2) le0, of fmt clk "stages (CSJ_TargetCIDR req) (CSJ_Protocol req)"]
  have "c = 0 \<or> c = 1 \<or> c = 2 \<or> c = 3 \<or> c = 4 \<or> c = 5 \<or> 6 \<le> c" by arith
  then show ?thesis
    unfolding runMockScanSimulation_def s by (elim disjE) (simp_all add: j stages_def stage_done_def eval_nat_numeral)
qed

text \<open>A concrete instance.\<close>

theorem simulated_scan_outcome_witness:
  "\<exists>job. RP_scans (runMockScanSimulation (\<lambda>_. []) int (\<lambda>i. if i = 3 then cancel_job 77 ''j'' else (\<lambda>r. r))
       (fst (CreateScanJob (\<lambda>_. []) ''j'' 5 (NewRepository (\<lambda>_. ''u'') (\<lambda>_. 5) (\<lambda>_. []))
          \<lparr>CSJ_Name = ''n'', CSJ_TargetCIDR = ''t'', CSJ_ScanProfile = [], CSJ_Protocol = ''p'', CSJ_VaultSecretRef = [], CSJ_GatewayID = []\<rparr>))
       ''j'' ''t'' ''p'') ''j'' = Some job \<and> SJ_Status job = ''cancelled'' \<and> SJ_ScannedHosts job = 6"
  using simulated_scan_outcome [of 3 "\<lambda>i. if i = 3 then cancel_job 77 ''j'' else (\<lambda>r. r)" "''j''" 77 "\<lambda>_. []" int 5
      "NewRepository (\<lambda>_. ''u'') (\<lambda>_. 5) (\<lambda>_. [])"
      "\<lparr>CSJ_Name = ''n'', CSJ_TargetCIDR = ''t'', CSJ_ScanProfile = [], CSJ_Protocol = ''p'', CSJ_VaultSecretRef = [], CSJ_GatewayID = []\<rparr>"]
  by auto

section \<open>What modelling showed\<close>

text \<open>An entry that another operation appended to a full log is lost with the next one the log is given.\<close>

lemma AddAuditLog_drops_appended:
  "999 \<le> length (RP_auditLogs r) \<Longrightarrow> RP_auditLogs (AddAuditLog (append_log l r) m) = RP_auditLogs (AddAuditLog r m)"
  by (simp add: AddAuditLog_def)

text \<open>A heartbeat makes a gateway healthy, approved or not.\<close>

lemma heartbeat_approves:
  assumes "RP_gateways r k = Some gw" "CG_GatewayCode gw = code"
  shows "\<exists>gw. RP_gateways (UpdateGatewayHeartbeat [k] now r code ms) k = Some gw \<and> CG_Status gw = ''healthy''"
  using assms by (simp add: UpdateGatewayHeartbeat_def)

text \<open>Promoting endpoints by identifier to the staged tier takes those of the full tier back.\<close>

lemma promote_demotes:
  "EP_ID ep \<in> set (PTR_EndpointIDs req) \<Longrightarrow> should_promote req ep"
  by (auto simp: should_promote_def)

text \<open>After a cursor behind which nothing is left the listing starts again.\<close>

lemma start_index_restarts: "\<forall>x \<in> set xs. \<not> past key c x \<Longrightarrow> start_index key c xs = 0"
  by (simp add: start_index_def takeWhile_eq_all_conv [THEN iffD2])

text \<open>Cancelling marks a completed job cancelled.\<close>

lemma cancel_completed:
  "RP_scans r i = Some job \<Longrightarrow> \<exists>job'. RP_scans (cancel_job t i r) i = Some job' \<and> SJ_Status job' = ''cancelled''"
  by (simp add: cancel_job_def)

text \<open>An entry whose details do not name a tenant is shown to every tenant.\<close>

lemma untenanted_entries_visible: "map_of (SAL_Details l) ''tenant_id'' = None \<Longrightarrow> audit_visible t l"
  by (simp add: audit_visible_def)

end
