(* ===== verification/Retention.thy ===== *)
theory Retention
  imports FleetProps
begin

text \<open>
  The snapshot retention engine (\<open>api/internal/retention/engine.go\<close>): the dry run, the archival of old snapshots to cold
  storage, the weekly downsampling. JSON encoding, gzip, SHA-256 and the file system are arguments (\<open>retention_env\<close>); the
  files written are part of the result. The engine's lock makes executions follow one another; an execution is modelled as
  undisturbed by other callers of the repository. Paths are Unix paths.
\<close>

section \<open>Calendar\<close>

text \<open>Days since 1970-01-01 (a Thursday), the day a Gregorian year starts on, the year of a day.\<close>

definition day_of :: "time \<Rightarrow> int" where
  "day_of t = t div (24 * Hour)"

definition year_start :: "int \<Rightarrow> int" where
  "year_start y = 365 * (y - 1970) + (y - 1969) div 4 - (y - 1901) div 100 + (y - 1601) div 400"

definition year_of_day :: "int \<Rightarrow> int" where
  "year_of_day d =
     (let y = 1970 + (d * 400) div 146097
      in if d < year_start y then y - 1 else if d \<ge> year_start (y + 1) then y + 1 else y)"

definition month_starts :: "int \<Rightarrow> int list" where
  "month_starts y =
     (let l = year_start (y + 1) - year_start y - 365
      in [0, 31, 59 + l, 90 + l, 120 + l, 151 + l, 181 + l, 212 + l, 243 + l, 273 + l, 304 + l, 334 + l])"

definition month_of_day :: "int \<Rightarrow> nat" where
  "month_of_day d = (let y = year_of_day d in length (filter (\<lambda>s. s \<le> d - year_start y) (month_starts y)))"

definition zero_pad :: "nat \<Rightarrow> nat \<Rightarrow> string" where
  "zero_pad w n = (let d = dec_nat n in replicate (w - length d) CHR ''0'' @ d)"

text \<open>\<open>t.Format("2006-01")\<close>.\<close>

definition year_month :: "time \<Rightarrow> string" where
  "year_month t =
     (let d = day_of t; y = year_of_day d
      in (if y < 0 then CHR ''-'' # zero_pad 4 (nat (- y)) else zero_pad 4 (nat y)) @ ''-'' @ zero_pad 2 (month_of_day d))"

text \<open>\<open>ISOWeek\<close>: the year and the week of the Thursday of the day's week.\<close>

definition thursday :: "int \<Rightarrow> int" where
  "thursday d = d - (d + 3) mod 7 + 3"

definition ISOWeek :: "time \<Rightarrow> int \<times> int" where
  "ISOWeek t = (let th = thursday (day_of t); y = year_of_day th in (y, (th - year_start y) div 7 + 1))"

section \<open>Paths\<close>

text \<open>\<open>filepath.Clean\<close>, with the elements kept so far in reverse, and \<open>filepath.Join\<close>.\<close>

fun clean_elems :: "bool \<Rightarrow> string list \<Rightarrow> string list \<Rightarrow> string list" where
  "clean_elems rooted acc [] = rev acc"
| "clean_elems rooted acc (e # es) =
     (if e = [] \<or> e = ''.'' then clean_elems rooted acc es
      else if e = ''..'' then
        (case acc of
           [] \<Rightarrow> clean_elems rooted (if rooted then [] else [e]) es
         | a # acc' \<Rightarrow> if a = ''..'' then clean_elems rooted (e # acc) es else clean_elems rooted acc' es)
      else clean_elems rooted (e # acc) es)"

definition path_clean :: "string \<Rightarrow> string" where
  "path_clean s =
     (let rooted = has_prefix s ''/'';
          p = (if rooted then ''/'' else []) @ join ''/'' (clean_elems rooted [] (split_on CHR ''/'' s))
      in if p = [] then ''.'' else p)"

definition path_join :: "string list \<Rightarrow> string" where
  "path_join es = (case dropWhile (\<lambda>e. e = []) es of [] \<Rightarrow> [] | es' \<Rightarrow> path_clean (join ''/'' es'))"

section \<open>Requests\<close>

record retention_env =
  RV_marshal :: "HostSnapshotPayload \<Rightarrow> string option"
  RV_gzip :: "string \<Rightarrow> string"
  RV_sha256 :: "string \<Rightarrow> string"
  RV_mkdir :: "string \<Rightarrow> bool"
  RV_write :: "string \<Rightarrow> bool"

datatype retention_error = InvalidStrategy string | ContextEnded

definition retention_days :: "SnapshotRetentionExecuteRequest \<Rightarrow> int" where
  "retention_days req = (if RXQ_RetentionDays req \<le> 0 then 90 else RXQ_RetentionDays req)"

definition retention_strategy :: "SnapshotRetentionExecuteRequest \<Rightarrow> string" where
  "retention_strategy req = (let s = to_lower (trim_space (RXQ_Strategy req)) in if s = [] then ''archive'' else s)"

text \<open>\<open>AddDate(0, 0, -days)\<close> in UTC.\<close>

definition cutoff :: "time \<Rightarrow> int \<Rightarrow> time" where
  "cutoff now days = now - days * (24 * Hour)"

definition eligible :: "time \<Rightarrow> HostSnapshotEntry \<Rightarrow> bool" where
  "eligible cutDate snap \<longleftrightarrow> HSE_CreatedAt snap < cutDate \<and> \<not> HSE_IsArchived snap"

definition payload_size :: "retention_env \<Rightarrow> HostSnapshotEntry \<Rightarrow> int" where
  "payload_size lib snap =
     (if HSE_PayloadSizeBytes snap \<le> 0
      then (case RV_marshal lib (HSE_Payload snap) of None \<Rightarrow> 0 | Some data \<Rightarrow> int (length data))
      else HSE_PayloadSizeBytes snap)"

definition archive_name :: "HostSnapshotEntry \<Rightarrow> string" where
  "archive_name snap = HSE_HostID snap @ ''_'' @ HSE_ID snap @ ''.json.gz''"

text \<open>The map from a host and a calendar week to the old snapshots of that week, in the order of the listing.\<close>

type_synonym hostWeekKey = "string \<times> int \<times> int"

definition host_week :: "HostSnapshotEntry \<Rightarrow> hostWeekKey" where
  "host_week snap = (HSE_HostID snap, ISOWeek (HSE_CreatedAt snap))"

definition host_weeks :: "time \<Rightarrow> HostSnapshotEntry list \<Rightarrow> (hostWeekKey \<rightharpoonup> HostSnapshotEntry list)" where
  "host_weeks cutDate snaps =
     foldl (\<lambda>m snap. if eligible cutDate snap
                     then m(host_week snap \<mapsto> (case m (host_week snap) of None \<Rightarrow> [] | Some l \<Rightarrow> l) @ [snap]) else m)
       Map.empty snaps"

text \<open>The snapshots of a week, oldest first; the last one is kept.\<close>

definition by_age :: "HostSnapshotEntry list \<Rightarrow> HostSnapshotEntry list" where
  "by_age snaps = sort_slice (\<lambda>a b. HSE_CreatedAt a < HSE_CreatedAt b) snaps"

section \<open>The dry run\<close>

text \<open>The counters and the sample list of the loops; the list stops growing at fifteen.\<close>

record dry_state =
  DS_eligible :: int
  DS_archive :: int
  DS_prune :: int
  DS_weekly :: int
  DS_bytes :: int
  DS_hosts :: "string list"
  DS_samples :: "SnapshotArchiveSummary list"

definition dry_start :: dry_state where
  "dry_start = \<lparr>DS_eligible = 0, DS_archive = 0, DS_prune = 0, DS_weekly = 0, DS_bytes = 0, DS_hosts = [], DS_samples = []\<rparr>"

definition add_sample :: "SnapshotArchiveSummary \<Rightarrow> dry_state \<Rightarrow> dry_state" where
  "add_sample s st = (if length (DS_samples st) < 15 then st\<lparr>DS_samples := DS_samples st @ [s]\<rparr> else st)"

definition summary_of :: "HostSnapshotEntry \<Rightarrow> int \<Rightarrow> string \<Rightarrow> string \<Rightarrow> SnapshotArchiveSummary" where
  "summary_of snap bytes action target =
     \<lparr>SAS_SnapshotID = HSE_ID snap, SAS_HostID = HSE_HostID snap, SAS_Hostname = HSE_Hostname snap, SAS_CapturedAt = HSE_CreatedAt snap,
      SAS_PayloadSizeBytes = bytes, SAS_Action = action, SAS_TargetLocation = target\<rparr>"

definition dry_archive :: "retention_env \<Rightarrow> time \<Rightarrow> string \<Rightarrow> dry_state \<Rightarrow> HostSnapshotEntry \<Rightarrow> dry_state" where
  "dry_archive lib cutDate coldPath st snap =
     (if eligible cutDate snap then
        add_sample (summary_of snap (payload_size lib snap) ''ARCHIVE_TO_COLD_STORAGE''
                      (path_join [coldPath, year_month (HSE_CreatedAt snap), archive_name snap]))
          (st\<lparr>DS_eligible := DS_eligible st + 1, DS_archive := DS_archive st + 1,
              DS_hosts := List.insert (HSE_HostID snap) (DS_hosts st), DS_bytes := DS_bytes st + payload_size lib snap\<rparr>)
      else st)"

definition dry_prune :: "retention_env \<Rightarrow> dry_state \<Rightarrow> HostSnapshotEntry \<Rightarrow> dry_state" where
  "dry_prune lib st snap =
     add_sample (summary_of snap (payload_size lib snap) ''PRUNE_DOWNSAMPLED'' [])
       (st\<lparr>DS_eligible := DS_eligible st + 1, DS_prune := DS_prune st + 1, DS_bytes := DS_bytes st + payload_size lib snap\<rparr>)"

definition dry_week :: "retention_env \<Rightarrow> (hostWeekKey \<rightharpoonup> HostSnapshotEntry list) \<Rightarrow> dry_state \<Rightarrow> hostWeekKey \<Rightarrow> dry_state" where
  "dry_week lib weeks st k =
     (case weeks k of
        None \<Rightarrow> st
      | Some [] \<Rightarrow> st
      | Some snaps \<Rightarrow>
          (let l = by_age snaps; checkpoint = last l
           in foldl (dry_prune lib)
                (add_sample (summary_of checkpoint (HSE_PayloadSizeBytes checkpoint) ''RETAIN_WEEKLY_CHECKPOINT'' [])
                   (st\<lparr>DS_hosts := List.insert (fst k) (DS_hosts st), DS_weekly := DS_weekly st + 1\<rparr>))
                (butlast l)))"

text \<open>\<open>ord\<close> is the order in which the snapshots are listed, \<open>word\<close> that in which the weeks are visited.\<close>

definition DryRun :: "retention_env \<Rightarrow> string list \<Rightarrow> hostWeekKey list \<Rightarrow> (nat \<Rightarrow> time) \<Rightarrow> Repository
    \<Rightarrow> SnapshotRetentionExecuteRequest \<Rightarrow> string \<Rightarrow> retention_error + SnapshotRetentionDryRun" where
  "DryRun lib ord weekord clk r req tenantID =
     (let retentionDays = retention_days req; strategy = retention_strategy req
      in if strategy \<noteq> ''archive'' \<and> strategy \<noteq> ''downsample'' then Inl (InvalidStrategy strategy)
         else
           (let cutoffDate = cutoff (clk 0) retentionDays;
                allSnapshots = ListAllSnapshotsForTenant ord r tenantID;
                st = (if strategy = ''archive'' then foldl (dry_archive lib cutoffDate (RXQ_ColdStoragePath req)) dry_start allSnapshots
                      else foldl (dry_week lib (host_weeks cutoffDate allSnapshots)) dry_start weekord);
                affectedEndpoints = sort_slice string_less (DS_hosts st)
            in Inr \<lparr>SRD_RetentionDays = retentionDays, SRD_Strategy = strategy, SRD_CutoffDate = cutoffDate,
                  SRD_TotalSnapshotsEvaluated = int (length allSnapshots), SRD_SnapshotsEligibleForAction = DS_eligible st,
                  SRD_SnapshotsToArchive = DS_archive st, SRD_SnapshotsToPrune = DS_prune st, SRD_SnapshotsWeeklyRetained = DS_weekly st,
                  SRD_EstimatedReclaimedBytes = DS_bytes st, SRD_EstimatedStorageSavedMB = of_int (DS_bytes st) / (1024 * 1024),
                  SRD_AffectedEndpointsCount = int (length affectedEndpoints), SRD_AffectedEndpoints = affectedEndpoints,
                  SRD_SampleSnapshots = DS_samples st,
                  SRD_PreservedDerivedRecordsNotice = ''ZeroAgent-Scan Architectural Invariant: drift_events and compliance_evaluations remain 100% intact and queryable for historical compliance reports.'',
                  SRD_DryRunGeneratedAt = clk 1\<rparr>))"

section \<open>The execution\<close>

record exec_state =
  XS_repo :: Repository
  XS_files :: "string \<rightharpoonup> string"
  XS_processed :: int
  XS_archived :: int
  XS_downsampled :: int
  XS_weekly :: int
  XS_bytes :: int

definition exec_start :: "Repository \<Rightarrow> (string \<rightharpoonup> string) \<Rightarrow> exec_state" where
  "exec_start r files = \<lparr>XS_repo = r, XS_files = files, XS_processed = 0, XS_archived = 0, XS_downsampled = 0, XS_weekly = 0, XS_bytes = 0\<rparr>"

definition target_dir :: "string \<Rightarrow> HostSnapshotEntry \<Rightarrow> string" where
  "target_dir coldPath snap = path_join [coldPath, year_month (HSE_CreatedAt snap)]"

definition target_file :: "string \<Rightarrow> HostSnapshotEntry \<Rightarrow> string" where
  "target_file coldPath snap = path_join [target_dir coldPath snap, archive_name snap]"

text \<open>A file that cannot be written is no error.\<close>

definition archive_one :: "retention_env \<Rightarrow> time \<Rightarrow> string \<Rightarrow> HostSnapshotEntry \<Rightarrow> exec_state \<Rightarrow> exec_state" where
  "archive_one lib now coldPath snap st =
     (let st = st\<lparr>XS_processed := XS_processed st + 1\<rparr>
      in case RV_marshal lib (HSE_Payload snap) of
           None \<Rightarrow> st
         | Some payloadBytes \<Rightarrow>
             (let rawSize = int (length payloadBytes);
                  compressedBytes = RV_gzip lib payloadBytes;
                  checksumHex = hex_encode (RV_sha256 lib compressedBytes);
                  targetFile = target_file coldPath snap;
                  files = (if RV_mkdir lib (target_dir coldPath snap) \<and> RV_write lib targetFile
                           then (XS_files st)(targetFile \<mapsto> compressedBytes) else XS_files st)
              in st\<lparr>XS_repo := fst (ArchiveSnapshotPayload (XS_repo st) (HSE_ID snap) targetFile checksumHex ''cold_storage'' now rawSize),
                    XS_files := files, XS_archived := XS_archived st + 1, XS_bytes := XS_bytes st + rawSize\<rparr>))"

text \<open>\<open>ended i\<close> tells whether the context has ended when snapshot \<open>i\<close> is reached; \<open>clk i\<close> is the clock then.\<close>

fun archive_loop :: "retention_env \<Rightarrow> (nat \<Rightarrow> bool) \<Rightarrow> (nat \<Rightarrow> time) \<Rightarrow> time \<Rightarrow> string \<Rightarrow> nat \<Rightarrow> HostSnapshotEntry list \<Rightarrow> exec_state
    \<Rightarrow> bool \<times> exec_state" where
  "archive_loop lib ended clk cutDate coldPath i [] st = (True, st)"
| "archive_loop lib ended clk cutDate coldPath i (snap # snaps) st =
     (if ended i then (False, st)
      else archive_loop lib ended clk cutDate coldPath (Suc i) snaps
             (if eligible cutDate snap then archive_one lib (clk i) coldPath snap st else st))"

definition prune_one :: "retention_env \<Rightarrow> exec_state \<Rightarrow> HostSnapshotEntry \<Rightarrow> exec_state" where
  "prune_one lib st snap =
     st\<lparr>XS_processed := XS_processed st + 1, XS_downsampled := XS_downsampled st + 1,
        XS_bytes := XS_bytes st + payload_size lib snap, XS_repo := PruneDownsampledSnapshot (XS_repo st) (HSE_ID snap)\<rparr>"

definition downsample_week :: "retention_env \<Rightarrow> (hostWeekKey \<rightharpoonup> HostSnapshotEntry list) \<Rightarrow> exec_state \<Rightarrow> hostWeekKey \<Rightarrow> exec_state" where
  "downsample_week lib weeks st k =
     (case weeks k of
        None \<Rightarrow> st
      | Some [] \<Rightarrow> st
      | Some snaps \<Rightarrow>
          (let l = by_age snaps
           in foldl (prune_one lib)
                (st\<lparr>XS_repo := fst (MarkSnapshotWeeklyRetained (XS_repo st) (HSE_ID (last l))), XS_weekly := XS_weekly st + 1\<rparr>)
                (butlast l)))"

definition retention_run :: "retention_env \<Rightarrow> string list \<Rightarrow> hostWeekKey list \<Rightarrow> (nat \<Rightarrow> bool) \<Rightarrow> (nat \<Rightarrow> time) \<Rightarrow> time \<Rightarrow> string \<Rightarrow> string
    \<Rightarrow> Repository \<Rightarrow> (string \<rightharpoonup> string) \<Rightarrow> string \<Rightarrow> bool \<times> exec_state" where
  "retention_run lib ord weekord ended aclk cutoffDate strategy coldPath r files tenantID =
     (let allSnapshots = ListAllSnapshotsForTenant ord r tenantID
      in if strategy = ''archive'' then archive_loop lib ended aclk cutoffDate coldPath 0 allSnapshots (exec_start r files)
         else (True, foldl (downsample_week lib (host_weeks cutoffDate allSnapshots)) (exec_start r files) weekord))"

text \<open>\<open>clk\<close> gives the readings around the loop, \<open>aclk\<close> those inside it. The run statistics carry Go's zero time.\<close>

definition Execute :: "retention_env \<Rightarrow> string list \<Rightarrow> hostWeekKey list \<Rightarrow> (nat \<Rightarrow> bool) \<Rightarrow> (nat \<Rightarrow> time) \<Rightarrow> (nat \<Rightarrow> time) \<Rightarrow> (time \<Rightarrow> string) \<Rightarrow> string
    \<Rightarrow> Repository \<Rightarrow> (string \<rightharpoonup> string) \<Rightarrow> SnapshotRetentionExecuteRequest \<Rightarrow> string \<Rightarrow> string \<Rightarrow> string
    \<Rightarrow> Repository \<times> (string \<rightharpoonup> string) \<times> (retention_error + SnapshotRetentionExecuteResult)" where
  "Execute lib ord weekord ended clk aclk fmt uid r files req tenantID operatorID ipAddr =
     (let executionID = ''retention-'' @ uid; retentionDays = retention_days req; strategy = retention_strategy req
      in if strategy \<noteq> ''archive'' \<and> strategy \<noteq> ''downsample'' then (r, files, Inl (InvalidStrategy strategy))
         else
           (let coldStoragePath = (if RXQ_ColdStoragePath req = [] then ''D:'' @ [CHR 0x5C] @ ''archives'' @ [CHR 0x5C] @ ''snapshots''
                                   else RXQ_ColdStoragePath req);
                cutoffDate = cutoff (clk 1) retentionDays;
                (finished, st) = retention_run lib ord weekord ended aclk cutoffDate strategy coldStoragePath r files tenantID
            in if \<not> finished then (XS_repo st, XS_files st, Inl ContextEnded)
               else
                 (let duration = quot (time_sub (clk 2) (clk 0)) Millisecond;
                      savedMB = of_int (XS_bytes st) / (1024 * 1024);
                      auditLogID = ''audit-retention-'' @ dec_int (wrap64 (clk 3));
                      r = AddAuditLog (XS_repo st)
                        \<lparr>SAL_ID = auditLogID, SAL_CorrelationID = ''corr-'' @ executionID, SAL_Timestamp = clk 4, SAL_Actor = operatorID,
                         SAL_Action = ''SNAPSHOT_RETENTION_EXECUTED'', SAL_ResourceType = ''host_snapshots_retention'',
                         SAL_ResourceID = executionID, SAL_Status = ''SUCCESS'', SAL_IPAddress = ipAddr,
                         SAL_Details = [(''execution_id'', JStr executionID), (''strategy'', JStr strategy),
                           (''retention_days'', JNum (of_int retentionDays)), (''cutoff_date'', JStr (fmt cutoffDate)),
                           (''snapshots_processed'', JNum (of_int (XS_processed st))), (''snapshots_archived'', JNum (of_int (XS_archived st))),
                           (''snapshots_downsampled'', JNum (of_int (XS_downsampled st))),
                           (''snapshots_weekly_retained'', JNum (of_int (XS_weekly st))),
                           (''reclaimed_bytes'', JNum (of_int (XS_bytes st))), (''storage_saved_mb'', JNum savedMB),
                           (''cold_storage_path'', JStr coldStoragePath), (''duration_ms'', JNum (of_int duration)),
                           (''justification'', JStr (RXQ_Justification req))]\<rparr>;
                      r = UpdateRetentionPolicyRunStats r
                        \<lparr>SRP_RetentionDays = retentionDays, SRP_Strategy = strategy, SRP_ColdStoragePath = coldStoragePath,
                         SRP_KeepWeeklyIntervalDays = 7, SRP_IsEnabled = True, SRP_LastRunAt = Some zero_time,
                         SRP_LastRunStatus = ''COMPLETED'', SRP_LastReclaimedBytes = XS_bytes st, SRP_UpdatedAt = clk 5,
                         SRP_UpdatedBy = operatorID\<rparr>
                  in (r, XS_files st,
                      Inr \<lparr>RXR_ExecutionID = executionID, RXR_Strategy = strategy, RXR_RetentionDays = retentionDays,
                        RXR_CutoffDate = cutoffDate, RXR_SnapshotsProcessed = XS_processed st, RXR_SnapshotsArchived = XS_archived st,
                        RXR_SnapshotsDownsampled = XS_downsampled st, RXR_SnapshotsWeeklyRetained = XS_weekly st,
                        RXR_ReclaimedBytes = XS_bytes st, RXR_StorageSavedMB = savedMB, RXR_ArchiveDirectory = coldStoragePath,
                        RXR_DurationMs = duration, RXR_Status = ''COMPLETED'', RXR_ExecutedAt = clk 6, RXR_ExecutedBy = operatorID,
                        RXR_AuditLogID = auditLogID\<rparr>))))"

text \<open>\<open>CompressAndHash\<close>.\<close>

definition CompressAndHash :: "retention_env \<Rightarrow> string \<Rightarrow> string \<times> string" where
  "CompressAndHash lib data = (let compressed = RV_gzip lib data in (compressed, hex_encode (RV_sha256 lib compressed)))"

end
