(* ===== verification/RetentionProps.thy ===== *)
theory RetentionProps
  imports Retention
begin

text \<open>
  Properties of snapshot retention: the dry run predicts the execution; archival keeps every payload in the file the record
  names; downsampling keeps the newest snapshot of every host and week.
\<close>

section \<open>Groups\<close>

lemma host_weeks_eq:
  "host_weeks cutDate snaps k =
     (let l = filter (\<lambda>s. eligible cutDate s \<and> host_week s = k) snaps in if l = [] then None else Some l)"
  unfolding host_weeks_def
proof (induction snaps arbitrary: k rule: rev_induct)
  case (snoc s snaps)
  then show ?case by (simp add: Let_def)
qed simp

lemma Nil_not_host_week: "host_weeks cutDate snaps k \<noteq> Some []"
  by (simp add: host_weeks_eq Let_def)

lemma case_weeks:
  "(case host_weeks cutDate snaps k of None \<Rightarrow> a | Some [] \<Rightarrow> a | Some (x # l) \<Rightarrow> f (x # l)) =
   (case host_weeks cutDate snaps k of None \<Rightarrow> a | Some l \<Rightarrow> f l)"
  using Nil_not_host_week by (auto split: option.split list.split)

section \<open>The dry run predicts the execution\<close>

definition agree :: "dry_state \<Rightarrow> exec_state \<Rightarrow> bool" where
  "agree d x \<longleftrightarrow> DS_eligible d = XS_processed x \<and> DS_archive d = XS_archived x \<and> DS_prune d = XS_downsampled x
     \<and> DS_weekly d = XS_weekly x"

lemma add_sample_fields [simp]:
  "DS_eligible (add_sample s d) = DS_eligible d" "DS_archive (add_sample s d) = DS_archive d" "DS_prune (add_sample s d) = DS_prune d"
  "DS_weekly (add_sample s d) = DS_weekly d" "DS_bytes (add_sample s d) = DS_bytes d"
  by (simp_all add: add_sample_def)

lemma agree_archive:
  assumes "\<forall>p. RV_marshal lib p \<noteq> None" "\<forall>i. \<not> ended i" "agree d x"
  shows "\<exists>x'. archive_loop lib ended clk cutDate cold i snaps x = (True, x') \<and> agree (foldl (dry_archive lib cutDate cold') d snaps) x'"
  using assms(3)
proof (induction snaps arbitrary: d x i)
  case (Cons s snaps)
  obtain b where b: "RV_marshal lib (HSE_Payload s) = Some b" using assms(1) by blast
  have "agree (dry_archive lib cutDate cold' d s) (if eligible cutDate s then archive_one lib (clk i) cold s x else x)"
    using Cons.prems by (simp add: agree_def dry_archive_def archive_one_def b Let_def)
  from Cons.IH [OF this] show ?case using assms(2) by simp
qed simp

lemma agree_prune:
  "agree d x \<and> DS_bytes d = XS_bytes x \<Longrightarrow>
   agree (foldl (dry_prune lib) d l) (foldl (prune_one lib) x l) \<and> DS_bytes (foldl (dry_prune lib) d l) = XS_bytes (foldl (prune_one lib) x l)"
proof (induction l arbitrary: d x)
  case (Cons s l)
  show ?case unfolding foldl.simps
    by (rule Cons.IH) (use Cons.prems in \<open>simp add: agree_def dry_prune_def prune_one_def\<close>)
qed simp

lemma agree_downsample:
  "agree d x \<and> DS_bytes d = XS_bytes x \<Longrightarrow>
   agree (foldl (dry_week lib weeks) d ks) (foldl (downsample_week lib weeks) x ks)
   \<and> DS_bytes (foldl (dry_week lib weeks) d ks) = XS_bytes (foldl (downsample_week lib weeks) x ks)"
proof (induction ks arbitrary: d x)
  case (Cons k ks)
  have "agree (dry_week lib weeks d k) (downsample_week lib weeks x k) \<and> DS_bytes (dry_week lib weeks d k) = XS_bytes (downsample_week lib weeks x k)"
  proof (cases "weeks k")
    case (Some l)
    then show ?thesis
    proof (cases l)
      case (Cons s l')
      then show ?thesis using Some \<open>agree d x \<and> DS_bytes d = XS_bytes x\<close>
        by (simp only: dry_week_def downsample_week_def Let_def option.case list.case)
           (intro agree_prune, simp add: agree_def)
    qed (use Some \<open>agree d x \<and> DS_bytes d = XS_bytes x\<close> in \<open>simp add: dry_week_def downsample_week_def\<close>)
  qed (use Cons.prems in \<open>simp add: dry_week_def downsample_week_def\<close>)
  from Cons.IH [OF this] show ?case by simp
qed simp



section \<open>Archival\<close>

definition archived_version :: "retention_env \<Rightarrow> time \<Rightarrow> string \<Rightarrow> string \<Rightarrow> HostSnapshotEntry \<Rightarrow> HostSnapshotEntry" where
  "archived_version lib now cold b s =
     s\<lparr>HSE_IsArchived := True, HSE_ArchivedAt := Some now, HSE_ArchiveLocation := target_file cold s,
       HSE_ArchiveChecksum := hex_encode (RV_sha256 lib (RV_gzip lib b)), HSE_ArchiveStrategy := ''cold_storage'',
       HSE_PayloadSizeBytes := int (length b), HSE_Payload := zero_payload\<rparr>"

text \<open>What the loop has done to a snapshot of its list.\<close>

definition archive_done :: "retention_env \<Rightarrow> time \<Rightarrow> string \<Rightarrow> exec_state \<Rightarrow> HostSnapshotEntry \<Rightarrow> bool" where
  "archive_done lib cutDate cold x s \<longleftrightarrow>
     (if eligible cutDate s
      then \<exists>t b. RV_marshal lib (HSE_Payload s) = Some b \<and> RP_snapshots (XS_repo x) (HSE_ID s) = Some (archived_version lib t cold b s)
             \<and> (RV_mkdir lib (target_dir cold s) \<and> RV_write lib (target_file cold s) \<longrightarrow> XS_files x (target_file cold s) = Some (RV_gzip lib b))
      else RP_snapshots (XS_repo x) (HSE_ID s) = Some s)"

lemma archive_one_repo:
  assumes "RP_snapshots (XS_repo x) (HSE_ID s) = Some s" "RV_marshal lib (HSE_Payload s) = Some b"
  shows "RP_snapshots (XS_repo (archive_one lib now cold s x)) = (RP_snapshots (XS_repo x))(HSE_ID s \<mapsto> archived_version lib now cold b s)"
    "XS_files (archive_one lib now cold s x) =
       (if RV_mkdir lib (target_dir cold s) \<and> RV_write lib (target_file cold s)
        then (XS_files x)(target_file cold s \<mapsto> RV_gzip lib b) else XS_files x)"
  using assms by (simp_all add: archive_one_def Let_def ArchiveSnapshotPayload_def archived_version_def)

lemma archive_loop_exact:
  assumes "\<forall>p. RV_marshal lib p \<noteq> None" "\<forall>i. \<not> ended i"
    and "distinct (map HSE_ID snaps)" "\<forall>s \<in> set snaps. RP_snapshots (XS_repo x) (HSE_ID s) = Some s"
    and "distinct (map (target_file cold) (filter (eligible cutDate) snaps))"
  shows "(\<forall>s \<in> set snaps. archive_done lib cutDate cold (snd (archive_loop lib ended clk cutDate cold i snaps x)) s)
     \<and> (\<forall>k. k \<notin> HSE_ID ` set snaps \<longrightarrow> RP_snapshots (XS_repo (snd (archive_loop lib ended clk cutDate cold i snaps x))) k = RP_snapshots (XS_repo x) k)
     \<and> (\<forall>f. f \<notin> target_file cold ` set (filter (eligible cutDate) snaps) \<longrightarrow> XS_files (snd (archive_loop lib ended clk cutDate cold i snaps x)) f = XS_files x f)"
  using assms(3-)
proof (induction snaps arbitrary: x i)
  case (Cons s snaps)
  obtain b where b: "RV_marshal lib (HSE_Payload s) = Some b" using assms(1) by blast
  let ?x = "if eligible cutDate s then archive_one lib (clk i) cold s x else x"
  let ?R = "\<lambda>x. snd (archive_loop lib ended clk cutDate cold (Suc i) snaps x)"
  have s: "RP_snapshots (XS_repo x) (HSE_ID s) = Some s" by (rule bspec [OF Cons.prems(2)]) simp
  note one = archive_one_repo [OF s b, of "clk i" cold]
  have own: "HSE_ID s \<notin> HSE_ID ` set snaps" using Cons.prems by simp
  have "\<forall>s' \<in> set snaps. RP_snapshots (XS_repo ?x) (HSE_ID s') = Some s'"
  proof
    fix s' assume "s' \<in> set snaps"
    then have "HSE_ID s' \<noteq> HSE_ID s" using own by (metis imageI)
    moreover have "RP_snapshots (XS_repo x) (HSE_ID s') = Some s'" by (rule bspec [OF Cons.prems(2)]) (simp add: \<open>s' \<in> set snaps\<close>)
    ultimately show "RP_snapshots (XS_repo ?x) (HSE_ID s') = Some s'" by (cases "eligible cutDate s") (simp_all add: one)
  qed
  moreover have "distinct (map HSE_ID snaps)" "distinct (map (target_file cold) (filter (eligible cutDate) snaps))"
    using Cons.prems(1,3) by (simp, simp split: if_splits)
  ultimately have ih1: "\<forall>s \<in> set snaps. archive_done lib cutDate cold (?R ?x) s"
    and ih2: "\<forall>k. k \<notin> HSE_ID ` set snaps \<longrightarrow> RP_snapshots (XS_repo (?R ?x)) k = RP_snapshots (XS_repo ?x) k"
    and ih3: "\<forall>f. f \<notin> target_file cold ` set (filter (eligible cutDate) snaps) \<longrightarrow> XS_files (?R ?x) f = XS_files ?x f"
    using Cons.IH [of ?x "Suc i"] by blast+
  have "RP_snapshots (XS_repo (?R ?x)) (HSE_ID s) = RP_snapshots (XS_repo ?x) (HSE_ID s)" using ih2 own by blast
  moreover have "XS_files (?R ?x) (target_file cold s) = XS_files ?x (target_file cold s)" if "eligible cutDate s"
    using ih3 Cons.prems(3) that by simp
  ultimately have "archive_done lib cutDate cold (?R ?x) s"
  proof (cases "eligible cutDate s")
    case True
    have "RP_snapshots (XS_repo (?R ?x)) (HSE_ID s) = Some (archived_version lib (clk i) cold b s)"
      using \<open>RP_snapshots (XS_repo (?R ?x)) (HSE_ID s) = _\<close> by (simp only: True if_True one(1) fun_upd_same)
    moreover have "XS_files (?R ?x) (target_file cold s) = XS_files (archive_one lib (clk i) cold s x) (target_file cold s)"
      using \<open>eligible cutDate s \<Longrightarrow> XS_files (?R ?x) (target_file cold s) = _\<close> True by (simp only: if_True)
    ultimately show ?thesis unfolding archive_done_def using True b one(2)
      by (intro iffD2 [OF if_P] exI [of _ "clk i"] exI [of _ b] conjI impI) simp_all
  next
    case False
    then show ?thesis unfolding archive_done_def using \<open>RP_snapshots (XS_repo (?R ?x)) (HSE_ID s) = _\<close> s by simp
  qed
  then have a: "\<forall>s' \<in> set (s # snaps). archive_done lib cutDate cold (?R ?x) s'" using ih1 by (metis set_ConsD)
  have k: "\<forall>k. k \<notin> HSE_ID ` set (s # snaps) \<longrightarrow> RP_snapshots (XS_repo (?R ?x)) k = RP_snapshots (XS_repo x) k"
    using ih2 by (cases "eligible cutDate s") (simp_all add: one(1))
  have f: "\<forall>f. f \<notin> target_file cold ` set (filter (eligible cutDate) (s # snaps)) \<longrightarrow> XS_files (?R ?x) f = XS_files x f"
    using ih3 by (cases "eligible cutDate s") (simp_all add: one(2))
  have e: "archive_loop lib ended clk cutDate cold i (s # snaps) x = archive_loop lib ended clk cutDate cold (Suc i) snaps ?x"
    using assms(2) by simp
  show ?case unfolding e by (intro conjI a k f)
qed simp

text \<open>The snapshots the listing shows are those stored, under their identifiers.\<close>

definition tenant_ok :: "string \<Rightarrow> HostSnapshotEntry \<Rightarrow> bool" where
  "tenant_ok tenantID s \<longleftrightarrow> tenantID = [] \<or> HSE_TenantID s = tenantID"

lemma listed_snapshots:
  assumes "fleet_inv r" "iterates (RP_snapshots r) ord"
  shows "set (ListAllSnapshotsForTenant ord r tenant) = {s \<in> ran (RP_snapshots r). tenant_ok tenant s}"
    "distinct (map HSE_ID (ListAllSnapshotsForTenant ord r tenant))"
proof -
  have k: "keyed HSE_ID (\<lambda>s. HSE_IsArchived s \<longrightarrow> HSE_ArchivedAt s \<noteq> None) (RP_snapshots r)" using assms(1) by (simp add: fleet_inv_def)
  show "set (ListAllSnapshotsForTenant ord r tenant) = {s \<in> ran (RP_snapshots r). tenant_ok tenant s}"
    using set_range_vals_iterates [OF assms(2)] by (auto simp: ListAllSnapshotsForTenant_def tenant_ok_def)
  show "distinct (map HSE_ID (ListAllSnapshotsForTenant ord r tenant))"
    using iterates_range_vals_keyed [OF k assms(2)] by (simp add: ListAllSnapshotsForTenant_def distinct_map_filter)
qed

lemma snapshot_id: "fleet_inv r \<Longrightarrow> s \<in> ran (RP_snapshots r) \<Longrightarrow> RP_snapshots r (HSE_ID s) = Some s"
  unfolding fleet_inv_def ran_def by (auto dest: keyedD)

lemma Execute_snapshots:
  assumes "retention_strategy req = ''archive'' \<or> retention_strategy req = ''downsample''" "RXQ_ColdStoragePath req = cold" "cold \<noteq> []"
  shows "(let e = Execute lib ord weekord ended clk aclk fmt uid r files req tenant oper ip;
             x = snd (retention_run lib ord weekord ended aclk (cutoff (clk 1) (retention_days req)) (retention_strategy req) cold r files tenant)
     in RP_snapshots (fst e) = RP_snapshots (XS_repo x) \<and> fst (snd e) = XS_files x)"
proof -
  have "\<not> (retention_strategy req \<noteq> ''archive'' \<and> retention_strategy req \<noteq> ''downsample'')" using assms(1) by (elim disjE) simp_all
  then show ?thesis using assms(2,3)
    by (simp only: Execute_def Let_def split_beta if_False simp_thms) (simp add: AddAuditLog_def UpdateRetentionPolicyRunStats_def)
qed


section \<open>Downsampling\<close>

definition week_pruned :: "(hostWeekKey \<rightharpoonup> HostSnapshotEntry list) \<Rightarrow> hostWeekKey \<Rightarrow> string set" where
  "week_pruned weeks g = (case weeks g of None \<Rightarrow> {} | Some l \<Rightarrow> HSE_ID ` set (butlast (by_age l)))"

definition week_kept :: "(hostWeekKey \<rightharpoonup> HostSnapshotEntry list) \<Rightarrow> hostWeekKey \<Rightarrow> string set" where
  "week_kept weeks g = (case weeks g of None \<Rightarrow> {} | Some l \<Rightarrow> {HSE_ID (last (by_age l))})"

lemma prune_list:
  "RP_snapshots (XS_repo (foldl (prune_one lib) x l)) i = (if i \<in> HSE_ID ` set l then None else RP_snapshots (XS_repo x) i)"
  by (induction l arbitrary: x) (auto simp: prune_one_def PruneDownsampledSnapshot_def)

definition keep :: "HostSnapshotEntry \<Rightarrow> HostSnapshotEntry" where
  "keep s = s\<lparr>HSE_IsDownsampleRetained := True\<rparr>"

lemma mark_kept:
  "RP_snapshots (fst (MarkSnapshotWeeklyRetained r i)) k = (if k = i then map_option keep (RP_snapshots r k) else RP_snapshots r k)"
  by (simp add: MarkSnapshotWeeklyRetained_def keep_def split: option.split)

lemma downsample_week_snapshots:
  assumes "weeks g \<noteq> Some []"
  shows "RP_snapshots (XS_repo (downsample_week lib weeks x g)) i =
    (if i \<in> week_pruned weeks g then None
     else if i \<in> week_kept weeks g then map_option keep (RP_snapshots (XS_repo x) i) else RP_snapshots (XS_repo x) i)"
proof (cases "weeks g")
  case (Some l)
  then obtain a l' where "l = a # l'" using assms by (cases l) auto
  then show ?thesis using Some
    by (simp add: downsample_week_def week_pruned_def week_kept_def Let_def prune_list mark_kept)
qed (simp add: downsample_week_def week_pruned_def week_kept_def)

lemma keep_idem [simp]: "keep (keep s) = keep s"
  by (simp add: keep_def)

lemma downsample_snapshots:
  assumes "\<forall>g. weeks g \<noteq> Some []"
  shows "RP_snapshots (XS_repo (foldl (downsample_week lib weeks) x gs)) i =
    (if \<exists>g \<in> set gs. i \<in> week_pruned weeks g then None
     else if \<exists>g \<in> set gs. i \<in> week_kept weeks g then map_option keep (RP_snapshots (XS_repo x) i) else RP_snapshots (XS_repo x) i)"
proof (induction gs arbitrary: x)
  case (Cons g gs)
  have i: "map_option keep (map_option keep v) = map_option keep v" for v by (cases v) simp_all
  show ?case unfolding foldl.simps Cons.IH downsample_week_snapshots [OF assms [rule_format]] by (auto simp: i)
qed simp

interpretation age_order: strict_weak_order "\<lambda>a b. HSE_CreatedAt a < HSE_CreatedAt b"
  by unfold_locales auto

lemma last_by_age:
  assumes "l \<noteq> []"
  shows "last (by_age l) \<in> set l" "\<forall>s \<in> set l. HSE_CreatedAt s \<le> HSE_CreatedAt (last (by_age l))"
    "set l = insert (last (by_age l)) (set (butlast (by_age l)))"
proof -
  let ?l = "by_age l"
  have s: "set ?l = set l" by (simp add: by_age_def)
  then have n: "?l \<noteq> []" using assms by auto
  then have b: "butlast ?l @ [last ?l] = ?l" by simp
  show "last ?l \<in> set l" using n s last_in_set by blast
  have "sorted_wrt (\<lambda>a b. \<not> HSE_CreatedAt b < HSE_CreatedAt a) (butlast ?l @ [last ?l])"
    unfolding b unfolding by_age_def by (rule age_order.sorted_sort_slice)
  then have "\<forall>s \<in> set (butlast ?l). HSE_CreatedAt s \<le> HSE_CreatedAt (last ?l)" by (auto simp: sorted_wrt_append)
  moreover have "set ?l = insert (last ?l) (set (butlast ?l))"
    using arg_cong [OF b, of set] by simp
  ultimately show "\<forall>s \<in> set l. HSE_CreatedAt s \<le> HSE_CreatedAt (last ?l)" "set l = insert (last ?l) (set (butlast ?l))"
    unfolding s [symmetric] by auto
qed

lemma last_not_butlast: "distinct (map f xs) \<Longrightarrow> xs \<noteq> [] \<Longrightarrow> f (last xs) \<notin> f ` set (butlast xs)"
  by (induction xs rule: rev_induct) auto

lemma week_set:
  assumes "fleet_inv r" "iterates (RP_snapshots r) ord" "host_weeks cutDate (ListAllSnapshotsForTenant ord r tenant) g = Some l"
  shows "set l = {s \<in> ran (RP_snapshots r). tenant_ok tenant s \<and> eligible cutDate s \<and> host_week s = g}"
    "distinct (map HSE_ID (by_age l))" "l \<noteq> []"
proof -
  have l: "l = filter (\<lambda>s. eligible cutDate s \<and> host_week s = g) (ListAllSnapshotsForTenant ord r tenant)" "l \<noteq> []"
    using assms(3) by (auto simp: host_weeks_eq Let_def split: if_splits)
  then show "set l = {s \<in> ran (RP_snapshots r). tenant_ok tenant s \<and> eligible cutDate s \<and> host_week s = g}" "l \<noteq> []"
    using listed_snapshots(1) [OF assms(1,2), of tenant] by auto
  have "distinct (map HSE_ID l)" unfolding l(1) using listed_snapshots(2) [OF assms(1,2), of tenant] by (rule distinct_map_filter)
  moreover have "mset (map HSE_ID (by_age l)) = mset (map HSE_ID l)" by (simp add: by_age_def)
  ultimately show "distinct (map HSE_ID (by_age l))" using mset_eq_imp_distinct_iff by blast
qed

lemma week_member:
  assumes "fleet_inv r" "iterates (RP_snapshots r) ord" "host_weeks cutDate (ListAllSnapshotsForTenant ord r tenant) g = Some l"
    and "s \<in> ran (RP_snapshots r)" "HSE_ID s \<in> HSE_ID ` set l"
  shows "s \<in> set l"
proof -
  from assms(5) obtain s' where s': "s' \<in> set l" "HSE_ID s' = HSE_ID s" by auto
  then have "s' \<in> ran (RP_snapshots r)" using week_set(1) [OF assms(1-3)] by blast
  then have "s' = s" using snapshot_id [OF assms(1)] assms(4) s'(2) by (metis option.inject)
  with s' show ?thesis by simp
qed

lemma week_ids:
  assumes "weeks g = Some l" "l \<noteq> []"
  shows "week_pruned weeks g \<union> week_kept weeks g = HSE_ID ` set l"
  unfolding week_pruned_def week_kept_def assms(1) option.case last_by_age(3) [OF assms(2)] by blast

text \<open>Downsampling keeps, of the old and not archived snapshots of the tenant, exactly the newest of each host and calendar
  week, which it marks; the others of the week are gone, and no other snapshot changes.\<close>

theorem downsampling_keeps_newest:
  assumes inv: "fleet_inv r" and it: "iterates (RP_snapshots r) ord"
    and w: "iterates (host_weeks cutDate (ListAllSnapshotsForTenant ord r tenant)) weekord"
    and a: "retention_strategy req = ''downsample''" and c: "RXQ_ColdStoragePath req = cold" "cold \<noteq> []"
    and cd: "cutDate = cutoff (clk 1) (retention_days req)"
    and s: "RP_snapshots r k = Some s" and "r' = fst (Execute lib ord weekord ended clk aclk fmt uid r files req tenant oper ip)"
  shows "(let G = {s' \<in> ran (RP_snapshots r). tenant_ok tenant s' \<and> eligible cutDate s' \<and> host_week s' = host_week s}
     in if s \<in> G
        then \<exists>c \<in> G. (\<forall>s' \<in> G. HSE_CreatedAt s' \<le> HSE_CreatedAt c) \<and> RP_snapshots r' (HSE_ID c) = Some (c\<lparr>HSE_IsDownsampleRetained := True\<rparr>)
               \<and> (\<forall>s' \<in> G. s' \<noteq> c \<longrightarrow> RP_snapshots r' (HSE_ID s') = None)
        else RP_snapshots r' k = Some s)"
proof -
  let ?snaps = "ListAllSnapshotsForTenant ord r tenant"
  let ?weeks = "host_weeks cutDate ?snaps"
  let ?G = "{s' \<in> ran (RP_snapshots r). tenant_ok tenant s' \<and> eligible cutDate s' \<and> host_week s' = host_week s}"
  note ls = listed_snapshots [OF inv it, of tenant]
  have id: "HSE_ID s = k" "s \<in> ran (RP_snapshots r)" using inv s unfolding fleet_inv_def by (auto simp: ran_def dest: keyedD)
  have e: "RP_snapshots r' i =
    (if \<exists>g \<in> set weekord. i \<in> week_pruned ?weeks g then None
     else if \<exists>g \<in> set weekord. i \<in> week_kept ?weeks g then map_option keep (RP_snapshots r i) else RP_snapshots r i)" for i
    using Execute_snapshots [OF _ c, of lib ord weekord ended clk aclk fmt uid r files tenant oper ip] a
      downsample_snapshots [of ?weeks lib "exec_start r files" weekord i] Nil_not_host_week
    by (simp add: retention_run_def Let_def cd assms(9) exec_start_def)
  have ids: "week_pruned ?weeks g \<union> week_kept ?weeks g = (case ?weeks g of None \<Rightarrow> {} | Some l \<Rightarrow> HSE_ID ` set l)" for g
    using week_ids [of ?weeks g] Nil_not_host_week [of cutDate ?snaps g]
    by (cases "?weeks g") (simp_all add: week_pruned_def week_kept_def)
  have only: "s' \<in> ran (RP_snapshots r) \<and> tenant_ok tenant s' \<and> eligible cutDate s' \<and> host_week s' = g"
    if "s' \<in> ran (RP_snapshots r)" "HSE_ID s' \<in> week_pruned ?weeks g \<union> week_kept ?weeks g" for s' g
  proof (cases "?weeks g")
    case (Some l)
    then have "HSE_ID s' \<in> HSE_ID ` set l" using that(2) unfolding ids by (simp only: option.case)
    from week_member [OF inv it Some that(1) this] show ?thesis unfolding week_set(1) [OF inv it Some] by (rule CollectD)
  next
    case None
    then show ?thesis using that(2) unfolding ids by (simp only: option.case empty_iff)
  qed
  show ?thesis
  proof (cases "s \<in> ?G")
    case True
    then have "s \<in> set ?snaps" "eligible cutDate s" using ls(1) by blast+
    then have "?weeks (host_week s) \<noteq> None" by (auto simp: host_weeks_eq Let_def filter_empty_conv)
    then obtain l where l: "?weeks (host_week s) = Some l" by blast
    note ws = week_set [OF inv it l]
    define c where "c = last (by_age l)"
    have c: "c \<in> ?G" "\<forall>s' \<in> ?G. HSE_CreatedAt s' \<le> HSE_CreatedAt c" "?G = insert c (set (butlast (by_age l)))"
      using last_by_age [OF ws(3)] unfolding ws(1) c_def by blast+
    have g: "host_week s \<in> set weekord" using w l by (auto simp: iterates_def)
    have "HSE_ID c \<notin> HSE_ID ` set (butlast (by_age l))"
      unfolding c_def by (rule last_not_butlast [OF ws(2)]) (use ws(3) in \<open>simp add: by_age_def flip: length_greater_0_conv\<close>)
    then have "HSE_ID c \<notin> week_pruned ?weeks (host_week s)" using l by (simp add: week_pruned_def)
    moreover have "\<forall>g'. g' \<noteq> host_week s \<longrightarrow> HSE_ID c \<notin> week_pruned ?weeks g'"
      using only [of c] c(1) by blast
    ultimately have np: "\<not> (\<exists>g \<in> set weekord. HSE_ID c \<in> week_pruned ?weeks g)" by metis
    have "HSE_ID c \<in> week_kept ?weeks (host_week s)" using l by (simp add: week_kept_def c_def)
    then have "RP_snapshots r' (HSE_ID c) = map_option keep (RP_snapshots r (HSE_ID c))" unfolding e using np g by auto
    moreover have "RP_snapshots r (HSE_ID c) = Some c" using snapshot_id [OF inv] c(1) by blast
    ultimately have k: "RP_snapshots r' (HSE_ID c) = Some (c\<lparr>HSE_IsDownsampleRetained := True\<rparr>)" by (simp add: keep_def)
    have "RP_snapshots r' (HSE_ID s') = None" if "s' \<in> ?G" "s' \<noteq> c" for s'
    proof -
      have "s' \<in> set (butlast (by_age l))" using that c(3) by blast
      then have "HSE_ID s' \<in> week_pruned ?weeks (host_week s)" using l by (simp add: week_pruned_def)
      then show ?thesis unfolding e using g by auto
    qed
    then show ?thesis unfolding Let_def using True c(1,2) k by auto
  next
    case False
    then have "\<not> (\<exists>g. k \<in> week_pruned ?weeks g \<union> week_kept ?weeks g)" using only [of s] id by blast
    then have "RP_snapshots r' k = Some s" unfolding e using s by auto
    then show ?thesis unfolding Let_def if_not_P [OF False] .
  qed
qed

section \<open>Instances\<close>

text \<open>The seeded repository of the fifth day of 1970, with files that can be written.\<close>

definition plain_env :: retention_env where
  "plain_env = \<lparr>RV_marshal = \<lambda>_. Some ''p'', RV_gzip = id, RV_sha256 = id, RV_mkdir = \<lambda>_. True, RV_write = \<lambda>_. True\<rparr>"

definition fifth_day :: time where
  "fifth_day = 345600000000000"

definition seeded :: Repository where
  "seeded = NewRepository (\<lambda>_. ''u'') (\<lambda>_. fifth_day) (\<lambda>_. [])"

definition request_of :: "int \<Rightarrow> string \<Rightarrow> SnapshotRetentionExecuteRequest" where
  "request_of days strategy =
     \<lparr>RXQ_RetentionDays = days, RXQ_Strategy = strategy, RXQ_ColdStoragePath = ''c'', RXQ_DryRun = False, RXQ_Justification = []\<rparr>"

definition seeded_ids :: "string list" where
  "seeded_ids = [''snap-recent-01'', ''snap-historical-100d'', ''snap-historical-105d'', ''snap-historical-120d'']"

lemma fleet_inv_seeded: "fleet_inv seeded"
  unfolding seeded_def by (rule fleet_inv_NewRepository)

lemma seeded_snapshots:
  "RP_snapshots seeded = [''snap-recent-01'' \<mapsto> seed_snapshot_recent fifth_day, ''snap-historical-100d'' \<mapsto> seed_snapshot_100d fifth_day,
      ''snap-historical-105d'' \<mapsto> seed_snapshot_105d fifth_day, ''snap-historical-120d'' \<mapsto> seed_snapshot_120d fifth_day]"
  by (simp add: seeded_def NewRepository_def seedInitialData_def)

lemma iterates_seeded: "iterates (RP_snapshots seeded) seeded_ids"
  unfolding seeded_snapshots seeded_ids_def by (auto simp: iterates_def)

lemma seeded_list:
  "ListAllSnapshotsForTenant seeded_ids seeded [] =
     [seed_snapshot_recent fifth_day, seed_snapshot_100d fifth_day, seed_snapshot_105d fifth_day, seed_snapshot_120d fifth_day]"
  by (simp add: ListAllSnapshotsForTenant_def seeded_ids_def seeded_snapshots)

lemma seeded_old:
  "HSE_CreatedAt (seed_snapshot_recent fifth_day) = - 86400000000000" "HSE_CreatedAt (seed_snapshot_100d fifth_day) = - 8294400000000000"
  "HSE_CreatedAt (seed_snapshot_105d fifth_day) = - 8726400000000000" "HSE_CreatedAt (seed_snapshot_120d fifth_day) = - 10022400000000000"
  by (simp_all add: seed_snapshot_recent_def seed_snapshot_100d_def seed_snapshot_105d_def seed_snapshot_120d_def fifth_day_def Hour_def)

lemma plain_env_ok:
  "\<forall>p. RV_marshal plain_env p \<noteq> None" "\<forall>f. RV_mkdir plain_env f \<and> RV_write plain_env f"
  by (simp_all add: plain_env_def)

lemma request_of_path: "RXQ_ColdStoragePath (request_of days strategy) = ''c''"
  by (simp add: request_of_def)


text \<open>Of the two old snapshots of one host, taken on a Monday and on the Saturday after, the later one stays.\<close>

lemma dom_host_weeks: "dom (host_weeks cutDate snaps) = host_week ` set (filter (eligible cutDate) snaps)"
proof (rule set_eqI)
  fix g
  show "g \<in> dom (host_weeks cutDate snaps) \<longleftrightarrow> g \<in> host_week ` set (filter (eligible cutDate) snaps)"
    unfolding domIff host_weeks_eq Let_def image_iff by (simp add: filter_empty_conv) blast
qed

lemma seeded_weeks:
  "iterates (host_weeks (cutoff fifth_day (retention_days (request_of 90 ''downsample''))) (ListAllSnapshotsForTenant seeded_ids seeded []))
     [(''host-ws22-dc-01'', 1969, 39), (''host-w11-fin-02'', 1969, 36)]"
proof -
  have c: "cutoff fifth_day (retention_days (request_of 90 ''downsample'')) = - 7430400000000000"
    by (simp add: cutoff_def fifth_day_def retention_days_def request_of_def Hour_def)
  have w: "ISOWeek (- 8294400000000000) = (1969, 39)" "ISOWeek (- 8726400000000000) = (1969, 39)" "ISOWeek (- 10022400000000000) = (1969, 36)"
    by code_simp+
  have h: "HSE_HostID (seed_snapshot_100d fifth_day) = ''host-ws22-dc-01''" "HSE_HostID (seed_snapshot_105d fifth_day) = ''host-ws22-dc-01''"
    "HSE_HostID (seed_snapshot_120d fifth_day) = ''host-w11-fin-02''"
    by (simp_all add: seed_snapshot_100d_def seed_snapshot_105d_def seed_snapshot_120d_def)
  have d: "host_week ` set (filter (eligible (- 7430400000000000)) (ListAllSnapshotsForTenant seeded_ids seeded []))
      = {(''host-ws22-dc-01'', 1969, 39), (''host-w11-fin-02'', 1969, 36)}"
    by (simp add: seeded_list eligible_def seeded_old host_week_def w h)
  show ?thesis unfolding c iterates_def dom_host_weeks d by simp
qed

text \<open>A concrete instance.\<close>

theorem downsampling_keeps_newest_witness:
  "\<exists>c. RP_snapshots (fst (Execute plain_env seeded_ids [(''host-ws22-dc-01'', 1969, 39), (''host-w11-fin-02'', 1969, 36)] (\<lambda>_. False) (\<lambda>_. fifth_day) (\<lambda>_. fifth_day)
        (\<lambda>_. []) ''x'' seeded Map.empty (request_of 90 ''downsample'') [] ''op'' [])) (HSE_ID c) = Some (c\<lparr>HSE_IsDownsampleRetained := True\<rparr>)"
proof -
  have s: "retention_strategy (request_of 90 ''downsample'') = ''downsample''" by code_simp
  have k: "RP_snapshots seeded ''snap-historical-105d'' = Some (seed_snapshot_105d fifth_day)" by (simp add: seeded_snapshots)
  have "eligible (cutoff fifth_day (retention_days (request_of 90 ''downsample''))) (seed_snapshot_105d fifth_day)"
    unfolding eligible_def seeded_old by (simp add: cutoff_def fifth_day_def retention_days_def request_of_def Hour_def)
  moreover from k have "seed_snapshot_105d fifth_day \<in> ran (RP_snapshots seeded)" by (rule ranI)
  ultimately show ?thesis
    using downsampling_keeps_newest [OF fleet_inv_seeded iterates_seeded seeded_weeks s request_of_path _ refl k refl,
        of plain_env "\<lambda>_. False" "\<lambda>_. fifth_day" "\<lambda>_. []" "''x''" Map.empty "''op''" "[]"]
    unfolding Let_def by (auto simp: tenant_ok_def)
qed

section \<open>What modelling showed\<close>

text \<open>When the file cannot be written the payload is cleared all the same.\<close>

lemma unwritable_archive_clears_payload:
  assumes "RP_snapshots (XS_repo x) (HSE_ID s) = Some s" "RV_marshal lib (HSE_Payload s) = Some b" "\<not> RV_write lib (target_file cold s)"
  shows "XS_files (archive_one lib now cold s x) = XS_files x
    \<and> (\<exists>s'. RP_snapshots (XS_repo (archive_one lib now cold s x)) (HSE_ID s) = Some s' \<and> HSE_Payload s' = zero_payload)"
  using assms(3) by (simp add: archive_one_repo [OF assms(1,2)] archived_version_def)

text \<open>An archival that the end of the context interrupts has archived what it had reached and leaves no audit entry.\<close>

lemma interrupted_archival_unaudited:
  assumes "archive_loop lib ended aclk (cutoff (clk 1) (retention_days req)) cold 0 (ListAllSnapshotsForTenant ord r tenant) (exec_start r files) = (False, x)"
    and "retention_strategy req = ''archive''" "RXQ_ColdStoragePath req = cold" "cold \<noteq> []"
  shows "Execute lib ord weekord ended clk aclk fmt uid r files req tenant oper ip = (XS_repo x, XS_files x, Inl ContextEnded)"
  unfolding Execute_def retention_run_def Let_def assms(2,3) using assms(1,4) by simp

text \<open>The policy shows Go's zero time as the time of its last run.\<close>

lemma last_run_at_zero:
  assumes "snd (snd (Execute lib ord weekord ended clk aclk fmt uid r files req tenant oper ip)) = Inr x"
  shows "SRP_LastRunAt (RP_retentionPolicy (fst (Execute lib ord weekord ended clk aclk fmt uid r files req tenant oper ip))) = Some zero_time"
  using assms by (auto simp: Execute_def Let_def split_beta UpdateRetentionPolicyRunStats_def split: if_splits)

end
