(* ===== verification/JsonLogic.thy ===== *)
theory JsonLogic
  imports Json
begin

text \<open>
  The evaluator of declarative compliance checks (\<open>compliance/jsonlogic.go\<close>): expressions and data
  are JSON values. What the library decides is in \<open>jl_lib\<close>: which member of an operator node with several members the
  loop over the Go map meets first, how strings parse as floating-point numbers (spellings of
  infinities and NaN aside), and how values other than strings print.
\<close>

record jl_lib =
  JL_pick :: "(string \<times> json) list \<Rightarrow> nat"
  JL_parse_float :: "string \<Rightarrow> rat option"
  JL_sprint :: "json \<Rightarrow> string"
  JL_format2 :: "rat \<Rightarrow> string"
  JL_marshal :: "json \<Rightarrow> string"

datatype jl_error = InvalidExpression | BadArguments string | UnsupportedOperator string | UnsupportedNode

section \<open>Values\<close>

definition isTruthy :: "json \<Rightarrow> bool" where
  "isTruthy v =
     (case v of
        JNull \<Rightarrow> False
      | JBool b \<Rightarrow> b
      | JNum n \<Rightarrow> n \<noteq> 0
      | JStr s \<Rightarrow> s \<noteq> [] \<and> s \<noteq> ''false'' \<and> s \<noteq> ''0''
      | JArr xs \<Rightarrow> xs \<noteq> []
      | JNilArr \<Rightarrow> False
      | JObj kvs \<Rightarrow> kvs \<noteq> [])"

definition toFloat :: "jl_lib \<Rightarrow> json \<Rightarrow> rat option" where
  "toFloat lib v = (case v of JNum n \<Rightarrow> Some n | JStr s \<Rightarrow> JL_parse_float lib s | _ \<Rightarrow> None)"

lemma size_json_arr: "x \<in> set xs \<Longrightarrow> size x < Suc (size_list size xs)"
  by (simp add: size_list_estimation' less_Suc_eq_le)

lemma size_json_obj: "(k, v) \<in> set kvs \<Longrightarrow> size v < Suc (size_list (size_prod (\<lambda>_. 0) size) kvs)"
proof -
  assume "(k, v) \<in> set kvs"
  then have "size v \<le> size_list (size_prod (\<lambda>_. 0) size) kvs"
    by (intro size_list_estimation' [of "(k, v)"]) simp_all
  then show ?thesis by (simp add: less_Suc_eq_le)
qed

text \<open>\<open>reflect.DeepEqual\<close> on decoded values; the keys of an object are distinct.\<close>

function deep_equal :: "json \<Rightarrow> json \<Rightarrow> bool" where
  "deep_equal a b =
     (case (a, b) of
        (JNull, JNull) \<Rightarrow> True
      | (JBool x, JBool y) \<Rightarrow> x = y
      | (JNum x, JNum y) \<Rightarrow> x = y
      | (JStr x, JStr y) \<Rightarrow> x = y
      | (JArr xs, JArr ys) \<Rightarrow> length xs = length ys \<and> (\<forall>(x, y) \<in> set (zip xs ys). deep_equal x y)
      | (JNilArr, JNilArr) \<Rightarrow> True
      | (JObj xs, JObj ys) \<Rightarrow>
          length xs = length ys
          \<and> (\<forall>(k, v) \<in> set xs. case map_of ys k of None \<Rightarrow> False | Some w \<Rightarrow> deep_equal v w)
      | _ \<Rightarrow> False)"
  by pat_completeness auto

termination
  by (relation "measure (\<lambda>(a, b). size a)")
     (auto dest!: set_zip_leftD dest: size_json_arr size_json_obj)

declare deep_equal.simps [simp del]

definition compareEqual :: "jl_lib \<Rightarrow> json \<Rightarrow> json \<Rightarrow> bool" where
  "compareEqual lib a b =
     (if a = JNull \<and> b = JNull then True
      else if a = JNull \<or> b = JNull then False
      else
        (case (toFloat lib a, toFloat lib b) of
           (Some x, Some y) \<Rightarrow> x = y
         | _ \<Rightarrow> if (a = JArr [] \<or> a = JNilArr) \<and> (b = JArr [] \<or> b = JNilArr) then True else deep_equal a b))"

definition checkIn :: "jl_lib \<Rightarrow> json \<Rightarrow> json \<Rightarrow> bool" where
  "checkIn lib target collection =
     (if collection = JNull \<or> target = JNull then False
      else
        (let targetStr = to_lower (case target of JStr s \<Rightarrow> s | v \<Rightarrow> JL_sprint lib v)
         in case collection of
              JStr col \<Rightarrow> contains (to_lower col) targetStr
            | JArr col \<Rightarrow> list_ex (compareEqual lib target) col
            | _ \<Rightarrow> False))"

fun resolve_parts :: "json \<Rightarrow> string list \<Rightarrow> json" where
  "resolve_parts current [] = current"
| "resolve_parts current (part # parts) =
     (case current of
        JObj kvs \<Rightarrow> resolve_parts (case map_of kvs part of None \<Rightarrow> JNull | Some v \<Rightarrow> v) parts
      | JArr xs \<Rightarrow>
          (case Atoi part of
             Some idx \<Rightarrow> if 0 \<le> idx \<and> idx < int (length xs) then resolve_parts (xs ! nat idx) parts else JNull
           | None \<Rightarrow> JNull)
      | _ \<Rightarrow> JNull)"

definition resolveVar :: "json \<Rightarrow> string \<Rightarrow> json" where
  "resolveVar data path = (if path = [] then data else resolve_parts data (split_on CHR ''.'' path))"

section \<open>Expressions\<close>

text \<open>The path of a \<open>var\<close> node.\<close>

definition var_path :: "json \<Rightarrow> string" where
  "var_path args = (case args of JStr s \<Rightarrow> s | JArr (JStr s # _) \<Rightarrow> s | _ \<Rightarrow> [])"

definition ordering :: "string \<Rightarrow> (rat \<Rightarrow> rat \<Rightarrow> bool) option" where
  "ordering op =
     (if op = ''<'' then Some (\<lambda>a b. a < b) else if op = ''<='' then Some (\<lambda>a b. a \<le> b)
      else if op = ''>'' then Some (\<lambda>a b. a > b) else if op = ''>='' then Some (\<lambda>a b. a \<ge> b) else None)"

definition compareNumeric :: "jl_lib \<Rightarrow> (rat \<Rightarrow> rat \<Rightarrow> bool) \<Rightarrow> json \<Rightarrow> json \<Rightarrow> json" where
  "compareNumeric lib cmp left right =
     (case (toFloat lib left, toFloat lib right) of
        (Some a, Some b) \<Rightarrow> JBool (cmp a b)
      | _ \<Rightarrow> JBool False)"

text \<open>What an operator of two arguments computes from their values.\<close>

definition binary :: "jl_lib \<Rightarrow> string \<Rightarrow> (json \<Rightarrow> json \<Rightarrow> json) option" where
  "binary lib op =
     (if op = ''=='' \<or> op = ''==='' then Some (\<lambda>l r. JBool (compareEqual lib l r))
      else if op = ''!='' \<or> op = ''!=='' then Some (\<lambda>l r. JBool (\<not> compareEqual lib l r))
      else if op = ''in'' then Some (\<lambda>l r. JBool (checkIn lib l r))
      else map_option (compareNumeric lib) (ordering op))"

text \<open>The node the loop over the members of an operator node meets first.\<close>

definition first_member :: "jl_lib \<Rightarrow> (string \<times> json) list \<Rightarrow> string \<times> json" where
  "first_member lib kvs = kvs ! (JL_pick lib kvs mod length kvs)"

lemma first_member_in: "kvs \<noteq> [] \<Longrightarrow> first_member lib kvs \<in> set kvs"
  by (simp add: first_member_def)

lemma size_first_member: "kvs \<noteq> [] \<Longrightarrow> size (snd (first_member lib kvs)) < Suc (size_list (size_prod (\<lambda>_. 0) size) kvs)"
  using size_json_obj first_member_in by (metis prod.collapse)

function evalNode :: "jl_lib \<Rightarrow> json \<Rightarrow> json \<Rightarrow> jl_error + json"
  and evalList :: "jl_lib \<Rightarrow> json \<Rightarrow> json list \<Rightarrow> jl_error + json list"
  and evalAnd :: "jl_lib \<Rightarrow> json \<Rightarrow> json list \<Rightarrow> jl_error + json"
  and evalOr :: "jl_lib \<Rightarrow> json \<Rightarrow> json list \<Rightarrow> jl_error + json"
  and applyOperator :: "jl_lib \<Rightarrow> json \<Rightarrow> string \<Rightarrow> json \<Rightarrow> jl_error + json" where
  "evalNode lib data node =
     (case node of
        JArr xs \<Rightarrow>
          (case evalList lib data xs of
             Inl e \<Rightarrow> Inl e
           | Inr vs \<Rightarrow> Inr (if vs = [] then JNilArr else JArr vs))
      | JObj kvs \<Rightarrow>
          if kvs = [] then Inl UnsupportedNode
          else applyOperator lib data (fst (first_member lib kvs)) (snd (first_member lib kvs))
      | v \<Rightarrow> Inr v)"
| "evalList lib data [] = Inr []"
| "evalList lib data (x # xs) =
     (case evalNode lib data x of
        Inl e \<Rightarrow> Inl e
      | Inr v \<Rightarrow> (case evalList lib data xs of Inl e \<Rightarrow> Inl e | Inr vs \<Rightarrow> Inr (v # vs)))"
| "evalAnd lib data [] = Inr (JBool True)"
| "evalAnd lib data (x # xs) =
     (case evalNode lib data x of
        Inl e \<Rightarrow> Inl e
      | Inr v \<Rightarrow> if \<not> isTruthy v then Inr (JBool False) else evalAnd lib data xs)"
| "evalOr lib data [] = Inr (JBool False)"
| "evalOr lib data (x # xs) =
     (case evalNode lib data x of
        Inl e \<Rightarrow> Inl e
      | Inr v \<Rightarrow> if isTruthy v then Inr (JBool True) else evalOr lib data xs)"
| "applyOperator lib data op args =
     (if op = ''var'' then Inr (resolveVar data (var_path args))
      else if binary lib op \<noteq> None then
        (case args of
           JArr (l # r # _) \<Rightarrow>
             (case evalNode lib data l of
                Inl e \<Rightarrow> Inl e
              | Inr left \<Rightarrow>
                  (case evalNode lib data r of
                     Inl e \<Rightarrow> Inl e
                   | Inr right \<Rightarrow> Inr ((the (binary lib op)) left right)))
         | _ \<Rightarrow> Inl (BadArguments op))
      else if op = ''and'' then (case args of JArr xs \<Rightarrow> evalAnd lib data xs | JNilArr \<Rightarrow> evalAnd lib data [] | _ \<Rightarrow> Inl (BadArguments op))
      else if op = ''or'' then (case args of JArr xs \<Rightarrow> evalOr lib data xs | JNilArr \<Rightarrow> evalOr lib data [] | _ \<Rightarrow> Inl (BadArguments op))
      else if op = ''!'' \<or> op = ''not'' then
        (case args of
           JArr (x # _) \<Rightarrow> map_sum id (\<lambda>v. JBool (\<not> isTruthy v)) (evalNode lib data x)
         | v \<Rightarrow> map_sum id (\<lambda>v. JBool (\<not> isTruthy v)) (evalNode lib data v))
      else Inl (UnsupportedOperator op))"
  by pat_completeness auto

termination
proof (relation "measure (\<lambda>x. case x of
    Inl (Inl (lib, data, node)) \<Rightarrow> 2 * size node
  | Inl (Inr (lib, data, xs)) \<Rightarrow> 2 * size_list size xs
  | Inr (Inl (lib, data, xs)) \<Rightarrow> 2 * size_list size xs
  | Inr (Inr (Inl (lib, data, xs))) \<Rightarrow> 2 * size_list size xs
  | Inr (Inr (Inr (lib, data, op, args))) \<Rightarrow> 2 * size args + 1)", goal_cases)
  case (3 lib data node kvs)
  then show ?case using size_first_member [of kvs lib] by (simp add: case_prod_beta)
qed (auto split: if_splits)

declare evalNode.simps [simp del] applyOperator.simps [simp del]

lemma evalNode_simps [simp]:
  "evalNode lib data JNull = Inr JNull" "evalNode lib data (JBool b) = Inr (JBool b)"
  "evalNode lib data (JNum n) = Inr (JNum n)" "evalNode lib data (JStr s) = Inr (JStr s)"
  "evalNode lib data JNilArr = Inr JNilArr" "evalNode lib data (JObj []) = Inl UnsupportedNode"
  "evalNode lib data (JArr xs) =
     (case evalList lib data xs of Inl e \<Rightarrow> Inl e | Inr vs \<Rightarrow> Inr (if vs = [] then JNilArr else JArr vs))"
  "evalNode lib data (JObj [(op, args)]) = applyOperator lib data op args"
  by (simp_all add: evalNode.simps first_member_def)

section \<open>The connectives\<close>

text \<open>An operator node of one member.\<close>

definition opn :: "string \<Rightarrow> json \<Rightarrow> json" where
  "opn op args = JObj [(op, args)]"

text \<open>The value of an expression is defined and true.\<close>

definition holds :: "jl_lib \<Rightarrow> json \<Rightarrow> json \<Rightarrow> bool" where
  "holds lib data x = (case evalNode lib data x of Inl _ \<Rightarrow> False | Inr v \<Rightarrow> isTruthy v)"

lemma applyOperator_simps [simp]:
  "applyOperator lib data ''and'' (JArr xs) = evalAnd lib data xs"
  "applyOperator lib data ''or'' (JArr xs) = evalOr lib data xs"
  "applyOperator lib data ''!'' (JArr (x # xs)) = map_sum id (\<lambda>v. JBool (\<not> isTruthy v)) (evalNode lib data x)"
  by (simp_all add: applyOperator.simps binary_def ordering_def)

lemma isTruthy_bool [simp]: "isTruthy (JBool b) = b"
  by (simp add: isTruthy_def)

lemma evalAnd_holds: "evalAnd lib data xs = Inr (JBool True) \<longleftrightarrow> list_all (holds lib data) xs"
  by (induction xs) (auto simp: holds_def split: sum.splits)

lemma evalOr_nots:
  "evalOr lib data (map (\<lambda>x. opn ''!'' (JArr [x])) xs) = map_sum id (\<lambda>v. JBool (\<not> isTruthy v)) (evalAnd lib data xs)"
  by (induction xs) (auto simp: opn_def split: sum.splits)

lemma evalAnd_false_prefix:
  "evalAnd lib data xs = Inr (JBool False) \<longleftrightarrow>
     (\<exists>ys x zs. xs = ys @ x # zs \<and> list_all (holds lib data) ys
        \<and> (case evalNode lib data x of Inl _ \<Rightarrow> False | Inr v \<Rightarrow> \<not> isTruthy v))" (is "?l xs \<longleftrightarrow> ?r xs")
proof
  show "?l xs \<Longrightarrow> ?r xs"
  proof (induction xs)
    case (Cons x xs)
    then obtain v where v: "evalNode lib data x = Inr v" by (auto split: sum.splits)
    show ?case
    proof (cases "isTruthy v")
      case True
      then obtain ys y zs where "xs = ys @ y # zs" "list_all (holds lib data) ys"
        "case evalNode lib data y of Inl _ \<Rightarrow> False | Inr v \<Rightarrow> \<not> isTruthy v"
        using Cons v by auto
      then show ?thesis using v True
        by (intro exI [of _ "x # ys"] exI [of _ y] exI [of _ zs]) (simp add: holds_def [of lib data x])
    next
      case False
      then show ?thesis using v by (intro exI [of _ "[]"]) simp
    qed
  qed simp
next
  assume "?r xs"
  then obtain ys x zs where x: "xs = ys @ x # zs" "list_all (holds lib data) ys"
    "case evalNode lib data x of Inl _ \<Rightarrow> False | Inr v \<Rightarrow> \<not> isTruthy v" by blast
  have "evalAnd lib data (ys @ x # zs) = Inr (JBool False)"
    using x(2) by (induction ys) (use x(3) in \<open>auto simp: holds_def split: sum.splits\<close>)
  then show "?l xs" by (simp add: x(1))
qed

section \<open>Theorems\<close>

text \<open>C23. The connectives of the rule language: a conjunction is true exactly when every operand is
  defined and true, and false exactly when an operand is false and all before it are true (what comes
  later, errors included, does not matter); and negating a conjunction is the disjunction of the
  negated operands, errors included.\<close>

theorem jsonlogic_connectives:
  "(evalNode lib data (opn ''and'' (JArr xs)) = Inr (JBool True) \<longleftrightarrow> list_all (holds lib data) xs)
   \<and> (evalNode lib data (opn ''and'' (JArr xs)) = Inr (JBool False) \<longleftrightarrow>
        (\<exists>ys x zs. xs = ys @ x # zs \<and> list_all (holds lib data) ys
           \<and> (case evalNode lib data x of Inl _ \<Rightarrow> False | Inr v \<Rightarrow> \<not> isTruthy v)))
   \<and> evalNode lib data (opn ''!'' (JArr [opn ''and'' (JArr xs)]))
      = evalNode lib data (opn ''or'' (JArr (map (\<lambda>x. opn ''!'' (JArr [x])) xs)))"
  by (simp add: opn_def evalAnd_holds evalAnd_false_prefix evalOr_nots [unfolded opn_def])

end
