(* ===== verification/SnapshotJson.thy ===== *)
theory SnapshotJson
  imports Snapshot Json
begin

text \<open>
  The host snapshot as the compliance engine sees it: the structure encoded to JSON by its field
  tags (\<open>models/snapshot.go\<close>) and decoded again into maps. A pointer field with \<open>omitempty\<close> is
  missing when nil. An empty slice is \<open>[]\<close>, or \<open>null\<close> when it is a nil slice, which the records do
  not tell: \<open>nilp\<close> says of which fields the empty slice is nil.
\<close>

definition member :: "string \<Rightarrow> json \<Rightarrow> (string \<times> json) list" where
  "member k v = [(k, v)]"

definition opt_member :: "string \<Rightarrow> ('a \<Rightarrow> json) \<Rightarrow> 'a option \<Rightarrow> (string \<times> json) list" where
  "opt_member k f p = (case p of None \<Rightarrow> [] | Some v \<Rightarrow> [(k, f v)])"

definition list_member :: "(string \<Rightarrow> bool) \<Rightarrow> string \<Rightarrow> ('a \<Rightarrow> json) \<Rightarrow> 'a list \<Rightarrow> (string \<times> json) list" where
  "list_member nilp k f xs = [(k, if xs = [] \<and> nilp k then JNull else JArr (map f xs))]"

definition list_member_omit :: "string \<Rightarrow> ('a \<Rightarrow> json) \<Rightarrow> 'a list \<Rightarrow> (string \<times> json) list" where
  "list_member_omit k f xs = (if xs = [] then [] else [(k, JArr (map f xs))])"

definition SnapshotAuditMetadata_json :: "(string \<Rightarrow> bool) \<Rightarrow> SnapshotAuditMetadata \<Rightarrow> json" where
  "SnapshotAuditMetadata_json nilp s = JObj (concat
     [member ''engine_version'' (JStr (SAM_EngineVersion s)),
      member ''timestamp_utc'' (JStr (SAM_TimestampUTC s)),
      member ''scan_protocol'' (JStr (SAM_ScanProtocol s)),
      member ''target_host'' (JStr (SAM_TargetHost s))])"

definition SnapshotSystemIdentity_json :: "(string \<Rightarrow> bool) \<Rightarrow> SnapshotSystemIdentity \<Rightarrow> json" where
  "SnapshotSystemIdentity_json nilp s = JObj (concat
     [member ''hostname'' (JStr (SSI_Hostname s)),
      opt_member ''domain'' JStr (SSI_Domain s),
      member ''manufacturer'' (JStr (SSI_Manufacturer s)),
      member ''model'' (JStr (SSI_Model s)),
      opt_member ''system_type'' JStr (SSI_SystemType s),
      member ''chassis_type'' (JStr (SSI_ChassisType s)),
      member ''os_name'' (JStr (SSI_OSName s)),
      member ''os_version'' (JStr (SSI_OSVersion s)),
      member ''os_build'' (JStr (SSI_OSBuild s)),
      opt_member ''os_architecture'' JStr (SSI_OSArchitecture s),
      opt_member ''serial_number'' JStr (SSI_SerialNumber s),
      opt_member ''install_date'' JStr (SSI_InstallDate s),
      opt_member ''last_boot_time'' JStr (SSI_LastBootTime s)])"

definition SnapshotFirmwareBios_json :: "(string \<Rightarrow> bool) \<Rightarrow> SnapshotFirmwareBios \<Rightarrow> json" where
  "SnapshotFirmwareBios_json nilp s = JObj (concat
     [opt_member ''motherboard_serial'' JStr (SFB_MotherboardSerial s),
      opt_member ''motherboard_manufacturer'' JStr (SFB_MotherboardManufacturer s),
      opt_member ''motherboard_product'' JStr (SFB_MotherboardProduct s),
      member ''vendor'' (JStr (SFB_Vendor s)),
      member ''version'' (JStr (SFB_Version s)),
      opt_member ''release_date'' JStr (SFB_ReleaseDate s),
      opt_member ''smbios_version'' JStr (SFB_SMBIOSVersion s),
      opt_member ''smbios_guid'' JStr (SFB_SMBIOSGUID s),
      member ''secure_boot_enabled'' (JBool (SFB_SecureBootEnabled s)),
      member ''uefi_mode'' (JBool (SFB_UEFIMode s))])"

definition SnapshotCPUDetail_json :: "(string \<Rightarrow> bool) \<Rightarrow> SnapshotCPUDetail \<Rightarrow> json" where
  "SnapshotCPUDetail_json nilp s = JObj (concat
     [member ''device_id'' (JStr (SCD_DeviceID s)),
      member ''name'' (JStr (SCD_Name s)),
      member ''manufacturer'' (JStr (SCD_Manufacturer s)),
      member ''cores'' (JNum (of_int (SCD_Cores s))),
      member ''threads'' (JNum (of_int (SCD_Threads s))),
      member ''max_clock_mhz'' (JNum (of_int (SCD_MaxClockMHz s))),
      member ''architecture'' (JStr (SCD_Architecture s)),
      member ''socket'' (JStr (SCD_Socket s))])"

definition SnapshotProcessor_json :: "(string \<Rightarrow> bool) \<Rightarrow> SnapshotProcessor \<Rightarrow> json" where
  "SnapshotProcessor_json nilp s = JObj (concat
     [list_member nilp ''models'' JStr (SPR_Models s),
      member ''socket_count'' (JNum (of_int (SPR_SocketCount s))),
      member ''total_cores'' (JNum (of_int (SPR_TotalCores s))),
      member ''total_threads'' (JNum (of_int (SPR_TotalThreads s))),
      opt_member ''virtualization_firmware_enabled'' JBool (SPR_VirtualizationFirmwareEnabled s),
      opt_member ''vbs_status'' JStr (SPR_VBSStatus s),
      opt_member ''hvci_status'' JStr (SPR_HVCIStatus s),
      list_member nilp ''processors'' (SnapshotCPUDetail_json nilp) (SPR_Processors s)])"

definition SnapshotDIMMEntry_json :: "(string \<Rightarrow> bool) \<Rightarrow> SnapshotDIMMEntry \<Rightarrow> json" where
  "SnapshotDIMMEntry_json nilp s = JObj (concat
     [member ''slot'' (JStr (SDI_Slot s)),
      member ''capacity_bytes'' (JNum (of_int (SDI_CapacityBytes s))),
      opt_member ''speed_mhz'' (\<lambda>i. JNum (of_int i)) (SDI_SpeedMHz s),
      opt_member ''manufacturer'' JStr (SDI_Manufacturer s),
      opt_member ''part_number'' JStr (SDI_PartNumber s),
      opt_member ''serial_number'' JStr (SDI_SerialNumber s),
      opt_member ''form_factor'' JStr (SDI_FormFactor s)])"

definition SnapshotMemory_json :: "(string \<Rightarrow> bool) \<Rightarrow> SnapshotMemory \<Rightarrow> json" where
  "SnapshotMemory_json nilp s = JObj (concat
     [member ''total_capacity_bytes'' (JNum (of_int (SME_TotalCapacityBytes s))),
      member ''slots_used'' (JNum (of_int (SME_SlotsUsed s))),
      member ''total_slots'' (JNum (of_int (SME_TotalSlots s))),
      list_member nilp ''dimms'' (SnapshotDIMMEntry_json nilp) (SME_DIMMs s)])"

definition SnapshotDiskEntry_json :: "(string \<Rightarrow> bool) \<Rightarrow> SnapshotDiskEntry \<Rightarrow> json" where
  "SnapshotDiskEntry_json nilp s = JObj (concat
     [member ''index'' (JNum (of_int (SDE_Index s))),
      member ''model'' (JStr (SDE_Model s)),
      member ''bus_type'' (JStr (SDE_BusType s)),
      member ''size_bytes'' (JNum (of_int (SDE_SizeBytes s))),
      member ''partitions'' (JNum (of_int (SDE_Partitions s))),
      member ''smart_status'' (JStr (SDE_SMARTStatus s)),
      opt_member ''serial_number'' JStr (SDE_SerialNumber s),
      opt_member ''media_type'' JStr (SDE_MediaType s)])"

definition SnapshotPartitionEntry_json :: "(string \<Rightarrow> bool) \<Rightarrow> SnapshotPartitionEntry \<Rightarrow> json" where
  "SnapshotPartitionEntry_json nilp s = JObj (concat
     [member ''name'' (JStr (SPE_Name s)),
      member ''disk_index'' (JNum (of_int (SPE_DiskIndex s))),
      member ''size_bytes'' (JNum (of_int (SPE_SizeBytes s))),
      member ''bootable'' (JBool (SPE_Bootable s)),
      member ''primary'' (JBool (SPE_Primary s))])"

definition SnapshotStorage_json :: "(string \<Rightarrow> bool) \<Rightarrow> SnapshotStorage \<Rightarrow> json" where
  "SnapshotStorage_json nilp s = JObj (concat
     [member ''disk_count'' (JNum (of_int (SST_DiskCount s))),
      list_member nilp ''disks'' (SnapshotDiskEntry_json nilp) (SST_Disks s),
      list_member nilp ''partitions'' (SnapshotPartitionEntry_json nilp) (SST_Partitions s)])"

definition SnapshotTPM_json :: "(string \<Rightarrow> bool) \<Rightarrow> SnapshotTPM \<Rightarrow> json" where
  "SnapshotTPM_json nilp s = JObj (concat
     [member ''present'' (JBool (STP_Present s)),
      opt_member ''spec_version'' JStr (STP_SpecVersion s),
      opt_member ''manufacturer_id'' JStr (STP_ManufacturerID s),
      opt_member ''manufacturer_version'' JStr (STP_ManufacturerVersion s),
      opt_member ''is_enabled'' JBool (STP_IsEnabled s),
      opt_member ''is_activated'' JBool (STP_IsActivated s),
      opt_member ''is_owned'' JBool (STP_IsOwned s),
      list_member_omit ''pcr_banks'' JStr (STP_PCRBanks s)])"

definition SnapshotNICEntry_json :: "(string \<Rightarrow> bool) \<Rightarrow> SnapshotNICEntry \<Rightarrow> json" where
  "SnapshotNICEntry_json nilp s = JObj (concat
     [member ''description'' (JStr (SNE_Description s)),
      member ''mac_address'' (JStr (SNE_MACAddress s)),
      list_member nilp ''ip_addresses'' JStr (SNE_IPAddresses s),
      list_member nilp ''ip_subnets'' JStr (SNE_IPSubnets s),
      list_member nilp ''default_gateways'' JStr (SNE_DefaultGateways s),
      list_member nilp ''dns_servers'' JStr (SNE_DNSServers s),
      member ''dhcp_enabled'' (JBool (SNE_DHCPEnabled s)),
      opt_member ''link_speed_mbps'' (\<lambda>i. JNum (of_int i)) (SNE_LinkSpeedMbps s),
      opt_member ''physical_adapter'' JBool (SNE_PhysicalAdapter s)])"

definition SnapshotNetwork_json :: "(string \<Rightarrow> bool) \<Rightarrow> SnapshotNetwork \<Rightarrow> json" where
  "SnapshotNetwork_json nilp s = JObj (concat
     [list_member nilp ''adapters'' (SnapshotNICEntry_json nilp) (SNW_Adapters s)])"

definition SnapshotVideoController_json :: "(string \<Rightarrow> bool) \<Rightarrow> SnapshotVideoController \<Rightarrow> json" where
  "SnapshotVideoController_json nilp s = JObj (concat
     [member ''name'' (JStr (SVC_Name s)),
      opt_member ''driver_version'' JStr (SVC_DriverVersion s),
      opt_member ''adapter_ram_bytes'' (\<lambda>i. JNum (of_int i)) (SVC_AdapterRAMBytes s),
      opt_member ''video_processor'' JStr (SVC_VideoProcessor s)])"

definition SnapshotUSBDevice_json :: "(string \<Rightarrow> bool) \<Rightarrow> SnapshotUSBDevice \<Rightarrow> json" where
  "SnapshotUSBDevice_json nilp s = JObj (concat
     [member ''device_id'' (JStr (SUD_DeviceID s)),
      member ''name'' (JStr (SUD_Name s)),
      opt_member ''manufacturer'' JStr (SUD_Manufacturer s),
      opt_member ''status'' JStr (SUD_Status s)])"

definition SnapshotMonitorEntry_json :: "(string \<Rightarrow> bool) \<Rightarrow> SnapshotMonitorEntry \<Rightarrow> json" where
  "SnapshotMonitorEntry_json nilp s = JObj (concat
     [opt_member ''manufacturer'' JStr (SMO_Manufacturer s),
      opt_member ''product_code'' JStr (SMO_ProductCode s),
      opt_member ''serial_number'' JStr (SMO_SerialNumber s),
      opt_member ''year_of_manufacture'' (\<lambda>i. JNum (of_int i)) (SMO_YearOfManufacture s)])"

definition SnapshotPeripherals_json :: "(string \<Rightarrow> bool) \<Rightarrow> SnapshotPeripherals \<Rightarrow> json" where
  "SnapshotPeripherals_json nilp s = JObj (concat
     [list_member nilp ''video_controllers'' (SnapshotVideoController_json nilp) (SPH_VideoControllers s),
      list_member nilp ''usb_devices'' (SnapshotUSBDevice_json nilp) (SPH_USBDevices s),
      list_member nilp ''monitors'' (SnapshotMonitorEntry_json nilp) (SPH_Monitors s)])"

definition SnapshotApplicationEntry_json :: "(string \<Rightarrow> bool) \<Rightarrow> SnapshotApplicationEntry \<Rightarrow> json" where
  "SnapshotApplicationEntry_json nilp s = JObj (concat
     [member ''name'' (JStr (SAP_Name s)),
      opt_member ''version'' JStr (SAP_Version s),
      opt_member ''publisher'' JStr (SAP_Publisher s),
      opt_member ''install_date'' JStr (SAP_InstallDate s),
      opt_member ''architecture'' JStr (SAP_Architecture s)])"

definition SnapshotHotfixEntry_json :: "(string \<Rightarrow> bool) \<Rightarrow> SnapshotHotfixEntry \<Rightarrow> json" where
  "SnapshotHotfixEntry_json nilp s = JObj (concat
     [member ''hotfix_id'' (JStr (SHF_HotFixID s)),
      opt_member ''description'' JStr (SHF_Description s),
      opt_member ''installed_on'' JStr (SHF_InstalledOn s)])"

definition SnapshotSoftware_json :: "(string \<Rightarrow> bool) \<Rightarrow> SnapshotSoftware \<Rightarrow> json" where
  "SnapshotSoftware_json nilp s = JObj (concat
     [list_member nilp ''applications'' (SnapshotApplicationEntry_json nilp) (SSW_Applications s),
      list_member nilp ''hotfixes'' (SnapshotHotfixEntry_json nilp) (SSW_Hotfixes s)])"

definition SnapshotBitLockerVolume_json :: "(string \<Rightarrow> bool) \<Rightarrow> SnapshotBitLockerVolume \<Rightarrow> json" where
  "SnapshotBitLockerVolume_json nilp s = JObj (concat
     [member ''drive_letter'' (JStr (SBV_DriveLetter s)),
      member ''protection_status'' (JNum (of_int (SBV_ProtectionStatus s))),
      member ''conversion_status'' (JNum (of_int (SBV_ConversionStatus s))),
      member ''encryption_method'' (JStr (SBV_EncryptionMethod s)),
      member ''lock_status'' (JNum (of_int (SBV_LockStatus s))),
      list_member nilp ''key_protectors'' JStr (SBV_KeyProtectors s)])"

definition SnapshotBitLockerInfo_json :: "(string \<Rightarrow> bool) \<Rightarrow> SnapshotBitLockerInfo \<Rightarrow> json" where
  "SnapshotBitLockerInfo_json nilp s = JObj (concat
     [list_member nilp ''volumes'' (SnapshotBitLockerVolume_json nilp) (SBI_Volumes s)])"

definition SnapshotDefenderInfo_json :: "(string \<Rightarrow> bool) \<Rightarrow> SnapshotDefenderInfo \<Rightarrow> json" where
  "SnapshotDefenderInfo_json nilp s = JObj (concat
     [opt_member ''realtime_protection_enabled'' JBool (SDF_RealTimeProtectionEnabled s),
      opt_member ''antivirus_enabled'' JBool (SDF_AntivirusEnabled s),
      opt_member ''antispyware_enabled'' JBool (SDF_AntispywareEnabled s),
      opt_member ''behavior_monitor_enabled'' JBool (SDF_BehaviorMonitorEnabled s),
      opt_member ''ioav_protection_enabled'' JBool (SDF_IoavProtectionEnabled s),
      opt_member ''tamper_protection_enabled'' JBool (SDF_TamperProtectionEnabled s),
      opt_member ''antivirus_signature_version'' JStr (SDF_AntivirusSignatureVersion s),
      opt_member ''antivirus_engine_version'' JStr (SDF_AntivirusEngineVersion s),
      opt_member ''quick_scan_age_days'' (\<lambda>i. JNum (of_int i)) (SDF_QuickScanAgeDays s)])"

definition SnapshotFirewallProfile_json :: "(string \<Rightarrow> bool) \<Rightarrow> SnapshotFirewallProfile \<Rightarrow> json" where
  "SnapshotFirewallProfile_json nilp s = JObj (concat
     [member ''enabled'' (JBool (SFP_Enabled s)),
      member ''default_inbound'' (JStr (SFP_DefaultInbound s)),
      member ''default_outbound'' (JStr (SFP_DefaultOutbound s))])"

definition SnapshotFirewallProfiles_json :: "(string \<Rightarrow> bool) \<Rightarrow> SnapshotFirewallProfiles \<Rightarrow> json" where
  "SnapshotFirewallProfiles_json nilp s = JObj (concat
     [member ''domain'' (SnapshotFirewallProfile_json nilp (SFS_Domain s)),
      member ''private'' (SnapshotFirewallProfile_json nilp (SFS_Private s)),
      member ''public'' (SnapshotFirewallProfile_json nilp (SFS_Public s))])"

definition SnapshotSecurityBaseline_json :: "(string \<Rightarrow> bool) \<Rightarrow> SnapshotSecurityBaseline \<Rightarrow> json" where
  "SnapshotSecurityBaseline_json nilp s = JObj (concat
     [member ''bitlocker'' (SnapshotBitLockerInfo_json nilp (SSB_BitLocker s)),
      member ''defender'' (SnapshotDefenderInfo_json nilp (SSB_Defender s)),
      member ''firewall_profiles'' (SnapshotFirewallProfiles_json nilp (SSB_FirewallProfiles s)),
      member ''smb1_enabled'' (JBool (SSB_SMB1Enabled s)),
      member ''lsa_protection_enabled'' (JBool (SSB_LSAProtectionEnabled s)),
      member ''credential_guard_running'' (JBool (SSB_CredentialGuardRunning s))])"

definition SnapshotPrivilegedGroup_json :: "(string \<Rightarrow> bool) \<Rightarrow> SnapshotPrivilegedGroup \<Rightarrow> json" where
  "SnapshotPrivilegedGroup_json nilp s = JObj (concat
     [member ''group_name'' (JStr (SPG_GroupName s)),
      list_member nilp ''members'' JStr (SPG_Members s)])"

definition SnapshotDormantProfile_json :: "(string \<Rightarrow> bool) \<Rightarrow> SnapshotDormantProfile \<Rightarrow> json" where
  "SnapshotDormantProfile_json nilp s = JObj (concat
     [member ''username'' (JStr (SDP_Username s)),
      member ''local_path'' (JStr (SDP_LocalPath s)),
      opt_member ''last_use_time'' JStr (SDP_LastUseTime s),
      member ''inactive_days'' (JNum (of_int (SDP_InactiveDays s)))])"

definition SnapshotUserAccess_json :: "(string \<Rightarrow> bool) \<Rightarrow> SnapshotUserAccess \<Rightarrow> json" where
  "SnapshotUserAccess_json nilp s = JObj (concat
     [list_member nilp ''local_administrators'' JStr (SUA_LocalAdministrators s),
      list_member nilp ''remote_desktop_users'' JStr (SUA_RemoteDesktopUsers s),
      list_member nilp ''privileged_groups'' (SnapshotPrivilegedGroup_json nilp) (SUA_PrivilegedGroups s),
      list_member nilp ''dormant_profiles'' (SnapshotDormantProfile_json nilp) (SUA_DormantProfiles s),
      opt_member ''guest_account_disabled'' JBool (SUA_GuestAccountDisabled s)])"

definition HostSnapshotPayload_json :: "(string \<Rightarrow> bool) \<Rightarrow> HostSnapshotPayload \<Rightarrow> json" where
  "HostSnapshotPayload_json nilp s = JObj (concat
     [member ''audit_metadata'' (SnapshotAuditMetadata_json nilp (HS_AuditMetadata s)),
      member ''system_identity'' (SnapshotSystemIdentity_json nilp (HS_SystemIdentity s)),
      member ''firmware_bios'' (SnapshotFirmwareBios_json nilp (HS_FirmwareBios s)),
      member ''processor'' (SnapshotProcessor_json nilp (HS_Processor s)),
      member ''memory'' (SnapshotMemory_json nilp (HS_Memory s)),
      member ''storage'' (SnapshotStorage_json nilp (HS_Storage s)),
      member ''tpm'' (SnapshotTPM_json nilp (HS_TPM s)),
      member ''network'' (SnapshotNetwork_json nilp (HS_Network s)),
      member ''peripherals'' (SnapshotPeripherals_json nilp (HS_Peripherals s)),
      member ''software'' (SnapshotSoftware_json nilp (HS_Software s)),
      member ''security_baseline'' (SnapshotSecurityBaseline_json nilp (HS_SecurityBaseline s)),
      member ''user_access'' (SnapshotUserAccess_json nilp (HS_UserAccess s))])"

lemmas member_defs = member_def opt_member_def list_member_def list_member_omit_def

end
