(* ===== verification/CisRules.thy ===== *)
theory CisRules
  imports GoBase
begin

text \<open>
  The data of the compliance component (\<open>compliance/types.go\<close>) and the built-in rules of the CIS
  Windows 11 benchmark (\<open>compliance/rules_cis.go\<close>), one list per section of the source; the
  time of creation is an argument.
\<close>

record ComplianceFramework =
  CF_ID :: string
  CF_Code :: string
  CF_Name :: string
  CF_Version :: string
  CF_TargetOS :: string
  CF_Description :: string
  CF_IsBuiltin :: bool
  CF_CreatedAt :: time

record ComplianceRule =
  CR_ID :: string
  CR_FrameworkID :: string
  CR_FrameworkCode :: string
  CR_RuleCode :: string
  CR_Title :: string
  CR_Category :: string
  CR_Level :: string
  CR_Severity :: string
  CR_Rationale :: string
  CR_ExpectedValue :: string
  CR_CheckExpression :: string
  CR_RemediationScript :: string
  CR_CreatedAt :: time

record EvaluationResult =
  CE_ID :: string
  CE_TenantID :: string
  CE_HostID :: string
  CE_Hostname :: string
  CE_FrameworkID :: string
  CE_FrameworkCode :: string
  CE_RuleID :: string
  CE_RuleCode :: string
  CE_RuleTitle :: string
  CE_Category :: string
  CE_Severity :: string
  CE_Status :: string
  CE_ActualValue :: string
  CE_ExpectedValue :: string
  CE_EvaluatedAt :: time

record HostComplianceScore =
  CO_TenantID :: string
  CO_HostID :: string
  CO_Hostname :: string
  CO_FrameworkCode :: string
  CO_TotalRules :: int
  CO_PassedRules :: int
  CO_FailedRules :: int
  CO_Score :: rat
  CO_Status :: string
  CO_LastEvaluatedAt :: time

record TenantComplianceSummary =
  CS_TenantID :: string
  CS_FrameworkCode :: string
  CS_TotalHosts :: int
  CS_CompliantHosts :: int
  CS_DegradedHosts :: int
  CS_NonCompliantHosts :: int
  CS_AverageScore :: rat
  CS_EvaluatedAt :: time

definition CISWin11FrameworkCode :: string where
  "CISWin11FrameworkCode = ''cis_win11_v2.0''"

definition DefaultCISWindows11Framework :: "time \<Rightarrow> ComplianceFramework" where
  "DefaultCISWindows11Framework now =
     \<lparr>CF_ID = ''f0000000-0000-0000-0000-000000000001'', CF_Code = CISWin11FrameworkCode,
      CF_Name = ''CIS Microsoft Windows 11 Enterprise Benchmark'', CF_Version = ''v2.0.0'',
      CF_TargetOS = ''Windows 11'',
      CF_Description = ''Center for Internet Security (CIS) security baseline benchmark for Windows 11 Enterprise workstations.'',
      CF_IsBuiltin = True, CF_CreatedAt = now\<rparr>"

definition cis_bitlocker_rules :: "string \<Rightarrow> time \<Rightarrow> ComplianceRule list" where
  "cis_bitlocker_rules fwID now =
    [\<lparr>CR_ID = ''r-cis-18-9-15-1'',
       CR_FrameworkID = fwID,
       CR_FrameworkCode = CISWin11FrameworkCode,
       CR_RuleCode = ''18.9.15.1'',
       CR_Title = ''Ensure BitLocker Drive Encryption is Enabled on OS Volume'',
       CR_Category = ''Storage & Encryption'',
       CR_Level = ''Level 1'',
       CR_Severity = ''CRITICAL'',
       CR_Rationale = ''Full volume encryption protects data at rest against unauthorized physical extraction and offline attacks.'',
       CR_ExpectedValue = ''protection_status == 1 (Protected)'',
       CR_CheckExpression = ''{\"==\": [{\"var\": \"security_baseline.bitlocker.volumes.0.protection_status\"}, 1]}'',
       CR_RemediationScript = ''Enable-BitLocker -MountPoint 'C:' -EncryptionMethod XtsAes256 -UsedSpaceOnly -TpmProtector'',
       CR_CreatedAt = now\<rparr>,
     \<lparr>CR_ID = ''r-cis-18-9-15-2'',
       CR_FrameworkID = fwID,
       CR_FrameworkCode = CISWin11FrameworkCode,
       CR_RuleCode = ''18.9.15.2'',
       CR_Title = ''Ensure BitLocker Cipher Strength is Configured to XTS-AES 256-bit'',
       CR_Category = ''Storage & Encryption'',
       CR_Level = ''Level 1'',
       CR_Severity = ''HIGH'',
       CR_Rationale = ''XTS-AES 256 provides state-of-the-art cryptographic strength for sector-based block storage.'',
       CR_ExpectedValue = ''encryption_method in ['XtsAes256', 'Aes256', 'XtsAes128']'',
       CR_CheckExpression = ''{\"in\": [{\"var\": \"security_baseline.bitlocker.volumes.0.encryption_method\"}, [\"XtsAes256\", \"Aes256\", \"XtsAes128\"]]}'',
       CR_RemediationScript = (''Set-ItemProperty -Path 'HKLM:'' @ [CHR 0x5C] @ ''SOFTWARE'' @ [CHR 0x5C] @ ''Policies'' @ [CHR 0x5C] @ ''Microsoft'' @ [CHR 0x5C] @ ''FVE' -Name 'EncryptionMethodWithXtsOs' -Value 7''),
       CR_CreatedAt = now\<rparr>,
     \<lparr>CR_ID = ''r-cis-18-9-15-3'',
       CR_FrameworkID = fwID,
       CR_FrameworkCode = CISWin11FrameworkCode,
       CR_RuleCode = ''18.9.15.3'',
       CR_Title = ''Ensure BitLocker Volume Lock Status is Unlocked during OS execution'',
       CR_Category = ''Storage & Encryption'',
       CR_Level = ''Level 1'',
       CR_Severity = ''HIGH'',
       CR_Rationale = ''Ensures OS volume is unlocked through attested TPM key protectors without requiring manual recovery intervention.'',
       CR_ExpectedValue = ''lock_status == 0 (Unlocked)'',
       CR_CheckExpression = ''{\"==\": [{\"var\": \"security_baseline.bitlocker.volumes.0.lock_status\"}, 0]}'',
       CR_RemediationScript = (''Unlock-BitLocker -MountPoint 'C:'' @ [CHR 0x27]),
       CR_CreatedAt = now\<rparr>]"

definition cis_smb_rules :: "string \<Rightarrow> time \<Rightarrow> ComplianceRule list" where
  "cis_smb_rules fwID now =
    [\<lparr>CR_ID = ''r-cis-18-9-8-1'',
       CR_FrameworkID = fwID,
       CR_FrameworkCode = CISWin11FrameworkCode,
       CR_RuleCode = ''18.9.8.1'',
       CR_Title = ''Ensure SMBv1 (Legacy Protocol) is Completely Disabled'',
       CR_Category = ''Network Security'',
       CR_Level = ''Level 1'',
       CR_Severity = ''CRITICAL'',
       CR_Rationale = ''SMBv1 lacks modern integrity guarantees and is vulnerable to severe remote exploits such as EternalBlue.'',
       CR_ExpectedValue = ''smb1_enabled == false'',
       CR_CheckExpression = ''{\"==\": [{\"var\": \"security_baseline.smb1_enabled\"}, false]}'',
       CR_RemediationScript = ''Disable-WindowsOptionalFeature -Online -FeatureName smb1protocol -NoRestart'',
       CR_CreatedAt = now\<rparr>]"

definition cis_lsa_rules :: "string \<Rightarrow> time \<Rightarrow> ComplianceRule list" where
  "cis_lsa_rules fwID now =
    [\<lparr>CR_ID = ''r-cis-18-9-10-1'',
       CR_FrameworkID = fwID,
       CR_FrameworkCode = CISWin11FrameworkCode,
       CR_RuleCode = ''18.9.10.1'',
       CR_Title = ''Ensure LSA Protection (RunAsPPL) is Enabled'',
       CR_Category = ''System Defenses'',
       CR_Level = ''Level 1'',
       CR_Severity = ''CRITICAL'',
       CR_Rationale = ''Protected Process Light (PPL) for LSASS prevents unprivileged and non-protected processes from reading credential memory (Mimikatz mitigation).'',
       CR_ExpectedValue = ''lsa_protection_enabled == true'',
       CR_CheckExpression = ''{\"==\": [{\"var\": \"security_baseline.lsa_protection_enabled\"}, true]}'',
       CR_RemediationScript = (''Set-ItemProperty -Path 'HKLM:'' @ [CHR 0x5C] @ ''SYSTEM'' @ [CHR 0x5C] @ ''CurrentControlSet'' @ [CHR 0x5C] @ ''Control'' @ [CHR 0x5C] @ ''Lsa' -Name 'RunAsPPL' -Value 1''),
       CR_CreatedAt = now\<rparr>]"

definition cis_vbs_rules :: "string \<Rightarrow> time \<Rightarrow> ComplianceRule list" where
  "cis_vbs_rules fwID now =
    [\<lparr>CR_ID = ''r-cis-18-9-11-1'',
       CR_FrameworkID = fwID,
       CR_FrameworkCode = CISWin11FrameworkCode,
       CR_RuleCode = ''18.9.11.1'',
       CR_Title = ''Ensure Virtualization Based Security (VBS) is Running'',
       CR_Category = ''System Defenses'',
       CR_Level = ''Level 1'',
       CR_Severity = ''HIGH'',
       CR_Rationale = ''VBS isolates security-sensitive operations inside a hypervisor-protected virtual environment.'',
       CR_ExpectedValue = ''vbs_status in ['Running', '1', '2']'',
       CR_CheckExpression = ''{\"in\": [{\"var\": \"processor.vbs_status\"}, [\"Running\", \"1\", \"2\"]]}'',
       CR_RemediationScript = (''Set-ItemProperty -Path 'HKLM:'' @ [CHR 0x5C] @ ''SYSTEM'' @ [CHR 0x5C] @ ''CurrentControlSet'' @ [CHR 0x5C] @ ''Control'' @ [CHR 0x5C] @ ''DeviceGuard' -Name 'EnableVirtualizationBasedSecurity' -Value 1''),
       CR_CreatedAt = now\<rparr>,
     \<lparr>CR_ID = ''r-cis-18-9-11-2'',
       CR_FrameworkID = fwID,
       CR_FrameworkCode = CISWin11FrameworkCode,
       CR_RuleCode = ''18.9.11.2'',
       CR_Title = ''Ensure Hypervisor-Protected Code Integrity (HVCI) is Enabled'',
       CR_Category = ''System Defenses'',
       CR_Level = ''Level 1'',
       CR_Severity = ''HIGH'',
       CR_Rationale = ''HVCI prevents unsigned or tampered drivers from loading into kernel memory space.'',
       CR_ExpectedValue = ''hvci_status in ['Enabled', '1', '2']'',
       CR_CheckExpression = ''{\"in\": [{\"var\": \"processor.hvci_status\"}, [\"Enabled\", \"1\", \"2\"]]}'',
       CR_RemediationScript = (''Set-ItemProperty -Path 'HKLM:'' @ [CHR 0x5C] @ ''SYSTEM'' @ [CHR 0x5C] @ ''CurrentControlSet'' @ [CHR 0x5C] @ ''Control'' @ [CHR 0x5C] @ ''DeviceGuard'' @ [CHR 0x5C] @ ''Scenarios'' @ [CHR 0x5C] @ ''HypervisorEnforcedCodeIntegrity' -Name 'Enabled' -Value 1''),
       CR_CreatedAt = now\<rparr>,
     \<lparr>CR_ID = ''r-cis-18-9-11-3'',
       CR_FrameworkID = fwID,
       CR_FrameworkCode = CISWin11FrameworkCode,
       CR_RuleCode = ''18.9.11.3'',
       CR_Title = ''Ensure Windows Defender Credential Guard is Running'',
       CR_Category = ''System Defenses'',
       CR_Level = ''Level 1'',
       CR_Severity = ''CRITICAL'',
       CR_Rationale = ''Credential Guard uses hypervisor security to isolate NTLM and Kerberos credentials from unauthorized access.'',
       CR_ExpectedValue = ''credential_guard_running == true'',
       CR_CheckExpression = ''{\"==\": [{\"var\": \"security_baseline.credential_guard_running\"}, true]}'',
       CR_RemediationScript = (''Set-ItemProperty -Path 'HKLM:'' @ [CHR 0x5C] @ ''SYSTEM'' @ [CHR 0x5C] @ ''CurrentControlSet'' @ [CHR 0x5C] @ ''Control'' @ [CHR 0x5C] @ ''Lsa' -Name 'LsaCfgFlags' -Value 1''),
       CR_CreatedAt = now\<rparr>]"

definition cis_defender_rules :: "string \<Rightarrow> time \<Rightarrow> ComplianceRule list" where
  "cis_defender_rules fwID now =
    [\<lparr>CR_ID = ''r-cis-18-9-84-1'',
       CR_FrameworkID = fwID,
       CR_FrameworkCode = CISWin11FrameworkCode,
       CR_RuleCode = ''18.9.84.1'',
       CR_Title = ''Ensure Microsoft Defender Antivirus is Enabled'',
       CR_Category = ''System Defenses'',
       CR_Level = ''Level 1'',
       CR_Severity = ''CRITICAL'',
       CR_Rationale = ''Defender core engine must remain active to provide signature, heuristic, and behavioral malware detection.'',
       CR_ExpectedValue = ''antivirus_enabled == true'',
       CR_CheckExpression = ''{\"==\": [{\"var\": \"security_baseline.defender.antivirus_enabled\"}, true]}'',
       CR_RemediationScript = ''Set-MpPreference -DisableRealtimeMonitoring $false'',
       CR_CreatedAt = now\<rparr>,
     \<lparr>CR_ID = ''r-cis-18-9-84-2'',
       CR_FrameworkID = fwID,
       CR_FrameworkCode = CISWin11FrameworkCode,
       CR_RuleCode = ''18.9.84.2'',
       CR_Title = ''Ensure Microsoft Defender Real-Time Protection is Enabled'',
       CR_Category = ''System Defenses'',
       CR_Level = ''Level 1'',
       CR_Severity = ''CRITICAL'',
       CR_Rationale = ''Real-time protection intercepts active malware file reads and writes before execution.'',
       CR_ExpectedValue = ''realtime_protection_enabled == true'',
       CR_CheckExpression = ''{\"==\": [{\"var\": \"security_baseline.defender.realtime_protection_enabled\"}, true]}'',
       CR_RemediationScript = ''Set-MpPreference -DisableRealtimeMonitoring $false'',
       CR_CreatedAt = now\<rparr>,
     \<lparr>CR_ID = ''r-cis-18-9-84-3'',
       CR_FrameworkID = fwID,
       CR_FrameworkCode = CISWin11FrameworkCode,
       CR_RuleCode = ''18.9.84.3'',
       CR_Title = ''Ensure Microsoft Defender Behavior Monitoring is Enabled'',
       CR_Category = ''System Defenses'',
       CR_Level = ''Level 1'',
       CR_Severity = ''HIGH'',
       CR_Rationale = ''Behavioral monitoring detects zero-day ransomware activity by observing process behavior patterns.'',
       CR_ExpectedValue = ''behavior_monitor_enabled == true'',
       CR_CheckExpression = ''{\"==\": [{\"var\": \"security_baseline.defender.behavior_monitor_enabled\"}, true]}'',
       CR_RemediationScript = ''Set-MpPreference -DisableBehaviorMonitoring $false'',
       CR_CreatedAt = now\<rparr>,
     \<lparr>CR_ID = ''r-cis-18-9-84-4'',
       CR_FrameworkID = fwID,
       CR_FrameworkCode = CISWin11FrameworkCode,
       CR_RuleCode = ''18.9.84.4'',
       CR_Title = ''Ensure Microsoft Defender Downloaded Files Scanning (IOAV) is Enabled'',
       CR_Category = ''System Defenses'',
       CR_Level = ''Level 1'',
       CR_Severity = ''HIGH'',
       CR_Rationale = ''Scans all internet downloads and email attachments immediately upon arrival.'',
       CR_ExpectedValue = ''ioav_protection_enabled == true'',
       CR_CheckExpression = ''{\"==\": [{\"var\": \"security_baseline.defender.ioav_protection_enabled\"}, true]}'',
       CR_RemediationScript = ''Set-MpPreference -DisableIOAVProtection $false'',
       CR_CreatedAt = now\<rparr>,
     \<lparr>CR_ID = ''r-cis-18-9-84-5'',
       CR_FrameworkID = fwID,
       CR_FrameworkCode = CISWin11FrameworkCode,
       CR_RuleCode = ''18.9.84.5'',
       CR_Title = ''Ensure Microsoft Defender Tamper Protection is Enabled'',
       CR_Category = ''System Defenses'',
       CR_Level = ''Level 1'',
       CR_Severity = ''CRITICAL'',
       CR_Rationale = ''Tamper protection blocks malicious software and compromised administrators from altering Defender registry settings.'',
       CR_ExpectedValue = ''tamper_protection_enabled == true'',
       CR_CheckExpression = ''{\"==\": [{\"var\": \"security_baseline.defender.tamper_protection_enabled\"}, true]}'',
       CR_RemediationScript = ''Set-MpPreference -EnableTamperProtection $true'',
       CR_CreatedAt = now\<rparr>,
     \<lparr>CR_ID = ''r-cis-18-9-84-6'',
       CR_FrameworkID = fwID,
       CR_FrameworkCode = CISWin11FrameworkCode,
       CR_RuleCode = ''18.9.84.6'',
       CR_Title = ''Ensure Microsoft Defender Antivirus Quick Scan Age is Under 7 Days'',
       CR_Category = ''System Defenses'',
       CR_Level = ''Level 1'',
       CR_Severity = ''MEDIUM'',
       CR_Rationale = ''Regular endpoint scans verify no persistent resident malware remains undetected.'',
       CR_ExpectedValue = ''quick_scan_age_days <= 7'',
       CR_CheckExpression = ''{\"<=\": [{\"var\": \"security_baseline.defender.quick_scan_age_days\"}, 7]}'',
       CR_RemediationScript = ''Start-MpScan -ScanType QuickScan'',
       CR_CreatedAt = now\<rparr>]"

definition cis_firewall_rules :: "string \<Rightarrow> time \<Rightarrow> ComplianceRule list" where
  "cis_firewall_rules fwID now =
    [\<lparr>CR_ID = ''r-cis-9-1-1'',
       CR_FrameworkID = fwID,
       CR_FrameworkCode = CISWin11FrameworkCode,
       CR_RuleCode = ''9.1.1'',
       CR_Title = ''Ensure Windows Firewall Domain Profile is Enabled'',
       CR_Category = ''Network Security'',
       CR_Level = ''Level 1'',
       CR_Severity = ''HIGH'',
       CR_Rationale = ''Stateful packet filtering on domain networks protects endpoints against lateral movement.'',
       CR_ExpectedValue = ''firewall_profiles.domain.enabled == true'',
       CR_CheckExpression = ''{\"==\": [{\"var\": \"security_baseline.firewall_profiles.domain.enabled\"}, true]}'',
       CR_RemediationScript = ''Set-NetFirewallProfile -Profile Domain -Enabled True'',
       CR_CreatedAt = now\<rparr>,
     \<lparr>CR_ID = ''r-cis-9-1-2'',
       CR_FrameworkID = fwID,
       CR_FrameworkCode = CISWin11FrameworkCode,
       CR_RuleCode = ''9.1.2'',
       CR_Title = ''Ensure Windows Firewall Domain Profile Inbound Connections are Blocked by Default'',
       CR_Category = ''Network Security'',
       CR_Level = ''Level 1'',
       CR_Severity = ''HIGH'',
       CR_Rationale = ''Unsolicited inbound connections must be dropped unless explicitly permitted by an authorized firewall rule.'',
       CR_ExpectedValue = ''domain.default_inbound in ['Block', 'BlockInbound']'',
       CR_CheckExpression = ''{\"in\": [{\"var\": \"security_baseline.firewall_profiles.domain.default_inbound\"}, [\"Block\", \"BlockInbound\"]]}'',
       CR_RemediationScript = ''Set-NetFirewallProfile -Profile Domain -DefaultInboundAction Block'',
       CR_CreatedAt = now\<rparr>,
     \<lparr>CR_ID = ''r-cis-9-2-1'',
       CR_FrameworkID = fwID,
       CR_FrameworkCode = CISWin11FrameworkCode,
       CR_RuleCode = ''9.2.1'',
       CR_Title = ''Ensure Windows Firewall Private Profile is Enabled'',
       CR_Category = ''Network Security'',
       CR_Level = ''Level 1'',
       CR_Severity = ''HIGH'',
       CR_Rationale = ''Protects endpoints when connected to trusted home or small business private subnets.'',
       CR_ExpectedValue = ''firewall_profiles.private.enabled == true'',
       CR_CheckExpression = ''{\"==\": [{\"var\": \"security_baseline.firewall_profiles.private.enabled\"}, true]}'',
       CR_RemediationScript = ''Set-NetFirewallProfile -Profile Private -Enabled True'',
       CR_CreatedAt = now\<rparr>,
     \<lparr>CR_ID = ''r-cis-9-2-2'',
       CR_FrameworkID = fwID,
       CR_FrameworkCode = CISWin11FrameworkCode,
       CR_RuleCode = ''9.2.2'',
       CR_Title = ''Ensure Windows Firewall Private Profile Inbound Connections are Blocked by Default'',
       CR_Category = ''Network Security'',
       CR_Level = ''Level 1'',
       CR_Severity = ''HIGH'',
       CR_Rationale = ''Prevents peer-to-peer compromise across private subnets.'',
       CR_ExpectedValue = ''private.default_inbound in ['Block', 'BlockInbound']'',
       CR_CheckExpression = ''{\"in\": [{\"var\": \"security_baseline.firewall_profiles.private.default_inbound\"}, [\"Block\", \"BlockInbound\"]]}'',
       CR_RemediationScript = ''Set-NetFirewallProfile -Profile Private -DefaultInboundAction Block'',
       CR_CreatedAt = now\<rparr>,
     \<lparr>CR_ID = ''r-cis-9-3-1'',
       CR_FrameworkID = fwID,
       CR_FrameworkCode = CISWin11FrameworkCode,
       CR_RuleCode = ''9.3.1'',
       CR_Title = ''Ensure Windows Firewall Public Profile is Enabled'',
       CR_Category = ''Network Security'',
       CR_Level = ''Level 1'',
       CR_Severity = ''CRITICAL'',
       CR_Rationale = ''Untrusted public networks (Wi-Fi hotspots, hotels) represent highest exposure surface.'',
       CR_ExpectedValue = ''firewall_profiles.public.enabled == true'',
       CR_CheckExpression = ''{\"==\": [{\"var\": \"security_baseline.firewall_profiles.public.enabled\"}, true]}'',
       CR_RemediationScript = ''Set-NetFirewallProfile -Profile Public -Enabled True'',
       CR_CreatedAt = now\<rparr>,
     \<lparr>CR_ID = ''r-cis-9-3-2'',
       CR_FrameworkID = fwID,
       CR_FrameworkCode = CISWin11FrameworkCode,
       CR_RuleCode = ''9.3.2'',
       CR_Title = ''Ensure Windows Firewall Public Profile Inbound Connections are Blocked by Default'',
       CR_Category = ''Network Security'',
       CR_Level = ''Level 1'',
       CR_Severity = ''CRITICAL'',
       CR_Rationale = ''All inbound unsolicited traffic on public networks must be strictly blocked.'',
       CR_ExpectedValue = ''public.default_inbound in ['Block', 'BlockInbound']'',
       CR_CheckExpression = ''{\"in\": [{\"var\": \"security_baseline.firewall_profiles.public.default_inbound\"}, [\"Block\", \"BlockInbound\"]]}'',
       CR_RemediationScript = ''Set-NetFirewallProfile -Profile Public -DefaultInboundAction Block'',
       CR_CreatedAt = now\<rparr>]"

definition cis_firmware_rules :: "string \<Rightarrow> time \<Rightarrow> ComplianceRule list" where
  "cis_firmware_rules fwID now =
    [\<lparr>CR_ID = ''r-cis-18-1-1-1'',
       CR_FrameworkID = fwID,
       CR_FrameworkCode = CISWin11FrameworkCode,
       CR_RuleCode = ''18.1.1.1'',
       CR_Title = ''Ensure UEFI Secure Boot is Enabled'',
       CR_Category = ''Hardware & Firmware'',
       CR_Level = ''Level 1'',
       CR_Severity = ''CRITICAL'',
       CR_Rationale = ''Secure Boot cryptographically verifies OEM platform bootloaders, preventing rootkit and bootkit persistence.'',
       CR_ExpectedValue = ''firmware_bios.secure_boot_enabled == true'',
       CR_CheckExpression = ''{\"==\": [{\"var\": \"firmware_bios.secure_boot_enabled\"}, true]}'',
       CR_RemediationScript = ''Reboot to UEFI BIOS Setup and enable 'Secure Boot'.'',
       CR_CreatedAt = now\<rparr>,
     \<lparr>CR_ID = ''r-cis-18-1-1-2'',
       CR_FrameworkID = fwID,
       CR_FrameworkCode = CISWin11FrameworkCode,
       CR_RuleCode = ''18.1.1.2'',
       CR_Title = ''Ensure System Firmware is Operating in Native UEFI Mode'',
       CR_Category = ''Hardware & Firmware'',
       CR_Level = ''Level 1'',
       CR_Severity = ''HIGH'',
       CR_Rationale = ''Legacy BIOS CSM lacks modern memory isolation and security table interfaces required by Windows 11.'',
       CR_ExpectedValue = ''firmware_bios.uefi_mode == true'',
       CR_CheckExpression = ''{\"==\": [{\"var\": \"firmware_bios.uefi_mode\"}, true]}'',
       CR_RemediationScript = ''Convert MBR disk to GPT using 'mbr2gpt.exe /convert' and switch BIOS mode to Native UEFI.'',
       CR_CreatedAt = now\<rparr>,
     \<lparr>CR_ID = ''r-cis-18-1-2-1'',
       CR_FrameworkID = fwID,
       CR_FrameworkCode = CISWin11FrameworkCode,
       CR_RuleCode = ''18.1.2.1'',
       CR_Title = ''Ensure Trusted Platform Module (TPM) is Present'',
       CR_Category = ''Hardware & Firmware'',
       CR_Level = ''Level 1'',
       CR_Severity = ''CRITICAL'',
       CR_Rationale = ''TPM provides tamper-resistant cryptographic storage for platform keys, BitLocker, and Device Guard.'',
       CR_ExpectedValue = ''tpm.present == true'',
       CR_CheckExpression = ''{\"==\": [{\"var\": \"tpm.present\"}, true]}'',
       CR_RemediationScript = ''Enable Intel PTT or AMD fTPM in BIOS Firmware Settings.'',
       CR_CreatedAt = now\<rparr>,
     \<lparr>CR_ID = ''r-cis-18-1-2-2'',
       CR_FrameworkID = fwID,
       CR_FrameworkCode = CISWin11FrameworkCode,
       CR_RuleCode = ''18.1.2.2'',
       CR_Title = ''Ensure TPM Cryptographic Specification is Version 2.0'',
       CR_Category = ''Hardware & Firmware'',
       CR_Level = ''Level 1'',
       CR_Severity = ''HIGH'',
       CR_Rationale = ''TPM 2.0 supports modern SHA-256 PCR banks and elliptic-curve cryptography.'',
       CR_ExpectedValue = ''tpm.spec_version in ['2.0', '2.0.0']'',
       CR_CheckExpression = ''{\"in\": [{\"var\": \"tpm.spec_version\"}, [\"2.0\", \"2.0.0\"]]}'',
       CR_RemediationScript = ''Upgrade motherboard TPM 1.2 firmware to TPM 2.0.'',
       CR_CreatedAt = now\<rparr>]"

definition cis_account_rules :: "string \<Rightarrow> time \<Rightarrow> ComplianceRule list" where
  "cis_account_rules fwID now =
    [\<lparr>CR_ID = ''r-cis-2-3-1-1'',
       CR_FrameworkID = fwID,
       CR_FrameworkCode = CISWin11FrameworkCode,
       CR_RuleCode = ''2.3.1.1'',
       CR_Title = ''Ensure Built-in Guest Account is Disabled'',
       CR_Category = ''Access Control'',
       CR_Level = ''Level 1'',
       CR_Severity = ''HIGH'',
       CR_Rationale = ''Anonymous and guest accounts permit unauthorized local and network interactive sessions.'',
       CR_ExpectedValue = ''user_access.guest_account_disabled == true'',
       CR_CheckExpression = ''{\"==\": [{\"var\": \"user_access.guest_account_disabled\"}, true]}'',
       CR_RemediationScript = (''Disable-LocalUser -Name 'Guest'' @ [CHR 0x27]),
       CR_CreatedAt = now\<rparr>,
     \<lparr>CR_ID = ''r-cis-2-3-1-5'',
       CR_FrameworkID = fwID,
       CR_FrameworkCode = CISWin11FrameworkCode,
       CR_RuleCode = ''2.3.1.5'',
       CR_Title = ''Ensure Local Administrators Membership is Audited and Populated'',
       CR_Category = ''Access Control'',
       CR_Level = ''Level 1'',
       CR_Severity = ''HIGH'',
       CR_Rationale = ''Verifies that local administrative rights are strictly inventoried and tracked across the fleet.'',
       CR_ExpectedValue = ''local_administrators is non-empty'',
       CR_CheckExpression = ''{\"!=\": [{\"var\": \"user_access.local_administrators\"}, []]}'',
       CR_RemediationScript = ''Audit and remediate Local Administrators group members.'',
       CR_CreatedAt = now\<rparr>,
     \<lparr>CR_ID = ''r-cis-18-9-58-1'',
       CR_FrameworkID = fwID,
       CR_FrameworkCode = CISWin11FrameworkCode,
       CR_RuleCode = ''18.9.58.1'',
       CR_Title = ''Ensure Privileged and Remote Desktop Groups are Restricted and Defined'',
       CR_Category = ''Access Control'',
       CR_Level = ''Level 1'',
       CR_Severity = ''MEDIUM'',
       CR_Rationale = ''Prevents unauthenticated or lateral interactive Remote Desktop sessions.'',
       CR_ExpectedValue = ''privileged_groups is non-empty'',
       CR_CheckExpression = ''{\"!=\": [{\"var\": \"user_access.privileged_groups\"}, []]}'',
       CR_RemediationScript = ''Remove non-essential domain and local users from Remote Desktop Users group.'',
       CR_CreatedAt = now\<rparr>,
     \<lparr>CR_ID = ''r-cis-18-3-1-1'',
       CR_FrameworkID = fwID,
       CR_FrameworkCode = CISWin11FrameworkCode,
       CR_RuleCode = ''18.3.1.1'',
       CR_Title = ''Ensure CPU Virtualization Extensions (VT-x / AMD-V) are Enabled in Firmware'',
       CR_Category = ''Hardware & Firmware'',
       CR_Level = ''Level 1'',
       CR_Severity = ''HIGH'',
       CR_Rationale = ''Hardware virtualization extensions are required for Hyper-V, VBS, and Credential Guard kernel isolation.'',
       CR_ExpectedValue = ''processor.virtualization_firmware_enabled == true'',
       CR_CheckExpression = ''{\"==\": [{\"var\": \"processor.virtualization_firmware_enabled\"}, true]}'',
       CR_RemediationScript = ''Enable Intel VT-x or AMD SVM in BIOS Setup.'',
       CR_CreatedAt = now\<rparr>]"

definition GetBuiltinCISWindows11Rules :: "time \<Rightarrow> ComplianceRule list" where
  "GetBuiltinCISWindows11Rules now =
     (let fwID = ''f0000000-0000-0000-0000-000000000001'' in
      cis_bitlocker_rules fwID now @ cis_smb_rules fwID now @ cis_lsa_rules fwID now @ cis_vbs_rules fwID now
      @ cis_defender_rules fwID now @ cis_firewall_rules fwID now @ cis_firmware_rules fwID now
      @ cis_account_rules fwID now)"

end
