(* ===== verification/Compliance.thy ===== *)
theory Compliance
  imports JsonLogic SnapshotJson CisRules
begin

text \<open>
  The compliance engine (\<open>compliance/engine.go\<close>, \<open>compliance/repository.go\<close>): rules are evaluated against
  a host snapshot, scored and stored. Scores are rationals where the source has \<open>float64\<close>; the order
  in which a map is iterated, identifiers and the clock are arguments.
\<close>

section \<open>Checks\<close>

text \<open>\<open>EvaluateExpression\<close> on data already decoded (see \<open>HostSnapshotPayload_json\<close>).\<close>

definition EvaluateExpression :: "jl_lib \<Rightarrow> string \<Rightarrow> json \<Rightarrow> jl_error + bool" where
  "EvaluateExpression lib exprJSON data =
     (if trim_space exprJSON = [] then Inr True
      else
        (case unmarshal exprJSON of
           None \<Rightarrow> Inl InvalidExpression
         | Some parsedExpr \<Rightarrow>
             (case evalNode lib data parsedExpr of Inl e \<Rightarrow> Inl e | Inr res \<Rightarrow> Inr (isTruthy res))))"

definition ExtractValue :: "jl_lib \<Rightarrow> json \<Rightarrow> string \<Rightarrow> string" where
  "ExtractValue lib data path =
     (case resolveVar data path of
        JNull \<Rightarrow> ''<null>''
      | JStr s \<Rightarrow> s
      | JBool b \<Rightarrow> show_bool b
      | JNum n \<Rightarrow> if n = of_int \<lfloor>n\<rfloor> \<and> fits64 \<lfloor>n\<rfloor> then dec_int \<lfloor>n\<rfloor> else JL_format2 lib n
      | v \<Rightarrow> JL_marshal lib v)"

text \<open>\<open>strings.Index\<close>.\<close>

fun index_of :: "string \<Rightarrow> string \<Rightarrow> nat option" where
  "index_of [] t = (if t = [] then Some 0 else None)"
| "index_of (c # s) t = (if has_prefix (c # s) t then Some 0 else map_option Suc (index_of s t))"

definition extractVarFromExpr :: "string \<Rightarrow> string" where
  "extractVarFromExpr exprJSON =
     (let idx = (case index_of exprJSON ''\"var\":'' of None \<Rightarrow> index_of exprJSON ''\"var\" :'' | Some i \<Rightarrow> Some i)
      in case idx of
           None \<Rightarrow> []
         | Some i \<Rightarrow>
             (let rem = drop (i + 6) exprJSON in
              case index_of rem ''\"'' of
                None \<Rightarrow> []
              | Some startQuote \<Rightarrow>
                  (let rest = drop (startQuote + 1) rem in
                   case index_of rest ''\"'' of None \<Rightarrow> [] | Some endQuote \<Rightarrow> take endQuote rest)))"

section \<open>Repository\<close>

record MemoryComplianceRepository =
  MC_frameworks :: "string \<rightharpoonup> ComplianceFramework"
  MC_rules :: "string \<rightharpoonup> ComplianceRule"
  MC_evaluations :: "string \<rightharpoonup> EvaluationResult list"
  MC_hostScores :: "string \<rightharpoonup> HostComplianceScore"

datatype compliance_error =
    MissingFrameworkCode
  | MissingRuleCode
  | NoEvaluations
  | CNilSnapshot
  | CMissingTenant
  | CMissingHost
  | NoRules string

definition norm_code :: "string \<Rightarrow> string" where
  "norm_code s = to_lower (trim_space s)"

definition SaveFramework ::
  "string \<Rightarrow> MemoryComplianceRepository \<Rightarrow> ComplianceFramework \<Rightarrow> MemoryComplianceRepository \<times> compliance_error option" where
  "SaveFramework uid r fw =
     (if CF_Code fw = [] then (r, Some MissingFrameworkCode)
      else
        (let fw = fw\<lparr>CF_ID := (if CF_ID fw = [] then uid else CF_ID fw), CF_Code := norm_code (CF_Code fw)\<rparr>
         in (r\<lparr>MC_frameworks := (MC_frameworks r)(CF_Code fw \<mapsto> fw)\<rparr>, None)))"

definition ListFrameworks :: "string list \<Rightarrow> MemoryComplianceRepository \<Rightarrow> ComplianceFramework list" where
  "ListFrameworks ord r = range_vals (MC_frameworks r) ord"

definition GetFrameworkByCode :: "MemoryComplianceRepository \<Rightarrow> string \<Rightarrow> ComplianceFramework option" where
  "GetFrameworkByCode r code = MC_frameworks r (norm_code code)"

definition SaveRule ::
  "string \<Rightarrow> MemoryComplianceRepository \<Rightarrow> ComplianceRule \<Rightarrow> MemoryComplianceRepository \<times> compliance_error option" where
  "SaveRule uid r rule =
     (if CR_RuleCode rule = [] then (r, Some MissingRuleCode)
      else if CR_FrameworkCode rule = [] then (r, Some MissingFrameworkCode)
      else
        (let rule = rule\<lparr>CR_ID := (if CR_ID rule = [] then uid else CR_ID rule),
                         CR_FrameworkCode := norm_code (CR_FrameworkCode rule)\<rparr>
         in (r\<lparr>MC_rules := (MC_rules r)(CR_ID rule \<mapsto> rule)\<rparr>, None)))"

definition ListRulesByFramework :: "string list \<Rightarrow> MemoryComplianceRepository \<Rightarrow> string \<Rightarrow> ComplianceRule list" where
  "ListRulesByFramework ord r frameworkCode =
     (let fwCode = norm_code frameworkCode
      in filter (\<lambda>rule. equal_fold (CR_FrameworkCode rule) fwCode) (range_vals (MC_rules r) ord))"

definition GetRuleByID :: "MemoryComplianceRepository \<Rightarrow> string \<Rightarrow> ComplianceRule option" where
  "GetRuleByID r rid = MC_rules r rid"

definition host_key :: "string \<Rightarrow> string \<Rightarrow> string" where
  "host_key tenantID hostID = tenantID @ '':'' @ hostID"

definition SaveEvaluations ::
  "MemoryComplianceRepository \<Rightarrow> string \<Rightarrow> string \<Rightarrow> EvaluationResult list \<Rightarrow> HostComplianceScore \<Rightarrow> MemoryComplianceRepository" where
  "SaveEvaluations r tenantID hostID results score =
     (let key = host_key tenantID hostID
      in r\<lparr>MC_evaluations := (MC_evaluations r)(key \<mapsto> results), MC_hostScores := (MC_hostScores r)(key \<mapsto> score)\<rparr>)"

definition GetHostEvaluations ::
  "MemoryComplianceRepository \<Rightarrow> string \<Rightarrow> string \<Rightarrow> compliance_error + (EvaluationResult list \<times> HostComplianceScore option)" where
  "GetHostEvaluations r tenantID hostID =
     (let key = host_key tenantID hostID
      in case MC_evaluations r key of None \<Rightarrow> Inl NoEvaluations | Some evals \<Rightarrow> Inr (evals, MC_hostScores r key))"

definition GetHostScore :: "MemoryComplianceRepository \<Rightarrow> string \<Rightarrow> string \<Rightarrow> HostComplianceScore option" where
  "GetHostScore r tenantID hostID = MC_hostScores r (host_key tenantID hostID)"

definition NewMemoryComplianceRepository :: "time \<Rightarrow> MemoryComplianceRepository" where
  "NewMemoryComplianceRepository now =
     (let repo = \<lparr>MC_frameworks = Map.empty, MC_rules = Map.empty, MC_evaluations = Map.empty, MC_hostScores = Map.empty\<rparr>;
          repo = fst (SaveFramework [] repo (DefaultCISWindows11Framework now))
      in foldl (\<lambda>repo rule. fst (SaveRule [] repo rule)) repo (GetBuiltinCISWindows11Rules now))"

text \<open>The loop of \<open>GetTenantSummary\<close> adds up the scores that belong to the tenant's keys.\<close>

definition tenant_scores :: "string list \<Rightarrow> MemoryComplianceRepository \<Rightarrow> string \<Rightarrow> string \<Rightarrow> HostComplianceScore list" where
  "tenant_scores ord r tenantID fwCode =
     filter (\<lambda>sc. \<not> (fwCode \<noteq> [] \<and> \<not> equal_fold (CO_FrameworkCode sc) fwCode))
       (range_vals (MC_hostScores r) (filter (\<lambda>key. has_prefix key (tenantID @ '':'')) ord))"

definition GetTenantSummary ::
  "string list \<Rightarrow> time \<Rightarrow> MemoryComplianceRepository \<Rightarrow> string \<Rightarrow> string \<Rightarrow> TenantComplianceSummary" where
  "GetTenantSummary ord now r tenantID frameworkCode =
     (let fwCode = norm_code frameworkCode;
          fwCode = (if fwCode = [] then CISWin11FrameworkCode else fwCode);
          scores = map CO_Score (tenant_scores ord r tenantID fwCode);
          totalHosts = int (length scores);
          totalScoreSum = sum_list scores
      in \<lparr>CS_TenantID = tenantID, CS_FrameworkCode = fwCode, CS_TotalHosts = totalHosts,
          CS_CompliantHosts = int (length (filter (\<lambda>x. x \<ge> 90) scores)),
          CS_DegradedHosts = int (length (filter (\<lambda>x. \<not> x \<ge> 90 \<and> x \<ge> 70) scores)),
          CS_NonCompliantHosts = int (length (filter (\<lambda>x. \<not> x \<ge> 90 \<and> \<not> x \<ge> 70) scores)),
          CS_AverageScore = (if totalHosts > 0 then totalScoreSum / of_int totalHosts else 0),
          CS_EvaluatedAt = now\<rparr>)"

section \<open>Engine\<close>

text \<open>\<open>math.Round\<close> rounds half away from zero.\<close>

definition round_half_away :: "rat \<Rightarrow> int" where
  "round_half_away x = (if x < 0 then - \<lfloor>- x + 1 / 2\<rfloor> else \<lfloor>x + 1 / 2\<rfloor>)"

definition score_pct :: "int \<Rightarrow> int \<Rightarrow> rat" where
  "score_pct passedCount totalCount =
     (if totalCount > 0 then of_int (round_half_away (of_int passedCount / of_int totalCount * 10000)) / 100 else 0)"

definition host_status :: "rat \<Rightarrow> string" where
  "host_status scorePct =
     (if scorePct \<ge> 90 then ''COMPLIANT'' else if scorePct \<ge> 70 then ''DEGRADED'' else ''NON_COMPLIANT'')"

definition rule_passes :: "jl_lib \<Rightarrow> json \<Rightarrow> ComplianceRule \<Rightarrow> bool" where
  "rule_passes lib data rule \<longleftrightarrow> EvaluateExpression lib (CR_CheckExpression rule) data = Inr True"

definition evaluate_rule ::
  "jl_lib \<Rightarrow> (nat \<Rightarrow> string) \<Rightarrow> time \<Rightarrow> string \<Rightarrow> string \<Rightarrow> string \<Rightarrow> json \<Rightarrow> nat \<Rightarrow> ComplianceRule \<Rightarrow> EvaluationResult" where
  "evaluate_rule lib uid now tenantID hostID hostname data i rule =
     (let varPath = extractVarFromExpr (CR_CheckExpression rule)
      in \<lparr>CE_ID = uid i, CE_TenantID = tenantID, CE_HostID = hostID, CE_Hostname = hostname,
          CE_FrameworkID = CR_FrameworkID rule, CE_FrameworkCode = CR_FrameworkCode rule,
          CE_RuleID = CR_ID rule, CE_RuleCode = CR_RuleCode rule, CE_RuleTitle = CR_Title rule,
          CE_Category = CR_Category rule, CE_Severity = CR_Severity rule,
          CE_Status = (if rule_passes lib data rule then ''PASS'' else ''FAIL''),
          CE_ActualValue = (if varPath \<noteq> [] then ExtractValue lib data varPath else ''<evaluated>''),
          CE_ExpectedValue = CR_ExpectedValue rule, CE_EvaluatedAt = now\<rparr>)"

definition EvaluateHost ::
  "jl_lib \<Rightarrow> (string \<Rightarrow> bool) \<Rightarrow> (nat \<Rightarrow> string) \<Rightarrow> time \<Rightarrow> string list \<Rightarrow> MemoryComplianceRepository
   \<Rightarrow> string \<Rightarrow> string \<Rightarrow> string \<Rightarrow> HostSnapshotPayload option \<Rightarrow> string
   \<Rightarrow> MemoryComplianceRepository \<times> (compliance_error + EvaluationResult list \<times> HostComplianceScore)" where
  "EvaluateHost lib nilp uid now ord r tenantID hostID hostname0 snapshot frameworkCode0 =
     (case snapshot of
        None \<Rightarrow> (r, Inl CNilSnapshot)
      | Some s \<Rightarrow>
          if tenantID = [] then (r, Inl CMissingTenant)
          else if hostID = [] then (r, Inl CMissingHost)
          else
            (let hostname = (if hostname0 = [] then SSI_Hostname (HS_SystemIdentity s) else hostname0);
                 frameworkCode = (if frameworkCode0 = [] then CISWin11FrameworkCode else frameworkCode0);
                 rules = ListRulesByFramework ord r frameworkCode
             in if rules = [] then (r, Inl (NoRules frameworkCode))
                else
                  (let data = HostSnapshotPayload_json nilp s;
                       results = map (\<lambda>(i, rule). evaluate_rule lib uid now tenantID hostID hostname data i rule)
                                   (List.enumerate 0 rules);
                       passedCount = int (length (filter (\<lambda>e. CE_Status e = ''PASS'') results));
                       failedCount = int (length (filter (\<lambda>e. CE_Status e \<noteq> ''PASS'') results));
                       totalCount = passedCount + failedCount;
                       scorePct = score_pct passedCount totalCount;
                       hostScore = \<lparr>CO_TenantID = tenantID, CO_HostID = hostID, CO_Hostname = hostname,
                         CO_FrameworkCode = frameworkCode, CO_TotalRules = totalCount, CO_PassedRules = passedCount,
                         CO_FailedRules = failedCount, CO_Score = scorePct, CO_Status = host_status scorePct,
                         CO_LastEvaluatedAt = now\<rparr>
                   in (SaveEvaluations r tenantID hostID results hostScore, Inr (results, hostScore)))))"

section \<open>The built-in checks\<close>

text \<open>Operator, path and constant of the built-in checks, in the order of the rules.\<close>

definition cis_checks :: "(string \<times> string \<times> json) list" where
  "cis_checks =
    [(''=='', ''security_baseline.bitlocker.volumes.0.protection_status'', JNum 1),
     (''in'', ''security_baseline.bitlocker.volumes.0.encryption_method'', JArr [JStr ''XtsAes256'', JStr ''Aes256'', JStr ''XtsAes128'']),
     (''=='', ''security_baseline.bitlocker.volumes.0.lock_status'', JNum 0),
     (''=='', ''security_baseline.smb1_enabled'', JBool False),
     (''=='', ''security_baseline.lsa_protection_enabled'', JBool True),
     (''in'', ''processor.vbs_status'', JArr [JStr ''Running'', JStr ''1'', JStr ''2'']),
     (''in'', ''processor.hvci_status'', JArr [JStr ''Enabled'', JStr ''1'', JStr ''2'']),
     (''=='', ''security_baseline.credential_guard_running'', JBool True),
     (''=='', ''security_baseline.defender.antivirus_enabled'', JBool True),
     (''=='', ''security_baseline.defender.realtime_protection_enabled'', JBool True),
     (''=='', ''security_baseline.defender.behavior_monitor_enabled'', JBool True),
     (''=='', ''security_baseline.defender.ioav_protection_enabled'', JBool True),
     (''=='', ''security_baseline.defender.tamper_protection_enabled'', JBool True),
     (''<='', ''security_baseline.defender.quick_scan_age_days'', JNum 7),
     (''=='', ''security_baseline.firewall_profiles.domain.enabled'', JBool True),
     (''in'', ''security_baseline.firewall_profiles.domain.default_inbound'', JArr [JStr ''Block'', JStr ''BlockInbound'']),
     (''=='', ''security_baseline.firewall_profiles.private.enabled'', JBool True),
     (''in'', ''security_baseline.firewall_profiles.private.default_inbound'', JArr [JStr ''Block'', JStr ''BlockInbound'']),
     (''=='', ''security_baseline.firewall_profiles.public.enabled'', JBool True),
     (''in'', ''security_baseline.firewall_profiles.public.default_inbound'', JArr [JStr ''Block'', JStr ''BlockInbound'']),
     (''=='', ''firmware_bios.secure_boot_enabled'', JBool True),
     (''=='', ''firmware_bios.uefi_mode'', JBool True),
     (''=='', ''tpm.present'', JBool True),
     (''in'', ''tpm.spec_version'', JArr [JStr ''2.0'', JStr ''2.0.0'']),
     (''=='', ''user_access.guest_account_disabled'', JBool True),
     (''!='', ''user_access.local_administrators'', JArr []),
     (''!='', ''user_access.privileged_groups'', JArr []),
     (''=='', ''processor.virtualization_firmware_enabled'', JBool True)]"

definition check_ast :: "string \<times> string \<times> json \<Rightarrow> json" where
  "check_ast = (\<lambda>(op, path, c). JObj [(op, JArr [JObj [(''var'', JStr path)], c])])"

lemma cis_checks_parse:
  "map (\<lambda>r. unmarshal (CR_CheckExpression r)) (GetBuiltinCISWindows11Rules now) = map (\<lambda>c. Some (check_ast c)) cis_checks"
  unfolding GetBuiltinCISWindows11Rules_def cis_bitlocker_rules_def cis_smb_rules_def cis_lsa_rules_def cis_vbs_rules_def
    cis_defender_rules_def cis_firewall_rules_def cis_firmware_rules_def cis_account_rules_def cis_checks_def check_ast_def
  by code_simp

section \<open>Looking up the snapshot\<close>

lemma map_of_members [simp]:
  "map_of (member k v @ r) x = (if x = k then Some v else map_of r x)"
  "map_of (opt_member k f p @ r) x =
     (if x = k then (case p of None \<Rightarrow> map_of r x | Some v \<Rightarrow> Some (f v)) else map_of r x)"
  "map_of (list_member nilp k g xs @ r) x =
     (if x = k then Some (if xs = [] \<and> nilp k then JNull else JArr (map g xs)) else map_of r x)"
  "map_of (list_member_omit k g xs @ r) x = (if x = k \<and> xs \<noteq> [] then Some (JArr (map g xs)) else map_of r x)"
  by (auto simp: member_defs split: option.splits)

lemmas map_of_last_member [simp] = map_of_members [where r = "[]", simplified]

definition opt_json :: "('a \<Rightarrow> json) \<Rightarrow> 'a option \<Rightarrow> json" where
  "opt_json f p = (case p of None \<Rightarrow> JNull | Some v \<Rightarrow> f v)"

lemma opt_json_lookup:
  "(case (case p of None \<Rightarrow> None | Some v \<Rightarrow> Some (f v)) of None \<Rightarrow> JNull | Some v \<Rightarrow> v) = opt_json f p"
  by (cases p) (simp_all add: opt_json_def)

text \<open>The operating-system volume is the first one listed.\<close>

definition os_volume :: "HostSnapshotPayload \<Rightarrow> SnapshotBitLockerVolume option" where
  "os_volume s = (case SBI_Volumes (SSB_BitLocker (HS_SecurityBaseline s)) of [] \<Rightarrow> None | v # _ \<Rightarrow> Some v)"

abbreviation defender :: "HostSnapshotPayload \<Rightarrow> SnapshotDefenderInfo" where
  "defender s \<equiv> SSB_Defender (HS_SecurityBaseline s)"

abbreviation firewall :: "HostSnapshotPayload \<Rightarrow> SnapshotFirewallProfiles" where
  "firewall s \<equiv> SSB_FirewallProfiles (HS_SecurityBaseline s)"

definition members_json :: "(string \<Rightarrow> bool) \<Rightarrow> string \<Rightarrow> ('a \<Rightarrow> json) \<Rightarrow> 'a list \<Rightarrow> json" where
  "members_json nilp k f xs = (if xs = [] \<and> nilp k then JNull else JArr (map f xs))"

text \<open>What the paths of the built-in checks find, in their order.\<close>

definition cis_values :: "(string \<Rightarrow> bool) \<Rightarrow> HostSnapshotPayload \<Rightarrow> json list" where
  "cis_values nilp s =
     [opt_json (\<lambda>v. JNum (of_int (SBV_ProtectionStatus v))) (os_volume s),
      opt_json (\<lambda>v. JStr (SBV_EncryptionMethod v)) (os_volume s),
      opt_json (\<lambda>v. JNum (of_int (SBV_LockStatus v))) (os_volume s),
      JBool (SSB_SMB1Enabled (HS_SecurityBaseline s)),
      JBool (SSB_LSAProtectionEnabled (HS_SecurityBaseline s)),
      opt_json JStr (SPR_VBSStatus (HS_Processor s)),
      opt_json JStr (SPR_HVCIStatus (HS_Processor s)),
      JBool (SSB_CredentialGuardRunning (HS_SecurityBaseline s)),
      opt_json JBool (SDF_AntivirusEnabled (defender s)),
      opt_json JBool (SDF_RealTimeProtectionEnabled (defender s)),
      opt_json JBool (SDF_BehaviorMonitorEnabled (defender s)),
      opt_json JBool (SDF_IoavProtectionEnabled (defender s)),
      opt_json JBool (SDF_TamperProtectionEnabled (defender s)),
      opt_json (\<lambda>i. JNum (of_int i)) (SDF_QuickScanAgeDays (defender s)),
      JBool (SFP_Enabled (SFS_Domain (firewall s))), JStr (SFP_DefaultInbound (SFS_Domain (firewall s))),
      JBool (SFP_Enabled (SFS_Private (firewall s))), JStr (SFP_DefaultInbound (SFS_Private (firewall s))),
      JBool (SFP_Enabled (SFS_Public (firewall s))), JStr (SFP_DefaultInbound (SFS_Public (firewall s))),
      JBool (SFB_SecureBootEnabled (HS_FirmwareBios s)), JBool (SFB_UEFIMode (HS_FirmwareBios s)),
      JBool (STP_Present (HS_TPM s)), opt_json JStr (STP_SpecVersion (HS_TPM s)),
      opt_json JBool (SUA_GuestAccountDisabled (HS_UserAccess s)),
      members_json nilp ''local_administrators'' JStr (SUA_LocalAdministrators (HS_UserAccess s)),
      members_json nilp ''privileged_groups'' (SnapshotPrivilegedGroup_json nilp) (SUA_PrivilegedGroups (HS_UserAccess s)),
      opt_json JBool (SPR_VirtualizationFirmwareEnabled (HS_Processor s))]"

lemma resolve_Obj:
  "resolve_parts (JObj kvs) (part # parts) = resolve_parts (case map_of kvs part of None \<Rightarrow> JNull | Some v \<Rightarrow> v) parts"
  by simp

lemma split_paths:
  "map (\<lambda>c. split_on CHR ''.'' (fst (snd c))) cis_checks =
    [[''security_baseline'', ''bitlocker'', ''volumes'', ''0'', ''protection_status''],
     [''security_baseline'', ''bitlocker'', ''volumes'', ''0'', ''encryption_method''],
     [''security_baseline'', ''bitlocker'', ''volumes'', ''0'', ''lock_status''],
     [''security_baseline'', ''smb1_enabled''], [''security_baseline'', ''lsa_protection_enabled''],
     [''processor'', ''vbs_status''], [''processor'', ''hvci_status''],
     [''security_baseline'', ''credential_guard_running''],
     [''security_baseline'', ''defender'', ''antivirus_enabled''],
     [''security_baseline'', ''defender'', ''realtime_protection_enabled''],
     [''security_baseline'', ''defender'', ''behavior_monitor_enabled''],
     [''security_baseline'', ''defender'', ''ioav_protection_enabled''],
     [''security_baseline'', ''defender'', ''tamper_protection_enabled''],
     [''security_baseline'', ''defender'', ''quick_scan_age_days''],
     [''security_baseline'', ''firewall_profiles'', ''domain'', ''enabled''],
     [''security_baseline'', ''firewall_profiles'', ''domain'', ''default_inbound''],
     [''security_baseline'', ''firewall_profiles'', ''private'', ''enabled''],
     [''security_baseline'', ''firewall_profiles'', ''private'', ''default_inbound''],
     [''security_baseline'', ''firewall_profiles'', ''public'', ''enabled''],
     [''security_baseline'', ''firewall_profiles'', ''public'', ''default_inbound''],
     [''firmware_bios'', ''secure_boot_enabled''], [''firmware_bios'', ''uefi_mode''],
     [''tpm'', ''present''], [''tpm'', ''spec_version''], [''user_access'', ''guest_account_disabled''],
     [''user_access'', ''local_administrators''], [''user_access'', ''privileged_groups''],
     [''processor'', ''virtualization_firmware_enabled'']]"
  unfolding cis_checks_def by code_simp

lemma atoi_0: "Atoi ''0'' = Some 0"
  by code_simp

lemma map_resolve_split:
  "list_all (\<lambda>c. fst (snd c) \<noteq> []) cs \<Longrightarrow>
   map (\<lambda>c. resolveVar d (fst (snd c))) cs = map (resolve_parts d) (map (\<lambda>c. split_on CHR ''.'' (fst (snd c))) cs)"
  by (induction cs) (auto simp: resolveVar_def)

text \<open>One step of a path into each structure.\<close>

lemma step_hostSnapshotPayload:
  "resolve_parts (HostSnapshotPayload_json nilp s) (''security_baseline'' # ps) = resolve_parts (SnapshotSecurityBaseline_json nilp (HS_SecurityBaseline s)) ps"
  "resolve_parts (HostSnapshotPayload_json nilp s) (''processor'' # ps) = resolve_parts (SnapshotProcessor_json nilp (HS_Processor s)) ps"
  "resolve_parts (HostSnapshotPayload_json nilp s) (''firmware_bios'' # ps) = resolve_parts (SnapshotFirmwareBios_json nilp (HS_FirmwareBios s)) ps"
  "resolve_parts (HostSnapshotPayload_json nilp s) (''tpm'' # ps) = resolve_parts (SnapshotTPM_json nilp (HS_TPM s)) ps"
  "resolve_parts (HostSnapshotPayload_json nilp s) (''user_access'' # ps) = resolve_parts (SnapshotUserAccess_json nilp (HS_UserAccess s)) ps"
  by (simp_all add: HostSnapshotPayload_json_def opt_json_lookup members_json_def del: map_of_append cong: option.case_cong)

lemma step_snapshotSecurityBaseline:
  "resolve_parts (SnapshotSecurityBaseline_json nilp s) (''bitlocker'' # ps) = resolve_parts (SnapshotBitLockerInfo_json nilp (SSB_BitLocker s)) ps"
  "resolve_parts (SnapshotSecurityBaseline_json nilp s) (''defender'' # ps) = resolve_parts (SnapshotDefenderInfo_json nilp (SSB_Defender s)) ps"
  "resolve_parts (SnapshotSecurityBaseline_json nilp s) (''firewall_profiles'' # ps) = resolve_parts (SnapshotFirewallProfiles_json nilp (SSB_FirewallProfiles s)) ps"
  "resolve_parts (SnapshotSecurityBaseline_json nilp s) (''smb1_enabled'' # ps) = resolve_parts (JBool (SSB_SMB1Enabled s)) ps"
  "resolve_parts (SnapshotSecurityBaseline_json nilp s) (''lsa_protection_enabled'' # ps) = resolve_parts (JBool (SSB_LSAProtectionEnabled s)) ps"
  "resolve_parts (SnapshotSecurityBaseline_json nilp s) (''credential_guard_running'' # ps) = resolve_parts (JBool (SSB_CredentialGuardRunning s)) ps"
  by (simp_all add: SnapshotSecurityBaseline_json_def opt_json_lookup members_json_def del: map_of_append cong: option.case_cong)

lemma step_snapshotBitLockerInfo:
  "resolve_parts (SnapshotBitLockerInfo_json nilp s) (''volumes'' # ps) = resolve_parts (members_json nilp ''volumes'' (SnapshotBitLockerVolume_json nilp) (SBI_Volumes s)) ps"
  by (simp_all add: SnapshotBitLockerInfo_json_def opt_json_lookup members_json_def del: map_of_append cong: option.case_cong)

lemma step_snapshotBitLockerVolume:
  "resolve_parts (SnapshotBitLockerVolume_json nilp s) (''protection_status'' # ps) = resolve_parts (JNum (of_int (SBV_ProtectionStatus s))) ps"
  "resolve_parts (SnapshotBitLockerVolume_json nilp s) (''encryption_method'' # ps) = resolve_parts (JStr (SBV_EncryptionMethod s)) ps"
  "resolve_parts (SnapshotBitLockerVolume_json nilp s) (''lock_status'' # ps) = resolve_parts (JNum (of_int (SBV_LockStatus s))) ps"
  by (simp_all add: SnapshotBitLockerVolume_json_def opt_json_lookup members_json_def del: map_of_append cong: option.case_cong)

lemma step_snapshotDefenderInfo:
  "resolve_parts (SnapshotDefenderInfo_json nilp s) (''antivirus_enabled'' # ps) = resolve_parts (opt_json JBool (SDF_AntivirusEnabled s)) ps"
  "resolve_parts (SnapshotDefenderInfo_json nilp s) (''realtime_protection_enabled'' # ps) = resolve_parts (opt_json JBool (SDF_RealTimeProtectionEnabled s)) ps"
  "resolve_parts (SnapshotDefenderInfo_json nilp s) (''behavior_monitor_enabled'' # ps) = resolve_parts (opt_json JBool (SDF_BehaviorMonitorEnabled s)) ps"
  "resolve_parts (SnapshotDefenderInfo_json nilp s) (''ioav_protection_enabled'' # ps) = resolve_parts (opt_json JBool (SDF_IoavProtectionEnabled s)) ps"
  "resolve_parts (SnapshotDefenderInfo_json nilp s) (''tamper_protection_enabled'' # ps) = resolve_parts (opt_json JBool (SDF_TamperProtectionEnabled s)) ps"
  "resolve_parts (SnapshotDefenderInfo_json nilp s) (''quick_scan_age_days'' # ps) = resolve_parts (opt_json (\<lambda>i. JNum (of_int i)) (SDF_QuickScanAgeDays s)) ps"
  by (simp_all add: SnapshotDefenderInfo_json_def opt_json_lookup members_json_def del: map_of_append cong: option.case_cong)

lemma step_snapshotFirewallProfiles:
  "resolve_parts (SnapshotFirewallProfiles_json nilp s) (''domain'' # ps) = resolve_parts (SnapshotFirewallProfile_json nilp (SFS_Domain s)) ps"
  "resolve_parts (SnapshotFirewallProfiles_json nilp s) (''private'' # ps) = resolve_parts (SnapshotFirewallProfile_json nilp (SFS_Private s)) ps"
  "resolve_parts (SnapshotFirewallProfiles_json nilp s) (''public'' # ps) = resolve_parts (SnapshotFirewallProfile_json nilp (SFS_Public s)) ps"
  by (simp_all add: SnapshotFirewallProfiles_json_def opt_json_lookup members_json_def del: map_of_append cong: option.case_cong)

lemma step_snapshotFirewallProfile:
  "resolve_parts (SnapshotFirewallProfile_json nilp s) (''enabled'' # ps) = resolve_parts (JBool (SFP_Enabled s)) ps"
  "resolve_parts (SnapshotFirewallProfile_json nilp s) (''default_inbound'' # ps) = resolve_parts (JStr (SFP_DefaultInbound s)) ps"
  by (simp_all add: SnapshotFirewallProfile_json_def opt_json_lookup members_json_def del: map_of_append cong: option.case_cong)

lemma step_snapshotFirmwareBios:
  "resolve_parts (SnapshotFirmwareBios_json nilp s) (''secure_boot_enabled'' # ps) = resolve_parts (JBool (SFB_SecureBootEnabled s)) ps"
  "resolve_parts (SnapshotFirmwareBios_json nilp s) (''uefi_mode'' # ps) = resolve_parts (JBool (SFB_UEFIMode s)) ps"
  by (simp_all add: SnapshotFirmwareBios_json_def opt_json_lookup members_json_def del: map_of_append cong: option.case_cong)

lemma step_snapshotTPM:
  "resolve_parts (SnapshotTPM_json nilp s) (''present'' # ps) = resolve_parts (JBool (STP_Present s)) ps"
  "resolve_parts (SnapshotTPM_json nilp s) (''spec_version'' # ps) = resolve_parts (opt_json JStr (STP_SpecVersion s)) ps"
  by (simp_all add: SnapshotTPM_json_def opt_json_lookup members_json_def del: map_of_append cong: option.case_cong)

lemma step_snapshotProcessor:
  "resolve_parts (SnapshotProcessor_json nilp s) (''vbs_status'' # ps) = resolve_parts (opt_json JStr (SPR_VBSStatus s)) ps"
  "resolve_parts (SnapshotProcessor_json nilp s) (''hvci_status'' # ps) = resolve_parts (opt_json JStr (SPR_HVCIStatus s)) ps"
  "resolve_parts (SnapshotProcessor_json nilp s) (''virtualization_firmware_enabled'' # ps) = resolve_parts (opt_json JBool (SPR_VirtualizationFirmwareEnabled s)) ps"
  by (simp_all add: SnapshotProcessor_json_def opt_json_lookup members_json_def del: map_of_append cong: option.case_cong)

lemma step_snapshotUserAccess:
  "resolve_parts (SnapshotUserAccess_json nilp s) (''guest_account_disabled'' # ps) = resolve_parts (opt_json JBool (SUA_GuestAccountDisabled s)) ps"
  "resolve_parts (SnapshotUserAccess_json nilp s) (''local_administrators'' # ps) = resolve_parts (members_json nilp ''local_administrators'' JStr (SUA_LocalAdministrators s)) ps"
  "resolve_parts (SnapshotUserAccess_json nilp s) (''privileged_groups'' # ps) = resolve_parts (members_json nilp ''privileged_groups'' (SnapshotPrivilegedGroup_json nilp) (SUA_PrivilegedGroups s)) ps"
  by (simp_all add: SnapshotUserAccess_json_def opt_json_lookup members_json_def del: map_of_append cong: option.case_cong)

lemmas snapshot_steps =
  step_hostSnapshotPayload
  step_snapshotSecurityBaseline
  step_snapshotBitLockerInfo
  step_snapshotBitLockerVolume
  step_snapshotDefenderInfo
  step_snapshotFirewallProfiles
  step_snapshotFirewallProfile
  step_snapshotFirmwareBios
  step_snapshotTPM
  step_snapshotProcessor
  step_snapshotUserAccess

lemma step_volumes:
  "resolve_parts (members_json nilp k f xs) (''0'' # ps) = (case xs of [] \<Rightarrow> JNull | x # _ \<Rightarrow> resolve_parts (f x) ps)"
  by (cases xs) (simp_all add: members_json_def atoi_0)

lemma cis_values: "map (\<lambda>c. resolveVar (HostSnapshotPayload_json nilp s) (fst (snd c))) cis_checks = cis_values nilp s"
proof -
  have "list_all (\<lambda>c. fst (snd c) \<noteq> []) cis_checks" by (simp add: cis_checks_def)
  from map_resolve_split [OF this, of "HostSnapshotPayload_json nilp s"] show ?thesis
    unfolding split_paths list.map snapshot_steps step_volumes resolve_parts.simps(1) cis_values_def os_volume_def
    by (simp add: opt_json_def split: list.splits)
qed

section \<open>Evaluating the built-in checks\<close>

text \<open>How \<open>strconv.ParseFloat\<close> reads the constants of the built-in checks.\<close>

definition reads_numbers :: "jl_lib \<Rightarrow> bool" where
  "reads_numbers lib \<longleftrightarrow>
     JL_parse_float lib ''1'' = Some 1 \<and> JL_parse_float lib ''2'' = Some 2 \<and> JL_parse_float lib ''2.0'' = Some 2
     \<and> list_all (\<lambda>w. JL_parse_float lib w = None)
         [''XtsAes256'', ''Aes256'', ''XtsAes128'', ''Running'', ''Enabled'', ''Block'', ''BlockInbound'', ''2.0.0'']"

lemma compareEqual_simps:
  "\<not> compareEqual lib JNull (JBool b)" "\<not> compareEqual lib JNull (JNum n)" "\<not> compareEqual lib JNull (JStr t)"
  "\<not> compareEqual lib JNull JNilArr"
  "compareEqual lib (JBool a) (JBool b) \<longleftrightarrow> a = b"
  "compareEqual lib (JNum x) (JNum y) \<longleftrightarrow> x = y"
  "compareEqual lib (JArr xs) JNilArr \<longleftrightarrow> xs = []"
  "compareEqual lib (JStr u) (JStr v) \<longleftrightarrow>
     (case (JL_parse_float lib u, JL_parse_float lib v) of (Some x, Some y) \<Rightarrow> x = y | _ \<Rightarrow> u = v)"
  by (auto simp: compareEqual_def toFloat_def deep_equal.simps split: option.splits)

lemma eval_check:
  assumes "binary lib op = Some f" "op \<noteq> ''var''"
  shows "evalNode lib data (check_ast (op, path, c)) =
    (case evalNode lib data c of Inl e \<Rightarrow> Inl e | Inr cv \<Rightarrow> Inr (f (resolveVar data path) cv))"
  using assms by (simp add: check_ast_def applyOperator.simps var_path_def split: sum.splits)

lemma eval_const:
  "evalNode lib data (JBool b) = Inr (JBool b)" "evalNode lib data (JNum n) = Inr (JNum n)"
  "evalNode lib data (JArr []) = Inr JNilArr"
  "ws \<noteq> [] \<Longrightarrow> evalNode lib data (JArr (map JStr ws)) = Inr (JArr (map JStr ws))"
proof -
  have "evalList lib data (map JStr ws) = Inr (map JStr ws)" by (induction ws) simp_all
  then show "ws \<noteq> [] \<Longrightarrow> evalNode lib data (JArr (map JStr ws)) = Inr (JArr (map JStr ws))" by simp
qed simp_all

text \<open>The verdict of a check on the value its path finds.\<close>

definition verdict :: "jl_lib \<Rightarrow> string \<times> string \<times> json \<Rightarrow> json \<Rightarrow> bool" where
  "verdict lib = (\<lambda>(op, path, c) v.
     if op = ''=='' then compareEqual lib v c
     else if op = ''in'' then (v \<noteq> JNull \<and> list_ex (compareEqual lib v) (case c of JArr xs \<Rightarrow> xs | _ \<Rightarrow> []))
     else if op = ''<='' then (case (toFloat lib v, toFloat lib c) of (Some x, Some y) \<Rightarrow> x \<le> y | _ \<Rightarrow> False)
     else \<not> compareEqual lib v JNilArr)"

definition builtin_shape :: "string \<times> string \<times> json \<Rightarrow> bool" where
  "builtin_shape = (\<lambda>(op, path, c).
     (op = ''=='' \<and> (case c of JBool _ \<Rightarrow> True | JNum _ \<Rightarrow> True | _ \<Rightarrow> False))
     \<or> (op = ''in'' \<and> (\<exists>ws. ws \<noteq> [] \<and> c = JArr (map JStr ws)))
     \<or> (op = ''<='' \<and> (\<exists>n. c = JNum n)) \<or> (op = ''!='' \<and> c = JArr []))"

lemma eval_builtin:
  assumes "builtin_shape c"
  shows "(case evalNode lib data (check_ast c) of Inl e \<Rightarrow> Inl e | Inr res \<Rightarrow> Inr (isTruthy res))
    = Inr (verdict lib c (resolveVar data (fst (snd c))))"
proof -
  obtain op path k where c: "c = (op, path, k)" by (metis prod_cases3)
  from assms consider
      (eq) b where "op = ''==''" "k = JBool b" | (eqn) n where "op = ''==''" "k = JNum n"
    | (inn) ws where "op = ''in''" "ws \<noteq> []" "k = JArr (map JStr ws)"
    | (le) n where "op = ''<=''" "k = JNum n" | (ne) "op = ''!=''" "k = JArr []"
    by (auto simp: builtin_shape_def c split: json.splits)
  then show ?thesis
  proof cases
    case inn
    have b: "binary lib op = Some (\<lambda>l r. JBool (checkIn lib l r))" "op \<noteq> ''var''" by (simp_all add: binary_def inn(1))
    have "checkIn lib v (JArr (map JStr ws)) \<longleftrightarrow> v \<noteq> JNull \<and> list_ex (compareEqual lib v) (map JStr ws)" for v
      by (simp add: checkIn_def Let_def)
    then show ?thesis
      unfolding c eval_check [OF b] inn(3) eval_const(4) [OF inn(2)] by (simp add: verdict_def isTruthy_def inn(1))
  next
    case eq
    have b: "binary lib op = Some (\<lambda>l r. JBool (compareEqual lib l r))" "op \<noteq> ''var''" by (simp_all add: binary_def eq(1))
    show ?thesis unfolding c eval_check [OF b] by (simp add: eq verdict_def isTruthy_def)
  next
    case eqn
    have b: "binary lib op = Some (\<lambda>l r. JBool (compareEqual lib l r))" "op \<noteq> ''var''" by (simp_all add: binary_def eqn(1))
    show ?thesis unfolding c eval_check [OF b] by (simp add: eqn verdict_def isTruthy_def)
  next
    case le
    have b: "binary lib op = Some (compareNumeric lib (\<lambda>a b. a \<le> b))" "op \<noteq> ''var''"
      by (simp_all add: binary_def ordering_def le(1))
    show ?thesis unfolding c eval_check [OF b]
      by (simp add: le verdict_def isTruthy_def compareNumeric_def split: option.splits)
  next
    case ne
    have b: "binary lib op = Some (\<lambda>l r. JBool (\<not> compareEqual lib l r))" "op \<noteq> ''var''" by (simp_all add: binary_def ne(1))
    show ?thesis unfolding c eval_check [OF b] by (simp add: ne verdict_def isTruthy_def)
  qed
qed

lemma builtin_shapes: "list_all builtin_shape cis_checks"
proof -
  have "\<exists>ws. ws \<noteq> [] \<and> [JStr a, JStr b] = map JStr ws" "\<exists>ws. ws \<noteq> [] \<and> [JStr a, JStr b, JStr d] = map JStr ws" for a b d
    by (rule exI [of _ "[a, b]"], simp) (rule exI [of _ "[a, b, d]"], simp)
  then show ?thesis by (simp add: cis_checks_def builtin_shape_def)
qed

lemma cis_not_blank:
  "list_all (\<lambda>r. trim_space (CR_CheckExpression r) \<noteq> []) (GetBuiltinCISWindows11Rules now)"
  unfolding GetBuiltinCISWindows11Rules_def cis_bitlocker_rules_def cis_smb_rules_def cis_lsa_rules_def cis_vbs_rules_def
    cis_defender_rules_def cis_firewall_rules_def cis_firmware_rules_def cis_account_rules_def
  by code_simp

lemma evaluate_builtin:
  "map (\<lambda>r. EvaluateExpression lib (CR_CheckExpression r) (HostSnapshotPayload_json nilp s)) (GetBuiltinCISWindows11Rules now)
   = map Inr (map2 (verdict lib) cis_checks (cis_values nilp s))"
proof -
  let ?d = "HostSnapshotPayload_json nilp s" and ?rs = "GetBuiltinCISWindows11Rules now"
  let ?h = "\<lambda>p. case p of None \<Rightarrow> Inl InvalidExpression
      | Some e \<Rightarrow> (case evalNode lib ?d e of Inl e \<Rightarrow> Inl e | Inr res \<Rightarrow> Inr (isTruthy res))"
  have "map (\<lambda>r. EvaluateExpression lib (CR_CheckExpression r) ?d) ?rs = map ?h (map (\<lambda>r. unmarshal (CR_CheckExpression r)) ?rs)"
    using cis_not_blank [of now] by (simp add: EvaluateExpression_def list_all_iff)
  also have "\<dots> = map (\<lambda>c. ?h (Some (check_ast c))) cis_checks" unfolding cis_checks_parse by simp
  also have "\<dots> = map (\<lambda>c. Inr (verdict lib c (resolveVar ?d (fst (snd c))))) cis_checks"
    using builtin_shapes eval_builtin by (simp add: list_all_iff)
  also have "\<dots> = map Inr (map2 (verdict lib) cis_checks (map (\<lambda>c. resolveVar ?d (fst (snd c))) cis_checks))"
    by (simp add: zip_map2 comp_def zip_same_conv_map)
  finally show ?thesis unfolding cis_values .
qed

section \<open>Theorems\<close>

text \<open>What each built-in rule demands of the host.\<close>

definition isolation_on :: "jl_lib \<Rightarrow> string \<Rightarrow> string option \<Rightarrow> bool" where
  "isolation_on lib on p =
     (case p of None \<Rightarrow> False | Some v \<Rightarrow> v = on \<or> JL_parse_float lib v = Some 1 \<or> JL_parse_float lib v = Some 2)"

definition blocks :: "SnapshotFirewallProfile \<Rightarrow> bool" where
  "blocks p \<longleftrightarrow> SFP_DefaultInbound p = ''Block'' \<or> SFP_DefaultInbound p = ''BlockInbound''"

definition cis_meaning :: "jl_lib \<Rightarrow> (string \<Rightarrow> bool) \<Rightarrow> HostSnapshotPayload \<Rightarrow> (string \<times> bool) list" where
  "cis_meaning lib nilp s =
     [(''18.9.15.1'', case os_volume s of None \<Rightarrow> False | Some v \<Rightarrow> SBV_ProtectionStatus v = 1),
      (''18.9.15.2'', case os_volume s of None \<Rightarrow> False
         | Some v \<Rightarrow> SBV_EncryptionMethod v \<in> {''XtsAes256'', ''Aes256'', ''XtsAes128''}),
      (''18.9.15.3'', case os_volume s of None \<Rightarrow> False | Some v \<Rightarrow> SBV_LockStatus v = 0),
      (''18.9.8.1'', \<not> SSB_SMB1Enabled (HS_SecurityBaseline s)),
      (''18.9.10.1'', SSB_LSAProtectionEnabled (HS_SecurityBaseline s)),
      (''18.9.11.1'', isolation_on lib ''Running'' (SPR_VBSStatus (HS_Processor s))),
      (''18.9.11.2'', isolation_on lib ''Enabled'' (SPR_HVCIStatus (HS_Processor s))),
      (''18.9.11.3'', SSB_CredentialGuardRunning (HS_SecurityBaseline s)),
      (''18.9.84.1'', SDF_AntivirusEnabled (defender s) = Some True),
      (''18.9.84.2'', SDF_RealTimeProtectionEnabled (defender s) = Some True),
      (''18.9.84.3'', SDF_BehaviorMonitorEnabled (defender s) = Some True),
      (''18.9.84.4'', SDF_IoavProtectionEnabled (defender s) = Some True),
      (''18.9.84.5'', SDF_TamperProtectionEnabled (defender s) = Some True),
      (''18.9.84.6'', case SDF_QuickScanAgeDays (defender s) of None \<Rightarrow> False | Some d \<Rightarrow> d \<le> 7),
      (''9.1.1'', SFP_Enabled (SFS_Domain (firewall s))), (''9.1.2'', blocks (SFS_Domain (firewall s))),
      (''9.2.1'', SFP_Enabled (SFS_Private (firewall s))), (''9.2.2'', blocks (SFS_Private (firewall s))),
      (''9.3.1'', SFP_Enabled (SFS_Public (firewall s))), (''9.3.2'', blocks (SFS_Public (firewall s))),
      (''18.1.1.1'', SFB_SecureBootEnabled (HS_FirmwareBios s)), (''18.1.1.2'', SFB_UEFIMode (HS_FirmwareBios s)),
      (''18.1.2.1'', STP_Present (HS_TPM s)),
      (''18.1.2.2'', case STP_SpecVersion (HS_TPM s) of None \<Rightarrow> False
         | Some v \<Rightarrow> JL_parse_float lib v = Some 2 \<or> v = ''2.0.0''),
      (''2.3.1.1'', SUA_GuestAccountDisabled (HS_UserAccess s) = Some True),
      (''2.3.1.5'', SUA_LocalAdministrators (HS_UserAccess s) \<noteq> [] \<or> nilp ''local_administrators''),
      (''18.9.58.1'', SUA_PrivilegedGroups (HS_UserAccess s) \<noteq> [] \<or> nilp ''privileged_groups''),
      (''18.3.1.1'', SPR_VirtualizationFirmwareEnabled (HS_Processor s) = Some True)]"

lemma verdict_simps:
  "verdict lib (''=='', p, JBool True) (JBool b) \<longleftrightarrow> b" "verdict lib (''=='', p, JBool False) (JBool b) \<longleftrightarrow> \<not> b"
  "verdict lib (''=='', p, JBool True) (opt_json JBool o') \<longleftrightarrow> o' = Some True"
  "verdict lib (''=='', p, JNum n) (opt_json (\<lambda>v. JNum (of_int (f v))) o'') \<longleftrightarrow>
     (case o'' of None \<Rightarrow> False | Some v \<Rightarrow> of_int (f v) = n)"
  "verdict lib (''<='', p, JNum n) (opt_json (\<lambda>i. JNum (of_int i)) o3) \<longleftrightarrow>
     (case o3 of None \<Rightarrow> False | Some i \<Rightarrow> of_int i \<le> n)"
  "verdict lib (''!='', p, JArr []) (members_json nilp k g xs) \<longleftrightarrow> xs \<noteq> [] \<or> nilp k"
  "verdict lib (''in'', p, JArr cs) (opt_json (\<lambda>v. JStr (h v)) o4) \<longleftrightarrow>
     (case o4 of None \<Rightarrow> False | Some v \<Rightarrow> list_ex (compareEqual lib (JStr (h v))) cs)"
  "verdict lib (''in'', p, JArr cs) (opt_json JStr o5) \<longleftrightarrow>
     (case o5 of None \<Rightarrow> False | Some v \<Rightarrow> list_ex (compareEqual lib (JStr v)) cs)"
  "verdict lib (''in'', p, JArr cs) (JStr w) \<longleftrightarrow> list_ex (compareEqual lib (JStr w)) cs"
  by (auto simp: verdict_def opt_json_def members_json_def toFloat_def compareEqual_simps split: option.splits)

lemma compareEqual_consts:
  assumes "reads_numbers lib"
  shows "compareEqual lib (JStr v) (JStr ''1'') \<longleftrightarrow> JL_parse_float lib v = Some 1"
    "compareEqual lib (JStr v) (JStr ''2'') \<longleftrightarrow> JL_parse_float lib v = Some 2"
    "compareEqual lib (JStr v) (JStr ''2.0'') \<longleftrightarrow> JL_parse_float lib v = Some 2"
    "list_all (\<lambda>w. compareEqual lib (JStr v) (JStr w) \<longleftrightarrow> v = w)
       [''XtsAes256'', ''Aes256'', ''XtsAes128'', ''Running'', ''Enabled'', ''Block'', ''BlockInbound'', ''2.0.0'']"
  using assms unfolding reads_numbers_def list_all_iff
  by (auto simp: compareEqual_simps split: option.splits)

lemma verdicts:
  assumes "reads_numbers lib"
  shows "map2 (verdict lib) cis_checks (cis_values nilp s) = map snd (cis_meaning lib nilp s)"
  using compareEqual_consts [OF assms]
  unfolding cis_checks_def cis_values_def cis_meaning_def
  by (simp add: verdict_simps isolation_on_def blocks_def cong: option.case_cong)

lemma rule_codes: "map CR_RuleCode (GetBuiltinCISWindows11Rules now) = map fst (cis_meaning lib nilp s)"
  by (simp add: GetBuiltinCISWindows11Rules_def cis_bitlocker_rules_def cis_smb_rules_def cis_lsa_rules_def cis_vbs_rules_def
    cis_defender_rules_def cis_firewall_rules_def cis_firmware_rules_def cis_account_rules_def cis_meaning_def Let_def)

text \<open>The twenty-eight built-in rules mean what they say: parsing the expression of each rule and
  evaluating it on any host snapshot never fails and yields exactly the condition listed for the
  rule's code. (The two rules on member lists also pass when the list is missing from the payload,
  which decodes to a nil slice.)\<close>

theorem cis_rules_meaning:
  assumes "reads_numbers lib"
  shows "map (\<lambda>r. (CR_RuleCode r, EvaluateExpression lib (CR_CheckExpression r) (HostSnapshotPayload_json nilp s)))
      (GetBuiltinCISWindows11Rules now)
    = map (\<lambda>(code, required). (code, Inr required)) (cis_meaning lib nilp s)"
proof -
  have "map (\<lambda>r. (CR_RuleCode r, EvaluateExpression lib (CR_CheckExpression r) (HostSnapshotPayload_json nilp s)))
      (GetBuiltinCISWindows11Rules now)
    = zip (map CR_RuleCode (GetBuiltinCISWindows11Rules now))
        (map (\<lambda>r. EvaluateExpression lib (CR_CheckExpression r) (HostSnapshotPayload_json nilp s)) (GetBuiltinCISWindows11Rules now))"
    by (simp add: zip_map_map zip_same_conv_map)
  also have "\<dots> = zip (map fst (cis_meaning lib nilp s)) (map Inr (map snd (cis_meaning lib nilp s)))"
    by (simp only: rule_codes [of now lib nilp s] evaluate_builtin verdicts [OF assms])
  also have "\<dots> = map (\<lambda>(code, required). (code, Inr required)) (cis_meaning lib nilp s)"
    by (simp add: zip_map_map zip_same_conv_map case_prod_beta)
  finally show ?thesis .
qed

text \<open>A concrete instance.\<close>

definition demo_lib :: jl_lib where
  "demo_lib = \<lparr>JL_pick = (\<lambda>_. 0),
     JL_parse_float = (\<lambda>s. if s = ''1'' then Some 1 else if s = ''2'' \<or> s = ''2.0'' then Some 2 else None),
     JL_sprint = (\<lambda>_. []), JL_format2 = (\<lambda>_. []), JL_marshal = (\<lambda>_. [])\<rparr>"

lemma demo_lib_reads: "reads_numbers demo_lib"
  by (simp add: reads_numbers_def demo_lib_def)

theorem cis_rules_meaning_witness:
  "map (\<lambda>r. (CR_RuleCode r, EvaluateExpression demo_lib (CR_CheckExpression r) (HostSnapshotPayload_json (\<lambda>_. False) demo_snapshot)))
      (GetBuiltinCISWindows11Rules 0)
    = map (\<lambda>(code, required). (code, Inr required)) (cis_meaning demo_lib (\<lambda>_. False) demo_snapshot)
   \<and> map snd (filter (\<lambda>(code, required). required) (cis_meaning demo_lib (\<lambda>_. False) demo_snapshot)) \<noteq> []"
  using cis_rules_meaning [OF demo_lib_reads] by (simp add: cis_meaning_def demo_snapshot_def)

text \<open>Scores.\<close>

lemma score_pct_bounds:
  assumes "0 \<le> p" "p \<le> t" "0 < t"
  shows "0 \<le> score_pct p t \<and> score_pct p t \<le> 100 \<and> \<bar>score_pct p t - 100 * of_int p / of_int t\<bar> \<le> 1 / 200"
proof -
  let ?x = "of_int p / of_int t * 10000 :: rat"
  have x: "0 \<le> ?x" "?x \<le> 10000" using assms by (simp_all add: field_simps)
  have sc: "score_pct p t = of_int \<lfloor>?x + 1 / 2\<rfloor> / 100"
    using assms(3) x(1) by (simp add: score_pct_def round_half_away_def)
  have f: "of_int \<lfloor>?x + 1 / 2\<rfloor> \<le> ?x + 1 / 2" "?x - 1 / 2 < of_int \<lfloor>?x + 1 / 2\<rfloor>" by linarith+
  have "0 \<le> \<lfloor>?x + 1 / 2\<rfloor>" "\<lfloor>?x + 1 / 2\<rfloor> \<le> 10000" using x by linarith+
  then have "0 \<le> (of_int \<lfloor>?x + 1 / 2\<rfloor> :: rat)" "(of_int \<lfloor>?x + 1 / 2\<rfloor> :: rat) \<le> 10000" by simp_all
  moreover have "100 * of_int p / of_int t = ?x / 100" by simp
  ultimately show ?thesis using f unfolding sc by linarith
qed

lemma score_pct_threshold:
  assumes "0 \<le> p" "p \<le> t" "0 < t" "t < 2000"
  shows "score_pct p t \<ge> 90 \<longleftrightarrow> 9 * t \<le> 10 * p" "score_pct p t \<ge> 70 \<longleftrightarrow> 7 * t \<le> 10 * p"
proof -
  let ?x = "of_int p / of_int t * 10000 :: rat"
  have x: "0 \<le> ?x" using assms by simp
  have thr: "score_pct p t \<ge> of_int c \<longleftrightarrow> (200 * c - 1) * t \<le> 20000 * p" for c
  proof -
    have "score_pct p t \<ge> of_int c \<longleftrightarrow> 100 * c \<le> \<lfloor>?x + 1 / 2\<rfloor>"
    proof -
      have "score_pct p t = of_int \<lfloor>?x + 1 / 2\<rfloor> / 100"
        using assms(3) x by (simp add: score_pct_def round_half_away_def)
      moreover have "of_int c \<le> F / 100 \<longleftrightarrow> of_int (100 * c) \<le> F" for F :: rat by (simp add: mult.commute)
      ultimately have "score_pct p t \<ge> of_int c \<longleftrightarrow> of_int (100 * c) \<le> (of_int \<lfloor>?x + 1 / 2\<rfloor> :: rat)" by (simp only:)
      then show ?thesis by (simp only: of_int_le_iff)
    qed
    also have "\<dots> \<longleftrightarrow> of_int (100 * c) \<le> ?x + 1 / 2" by (simp only: le_floor_iff)
    also have "\<dots> \<longleftrightarrow> (of_int ((200 * c - 1) * t) :: rat) \<le> of_int (20000 * p)"
      using assms(3) by (simp add: field_simps)
    finally show ?thesis by (simp only: of_int_le_iff)
  qed
  show "score_pct p t \<ge> 90 \<longleftrightarrow> 9 * t \<le> 10 * p" using thr [of 90] assms by (simp, intro iffI) linarith+
  show "score_pct p t \<ge> 70 \<longleftrightarrow> 7 * t \<le> 10 * p" using thr [of 70] assms by (simp, intro iffI) linarith+
qed

text \<open>C24. An evaluation yields one result per rule of the framework, a pass exactly when the rule's
  check evaluates to true (an error is a failure), counts that add up to the number of rules, a
  score between 0 and 100 within half a hundredth of the exact percentage, and, below two thousand
  rules, the status COMPLIANT exactly from nine tenths of the rules on and DEGRADED exactly from
  seven tenths. The results and the score are what the host's lookup then returns, and no other
  host's entry changes.\<close>

theorem EvaluateHost_exact:
  assumes "tenantID \<noteq> []" "hostID \<noteq> []"
    and rules: "rules = ListRulesByFramework ord r (if fw = [] then CISWin11FrameworkCode else fw)" "rules \<noteq> []"
  shows "\<exists>r' results score.
    EvaluateHost lib nilp uid now ord r tenantID hostID hostname (Some s) fw = (r', Inr (results, score))
    \<and> map CE_RuleID results = map CR_ID rules
    \<and> map CE_Status results
        = map (\<lambda>rule. if rule_passes lib (HostSnapshotPayload_json nilp s) rule then ''PASS'' else ''FAIL'') rules
    \<and> CO_PassedRules score = int (length (filter (rule_passes lib (HostSnapshotPayload_json nilp s)) rules))
    \<and> CO_PassedRules score + CO_FailedRules score = int (length rules) \<and> CO_TotalRules score = int (length rules)
    \<and> 0 \<le> CO_Score score \<and> CO_Score score \<le> 100
    \<and> \<bar>CO_Score score - 100 * of_int (CO_PassedRules score) / of_int (CO_TotalRules score)\<bar> \<le> 1 / 200
    \<and> (length rules < 2000 \<longrightarrow>
         (CO_Status score = ''COMPLIANT'' \<longleftrightarrow> 9 * CO_TotalRules score \<le> 10 * CO_PassedRules score)
         \<and> (CO_Status score = ''NON_COMPLIANT'' \<longleftrightarrow> 10 * CO_PassedRules score < 7 * CO_TotalRules score))
    \<and> GetHostEvaluations r' tenantID hostID = Inr (results, Some score)
    \<and> (\<forall>t h. host_key t h \<noteq> host_key tenantID hostID \<longrightarrow> GetHostEvaluations r' t h = GetHostEvaluations r t h)"
proof -
  let ?data = "HostSnapshotPayload_json nilp s"
  let ?fw = "if fw = [] then CISWin11FrameworkCode else fw"
  let ?hn = "if hostname = [] then SSI_Hostname (HS_SystemIdentity s) else hostname"
  define results where "results = map (\<lambda>(i, rule). evaluate_rule lib uid now tenantID hostID ?hn ?data i rule) (List.enumerate 0 rules)"
  define p where "p = int (length (filter (\<lambda>e. CE_Status e = ''PASS'') results))"
  define f where "f = int (length (filter (\<lambda>e. CE_Status e \<noteq> ''PASS'') results))"
  define score where "score = \<lparr>CO_TenantID = tenantID, CO_HostID = hostID, CO_Hostname = ?hn,
      CO_FrameworkCode = ?fw, CO_TotalRules = p + f, CO_PassedRules = p, CO_FailedRules = f,
      CO_Score = score_pct p (p + f), CO_Status = host_status (score_pct p (p + f)), CO_LastEvaluatedAt = now\<rparr>"
  let ?r' = "SaveEvaluations r tenantID hostID results score"
  have run: "EvaluateHost lib nilp uid now ord r tenantID hostID hostname (Some s) fw = (?r', Inr (results, score))"
    using assms(1,2) rules by (simp add: EvaluateHost_def Let_def results_def p_def f_def score_def)
  have enum: "map (\<lambda>x. g (snd x)) (List.enumerate k xs) = map g xs" for g :: "ComplianceRule \<Rightarrow> string" and k xs
    by (induction xs arbitrary: k) simp_all
  have ids: "map CE_RuleID results = map CR_ID rules"
    using enum [of CR_ID] by (simp add: results_def evaluate_rule_def Let_def case_prod_beta comp_def)
  have st: "map CE_Status results = map (\<lambda>rule. if rule_passes lib ?data rule then ''PASS'' else ''FAIL'') rules"
    using enum [of "\<lambda>rule. if rule_passes lib ?data rule then ''PASS'' else ''FAIL''"]
    by (simp add: results_def evaluate_rule_def Let_def case_prod_beta comp_def)
  have "p = int (length (filter (\<lambda>x. x = ''PASS'') (map CE_Status results)))" by (simp add: p_def filter_map comp_def)
  also have "\<dots> = int (length (filter (rule_passes lib ?data) rules))"
    unfolding st by (simp add: filter_map comp_def)
  finally have p: "p = int (length (filter (rule_passes lib ?data) rules))" .
  have "p + f = int (length results)" unfolding p_def f_def using sum_length_filter_compl [of "\<lambda>e. CE_Status e = ''PASS''" results]
    by simp
  also have "length results = length rules" using ids by (metis length_map)
  finally have t: "p + f = int (length rules)" .
  have "0 < int (length rules)" using rules(2) by simp
  then have pos: "0 \<le> p" "p \<le> p + f" "0 < p + f" using t by (simp_all add: p_def f_def)
  note B = score_pct_bounds [OF pos]
  have fields: "CO_TotalRules score = p + f" "CO_PassedRules score = p" "CO_FailedRules score = f"
    "CO_Score score = score_pct p (p + f)" by (simp_all add: score_def)
  have thr: "length rules < 2000 \<longrightarrow>
         (CO_Status score = ''COMPLIANT'' \<longleftrightarrow> 9 * CO_TotalRules score \<le> 10 * CO_PassedRules score)
         \<and> (CO_Status score = ''NON_COMPLIANT'' \<longleftrightarrow> 10 * CO_PassedRules score < 7 * CO_TotalRules score)"
  proof
    assume "length rules < 2000"
    then have "p + f < 2000" using t by simp
    from score_pct_threshold [OF pos this] pos
    show "(CO_Status score = ''COMPLIANT'' \<longleftrightarrow> 9 * CO_TotalRules score \<le> 10 * CO_PassedRules score)
         \<and> (CO_Status score = ''NON_COMPLIANT'' \<longleftrightarrow> 10 * CO_PassedRules score < 7 * CO_TotalRules score)"
      by (auto simp: score_def host_status_def)
  qed
  have get: "GetHostEvaluations ?r' tenantID hostID = Inr (results, Some score)"
    "\<forall>t h. host_key t h \<noteq> host_key tenantID hostID \<longrightarrow> GetHostEvaluations ?r' t h = GetHostEvaluations r t h"
    by (simp_all add: GetHostEvaluations_def SaveEvaluations_def Let_def split: option.splits)
  show ?thesis
    by (intro exI [of _ ?r'] exI [of _ results] exI [of _ score] conjI run ids st thr get)
       (simp_all only: fields B p [symmetric] t [symmetric])
qed

text \<open>Witness of C24: the built-in rules on a concrete host.\<close>

definition demo_compliance :: MemoryComplianceRepository where
  "demo_compliance = \<lparr>MC_frameworks = Map.empty,
     MC_rules = [''r'' \<mapsto> hd (cis_smb_rules ''f'' 0)], MC_evaluations = Map.empty, MC_hostScores = Map.empty\<rparr>"

lemma demo_compliance_rules:
  "ListRulesByFramework [''r''] demo_compliance CISWin11FrameworkCode = [hd (cis_smb_rules ''f'' 0)]"
proof -
  have "norm_code CISWin11FrameworkCode = CISWin11FrameworkCode" by code_simp
  then show ?thesis by (simp add: ListRulesByFramework_def demo_compliance_def cis_smb_rules_def Let_def)
qed

theorem EvaluateHost_exact_witness:
  "\<exists>r' results score.
    EvaluateHost demo_lib (\<lambda>_. False) (\<lambda>_. ''id'') 0 [''r''] demo_compliance ''t'' ''h'' [] (Some demo_snapshot) []
      = (r', Inr (results, score)) \<and> CO_TotalRules score = 1 \<and> map CE_RuleID results = [''r-cis-18-9-8-1'']"
proof -
  have r: "[hd (cis_smb_rules ''f'' 0)]
      = ListRulesByFramework [''r''] demo_compliance (if [] = [] then CISWin11FrameworkCode else [])"
    by (simp add: demo_compliance_rules)
  have "CR_ID (hd (cis_smb_rules ''f'' 0)) = ''r-cis-18-9-8-1''" by (simp add: cis_smb_rules_def)
  with EvaluateHost_exact [of "''t''" "''h''" "[hd (cis_smb_rules ''f'' 0)]" "[''r'']" demo_compliance "[]" demo_lib
      "\<lambda>_. False" "\<lambda>_. ''id''" 0 "[]" demo_snapshot, OF _ _ r]
  show ?thesis by auto
qed

section \<open>Tenant summaries\<close>

text \<open>Every stored score sits under the key of its tenant and host, and no tenant contains the separator.\<close>

definition wf_scores :: "MemoryComplianceRepository \<Rightarrow> bool" where
  "wf_scores r \<longleftrightarrow> (\<forall>k sc. MC_hostScores r k = Some sc \<longrightarrow>
     k = host_key (CO_TenantID sc) (CO_HostID sc) \<and> CHR '':'' \<notin> set (CO_TenantID sc)
     \<and> 0 \<le> CO_Score sc \<and> CO_Score sc \<le> 100)"

lemma host_key_prefix:
  assumes "CHR '':'' \<notin> set t" "CHR '':'' \<notin> set t'"
  shows "has_prefix (host_key t' h) (t @ '':'') \<longleftrightarrow> t' = t"
proof
  assume "has_prefix (host_key t' h) (t @ '':'')"
  then obtain r where "host_key t' h = (t @ '':'') @ r" using has_prefixE by blast
  then have "split_on CHR '':'' (t' @ CHR '':'' # h) = split_on CHR '':'' (t @ CHR '':'' # r)" by (simp add: host_key_def)
  then show "t' = t" using assms by (simp add: split_on_append)
next
  assume "t' = t"
  then show "has_prefix (host_key t' h) (t @ '':'')" using has_prefix_append [of "t @ '':''" h] by (simp add: host_key_def)
qed

lemma three_way_count:
  "length (filter P xs) + length (filter (\<lambda>x. \<not> P x \<and> Q x) xs) + length (filter (\<lambda>x. \<not> P x \<and> \<not> Q x) xs) = length xs"
  by (induction xs) auto

lemma length_range_vals: "set ks \<subseteq> dom m \<Longrightarrow> length (range_vals m ks) = length ks"
  by (induction ks) auto

lemma range_vals_filter:
  "set ks \<subseteq> dom m \<Longrightarrow> filter P (range_vals m ks) = range_vals m (filter (\<lambda>k. P (the (m k))) ks)"
  by (induction ks) auto

lemma mean_bounds:
  assumes "xs \<noteq> []" "\<forall>x \<in> set xs. 0 \<le> x \<and> x \<le> (100 :: rat)"
  shows "0 \<le> sum_list xs / of_nat (length xs) \<and> sum_list xs / of_nat (length xs) \<le> 100"
proof -
  have "0 \<le> sum_list xs" "sum_list xs \<le> 100 * of_nat (length xs)"
    using assms(2) by (induction xs) (auto simp: algebra_simps)
  then show ?thesis using assms(1) by (simp add: field_simps)
qed

text \<open>The summary of a tenant counts exactly the hosts of that tenant whose latest score is for the
  framework, each in one of three classes by its score, and its average lies between 0 and 100;
  hosts of other tenants never enter it.\<close>

theorem GetTenantSummary_exact:
  assumes "wf_scores r" "iterates (MC_hostScores r) ord" "CHR '':'' \<notin> set tenantID" "norm_code fw \<noteq> []"
  shows "let su = GetTenantSummary ord now r tenantID fw;
             mine = {k. \<exists>sc. MC_hostScores r k = Some sc \<and> CO_TenantID sc = tenantID
                          \<and> equal_fold (CO_FrameworkCode sc) (norm_code fw)}
         in CS_TotalHosts su = int (card mine)
            \<and> CS_CompliantHosts su = int (card {k \<in> mine. 90 \<le> CO_Score (the (MC_hostScores r k))})
            \<and> CS_CompliantHosts su + CS_DegradedHosts su + CS_NonCompliantHosts su = CS_TotalHosts su
            \<and> 0 \<le> CS_AverageScore su \<and> CS_AverageScore su \<le> 100"
proof -
  let ?m = "MC_hostScores r"
  let ?pref = "\<lambda>k. has_prefix k (tenantID @ '':'')" and ?fwk = "\<lambda>sc. equal_fold (CO_FrameworkCode sc) (norm_code fw)"
  let ?ks = "filter (\<lambda>k. ?fwk (the (?m k))) (filter ?pref ord)"
  let ?mine = "{k. \<exists>sc. ?m k = Some sc \<and> CO_TenantID sc = tenantID \<and> ?fwk sc}"
  have ord: "distinct ord" "set ord = dom ?m" using assms(2) by (simp_all add: iterates_def)
  have scores: "tenant_scores ord r tenantID (norm_code fw) = range_vals ?m ?ks"
    using assms(4) ord(2) by (simp add: tenant_scores_def range_vals_filter subset_iff)
  have pref: "?pref k \<longleftrightarrow> CO_TenantID sc = tenantID" if "?m k = Some sc" for k sc
  proof -
    have "k = host_key (CO_TenantID sc) (CO_HostID sc)" "CHR '':'' \<notin> set (CO_TenantID sc)"
      using assms(1) that by (simp_all add: wf_scores_def)
    then show ?thesis using host_key_prefix [OF assms(3)] by metis
  qed
  have mine: "set ?ks = ?mine" using ord(2) pref by (auto simp: domIff)
  have dk: "distinct ?ks" "set ?ks \<subseteq> dom ?m" using ord by auto
  have n: "length (range_vals ?m ?ks) = card ?mine"
    using length_range_vals [OF dk(2)] distinct_card [OF dk(1)] mine by simp
  have c: "length (filter (\<lambda>x. 90 \<le> x) (map CO_Score (range_vals ?m ?ks)))
      = card {k \<in> ?mine. 90 \<le> CO_Score (the (?m k))}"
  proof -
    have "length (filter (\<lambda>x. 90 \<le> x) (map CO_Score (range_vals ?m ?ks)))
        = length (range_vals ?m (filter (\<lambda>k. 90 \<le> CO_Score (the (?m k))) ?ks))"
      using range_vals_filter [OF dk(2), of "\<lambda>sc. 90 \<le> CO_Score sc"] by (simp add: filter_map comp_def)
    also have "\<dots> = length (filter (\<lambda>k. 90 \<le> CO_Score (the (?m k))) ?ks)"
      using dk(2) by (intro length_range_vals) auto
    also have "\<dots> = card (set (filter (\<lambda>k. 90 \<le> CO_Score (the (?m k))) ?ks))"
      by (intro distinct_card [symmetric] distinct_filter dk(1))
    also have "set (filter (\<lambda>k. 90 \<le> CO_Score (the (?m k))) ?ks) = {k \<in> ?mine. 90 \<le> CO_Score (the (?m k))}"
      using mine by auto
    finally show ?thesis .
  qed
  let ?xs = "map CO_Score (range_vals ?m ?ks)"
  have su: "CS_TotalHosts (GetTenantSummary ord now r tenantID fw) = int (length ?xs)"
    "CS_CompliantHosts (GetTenantSummary ord now r tenantID fw) = int (length (filter (\<lambda>x. 90 \<le> x) ?xs))"
    "CS_DegradedHosts (GetTenantSummary ord now r tenantID fw) = int (length (filter (\<lambda>x. \<not> 90 \<le> x \<and> 70 \<le> x) ?xs))"
    "CS_NonCompliantHosts (GetTenantSummary ord now r tenantID fw) = int (length (filter (\<lambda>x. \<not> 90 \<le> x \<and> \<not> 70 \<le> x) ?xs))"
    "CS_AverageScore (GetTenantSummary ord now r tenantID fw)
      = (if 0 < int (length ?xs) then sum_list ?xs / of_int (int (length ?xs)) else 0)"
    using assms(4) scores by (simp_all add: GetTenantSummary_def Let_def)
  have "\<forall>x \<in> set ?xs. 0 \<le> x \<and> x \<le> 100"
    using assms(1) by (auto simp: set_range_vals wf_scores_def)
  then have avg: "0 \<le> CS_AverageScore (GetTenantSummary ord now r tenantID fw)
      \<and> CS_AverageScore (GetTenantSummary ord now r tenantID fw) \<le> 100"
    using mean_bounds [of ?xs] unfolding su by (cases "?xs = []") simp_all
  have three: "int (length (filter (\<lambda>x. 90 \<le> x) ?xs)) + int (length (filter (\<lambda>x. \<not> 90 \<le> x \<and> 70 \<le> x) ?xs))
      + int (length (filter (\<lambda>x. \<not> 90 \<le> x \<and> \<not> 70 \<le> x) ?xs)) = int (length ?xs)"
    using three_way_count [of "\<lambda>x. 90 \<le> x" ?xs "\<lambda>x. 70 \<le> x"] by (simp only: flip: of_nat_add)
  have "CS_TotalHosts (GetTenantSummary ord now r tenantID fw) = int (card ?mine)" using n by (simp only: su(1) length_map)
  moreover have "CS_CompliantHosts (GetTenantSummary ord now r tenantID fw)
      = int (card {k \<in> ?mine. 90 \<le> CO_Score (the (?m k))})" by (simp only: su(2) c)
  moreover have "CS_CompliantHosts (GetTenantSummary ord now r tenantID fw) + CS_DegradedHosts (GetTenantSummary ord now r tenantID fw)
      + CS_NonCompliantHosts (GetTenantSummary ord now r tenantID fw) = CS_TotalHosts (GetTenantSummary ord now r tenantID fw)"
    by (simp only: su(1-4) three)
  ultimately show ?thesis using avg unfolding Let_def by blast
qed

text \<open>A concrete instance.\<close>

definition demo_scores :: MemoryComplianceRepository where
  "demo_scores = demo_compliance\<lparr>MC_hostScores := [''t:h'' \<mapsto> \<lparr>CO_TenantID = ''t'', CO_HostID = ''h'', CO_Hostname = [],
     CO_FrameworkCode = ''f'', CO_TotalRules = 1, CO_PassedRules = 1, CO_FailedRules = 0, CO_Score = 100,
     CO_Status = ''COMPLIANT'', CO_LastEvaluatedAt = 0\<rparr>]\<rparr>"

theorem GetTenantSummary_exact_witness:
  "CS_CompliantHosts (GetTenantSummary [''t:h''] 0 demo_scores ''t'' ''F'') = 1"
proof -
  have "wf_scores demo_scores" by (simp add: wf_scores_def demo_scores_def host_key_def)
  moreover have "iterates (MC_hostScores demo_scores) [''t:h'']" by (simp add: iterates_def demo_scores_def)
  moreover have n: "norm_code ''F'' = ''f''" by code_simp
  ultimately have c: "CS_CompliantHosts (GetTenantSummary [''t:h''] 0 demo_scores ''t'' ''F'')
      = int (card {k \<in> {k. \<exists>sc. MC_hostScores demo_scores k = Some sc \<and> CO_TenantID sc = ''t''
                          \<and> equal_fold (CO_FrameworkCode sc) ''f''}. 90 \<le> CO_Score (the (MC_hostScores demo_scores k))})"
    using GetTenantSummary_exact [of demo_scores "[''t:h'']" "''t''" "''F''" 0] by (simp add: Let_def)
  have "{k \<in> {k. \<exists>sc. MC_hostScores demo_scores k = Some sc \<and> CO_TenantID sc = ''t''
      \<and> equal_fold (CO_FrameworkCode sc) ''f''}. 90 \<le> CO_Score (the (MC_hostScores demo_scores k))} = {''t:h''}"
    by (auto simp: demo_scores_def split: if_splits)
  then show ?thesis unfolding c by simp
qed

text \<open>With a separator in an identifier the prefix test confuses tenants: a host of the tenant \<open>a:b\<close>
  is counted for the tenant \<open>a\<close>.\<close>

lemma summary_prefix_confusion: "has_prefix (host_key ''a:b'' h) (''a'' @ '':'')"
  by (simp add: host_key_def has_prefix_def)

end
