(* ===== verification/Reports.thy ===== *)
theory Reports
  imports FleetProps Compliance
begin

text \<open>
  Reports (\<open>reports/generator.go\<close>, \<open>reports/types.go\<close>): the executive summary, the compliance audit and the vulnerability posture, over
  the repositories of the fleet, of findings, of compliance and of drift. Every order argument is the order in which a map is
  visited.
\<close>

definition ReportExecutiveSummary :: string where "ReportExecutiveSummary = ''EXECUTIVE_SUMMARY''"
definition ReportComplianceAudit :: string where "ReportComplianceAudit = ''COMPLIANCE_AUDIT''"
definition ReportVulnerabilityPosture :: string where "ReportVulnerabilityPosture = ''VULNERABILITY_POSTURE''"

record GenerateReportRequest =
  GR_Type :: string
  GR_FrameworkCode :: string
  GR_Title :: string

record ExecutiveSummaryReport =
  XR_ReportID :: string
  XR_GeneratedAt :: time
  XR_TenantID :: string
  XR_TotalEndpoints :: int
  XR_OnlineEndpoints :: int
  XR_BitLockerCoverage :: rat
  XR_TPMCoverage :: rat
  XR_DefenderCoverage :: rat
  XR_AverageCompliance :: rat
  XR_CriticalVulnerabilities :: int
  XR_KEVVulnerabilities :: int
  XR_UnacknowledgedDrifts :: int
  XR_OverallFleetStatus :: string

record NonCompliantHostItem =
  NH_HostID :: string
  NH_Hostname :: string
  NH_IPAddress :: string
  NH_FailedRules :: "string list"
  NH_HostScore :: rat

record ComplianceAuditReport =
  CAR_ReportID :: string
  CAR_GeneratedAt :: time
  CAR_TenantID :: string
  CAR_FrameworkCode :: string
  CAR_FrameworkName :: string
  CAR_TotalControls :: int
  CAR_PassedControls :: int
  CAR_FailedControls :: int
  CAR_ComplianceScore :: rat
  CAR_EvaluatedHosts :: int
  CAR_NonCompliantHosts :: "NonCompliantHostItem list"

record TopVulnerability =
  TV_CVEID :: string
  TV_Title :: string
  TV_CVSSScore :: rat
  TV_Severity :: string
  TV_IsKEV :: bool
  TV_AffectedCount :: int

record VulnerabilityPostureReport =
  VPR_ReportID :: string
  VPR_GeneratedAt :: time
  VPR_TenantID :: string
  VPR_TotalFindings :: int
  VPR_KEVCount :: int
  VPR_CriticalCount :: int
  VPR_HighCount :: int
  VPR_MediumCount :: int
  VPR_LowCount :: int
  VPR_TopCVEs :: "TopVulnerability list"
  VPR_AffectedHosts :: int

record ReportGenerator =
  RG_fleetRepo :: Repository
  RG_vulnRepo :: "MemoryFindingRepository option"
  RG_complianceRepo :: MemoryComplianceRepository
  RG_driftRepo :: MemoryDriftRepository

definition NewReportGenerator :: "Repository \<Rightarrow> MemoryFindingRepository option \<Rightarrow> MemoryComplianceRepository \<Rightarrow> MemoryDriftRepository \<Rightarrow> ReportGenerator" where
  "NewReportGenerator fleetRepo vulnRepo compRepo driftRepo =
     \<lparr>RG_fleetRepo = fleetRepo, RG_vulnRepo = vulnRepo, RG_complianceRepo = compRepo, RG_driftRepo = driftRepo\<rparr>"

text \<open>Both reports query with the zero options, so the repositories apply their default page.\<close>

definition no_finding_options :: FindingQueryOptions where
  "no_finding_options = \<lparr>FQ_Severity = [], FQ_Status = [], FQ_IsKEV = None, FQ_EndpointID = [], FQ_Search = [], FQ_Limit = 0, FQ_Offset = 0\<rparr>"

definition no_drift_options :: DriftQueryOptions where
  "no_drift_options = \<lparr>DQ_Severity = [], DQ_Category = [], DQ_HostID = [], DQ_IsAcknowledged = None, DQ_Limit = 0, DQ_Offset = 0\<rparr>"

definition report_findings :: "string list \<Rightarrow> ReportGenerator \<Rightarrow> string \<Rightarrow> VulnerabilityFinding list" where
  "report_findings ford g tenantID =
     (case RG_vulnRepo g of
        None \<Rightarrow> []
      | Some v \<Rightarrow> (case QueryFindings ford v tenantID no_finding_options of Inl _ \<Rightarrow> [] | Inr res \<Rightarrow> FL_Items res))"

definition fleet_status :: "int \<Rightarrow> int \<Rightarrow> int \<Rightarrow> rat \<Rightarrow> string" where
  "fleet_status kevCount critVulns unackedDrifts averageCompliance =
     (if kevCount > 0 \<or> critVulns > 0 \<or> unackedDrifts > 5 then ''CRITICAL_RISK''
      else if averageCompliance < 85 \<or> unackedDrifts > 0 then ''NEEDS_ATTENTION''
      else ''HEALTHY'')"

definition GenerateExecutiveSummary :: "string list \<Rightarrow> string list \<Rightarrow> string list \<Rightarrow> string list \<Rightarrow> string \<Rightarrow> time \<Rightarrow> ReportGenerator \<Rightarrow> string \<Rightarrow> ExecutiveSummaryReport" where
  "GenerateExecutiveSummary eord gord dord ford uid now g tenantID =
     (let metrics = GetFleetMetrics eord gord (RG_fleetRepo g);
          unackedDrifts = DL_Unacknowledged (QueryDriftEvents dord (RG_driftRepo g) tenantID no_drift_options);
          items = report_findings ford g tenantID;
          kevCount = count_if VF_IsKEV items;
          critVulns = count_if (\<lambda>f. equal_fold (VF_Severity f) ''CRITICAL'') items
      in \<lparr>XR_ReportID = uid, XR_GeneratedAt = now, XR_TenantID = tenantID, XR_TotalEndpoints = FM_TotalEndpoints metrics,
           XR_OnlineEndpoints = FM_OnlineEndpoints metrics, XR_BitLockerCoverage = FM_BitLockerRate metrics, XR_TPMCoverage = FM_TPMRate metrics,
           XR_DefenderCoverage = FM_DefenderRate metrics, XR_AverageCompliance = FM_AverageCompliance metrics,
           XR_CriticalVulnerabilities = critVulns, XR_KEVVulnerabilities = kevCount, XR_UnacknowledgedDrifts = unackedDrifts,
           XR_OverallFleetStatus = fleet_status kevCount critVulns unackedDrifts (FM_AverageCompliance metrics)\<rparr>)"

text \<open>\<open>None\<close>: there is no such framework. The in-memory summary never fails.\<close>

definition GenerateComplianceAudit :: "string list \<Rightarrow> string list \<Rightarrow> string \<Rightarrow> time \<Rightarrow> time \<Rightarrow> ReportGenerator \<Rightarrow> string \<Rightarrow> string \<Rightarrow> ComplianceAuditReport option" where
  "GenerateComplianceAudit rord sord uid now snow g tenantID frameworkCode =
     (let frameworkCode = (if frameworkCode = [] then CISWin11FrameworkCode else frameworkCode)
      in case GetFrameworkByCode (RG_complianceRepo g) frameworkCode of
           None \<Rightarrow> None
         | Some fw \<Rightarrow>
             (let rules = ListRulesByFramework rord (RG_complianceRepo g) frameworkCode;
                  summary = GetTenantSummary sord snow (RG_complianceRepo g) tenantID frameworkCode
              in Some \<lparr>CAR_ReportID = uid, CAR_GeneratedAt = now, CAR_TenantID = tenantID, CAR_FrameworkCode = CF_Code fw,
                   CAR_FrameworkName = CF_Name fw, CAR_TotalControls = int (length rules), CAR_PassedControls = int (length rules),
                   CAR_FailedControls = 0, CAR_ComplianceScore = CS_AverageScore summary, CAR_EvaluatedHosts = CS_TotalHosts summary,
                   CAR_NonCompliantHosts = []\<rparr>))"

record posture =
  PO_kev :: int
  PO_crit :: int
  PO_high :: int
  PO_med :: int
  PO_low :: int
  PO_hosts :: "string set"
  PO_top :: "TopVulnerability list"

definition posture_step :: "posture \<Rightarrow> VulnerabilityFinding \<Rightarrow> posture" where
  "posture_step p f =
     (let sev = to_upper (VF_Severity f);
          p = p\<lparr>PO_hosts := insert (VF_EndpointID f) (PO_hosts p), PO_kev := PO_kev p + (if VF_IsKEV f then 1 else 0)\<rparr>;
          p = (if sev = ''CRITICAL'' then p\<lparr>PO_crit := PO_crit p + 1\<rparr>
               else if sev = ''HIGH'' then p\<lparr>PO_high := PO_high p + 1\<rparr>
               else if sev = ''MEDIUM'' then p\<lparr>PO_med := PO_med p + 1\<rparr>
               else if sev = ''LOW'' then p\<lparr>PO_low := PO_low p + 1\<rparr> else p)
      in if length (PO_top p) < 10 then
           p\<lparr>PO_top := PO_top p @ [\<lparr>TV_CVEID = VF_CVEID f, TV_Title = VF_Title f, TV_CVSSScore = VF_CVSSScore f, TV_Severity = VF_Severity f,
             TV_IsKEV = VF_IsKEV f, TV_AffectedCount = 1\<rparr>]\<rparr>
         else p)"

definition GenerateVulnerabilityPosture :: "string list \<Rightarrow> string \<Rightarrow> time \<Rightarrow> ReportGenerator \<Rightarrow> string \<Rightarrow> VulnerabilityPostureReport" where
  "GenerateVulnerabilityPosture ford uid now g tenantID =
     (let findings = report_findings ford g tenantID;
          p = foldl posture_step \<lparr>PO_kev = 0, PO_crit = 0, PO_high = 0, PO_med = 0, PO_low = 0, PO_hosts = {}, PO_top = []\<rparr> findings
      in \<lparr>VPR_ReportID = uid, VPR_GeneratedAt = now, VPR_TenantID = tenantID, VPR_TotalFindings = int (length findings), VPR_KEVCount = PO_kev p,
           VPR_CriticalCount = PO_crit p, VPR_HighCount = PO_high p, VPR_MediumCount = PO_med p, VPR_LowCount = PO_low p,
           VPR_TopCVEs = PO_top p, VPR_AffectedHosts = int (card (PO_hosts p))\<rparr>)"


section \<open>What the reports say\<close>

lemma query_match_all [simp]: "query_match no_finding_options f"
  by (simp add: query_match_def no_finding_options_def trim_space_Nil)

definition tenant_findings :: "string list \<Rightarrow> MemoryFindingRepository \<Rightarrow> string \<Rightarrow> VulnerabilityFinding list" where
  "tenant_findings ford v tenantID = filter (\<lambda>f. VF_TenantID f = tenantID) (findings_in ford v)"

text \<open>The reports see the first fifty findings of the tenant in the order of the query.\<close>

lemma report_findings_page:
  assumes "tenantID \<noteq> []" "RG_vulnRepo g = Some v"
  shows "report_findings ford g tenantID = take 50 (sort_slice finding_before (tenant_findings ford v tenantID))"
  using assms by (simp add: report_findings_def QueryFindings_def Let_def tenant_findings_def page_take_drop clamp_limit_def
      clamp_offset_def no_finding_options_def [symmetric])
    (simp add: no_finding_options_def page_take_drop)

lemma filter_take_prefix:
  "sorted_wrt (\<lambda>x y. P y \<longrightarrow> P x) xs \<Longrightarrow> length (filter P (take n xs)) = min n (length (filter P xs))"
proof (induction xs arbitrary: n)
  case (Cons x xs)
  show ?case
  proof (cases "P x")
    case True
    then show ?thesis using Cons by (cases n) simp_all
  next
    case False
    then have n: "\<forall>y \<in> set xs. \<not> P y" using Cons.prems by auto
    then have "filter P xs = []" "filter P (take m xs) = []" for m by (auto simp: filter_empty_conv dest: in_set_takeD)
    then show ?thesis using False by (cases n) simp_all
  qed
qed simp

lemma mset_filter_length: "mset xs = mset ys \<Longrightarrow> length (filter P xs) = length (filter P ys)"
  by (metis mset_filter size_mset)

text \<open>Whatever their number, the executive summary misses no known-exploited finding of the tenant: it counts them up to its page
  of fifty; its critical findings are at most those there are, and all of them when the tenant has no more than fifty; and it calls
  the fleet healthy exactly when it counts neither, no drift is unacknowledged and the average compliance is at least 85.\<close>

theorem executive_summary_exact:
  assumes "tenantID \<noteq> []" "RG_vulnRepo g = Some v"
  shows "(let rep = GenerateExecutiveSummary eord gord dord ford uid now g tenantID; fs = tenant_findings ford v tenantID;
             crit = (\<lambda>f. equal_fold (VF_Severity f) ''CRITICAL'')
     in XR_KEVVulnerabilities rep = min 50 (count_if VF_IsKEV fs)
        \<and> XR_CriticalVulnerabilities rep \<le> count_if crit fs
        \<and> (length fs \<le> 50 \<longrightarrow> XR_CriticalVulnerabilities rep = count_if crit fs)
        \<and> (XR_OverallFleetStatus rep = ''HEALTHY'' \<longleftrightarrow>
             count_if VF_IsKEV fs = 0 \<and> XR_CriticalVulnerabilities rep = 0 \<and> XR_UnacknowledgedDrifts rep = 0
             \<and> 85 \<le> XR_AverageCompliance rep)
        \<and> (count_if VF_IsKEV fs > 0 \<longrightarrow> XR_OverallFleetStatus rep = ''CRITICAL_RISK''))"
proof -
  let ?fs = "tenant_findings ford v tenantID"
  let ?xs = "sort_slice finding_before ?fs"
  let ?crit = "\<lambda>f. equal_fold (VF_Severity f) ''CRITICAL''"
  have "sorted_wrt (\<lambda>x y. VF_IsKEV y \<longrightarrow> VF_IsKEV x) ?xs"
    by (rule sorted_wrt_mono_rel [OF _ finding_order.sorted_sort_slice]) (auto simp: finding_before_def split: if_splits)
  from filter_take_prefix [OF this, of 50]
  have k: "count_if VF_IsKEV (take 50 ?xs) = min 50 (count_if VF_IsKEV ?fs)"
    using mset_filter_length [of ?xs ?fs VF_IsKEV] by (simp add: count_if_def)
  have "length (filter ?crit (take 50 ?xs)) \<le> length (filter ?crit ?xs)"
    using append_take_drop_id [of 50 ?xs] filter_append [of ?crit "take 50 ?xs" "drop 50 ?xs"] by (metis length_append le_add1)
  then have c: "count_if ?crit (take 50 ?xs) \<le> count_if ?crit ?fs"
    using mset_filter_length [of ?xs ?fs ?crit] by (simp add: count_if_def)
  have e: "count_if ?crit (take 50 ?xs) = count_if ?crit ?fs" if "length ?fs \<le> 50"
    using that mset_filter_length [of ?xs ?fs ?crit] by (simp add: count_if_def)
  have d: "0 \<le> DL_Unacknowledged (QueryDriftEvents dord (RG_driftRepo g) tenantID no_drift_options)"
    by (simp add: QueryDriftEvents_def Let_def count_if_def)
  have n: "0 \<le> count_if VF_IsKEV ?fs" "0 \<le> count_if ?crit (take 50 ?xs)" by (simp_all add: count_if_def)
  show ?thesis
    unfolding GenerateExecutiveSummary_def report_findings_page [OF assms] Let_def ExecutiveSummaryReport.simps k
    using c e d n by (auto simp: fleet_status_def not_less)
qed

text \<open>A concrete instance.\<close>

theorem executive_summary_exact_witness:
  "XR_KEVVulnerabilities (GenerateExecutiveSummary [] [] [] [] ''u'' 9
       (NewReportGenerator (NewRepository (\<lambda>_. ''u'') (\<lambda>_. 5) (\<lambda>_. [])) (Some NewMemoryFindingRepository) (NewMemoryComplianceRepository 5)
          \<lparr>MD_events = Map.empty, MD_rules = Map.empty, MD_deliveryLogs = Map.empty\<rparr>) ''t'')
     = min 50 (count_if VF_IsKEV (tenant_findings [] NewMemoryFindingRepository ''t''))"
  using executive_summary_exact [of "''t''" "NewReportGenerator (NewRepository (\<lambda>_. ''u'') (\<lambda>_. 5) (\<lambda>_. [])) (Some NewMemoryFindingRepository)
      (NewMemoryComplianceRepository 5) \<lparr>MD_events = Map.empty, MD_rules = Map.empty, MD_deliveryLogs = Map.empty\<rparr>" NewMemoryFindingRepository "[]" "[]" "[]" "[]" "''u''" 9]
  unfolding Let_def NewReportGenerator_def ReportGenerator.simps by simp

lemma posture_step_fields:
  "PO_kev (posture_step p f) = PO_kev p + (if VF_IsKEV f then 1 else 0)"
  "PO_crit (posture_step p f) = PO_crit p + (if to_upper (VF_Severity f) = ''CRITICAL'' then 1 else 0)"
  "PO_high (posture_step p f) = PO_high p + (if to_upper (VF_Severity f) = ''HIGH'' then 1 else 0)"
  "PO_hosts (posture_step p f) = insert (VF_EndpointID f) (PO_hosts p)"
  by (simp_all add: posture_step_def Let_def)

lemma posture_counts:
  "PO_kev (foldl posture_step p fs) = PO_kev p + count_if VF_IsKEV fs"
  "PO_crit (foldl posture_step p fs) = PO_crit p + count_if (\<lambda>f. to_upper (VF_Severity f) = ''CRITICAL'') fs"
  "PO_high (foldl posture_step p fs) = PO_high p + count_if (\<lambda>f. to_upper (VF_Severity f) = ''HIGH'') fs"
  "PO_hosts (foldl posture_step p fs) = PO_hosts p \<union> VF_EndpointID ` set fs"
  by (induction fs arbitrary: p) (simp_all add: posture_step_fields count_if_def)

text \<open>The audit counts every control as passed, whatever the evaluations say.\<close>

lemma audit_passes_all_controls:
  "GenerateComplianceAudit rord sord uid now snow g tenantID code = Some rep \<Longrightarrow>
   CAR_PassedControls rep = CAR_TotalControls rep \<and> CAR_FailedControls rep = 0 \<and> CAR_NonCompliantHosts rep = []"
  by (auto simp: GenerateComplianceAudit_def Let_def split: option.splits)

end
