(* ===== verification/Rbac.thy ===== *)
theory Rbac
  imports GoBase
begin

text \<open>
  Roles and permissions (\<open>auth/types.go\<close>, \<open>auth/rbac.go\<close>), the step-up window
  (\<open>auth/stepup.go\<close>) and the mapping of identity-provider groups to roles (\<open>auth/oidc.go\<close>).
  A role is a string in the source (any value can occur in a token), and so it is here: the five
  tiers are constants, and every other string is a role without permissions.
\<close>

section \<open>Roles and permissions\<close>

type_synonym Role = string
type_synonym Permission = string

definition RoleViewer :: Role where "RoleViewer = ''viewer''"
definition RoleOperator :: Role where "RoleOperator = ''operator''"
definition RoleAuditor :: Role where "RoleAuditor = ''auditor''"
definition RoleAdmin :: Role where "RoleAdmin = ''admin''"
definition RoleSuperAdmin :: Role where "RoleSuperAdmin = ''superadmin''"

lemmas role_defs =
  RoleViewer_def RoleOperator_def RoleAuditor_def RoleAdmin_def RoleSuperAdmin_def

lemma role_neqs [simp]:
  "RoleViewer \<noteq> RoleOperator"
  "RoleViewer \<noteq> RoleAuditor"
  "RoleViewer \<noteq> RoleAdmin"
  "RoleViewer \<noteq> RoleSuperAdmin"
  "RoleOperator \<noteq> RoleViewer"
  "RoleOperator \<noteq> RoleAuditor"
  "RoleOperator \<noteq> RoleAdmin"
  "RoleOperator \<noteq> RoleSuperAdmin"
  "RoleAuditor \<noteq> RoleViewer"
  "RoleAuditor \<noteq> RoleOperator"
  "RoleAuditor \<noteq> RoleAdmin"
  "RoleAuditor \<noteq> RoleSuperAdmin"
  "RoleAdmin \<noteq> RoleViewer"
  "RoleAdmin \<noteq> RoleOperator"
  "RoleAdmin \<noteq> RoleAuditor"
  "RoleAdmin \<noteq> RoleSuperAdmin"
  "RoleSuperAdmin \<noteq> RoleViewer"
  "RoleSuperAdmin \<noteq> RoleOperator"
  "RoleSuperAdmin \<noteq> RoleAuditor"
  "RoleSuperAdmin \<noteq> RoleAdmin"
  by (simp_all add: role_defs)

definition PermissionReadTelemetry :: Permission where "PermissionReadTelemetry = ''read:telemetry''"
definition PermissionReadCompliance :: Permission where "PermissionReadCompliance = ''read:compliance''"
definition PermissionReadFindings :: Permission where "PermissionReadFindings = ''read:findings''"
definition PermissionReadDrift :: Permission where "PermissionReadDrift = ''read:drift''"
definition PermissionReadAuditLogs :: Permission where "PermissionReadAuditLogs = ''read:audit_logs''"
definition PermissionTriggerScans :: Permission where "PermissionTriggerScans = ''trigger:scans''"
definition PermissionCancelScans :: Permission where "PermissionCancelScans = ''cancel:scans''"
definition PermissionAcknowledgeDrift :: Permission where "PermissionAcknowledgeDrift = ''ack:drift''"
definition PermissionManageAlerts :: Permission where "PermissionManageAlerts = ''manage:alerts''"
definition PermissionManageCredentials :: Permission where "PermissionManageCredentials = ''manage:credentials''"
definition PermissionManageUsers :: Permission where "PermissionManageUsers = ''manage:users''"
definition PermissionManageTenants :: Permission where "PermissionManageTenants = ''manage:tenants''"
definition PermissionGenerateReports :: Permission where "PermissionGenerateReports = ''generate:reports''"

lemmas permission_defs =
  PermissionReadTelemetry_def PermissionReadCompliance_def PermissionReadFindings_def
  PermissionReadDrift_def PermissionReadAuditLogs_def PermissionTriggerScans_def
  PermissionCancelScans_def PermissionAcknowledgeDrift_def PermissionManageAlerts_def
  PermissionManageCredentials_def PermissionManageUsers_def PermissionManageTenants_def
  PermissionGenerateReports_def

lemma permission_neqs:
  "PermissionManageAlerts \<noteq> PermissionReadTelemetry"
  "PermissionManageAlerts \<noteq> PermissionReadCompliance"
  "PermissionManageAlerts \<noteq> PermissionReadFindings"
  "PermissionManageAlerts \<noteq> PermissionReadDrift"
  "PermissionManageAlerts \<noteq> PermissionGenerateReports"
  "PermissionManageAlerts \<noteq> PermissionTriggerScans"
  "PermissionManageAlerts \<noteq> PermissionCancelScans"
  "PermissionManageAlerts \<noteq> PermissionAcknowledgeDrift"
  "PermissionManageAlerts \<noteq> PermissionReadAuditLogs"
  "PermissionManageCredentials \<noteq> PermissionReadTelemetry"
  "PermissionManageCredentials \<noteq> PermissionReadCompliance"
  "PermissionManageCredentials \<noteq> PermissionReadFindings"
  "PermissionManageCredentials \<noteq> PermissionReadDrift"
  "PermissionManageCredentials \<noteq> PermissionGenerateReports"
  "PermissionManageCredentials \<noteq> PermissionTriggerScans"
  "PermissionManageCredentials \<noteq> PermissionCancelScans"
  "PermissionManageCredentials \<noteq> PermissionAcknowledgeDrift"
  "PermissionManageCredentials \<noteq> PermissionReadAuditLogs"
  "PermissionManageUsers \<noteq> PermissionReadTelemetry"
  "PermissionManageUsers \<noteq> PermissionReadCompliance"
  "PermissionManageUsers \<noteq> PermissionReadFindings"
  "PermissionManageUsers \<noteq> PermissionReadDrift"
  "PermissionManageUsers \<noteq> PermissionGenerateReports"
  "PermissionManageUsers \<noteq> PermissionTriggerScans"
  "PermissionManageUsers \<noteq> PermissionCancelScans"
  "PermissionManageUsers \<noteq> PermissionAcknowledgeDrift"
  "PermissionManageUsers \<noteq> PermissionReadAuditLogs"
  "PermissionManageTenants \<noteq> PermissionReadTelemetry"
  "PermissionManageTenants \<noteq> PermissionReadCompliance"
  "PermissionManageTenants \<noteq> PermissionReadFindings"
  "PermissionManageTenants \<noteq> PermissionReadDrift"
  "PermissionManageTenants \<noteq> PermissionGenerateReports"
  "PermissionManageTenants \<noteq> PermissionTriggerScans"
  "PermissionManageTenants \<noteq> PermissionCancelScans"
  "PermissionManageTenants \<noteq> PermissionAcknowledgeDrift"
  "PermissionManageTenants \<noteq> PermissionReadAuditLogs"
  "PermissionManageTenants \<noteq> PermissionManageAlerts"
  "PermissionManageTenants \<noteq> PermissionManageCredentials"
  "PermissionManageTenants \<noteq> PermissionManageUsers"
  "PermissionManageCredentials \<noteq> PermissionManageUsers"
  by (simp_all add: permission_defs)

text \<open>The composite literal of a \<open>map[Permission]bool\<close> whose values are all true.\<close>

definition grants :: "Permission list \<Rightarrow> (Permission \<rightharpoonup> bool)" where
  "grants ps = map_of (map (\<lambda>p. (p, True)) ps)"

lemma grants_Some: "grants ps p = Some b \<longleftrightarrow> p \<in> set ps \<and> b"
  by (induction ps) (auto simp: grants_def)

lemma grants_None: "grants ps p = None \<longleftrightarrow> p \<notin> set ps"
  by (induction ps) (auto simp: grants_def)

definition rolePermissions :: "Role \<rightharpoonup> (Permission \<rightharpoonup> bool)" where
  "rolePermissions =
     [RoleViewer \<mapsto> grants
        [PermissionReadTelemetry, PermissionReadCompliance, PermissionReadFindings,
         PermissionReadDrift, PermissionGenerateReports],
      RoleOperator \<mapsto> grants
        [PermissionReadTelemetry, PermissionReadCompliance, PermissionReadFindings,
         PermissionReadDrift, PermissionTriggerScans, PermissionCancelScans,
         PermissionAcknowledgeDrift, PermissionGenerateReports],
      RoleAuditor \<mapsto> grants
        [PermissionReadTelemetry, PermissionReadCompliance, PermissionReadFindings,
         PermissionReadDrift, PermissionReadAuditLogs, PermissionGenerateReports],
      RoleAdmin \<mapsto> grants
        [PermissionReadTelemetry, PermissionReadCompliance, PermissionReadFindings,
         PermissionReadDrift, PermissionReadAuditLogs, PermissionTriggerScans,
         PermissionCancelScans, PermissionAcknowledgeDrift, PermissionManageAlerts,
         PermissionManageCredentials, PermissionManageUsers, PermissionGenerateReports],
      RoleSuperAdmin \<mapsto> grants
        [PermissionReadTelemetry, PermissionReadCompliance, PermissionReadFindings,
         PermissionReadDrift, PermissionReadAuditLogs, PermissionTriggerScans,
         PermissionCancelScans, PermissionAcknowledgeDrift, PermissionManageAlerts,
         PermissionManageCredentials, PermissionManageUsers, PermissionManageTenants,
         PermissionGenerateReports]]"

text \<open>\<open>GetRolePermissions\<close> collects the keys of the role's map in the order of the loop.\<close>

definition GetRolePermissions :: "Permission list \<Rightarrow> Role \<Rightarrow> Permission list" where
  "GetRolePermissions ord role =
     (case rolePermissions role of None \<Rightarrow> []
      | Some permsMap \<Rightarrow> List.map_filter (\<lambda>p. map_option (\<lambda>_. p) (permsMap p)) ord)"

definition HasPermission :: "Role \<Rightarrow> Permission \<Rightarrow> bool" where
  "HasPermission role perm =
     (case rolePermissions role of None \<Rightarrow> False
      | Some permsMap \<Rightarrow> (case permsMap perm of None \<Rightarrow> False | Some b \<Rightarrow> b))"

fun HasAllPermissions :: "Role \<Rightarrow> Permission list \<Rightarrow> bool" where
  "HasAllPermissions role [] = True"
| "HasAllPermissions role (p # ps) =
     (if \<not> HasPermission role p then False else HasAllPermissions role ps)"

lemma HasAllPermissions_iff: "HasAllPermissions role ps \<longleftrightarrow> (\<forall>p \<in> set ps. HasPermission role p)"
  by (induction ps) auto

lemma rolePermissions_grants: "rolePermissions role = Some m \<Longrightarrow> \<exists>ps. m = grants ps"
  by (auto simp: rolePermissions_def split: if_splits)

lemma GetRolePermissions_set:
  assumes "rolePermissions role = Some m" "iterates m ord"
  shows "set (GetRolePermissions ord role) = {p. HasPermission role p}"
proof -
  obtain ps where m: "m = grants ps" using assms(1) rolePermissions_grants by blast
  have "set (GetRolePermissions ord role) = {p. p \<in> set ord \<and> m p \<noteq> None}"
    using assms(1) by (auto simp: GetRolePermissions_def set_map_filter_iff)
  also have "\<dots> = set ps"
    using assms(2) by (auto simp: iterates_def dom_def m grants_None)
  finally show ?thesis
    using assms(1) by (auto simp: HasPermission_def m grants_Some grants_None split: option.splits)
qed

definition roles :: "Role list" where
  "roles = [RoleViewer, RoleOperator, RoleAuditor, RoleAdmin, RoleSuperAdmin]"

lemma rolePermissions_None: "role \<notin> set roles \<Longrightarrow> rolePermissions role = None"
  by (simp add: rolePermissions_def roles_def)

lemma HasPermission_role: "HasPermission role p \<Longrightarrow> role \<in> set roles"
  using rolePermissions_None by (fastforce simp: HasPermission_def split: option.splits)

text \<open>The grants of each role, as sets; the proofs about the hierarchy compare them.\<close>

definition granted :: "Role \<Rightarrow> Permission set" where
  "granted role = {p. HasPermission role p}"

lemma granted_simps [simp]:
  "granted RoleViewer = {PermissionReadTelemetry, PermissionReadCompliance, PermissionReadFindings,
     PermissionReadDrift, PermissionGenerateReports}"
  "granted RoleOperator = granted RoleViewer \<union>
     {PermissionTriggerScans, PermissionCancelScans, PermissionAcknowledgeDrift}"
  "granted RoleAuditor = granted RoleViewer \<union> {PermissionReadAuditLogs}"
  "granted RoleAdmin = granted RoleOperator \<union> granted RoleAuditor \<union>
     {PermissionManageAlerts, PermissionManageCredentials, PermissionManageUsers}"
  "granted RoleSuperAdmin = granted RoleAdmin \<union> {PermissionManageTenants}"
  by (auto simp: granted_def HasPermission_def rolePermissions_def role_defs grants_Some
      split: option.splits)

section \<open>Identity-provider groups\<close>

definition rolePrecedence :: "Role \<Rightarrow> int" where
  "rolePrecedence r =
     (if r = RoleViewer then 1 else if r = RoleOperator then 2 else if r = RoleAuditor then 3
      else if r = RoleAdmin then 4 else if r = RoleSuperAdmin then 5 else 0)"

definition defaultGroupRoleMap :: "string \<rightharpoonup> Role" where
  "defaultGroupRoleMap =
     [''EndpointGuard-SuperAdmins'' \<mapsto> RoleSuperAdmin,
      ''EndpointGuard-Admins'' \<mapsto> RoleAdmin,
      ''EndpointGuard-Auditors'' \<mapsto> RoleAuditor,
      ''EndpointGuard-Operators'' \<mapsto> RoleOperator,
      ''EndpointGuard-Viewers'' \<mapsto> RoleViewer]"

record OIDCConfig =
  OIDC_IssuerURL :: string
  OIDC_ClientID :: string
  OIDC_ClientSecret :: string
  OIDC_RedirectURI :: string
  OIDC_GroupRoleMap :: "(string \<rightharpoonup> Role) option"

text \<open>A nil map is \<open>None\<close>; the constructor replaces it by the default map.\<close>

definition NewOIDCService :: "OIDCConfig \<Rightarrow> OIDCConfig" where
  "NewOIDCService cfg =
     (if OIDC_GroupRoleMap cfg = None then cfg\<lparr>OIDC_GroupRoleMap := Some defaultGroupRoleMap\<rparr>
      else cfg)"

definition group_role :: "OIDCConfig \<Rightarrow> string \<Rightarrow> Role option" where
  "group_role cfg g = (case OIDC_GroupRoleMap cfg of None \<Rightarrow> None | Some m \<Rightarrow> m g)"

fun map_groups :: "OIDCConfig \<Rightarrow> Role \<Rightarrow> string list \<Rightarrow> Role" where
  "map_groups cfg highestRole [] = highestRole"
| "map_groups cfg highestRole (g # gs) =
     (case group_role cfg g of
        None \<Rightarrow> map_groups cfg highestRole gs
      | Some mappedRole \<Rightarrow>
          if rolePrecedence mappedRole > rolePrecedence highestRole
          then map_groups cfg mappedRole gs else map_groups cfg highestRole gs)"

definition MapGroupsToRole :: "OIDCConfig \<Rightarrow> string list \<Rightarrow> Role" where
  "MapGroupsToRole cfg groups = map_groups cfg RoleViewer groups"

definition mapped_roles :: "OIDCConfig \<Rightarrow> string list \<Rightarrow> Role set" where
  "mapped_roles cfg gs = {r. \<exists>g \<in> set gs. group_role cfg g = Some r}"

lemma mapped_roles_Cons:
  "mapped_roles cfg (g # gs) =
     (case group_role cfg g of None \<Rightarrow> {} | Some r \<Rightarrow> {r}) \<union> mapped_roles cfg gs"
  by (auto simp: mapped_roles_def split: option.splits)

lemma map_groups_mem: "map_groups cfg h gs \<in> insert h (mapped_roles cfg gs)"
  by (induction gs arbitrary: h) (fastforce simp: mapped_roles_Cons split: option.splits)+

lemma map_groups_upper:
  "r \<in> insert h (mapped_roles cfg gs) \<Longrightarrow> rolePrecedence r \<le> rolePrecedence (map_groups cfg h gs)"
proof (induction gs arbitrary: h r)
  case Nil
  then show ?case by (simp add: mapped_roles_def)
next
  case (Cons g gs)
  have h: "rolePrecedence k \<le> rolePrecedence (map_groups cfg k gs)" for k
    by (rule Cons.IH) simp
  have m: "rolePrecedence r \<le> rolePrecedence (map_groups cfg k gs)"
    if "r \<in> mapped_roles cfg gs" for k by (rule Cons.IH) (simp add: that)
  show ?case
  proof (cases "group_role cfg g")
    case None
    with Cons.prems h m show ?thesis by (auto simp: mapped_roles_Cons)
  next
    case (Some k)
    with Cons.prems h [of h] h [of k] m [of h] m [of k] show ?thesis
      by (auto simp: mapped_roles_Cons)
  qed
qed

lemma rolePrecedence_inj:
  "0 < rolePrecedence r \<Longrightarrow> rolePrecedence r = rolePrecedence s \<Longrightarrow> r = s"
  by (simp add: rolePrecedence_def split: if_splits)

text \<open>Claims of the identity token and the local user they become (\<open>ProcessMockIDToken\<close>).\<close>

record User =
  User_ID :: string
  User_TenantID :: string
  User_Username :: string
  User_Email :: string
  User_DisplayName :: string
  User_Role :: Role
  User_IsActive :: bool
  User_IsBreakGlass :: bool
  User_TOTPEnabled :: bool
  User_PasswordHash :: string
  User_CreatedAt :: time
  User_UpdatedAt :: time

record OIDCClaims =
  Claims_Subject :: string
  Claims_Email :: string
  Claims_PreferredUsername :: string
  Claims_Name :: string
  Claims_Groups :: "string list"
  Claims_Roles :: "string list"

text \<open>
  The parsed claims are the argument (\<open>None\<close>: the JSON does not parse); the two calls of
  \<open>time.Now\<close> are \<open>t1\<close> and \<open>t2\<close>.
\<close>

definition ProcessMockIDToken :: "OIDCConfig \<Rightarrow> time \<Rightarrow> time \<Rightarrow> OIDCClaims option \<Rightarrow> User option" where
  "ProcessMockIDToken cfg t1 t2 parsed =
     (case parsed of None \<Rightarrow> None
      | Some claims \<Rightarrow>
         let allGroups = Claims_Groups claims @ Claims_Roles claims;
             resolvedRole = MapGroupsToRole cfg allGroups;
             username = (if Claims_PreferredUsername claims = [] then Claims_Email claims
                         else Claims_PreferredUsername claims)
         in Some \<lparr>User_ID = ''usr-oidc-'' @ Claims_Subject claims,
                  User_TenantID = ''tenant-default-01'',
                  User_Username = username,
                  User_Email = Claims_Email claims,
                  User_DisplayName = Claims_Name claims,
                  User_Role = resolvedRole,
                  User_IsActive = True,
                  User_IsBreakGlass = False,
                  User_TOTPEnabled = False,
                  User_PasswordHash = [],
                  User_CreatedAt = t1,
                  User_UpdatedAt = t2\<rparr>)"

section \<open>Step-up window\<close>

definition StepUpAuthValidityWindow :: duration where
  "StepUpAuthValidityWindow = 15 * Minute"

definition IsStepUpValid :: "time \<Rightarrow> time \<Rightarrow> bool" where
  "IsStepUpValid now stepUpAuthAt =
     (if stepUpAuthAt = zero_time then False
      else time_sub now stepUpAuthAt \<le> StepUpAuthValidityWindow)"

lemma IsStepUpValid_iff:
  "IsStepUpValid now t \<longleftrightarrow> t \<noteq> zero_time \<and> now - t \<le> 900000000000"
  by (simp add: IsStepUpValid_def StepUpAuthValidityWindow_def Minute_def time_sub_def
      min_int64_def max_int64_def min_le_iff_disj)

section \<open>Theorems\<close>

text \<open>The permission hierarchy: a viewer's rights are contained in an operator's and an
  auditor's, theirs in an administrator's, and those in a super-administrator's; only the
  super-administrator manages tenants, only the two administrators handle credentials, and a
  string that is none of the five roles has no permission at all.\<close>

theorem role_hierarchy:
  "granted RoleViewer \<subseteq> granted RoleOperator \<inter> granted RoleAuditor
   \<and> granted RoleOperator \<union> granted RoleAuditor \<subset> granted RoleAdmin
   \<and> granted RoleAdmin \<subset> granted RoleSuperAdmin
   \<and> {r. HasPermission r PermissionManageTenants} = {RoleSuperAdmin}
   \<and> {r. HasPermission r PermissionManageCredentials} = {RoleAdmin, RoleSuperAdmin}
   \<and> {r. granted r \<noteq> {}} = set roles"
proof (intro conjI)
  have dom: "{r. HasPermission r p} = {r \<in> set roles. p \<in> granted r}" for p
    using HasPermission_role by (auto simp: granted_def)
  show "{r. HasPermission r PermissionManageTenants} = {RoleSuperAdmin}"
    unfolding dom by (auto simp: roles_def permission_neqs)
  show "{r. HasPermission r PermissionManageCredentials} = {RoleAdmin, RoleSuperAdmin}"
    unfolding dom by (auto simp: roles_def permission_neqs)
  show "{r. granted r \<noteq> {}} = set roles"
  proof
    show "{r. granted r \<noteq> {}} \<subseteq> set roles"
      using HasPermission_role by (auto simp: granted_def)
    show "set roles \<subseteq> {r. granted r \<noteq> {}}" by (auto simp: roles_def)
  qed
  have "PermissionManageUsers \<in> granted RoleAdmin - (granted RoleOperator \<union> granted RoleAuditor)"
    by (simp add: permission_neqs)
  then show "granted RoleOperator \<union> granted RoleAuditor \<subset> granted RoleAdmin" by auto
  have "PermissionManageTenants \<in> granted RoleSuperAdmin - granted RoleAdmin"
    by (simp add: permission_neqs)
  then show "granted RoleAdmin \<subset> granted RoleSuperAdmin" by auto
qed auto

text \<open>The role an identity-provider login resolves to is the viewer role or the role of one
  of the user's groups, its precedence is the highest among these, and it does not depend on the
  order or repetition of the groups.\<close>

theorem MapGroupsToRole_highest:
  "MapGroupsToRole cfg gs \<in> insert RoleViewer (mapped_roles cfg gs)
   \<and> (\<forall>r. r \<in> mapped_roles cfg gs \<longrightarrow> rolePrecedence r \<le> rolePrecedence (MapGroupsToRole cfg gs))
   \<and> (set gs = set gs' \<longrightarrow> MapGroupsToRole cfg gs = MapGroupsToRole cfg gs')"
proof (intro conjI impI allI)
  let ?h = "\<lambda>gs. map_groups cfg RoleViewer gs"
  show "MapGroupsToRole cfg gs \<in> insert RoleViewer (mapped_roles cfg gs)"
    by (simp only: MapGroupsToRole_def map_groups_mem)
  show "rolePrecedence r \<le> rolePrecedence (MapGroupsToRole cfg gs)" if "r \<in> mapped_roles cfg gs" for r
    unfolding MapGroupsToRole_def using that by (intro map_groups_upper) simp
  assume "set gs = set gs'"
  then have eq: "mapped_roles cfg gs = mapped_roles cfg gs'" by (simp add: mapped_roles_def)
  have "rolePrecedence (?h gs) = rolePrecedence (?h gs')"
    by (rule order.antisym) (metis eq map_groups_mem map_groups_upper)+
  moreover have "0 < rolePrecedence (?h gs)"
    using map_groups_upper [of RoleViewer RoleViewer cfg gs] by (simp add: rolePrecedence_def)
  ultimately show "MapGroupsToRole cfg gs = MapGroupsToRole cfg gs'"
    unfolding MapGroupsToRole_def by (rule rolePrecedence_inj [rotated])
qed

text \<open>A concrete instance.\<close>

theorem MapGroupsToRole_highest_witness:
  "MapGroupsToRole (NewOIDCService \<lparr>OIDC_IssuerURL = [], OIDC_ClientID = [], OIDC_ClientSecret = [],
      OIDC_RedirectURI = [], OIDC_GroupRoleMap = None\<rparr>)
     [''EndpointGuard-Operators'', ''EndpointGuard-Admins''] = RoleAdmin"
proof -
  let ?cfg = "NewOIDCService \<lparr>OIDC_IssuerURL = [], OIDC_ClientID = [], OIDC_ClientSecret = [],
      OIDC_RedirectURI = [], OIDC_GroupRoleMap = None\<rparr>"
  have "set [''EndpointGuard-Operators'', ''EndpointGuard-Admins'']
      = set [''EndpointGuard-Admins'', ''EndpointGuard-Operators'']" by auto
  with MapGroupsToRole_highest [of ?cfg "[''EndpointGuard-Operators'', ''EndpointGuard-Admins'']"
      "[''EndpointGuard-Admins'', ''EndpointGuard-Operators'']"]
  have "MapGroupsToRole ?cfg [''EndpointGuard-Operators'', ''EndpointGuard-Admins'']
      = MapGroupsToRole ?cfg [''EndpointGuard-Admins'', ''EndpointGuard-Operators'']" by blast
  also have "\<dots> = RoleAdmin"
    by (simp add: MapGroupsToRole_def NewOIDCService_def group_role_def defaultGroupRoleMap_def
        rolePrecedence_def role_defs)
  finally show ?thesis .
qed

end
