(* ===== verification/Tokens.thy ===== *)
theory Tokens
  imports Rbac Base64
begin

text \<open>
  Access tokens (\<open>auth/jwt.go\<close>) and one-time codes (\<open>auth/totp.go\<close>). The primitives of the
  cryptographic and JSON libraries are arguments: \<open>hmac key message\<close>, \<open>hmac_sha1\<close>,
  \<open>marshal\<close>/\<open>unmarshal\<close> of the claims, the base32 decoders. What is relied on is a hypothesis of
  the theorem that relies on it. The clock reading is an argument.
\<close>

section \<open>JSON web tokens\<close>

record UserClaims =
  UC_TenantID :: string
  UC_UserID :: string
  UC_Email :: string
  UC_Role :: Role
  UC_StepUpAuthAt :: int
  UC_Issuer :: string
  UC_Subject :: string
  UC_Audience :: string
  UC_IssuedAt :: int
  UC_ExpiresAt :: int

record TokenService =
  TS_secretKey :: string
  TS_issuer :: string

definition NewTokenService :: "string \<Rightarrow> string \<Rightarrow> TokenService" where
  "NewTokenService secretKey issuer =
     \<lparr>TS_secretKey = secretKey,
      TS_issuer = (if issuer = [] then ''endpointguard-auth'' else issuer)\<rparr>"

definition unix :: "time \<Rightarrow> int" where "unix t = t div 1000000000"

definition headerJSON :: string where
  "headerJSON = ''{\"alg\":\"HS256\",\"typ\":\"JWT\"}''"

definition stamp :: "TokenService \<Rightarrow> time \<Rightarrow> duration \<Rightarrow> UserClaims \<Rightarrow> UserClaims" where
  "stamp s now ttl claims =
     claims\<lparr>UC_Issuer := TS_issuer s, UC_IssuedAt := unix now, UC_ExpiresAt := unix (now + ttl)\<rparr>"

lemma stamp_idem [simp]: "stamp s now ttl (stamp s now ttl c) = stamp s now ttl c"
  by (simp add: stamp_def)

type_synonym hmac_fun = "string \<Rightarrow> string \<Rightarrow> string"

definition GenerateToken ::
  "hmac_fun \<Rightarrow> (UserClaims \<Rightarrow> string) \<Rightarrow> TokenService \<Rightarrow> time \<Rightarrow> UserClaims \<Rightarrow> duration \<Rightarrow> string" where
  "GenerateToken hmac marshal s now claims ttl =
     (let b64Header = b64encode headerJSON;
          b64Claims = b64encode (marshal (stamp s now ttl claims));
          unsignedToken = b64Header @ ''.'' @ b64Claims;
          signature = b64encode (hmac (TS_secretKey s) unsignedToken)
      in unsignedToken @ ''.'' @ signature)"

datatype token_error =
  InvalidFormat | InvalidSignature | ClaimsDecodeFailed | ClaimsParseFailed | TokenExpired

definition VerifyToken ::
  "hmac_fun \<Rightarrow> (string \<Rightarrow> UserClaims option) \<Rightarrow> TokenService \<Rightarrow> time \<Rightarrow> string \<Rightarrow> token_error + UserClaims" where
  "VerifyToken hmac unmarshal s now tokenStr =
     (case split_on CHR ''.'' tokenStr of
        [p0, p1, p2] \<Rightarrow>
          (let unsignedToken = p0 @ ''.'' @ p1;
               expectedSignature = b64encode (hmac (TS_secretKey s) unsignedToken)
           in if p2 \<noteq> expectedSignature then Inl InvalidSignature
              else case b64decode p1 of
                None \<Rightarrow> Inl ClaimsDecodeFailed
              | Some claimsBytes \<Rightarrow>
                  (case unmarshal claimsBytes of
                     None \<Rightarrow> Inl ClaimsParseFailed
                   | Some claims \<Rightarrow>
                       if UC_ExpiresAt claims < unix now then Inl TokenExpired else Inr claims))
      | _ \<Rightarrow> Inl InvalidFormat)"

lemma split_three:
  assumes "CHR ''.'' \<notin> set a" "CHR ''.'' \<notin> set b" "CHR ''.'' \<notin> set c"
  shows "split_on CHR ''.'' (a @ CHR ''.'' # b @ CHR ''.'' # c) = [a, b, c]"
  using split_on_join [of "[a, b, c]" "CHR ''.''"] assms by simp

lemma three_parts:
  "split_on CHR ''.'' t = [a, b, c] \<Longrightarrow> t = a @ CHR ''.'' # b @ CHR ''.'' # c"
  using join_split_on [of "CHR ''.''" t] by simp

lemma VerifyToken_Inr:
  "VerifyToken hmac unmarshal s now tok = Inr claims \<longleftrightarrow>
     (\<exists>h p payload. split_on CHR ''.'' tok
          = [h, p, b64encode (hmac (TS_secretKey s) (h @ ''.'' @ p))]
        \<and> b64decode p = Some payload \<and> unmarshal payload = Some claims
        \<and> unix now \<le> UC_ExpiresAt claims)"
  unfolding VerifyToken_def
  by (auto simp: Let_def not_less split: list.splits if_splits option.splits)

lemma VerifyToken_roundtrip:
  assumes "unmarshal (marshal (stamp s now ttl claims)) = Some (stamp s now ttl claims)"
    and "unix now' \<le> unix (now + ttl)"
  shows "VerifyToken hmac unmarshal s now' (GenerateToken hmac marshal s now claims ttl)
         = Inr (stamp s now ttl claims)"
  using assms unfolding VerifyToken_Inr
  by (auto simp: GenerateToken_def Let_def split_three stamp_def)

section \<open>Time-based one-time passwords\<close>

definition totpStepSeconds :: int where "totpStepSeconds = 30"

text \<open>The secret of twenty random bytes, when they can be drawn.\<close>

definition GenerateTOTPSecret :: "(string \<Rightarrow> string) \<Rightarrow> string option \<Rightarrow> string option" where
  "GenerateTOTPSecret base32_encode entropy =
     (case entropy of None \<Rightarrow> None | Some bytes \<Rightarrow> Some (base32_encode bytes))"

text \<open>\<open>binary.BigEndian.PutUint64\<close> of \<open>uint64(x)\<close>: eight bytes, most significant first.\<close>

definition put_uint64 :: "int \<Rightarrow> string" where
  "put_uint64 x = map (\<lambda>i. char_of (nat ((x mod 2 ^ 64) div 256 ^ i mod 256))) [7, 6, 5, 4, 3, 2, 1, 0]"

text \<open>Dynamic truncation; \<open>None\<close> is the panic of an index outside the digest.\<close>

definition truncate_digest :: "string \<Rightarrow> nat option" where
  "truncate_digest hash =
     (if hash = [] then None
      else let offset = (of_char (last hash) :: nat) mod 16 in
        if offset + 4 \<le> length hash then
          (let b = (\<lambda>i. (of_char (hash ! (offset + i)) :: nat)) in
             Some ((b 0 * 16777216 + b 1 * 65536 + b 2 * 256 + b 3) mod 2147483648 mod 1000000))
        else None)"

definition pad6 :: "nat \<Rightarrow> string" where
  "pad6 n = (let d = dec_nat n in replicate (6 - length d) CHR ''0'' @ d)"

text \<open>\<open>decode\<close> is the secret's base32 decoding (unpadded, then padded); \<open>None\<close> its error.\<close>

definition GenerateTOTPCode ::
  "(string \<Rightarrow> string option) \<Rightarrow> hmac_fun \<Rightarrow> string \<Rightarrow> time \<Rightarrow> string option" where
  "GenerateTOTPCode decode hmac_sha1 secretBase32 t =
     (case decode (to_upper (trim_space secretBase32)) of
        None \<Rightarrow> None
      | Some secretBytes \<Rightarrow>
          map_option pad6
            (truncate_digest (hmac_sha1 secretBytes (put_uint64 (quot (unix t) totpStepSeconds)))))"

text \<open>The loop over the allowed clock skew, from \<open>-skew\<close> upwards.\<close>

fun totp_scan :: "(int \<Rightarrow> string option) \<Rightarrow> string \<Rightarrow> int list \<Rightarrow> bool" where
  "totp_scan gen code [] = False"
| "totp_scan gen code (i # is) = (if gen i = Some code then True else totp_scan gen code is)"

text \<open>The instant \<open>i\<close> steps away; the product is a 64-bit \<open>time.Duration\<close>.\<close>

definition totp_time :: "time \<Rightarrow> int \<Rightarrow> time" where
  "totp_time t i = t + wrap64 (wrap64 (i * totpStepSeconds) * Second)"

definition ValidateTOTPCode ::
  "(string \<Rightarrow> string option) \<Rightarrow> hmac_fun \<Rightarrow> string \<Rightarrow> string \<Rightarrow> time \<Rightarrow> int \<Rightarrow> bool" where
  "ValidateTOTPCode decode hmac_sha1 secretBase32 code0 t skewSteps0 =
     (let code = trim_space code0 in
      if length code \<noteq> 6 then False
      else let skewSteps = (if skewSteps0 < 0 then 1 else skewSteps0) in
        totp_scan (\<lambda>i. GenerateTOTPCode decode hmac_sha1 secretBase32 (totp_time t i))
          code [- skewSteps..skewSteps])"

lemma totp_scan_iff: "totp_scan gen code is \<longleftrightarrow> (\<exists>i \<in> set is. gen i = Some code)"
  by (induction "is") auto

lemma length_dec_nat: "n < 10 ^ k \<Longrightarrow> 0 < k \<Longrightarrow> length (dec_nat n) \<le> k"
proof (induction n arbitrary: k rule: dec_nat.induct)
  case (1 n)
  show ?case
  proof (cases "n < 10")
    case True
    with 1 show ?thesis by (simp add: dec_nat.simps [of n])
  next
    case False
    then obtain j where k: "k = Suc j" "0 < j"
      using 1 by (cases k; cases "k - 1") auto
    have "n div 10 < 10 ^ j" using "1.prems" k by (simp add: div_less_iff_less_mult mult.commute)
    with "1.IH" [OF False this \<open>0 < j\<close>] show ?thesis using False k by (simp add: dec_nat.simps [of n])
  qed
qed

lemma length_pad6: "n < 1000000 \<Longrightarrow> length (pad6 n) = 6"
  using length_dec_nat [of n 6] by (simp add: pad6_def Let_def)

lemma pad6_digits: "c \<in> set (pad6 n) \<Longrightarrow> is_digit c"
  using dec_nat_digits by (auto simp: pad6_def Let_def is_digit_def)

lemma truncate_digest_bound: "truncate_digest h = Some n \<Longrightarrow> n < 1000000"
  by (auto simp: truncate_digest_def Let_def split: if_splits)

lemma GenerateTOTPCode_shape:
  "GenerateTOTPCode decode h s t = Some code \<Longrightarrow> length code = 6 \<and> (\<forall>c \<in> set code. is_digit c)"
  by (auto simp: GenerateTOTPCode_def length_pad6 truncate_digest_bound pad6_digits split: option.splits)

section \<open>Theorems\<close>

text \<open>C10. A token is accepted exactly when it consists of three dot-separated parts whose last is
  the signature the service computes over the first two, the payload decodes and parses, and the
  expiry second has not passed; the claims returned are those of the signed payload.\<close>

theorem VerifyToken_exact:
  "VerifyToken hmac unmarshal s now tok = Inr claims \<longleftrightarrow>
     (\<exists>h p payload. tok = h @ ''.'' @ p @ ''.'' @ b64encode (hmac (TS_secretKey s) (h @ ''.'' @ p))
        \<and> CHR ''.'' \<notin> set h \<and> CHR ''.'' \<notin> set p
        \<and> b64decode p = Some payload \<and> unmarshal payload = Some claims
        \<and> unix now \<le> UC_ExpiresAt claims)" (is "?l \<longleftrightarrow> ?r")
proof
  assume ?l
  then obtain h p payload where *: "split_on CHR ''.'' tok
        = [h, p, b64encode (hmac (TS_secretKey s) (h @ ''.'' @ p))]"
      "b64decode p = Some payload" "unmarshal payload = Some claims" "unix now \<le> UC_ExpiresAt claims"
    by (auto simp: VerifyToken_Inr)
  moreover have "CHR ''.'' \<notin> set h" "CHR ''.'' \<notin> set p"
    using split_on_parts [of h "CHR ''.''" tok] split_on_parts [of p "CHR ''.''" tok] *(1) by simp_all
  ultimately show ?r using three_parts [OF *(1)] by auto
next
  assume ?r
  then show ?l unfolding VerifyToken_Inr by (auto simp: split_three)
qed

text \<open>Round trip: a token the service generates verifies, under the same key and until the
  second it expires in, to the claims it was generated from with issuer, issue and expiry time
  filled in.\<close>

theorem VerifyToken_GenerateToken:
  assumes "unmarshal (marshal (stamp s now ttl claims)) = Some (stamp s now ttl claims)"
    and "unix now' \<le> unix (now + ttl)"
  shows "VerifyToken hmac unmarshal s now' (GenerateToken hmac marshal s now claims ttl)
         = Inr (stamp s now ttl claims)"
  using assms by (rule VerifyToken_roundtrip)

text \<open>A concrete instance.\<close>

theorem VerifyToken_GenerateToken_witness:
  "\<exists>claims. VerifyToken (\<lambda>k m. k @ m)
       (\<lambda>t. if t = ''c'' then Some claims else None) (NewTokenService ''key'' []) 0
       (GenerateToken (\<lambda>k m. k @ m) (\<lambda>c. ''c'') (NewTokenService ''key'' []) 0 claims Second) = Inr claims"
proof -
  let ?s = "NewTokenService ''key'' []"
  let ?c = "stamp ?s 0 Second \<lparr>UC_TenantID = ''t'', UC_UserID = ''u'', UC_Email = [], UC_Role = RoleViewer,
     UC_StepUpAuthAt = 0, UC_Issuer = [], UC_Subject = [], UC_Audience = [], UC_IssuedAt = 0,
     UC_ExpiresAt = 0\<rparr>"
  have "VerifyToken (\<lambda>k m. k @ m) (\<lambda>t. if t = ''c'' then Some ?c else None) ?s 0
       (GenerateToken (\<lambda>k m. k @ m) (\<lambda>c. ''c'') ?s 0 ?c Second) = Inr (stamp ?s 0 Second ?c)"
    by (rule VerifyToken_GenerateToken) (simp_all add: unix_def Second_def)
  then show ?thesis unfolding stamp_idem by blast
qed

text \<open>A one-time code is accepted exactly when, after trimming, it is the code generated at the
  verification time or at one at most \<open>skew\<close> steps of thirty seconds away from it (one step for
  a negative skew), and every generated code consists of six digits.\<close>

theorem ValidateTOTPCode_exact:
  assumes "skew \<le> 100000000"
  shows "(ValidateTOTPCode decode h secret code t skew \<longleftrightarrow>
     (\<exists>i. \<bar>i\<bar> \<le> (if skew < 0 then 1 else skew)
        \<and> GenerateTOTPCode decode h secret (t + i * 30 * Second) = Some (trim_space code)))
   \<and> (GenerateTOTPCode decode h secret t = Some c \<longrightarrow> length c = 6 \<and> (\<forall>x \<in> set c. is_digit x))"
proof
  let ?k = "if skew < 0 then 1 else skew"
  have tt: "totp_time t i = t + i * 30 * Second" if "i \<in> set [- ?k..?k]" for i
  proof -
    have "-100000000 \<le> i" "i \<le> 100000000" using that assms by (auto split: if_splits)
    then have "fits64 (i * 30)" "fits64 (i * 30 * Second)"
      by (auto simp: fits64_def min_int64_def max_int64_def Second_def)
    then show ?thesis by (simp add: totp_time_def totpStepSeconds_def wrap64_id)
  qed
  have "ValidateTOTPCode decode h secret code t skew \<longleftrightarrow> length (trim_space code) = 6 \<and>
     (\<exists>i \<in> set [- ?k..?k]. GenerateTOTPCode decode h secret (t + i * 30 * Second) = Some (trim_space code))"
    unfolding ValidateTOTPCode_def totp_scan_iff Let_def using tt by auto
  also have "\<dots> \<longleftrightarrow> (\<exists>i. \<bar>i\<bar> \<le> ?k
        \<and> GenerateTOTPCode decode h secret (t + i * 30 * Second) = Some (trim_space code))"
    using GenerateTOTPCode_shape [of decode h secret] by (auto simp: abs_le_iff)
  finally show "ValidateTOTPCode decode h secret code t skew \<longleftrightarrow> (\<exists>i. \<bar>i\<bar> \<le> ?k
        \<and> GenerateTOTPCode decode h secret (t + i * 30 * Second) = Some (trim_space code))" .
  show "GenerateTOTPCode decode h secret t = Some c \<longrightarrow> length c = 6 \<and> (\<forall>x \<in> set c. is_digit x)"
    using GenerateTOTPCode_shape by blast
qed

text \<open>A concrete instance.\<close>

theorem ValidateTOTPCode_exact_witness:
  "ValidateTOTPCode Some (\<lambda>k m. [CHR 0x00, CHR 0x00, CHR 0x00, CHR 0x07, CHR 0x00]) ''A'' '' 000007 '' 0 1"
proof -
  let ?h = "\<lambda>k m. [CHR 0x00, CHR 0x00, CHR 0x00, CHR 0x07, CHR 0x00]"
  have t: "trim_space '' 000007 '' = ''000007''" by (simp add: trim_space_def trim_def is_space_def)
  have "dec_nat 7 = ''7''" by code_simp
  moreover have "replicate 5 CHR ''0'' = ''00000''" by code_simp
  ultimately have "GenerateTOTPCode Some ?h ''A'' (0 + 0 * 30 * Second) = Some ''000007''"
    by (simp add: GenerateTOTPCode_def truncate_digest_def pad6_def Let_def)
  then have ex: "\<exists>i. \<bar>i\<bar> \<le> (if 1 < (0 :: int) then 1 else 1)
      \<and> GenerateTOTPCode Some ?h ''A'' (0 + i * 30 * Second) = Some (trim_space '' 000007 '')"
    unfolding t by (intro exI [of _ 0] conjI) simp_all
  have "(1 :: int) \<le> 100000000" by simp
  from conjunct1 [OF ValidateTOTPCode_exact [OF this, of Some ?h "''A''" "'' 000007 ''" 0]] ex
  show ?thesis by (rule iffD2)
qed

end
