(* ===== verification/AuthHttp.thy ===== *)
theory AuthHttp
  imports Tokens RateLimit
begin

text \<open>
  The authentication middlewares (\<open>auth/middleware.go\<close>). The two context keys are the fields of
  the record \<open>AuthCtx\<close>; a nil pointer to claims and an absent one are both \<open>None\<close>.
\<close>

record AuthCtx =
  Ctx_Tenant :: "string option"
  Ctx_Claims :: "UserClaims option"

type_synonym 'b auth_handler = "(AuthCtx, 'b) handler"

definition with_auth :: "string \<Rightarrow> UserClaims \<Rightarrow> AuthCtx Request \<Rightarrow> AuthCtx Request" where
  "with_auth tenant claims r = r\<lparr>R_Ctx := \<lparr>Ctx_Tenant = Some tenant, Ctx_Claims = Some claims\<rparr>\<rparr>"

text \<open>\<open>strings.SplitN(s, sep, 2)\<close>.\<close>

definition split2 :: "char \<Rightarrow> string \<Rightarrow> string list" where
  "split2 c s = (case first_index c s of None \<Rightarrow> [s] | Some i \<Rightarrow> [take i s, drop (i + 1) s])"

definition RequireAuth ::
  "(string \<Rightarrow> token_error + UserClaims) \<Rightarrow> time \<Rightarrow> 'b auth_handler \<Rightarrow> 'b auth_handler" where
  "RequireAuth verify now next r w =
     (let authHeader = header_get r ''Authorization'' in
      if authHeader = [] then
        WriteProblemDetails now w r 401 ''MISSING_AUTHORIZATION''
          ''Authorization header with Bearer token is required'' []
      else
        (case split2 CHR '' '' authHeader of
           [scheme, tok] \<Rightarrow>
             if \<not> equal_fold scheme ''Bearer'' then
               WriteProblemDetails now w r 401 ''INVALID_AUTH_SCHEME''
                 (''Authorization format must be 'Bearer <token>'' @ [CHR 0x27]) []
             else
               (case verify tok of
                  Inl _ \<Rightarrow> WriteProblemDetails now w r 401 ''INVALID_TOKEN''
                    ''Supplied JWT token is invalid or expired'' []
                | Inr claims \<Rightarrow> next (with_auth (UC_TenantID claims) claims r) w)
         | _ \<Rightarrow> WriteProblemDetails now w r 401 ''INVALID_AUTH_SCHEME''
                 (''Authorization format must be 'Bearer <token>'' @ [CHR 0x27]) []))"

definition fallback_claims :: "time \<Rightarrow> string \<Rightarrow> UserClaims" where
  "fallback_claims now tenantID =
     \<lparr>UC_TenantID = tenantID, UC_UserID = ''usr-default-admin'',
      UC_Email = ''admin@endpointguard.local'', UC_Role = RoleSuperAdmin,
      UC_StepUpAuthAt = unix now, UC_Issuer = [], UC_Subject = [], UC_Audience = [],
      UC_IssuedAt = 0, UC_ExpiresAt = 0\<rparr>"

text \<open>The next handler is always called, with the response untouched: it may give anything.\<close>

definition OptionalAuth ::
  "(string \<Rightarrow> token_error + UserClaims) \<Rightarrow> time \<Rightarrow> string \<Rightarrow> (AuthCtx Request \<Rightarrow> 'w \<Rightarrow> 'a) \<Rightarrow> AuthCtx Request \<Rightarrow> 'w \<Rightarrow> 'a" where
  "OptionalAuth verify now defaultTenant next r w =
     (let authHeader = header_get r ''Authorization'';
          parsed = (if authHeader \<noteq> [] \<and> has_prefix (to_lower authHeader) ''bearer ''
                    then verify (trim_space (drop 7 authHeader)) else Inl InvalidFormat)
      in case parsed of
           Inr claims \<Rightarrow> next (with_auth (UC_TenantID claims) claims r) w
         | Inl _ \<Rightarrow>
             (let tenantID = header_get r ''X-Tenant-Id'';
                  tenantID = (if tenantID = [] then defaultTenant else tenantID);
                  tenantID = (if tenantID = [] then ''tenant-default-01'' else tenantID)
              in next (with_auth tenantID (fallback_claims now tenantID) r) w))"

definition GetUserClaims :: "('z) AuthCtx_scheme \<Rightarrow> UserClaims option" where
  "GetUserClaims ctx = Ctx_Claims ctx"

definition GetTenantID :: "('z) AuthCtx_scheme \<Rightarrow> string" where
  "GetTenantID ctx =
     (case Ctx_Tenant ctx of Some val \<Rightarrow> (if val \<noteq> [] then val else ''tenant-default-01'')
      | None \<Rightarrow> ''tenant-default-01'')"

definition GetUserID :: "('z) AuthCtx_scheme \<Rightarrow> string" where
  "GetUserID ctx =
     (case GetUserClaims ctx of
        Some claims \<Rightarrow> (if UC_UserID claims \<noteq> [] then UC_UserID claims else ''admin_operator'')
      | None \<Rightarrow> ''admin_operator'')"

definition RequirePermission :: "Permission \<Rightarrow> time \<Rightarrow> 'b auth_handler \<Rightarrow> 'b auth_handler" where
  "RequirePermission perm now next r w =
     (case GetUserClaims (R_Ctx r) of
        None \<Rightarrow> WriteProblemDetails now w r 401 ''UNAUTHENTICATED''
          ''Authentication required to perform this action'' []
      | Some claims \<Rightarrow>
          if \<not> HasPermission (UC_Role claims) perm then
            WriteProblemDetails now w r 403 ''FORBIDDEN_INSUFFICIENT_PERMISSIONS''
              (''Your role ('' @ UC_Role claims @ '') does not have permission: '' @ perm) []
          else next r w)"

text \<open>The instant the step-up check measures from.\<close>

definition last_auth :: "UserClaims \<Rightarrow> time" where
  "last_auth claims =
     (if UC_StepUpAuthAt claims > 0 then UC_StepUpAuthAt claims * Second else UC_IssuedAt claims * Second)"

definition RequireStepUp :: "time \<Rightarrow> 'b auth_handler \<Rightarrow> 'b auth_handler" where
  "RequireStepUp now next r w =
     (case GetUserClaims (R_Ctx r) of
        None \<Rightarrow> WriteProblemDetails now w r 401 ''UNAUTHENTICATED'' ''Authentication required'' []
      | Some claims \<Rightarrow>
          if \<not> IsStepUpValid now (last_auth claims) then
            WriteProblemDetails now w r 403 ''STEP_UP_AUTH_REQUIRED''
              ''This sensitive operation requires step-up re-authentication within the last 15 minutes'' []
          else next r w)"

definition CSRFProtectionMiddleware :: "time \<Rightarrow> ('c, 'b) handler \<Rightarrow> ('c, 'b) handler" where
  "CSRFProtectionMiddleware now next r w =
     (if safe_method (R_Method r) then next r w
      else
        (case R_Cookie r ''csrf_token'' of
           Some v \<Rightarrow>
             if v \<noteq> [] then
               (let csrfHeader = header_get r ''X-Csrf-Token'' in
                if csrfHeader = [] \<or> csrfHeader \<noteq> v then
                  WriteProblemDetails now w r 403 ''CSRF_TOKEN_MISMATCH''
                    ''Missing or invalid X-CSRF-Token header matching csrf_token cookie'' []
                else next r w)
             else next r w
         | None \<Rightarrow> next r w))"

section \<open>Which requests reach the handler\<close>

text \<open>A handler that records the context it is run in.\<close>

definition spy :: "('c, 'c) handler" where
  "spy r w = encode_body (Data (R_Ctx r)) w"

definition runs :: "('c, 'c) handler \<Rightarrow> 'c Request \<Rightarrow> 'c \<Rightarrow> bool" where
  "runs h r ctx \<longleftrightarrow> Data ctx \<in> set (W_Body (h r new_response))"

lemma problem_not_Data [simp]:
  "Data ctx \<in> set (W_Body (WriteProblemDetails now w r st ec d ps)) \<longleftrightarrow> Data ctx \<in> set (W_Body w)"
  by (simp add: WriteProblemDetails_def Let_def encode_body_def write_header_def set_header_def
      split: option.splits)

lemma runs_spy [simp]: "Data ctx \<in> set (W_Body (spy r w)) \<longleftrightarrow> ctx = R_Ctx r \<or> Data ctx \<in> set (W_Body w)"
  by (auto simp: spy_def encode_body_def Let_def write_header_def split: option.splits)

lemma new_response_body [simp]: "W_Body new_response = []"
  by (simp add: new_response_def)

lemma first_index_append: "c \<notin> set a \<Longrightarrow> first_index c (a @ c # b) = Some (length a)"
  by (simp add: first_index_def takeWhile_append)

lemma split2_two: "split2 c s = [a, b] \<longleftrightarrow> c \<notin> set a \<and> s = a @ c # b"
proof
  assume l: "split2 c s = [a, b]"
  then have c: "c \<in> set s" by (auto simp: split2_def first_index_def split: if_splits)
  then obtain u v where s: "s = u @ c # v" and u: "c \<notin> set u" by (meson split_list_first)
  with l show "c \<notin> set a \<and> s = a @ c # b" by (simp add: split2_def first_index_append)
next
  assume "c \<notin> set a \<and> s = a @ c # b"
  then show "split2 c s = [a, b]" by (simp add: split2_def first_index_append)
qed

lemma runs_RequireAuth:
  "Data ctx \<in> set (W_Body (RequireAuth verify now next r new_response)) \<longleftrightarrow>
     (\<exists>scheme tok claims. header_get r ''Authorization'' = scheme @ CHR '' '' # tok
        \<and> CHR '' '' \<notin> set scheme \<and> equal_fold scheme ''Bearer'' \<and> verify tok = Inr claims
        \<and> Data ctx \<in> set (W_Body (next (with_auth (UC_TenantID claims) claims r) new_response)))"
    (is "?l \<longleftrightarrow> ?r")
proof
  assume ?l
  then obtain scheme tok claims where
    "split2 CHR '' '' (header_get r ''Authorization'') = [scheme, tok]"
    "equal_fold scheme ''Bearer''" "verify tok = Inr claims"
    "Data ctx \<in> set (W_Body (next (with_auth (UC_TenantID claims) claims r) new_response))"
    by (auto simp: RequireAuth_def Let_def split: if_splits list.splits sum.splits)
  then show ?r unfolding split2_two by blast
next
  assume ?r
  then obtain scheme tok claims where *:
    "header_get r ''Authorization'' = scheme @ CHR '' '' # tok" "CHR '' '' \<notin> set scheme"
    "equal_fold scheme ''Bearer''" "verify tok = Inr claims"
    "Data ctx \<in> set (W_Body (next (with_auth (UC_TenantID claims) claims r) new_response))"
    by blast
  then have "split2 CHR '' '' (scheme @ CHR '' '' # tok) = [scheme, tok]" by (simp add: split2_two)
  with * show ?l by (simp add: RequireAuth_def)
qed

lemma runs_RequirePermission:
  "Data ctx \<in> set (W_Body (RequirePermission perm now spy (with_auth t claims r) new_response)) \<longleftrightarrow>
     HasPermission (UC_Role claims) perm \<and> ctx = \<lparr>Ctx_Tenant = Some t, Ctx_Claims = Some claims\<rparr>"
  by (simp add: RequirePermission_def GetUserClaims_def with_auth_def)

section \<open>Theorems\<close>

text \<open>A handler behind \<open>RequireAuth\<close> and \<open>RequirePermission\<close> runs exactly when the request
  carries a bearer token (the scheme in any case) that verifies to claims whose role has the
  permission, and then it runs in the tenant and with the claims of that token, whatever the
  request says in an \<open>X-Tenant-ID\<close> header or a context set before.\<close>

theorem protected_route_exact:
  "runs (RequireAuth verify now (RequirePermission perm now' spy)) r ctx \<longleftrightarrow>
     (\<exists>scheme tok claims. header_get r ''Authorization'' = scheme @ CHR '' '' # tok
        \<and> CHR '' '' \<notin> set scheme \<and> equal_fold scheme ''Bearer'' \<and> verify tok = Inr claims
        \<and> HasPermission (UC_Role claims) perm
        \<and> ctx = \<lparr>Ctx_Tenant = Some (UC_TenantID claims), Ctx_Claims = Some claims\<rparr>)"
  unfolding runs_def runs_RequireAuth runs_RequirePermission by blast

text \<open>\<open>OptionalAuth\<close> never refuses a request, and one without a valid bearer token is run as
  super-administrator (every permission, step-up satisfied) of the tenant it names itself in
  \<open>X-Tenant-ID\<close>: the routes behind it have no access control of their own.\<close>

theorem OptionalAuth_fallback:
  assumes "\<not> (\<exists>claims. verify (trim_space (drop 7 (header_get r ''Authorization''))) = Inr claims)"
    and "header_get r ''X-Tenant-Id'' \<noteq> []" and "0 < unix now" and "now' - now \<le> 899 * Second"
    and "perm \<in> granted RoleSuperAdmin"
  shows "runs (OptionalAuth verify now dt (RequirePermission perm now'' (RequireStepUp now' spy))) r
       \<lparr>Ctx_Tenant = Some (header_get r ''X-Tenant-Id''),
        Ctx_Claims = Some (fallback_claims now (header_get r ''X-Tenant-Id''))\<rparr>"
proof -
  let ?t = "header_get r ''X-Tenant-Id''"
  let ?c = "fallback_claims now ?t"
  have o: "OptionalAuth verify now dt h r w = h (with_auth ?t ?c r) w" for h :: "AuthCtx auth_handler" and w
    using assms(1,2) by (auto simp: OptionalAuth_def Let_def split: sum.splits)
  have p: "HasPermission (UC_Role ?c) perm"
    using assms(5) by (simp add: granted_def fallback_claims_def del: granted_simps)
  have "now div 1000000000 * 1000000000 > now - 1000000000"
    using div_mult_mod_eq [of now 1000000000] pos_mod_bound [of 1000000000 now] by linarith
  moreover have "0 < now div 1000000000" using assms(3) by (simp add: unix_def)
  ultimately have "IsStepUpValid now' (last_auth ?c)"
    using assms(4) by (simp add: IsStepUpValid_iff last_auth_def fallback_claims_def unix_def
        Second_def zero_time_def)
  with p show ?thesis
    by (simp add: runs_def o RequirePermission_def RequireStepUp_def GetUserClaims_def with_auth_def)
qed

text \<open>A concrete instance.\<close>

theorem OptionalAuth_fallback_witness:
  "\<exists>ctx. Ctx_Tenant ctx = Some ''victim'' \<and>
     runs (OptionalAuth (\<lambda>_. Inl InvalidFormat) Second [] (RequirePermission PermissionReadAuditLogs 0
            (RequireStepUp Second spy)))
       \<lparr>R_Method = ''GET'', R_Path = [], R_RemoteAddr = [], R_Header = [''X-Tenant-Id'' \<mapsto> ''victim''],
        R_Cookie = Map.empty, R_CorrelationID = None, R_Ctx = \<lparr>Ctx_Tenant = None, Ctx_Claims = None\<rparr>\<rparr> ctx"
proof -
  let ?r = "\<lparr>R_Method = ''GET'', R_Path = [], R_RemoteAddr = [], R_Header = [''X-Tenant-Id'' \<mapsto> ''victim''],
        R_Cookie = Map.empty, R_CorrelationID = None, R_Ctx = \<lparr>Ctx_Tenant = None, Ctx_Claims = None\<rparr>\<rparr>"
  have "header_get ?r ''X-Tenant-Id'' = ''victim''" by (simp add: header_get_def)
  with OptionalAuth_fallback [of "\<lambda>_. Inl InvalidFormat" ?r Second Second PermissionReadAuditLogs "[]" 0]
  have "runs (OptionalAuth (\<lambda>_. Inl InvalidFormat) Second [] (RequirePermission PermissionReadAuditLogs 0
      (RequireStepUp Second spy))) ?r
      \<lparr>Ctx_Tenant = Some ''victim'', Ctx_Claims = Some (fallback_claims Second ''victim'')\<rparr>"
    by (simp add: unix_def Second_def)
  then show ?thesis by (intro exI [of _ "\<lparr>Ctx_Tenant = Some ''victim'',
      Ctx_Claims = Some (fallback_claims Second ''victim'')\<rparr>"] conjI) simp_all
qed

text \<open>A mutating request whose session carries a CSRF cookie reaches the handler exactly when
  the \<open>X-CSRF-Token\<close> header repeats the cookie; a reading request, and a request without that
  cookie, always does.\<close>

theorem CSRF_double_submit:
  "runs (CSRFProtectionMiddleware now spy) r ctx \<longleftrightarrow>
     ctx = R_Ctx r \<and> (R_Method r \<in> {''GET'', ''HEAD'', ''OPTIONS''}
       \<or> (case R_Cookie r ''csrf_token'' of None \<Rightarrow> True
            | Some v \<Rightarrow> v = [] \<or> header_get r ''X-Csrf-Token'' = v))"
  by (auto simp: runs_def CSRFProtectionMiddleware_def safe_method_def Let_def split: option.splits)

end
