(* ===== verification/Sessions.thy ===== *)
theory Sessions
  imports AuthHttp
begin

text \<open>
  Users, sessions and refresh-token rotation (\<open>auth/repository.go\<close>, \<open>auth/session.go\<close>). The
  store keeps one pointer of a session in three maps, and revocation writes through it, so
  sessions live at addresses of an explicit heap. Each repository method runs under the mutex;
  \<open>RefreshToken\<close> as a whole does not, so it is the composition of a reading and a writing half
  whose interleaving is a step relation below. Random values are arguments.
\<close>

section \<open>The repository\<close>

record Session =
  S_ID :: string
  S_UserID :: string
  S_TenantID :: string
  S_FamilyID :: string
  S_RefreshToken :: string
  S_CSRFToken :: string
  S_StepUpAuthAt :: time
  S_IsRevoked :: bool
  S_UserAgent :: string
  S_IPAddress :: string
  S_ExpiresAt :: time
  S_CreatedAt :: time
  S_LastRefreshAt :: time

record MFAChallenge =
  MC_ChallengeID :: string
  MC_UserID :: string
  MC_TenantID :: string
  MC_ExpiresAt :: time

record AuthRepo =
  AR_users :: "string \<rightharpoonup> User"
  AR_totpSecrets :: "string \<rightharpoonup> string"
  AR_sessions :: "string \<rightharpoonup> nat"
  AR_byRefresh :: "string \<rightharpoonup> nat"
  AR_byFamily :: "string \<rightharpoonup> nat list"
  AR_challenges :: "string \<rightharpoonup> MFAChallenge"
  AR_heap :: "nat \<rightharpoonup> Session"
  AR_next :: nat

definition empty_repo :: AuthRepo where
  "empty_repo = \<lparr>AR_users = Map.empty, AR_totpSecrets = Map.empty, AR_sessions = Map.empty,
     AR_byRefresh = Map.empty, AR_byFamily = Map.empty, AR_challenges = Map.empty,
     AR_heap = Map.empty, AR_next = 0\<rparr>"

definition HashPassword :: "(string \<Rightarrow> string) \<Rightarrow> string \<Rightarrow> string \<Rightarrow> string" where
  "HashPassword sha256_hex password salt = sha256_hex (password @ salt @ ''endpointguard-salt-2026'')"

definition SaveUser :: "AuthRepo \<Rightarrow> User \<Rightarrow> AuthRepo" where
  "SaveUser r user = r\<lparr>AR_users := (AR_users r)(User_ID user \<mapsto> user)\<rparr>"

definition GetUserByID :: "AuthRepo \<Rightarrow> string \<Rightarrow> User option" where
  "GetUserByID r uid = AR_users r uid"

definition GetUserByUsername :: "string list \<Rightarrow> AuthRepo \<Rightarrow> string \<Rightarrow> string \<Rightarrow> User option" where
  "GetUserByUsername ord r tenantID username =
     find (\<lambda>u. (User_Username u = username \<or> User_Email u = username)
              \<and> (tenantID = [] \<or> User_TenantID u = tenantID))
       (range_vals (AR_users r) ord)"

definition ListUsers :: "string list \<Rightarrow> AuthRepo \<Rightarrow> string \<Rightarrow> User list" where
  "ListUsers ord r tenantID =
     filter (\<lambda>u. tenantID = [] \<or> User_TenantID u = tenantID) (range_vals (AR_users r) ord)"

definition SaveTOTPSecret :: "AuthRepo \<Rightarrow> string \<Rightarrow> string \<Rightarrow> AuthRepo" where
  "SaveTOTPSecret r userID secret = r\<lparr>AR_totpSecrets := (AR_totpSecrets r)(userID \<mapsto> secret)\<rparr>"

definition GetTOTPSecret :: "AuthRepo \<Rightarrow> string \<Rightarrow> string option" where
  "GetTOTPSecret r userID = AR_totpSecrets r userID"

definition SaveSession :: "AuthRepo \<Rightarrow> Session \<Rightarrow> AuthRepo" where
  "SaveSession r s =
     (let a = AR_next r;
          family = (case AR_byFamily r (S_FamilyID s) of None \<Rightarrow> [] | Some l \<Rightarrow> l)
      in r\<lparr>AR_heap := (AR_heap r)(a \<mapsto> s), AR_next := Suc a,
           AR_sessions := (AR_sessions r)(S_ID s \<mapsto> a),
           AR_byRefresh := (AR_byRefresh r)(S_RefreshToken s \<mapsto> a),
           AR_byFamily := (AR_byFamily r)(S_FamilyID s \<mapsto> family @ [a])\<rparr>)"

text \<open>The pointer a lookup returns, and the session it points to.\<close>

definition GetSessionByRefreshToken :: "AuthRepo \<Rightarrow> string \<Rightarrow> nat option" where
  "GetSessionByRefreshToken r tok = AR_byRefresh r tok"

definition deref :: "AuthRepo \<Rightarrow> nat \<Rightarrow> Session option" where
  "deref r a = AR_heap r a"

definition revoke_at :: "nat \<Rightarrow> AuthRepo \<Rightarrow> AuthRepo" where
  "revoke_at a r = r\<lparr>AR_heap := (AR_heap r)(a := map_option (\<lambda>s. s\<lparr>S_IsRevoked := True\<rparr>) (AR_heap r a))\<rparr>"

definition RevokeSession :: "AuthRepo \<Rightarrow> string \<Rightarrow> AuthRepo" where
  "RevokeSession r sessionID =
     (case AR_sessions r sessionID of None \<Rightarrow> r | Some a \<Rightarrow> revoke_at a r)"

definition RevokeSessionFamily :: "AuthRepo \<Rightarrow> string \<Rightarrow> AuthRepo" where
  "RevokeSessionFamily r familyID =
     (case AR_byFamily r familyID of None \<Rightarrow> r | Some l \<Rightarrow> foldl (\<lambda>r a. revoke_at a r) r l)"

definition SaveMFAChallenge :: "AuthRepo \<Rightarrow> MFAChallenge \<Rightarrow> AuthRepo" where
  "SaveMFAChallenge r c = r\<lparr>AR_challenges := (AR_challenges r)(MC_ChallengeID c \<mapsto> c)\<rparr>"

definition GetMFAChallenge :: "AuthRepo \<Rightarrow> string \<Rightarrow> MFAChallenge option" where
  "GetMFAChallenge r cid = AR_challenges r cid"

definition DeleteMFAChallenge :: "AuthRepo \<Rightarrow> string \<Rightarrow> AuthRepo" where
  "DeleteMFAChallenge r cid = r\<lparr>AR_challenges := (AR_challenges r)(cid := None)\<rparr>"

text \<open>The constructor seeds the store with a break-glass administrator and four demo accounts.\<close>

definition seed_user ::
  "(string \<Rightarrow> string) \<Rightarrow> time \<Rightarrow> string \<Rightarrow> string \<Rightarrow> string \<Rightarrow> string \<Rightarrow> Role \<Rightarrow> string \<Rightarrow> bool \<Rightarrow> User" where
  "seed_user sha now uid username email display role password breakGlass =
     \<lparr>User_ID = uid, User_TenantID = ''tenant-default-01'', User_Username = username,
      User_Email = email, User_DisplayName = display, User_Role = role, User_IsActive = True,
      User_IsBreakGlass = breakGlass, User_TOTPEnabled = breakGlass,
      User_PasswordHash = HashPassword sha password uid, User_CreatedAt = now, User_UpdatedAt = now\<rparr>"

definition NewMemoryAuthRepository :: "(string \<Rightarrow> string) \<Rightarrow> time \<Rightarrow> AuthRepo" where
  "NewMemoryAuthRepository sha now =
     foldl SaveUser
       (SaveTOTPSecret
         (SaveUser empty_repo
           (seed_user sha now ''usr-break-glass-01'' ''breakglass'' ''breakglass@endpointguard.local''
              ''Break-Glass Emergency Admin'' RoleSuperAdmin ''EmergencyBreakGlassPass2026!'' True))
         ''usr-break-glass-01'' ''JBSWY3DPEHPK3PXP'')
       [seed_user sha now ''usr-demo-admin-01'' ''admin'' ''admin@demo.local''
          ''SecOps Administrator'' RoleAdmin ''AdminDevPass2026!'' False,
        seed_user sha now ''usr-demo-oper-01'' ''operator'' ''operator@demo.local''
          ''Tier 2 Scan Operator'' RoleOperator ''OperatorDevPass2026!'' False,
        seed_user sha now ''usr-demo-audit-01'' ''auditor'' ''auditor@demo.local''
          ''SOC Compliance Auditor'' RoleAuditor ''AuditorDevPass2026!'' False,
        seed_user sha now ''usr-demo-view-01'' ''viewer'' ''viewer@demo.local''
          ''Security Viewer'' RoleViewer ''ViewerDevPass2026!'' False]"

section \<open>The session manager\<close>

definition AccessTokenTTL :: duration where "AccessTokenTTL = 15 * Minute"
definition RefreshTokenTTL :: duration where "RefreshTokenTTL = 7 * 24 * Hour"

record TokenPair =
  TP_AccessToken :: string
  TP_RefreshToken :: string
  TP_CSRFToken :: string
  TP_TokenType :: string
  TP_ExpiresIn :: int
  TP_User :: User

text \<open>The random values one call of \<open>IssueTokenPair\<close> draws.\<close>

record draws =
  D_family :: string
  D_refresh :: string
  D_csrf :: string
  D_session :: string

definition GenerateCSRFToken :: "string \<Rightarrow> string" where
  "GenerateCSRFToken bytes = b64encode bytes"

definition GenerateRefreshToken :: "string \<Rightarrow> string" where
  "GenerateRefreshToken bytes = ''rft_'' @ b64encode bytes"

definition new_session :: "draws \<Rightarrow> time \<Rightarrow> User \<Rightarrow> string \<Rightarrow> string \<Rightarrow> string \<Rightarrow> Session" where
  "new_session d now user familyID ipAddress userAgent =
     \<lparr>S_ID = D_session d, S_UserID = User_ID user, S_TenantID = User_TenantID user,
      S_FamilyID = familyID, S_RefreshToken = GenerateRefreshToken (D_refresh d),
      S_CSRFToken = GenerateCSRFToken (D_csrf d), S_StepUpAuthAt = now, S_IsRevoked = False,
      S_UserAgent = userAgent, S_IPAddress = ipAddress, S_ExpiresAt = now + RefreshTokenTTL,
      S_CreatedAt = now, S_LastRefreshAt = now\<rparr>"

definition access_claims :: "User \<Rightarrow> UserClaims" where
  "access_claims user =
     \<lparr>UC_TenantID = User_TenantID user, UC_UserID = User_ID user, UC_Email = User_Email user,
      UC_Role = User_Role user, UC_StepUpAuthAt = 0, UC_Issuer = [], UC_Subject = [],
      UC_Audience = [], UC_IssuedAt = 0, UC_ExpiresAt = 0\<rparr>"

text \<open>\<open>gen now claims ttl\<close> is the token service's \<open>GenerateToken\<close>; \<open>now'\<close> is its clock reading.\<close>

type_synonym token_gen = "time \<Rightarrow> UserClaims \<Rightarrow> duration \<Rightarrow> string"

definition IssueTokenPair ::
  "token_gen \<Rightarrow> draws \<Rightarrow> time \<Rightarrow> time \<Rightarrow> AuthRepo \<Rightarrow> User \<Rightarrow> string \<Rightarrow> string \<Rightarrow> string \<Rightarrow> AuthRepo \<times> TokenPair" where
  "IssueTokenPair gen d now now' r user familyID ipAddress userAgent =
     (let familyID = (if familyID = [] then D_family d else familyID);
          session = new_session d now user familyID ipAddress userAgent;
          r = SaveSession r session;
          accessToken = gen now' (access_claims user) AccessTokenTTL
      in (r, \<lparr>TP_AccessToken = accessToken, TP_RefreshToken = S_RefreshToken session,
              TP_CSRFToken = S_CSRFToken session, TP_TokenType = ''Bearer'',
              TP_ExpiresIn = quot AccessTokenTTL Second, TP_User = user\<rparr>))"

datatype refresh_error = UnknownToken | ReplayDetected | RefreshExpired | UserInactive

text \<open>
  The reading half of \<open>RefreshToken\<close> (up to the expiry check) and the writing half, which runs
  with the pointer the first half found. A pointer is never dangling (\<open>None\<close> would be a panic).
\<close>

definition refresh_check :: "time \<Rightarrow> AuthRepo \<Rightarrow> string \<Rightarrow> AuthRepo \<times> (refresh_error + nat)" where
  "refresh_check now r tok =
     (case GetSessionByRefreshToken r tok of
        None \<Rightarrow> (r, Inl UnknownToken)
      | Some a \<Rightarrow>
          (case deref r a of
             None \<Rightarrow> (r, Inl UnknownToken)
           | Some session \<Rightarrow>
               if S_IsRevoked session then (RevokeSessionFamily r (S_FamilyID session), Inl ReplayDetected)
               else if now > S_ExpiresAt session then (r, Inl RefreshExpired)
               else (r, Inr a)))"

definition refresh_rotate ::
  "token_gen \<Rightarrow> draws \<Rightarrow> time \<Rightarrow> time \<Rightarrow> AuthRepo \<Rightarrow> nat \<Rightarrow> string \<Rightarrow> string
   \<Rightarrow> AuthRepo \<times> (refresh_error + TokenPair)" where
  "refresh_rotate gen d now now' r a ipAddress userAgent =
     (case deref r a of
        None \<Rightarrow> (r, Inl UnknownToken)
      | Some session \<Rightarrow>
          (let r = RevokeSession r (S_ID session) in
           case GetUserByID r (S_UserID session) of
             None \<Rightarrow> (r, Inl UserInactive)
           | Some user \<Rightarrow>
               if \<not> User_IsActive user then (r, Inl UserInactive)
               else (case IssueTokenPair gen d now now' r user (S_FamilyID session) ipAddress userAgent of
                       (r, pair) \<Rightarrow> (r, Inr pair))))"

definition RefreshToken ::
  "token_gen \<Rightarrow> draws \<Rightarrow> time \<Rightarrow> time \<Rightarrow> time \<Rightarrow> AuthRepo \<Rightarrow> string \<Rightarrow> string \<Rightarrow> string
   \<Rightarrow> AuthRepo \<times> (refresh_error + TokenPair)" where
  "RefreshToken gen d now1 now2 now3 r oldRefreshToken ipAddress userAgent =
     (case refresh_check now1 r oldRefreshToken of
        (r, Inl e) \<Rightarrow> (r, Inl e)
      | (r, Inr a) \<Rightarrow> refresh_rotate gen d now2 now3 r a ipAddress userAgent)"

section \<open>Consistency of the maps\<close>

text \<open>
  Every session is indexed under its own identifier, refresh token and family, and every index
  entry points to a session with that key.
\<close>

definition consistent :: "AuthRepo \<Rightarrow> bool" where
  "consistent r \<longleftrightarrow>
     (\<forall>a s. AR_heap r a = Some s \<longrightarrow> a < AR_next r \<and> AR_sessions r (S_ID s) = Some a
        \<and> AR_byRefresh r (S_RefreshToken s) = Some a
        \<and> (\<exists>l. AR_byFamily r (S_FamilyID s) = Some l \<and> a \<in> set l))
     \<and> (\<forall>k a. AR_sessions r k = Some a \<longrightarrow> (\<exists>s. AR_heap r a = Some s \<and> S_ID s = k))
     \<and> (\<forall>k a. AR_byRefresh r k = Some a \<longrightarrow> (\<exists>s. AR_heap r a = Some s \<and> S_RefreshToken s = k))
     \<and> (\<forall>f l a. AR_byFamily r f = Some l \<longrightarrow> a \<in> set l \<longrightarrow> (\<exists>s. AR_heap r a = Some s \<and> S_FamilyID s = f))"

text \<open>The unrevoked sessions of a family, by address.\<close>

definition live :: "AuthRepo \<Rightarrow> string \<Rightarrow> nat set" where
  "live r f = {a. \<exists>s. AR_heap r a = Some s \<and> S_FamilyID s = f \<and> \<not> S_IsRevoked s}"

definition at_most_one_live :: "AuthRepo \<Rightarrow> bool" where
  "at_most_one_live r \<longleftrightarrow> (\<forall>f a b. a \<in> live r f \<longrightarrow> b \<in> live r f \<longrightarrow> a = b)"

definition fresh :: "AuthRepo \<Rightarrow> draws \<Rightarrow> bool" where
  "fresh r d \<longleftrightarrow> D_session d \<notin> dom (AR_sessions r)
     \<and> GenerateRefreshToken (D_refresh d) \<notin> dom (AR_byRefresh r)
     \<and> D_family d \<notin> dom (AR_byFamily r) \<and> D_family d \<noteq> []"

lemma consistentD:
  assumes "consistent r"
  shows "AR_heap r a = Some s \<Longrightarrow> AR_sessions r (S_ID s) = Some a"
    and "AR_heap r a = Some s \<Longrightarrow> AR_byRefresh r (S_RefreshToken s) = Some a"
    and "AR_heap r a = Some s \<Longrightarrow> \<exists>l. AR_byFamily r (S_FamilyID s) = Some l \<and> a \<in> set l"
    and "AR_byRefresh r k = Some a \<Longrightarrow> \<exists>s. AR_heap r a = Some s \<and> S_RefreshToken s = k"
    and "AR_byFamily r f = Some l \<Longrightarrow> a \<in> set l \<Longrightarrow> \<exists>s. AR_heap r a = Some s \<and> S_FamilyID s = f"
    and "AR_heap r (AR_next r) = None"
  using assms unfolding consistent_def by (blast, blast, blast, blast, blast, metis less_irrefl not_Some_eq)

lemma revoke_at_fields [simp]:
  "AR_users (revoke_at a r) = AR_users r" "AR_sessions (revoke_at a r) = AR_sessions r"
  "AR_byRefresh (revoke_at a r) = AR_byRefresh r" "AR_byFamily (revoke_at a r) = AR_byFamily r"
  "AR_next (revoke_at a r) = AR_next r"
  by (simp_all add: revoke_at_def)

lemma revoke_at_Some:
  "AR_heap (revoke_at a r) b = Some t \<longleftrightarrow>
     (\<exists>s. AR_heap r b = Some s \<and> t = (if a = b then s\<lparr>S_IsRevoked := True\<rparr> else s))"
  by (auto simp: revoke_at_def)

lemma revoke_at_key:
  assumes "\<And>s. k (s\<lparr>S_IsRevoked := True\<rparr>) = k s"
  shows "(\<exists>t. AR_heap (revoke_at a r) b = Some t \<and> k t = x) \<longleftrightarrow> (\<exists>s. AR_heap r b = Some s \<and> k s = x)"
  unfolding revoke_at_Some using assms by (cases "a = b") auto

lemma consistent_revoke_at [go_inv]:
  assumes "consistent r" shows "consistent (revoke_at a r)"
proof -
  have "b < AR_next r \<and> AR_sessions r (S_ID t) = Some b \<and> AR_byRefresh r (S_RefreshToken t) = Some b
      \<and> (\<exists>l. AR_byFamily r (S_FamilyID t) = Some l \<and> b \<in> set l)"
    if "AR_heap (revoke_at a r) b = Some t" for b t
  proof -
    from that obtain s where s: "AR_heap r b = Some s" "S_ID t = S_ID s"
      "S_RefreshToken t = S_RefreshToken s" "S_FamilyID t = S_FamilyID s"
      by (auto simp: revoke_at_Some)
    then show ?thesis using assms unfolding consistent_def by auto
  qed
  moreover have "(\<exists>t. AR_heap (revoke_at a r) b = Some t \<and> S_ID t = x) = (\<exists>s. AR_heap r b = Some s \<and> S_ID s = x)"
    "(\<exists>t. AR_heap (revoke_at a r) b = Some t \<and> S_RefreshToken t = x) = (\<exists>s. AR_heap r b = Some s \<and> S_RefreshToken s = x)"
    "(\<exists>t. AR_heap (revoke_at a r) b = Some t \<and> S_FamilyID t = x) = (\<exists>s. AR_heap r b = Some s \<and> S_FamilyID s = x)"
    for b x by (rule revoke_at_key, simp)+
  ultimately show ?thesis using assms unfolding consistent_def by simp
qed

lemma live_revoke_at: "live (revoke_at a r) f = live r f - {a}"
proof (rule set_eqI)
  fix b show "b \<in> live (revoke_at a r) f \<longleftrightarrow> b \<in> live r f - {a}"
    by (cases "a = b") (auto simp: live_def revoke_at_Some)
qed

lemma revoke_list_fields [simp]:
  "AR_users (foldl (\<lambda>r a. revoke_at a r) r l) = AR_users r"
  "AR_sessions (foldl (\<lambda>r a. revoke_at a r) r l) = AR_sessions r"
  "AR_byRefresh (foldl (\<lambda>r a. revoke_at a r) r l) = AR_byRefresh r"
  "AR_byFamily (foldl (\<lambda>r a. revoke_at a r) r l) = AR_byFamily r"
  by (induction l arbitrary: r) auto

lemma consistent_revoke_list: "consistent r \<Longrightarrow> consistent (foldl (\<lambda>r a. revoke_at a r) r l)"
  by (induction l arbitrary: r) (auto intro: consistent_revoke_at)

lemma live_revoke_list: "live (foldl (\<lambda>r a. revoke_at a r) r l) f = live r f - set l"
  by (induction l arbitrary: r) (auto simp: live_revoke_at)

lemma consistent_RevokeSession [go_inv]: "consistent r \<Longrightarrow> consistent (RevokeSession r sid)"
  by (simp add: RevokeSession_def consistent_revoke_at split: option.split)

lemma consistent_RevokeSessionFamily [go_inv]: "consistent r \<Longrightarrow> consistent (RevokeSessionFamily r f)"
  by (simp add: RevokeSessionFamily_def consistent_revoke_list split: option.split)

lemma RevokeSession_fields [simp]:
  "AR_users (RevokeSession r sid) = AR_users r" "AR_sessions (RevokeSession r sid) = AR_sessions r"
  "AR_byRefresh (RevokeSession r sid) = AR_byRefresh r"
  "AR_byFamily (RevokeSession r sid) = AR_byFamily r"
  by (simp_all add: RevokeSession_def split: option.split)

lemma RevokeSessionFamily_fields [simp]:
  "AR_byRefresh (RevokeSessionFamily r f) = AR_byRefresh r"
  "AR_byFamily (RevokeSessionFamily r f) = AR_byFamily r"
  by (simp_all add: RevokeSessionFamily_def split: option.split)

lemma live_RevokeSession: "live (RevokeSession r sid) f \<subseteq> live r f"
  by (auto simp: RevokeSession_def live_revoke_at split: option.split)

lemma live_RevokeSession_own:
  assumes "consistent r" "AR_heap r a = Some s"
  shows "live (RevokeSession r (S_ID s)) f = live r f - {a}"
  using consistentD(1) [OF assms] by (simp add: RevokeSession_def live_revoke_at)

lemma live_family:
  assumes "consistent r" "a \<in> live r f"
  shows "\<exists>l. AR_byFamily r f = Some l \<and> a \<in> set l"
  using consistentD(3) [OF assms(1)] assms(2) by (auto simp: live_def)

lemma live_RevokeSessionFamily:
  assumes "consistent r"
  shows "live (RevokeSessionFamily r f) g = (if g = f then {} else live r g)"
proof (cases "AR_byFamily r f")
  case None
  then have "live r f = {}" using live_family [OF assms, of _ f] by auto
  then show ?thesis using None by (simp add: RevokeSessionFamily_def)
next
  case (Some l)
  have "live r f \<subseteq> set l" using live_family [OF assms] Some by fastforce
  moreover have "live r g \<inter> set l = {}" if "g \<noteq> f"
    using consistentD(5) [OF assms Some] that unfolding live_def by fastforce
  ultimately show ?thesis using Some by (auto simp: RevokeSessionFamily_def live_revoke_list)
qed

lemma consistent_SaveSession [go_inv]:
  assumes "consistent r" "S_ID s \<notin> dom (AR_sessions r)" "S_RefreshToken s \<notin> dom (AR_byRefresh r)"
  shows "consistent (SaveSession r s)"
proof -
  have n: "AR_heap r (AR_next r) = None" by (rule consistentD(6) [OF assms(1)])
  show ?thesis
    unfolding consistent_def
  proof (intro conjI allI impI)
    fix a t assume "AR_heap (SaveSession r s) a = Some t"
    then consider "a = AR_next r" "t = s" | "a \<noteq> AR_next r" "AR_heap r a = Some t"
      by (auto simp: SaveSession_def Let_def split: if_splits)
    then have "a < AR_next (SaveSession r s) \<and> AR_sessions (SaveSession r s) (S_ID t) = Some a
        \<and> AR_byRefresh (SaveSession r s) (S_RefreshToken t) = Some a
        \<and> (\<exists>l. AR_byFamily (SaveSession r s) (S_FamilyID t) = Some l \<and> a \<in> set l)"
    proof cases
      case 2
      note d = consistentD(1,2,3) [OF assms(1) 2(2)]
      have "S_ID t \<noteq> S_ID s" "S_RefreshToken t \<noteq> S_RefreshToken s"
        using d assms(2,3) by (auto simp: domIff)
      moreover have "a < AR_next r" using assms(1) 2(2) by (auto simp: consistent_def)
      ultimately show ?thesis using d by (auto simp: SaveSession_def Let_def)
    qed (simp add: SaveSession_def Let_def)
    then show "a < AR_next (SaveSession r s)" "AR_sessions (SaveSession r s) (S_ID t) = Some a"
      "AR_byRefresh (SaveSession r s) (S_RefreshToken t) = Some a"
      "\<exists>l. AR_byFamily (SaveSession r s) (S_FamilyID t) = Some l \<and> a \<in> set l" by auto
  next
    fix k a assume "AR_sessions (SaveSession r s) k = Some a"
    then show "\<exists>t. AR_heap (SaveSession r s) a = Some t \<and> S_ID t = k"
      using assms(1) n unfolding consistent_def by (auto simp: SaveSession_def Let_def split: if_splits) force
  next
    fix k a assume "AR_byRefresh (SaveSession r s) k = Some a"
    then show "\<exists>t. AR_heap (SaveSession r s) a = Some t \<and> S_RefreshToken t = k"
      using assms(1) n unfolding consistent_def by (auto simp: SaveSession_def Let_def split: if_splits) force
  next
    fix f l a assume "AR_byFamily (SaveSession r s) f = Some l" "a \<in> set l"
    then have "a = AR_next r \<and> f = S_FamilyID s \<or> (\<exists>l'. AR_byFamily r f = Some l' \<and> a \<in> set l')"
      by (auto simp: SaveSession_def Let_def split: if_splits option.splits)
    then show "\<exists>t. AR_heap (SaveSession r s) a = Some t \<and> S_FamilyID t = f"
      using consistentD(5) [OF assms(1)] n by (auto simp: SaveSession_def Let_def) fastforce+
  qed
qed

lemma live_SaveSession:
  assumes "consistent r" "\<not> S_IsRevoked s"
  shows "live (SaveSession r s) f = live r f \<union> (if S_FamilyID s = f then {AR_next r} else {})"
  using consistentD(6) [OF assms(1)] assms(2) by (auto simp: live_def SaveSession_def Let_def)

lemma live_fresh_family:
  assumes "consistent r" "fresh r d" shows "live r (D_family d) = {}"
  using live_family [OF assms(1)] assms(2) by (fastforce simp: fresh_def domIff)

lemma new_session_simps [simp]:
  "S_ID (new_session d n u f ip ua) = D_session d" "S_FamilyID (new_session d n u f ip ua) = f"
  "S_RefreshToken (new_session d n u f ip ua) = GenerateRefreshToken (D_refresh d)"
  "\<not> S_IsRevoked (new_session d n u f ip ua)" "S_UserID (new_session d n u f ip ua) = User_ID u"
  by (simp_all add: new_session_def)

lemma IssueTokenPair_live:
  assumes "consistent r" "fresh r d" "IssueTokenPair gen d n n' r u f0 ip ua = (r', p)"
  defines "f1 \<equiv> if f0 = [] then D_family d else f0"
  shows "consistent r'" "live r' f = live r f \<union> (if f = f1 then {AR_next r} else {})"
    "AR_heap r' (AR_next r) = Some (new_session d n u f1 ip ua)"
    "AR_byRefresh r' (TP_RefreshToken p) = Some (AR_next r)" "dom (AR_byFamily r) \<subseteq> dom (AR_byFamily r')"
proof -
  have r': "r' = SaveSession r (new_session d n u f1 ip ua)"
    and p: "TP_RefreshToken p = GenerateRefreshToken (D_refresh d)"
    using assms(3) by (auto simp: IssueTokenPair_def Let_def f1_def)
  show "consistent r'" using assms(1,2) unfolding r' by (intro consistent_SaveSession) (auto simp: fresh_def)
  show "live r' f = live r f \<union> (if f = f1 then {AR_next r} else {})"
    unfolding r' using assms(1) by (simp add: live_SaveSession)
  show "AR_heap r' (AR_next r) = Some (new_session d n u f1 ip ua)"
    "AR_byRefresh r' (TP_RefreshToken p) = Some (AR_next r)" "dom (AR_byFamily r) \<subseteq> dom (AR_byFamily r')"
    by (auto simp: r' p SaveSession_def Let_def)
qed

lemma AR_next_RevokeSession [simp]: "AR_next (RevokeSession r sid) = AR_next r"
  by (simp add: RevokeSession_def split: option.split)

lemma fresh_RevokeSession [simp]: "fresh (RevokeSession r sid) d = fresh r d"
  by (simp add: fresh_def)

text \<open>What the writing half does to the live sessions, whether or not its session is still live.\<close>

lemma refresh_rotate_live:
  assumes "consistent r" "fresh r d" "AR_heap r a = Some s"
    and "refresh_rotate gen d n n' r a ip ua = (r', res)"
  shows "consistent r'" "dom (AR_byFamily r) \<subseteq> dom (AR_byFamily r')"
    "live r' f \<subseteq> (live r f - {a}) \<union>
       (if res = Inl UserInactive then {}
        else if f = (if S_FamilyID s = [] then D_family d else S_FamilyID s) then {AR_next r} else {})"
proof -
  let ?r = "RevokeSession r (S_ID s)"
  have c: "consistent ?r" "fresh ?r d" using assms consistent_RevokeSession by auto
  have l: "live ?r g = live r g - {a}" for g by (rule live_RevokeSession_own [OF assms(1,3)])
  have "consistent r' \<and> dom (AR_byFamily r) \<subseteq> dom (AR_byFamily r')
      \<and> live r' f \<subseteq> (live r f - {a}) \<union>
       (if res = Inl UserInactive then {}
        else if f = (if S_FamilyID s = [] then D_family d else S_FamilyID s) then {AR_next r} else {})"
  proof (cases "\<exists>u. GetUserByID ?r (S_UserID s) = Some u \<and> User_IsActive u")
    case True
    then obtain u where u: "GetUserByID ?r (S_UserID s) = Some u" "User_IsActive u" by blast
    obtain p where p: "IssueTokenPair gen d n n' ?r u (S_FamilyID s) ip ua = (r', p)" "res = Inr p"
      using assms(3,4) u by (auto simp: refresh_rotate_def Let_def deref_def split: prod.splits)
    note I = IssueTokenPair_live [OF c p(1)]
    show ?thesis using I(1,5) I(2) [of f] p(2) l by auto
  next
    case False
    then have "r' = ?r" "res = Inl UserInactive"
      using assms(3,4) by (auto simp: refresh_rotate_def Let_def deref_def split: option.splits if_splits prod.splits)
    then show ?thesis using c l by auto
  qed
  then show "consistent r'" "dom (AR_byFamily r) \<subseteq> dom (AR_byFamily r')"
    "live r' f \<subseteq> (live r f - {a}) \<union>
       (if res = Inl UserInactive then {}
        else if f = (if S_FamilyID s = [] then D_family d else S_FamilyID s) then {AR_next r} else {})"
    by simp_all
qed

section \<open>Histories of the repository\<close>

text \<open>One operation at a time; identifiers drawn at random do not repeat.\<close>

inductive auth_step :: "token_gen \<Rightarrow> AuthRepo \<Rightarrow> AuthRepo \<Rightarrow> bool" for gen where
  login: "fresh r d \<Longrightarrow> IssueTokenPair gen d n n' r u [] ip ua = (r', p) \<Longrightarrow> auth_step gen r r'"
| refresh: "fresh r d \<Longrightarrow> RefreshToken gen d n1 n2 n3 r tok ip ua = (r', res) \<Longrightarrow> auth_step gen r r'"
| revoke: "auth_step gen r (RevokeSession r sid)"
| revoke_family: "auth_step gen r (RevokeSessionFamily r f)"
| save_user: "auth_step gen r (SaveUser r u)"
| save_totp: "auth_step gen r (SaveTOTPSecret r uid secret)"
| save_challenge: "auth_step gen r (SaveMFAChallenge r c)"
| delete_challenge: "auth_step gen r (DeleteMFAChallenge r cid)"

inductive auth_steps :: "token_gen \<Rightarrow> AuthRepo \<Rightarrow> AuthRepo \<Rightarrow> bool" for gen where
  refl: "auth_steps gen r r"
| step: "auth_steps gen r r' \<Longrightarrow> auth_step gen r' r'' \<Longrightarrow> auth_steps gen r r''"

inductive_cases refresh_stepE: "auth_step gen r r'"

text \<open>A family that exists and has no live session.\<close>

definition dead_family :: "AuthRepo \<Rightarrow> string \<Rightarrow> bool" where
  "dead_family r f \<longleftrightarrow> f \<in> dom (AR_byFamily r) \<and> live r f = {}"

lemma user_ops_live [simp]:
  "live (SaveUser r u) f = live r f" "live (SaveTOTPSecret r uid sec) f = live r f"
  "live (SaveMFAChallenge r c) f = live r f" "live (DeleteMFAChallenge r cid) f = live r f"
  by (simp_all add: live_def SaveUser_def SaveTOTPSecret_def SaveMFAChallenge_def DeleteMFAChallenge_def)

lemma user_ops_consistent [simp]:
  "consistent (SaveUser r u) = consistent r" "consistent (SaveTOTPSecret r uid sec) = consistent r"
  "consistent (SaveMFAChallenge r c) = consistent r" "consistent (DeleteMFAChallenge r cid) = consistent r"
  by (simp_all add: consistent_def SaveUser_def SaveTOTPSecret_def SaveMFAChallenge_def DeleteMFAChallenge_def)

lemma user_ops_byFamily [simp]:
  "AR_byFamily (SaveUser r u) = AR_byFamily r" "AR_byFamily (SaveTOTPSecret r uid sec) = AR_byFamily r"
  "AR_byFamily (SaveMFAChallenge r c) = AR_byFamily r" "AR_byFamily (DeleteMFAChallenge r cid) = AR_byFamily r"
  by (simp_all add: SaveUser_def SaveTOTPSecret_def SaveMFAChallenge_def DeleteMFAChallenge_def)

text \<open>\<open>RefreshToken\<close> either rotates a live session or adds no live session.\<close>

lemma RefreshToken_split:
  assumes "RefreshToken gen d n1 n2 n3 r tok ip ua = (r', res)"
  obtains (rotate) a s where "AR_byRefresh r tok = Some a" "AR_heap r a = Some s" "a \<in> live r (S_FamilyID s)"
      "n1 \<le> S_ExpiresAt s" "refresh_rotate gen d n2 n3 r a ip ua = (r', res)"
  | (replay) a s where "AR_byRefresh r tok = Some a" "AR_heap r a = Some s" "S_IsRevoked s"
      "r' = RevokeSessionFamily r (S_FamilyID s)" "res = Inl ReplayDetected"
  | (unchanged) "r' = r" "res \<in> {Inl UnknownToken, Inl RefreshExpired}"
  using assms that
  by (fastforce simp: RefreshToken_def refresh_check_def GetSessionByRefreshToken_def deref_def live_def
      split: option.splits if_splits prod.splits sum.splits)

lemma auth_step_invariant:
  assumes "auth_step gen r r'" "consistent r"
  shows "consistent r' \<and> dom (AR_byFamily r) \<subseteq> dom (AR_byFamily r')
     \<and> (at_most_one_live r \<longrightarrow> at_most_one_live r') \<and> (dead_family r f \<longrightarrow> dead_family r' f)"
  using assms(1)
proof cases
  case (login d n n' u ip ua p)
  note I = IssueTokenPair_live [OF assms(2) login]
  have "live r (D_family d) = {}" using live_fresh_family assms(2) login(1) by blast
  moreover have "dead_family r f \<longrightarrow> f \<noteq> D_family d" using login(1) by (auto simp: dead_family_def fresh_def)
  ultimately show ?thesis using I(1,2,5) by (auto simp: at_most_one_live_def dead_family_def)
next
  case (refresh d n1 n2 n3 tok ip ua res)
  from refresh(2) show ?thesis
  proof (cases rule: RefreshToken_split)
    case (rotate a s)
    let ?f = "if S_FamilyID s = [] then D_family d else S_FamilyID s"
    note R = refresh_rotate_live [OF assms(2) refresh(1) rotate(2,5)]
    have l: "live r' g \<subseteq> (live r g - {a}) \<union> (if g = ?f then {AR_next r} else {})" for g
      using R(3) [of g] by (auto split: if_splits)
    have "live r (D_family d) = {}" using live_fresh_family assms(2) refresh(1) by blast
    then have "at_most_one_live r \<longrightarrow> live r ?f \<subseteq> {a}"
      using rotate(3) by (auto simp: at_most_one_live_def)
    then have one: "at_most_one_live r \<longrightarrow> at_most_one_live r'"
    proof (intro impI)
      assume one: "at_most_one_live r"
      have "x = y" if "x \<in> live r' g" "y \<in> live r' g" for x y g
      proof (cases "g = ?f")
        case True
        then show ?thesis using l [of g] one \<open>at_most_one_live r \<longrightarrow> live r ?f \<subseteq> {a}\<close> that by auto
      next
        case False
        then show ?thesis using l [of g] one that unfolding at_most_one_live_def by auto
      qed
      then show "at_most_one_live r'" by (simp add: at_most_one_live_def)
    qed
    have "dead_family r f \<longrightarrow> f \<noteq> ?f"
      using rotate(3) refresh(1) by (auto simp: dead_family_def fresh_def)
    then show ?thesis using R(1,2) l [of f] one by (auto simp: dead_family_def)
  next
    case (replay a s)
    then show ?thesis using assms(2) consistent_RevokeSessionFamily
      by (auto simp: live_RevokeSessionFamily at_most_one_live_def dead_family_def)
  qed (use assms(2) in auto)
next
  case (revoke sid)
  then show ?thesis using assms(2) live_RevokeSession [of r sid] consistent_RevokeSession
    by (fastforce simp: at_most_one_live_def dead_family_def)
next
  case (revoke_family g)
  then show ?thesis using assms(2) consistent_RevokeSessionFamily
    by (auto simp: live_RevokeSessionFamily at_most_one_live_def dead_family_def)
qed (use assms(2) in \<open>auto simp: at_most_one_live_def dead_family_def\<close>)

lemma auth_steps_invariant:
  "auth_steps gen r r' \<Longrightarrow> consistent r \<Longrightarrow>
     consistent r' \<and> (at_most_one_live r \<longrightarrow> at_most_one_live r') \<and> (dead_family r f \<longrightarrow> dead_family r' f)"
  by (induction rule: auth_steps.induct) (use auth_step_invariant in blast)+

lemma empty_repo_inv [simp]: "consistent empty_repo" "at_most_one_live empty_repo"
  by (simp_all add: consistent_def at_most_one_live_def live_def empty_repo_def)

lemma auth_steps_trans: "auth_steps gen r' r'' \<Longrightarrow> auth_steps gen r r' \<Longrightarrow> auth_steps gen r r''"
  by (induction rule: auth_steps.induct) (auto intro: auth_steps.step)

lemma auth_steps_SaveUser: "auth_steps gen r (foldl SaveUser r us)"
  by (induction us arbitrary: r)
    (auto intro: auth_steps.refl auth_steps_trans auth_steps.step [OF auth_steps.refl auth_step.save_user])

text \<open>The seeded store is one of the histories of the empty one.\<close>

lemma NewMemoryAuthRepository_steps: "auth_steps gen empty_repo (NewMemoryAuthRepository sha now)"
  unfolding NewMemoryAuthRepository_def
  by (rule auth_steps_trans [OF auth_steps_SaveUser])
    (rule auth_steps.step [OF auth_steps.step [OF auth_steps.refl auth_step.save_user] auth_step.save_totp])

text \<open>A concrete user who logs in at second 1 and refreshes at second 60, for examples.\<close>

definition demo_user :: User where
  "demo_user = \<lparr>User_ID = ''u'', User_TenantID = ''t'', User_Username = ''n'', User_Email = ''e'',
    User_DisplayName = [], User_Role = RoleViewer, User_IsActive = True, User_IsBreakGlass = False,
    User_TOTPEnabled = False, User_PasswordHash = [], User_CreatedAt = 0, User_UpdatedAt = 0\<rparr>"

definition demo_draws :: "string \<Rightarrow> draws" where
  "demo_draws x = \<lparr>D_family = x, D_refresh = x, D_csrf = x, D_session = x\<rparr>"

lemma demo_login:
  obtains r and p :: TokenPair where "auth_steps gen empty_repo r" "AR_byRefresh r (TP_RefreshToken p) = Some 0"
    "AR_heap r 0 = Some (new_session (demo_draws ''f'') Second demo_user ''f'' [] [])"
    "AR_users r = [''u'' \<mapsto> demo_user]" "fresh r (demo_draws ''g'')" "AR_sessions r = [''f'' \<mapsto> 0]"
    "fresh r (demo_draws ''h'')"
proof -
  let ?r0 = "SaveUser empty_repo demo_user"
  obtain r p where i: "IssueTokenPair gen (demo_draws ''f'') Second Second ?r0 demo_user [] [] [] = (r, p)" by fastforce
  have f: "fresh ?r0 (demo_draws ''f'')" by (simp add: fresh_def SaveUser_def empty_repo_def demo_draws_def)
  have "auth_steps gen empty_repo r"
    by (rule auth_steps.step [OF auth_steps.step [OF auth_steps.refl auth_step.save_user] auth_step.login [OF f i]])
  moreover have "r = SaveSession ?r0 (new_session (demo_draws ''f'') Second demo_user ''f'' [] [])"
    "TP_RefreshToken p = GenerateRefreshToken ''f''"
    using i by (auto simp: IssueTokenPair_def Let_def demo_draws_def)
  ultimately show thesis
    by (intro that [of r p])
      (simp_all add: SaveSession_def Let_def SaveUser_def empty_repo_def fresh_def demo_draws_def
        GenerateRefreshToken_def, simp add: demo_user_def)
qed

lemma refresh_rotate_fresh:
  assumes "AR_heap r a = Some s" "refresh_rotate gen d n n' r a ip ua = (r', res)" "fresh r d2"
    and "D_session d \<noteq> D_session d2" "D_refresh d \<noteq> D_refresh d2"
    and "D_family d2 \<noteq> D_family d" "D_family d2 \<noteq> S_FamilyID s"
  shows "fresh r' d2"
proof (cases "\<exists>u. AR_users r (S_UserID s) = Some u \<and> User_IsActive u")
  case True
  then obtain u p where p: "IssueTokenPair gen d n n' (RevokeSession r (S_ID s)) u (S_FamilyID s) ip ua = (r', p)"
    using assms(1,2) by (auto simp: refresh_rotate_def Let_def deref_def GetUserByID_def split: prod.splits)
  let ?f = "if S_FamilyID s = [] then D_family d else S_FamilyID s"
  let ?n = "new_session d n u ?f ip ua"
  have r': "r' = SaveSession (RevokeSession r (S_ID s)) ?n" using p by (simp add: IssueTokenPair_def Let_def)
  have "S_ID ?n \<noteq> D_session d2" "S_RefreshToken ?n \<noteq> GenerateRefreshToken (D_refresh d2)"
    "S_FamilyID ?n \<noteq> D_family d2" using assms(4-) by (auto simp: GenerateRefreshToken_def)
  then show ?thesis using assms(3) by (simp add: r' SaveSession_def Let_def fresh_def domIff)
next
  case False
  then have "r' = RevokeSession r (S_ID s)"
    using assms(1,2) by (auto simp: refresh_rotate_def Let_def deref_def GetUserByID_def split: option.splits if_splits)
  with assms(3) show ?thesis by simp
qed

lemma demo_refresh:
  assumes "AR_byRefresh r tok = Some 0"
    "AR_heap r 0 = Some (new_session (demo_draws ''f'') Second demo_user ''f'' [] [])"
    "AR_users r = [''u'' \<mapsto> demo_user]"
  obtains r' p where "RefreshToken gen (demo_draws ''g'') Second Second (60 * Second) r tok [] [] = (r', Inr p)"
    "TP_User p = demo_user"
proof -
  let ?n = "new_session (demo_draws ''f'') Second demo_user ''f'' [] []"
  have c: "refresh_check Second r tok = (r, Inr 0)"
    using assms(1,2) by (simp add: refresh_check_def GetSessionByRefreshToken_def deref_def)
      (simp add: new_session_def RefreshTokenTTL_def duration_defs)
  obtain r' p where p: "IssueTokenPair gen (demo_draws ''g'') Second (60 * Second)
      (RevokeSession r (S_ID ?n)) demo_user ''f'' [] [] = (r', p)" by fastforce
  have "S_UserID ?n = ''u''" by (simp add: demo_user_def)
  then have "refresh_rotate gen (demo_draws ''g'') Second (60 * Second) r 0 [] [] = (r', Inr p)"
    using assms(2,3) p by (simp add: refresh_rotate_def deref_def Let_def GetUserByID_def) (simp add: demo_user_def)
  then have "RefreshToken gen (demo_draws ''g'') Second Second (60 * Second) r tok [] [] = (r', Inr p)"
    by (simp add: RefreshToken_def c)
  moreover have "TP_User p = demo_user" using p by (auto simp: IssueTokenPair_def Let_def)
  ultimately show thesis by (rule that)
qed

section \<open>Theorems\<close>

text \<open>A refresh token the store would exchange, and its family.\<close>

definition usable :: "AuthRepo \<Rightarrow> string \<Rightarrow> string \<Rightarrow> bool" where
  "usable r tok f =
     (case GetSessionByRefreshToken r tok of None \<Rightarrow> False
      | Some a \<Rightarrow> (case deref r a of None \<Rightarrow> False | Some s \<Rightarrow> S_FamilyID s = f \<and> \<not> S_IsRevoked s))"

lemma usable_live:
  "usable r tok f \<longleftrightarrow> (\<exists>a. AR_byRefresh r tok = Some a \<and> a \<in> live r f)"
  by (auto simp: usable_def GetSessionByRefreshToken_def deref_def live_def split: option.splits)

lemma byRefresh_inj:
  "consistent r \<Longrightarrow> AR_byRefresh r t1 = Some a \<Longrightarrow> AR_byRefresh r t2 = Some a \<Longrightarrow> t1 = t2"
  using consistentD(4) [of r t1 a] consistentD(4) [of r t2 a] by auto

text \<open>C12. In every history of logins, refreshes, revocations and user changes that do not overlap,
  a token family has at most one refresh token that can still be exchanged.\<close>

theorem one_usable_token_per_family:
  assumes "auth_steps gen empty_repo r" "usable r t1 f" "usable r t2 f"
  shows "t1 = t2"
proof -
  have "consistent r" "at_most_one_live r" using auth_steps_invariant [OF assms(1)] by auto
  with assms(2,3) byRefresh_inj show ?thesis unfolding usable_live at_most_one_live_def by metis
qed

text \<open>Witness of C12: after one login the token issued is the only usable one of its family.\<close>

theorem one_usable_token_per_family_witness:
  "\<exists>r tok. usable r tok ''f'' \<and> (\<forall>t. usable r t ''f'' \<longrightarrow> t = tok)"
proof -
  obtain r and p :: TokenPair where r: "auth_steps (\<lambda>_ _ _. []) empty_repo r" "AR_byRefresh r (TP_RefreshToken p) = Some 0"
    "AR_heap r 0 = Some (new_session (demo_draws ''f'') Second demo_user ''f'' [] [])"
    "AR_users r = [''u'' \<mapsto> demo_user]" "fresh r (demo_draws ''g'')" "AR_sessions r = [''f'' \<mapsto> 0]"
    "fresh r (demo_draws ''h'')" by (rule demo_login [where gen = "(\<lambda>_ _ _. [])"])
  then have "usable r (TP_RefreshToken p) ''f''" by (simp add: usable_live live_def)
  with one_usable_token_per_family [OF r(1)] show ?thesis by blast
qed



text \<open>A refresh that succeeds was given the token of an unrevoked, unexpired session of an active
  user, and rotates it: the old token is no longer usable, the new one is, in the same family and
  for the same user, and the access token carries the user's current tenant and role.\<close>

theorem RefreshToken_rotates:
  assumes "auth_steps gen empty_repo r" "fresh r d"
    and "RefreshToken gen d n1 n2 n3 r tok ip ua = (r', Inr p)"
  shows "\<exists>a s u. GetSessionByRefreshToken r tok = Some a \<and> deref r a = Some s \<and> \<not> S_IsRevoked s
     \<and> n1 \<le> S_ExpiresAt s \<and> GetUserByID r (S_UserID s) = Some u \<and> User_IsActive u \<and> TP_User p = u
     \<and> TP_AccessToken p = gen n3 (access_claims u) AccessTokenTTL
     \<and> \<not> usable r' tok f
     \<and> (S_FamilyID s \<noteq> [] \<longrightarrow> usable r' (TP_RefreshToken p) (S_FamilyID s))"
proof -
  have c: "consistent r" using auth_steps_invariant [OF assms(1)] by auto
  from assms(3) obtain a s where s: "AR_byRefresh r tok = Some a" "AR_heap r a = Some s"
    "a \<in> live r (S_FamilyID s)" "n1 \<le> S_ExpiresAt s" "refresh_rotate gen d n2 n3 r a ip ua = (r', Inr p)"
    by (cases rule: RefreshToken_split) auto
  let ?r = "RevokeSession r (S_ID s)"
  obtain u where u: "GetUserByID ?r (S_UserID s) = Some u" "User_IsActive u"
    "IssueTokenPair gen d n2 n3 ?r u (S_FamilyID s) ip ua = (r', p)"
    using s(2,5) by (auto simp: refresh_rotate_def Let_def deref_def split: option.splits if_splits prod.splits)
  have c': "consistent ?r" "fresh ?r d" using c assms(2) consistent_RevokeSession by auto
  note I = IssueTokenPair_live [OF c' u(3)]
  have p: "TP_User p = u" "TP_AccessToken p = gen n3 (access_claims u) AccessTokenTTL"
    "TP_RefreshToken p = GenerateRefreshToken (D_refresh d)"
    using u(3) by (auto simp: IssueTokenPair_def Let_def)
  have "a \<noteq> AR_next r" using consistentD(6) [OF c] s(2) by auto
  then have "a \<notin> live r' f" using I(2) [of f] live_RevokeSession_own [OF c s(2), of f] by auto
  moreover have "AR_byRefresh r' tok = Some a"
  proof -
    have "tok \<noteq> GenerateRefreshToken (D_refresh d)" using s(1) assms(2) by (auto simp: fresh_def)
    then show ?thesis using u(3) s(1) by (auto simp: IssueTokenPair_def Let_def SaveSession_def)
  qed
  ultimately have "\<not> usable r' tok f" by (simp add: usable_live)
  moreover have "S_FamilyID s \<noteq> [] \<longrightarrow> usable r' (TP_RefreshToken p) (S_FamilyID s)"
    using I(2) [of "S_FamilyID s"] I(4) by (auto simp: usable_live)
  moreover have "GetUserByID r (S_UserID s) = Some u" using u(1) by (simp add: GetUserByID_def)
  moreover have "\<not> S_IsRevoked s" using s(2,3) by (auto simp: live_def)
  ultimately show ?thesis using s(1,2,4) u(2) p(1,2)
    by (auto simp: GetSessionByRefreshToken_def deref_def)
qed

text \<open>A concrete instance.\<close>

theorem RefreshToken_rotates_witness:
  "\<exists>r tok r' p. RefreshToken (\<lambda>_ _ _. []) (demo_draws ''g'') Second Second (60 * Second) r tok [] [] = (r', Inr p)
     \<and> TP_User p = demo_user \<and> \<not> usable r' tok ''f''"
proof -
  obtain r and q :: TokenPair where r: "auth_steps (\<lambda>_ _ _. []) empty_repo r" "AR_byRefresh r (TP_RefreshToken q) = Some 0"
    "AR_heap r 0 = Some (new_session (demo_draws ''f'') Second demo_user ''f'' [] [])"
    "AR_users r = [''u'' \<mapsto> demo_user]" "fresh r (demo_draws ''g'')" "AR_sessions r = [''f'' \<mapsto> 0]"
    "fresh r (demo_draws ''h'')" by (rule demo_login [where gen = "(\<lambda>_ _ _. [])"])
  obtain r' p where rt: "RefreshToken (\<lambda>_ _ _. []) (demo_draws ''g'') Second Second (60 * Second) r
      (TP_RefreshToken q) [] [] = (r', Inr p)" "TP_User p = demo_user" by (rule demo_refresh [OF r(2,3,4)])
  from RefreshToken_rotates [OF r(1,5) rt(1), of "''f''"] rt show ?thesis by blast
qed

end
