(* ===== verification/ApiHandlers.thy ===== *)
theory ApiHandlers
  imports RetentionProps Reports Readiness
begin

text \<open>
  The endpoints of the API (\<open>handlers/handlers.go\<close>) and the target check they use (\<open>ValidateScanTargetSubnet\<close> of
  \<open>middleware/security.go\<close>). A handler takes what the call meets from outside, the state of the server, the URL, the decoded
  body (\<open>None\<close>: it does not parse), the request and the response, and gives the state and the response after it. Where
  the source ignores a decoding error the body is the value the decoder leaves.
\<close>

section \<open>State, environment, bodies\<close>

text \<open>The provider of the vault is a parameter, with its state \<open>'s\<close>.\<close>

record 's ApiState =
  AP_fleet :: Repository
  AP_vault :: 's
  AP_findings :: MemoryFindingRepository
  AP_compliance :: MemoryComplianceRepository
  AP_drift :: MemoryDriftRepository
  AP_auth :: "AuthRepo option"
  AP_cfg :: "ApiConfig option"
  AP_files :: "string \<rightharpoonup> string"

text \<open>The orders in which a call visits the maps.\<close>

record visit_orders =
  VO_endpoints :: "string list"
  VO_gateways :: "string list"
  VO_scans :: "string list"
  VO_credentials :: "string list"
  VO_snapshots :: "string list"
  VO_weeks :: "hostWeekKey list"
  VO_findings :: "string list"
  VO_frameworks :: "string list"
  VO_rules :: "string list"
  VO_scores :: "string list"
  VO_events :: "string list"
  VO_alert_rules :: "string list"
  VO_deliveries :: "string list"
  VO_users :: "string list"

text \<open>Clock readings and identifiers in the order a call takes them; \<open>HE_fmt\<close> is the RFC 3339 format.\<close>

record 'e handler_env =
  HE_clk :: "nat \<Rightarrow> time"
  HE_uid :: "nat \<Rightarrow> string"
  HE_fmt :: "time \<Rightarrow> string"
  HE_ord :: visit_orders
  HE_environ :: "string \<rightharpoonup> string"
  HE_vault :: 'e
  HE_retention :: retention_env
  HE_ended :: "nat \<Rightarrow> bool"
  HE_loop_clk :: "nat \<Rightarrow> time"
  HE_ParseIP :: "string \<Rightarrow> nat list option"
  HE_ParseCIDR :: "string \<Rightarrow> nat list option"
  HE_sha :: "string \<Rightarrow> string"
  HE_hmac :: "string \<Rightarrow> string \<Rightarrow> string"
  HE_alert :: test_env
  HE_alert_json :: "TestAlertPayload \<Rightarrow> string option"
  HE_alert_error :: "test_error \<Rightarrow> string"

record url =
  URL_param :: "string \<Rightarrow> string"
  URL_query :: "string \<Rightarrow> string"

datatype api_body =
    Fields "(string \<times> json) list"
  | PolicyBody SnapshotRetentionPolicy
  | PolicyUpdatedBody SnapshotRetentionPolicy string
  | DryRunBody SnapshotRetentionDryRun
  | ExecutedBody SnapshotRetentionExecuteResult
  | TestAlertBody TestAlertResponse
  | AlertHealthBody AlertHealthStatus
  | EndpointsBody "Endpoint list"
  | EndpointBody EndpointDetail
  | PilotBody PilotHealthSummary
  | SettingsBody RolloutSettings
  | SettingsUpdatedBody RolloutSettings string
  | SnapshotPageBody "HostSnapshotEntry KeysetPageResponse"
  | SnapshotBody HostSnapshotEntry
  | MetricsBody FleetMetrics
  | JobsBody "ScanJob list"
  | JobBody ScanJob
  | GatewaysBody "CollectorGateway list"
  | GatewayBody CollectorGateway
  | SubnetsBody "NetworkSubnet list"
  | CredentialsBody "VaultCredentialSummary list"
  | CredentialBody VaultCredentialSummary
  | AuditPageBody "SecurityAuditLog KeysetPageResponse"
  | FindingsBody FindingListResponse
  | FindingBody VulnerabilityFinding
  | FrameworksBody "ComplianceFramework list"
  | RulesBody "ComplianceRule list"
  | HostComplianceBody HostComplianceScore "EvaluationResult list"
  | ComplianceSummaryBody TenantComplianceSummary
  | DriftPageBody DriftListResponse
  | AlertRulesBody "AlertRule list"
  | AlertRuleBody AlertRule
  | DeliveriesBody "WebhookDeliveryLog list"
  | ExecutiveBody ExecutiveSummaryReport
  | AuditReportBody ComplianceAuditReport
  | PostureBody VulnerabilityPostureReport
  | ReadinessBody ProductionReadinessReport

type_synonym req = "AuthCtx Request"
type_synonym resp = "api_body Response"

definition reply :: "api_body \<Rightarrow> resp \<Rightarrow> resp" where
  "reply b w = encode_body (Data b) (set_header ''Content-Type'' ''application/json'' w)"

definition reply_created :: "api_body \<Rightarrow> resp \<Rightarrow> resp" where
  "reply_created b w = encode_body (Data b) (write_header 201 (set_header ''Content-Type'' ''application/json'' w))"

definition fail_with :: "('e, 'z) handler_env_scheme \<Rightarrow> req \<Rightarrow> int \<Rightarrow> string \<Rightarrow> string \<Rightarrow> resp \<Rightarrow> resp" where
  "fail_with env r status code detail w = WriteProblemDetails (HE_clk env 99) w r status code detail []"

text \<open>The actor of a call: \<open>GetUserID\<close>, and a fallback when that is empty.\<close>

definition actor_of :: "req \<Rightarrow> string" where
  "actor_of r = (let actor = GetUserID (R_Ctx r) in if actor = [] then ''admin_operator'' else actor)"

definition fleet_error_text :: "fleet_error \<Rightarrow> string" where
  "fleet_error_text e =
     (case e of
        JustificationRequired \<Rightarrow> ''mandatory operator justification note is required for tier promotion''
      | InvalidTargetTier t \<Rightarrow> ''invalid target tier: '' @ t @ '' (must be '' @ [CHR 0x27] @ ''staged'' @ [CHR 0x27] @ '' or '' @ [CHR 0x27] @ ''full'' @ [CHR 0x27] @ '')''
      | InvalidRolloutTier t \<Rightarrow> ''invalid rollout tier: '' @ t
      | EndpointNotFound i \<Rightarrow> ''endpoint not found with ID: '' @ i
      | ScanJobNotFound i \<Rightarrow> ''scan job not found: '' @ i
      | SnapshotNotFound i \<Rightarrow> ''snapshot '' @ [CHR 0x27] @ i @ [CHR 0x27] @ '' not found'')"

text \<open>The texts of the dry run and of the execution differ.\<close>

definition retention_error_text :: "bool \<Rightarrow> retention_error \<Rightarrow> string" where
  "retention_error_text dry e =
     (case e of
        InvalidStrategy s \<Rightarrow> ''invalid retention strategy '' @ [CHR 0x27] @ s @ [CHR 0x27]
          @ (if dry then ''; must be '' @ [CHR 0x27] @ ''archive'' @ [CHR 0x27] @ '' or '' @ [CHR 0x27] @ ''downsample'' @ [CHR 0x27] else [])
      | ContextEnded \<Rightarrow> ''context canceled'')"

text \<open>The entry most handlers write, with a built-in actor.\<close>

definition audit_of :: "('e, 'z) handler_env_scheme \<Rightarrow> req \<Rightarrow> nat \<Rightarrow> nat \<Rightarrow> string \<Rightarrow> string \<Rightarrow> string \<Rightarrow> details \<Rightarrow> SecurityAuditLog" where
  "audit_of env r i t action rtype rid ds =
     \<lparr>SAL_ID = HE_uid env i, SAL_CorrelationID = GetCorrelationID r, SAL_Timestamp = HE_clk env t, SAL_Actor = ''admin_operator'',
      SAL_Action = action, SAL_ResourceType = rtype, SAL_ResourceID = rid, SAL_Status = ''SUCCESS'', SAL_IPAddress = R_RemoteAddr r,
      SAL_Details = ds\<rparr>"

section \<open>Snapshot retention and alert verification\<close>

definition h_GetSnapshotRetentionPolicy :: "'s ApiState \<Rightarrow> req \<Rightarrow> resp \<Rightarrow> 's ApiState \<times> resp" where
  "h_GetSnapshotRetentionPolicy s r w = (s, reply (PolicyBody (GetSnapshotRetentionPolicy (AP_fleet s))) w)"

definition h_UpdateSnapshotRetentionPolicy :: "'e handler_env \<Rightarrow> 's ApiState \<Rightarrow> SnapshotRetentionPolicy option \<Rightarrow> req \<Rightarrow> resp \<Rightarrow> 's ApiState \<times> resp" where
  "h_UpdateSnapshotRetentionPolicy env s body r w =
     (case body of
        None \<Rightarrow> (s, fail_with env r 400 ''MALFORMED_JSON'' ''Invalid JSON payload'' w)
      | Some policy \<Rightarrow>
          (s\<lparr>AP_fleet := UpdateSnapshotRetentionPolicy (HE_clk env) (AP_fleet s) policy (actor_of r) (R_RemoteAddr r)\<rparr>,
           reply (PolicyUpdatedBody policy (HE_fmt env (HE_clk env 4))) w))"

definition h_DryRunSnapshotRetention :: "'e handler_env \<Rightarrow> 's ApiState \<Rightarrow> SnapshotRetentionExecuteRequest \<Rightarrow> req \<Rightarrow> resp \<Rightarrow> 's ApiState \<times> resp" where
  "h_DryRunSnapshotRetention env s q r w =
     (case DryRun (HE_retention env) (VO_snapshots (HE_ord env)) (VO_weeks (HE_ord env)) (HE_clk env) (AP_fleet s) q (GetTenantID (R_Ctx r)) of
        Inl err \<Rightarrow> (s, fail_with env r 400 ''DRY_RUN_FAILED'' (retention_error_text True err) w)
      | Inr result \<Rightarrow> (s, reply (DryRunBody result) w))"

definition h_ExecuteSnapshotRetention :: "'e handler_env \<Rightarrow> 's ApiState \<Rightarrow> SnapshotRetentionExecuteRequest \<Rightarrow> req \<Rightarrow> resp \<Rightarrow> 's ApiState \<times> resp" where
  "h_ExecuteSnapshotRetention env s q r w =
     (case Execute (HE_retention env) (VO_snapshots (HE_ord env)) (VO_weeks (HE_ord env)) (HE_ended env) (HE_clk env) (HE_loop_clk env) (HE_fmt env)
             (HE_uid env 0) (AP_fleet s) (AP_files s) q (GetTenantID (R_Ctx r)) (actor_of r) (R_RemoteAddr r) of
        (fleet, files, res) \<Rightarrow>
          (let s = s\<lparr>AP_fleet := fleet, AP_files := files\<rparr>
           in case res of
                Inl err \<Rightarrow> (s, fail_with env r 500 ''RETENTION_EXECUTION_FAILED'' (retention_error_text False err) w)
              | Inr result \<Rightarrow> (s, reply (ExecutedBody result) w)))"

record TestAlertRequest =
  TAR_WebhookURL :: string
  TAR_SecretKey :: string
  TAR_Channel :: string
  TAR_TestReason :: string

text \<open>The target and key of a test: those of the request, else of the first active rule with an address.\<close>

definition test_target :: "AlertRule list \<Rightarrow> TestAlertRequest \<Rightarrow> string \<times> string" where
  "test_target rules q =
     (let (targetURL, secretKey) =
            (if TAR_WebhookURL q = [] then
               (case find (\<lambda>rule. AL_IsActive rule \<and> AL_WebhookURL rule \<noteq> []) rules of
                  None \<Rightarrow> ([], TAR_SecretKey q)
                | Some rule \<Rightarrow> (AL_WebhookURL rule, if TAR_SecretKey q = [] then AL_SecretKey rule else TAR_SecretKey q))
             else (TAR_WebhookURL q, TAR_SecretKey q))
      in (if targetURL = [] then ''https://hooks.slack.com/services/SYNTHETIC_TEST_ALERT'' else targetURL, secretKey))"

definition h_SendTestAlert :: "'e handler_env \<Rightarrow> 's ApiState \<Rightarrow> TestAlertRequest \<Rightarrow> req \<Rightarrow> resp \<Rightarrow> 's ApiState \<times> resp" where
  "h_SendTestAlert env s q r w =
     (let actor = actor_of r;
          (targetURL, secretKey) = test_target (ListAlertRules (VO_alert_rules (HE_ord env)) (AP_drift s) (GetTenantID (R_Ctx r))) q
      in case DispatchTestAlert (HE_hmac env) (HE_alert_json env) dec_int (HE_alert env) targetURL secretKey actor (TAR_TestReason q) of
           (_, Some answer, _) \<Rightarrow>
             (s\<lparr>AP_fleet := RecordTestAlertResult (HE_clk env) (AP_fleet s) answer actor (R_RemoteAddr r)\<rparr>, reply (TestAlertBody answer) w)
         | (_, None, Some err) \<Rightarrow> (s, fail_with env r 502 ''DISPATCH_FAILED'' (HE_alert_error env err) w)
         | (_, None, None) \<Rightarrow> (s, w))"

definition h_GetAlertHealthStatus :: "'e handler_env \<Rightarrow> 's ApiState \<Rightarrow> req \<Rightarrow> resp \<Rightarrow> 's ApiState \<times> resp" where
  "h_GetAlertHealthStatus env s r w = (s, reply (AlertHealthBody (GetAlertHealthStatus (HE_clk env 0) (AP_fleet s))) w)"

section \<open>Endpoints and roll-out tiers\<close>

definition h_ListEndpoints :: "'e handler_env \<Rightarrow> 's ApiState \<Rightarrow> url \<Rightarrow> req \<Rightarrow> resp \<Rightarrow> 's ApiState \<times> resp" where
  "h_ListEndpoints env s u r w =
     (s, reply (EndpointsBody (ListEndpoints (VO_endpoints (HE_ord env)) (AP_fleet s) (SanitizeText (URL_query u ''search''))
           (SanitizeText (URL_query u ''os'')) (SanitizeText (URL_query u ''status'')) (SanitizeText (URL_query u ''rollout_tier'')))) w)"

definition h_GetPilotHealthSummary :: "'e handler_env \<Rightarrow> 's ApiState \<Rightarrow> req \<Rightarrow> resp \<Rightarrow> 's ApiState \<times> resp" where
  "h_GetPilotHealthSummary env s r w = (s, reply (PilotBody (GetPilotHealthSummary (VO_endpoints (HE_ord env)) (AP_fleet s))) w)"

definition h_PromoteEndpointsTier :: "'e handler_env \<Rightarrow> 's ApiState \<Rightarrow> PromoteTierRequest option \<Rightarrow> req \<Rightarrow> resp \<Rightarrow> 's ApiState \<times> resp" where
  "h_PromoteEndpointsTier env s body r w =
     (case body of
        None \<Rightarrow> (s, fail_with env r 400 ''MALFORMED_JSON'' ''Invalid JSON payload for tier promotion'' w)
      | Some q \<Rightarrow>
          (case PromoteEndpointsTier (VO_endpoints (HE_ord env)) (HE_uid env) (HE_clk env 0) (AP_fleet s) q (actor_of r) (R_RemoteAddr r) of
             (fleet, Inl err) \<Rightarrow> (s\<lparr>AP_fleet := fleet\<rparr>, fail_with env r 400 ''PROMOTION_ERROR'' (fleet_error_text err) w)
           | (fleet, Inr cnt) \<Rightarrow>
               (s\<lparr>AP_fleet := fleet\<rparr>,
                reply (Fields [(''status'', JStr ''PROMOTED''), (''target_tier'', JStr (PTR_TargetTier q)), (''promoted_count'', JNum (of_int cnt)),
                  (''justification'', JStr (PTR_Justification q)), (''promoted_at'', JStr (HE_fmt env (HE_clk env 1)))]) w)))"

definition h_BulkAssignEndpointsTier :: "'e handler_env \<Rightarrow> 's ApiState \<Rightarrow> BulkAssignTierRequest option \<Rightarrow> req \<Rightarrow> resp \<Rightarrow> 's ApiState \<times> resp" where
  "h_BulkAssignEndpointsTier env s body r w =
     (case body of
        None \<Rightarrow> (s, fail_with env r 400 ''MALFORMED_JSON'' ''Invalid JSON payload for bulk tier assignment'' w)
      | Some q \<Rightarrow>
          (case BulkAssignEndpointsTier (VO_endpoints (HE_ord env)) (HE_uid env) (HE_clk env 0) (AP_fleet s) q (actor_of r) (R_RemoteAddr r) of
             (fleet, Inl err) \<Rightarrow> (s\<lparr>AP_fleet := fleet\<rparr>, fail_with env r 400 ''BULK_ASSIGN_ERROR'' (fleet_error_text err) w)
           | (fleet, Inr cnt) \<Rightarrow>
               (s\<lparr>AP_fleet := fleet\<rparr>,
                reply (Fields [(''status'', JStr ''ASSIGNED''), (''assigned_tier'', JStr (BAT_RolloutTier q)), (''affected_count'', JNum (of_int cnt)),
                  (''justification'', JStr (BAT_Justification q)), (''assigned_at'', JStr (HE_fmt env (HE_clk env 1)))]) w)))"

text \<open>The body is the pair of tier and justification.\<close>

definition h_UpdateEndpointRolloutTier :: "'e handler_env \<Rightarrow> 's ApiState \<Rightarrow> url \<Rightarrow> (string \<times> string) option \<Rightarrow> req \<Rightarrow> resp \<Rightarrow> 's ApiState \<times> resp" where
  "h_UpdateEndpointRolloutTier env s u body r w =
     (case body of
        None \<Rightarrow> (s, fail_with env r 400 ''MALFORMED_JSON'' ''Invalid JSON payload'' w)
      | Some (tier, justification) \<Rightarrow>
          (let i = URL_param u ''id''
           in case UpdateEndpointRolloutTier (HE_uid env) (HE_clk env 0) (AP_fleet s) i tier justification (actor_of r) (R_RemoteAddr r) of
                (fleet, Some err) \<Rightarrow> (s\<lparr>AP_fleet := fleet\<rparr>, fail_with env r 400 ''UPDATE_TIER_ERROR'' (fleet_error_text err) w)
              | (fleet, None) \<Rightarrow>
                  (s\<lparr>AP_fleet := fleet\<rparr>,
                   reply (Fields [(''status'', JStr ''UPDATED''), (''endpoint_id'', JStr i), (''tier'', JStr tier),
                     (''justification'', JStr justification), (''updated_at'', JStr (HE_fmt env (HE_clk env 1)))]) w)))"

definition h_GetRolloutSettings :: "'s ApiState \<Rightarrow> req \<Rightarrow> resp \<Rightarrow> 's ApiState \<times> resp" where
  "h_GetRolloutSettings s r w = (s, reply (SettingsBody (GetRolloutSettings (AP_fleet s))) w)"

definition h_UpdateRolloutSettings :: "'e handler_env \<Rightarrow> 's ApiState \<Rightarrow> RolloutSettings option \<Rightarrow> req \<Rightarrow> resp \<Rightarrow> 's ApiState \<times> resp" where
  "h_UpdateRolloutSettings env s body r w =
     (case body of
        None \<Rightarrow> (s, fail_with env r 400 ''MALFORMED_JSON'' ''Invalid JSON payload'' w)
      | Some settings \<Rightarrow>
          (s\<lparr>AP_fleet := UpdateRolloutSettings (HE_uid env) (HE_clk env) (AP_fleet s) settings (actor_of r) (R_RemoteAddr r)\<rparr>,
           reply (SettingsUpdatedBody settings (HE_fmt env (HE_clk env 2))) w))"

definition h_GetEndpointByID :: "'e handler_env \<Rightarrow> 's ApiState \<Rightarrow> url \<Rightarrow> req \<Rightarrow> resp \<Rightarrow> 's ApiState \<times> resp" where
  "h_GetEndpointByID env s u r w =
     (let i = URL_param u ''id''
      in if trim_space i = [] then (s, fail_with env r 400 ''INVALID_ENDPOINT_ID'' ''Endpoint ID must not be empty'' w)
         else
           (case GetEndpointDetail (AP_fleet s) i of
              Inl err \<Rightarrow> (s, fail_with env r 404 ''ENDPOINT_NOT_FOUND'' (fleet_error_text err) w)
            | Inr detail \<Rightarrow> (s, reply (EndpointBody detail) w)))"

text \<open>Nothing is deleted.\<close>

definition h_DeleteEndpoint :: "'e handler_env \<Rightarrow> 's ApiState \<Rightarrow> url \<Rightarrow> req \<Rightarrow> resp \<Rightarrow> 's ApiState \<times> resp" where
  "h_DeleteEndpoint env s u r w =
     (let i = URL_param u ''id''
      in (s\<lparr>AP_fleet := AddAuditLog (AP_fleet s) (audit_of env r 0 0 ''ENDPOINT_DELETED_INVENTORY'' ''endpoint'' i
              [(''tenant_id'', JStr (GetTenantID (R_Ctx r))), (''reason'', JStr ''destructive endpoint decommission'')])\<rparr>,
          reply (Fields [(''status'', JStr ''DELETED''), (''endpoint_id'', JStr i),
            (''message'', JStr ''Endpoint successfully decommissioned and purged from active inventory''),
            (''purged_at'', JStr (HE_fmt env (HE_clk env 1)))]) w))"

definition h_DisablePolicyEnforcement :: "'e handler_env \<Rightarrow> 's ApiState \<Rightarrow> url \<Rightarrow> string \<Rightarrow> req \<Rightarrow> resp \<Rightarrow> 's ApiState \<times> resp" where
  "h_DisablePolicyEnforcement env s u justification r w =
     (let i = URL_param u ''id''
      in if trim_space justification = []
         then (s, fail_with env r 400 ''JUSTIFICATION_REQUIRED'' ''Mandatory business justification required to disable policy'' w)
         else
           (s\<lparr>AP_fleet := AddAuditLog (AP_fleet s) (audit_of env r 0 0 ''SECURITY_POLICY_DISABLED'' ''compliance_policy'' i
                [(''tenant_id'', JStr (GetTenantID (R_Ctx r))), (''justification'', JStr justification)])\<rparr>,
            reply (Fields [(''status'', JStr ''DISABLED''), (''policy_id'', JStr i), (''justification'', JStr justification),
              (''suspended_at'', JStr (HE_fmt env (HE_clk env 1)))]) w))"

section \<open>Snapshots, metrics and scans\<close>

text \<open>\<open>strconv.Atoi\<close> of the query, kept when it is a positive number.\<close>

definition query_limit :: "int \<Rightarrow> string \<Rightarrow> int" where
  "query_limit dflt limitStr =
     (if limitStr = [] then dflt else (case Atoi limitStr of None \<Rightarrow> dflt | Some parsed \<Rightarrow> if parsed > 0 then parsed else dflt))"

definition query_offset :: "string \<Rightarrow> int" where
  "query_offset offsetStr =
     (if offsetStr = [] then 0 else (case Atoi offsetStr of None \<Rightarrow> 0 | Some offset \<Rightarrow> if offset \<ge> 0 then offset else 0))"

definition h_ListSnapshots :: "'e handler_env \<Rightarrow> 's ApiState \<Rightarrow> url \<Rightarrow> req \<Rightarrow> resp \<Rightarrow> 's ApiState \<times> resp" where
  "h_ListSnapshots env s u r w =
     (s, reply (SnapshotPageBody (ListSnapshotsKeyset (VO_snapshots (HE_ord env)) (AP_fleet s) (GetTenantID (R_Ctx r)) (URL_query u ''host_id'')
           \<lparr>PQ_Cursor = URL_query u ''cursor'', PQ_Limit = query_limit 20 (URL_query u ''limit'')\<rparr>)) w)"

definition h_GetSnapshotByID :: "'e handler_env \<Rightarrow> 's ApiState \<Rightarrow> url \<Rightarrow> req \<Rightarrow> resp \<Rightarrow> 's ApiState \<times> resp" where
  "h_GetSnapshotByID env s u r w =
     (case GetSnapshotByID (AP_fleet s) (GetTenantID (R_Ctx r)) (URL_param u ''id'') of
        None \<Rightarrow> (s, fail_with env r 404 ''SNAPSHOT_NOT_FOUND'' ''Snapshot not found'' w)
      | Some snap \<Rightarrow> (s, reply (SnapshotBody snap) w))"

definition h_GetFleetMetrics :: "'e handler_env \<Rightarrow> 's ApiState \<Rightarrow> req \<Rightarrow> resp \<Rightarrow> 's ApiState \<times> resp" where
  "h_GetFleetMetrics env s r w =
     (s, reply (MetricsBody (GetFleetMetrics (VO_endpoints (HE_ord env)) (VO_gateways (HE_ord env)) (AP_fleet s))) w)"

text \<open>The addresses are bytes: \<open>IsLoopback\<close>, the metadata address and the block \<open>169.254.0.0/16\<close>. \<open>HE_ParseCIDR\<close> gives
  the base address of the network.\<close>

definition is_loopback :: "nat list \<Rightarrow> bool" where
  "is_loopback ip \<longleftrightarrow> (length (to4 ip) = 4 \<and> hd (to4 ip) = 127) \<or> ip = replicate 15 0 @ [1]"

definition ValidateScanTargetSubnet :: "(string \<Rightarrow> nat list option) \<Rightarrow> (string \<Rightarrow> nat list option) \<Rightarrow> string \<Rightarrow> string option" where
  "ValidateScanTargetSubnet ParseCIDR ParseIP cidrStr0 =
     (let cidrStr = trim_space cidrStr0
      in case ParseCIDR cidrStr of
           None \<Rightarrow>
             (case ParseIP cidrStr of
                None \<Rightarrow> Some ''Invalid CIDR or IP address format''
              | Some ip \<Rightarrow>
                  if is_loopback ip \<or> to4 ip = [169, 254, 169, 254]
                  then Some ''Target IP is a restricted metadata/loopback address (SSRF Protection)'' else None)
         | Some base \<Rightarrow>
             if length (to4 base) = 4 \<and> take 2 (to4 base) = [169, 254]
             then Some ''Target subnet overlaps with cloud instance metadata range (SSRF Protection)'' else None)"

text \<open>A body over a megabyte does not parse.\<close>

definition h_CreateScanJob :: "'e handler_env \<Rightarrow> 's ApiState \<Rightarrow> CreateScanJobRequest option \<Rightarrow> req \<Rightarrow> resp \<Rightarrow> 's ApiState \<times> resp" where
  "h_CreateScanJob env s body r w =
     (case body of
        None \<Rightarrow> (s, fail_with env r 400 ''MALFORMED_JSON'' ''Unable to parse scan request payload'' w)
      | Some q \<Rightarrow>
          if trim_space (CSJ_Name q) = [] then (s, fail_with env r 400 ''MISSING_FIELD'' ''Scan job name is required'' w)
          else
            (case ValidateScanTargetSubnet (HE_ParseCIDR env) (HE_ParseIP env) (CSJ_TargetCIDR q) of
               Some errMsg \<Rightarrow> (s, fail_with env r 400 ''INVALID_TARGET_SUBNET'' errMsg w)
             | None \<Rightarrow>
                 if trim_space (CSJ_VaultSecretRef q) = []
                 then (s, fail_with env r 400 ''MISSING_SECRET_REF'' ''A valid vault secret reference (sec_ref_*) is required'' w)
                 else
                   (let (fleet, job) = CreateScanJob (HE_fmt env) (HE_uid env 0) (HE_clk env 0) (AP_fleet s) q
                    in (s\<lparr>AP_fleet := AddAuditLog fleet (audit_of env r 1 1 ''SCAN_JOB_LAUNCHED'' ''scan_job'' (SJ_ID job)
                            [(''target_cidr'', JStr (CSJ_TargetCIDR q)), (''profile'', JStr (CSJ_ScanProfile q))])\<rparr>,
                        reply_created (JobBody job) w))))"

definition h_ListScanJobs :: "'e handler_env \<Rightarrow> 's ApiState \<Rightarrow> req \<Rightarrow> resp \<Rightarrow> 's ApiState \<times> resp" where
  "h_ListScanJobs env s r w = (s, reply (JobsBody (ListScanJobs (VO_scans (HE_ord env)) (AP_fleet s))) w)"

definition h_GetScanJobByID :: "'e handler_env \<Rightarrow> 's ApiState \<Rightarrow> url \<Rightarrow> req \<Rightarrow> resp \<Rightarrow> 's ApiState \<times> resp" where
  "h_GetScanJobByID env s u r w =
     (case GetScanJob (AP_fleet s) (URL_param u ''id'') of
        Inl err \<Rightarrow> (s, fail_with env r 404 ''SCAN_JOB_NOT_FOUND'' (fleet_error_text err) w)
      | Inr job \<Rightarrow> (s, reply (JobBody job) w))"

definition h_CancelScanJob :: "'e handler_env \<Rightarrow> 's ApiState \<Rightarrow> url \<Rightarrow> req \<Rightarrow> resp \<Rightarrow> 's ApiState \<times> resp" where
  "h_CancelScanJob env s u r w =
     (let i = URL_param u ''id''
      in case GetScanJob (AP_fleet s) i of
           Inl err \<Rightarrow> (s, fail_with env r 404 ''SCAN_JOB_NOT_FOUND'' ''Scan job not found'' w)
         | Inr job \<Rightarrow>
             (s\<lparr>AP_fleet := cancel_job (HE_clk env 0) i (AP_fleet s)\<rparr>,
              reply (Fields [(''status'', JStr ''CANCELLED''), (''job_id'', JStr i), (''message'', JStr ''Scan job has been aborted'')]) w))"

section \<open>Gateways\<close>

definition h_ListGateways :: "'e handler_env \<Rightarrow> 's ApiState \<Rightarrow> req \<Rightarrow> resp \<Rightarrow> 's ApiState \<times> resp" where
  "h_ListGateways env s r w = (s, reply (GatewaysBody (ListGateways (VO_gateways (HE_ord env)) (AP_fleet s))) w)"

definition h_ListNetworkSubnets :: "'e handler_env \<Rightarrow> 's ApiState \<Rightarrow> req \<Rightarrow> resp \<Rightarrow> 's ApiState \<times> resp" where
  "h_ListNetworkSubnets env s r w = (s, reply (SubnetsBody (ListNetworkSubnets (HE_fmt env) (HE_clk env))) w)"

record RegisterGatewayRequest =
  RGQ_GatewayCode :: string
  RGQ_Name :: string
  RGQ_SubnetCIDR :: string
  RGQ_CSRPEM :: string

definition h_RegisterGateway :: "'e handler_env \<Rightarrow> 's ApiState \<Rightarrow> RegisterGatewayRequest option \<Rightarrow> req \<Rightarrow> resp \<Rightarrow> 's ApiState \<times> resp" where
  "h_RegisterGateway env s body r w =
     (case body of
        None \<Rightarrow> (s, fail_with env r 400 ''MALFORMED_JSON'' ''Invalid registration payload'' w)
      | Some q \<Rightarrow>
          if RGQ_GatewayCode q = [] \<or> RGQ_SubnetCIDR q = []
          then (s, fail_with env r 400 ''MISSING_FIELD'' ''Gateway code and subnet CIDR are required'' w)
          else
            (let gw = \<lparr>CG_ID = HE_uid env 0, CG_GatewayCode = RGQ_GatewayCode q, CG_Name = RGQ_Name q, CG_SubnetCIDR = RGQ_SubnetCIDR q,
                   CG_MTLSCertFingerprint = ''SHA256:PENDING_OPERATOR_APPROVAL'', CG_Status = ''pending_approval'',
                   CG_Version = ''v1.2.0'', CG_LatencyMs = 0, CG_LastHeartbeatAt = HE_clk env 0, CG_CreatedAt = HE_clk env 1\<rparr>
             in (s\<lparr>AP_fleet := AddGateway (AP_fleet s) gw\<rparr>, reply_created (GatewayBody gw) w)))"

text \<open>The gateway that is approved is a copy: the repository keeps the one it has.\<close>

definition h_ApproveGateway :: "'e handler_env \<Rightarrow> 's ApiState \<Rightarrow> url \<Rightarrow> req \<Rightarrow> resp \<Rightarrow> 's ApiState \<times> resp" where
  "h_ApproveGateway env s u r w =
     (let i = URL_param u ''id''
      in case find (\<lambda>gw. CG_ID gw = i \<or> CG_GatewayCode gw = i) (ListGateways (VO_gateways (HE_ord env)) (AP_fleet s)) of
           None \<Rightarrow> (s, fail_with env r 404 ''GATEWAY_NOT_FOUND'' ''Gateway not found'' w)
         | Some target \<Rightarrow>
             (let target = target\<lparr>CG_Status := ''healthy'', CG_MTLSCertFingerprint := ''SHA256:APPROVED_MTLS_CERT_'' @ take 16 (HE_uid env 0)\<rparr>
              in (s, reply (Fields [(''status'', JStr ''APPROVED''), (''gateway_id'', JStr i), (''fingerprint'', JStr (CG_MTLSCertFingerprint target))]) w)))"

definition h_GatewayHeartbeat :: "'e handler_env \<Rightarrow> 's ApiState \<Rightarrow> (string \<times> int) option \<Rightarrow> req \<Rightarrow> resp \<Rightarrow> 's ApiState \<times> resp" where
  "h_GatewayHeartbeat env s body r w =
     (case body of
        None \<Rightarrow> (s, fail_with env r 400 ''MALFORMED_JSON'' ''Invalid heartbeat payload'' w)
      | Some (gatewayCode, latencyMs) \<Rightarrow>
          (s\<lparr>AP_fleet := UpdateGatewayHeartbeat (VO_gateways (HE_ord env)) (HE_clk env 0) (AP_fleet s) gatewayCode latencyMs\<rparr>,
           reply (Fields [(''status'', JStr ''acknowledged'')]) w))"

section \<open>Credentials\<close>

definition h_ListVaultCredentials :: "'e handler_env \<Rightarrow> 's ApiState \<Rightarrow> req \<Rightarrow> resp \<Rightarrow> 's ApiState \<times> resp" where
  "h_ListVaultCredentials env s r w = (s, reply (CredentialsBody (ListVaultCredentials (VO_credentials (HE_ord env)) (AP_fleet s))) w)"

definition ref_of :: "string \<Rightarrow> string \<Rightarrow> CredentialRef" where
  "ref_of opaque tenant = \<lparr>CX_OpaqueID = opaque, CX_TenantID = tenant, CX_CredentialType = [], CX_DomainOrHost = [], CX_Username = [],
     CX_VaultPath = [], CX_RotationVersion = 0\<rparr>"

definition h_CreateVaultCredential :: "('e, 's) SecretProvider \<Rightarrow> 'e handler_env \<Rightarrow> 's ApiState \<Rightarrow> CreateVaultCredentialRequest option \<Rightarrow> req \<Rightarrow> resp
    \<Rightarrow> 's ApiState \<times> resp" where
  "h_CreateVaultCredential provider env s body r w =
     (case body of
        None \<Rightarrow> (s, fail_with env r 400 ''MALFORMED_JSON'' ''Unable to parse credential payload'' w)
      | Some q \<Rightarrow>
          if trim_space (CVR_Name q) = [] \<or> trim_space (CVR_Username q) = [] \<or> trim_space (CVR_SecretValue q) = []
          then (s, fail_with env r 400 ''VALIDATION_FAILED'' ''Name, Username, and SecretValue are strictly required'' w)
          else
            (let ref = (ref_of [] (GetTenantID (R_Ctx r)))\<lparr>CX_CredentialType := CVR_CredentialType q, CX_DomainOrHost := CVR_DomainOrHost q,
                          CX_Username := CVR_Username q\<rparr>
             in case StoreCredential provider (HE_vault env) (HE_uid env 0) (AP_vault s) ref (CVR_SecretValue q) of
                  (v, _, Inl err) \<Rightarrow> (s\<lparr>AP_vault := v\<rparr>, fail_with env r 500 ''VAULT_STORE_FAILED'' ''Failed to store credential in vault'' w)
                | (v, _, Inr opaqueID) \<Rightarrow>
                    (let summary = \<lparr>VCS_ID = HE_uid env 1, VCS_OpaqueID = opaqueID, VCS_Name = CVR_Name q, VCS_CredentialType = CVR_CredentialType q,
                           VCS_DomainOrHost = CVR_DomainOrHost q, VCS_Username = CVR_Username q, VCS_CreatedAt = HE_clk env 0, VCS_UpdatedAt = HE_clk env 0\<rparr>
                     in (s\<lparr>AP_vault := v, AP_fleet := AddVaultCredential (AP_fleet s) summary\<rparr>, reply_created (CredentialBody summary) w))))"

text \<open>The body is the new secret.\<close>

definition h_RotateVaultCredential :: "('e, 's) SecretProvider \<Rightarrow> 'e handler_env \<Rightarrow> 's ApiState \<Rightarrow> url \<Rightarrow> string option \<Rightarrow> req \<Rightarrow> resp \<Rightarrow> 's ApiState \<times> resp" where
  "h_RotateVaultCredential provider env s u body r w =
     (if body = None \<or> body = Some [] then (s, fail_with env r 400 ''INVALID_BODY'' ''new_secret_value is required'' w)
      else
        (let i = URL_param u ''id''
         in case RotateCredential provider (HE_vault env) (AP_vault s) (ref_of i (GetTenantID (R_Ctx r))) (the body) of
              (v, _, Some err) \<Rightarrow> (s\<lparr>AP_vault := v\<rparr>, fail_with env r 500 ''ROTATION_FAILED'' ''Failed to rotate credential secret'' w)
            | (v, _, None) \<Rightarrow>
                (s\<lparr>AP_vault := v\<rparr>,
                 reply (Fields [(''status'', JStr ''ROTATED''), (''opaque_id'', JStr i), (''rotated_at'', JStr (HE_fmt env (HE_clk env 0)))]) w)))"

text \<open>The audit callback of the server, which \<open>main\<close> hands to the manager, adds the entry of every resolution to the log.\<close>

definition write_events :: "(nat \<Rightarrow> string) \<Rightarrow> vault_event list \<Rightarrow> Repository \<Rightarrow> Repository" where
  "write_events uid events r =
     foldl (\<lambda>r (i, ev). case ev of AuditWritten entry \<Rightarrow> AddAuditLog r (AuditLogFromVaultEntry (uid i) entry) | ProviderAsked _ \<Rightarrow> r) r
       (enumerate 1 events)"

text \<open>The probe sleeps and contacts no host.\<close>

definition h_TestVaultCredential :: "('e, 's) SecretProvider \<Rightarrow> 'e handler_env \<Rightarrow> 's ApiState \<Rightarrow> url \<Rightarrow> string option \<Rightarrow> req \<Rightarrow> resp \<Rightarrow> 's ApiState \<times> resp" where
  "h_TestVaultCredential provider env s u body r w =
     (case body of
        None \<Rightarrow> (s, fail_with env r 400 ''INVALID_TARGET'' ''Valid target_ip is required for credential test'' w)
      | Some targetIP \<Rightarrow>
          if trim_space targetIP = [] then (s, fail_with env r 400 ''INVALID_TARGET'' ''Valid target_ip is required for credential test'' w)
          else if HE_ParseIP env (trim_space targetIP) = None
          then (s, fail_with env r 400 ''MALFORMED_IP'' ''Target must be a valid IPv4 or IPv6 address'' w)
          else
            (let i = URL_param u ''id''
             in case ResolveCredentialForGateway provider (\<lambda>_. None) (HE_vault env) (HE_clk env 0) (AP_vault s) ''admin-probe-tester'' ''manual-test''
                       (HE_uid env 0) (R_RemoteAddr r) (ref_of i (GetTenantID (R_Ctx r))) of
                  (v, events, Inl err) \<Rightarrow>
                    (s\<lparr>AP_vault := v, AP_fleet := write_events (HE_uid env) events (AP_fleet s)\<rparr>,
                     fail_with env r 404 ''CREDENTIAL_NOT_FOUND'' ''Failed to resolve credential from vault'' w)
                | (v, events, Inr secret) \<Rightarrow>
                    (let latency = quot (time_sub (HE_clk env 2) (HE_clk env 1)) Millisecond;
                         fleet = write_events (HE_uid env) events (AP_fleet s)
                     in (s\<lparr>AP_vault := v, AP_fleet := AddAuditLog fleet (audit_of env r 3 3 ''CREDENTIAL_PROBE_TEST'' ''vault_credential'' i
                            [(''target_ip'', JStr targetIP), (''latency_ms'', JNum (of_int latency))])\<rparr>,
                         reply (Fields [(''status'', JStr ''SUCCESS''), (''opaque_id'', JStr i), (''target_ip'', JStr targetIP),
                           (''latency_ms'', JNum (of_int latency)), (''auth_mechanism'', JStr ''Encrypted WinRM Session (gMSA/Kerberos)''),
                           (''verified_at'', JStr (HE_fmt env (HE_clk env 4))),
                           (''message'', JStr ''Credential validated successfully against target host without secret exposure.'')]) w))))"


section \<open>Audit log, findings and compliance\<close>

definition h_ListAuditLogs :: "'s ApiState \<Rightarrow> url \<Rightarrow> req \<Rightarrow> resp \<Rightarrow> 's ApiState \<times> resp" where
  "h_ListAuditLogs s u r w =
     (s, reply (AuditPageBody (ListAuditLogsKeyset (AP_fleet s) (GetTenantID (R_Ctx r))
           \<lparr>PQ_Cursor = URL_query u ''cursor'', PQ_Limit = query_limit 50 (URL_query u ''limit'')\<rparr>)) w)"

text \<open>A flag of the query: absent when empty.\<close>

definition query_flag :: "string \<Rightarrow> bool option" where
  "query_flag v = (if v = [] then None else Some (equal_fold v ''true'' \<or> v = ''1''))"

definition finding_options :: "url \<Rightarrow> FindingQueryOptions" where
  "finding_options u =
     \<lparr>FQ_Severity = URL_query u ''severity'', FQ_Status = [], FQ_IsKEV = query_flag (URL_query u ''is_kev''),
      FQ_EndpointID = URL_query u ''endpoint_id'', FQ_Search = URL_query u ''cve_id'',
      FQ_Limit = query_limit 0 (URL_query u ''limit''), FQ_Offset = query_offset (URL_query u ''offset'')\<rparr>"

definition h_ListVulnerabilityFindings :: "'e handler_env \<Rightarrow> 's ApiState \<Rightarrow> url \<Rightarrow> req \<Rightarrow> resp \<Rightarrow> 's ApiState \<times> resp" where
  "h_ListVulnerabilityFindings env s u r w =
     (case QueryFindings (VO_findings (HE_ord env)) (AP_findings s) (GetTenantID (R_Ctx r)) (finding_options u) of
        Inl err \<Rightarrow> (s, fail_with env r 500 ''FINDINGS_QUERY_ERROR'' ''Failed to query vulnerability findings'' w)
      | Inr found \<Rightarrow> (s, reply (FindingsBody found) w))"

definition h_GetVulnerabilityFindingByID :: "'e handler_env \<Rightarrow> 's ApiState \<Rightarrow> url \<Rightarrow> req \<Rightarrow> resp \<Rightarrow> 's ApiState \<times> resp" where
  "h_GetVulnerabilityFindingByID env s u r w =
     (case GetFindingByID (AP_findings s) (GetTenantID (R_Ctx r)) (URL_param u ''id'') of
        Inl err \<Rightarrow> (s, fail_with env r 404 ''FINDING_NOT_FOUND'' ''Vulnerability finding not found'' w)
      | Inr finding \<Rightarrow> (s, reply (FindingBody finding) w))"

definition h_ListComplianceFrameworks :: "'e handler_env \<Rightarrow> 's ApiState \<Rightarrow> req \<Rightarrow> resp \<Rightarrow> 's ApiState \<times> resp" where
  "h_ListComplianceFrameworks env s r w = (s, reply (FrameworksBody (ListFrameworks (VO_frameworks (HE_ord env)) (AP_compliance s))) w)"

definition framework_or_default :: "string \<Rightarrow> string" where
  "framework_or_default code = (if code = [] then CISWin11FrameworkCode else code)"

definition h_ListComplianceRules :: "'e handler_env \<Rightarrow> 's ApiState \<Rightarrow> url \<Rightarrow> req \<Rightarrow> resp \<Rightarrow> 's ApiState \<times> resp" where
  "h_ListComplianceRules env s u r w =
     (s, reply (RulesBody (ListRulesByFramework (VO_rules (HE_ord env)) (AP_compliance s) (framework_or_default (URL_param u ''code'')))) w)"

definition h_GetHostComplianceResults :: "'e handler_env \<Rightarrow> 's ApiState \<Rightarrow> url \<Rightarrow> req \<Rightarrow> resp \<Rightarrow> 's ApiState \<times> resp" where
  "h_GetHostComplianceResults env s u r w =
     (case GetHostEvaluations (AP_compliance s) (GetTenantID (R_Ctx r)) (URL_param u ''host_id'') of
        Inr (evals, Some score) \<Rightarrow> (s, reply (HostComplianceBody score evals) w)
      | _ \<Rightarrow> (s, fail_with env r 404 ''EVALUATION_NOT_FOUND'' ''No compliance evaluations found for host'' w))"

definition h_GetTenantComplianceSummary :: "'e handler_env \<Rightarrow> 's ApiState \<Rightarrow> url \<Rightarrow> req \<Rightarrow> resp \<Rightarrow> 's ApiState \<times> resp" where
  "h_GetTenantComplianceSummary env s u r w =
     (s, reply (ComplianceSummaryBody (GetTenantSummary (VO_scores (HE_ord env)) (HE_clk env 0) (AP_compliance s) (GetTenantID (R_Ctx r))
           (framework_or_default (URL_query u ''framework'')))) w)"

section \<open>Drift, alert rules and reports\<close>

definition drift_options :: "url \<Rightarrow> DriftQueryOptions" where
  "drift_options u =
     \<lparr>DQ_Severity = URL_query u ''severity'', DQ_Category = URL_query u ''category'', DQ_HostID = URL_query u ''host_id'',
      DQ_IsAcknowledged = map_option Not (query_flag (URL_query u ''unacknowledged'')),
      DQ_Limit = query_limit 0 (URL_query u ''limit''), DQ_Offset = query_offset (URL_query u ''offset'')\<rparr>"

definition h_ListDriftEvents :: "'e handler_env \<Rightarrow> 's ApiState \<Rightarrow> url \<Rightarrow> req \<Rightarrow> resp \<Rightarrow> 's ApiState \<times> resp" where
  "h_ListDriftEvents env s u r w =
     (s, reply (DriftPageBody (QueryDriftEvents (VO_events (HE_ord env)) (AP_drift s) (GetTenantID (R_Ctx r)) (drift_options u))) w)"

text \<open>A body that does not parse counts as an empty one; the body is who acknowledges.\<close>

definition h_AcknowledgeDriftEvent :: "'e handler_env \<Rightarrow> 's ApiState \<Rightarrow> url \<Rightarrow> string \<Rightarrow> req \<Rightarrow> resp \<Rightarrow> 's ApiState \<times> resp" where
  "h_AcknowledgeDriftEvent env s u body r w =
     (let eventID = URL_param u ''id'';
          acknowledgedBy = (if body = [] then ''SecOps Engineer'' else body)
      in case AcknowledgeDriftEvent (HE_clk env 0) (AP_drift s) (GetTenantID (R_Ctx r)) eventID acknowledgedBy of
           None \<Rightarrow> (s, fail_with env r 404 ''DRIFT_NOT_FOUND'' ''Drift event not found'' w)
         | Some d \<Rightarrow>
             (s\<lparr>AP_drift := d\<rparr>,
              reply (Fields [(''status'', JStr ''ACKNOWLEDGED''), (''event_id'', JStr eventID), (''acknowledged_by'', JStr acknowledgedBy),
                (''acknowledged_at'', JStr (HE_fmt env (HE_clk env 1)))]) w))"

definition h_ListAlertRules :: "'e handler_env \<Rightarrow> 's ApiState \<Rightarrow> req \<Rightarrow> resp \<Rightarrow> 's ApiState \<times> resp" where
  "h_ListAlertRules env s r w =
     (s, reply (AlertRulesBody (ListAlertRules (VO_alert_rules (HE_ord env)) (AP_drift s) (GetTenantID (R_Ctx r)))) w)"

text \<open>The response shows the rule as the handler has it: the identifier and dates that saving fills in are not in it.\<close>

definition h_CreateAlertRule :: "'e handler_env \<Rightarrow> 's ApiState \<Rightarrow> AlertRule option \<Rightarrow> req \<Rightarrow> resp \<Rightarrow> 's ApiState \<times> resp" where
  "h_CreateAlertRule env s body r w =
     (case body of
        None \<Rightarrow> (s, fail_with env r 400 ''INVALID_BODY'' ''Failed to parse alert rule payload'' w)
      | Some rule \<Rightarrow>
          if AL_Name rule = [] \<or> AL_WebhookURL rule = []
          then (s, fail_with env r 400 ''MISSING_FIELDS'' ''Rule name and webhook_url are required'' w)
          else
            (let rule = rule\<lparr>AL_TenantID := GetTenantID (R_Ctx r),
                   AL_SecretKey := (if AL_SecretKey rule = [] then HE_uid env 0 else AL_SecretKey rule),
                   AL_SuppressionWindowHours := (if AL_SuppressionWindowHours rule \<le> 0 then 4 else AL_SuppressionWindowHours rule),
                   AL_IsActive := True\<rparr>
             in (s\<lparr>AP_drift := SaveAlertRule (HE_uid env 1) (HE_clk env 0) (AP_drift s) rule\<rparr>, reply_created (AlertRuleBody rule) w)))"

definition h_ListWebhookDeliveryLogs :: "'e handler_env \<Rightarrow> 's ApiState \<Rightarrow> req \<Rightarrow> resp \<Rightarrow> 's ApiState \<times> resp" where
  "h_ListWebhookDeliveryLogs env s r w =
     (s, reply (DeliveriesBody (ListDeliveryLogs (VO_deliveries (HE_ord env)) (AP_drift s) (GetTenantID (R_Ctx r)) 50)) w)"

text \<open>The generator reads the repositories of the server.\<close>

definition report_generator :: "'s ApiState \<Rightarrow> ReportGenerator" where
  "report_generator s = NewReportGenerator (AP_fleet s) (Some (AP_findings s)) (AP_compliance s) (AP_drift s)"

definition h_GenerateReport :: "'e handler_env \<Rightarrow> 's ApiState \<Rightarrow> GenerateReportRequest option \<Rightarrow> req \<Rightarrow> resp \<Rightarrow> 's ApiState \<times> resp" where
  "h_GenerateReport env s body r w =
     (let tenantID = GetTenantID (R_Ctx r);
          o' = HE_ord env;
          g = report_generator s
      in case body of
           None \<Rightarrow> (s, fail_with env r 400 ''INVALID_REQUEST'' ''Failed to parse report request'' w)
         | Some q \<Rightarrow>
             if GR_Type q = ReportExecutiveSummary \<or> GR_Type q = [] then
               (s, reply (ExecutiveBody (GenerateExecutiveSummary (VO_endpoints o') (VO_gateways o') (VO_events o') (VO_findings o') (HE_uid env 0)
                     (HE_clk env 0) g tenantID)) w)
             else if GR_Type q = ReportComplianceAudit then
               (case GenerateComplianceAudit (VO_rules o') (VO_scores o') (HE_uid env 0) (HE_clk env 1) (HE_clk env 0) g tenantID (GR_FrameworkCode q) of
                  None \<Rightarrow> (s, fail_with env r 500 ''REPORT_ERROR'' (''reports: compliance framework '' @ [CHR 0x27] @ framework_or_default (GR_FrameworkCode q) @ [CHR 0x27] @ '' not found'') w)
                | Some rep \<Rightarrow> (s, reply (AuditReportBody rep) w))
             else if GR_Type q = ReportVulnerabilityPosture then
               (s, reply (PostureBody (GenerateVulnerabilityPosture (VO_findings o') (HE_uid env 0) (HE_clk env 0) g tenantID)) w)
             else (s, fail_with env r 400 ''UNKNOWN_REPORT_TYPE'' ''Report type must be EXECUTIVE_SUMMARY, COMPLIANCE_AUDIT, or VULNERABILITY_POSTURE'' w))"

definition h_HealthCheck :: "'e handler_env \<Rightarrow> 's ApiState \<Rightarrow> req \<Rightarrow> resp \<Rightarrow> 's ApiState \<times> resp" where
  "h_HealthCheck env s r w =
     (s, reply (Fields [(''status'', JStr ''healthy''), (''service'', JStr ''endpointguard-api''), (''version'', JStr ''1.0.0''),
           (''timestamp'', JStr (HE_fmt env (HE_clk env 0)))]) w)"

definition h_GetProductionReadiness :: "'e handler_env \<Rightarrow> 's ApiState \<Rightarrow> req \<Rightarrow> resp \<Rightarrow> 's ApiState \<times> resp" where
  "h_GetProductionReadiness env s r w =
     (s, reply (ReadinessBody (EvaluateProductionReadiness (HE_ParseIP env) (HE_sha env) (HE_environ env) (HE_clk env 0) (VO_endpoints (HE_ord env))
           (VO_gateways (HE_ord env)) (VO_users (HE_ord env)) (Some (AP_fleet s)) (AP_auth s) (AP_cfg s))) w)"

definition SetAuthConfig :: "'s ApiState \<Rightarrow> AuthRepo \<Rightarrow> ApiConfig \<Rightarrow> 's ApiState" where
  "SetAuthConfig s authRepo cfg = s\<lparr>AP_auth := Some authRepo, AP_cfg := Some cfg\<rparr>"

end
