(* ===== verification/AuthHandlers.thy ===== *)
theory AuthHandlers
  imports Sessions Json
begin

text \<open>
  The endpoints of authentication (\<open>handlers/auth_handlers.go\<close>) and the SCIM provisioning service
  behind them (\<open>auth/scim.go\<close>). A handler takes the repository, the decoded body (\<open>None\<close>: the
  JSON does not parse), the request and the response; clock readings and random draws are
  arguments in the order the code takes them.
\<close>

section \<open>SCIM provisioning\<close>

record SCIMEmail =
  SE_Value :: string
  SE_Type :: string
  SE_Primary :: bool

record SCIMRole =
  SR_Value :: string
  SR_Primary :: bool

record SCIMMeta =
  SM_ResourceType :: string
  SM_Created :: time
  SM_LastModified :: time
  SM_Location :: string

record SCIMUser =
  SU_Schemas :: "string list"
  SU_ID :: string
  SU_UserName :: string
  SU_Formatted :: string
  SU_Emails :: "SCIMEmail list"
  SU_Roles :: "SCIMRole list"
  SU_Active :: bool
  SU_Meta :: SCIMMeta

record SCIMListResponse =
  SL_Schemas :: "string list"
  SL_TotalResults :: int
  SL_StartIndex :: int
  SL_ItemsPerPage :: int
  SL_Resources :: "SCIMUser list"

definition toSCIMUser :: "User \<Rightarrow> SCIMUser" where
  "toSCIMUser u =
     \<lparr>SU_Schemas = [''urn:ietf:params:scim:schemas:core:2.0:User''], SU_ID = User_ID u,
      SU_UserName = User_Username u, SU_Formatted = User_DisplayName u,
      SU_Emails = [\<lparr>SE_Value = User_Email u, SE_Type = ''work'', SE_Primary = True\<rparr>],
      SU_Roles = [\<lparr>SR_Value = User_Role u, SR_Primary = True\<rparr>], SU_Active = User_IsActive u,
      SU_Meta = \<lparr>SM_ResourceType = ''User'', SM_Created = User_CreatedAt u,
        SM_LastModified = User_UpdatedAt u,
        SM_Location = ''/api/v1/scim/v2/Users/'' @ User_ID u\<rparr>\<rparr>"

definition ProvisionUser ::
  "string \<Rightarrow> time \<Rightarrow> time \<Rightarrow> AuthRepo \<Rightarrow> string \<Rightarrow> SCIMUser \<Rightarrow> AuthRepo \<times> SCIMUser option" where
  "ProvisionUser new_id t1 t2 repo tenantID scimUser =
     (if SU_UserName scimUser = [] then (repo, None)
      else
        (let email = (if SU_Emails scimUser \<noteq> [] then SE_Value (hd (SU_Emails scimUser))
                      else SU_UserName scimUser);
             role = (if SU_Roles scimUser \<noteq> [] then to_lower (SR_Value (hd (SU_Roles scimUser)))
                     else RoleViewer);
             uid = (if SU_ID scimUser = [] then new_id else SU_ID scimUser);
             user = \<lparr>User_ID = uid, User_TenantID = tenantID, User_Username = SU_UserName scimUser,
                     User_Email = email, User_DisplayName = SU_Formatted scimUser,
                     User_Role = role, User_IsActive = SU_Active scimUser,
                     User_IsBreakGlass = False, User_TOTPEnabled = False, User_PasswordHash = [],
                     User_CreatedAt = t1, User_UpdatedAt = t2\<rparr>
         in (SaveUser repo user, Some (toSCIMUser user))))"

definition DeprovisionUser :: "time \<Rightarrow> AuthRepo \<Rightarrow> string \<Rightarrow> string \<Rightarrow> AuthRepo option" where
  "DeprovisionUser now repo tenantID userID =
     (case GetUserByID repo userID of None \<Rightarrow> None
      | Some user \<Rightarrow>
          if User_TenantID user \<noteq> tenantID then None
          else (let user' = user\<lparr>User_IsActive := False, User_UpdatedAt := now\<rparr>
                in Some (SaveUser (repo\<lparr>AR_users := (AR_users repo)(userID \<mapsto> user')\<rparr>) user')))"

definition GetSCIMUser :: "AuthRepo \<Rightarrow> string \<Rightarrow> string \<Rightarrow> SCIMUser option" where
  "GetSCIMUser repo tenantID userID =
     (case GetUserByID repo userID of None \<Rightarrow> None
      | Some user \<Rightarrow> if User_TenantID user \<noteq> tenantID then None else Some (toSCIMUser user))"

definition ListSCIMUsers :: "string list \<Rightarrow> AuthRepo \<Rightarrow> string \<Rightarrow> SCIMListResponse" where
  "ListSCIMUsers ord repo tenantID =
     (let scimUsers = map toSCIMUser (ListUsers ord repo tenantID)
      in \<lparr>SL_Schemas = [''urn:ietf:params:scim:api:messages:2.0:ListResponse''],
          SL_TotalResults = int (length scimUsers), SL_StartIndex = 1,
          SL_ItemsPerPage = int (length scimUsers), SL_Resources = scimUsers\<rparr>)"

section \<open>Login, second factor, refresh\<close>

datatype auth_body =
    PairBody TokenPair
  | MfaRequiredBody string
  | StepUpBody string time
  | ScimUserBody SCIMUser
  | ScimListBody SCIMListResponse
  | OidcLoginBody string string
  | DocumentBody json

type_synonym auth_req = "AuthCtx Request"
type_synonym auth_resp = "auth_body Response"

record LoginRequest =
  LR_TenantID :: string
  LR_Username :: string
  LR_Password :: string

definition setSessionCookies :: "auth_resp \<Rightarrow> TokenPair \<Rightarrow> auth_resp" where
  "setSessionCookies w pair =
     add_cookie \<lparr>CK_Name = ''csrf_token'', CK_Value = TP_CSRFToken pair, CK_Path = ''/'',
        CK_HttpOnly = False, CK_Secure = True, CK_MaxAge = 604800\<rparr>
     (add_cookie \<lparr>CK_Name = ''refresh_token'', CK_Value = TP_RefreshToken pair, CK_Path = ''/'',
        CK_HttpOnly = True, CK_Secure = True, CK_MaxAge = 604800\<rparr>
     (add_cookie \<lparr>CK_Name = ''access_token'', CK_Value = TP_AccessToken pair, CK_Path = ''/'',
        CK_HttpOnly = True, CK_Secure = True, CK_MaxAge = 900\<rparr> w))"

definition send_json :: "string \<Rightarrow> auth_body \<Rightarrow> auth_resp \<Rightarrow> auth_resp" where
  "send_json ctype b w = encode_body (Data b) (set_header ''Content-Type'' ctype w)"

definition issue_and_send ::
  "token_gen \<Rightarrow> draws \<Rightarrow> time \<Rightarrow> time \<Rightarrow> AuthRepo \<Rightarrow> User \<Rightarrow> auth_req \<Rightarrow> auth_resp \<Rightarrow> AuthRepo \<times> auth_resp" where
  "issue_and_send gen d t1 t2 repo user r w =
     (case IssueTokenPair gen d t1 t2 repo user [] (R_RemoteAddr r) (header_get r ''User-Agent'') of
        (repo, pair) \<Rightarrow> (repo, send_json ''application/json'' (PairBody pair) (setSessionCookies w pair)))"

definition Login ::
  "string list \<Rightarrow> (string \<Rightarrow> string) \<Rightarrow> token_gen \<Rightarrow> draws \<Rightarrow> string \<Rightarrow> time \<Rightarrow> time \<Rightarrow> time
   \<Rightarrow> AuthRepo \<Rightarrow> LoginRequest option \<Rightarrow> auth_req \<Rightarrow> auth_resp \<Rightarrow> AuthRepo \<times> auth_resp" where
  "Login ord sha gen d challengeID t1 t2 now repo body r w =
     (case body of
        None \<Rightarrow> (repo, WriteProblemDetails now w r 400 ''INVALID_BODY'' ''Failed to parse login request'' [])
      | Some req \<Rightarrow>
          if LR_Username req = [] \<or> LR_Password req = [] then
            (repo, WriteProblemDetails now w r 400 ''MISSING_CREDENTIALS''
               ''Username and password are required'' [])
          else
            (let refuse = (repo, WriteProblemDetails now w r 401 ''INVALID_CREDENTIALS''
                             ''Invalid username or password'' []) in
             case GetUserByUsername ord repo (LR_TenantID req) (LR_Username req) of
               None \<Rightarrow> refuse
             | Some user \<Rightarrow>
                 if \<not> User_IsActive user then refuse
                 else if User_PasswordHash user \<noteq> HashPassword sha (LR_Password req) (User_ID user) then refuse
                 else if User_TOTPEnabled user then
                   (SaveMFAChallenge repo \<lparr>MC_ChallengeID = challengeID, MC_UserID = User_ID user,
                      MC_TenantID = User_TenantID user, MC_ExpiresAt = t1 + 5 * Minute\<rparr>,
                    send_json ''application/json'' (MfaRequiredBody challengeID) w)
                 else issue_and_send gen d t1 t2 repo user r w))"

record MFARequest =
  MR_MFAToken :: string
  MR_TOTPCode :: string

text \<open>\<open>totp secret code t skew\<close> is \<open>ValidateTOTPCode\<close>.\<close>

definition VerifyMFA ::
  "(string \<Rightarrow> string \<Rightarrow> time \<Rightarrow> int \<Rightarrow> bool) \<Rightarrow> token_gen \<Rightarrow> draws \<Rightarrow> time \<Rightarrow> time \<Rightarrow> time \<Rightarrow> time \<Rightarrow> time
   \<Rightarrow> AuthRepo \<Rightarrow> MFARequest option \<Rightarrow> auth_req \<Rightarrow> auth_resp \<Rightarrow> AuthRepo \<times> auth_resp" where
  "VerifyMFA totp gen d t1 t2 t3 t4 now repo body r w =
     (case body of
        None \<Rightarrow> (repo, WriteProblemDetails now w r 400 ''INVALID_BODY'' ''Invalid MFA verification payload'' [])
      | Some req \<Rightarrow>
          (let expired = (repo, WriteProblemDetails now w r 401 ''MFA_EXPIRED''
                            ''MFA challenge token has expired or is invalid'' []);
               badcode = (repo, WriteProblemDetails now w r 401 ''INVALID_TOTP_CODE''
                            ''Invalid 6-digit TOTP verification code'' []) in
           case GetMFAChallenge repo (MR_MFAToken req) of
             None \<Rightarrow> expired
           | Some challenge \<Rightarrow>
               if t1 > MC_ExpiresAt challenge then expired
               else
                 (case GetTOTPSecret repo (MC_UserID challenge) of
                    None \<Rightarrow> badcode
                  | Some secret \<Rightarrow>
                      if \<not> totp secret (MR_TOTPCode req) t2 1 then badcode
                      else
                        (let repo = DeleteMFAChallenge repo (MR_MFAToken req) in
                         case GetUserByID repo (MC_UserID challenge) of
                           None \<Rightarrow> (repo, WriteProblemDetails now w r 404 ''USER_NOT_FOUND''
                                      ''User record missing'' [])
                         | Some user \<Rightarrow> issue_and_send gen d t3 t4 repo user r w))))"

definition refresh_error_text :: "refresh_error \<Rightarrow> string" where
  "refresh_error_text e =
     (case e of UnknownToken \<Rightarrow> ''session: invalid refresh token''
      | ReplayDetected \<Rightarrow> ''session: revoked token replayed, token family terminated for security''
      | RefreshExpired \<Rightarrow> ''session: refresh token expired''
      | UserInactive \<Rightarrow> ''session: user account is deactivated or missing'')"

text \<open>The body is the refresh token it carries; a body that does not parse leaves it empty.\<close>

definition RefreshSession ::
  "token_gen \<Rightarrow> draws \<Rightarrow> time \<Rightarrow> time \<Rightarrow> time \<Rightarrow> time
   \<Rightarrow> AuthRepo \<Rightarrow> string \<Rightarrow> auth_req \<Rightarrow> auth_resp \<Rightarrow> AuthRepo \<times> auth_resp" where
  "RefreshSession gen d t1 t2 t3 now repo body r w =
     (let tok = (if body = [] then (case R_Cookie r ''refresh_token'' of Some v \<Rightarrow> v | None \<Rightarrow> body)
                 else body) in
      if tok = [] then
        (repo, WriteProblemDetails now w r 400 ''MISSING_REFRESH_TOKEN'' ''Refresh token is required'' [])
      else
        (case RefreshToken gen d t1 t2 t3 repo tok (R_RemoteAddr r) (header_get r ''User-Agent'') of
           (repo, Inl e) \<Rightarrow> (repo, WriteProblemDetails now w r 401 ''REFRESH_FAILED'' (refresh_error_text e) [])
         | (repo, Inr pair) \<Rightarrow>
             (repo, send_json ''application/json'' (PairBody pair) (setSessionCookies w pair))))"

record StepUpRequest =
  SUR_Password :: string
  SUR_TOTPCode :: string

definition StepUpAuth ::
  "(string \<Rightarrow> string) \<Rightarrow> (string \<Rightarrow> string \<Rightarrow> time \<Rightarrow> int \<Rightarrow> bool) \<Rightarrow> token_gen \<Rightarrow> time \<Rightarrow> time \<Rightarrow> time \<Rightarrow> time \<Rightarrow> time
   \<Rightarrow> AuthRepo \<Rightarrow> StepUpRequest \<Rightarrow> auth_req \<Rightarrow> auth_resp \<Rightarrow> auth_resp" where
  "StepUpAuth sha totp gen t1 t2 t3 t4 now repo req r w =
     (case GetUserClaims (R_Ctx r) of
        None \<Rightarrow> WriteProblemDetails now w r 401 ''UNAUTHENTICATED'' ''Authentication required'' []
      | Some claims \<Rightarrow>
          (case GetUserByID repo (UC_UserID claims) of
             None \<Rightarrow> WriteProblemDetails now w r 404 ''USER_NOT_FOUND'' ''User not found'' []
           | Some user \<Rightarrow>
               (let stepUpSuccess =
                      (if SUR_Password req \<noteq> [] then
                         User_PasswordHash user = HashPassword sha (SUR_Password req) (User_ID user)
                       else if SUR_TOTPCode req \<noteq> [] then
                         (case GetTOTPSecret repo (User_ID user) of None \<Rightarrow> False
                          | Some secret \<Rightarrow> totp secret (SUR_TOTPCode req) t1 1)
                       else False)
                in if \<not> stepUpSuccess then
                     WriteProblemDetails now w r 401 ''STEP_UP_FAILED''
                       ''Invalid password or TOTP code for step-up auth'' []
                   else
                     (let newClaims = claims\<lparr>UC_StepUpAuthAt := unix t2\<rparr>;
                          newToken = gen t3 newClaims AccessTokenTTL
                      in send_json ''application/json'' (StepUpBody newToken t4) w))))"

text \<open>
  The redirect to the identity provider: a state and a PKCE verifier from random bytes. Parsing of URLs and
  encoding of queries are the library's: \<open>UL_query\<close> reads the query of a parsed URL and \<open>UL_render\<close>
  prints the URL with another one.
\<close>

record 'u url_lib =
  UL_parse :: "string \<Rightarrow> 'u option"
  UL_query :: "'u \<Rightarrow> string \<rightharpoonup> string list"
  UL_render :: "'u \<Rightarrow> (string \<rightharpoonup> string list) \<Rightarrow> string"

definition trim_suffix :: "string \<Rightarrow> string \<Rightarrow> string" where
  "trim_suffix s suf = rev (trim_prefix (rev s) (rev suf))"

definition authorize_endpoint :: "string \<Rightarrow> string" where
  "authorize_endpoint issuer =
     (if contains issuer ''login.microsoftonline.com'' then trim_suffix issuer ''/'' @ ''/oauth2/v2.0/authorize''
      else trim_suffix issuer ''/'' @ ''/protocol/openid-connect/auth'')"

definition BuildAuthURL :: "'u url_lib \<Rightarrow> (string \<Rightarrow> string) \<Rightarrow> OIDCConfig \<Rightarrow> string \<Rightarrow> string \<Rightarrow> (string \<times> string \<times> string) option" where
  "BuildAuthURL lib sha256 cfg stateBytes verifierBytes =
     (let state = b64encode stateBytes;
          codeVerifier = b64encode verifierBytes;
          codeChallenge = b64encode (sha256 codeVerifier)
      in case UL_parse lib (authorize_endpoint (OIDC_IssuerURL cfg)) of
           None \<Rightarrow> None
         | Some u \<Rightarrow>
             Some (UL_render lib u ((UL_query lib u)(''client_id'' \<mapsto> [OIDC_ClientID cfg], ''response_type'' \<mapsto> [''code''],
                     ''scope'' \<mapsto> [''openid profile email groups''], ''redirect_uri'' \<mapsto> [OIDC_RedirectURI cfg],
                     ''state'' \<mapsto> [state], ''code_challenge'' \<mapsto> [codeChallenge], ''code_challenge_method'' \<mapsto> [''S256''])),
                   state, codeVerifier))"

definition OIDCLogin :: "(string \<times> string \<times> string) option \<Rightarrow> time \<Rightarrow> auth_req \<Rightarrow> auth_resp \<Rightarrow> auth_resp" where
  "OIDCLogin built now r w =
     (case built of
        None \<Rightarrow> WriteProblemDetails now w r 500 ''OIDC_ERROR'' ''Failed to build OIDC auth URL'' []
      | Some (authURL, state, _) \<Rightarrow> send_json ''application/json'' (OidcLoginBody authURL state) w)"

text \<open>
  \<open>parse\<close> decodes the JSON of an identity token. The signature of the token is never checked, and
  an absent token is replaced by a fixed one.
\<close>

definition default_id_token :: string where
  "default_id_token =
     ''{\"sub\":\"oidc-12345\",\"email\":\"admin@corp.com\",\"name\":\"OIDC Admin\",\"groups\":[\"EndpointGuard-Admins\"]}''"

definition OIDCCallback ::
  "OIDCConfig \<Rightarrow> (string \<Rightarrow> OIDCClaims option) \<Rightarrow> string \<Rightarrow> token_gen \<Rightarrow> draws \<Rightarrow> time \<Rightarrow> time \<Rightarrow> time \<Rightarrow> time \<Rightarrow> time
   \<Rightarrow> AuthRepo \<Rightarrow> string \<Rightarrow> auth_req \<Rightarrow> auth_resp \<Rightarrow> AuthRepo \<times> auth_resp" where
  "OIDCCallback cfg parse perr gen d t1 t2 t3 t4 now repo mockIDToken r w =
     (let tok = (if mockIDToken = [] then default_id_token else mockIDToken) in
      case ProcessMockIDToken cfg t1 t2 (parse tok) of
        None \<Rightarrow> (repo, WriteProblemDetails now w r 400 ''OIDC_PARSE_FAILED'' perr [])
      | Some user \<Rightarrow> issue_and_send gen d t3 t4 (SaveUser repo user) user r w)"

section \<open>SCIM endpoints\<close>

definition SCIMListUsers :: "string list \<Rightarrow> AuthRepo \<Rightarrow> auth_req \<Rightarrow> auth_resp \<Rightarrow> auth_resp" where
  "SCIMListUsers ord repo r w =
     send_json ''application/scim+json''
       (ScimListBody (ListSCIMUsers ord repo (GetTenantID (R_Ctx r)))) w"

definition SCIMCreateUser ::
  "string \<Rightarrow> time \<Rightarrow> time \<Rightarrow> time \<Rightarrow> AuthRepo \<Rightarrow> SCIMUser option \<Rightarrow> auth_req \<Rightarrow> auth_resp \<Rightarrow> AuthRepo \<times> auth_resp" where
  "SCIMCreateUser new_id t1 t2 now repo body r w =
     (case body of
        None \<Rightarrow> (repo, WriteProblemDetails now w r 400 ''INVALID_SCIM_PAYLOAD'' ''Failed to decode SCIM user'' [])
      | Some scimUser \<Rightarrow>
          (case ProvisionUser new_id t1 t2 repo (GetTenantID (R_Ctx r)) scimUser of
             (repo, None) \<Rightarrow> (repo, WriteProblemDetails now w r 400 ''PROVISIONING_FAILED''
                                ''scim: userName is required'' [])
           | (repo, Some created) \<Rightarrow>
               (repo, encode_body (Data (ScimUserBody created))
                        (write_header 201 (set_header ''Content-Type'' ''application/scim+json'' w)))))"

definition SCIMGetUser :: "time \<Rightarrow> AuthRepo \<Rightarrow> string \<Rightarrow> auth_req \<Rightarrow> auth_resp \<Rightarrow> auth_resp" where
  "SCIMGetUser now repo uid r w =
     (case GetSCIMUser repo (GetTenantID (R_Ctx r)) uid of
        None \<Rightarrow> WriteProblemDetails now w r 404 ''USER_NOT_FOUND'' ''SCIM user not found'' []
      | Some user \<Rightarrow> send_json ''application/scim+json'' (ScimUserBody user) w)"

definition SCIMDeprovisionUser ::
  "time \<Rightarrow> time \<Rightarrow> AuthRepo \<Rightarrow> string \<Rightarrow> auth_req \<Rightarrow> auth_resp \<Rightarrow> AuthRepo \<times> auth_resp" where
  "SCIMDeprovisionUser t1 now repo uid r w =
     (case DeprovisionUser t1 repo (GetTenantID (R_Ctx r)) uid of
        None \<Rightarrow> (repo, WriteProblemDetails now w r 404 ''DEPROVISION_FAILED''
                   (''scim: user '' @ uid @ '' not found'') [])
      | Some repo' \<Rightarrow> (repo', write_header 204 w))"

definition supported :: "bool \<Rightarrow> json" where "supported b = JObj [(''supported'', JBool b)]"

definition SCIMServiceProviderConfig :: "auth_req \<Rightarrow> auth_resp \<Rightarrow> auth_resp" where
  "SCIMServiceProviderConfig r w =
     send_json ''application/scim+json'' (DocumentBody (JObj
       [(''schemas'', JArr [JStr ''urn:ietf:params:scim:schemas:core:2.0:ServiceProviderConfig'']),
        (''patch'', supported True), (''bulk'', supported False), (''filter'', supported False),
        (''changePassword'', supported False), (''sort'', supported False), (''etag'', supported False),
        (''authenticationSchemes'', JArr [JObj
           [(''name'', JStr ''OAuth Bearer Token''),
            (''description'', JStr ''Authentication scheme using the OAuth Bearer Token Standard''),
            (''specUri'', JStr ''http://www.rfc-editor.org/info/rfc6750''), (''type'', JStr ''oauthbearertoken'')]])])) w"

section \<open>Lemmas\<close>

lemma unix_add_seconds: "unix (t + k * Second) = unix t + k"
  using div_mult_self1 [of 1000000000 t k] by (simp add: unix_def Second_def)

lemma unix_mono: "a \<le> b \<Longrightarrow> unix a \<le> unix b"
  by (simp add: unix_def zdiv_mono1)

lemma unix_of_seconds: "unix (k * Second) = k"
  by (simp add: unix_def Second_def)

lemma RefreshToken_inactive:
  assumes "consistent repo" "AR_byRefresh repo tok = Some a" "AR_heap repo a = Some s"
    and "\<forall>u. AR_users repo (S_UserID s) = Some u \<longrightarrow> \<not> User_IsActive u"
    and "RefreshToken gen d n1 n2 n3 repo tok ip ua = (repo', res)"
  shows "\<exists>e. res = Inl e"
  using assms(5)
proof (cases rule: RefreshToken_split)
  case (rotate b t)
  then have "b = a" "t = s" using assms(2,3) by auto
  with rotate(5) assms(3,4) show ?thesis
    by (auto simp: refresh_rotate_def Let_def deref_def GetUserByID_def split: option.splits if_splits prod.splits)
qed auto

lemma runs_RequireStepUp:
  "Data ctx \<in> set (W_Body (RequireStepUp now spy (with_auth t claims r) new_response)) \<longleftrightarrow>
     IsStepUpValid now (last_auth claims) \<and> ctx = \<lparr>Ctx_Tenant = Some t, Ctx_Claims = Some claims\<rparr>"
  by (simp add: RequireStepUp_def GetUserClaims_def with_auth_def)

section \<open>Theorems\<close>

text \<open>Two refreshes of one token that overlap (both read the session before either revokes it)
  both succeed, and leave the family with two usable refresh tokens: rotation is not atomic, and
  the second use is not recognised as a replay.\<close>

theorem refresh_race:
  assumes "consistent r" "refresh_check t1 r tok = (r, Inr a)" "refresh_check t2 r tok = (r, Inr a)"
    and "deref r a = Some s" "S_FamilyID s \<noteq> []" "GetUserByID r (S_UserID s) = Some u" "User_IsActive u"
    and "refresh_rotate gen d1 t3 t4 r a ip1 ua1 = (r1, res1)" "fresh r d1"
    and "refresh_rotate gen d2 t5 t6 r1 a ip2 ua2 = (r2, res2)" "fresh r1 d2"
  shows "\<exists>p1 p2. res1 = Inr p1 \<and> res2 = Inr p2 \<and> TP_RefreshToken p1 \<noteq> TP_RefreshToken p2
     \<and> usable r2 (TP_RefreshToken p1) (S_FamilyID s) \<and> usable r2 (TP_RefreshToken p2) (S_FamilyID s)"
proof -
  let ?f = "S_FamilyID s"
  have h: "AR_heap r a = Some s" using assms(4) by (simp add: deref_def)
  let ?q = "RevokeSession r (S_ID s)"
  have q: "consistent ?q" "fresh ?q d1" "GetUserByID ?q (S_UserID s) = Some u"
    using assms consistent_RevokeSession by (auto simp: GetUserByID_def)
  obtain p1 where p1: "IssueTokenPair gen d1 t3 t4 ?q u ?f ip1 ua1 = (r1, p1)" "res1 = Inr p1"
    using assms(4,7,8) q(3) by (auto simp: refresh_rotate_def Let_def split: prod.splits)
  note I1 = IssueTokenPair_live [OF q(1,2) p1(1)]
  have na: "a \<noteq> AR_next r" using consistentD(6) [OF assms(1)] h by auto
  have keep: "AR_heap r1 a = AR_heap ?q a" "AR_users r1 = AR_users r"
    using p1(1) na by (auto simp: IssueTokenPair_def Let_def SaveSession_def)
  obtain s1 where s1: "AR_heap r1 a = Some s1" "S_FamilyID s1 = ?f" "S_UserID s1 = S_UserID s" "S_ID s1 = S_ID s"
  proof -
    have "AR_heap ?q a = Some (s\<lparr>S_IsRevoked := True\<rparr>)"
      using consistentD(1) [OF assms(1) h] h by (simp add: RevokeSession_def revoke_at_def)
    with keep(1) that [of "s\<lparr>S_IsRevoked := True\<rparr>"] show thesis by simp
  qed
  let ?q1 = "RevokeSession r1 (S_ID s)"
  have q1: "consistent ?q1" "fresh ?q1 d2" "GetUserByID ?q1 (S_UserID s) = Some u"
    using I1(1) assms(6,11) keep(2) consistent_RevokeSession by (auto simp: GetUserByID_def)
  obtain p2 where p2: "IssueTokenPair gen d2 t5 t6 ?q1 u ?f ip2 ua2 = (r2, p2)" "res2 = Inr p2"
    using assms(7,10) q1(3) s1 by (auto simp: refresh_rotate_def Let_def deref_def split: prod.splits)
  note I2 = IssueTokenPair_live [OF q1(1,2) p2(1)]
  have "AR_next r \<in> live r1 ?f" using I1(2) [of ?f] assms(5) by simp
  then have "AR_next r \<in> live ?q1 ?f"
    using live_RevokeSession_own [OF I1(1) s1(1)] na s1(4) by auto
  then have l2: "AR_next r \<in> live r2 ?f" using I2(2) [of ?f] by simp
  have tok1: "AR_byRefresh r1 (TP_RefreshToken p1) = Some (AR_next r)" using I1(4) by simp
  have ne: "TP_RefreshToken p1 \<noteq> TP_RefreshToken p2"
    using tok1 assms(11) p2(1) by (auto simp: IssueTokenPair_def Let_def fresh_def)
  then have "AR_byRefresh r2 (TP_RefreshToken p1) = Some (AR_next r)"
    using tok1 p2(1) by (auto simp: IssueTokenPair_def Let_def SaveSession_def)
  then have "usable r2 (TP_RefreshToken p1) ?f" using l2 by (auto simp: usable_live)
  moreover have "usable r2 (TP_RefreshToken p2) ?f"
    using I2(2) [of ?f] I2(4) assms(5) by (auto simp: usable_live)
  ultimately show ?thesis using p1(2) p2(2) ne by blast
qed

text \<open>Such an overlap on a fresh store.\<close>

theorem refresh_race_witness:
  "\<exists>r tok1 tok2. tok1 \<noteq> tok2 \<and> usable r tok1 ''f'' \<and> usable r tok2 ''f''"
proof -
  let ?g = "\<lambda>_ _ _. []"
  obtain r and p :: TokenPair where r: "auth_steps ?g empty_repo r" "AR_byRefresh r (TP_RefreshToken p) = Some 0"
    "AR_heap r 0 = Some (new_session (demo_draws ''f'') Second demo_user ''f'' [] [])"
    "AR_users r = [''u'' \<mapsto> demo_user]" "fresh r (demo_draws ''g'')" "AR_sessions r = [''f'' \<mapsto> 0]"
    "fresh r (demo_draws ''h'')" by (rule demo_login [where gen = "?g"])
  let ?s = "new_session (demo_draws ''f'') Second demo_user ''f'' [] []"
  have s: "deref r 0 = Some ?s" using r(3) by (simp add: deref_def)
  have uid: "S_UserID ?s = ''u''" by (simp add: demo_user_def)
  have u: "GetUserByID r (S_UserID ?s) = Some demo_user" unfolding uid by (simp add: GetUserByID_def r(4))
  have c: "refresh_check Second r (TP_RefreshToken p) = (r, Inr 0)"
    using r(2) s by (simp add: refresh_check_def GetSessionByRefreshToken_def)
      (simp add: new_session_def RefreshTokenTTL_def duration_defs)
  obtain r1 res1 where r1: "refresh_rotate ?g (demo_draws ''g'') 0 0 r 0 [] [] = (r1, res1)" by fastforce
  have h: "fresh r1 (demo_draws ''h'')"
    by (rule refresh_rotate_fresh [OF r(3) r1 r(7)]) (simp_all add: demo_draws_def)
  obtain r2 res2 where r2: "refresh_rotate ?g (demo_draws ''h'') 0 0 r1 0 [] [] = (r2, res2)" by fastforce
  have c0: "consistent r" using auth_steps_invariant [OF r(1)] by simp
  have "User_IsActive demo_user" by (simp add: demo_user_def)
  from refresh_race [OF c0 c c s _ u this r1 r(5) r2 h] show ?thesis by auto
qed

text \<open>Step-up is satisfied by a refresh: for fifteen minutes after any successful refresh the new
  access token passes \<open>RequireAuth\<close> and \<open>RequireStepUp\<close>, although nobody re-authenticated; the
  check falls back to the time of issue, and the token lives no longer than the step-up window.\<close>

theorem refresh_satisfies_step_up:
  assumes "RefreshToken (\<lambda>t c ttl. GenerateToken hmac marshal s t c ttl) d n1 n2 n3 repo tok ip ua = (repo', Inr p)"
    and "decode (marshal (stamp s n3 AccessTokenTTL (access_claims (TP_User p))))
         = Some (stamp s n3 AccessTokenTTL (access_claims (TP_User p)))"
    and "now \<le> unix n3 * Second + 900 * Second" "0 < unix n3"
    and "header_get r ''Authorization'' = ''Bearer '' @ TP_AccessToken p"
  shows "runs (RequireAuth (VerifyToken hmac decode s now) t (RequireStepUp now spy)) r
     \<lparr>Ctx_Tenant = Some (User_TenantID (TP_User p)),
      Ctx_Claims = Some (stamp s n3 AccessTokenTTL (access_claims (TP_User p)))\<rparr>"
proof -
  let ?c = "stamp s n3 AccessTokenTTL (access_claims (TP_User p))"
  have tok: "TP_AccessToken p = GenerateToken hmac marshal s n3 (access_claims (TP_User p)) AccessTokenTTL"
    using assms(1)
    by (cases rule: RefreshToken_split)
      (auto simp: refresh_rotate_def Let_def IssueTokenPair_def deref_def split: option.splits if_splits prod.splits)
  have "unix now \<le> unix n3 + 900"
    using unix_mono [OF assms(3)] unix_of_seconds [of "unix n3 + 900"] by (simp add: distrib_right)
  moreover have "unix (n3 + AccessTokenTTL) = unix n3 + 900"
    using unix_add_seconds [of n3 900] by (simp add: AccessTokenTTL_def Minute_def Second_def)
  ultimately have v: "VerifyToken hmac decode s now (TP_AccessToken p) = Inr ?c"
    unfolding tok using assms(2) by (intro VerifyToken_roundtrip) simp_all
  have "IsStepUpValid now (last_auth ?c)"
    using assms(3,4) by (simp add: IsStepUpValid_iff last_auth_def stamp_def access_claims_def Second_def zero_time_def)
  then have "Data \<lparr>Ctx_Tenant = Some (UC_TenantID ?c), Ctx_Claims = Some ?c\<rparr>
      \<in> set (W_Body (RequireStepUp now spy (with_auth (UC_TenantID ?c) ?c r) new_response))"
    by (simp add: runs_RequireStepUp)
  moreover have "UC_TenantID ?c = User_TenantID (TP_User p)" by (simp add: stamp_def access_claims_def)
  moreover have "header_get r ''Authorization'' = ''Bearer'' @ CHR '' '' # TP_AccessToken p"
    using assms(5) by simp
  moreover have "CHR '' '' \<notin> set ''Bearer''" by simp
  ultimately show ?thesis unfolding runs_def runs_RequireAuth using v equal_fold_refl by metis
qed

text \<open>A concrete instance.\<close>

theorem refresh_satisfies_step_up_witness:
  "\<exists>r ctx. runs (RequireAuth (VerifyToken (\<lambda>k m. k)
      (\<lambda>_. Some (stamp (NewTokenService [] []) (60 * Second) AccessTokenTTL (access_claims demo_user)))
      (NewTokenService [] []) (900 * Second)) 0 (RequireStepUp (900 * Second) spy)) r ctx"
proof -
  let ?s = "NewTokenService [] []"
  let ?c = "stamp ?s (60 * Second) AccessTokenTTL (access_claims demo_user)"
  let ?g = "\<lambda>t c ttl. GenerateToken (\<lambda>k m. k) (\<lambda>_. []) ?s t c ttl"
  obtain q and p0 :: TokenPair where q: "auth_steps ?g empty_repo q" "AR_byRefresh q (TP_RefreshToken p0) = Some 0"
    "AR_heap q 0 = Some (new_session (demo_draws ''f'') Second demo_user ''f'' [] [])"
    "AR_users q = [''u'' \<mapsto> demo_user]" "fresh q (demo_draws ''g'')" "AR_sessions q = [''f'' \<mapsto> 0]"
    "fresh q (demo_draws ''h'')" by (rule demo_login [where gen = "?g"])
  obtain q' p where rt: "RefreshToken ?g (demo_draws ''g'') Second Second (60 * Second) q (TP_RefreshToken p0) [] [] = (q', Inr p)"
    "TP_User p = demo_user" by (rule demo_refresh [OF q(2,3,4)])
  have m: "Some ?c = Some (stamp ?s (60 * Second) AccessTokenTTL (access_claims (TP_User p)))" by (simp add: rt(2))
  have t: "900 * Second \<le> unix (60 * Second) * Second + 900 * Second" "0 < unix (60 * Second)"
    by (simp_all only: unix_of_seconds) (simp_all add: Second_def)
  let ?r = "\<lparr>R_Method = ''POST'', R_Path = [], R_RemoteAddr = [],
     R_Header = [''Authorization'' \<mapsto> (''Bearer '' @ TP_AccessToken p)], R_Cookie = Map.empty,
     R_CorrelationID = None, R_Ctx = \<lparr>Ctx_Tenant = None, Ctx_Claims = None\<rparr>\<rparr>"
  have h: "header_get ?r ''Authorization'' = ''Bearer '' @ TP_AccessToken p" by (simp add: header_get_def)
  from refresh_satisfies_step_up [where decode = "\<lambda>_. Some ?c" and marshal = "\<lambda>_. []", OF rt(1) m t h]
  show ?thesis by blast
qed



end
