(* ===== verification/Telemetry.thy ===== *)
theory Telemetry
  imports AuthHttp Json "HOL-Library.Word"
begin

text \<open>
  The metrics registry with its text exposition and the latency middleware (\<open>telemetry/metrics.go\<close>), trace contexts and spans
  (\<open>telemetry/tracer.go\<close>) and the request log (\<open>middleware/logging.go\<close>). Counters are 64-bit words; seconds are rationals;
  the verb \<open>%g\<close> is an argument; random identifiers and clock readings are arguments.
\<close>

section \<open>Metrics registry\<close>

type_synonym counter = "64 word"

record MetricsRegistry =
  MR_scanJobsTotal :: "string \<rightharpoonup> counter"
  MR_scanDurationBuckets :: "string \<rightharpoonup> (rat \<rightharpoonup> counter)"
  MR_scanDurationSum :: "string \<rightharpoonup> rat"
  MR_scanDurationCount :: "string \<rightharpoonup> counter"
  MR_gatewayHeartbeatGaps :: "string \<rightharpoonup> rat"
  MR_queueDepths :: "string \<rightharpoonup> int"
  MR_apiLatencyBuckets :: "string \<rightharpoonup> (rat \<rightharpoonup> counter)"
  MR_apiLatencySum :: "string \<rightharpoonup> rat"
  MR_apiLatencyCount :: "string \<rightharpoonup> counter"
  MR_activeEndpoints :: "string \<rightharpoonup> int"
  MR_complianceAvg :: rat

definition new_registry :: MetricsRegistry where
  "new_registry =
     \<lparr>MR_scanJobsTotal = Map.empty, MR_scanDurationBuckets = Map.empty, MR_scanDurationSum = Map.empty, MR_scanDurationCount = Map.empty,
      MR_gatewayHeartbeatGaps = Map.empty, MR_queueDepths = Map.empty, MR_apiLatencyBuckets = Map.empty, MR_apiLatencySum = Map.empty,
      MR_apiLatencyCount = Map.empty, MR_activeEndpoints = Map.empty, MR_complianceAvg = 0\<rparr>"

definition LatencyBuckets :: "rat list" where
  "LatencyBuckets = [5 / 1000, 1 / 100, 25 / 1000, 5 / 100, 1 / 10, 25 / 100, 5 / 10, 1, 25 / 10, 5, 10]"

definition ScanBuckets :: "rat list" where
  "ScanBuckets = [1, 5, 10, 30, 60, 120, 300, 600]"

text \<open>A label \<open>name="value"\<close>; no character of the value is escaped.\<close>

definition label :: "string \<Rightarrow> string \<Rightarrow> string" where
  "label n v = n @ ''='' @ [CHR 0x22] @ v @ [CHR 0x22]"

definition RecordScanJob :: "MetricsRegistry \<Rightarrow> string \<Rightarrow> string \<Rightarrow> MetricsRegistry" where
  "RecordScanJob r status profile =
     (let key = label ''status'' status @ '','' @ label ''profile'' profile;
          cnt = (case MR_scanJobsTotal r key of None \<Rightarrow> 0 | Some c \<Rightarrow> c)
      in r\<lparr>MR_scanJobsTotal := (MR_scanJobsTotal r)(key \<mapsto> cnt + 1)\<rparr>)"

text \<open>The loop over the buckets. Every bound has its counter from the moment the entry is made.\<close>

definition bump_buckets :: "rat list \<Rightarrow> rat \<Rightarrow> (rat \<rightharpoonup> counter) \<Rightarrow> (rat \<rightharpoonup> counter)" where
  "bump_buckets bounds d m =
     foldl (\<lambda>m b. if d \<le> b then (case m b of None \<Rightarrow> m | Some c \<Rightarrow> m(b \<mapsto> c + 1)) else m) m bounds"

definition zero_buckets :: "rat list \<Rightarrow> (rat \<rightharpoonup> counter)" where
  "zero_buckets bounds = map_of (map (\<lambda>b. (b, 0)) bounds)"

definition RecordScanDuration :: "MetricsRegistry \<Rightarrow> string \<Rightarrow> rat \<Rightarrow> MetricsRegistry" where
  "RecordScanDuration r profile durationSeconds =
     (let key = label ''profile'' profile;
          r = (case MR_scanDurationBuckets r key of
                 Some _ \<Rightarrow> r
               | None \<Rightarrow> r\<lparr>MR_scanDurationBuckets := (MR_scanDurationBuckets r)(key \<mapsto> zero_buckets ScanBuckets),
                            MR_scanDurationSum := (MR_scanDurationSum r)(key \<mapsto> 0), MR_scanDurationCount := (MR_scanDurationCount r)(key \<mapsto> 0)\<rparr>)
      in r\<lparr>MR_scanDurationBuckets := (MR_scanDurationBuckets r)(key := map_option (bump_buckets ScanBuckets durationSeconds) (MR_scanDurationBuckets r key)),
           MR_scanDurationSum := (MR_scanDurationSum r)(key := map_option (\<lambda>x. x + durationSeconds) (MR_scanDurationSum r key)),
           MR_scanDurationCount := (MR_scanDurationCount r)(key := map_option (\<lambda>c. c + 1) (MR_scanDurationCount r key))\<rparr>)"

definition SetGatewayHeartbeatGap :: "MetricsRegistry \<Rightarrow> string \<Rightarrow> rat \<Rightarrow> MetricsRegistry" where
  "SetGatewayHeartbeatGap r gatewayID gap = r\<lparr>MR_gatewayHeartbeatGaps := (MR_gatewayHeartbeatGaps r)(gatewayID \<mapsto> gap)\<rparr>"

definition SetQueueDepth :: "MetricsRegistry \<Rightarrow> string \<Rightarrow> int \<Rightarrow> MetricsRegistry" where
  "SetQueueDepth r queueName depth = r\<lparr>MR_queueDepths := (MR_queueDepths r)(queueName \<mapsto> depth)\<rparr>"

definition SetActiveEndpoints :: "MetricsRegistry \<Rightarrow> string \<Rightarrow> int \<Rightarrow> MetricsRegistry" where
  "SetActiveEndpoints r status cnt = r\<lparr>MR_activeEndpoints := (MR_activeEndpoints r)(status \<mapsto> cnt)\<rparr>"

definition SetAverageCompliance :: "MetricsRegistry \<Rightarrow> rat \<Rightarrow> MetricsRegistry" where
  "SetAverageCompliance r score = r\<lparr>MR_complianceAvg := score\<rparr>"

definition normalizePath :: "string \<Rightarrow> string" where
  "normalizePath path =
     (let parts = split_on CHR ''/'' (trim (\<lambda>c. c = CHR ''/'') path)
      in if length parts = 4 \<and> parts ! 0 = ''api'' \<and> parts ! 1 = ''v1'' \<and> parts ! 2 = ''endpoints'' then ''/api/v1/endpoints/:id''
         else if length parts = 4 \<and> parts ! 0 = ''api'' \<and> parts ! 1 = ''v1'' \<and> parts ! 2 = ''gateways'' then ''/api/v1/gateways/:id''
         else if length parts = 4 \<and> parts ! 0 = ''api'' \<and> parts ! 1 = ''v1'' \<and> parts ! 2 = ''scans'' then ''/api/v1/scans/:id''
         else path)"

definition api_key :: "string \<Rightarrow> string \<Rightarrow> int \<Rightarrow> string" where
  "api_key meth path statusCode =
     label ''method'' meth @ '','' @ label ''path'' (normalizePath path) @ '','' @ label ''status'' (dec_int statusCode)"

definition RecordAPIRequest :: "MetricsRegistry \<Rightarrow> string \<Rightarrow> string \<Rightarrow> int \<Rightarrow> rat \<Rightarrow> MetricsRegistry" where
  "RecordAPIRequest r meth path statusCode durationSeconds =
     (let key = api_key meth path statusCode;
          r = (case MR_apiLatencyBuckets r key of
                 Some _ \<Rightarrow> r
               | None \<Rightarrow> r\<lparr>MR_apiLatencyBuckets := (MR_apiLatencyBuckets r)(key \<mapsto> zero_buckets LatencyBuckets),
                            MR_apiLatencySum := (MR_apiLatencySum r)(key \<mapsto> 0), MR_apiLatencyCount := (MR_apiLatencyCount r)(key \<mapsto> 0)\<rparr>)
      in r\<lparr>MR_apiLatencyBuckets := (MR_apiLatencyBuckets r)(key := map_option (bump_buckets LatencyBuckets durationSeconds) (MR_apiLatencyBuckets r key)),
           MR_apiLatencySum := (MR_apiLatencySum r)(key := map_option (\<lambda>x. x + durationSeconds) (MR_apiLatencySum r key)),
           MR_apiLatencyCount := (MR_apiLatencyCount r)(key := map_option (\<lambda>c. c + 1) (MR_apiLatencyCount r key))\<rparr>)"

section \<open>Exposition\<close>

text \<open>\<open>g\<close> writes a number as \<open>%g\<close> does.\<close>

definition nl :: string where "nl = [CHR 0x0A]"

definition dec_counter :: "counter option \<Rightarrow> string" where
  "dec_counter c = (case c of None \<Rightarrow> [] | Some v \<Rightarrow> dec_nat (unat v))"

definition metric_head :: "string \<Rightarrow> string \<Rightarrow> string \<Rightarrow> string" where
  "metric_head name kind descr = ''# HELP '' @ name @ '' '' @ descr @ nl @ ''# TYPE '' @ name @ '' '' @ kind @ nl"

definition histogram_lines :: "(rat \<Rightarrow> string) \<Rightarrow> string \<Rightarrow> rat list \<Rightarrow> string \<Rightarrow> (rat \<rightharpoonup> counter) \<Rightarrow> rat option \<Rightarrow> counter option \<Rightarrow> string" where
  "histogram_lines g name bounds key buckets sm cnt =
     concat (map (\<lambda>b. name @ ''_bucket{'' @ key @ '','' @ label ''le'' (g b) @ ''} '' @ dec_counter (buckets b) @ nl) bounds)
     @ name @ ''_bucket{'' @ key @ '','' @ label ''le'' ''+Inf'' @ ''} '' @ dec_counter cnt @ nl
     @ name @ ''_sum{'' @ key @ ''} '' @ (case sm of None \<Rightarrow> [] | Some x \<Rightarrow> g x) @ nl
     @ name @ ''_count{'' @ key @ ''} '' @ dec_counter cnt @ nl"

text \<open>The orders in which the six maps are visited.\<close>

record metric_orders =
  MO_jobs :: "string list"
  MO_scans :: "string list"
  MO_gaps :: "string list"
  MO_queues :: "string list"
  MO_api :: "string list"
  MO_active :: "string list"

definition range_pairs :: "(string \<rightharpoonup> 'v) \<Rightarrow> string list \<Rightarrow> (string \<times> 'v) list" where
  "range_pairs m ord = List.map_filter (\<lambda>k. map_option (\<lambda>v. (k, v)) (m k)) ord"

definition metrics_text :: "(rat \<Rightarrow> string) \<Rightarrow> metric_orders \<Rightarrow> MetricsRegistry \<Rightarrow> string" where
  "metrics_text g os r =
     metric_head ''endpointguard_scan_jobs_total'' ''counter'' ''Total count of scan jobs dispatched and executed.''
     @ concat (map (\<lambda>(labels, c). ''endpointguard_scan_jobs_total{'' @ labels @ ''} '' @ dec_nat (unat c) @ nl)
         (range_pairs (MR_scanJobsTotal r) (MO_jobs os)))
     @ metric_head ''endpointguard_scan_job_duration_seconds'' ''histogram'' ''Histogram of scan job execution duration in seconds.''
     @ concat (map (\<lambda>(key, buckets). histogram_lines g ''endpointguard_scan_job_duration_seconds'' ScanBuckets key buckets
           (MR_scanDurationSum r key) (MR_scanDurationCount r key)) (range_pairs (MR_scanDurationBuckets r) (MO_scans os)))
     @ metric_head ''endpointguard_gateway_heartbeat_gap_seconds'' ''gauge'' ''Seconds elapsed since last heartbeat per collector gateway.''
     @ concat (map (\<lambda>(gwID, gap). ''endpointguard_gateway_heartbeat_gap_seconds{'' @ label ''gateway_id'' gwID @ ''} '' @ g gap @ nl)
         (range_pairs (MR_gatewayHeartbeatGaps r) (MO_gaps os)))
     @ metric_head ''endpointguard_queue_depth'' ''gauge'' ''Pending message depth across background work queues.''
     @ concat (map (\<lambda>(qName, depth). ''endpointguard_queue_depth{'' @ label ''queue'' qName @ ''} '' @ dec_int depth @ nl)
         (range_pairs (MR_queueDepths r) (MO_queues os)))
     @ metric_head ''endpointguard_api_request_duration_seconds'' ''histogram'' ''HTTP API request duration in seconds.''
     @ concat (map (\<lambda>(key, buckets). histogram_lines g ''endpointguard_api_request_duration_seconds'' LatencyBuckets key buckets
           (MR_apiLatencySum r key) (MR_apiLatencyCount r key)) (range_pairs (MR_apiLatencyBuckets r) (MO_api os)))
     @ metric_head ''endpointguard_active_endpoints'' ''gauge'' ''Total inventory endpoints grouped by status.''
     @ concat (map (\<lambda>(status, cnt). ''endpointguard_active_endpoints{'' @ label ''status'' status @ ''} '' @ dec_int cnt @ nl)
         (range_pairs (MR_activeEndpoints r) (MO_active os)))
     @ metric_head ''endpointguard_compliance_score_average'' ''gauge'' ''Fleet-wide average CIS compliance percentage.''
     @ ''endpointguard_compliance_score_average '' @ g (MR_complianceAvg r) @ nl"

definition MetricsHandler :: "(rat \<Rightarrow> string) \<Rightarrow> metric_orders \<Rightarrow> MetricsRegistry \<Rightarrow> ('c, string) handler" where
  "MetricsHandler g os reg r w =
     encode_body (Data (metrics_text g os reg)) (write_header 200 (set_header ''Content-Type'' ''text/plain; version=0.0.4; charset=utf-8'' w))"

text \<open>A handler with state; the status is the first explicit one (no handler here sets it twice), or 200.\<close>

type_synonym ('c, 'b, 's) stateful = "'c Request \<Rightarrow> 'b Response \<Rightarrow> 's \<times> 'b Response"

definition recorded_status :: "'b Response \<Rightarrow> int" where
  "recorded_status w = (case W_Status w of None \<Rightarrow> 200 | Some st \<Rightarrow> st)"

definition LatencyMiddleware :: "time \<Rightarrow> time \<Rightarrow> MetricsRegistry \<Rightarrow> ('c, 'b, 's) stateful \<Rightarrow> ('c, 'b, MetricsRegistry \<times> 's) stateful" where
  "LatencyMiddleware start end' reg next r w =
     (let (s, w') = next r w
      in ((RecordAPIRequest reg (R_Method r) (R_Path r) (recorded_status w') (Seconds (time_sub end' start)), s), w'))"

section \<open>Traces\<close>

record TraceContext =
  TC_TraceID :: string
  TC_SpanID :: string
  TC_ParentSpanID :: string
  TC_CorrelationID :: string
  TC_TenantID :: string
  TC_JobID :: string
  TC_Sampled :: bool
  TC_Baggage :: "string \<rightharpoonup> string"

record SpanEvent =
  SE_Name :: string
  SE_Timestamp :: time
  SE_Payload :: "(string \<times> json) list"

record Span =
  SN_Name :: string
  SN_TraceID :: string
  SN_SpanID :: string
  SN_ParentID :: string
  SN_StartTime :: time
  SN_EndTime :: time
  SN_DurationMs :: int
  SN_Status :: string
  SN_Attributes :: "string \<rightharpoonup> string"
  SN_Events :: "SpanEvent list"

text \<open>\<open>rand n i\<close> are the bytes of the \<open>i\<close>-th draw of \<open>n\<close> bytes.\<close>

definition randomHex :: "(nat \<Rightarrow> nat \<Rightarrow> string) \<Rightarrow> nat \<Rightarrow> nat \<Rightarrow> string" where
  "randomHex rand byteLen i = hex_encode (rand byteLen i)"

definition NewTraceContext :: "(nat \<Rightarrow> nat \<Rightarrow> string) \<Rightarrow> string \<Rightarrow> string \<Rightarrow> TraceContext" where
  "NewTraceContext rand tenantID correlationID =
     \<lparr>TC_TraceID = randomHex rand 16 1, TC_SpanID = randomHex rand 8 2, TC_ParentSpanID = [],
      TC_CorrelationID = (if correlationID = [] then ''corr_'' @ randomHex rand 8 0 else correlationID), TC_TenantID = tenantID, TC_JobID = [],
      TC_Sampled = True, TC_Baggage = Map.empty\<rparr>"

definition StartSpan :: "(nat \<Rightarrow> nat \<Rightarrow> string) \<Rightarrow> time \<Rightarrow> TraceContext \<Rightarrow> string \<Rightarrow> Span \<times> TraceContext" where
  "StartSpan rand now tc name =
     (let childSpanID = randomHex rand 8 0;
          attrs = [''tenant_id'' \<mapsto> TC_TenantID tc, ''correlation_id'' \<mapsto> TC_CorrelationID tc];
          attrs = (if TC_JobID tc \<noteq> [] then attrs(''job_id'' \<mapsto> TC_JobID tc) else attrs)
      in (\<lparr>SN_Name = name, SN_TraceID = TC_TraceID tc, SN_SpanID = childSpanID, SN_ParentID = TC_SpanID tc, SN_StartTime = now,
           SN_EndTime = zero_time, SN_DurationMs = 0, SN_Status = ''OK'', SN_Attributes = attrs, SN_Events = []\<rparr>,
          tc\<lparr>TC_SpanID := childSpanID, TC_ParentSpanID := TC_SpanID tc\<rparr>))"

text \<open>The error is given by its text.\<close>

definition EndSpan :: "time \<Rightarrow> string option \<Rightarrow> Span \<Rightarrow> Span" where
  "EndSpan now err s =
     (let s = s\<lparr>SN_EndTime := now, SN_DurationMs := quot (time_sub now (SN_StartTime s)) Millisecond\<rparr>
      in case err of None \<Rightarrow> s | Some e \<Rightarrow> s\<lparr>SN_Status := ''ERROR'', SN_Attributes := (SN_Attributes s)(''error'' \<mapsto> e)\<rparr>)"

definition AddEvent :: "time \<Rightarrow> string \<Rightarrow> (string \<times> json) list \<Rightarrow> Span \<Rightarrow> Span" where
  "AddEvent now name payload s = s\<lparr>SN_Events := SN_Events s @ [\<lparr>SE_Name = name, SE_Timestamp = now, SE_Payload = payload\<rparr>]\<rparr>"

text \<open>Headers by their canonical names.\<close>

definition InjectHTTP :: "TraceContext \<Rightarrow> (string \<rightharpoonup> string) \<Rightarrow> (string \<rightharpoonup> string)" where
  "InjectHTTP tc header =
     (let sampledFlag = (if TC_Sampled tc then ''01'' else ''00'');
          header = header(''Traceparent'' \<mapsto> ''00-'' @ TC_TraceID tc @ ''-'' @ TC_SpanID tc @ ''-'' @ sampledFlag,
                          ''X-Correlation-Id'' \<mapsto> TC_CorrelationID tc)
      in if TC_TenantID tc \<noteq> [] then header(''X-Tenant-Id'' \<mapsto> TC_TenantID tc) else header)"

definition get_header :: "(string \<rightharpoonup> string) \<Rightarrow> string \<Rightarrow> string" where
  "get_header header h = (case header h of None \<Rightarrow> [] | Some v \<Rightarrow> v)"

definition ExtractHTTP :: "(nat \<Rightarrow> nat \<Rightarrow> string) \<Rightarrow> (string \<rightharpoonup> string) \<Rightarrow> TraceContext" where
  "ExtractHTTP rand header =
     (let corrID = get_header header ''X-Correlation-Id'';
          corrID = (if corrID = [] then ''corr_'' @ randomHex rand 8 3 else corrID);
          tenantID = get_header header ''X-Tenant-Id'';
          parts = split_on CHR ''-'' (get_header header ''Traceparent'')
      in if length parts = 4 \<and> parts ! 0 = ''00'' \<and> length (parts ! 1) = 32 \<and> length (parts ! 2) = 16 then
           \<lparr>TC_TraceID = parts ! 1, TC_SpanID = parts ! 2, TC_ParentSpanID = [], TC_CorrelationID = corrID, TC_TenantID = tenantID, TC_JobID = [],
            TC_Sampled = (parts ! 3 = ''01''), TC_Baggage = Map.empty\<rparr>
         else NewTraceContext rand tenantID corrID)"

text \<open>Span chains: the contexts of nested spans, one draw of identifiers for each.\<close>

fun nested :: "(nat \<Rightarrow> nat \<Rightarrow> nat \<Rightarrow> string) \<Rightarrow> time \<Rightarrow> TraceContext \<Rightarrow> string list \<Rightarrow> Span list" where
  "nested rands now tc [] = []"
| "nested rands now tc (n # ns) = (case StartSpan (rands (length ns)) now tc n of (sp, tc') \<Rightarrow> sp # nested rands now tc' ns)"

section \<open>Request log\<close>

record LogEntry =
  LE_Timestamp :: string
  LE_Level :: string
  LE_CorrelationID :: string
  LE_Service :: string
  LE_Method :: string
  LE_Path :: string
  LE_StatusCode :: int
  LE_DurationMs :: int
  LE_ClientIP :: string
  LE_Message :: string

text \<open>\<open>redact\<close> is \<open>MaskSecrets\<close>, a replacement by a regular expression.\<close>

definition LogJSON :: "(string \<Rightarrow> string) \<Rightarrow> (time \<Rightarrow> string) \<Rightarrow> time \<Rightarrow> string \<Rightarrow> string \<Rightarrow> string \<Rightarrow> string \<Rightarrow> LogEntry" where
  "LogJSON redact fmt now level correlationID service message =
     \<lparr>LE_Timestamp = fmt now, LE_Level = level, LE_CorrelationID = correlationID, LE_Service = service, LE_Method = [], LE_Path = [],
      LE_StatusCode = 0, LE_DurationMs = 0, LE_ClientIP = [], LE_Message = redact message\<rparr>"

definition correlation_of :: "string \<Rightarrow> ('c, 'z) Request_scheme \<Rightarrow> string" where
  "correlation_of uid r =
     (let corrID = header_get r ''X-Correlation-Id'';
          corrID = (if corrID = [] then header_get r ''X-Request-Id'' else corrID)
      in if corrID = [] then ''req-'' @ take 8 uid else corrID)"

definition log_level :: "int \<Rightarrow> string" where
  "log_level st = (if st \<ge> 500 then ''error'' else if st \<ge> 400 then ''warn'' else ''info'')"

definition StructuredLoggingMiddleware :: "string \<Rightarrow> string \<Rightarrow> (time \<Rightarrow> string) \<Rightarrow> (nat \<Rightarrow> time) \<Rightarrow> ('c, 'b, 's) stateful \<Rightarrow> ('c, 'b, LogEntry \<times> 's) stateful" where
  "StructuredLoggingMiddleware serviceName uid fmt clk next r w =
     (let corrID = correlation_of uid r;
          (s, w') = next (r\<lparr>R_CorrelationID := Some corrID\<rparr>) (set_header ''X-Correlation-ID'' corrID w);
          duration = quot (time_sub (clk 1) (clk 0)) Millisecond;
          st = recorded_status w'
      in ((\<lparr>LE_Timestamp = fmt (clk 2), LE_Level = log_level st, LE_CorrelationID = corrID, LE_Service = serviceName, LE_Method = R_Method r,
            LE_Path = R_Path r, LE_StatusCode = st, LE_DurationMs = duration, LE_ClientIP = R_RemoteAddr r,
            LE_Message = R_Method r @ '' '' @ R_Path r @ '' -> '' @ dec_int st @ '' in '' @ dec_int duration @ ''ms''\<rparr>, s), w'))"

section \<open>Histograms\<close>

definition observed :: "rat list \<Rightarrow> rat list \<Rightarrow> (rat \<rightharpoonup> counter)" where
  "observed bounds ds = map_of (map (\<lambda>b. (b, of_nat (length (filter (\<lambda>d. d \<le> b) ds)))) bounds)"

lemma map_of_map_key: "map_of (map (\<lambda>b. (b, f b)) bs) b = (if b \<in> set bs then Some (f b) else None)"
  by (induction bs) auto

lemma bump_buckets_at:
  "distinct bounds \<Longrightarrow> bump_buckets bounds d m b = (if b \<in> set bounds \<and> d \<le> b then map_option (\<lambda>c. c + 1) (m b) else m b)"
  by (induction bounds arbitrary: m) (auto simp: bump_buckets_def split: option.splits)

lemma bump_observed: "distinct bounds \<Longrightarrow> bump_buckets bounds d (observed bounds ds) = observed bounds (ds @ [d])"
  by (rule ext) (simp add: bump_buckets_at observed_def map_of_map_key)

lemma zero_observed: "zero_buckets bounds = observed bounds []"
  by (simp add: zero_buckets_def observed_def)

lemma distinct_bounds [simp]: "distinct ScanBuckets" "distinct LatencyBuckets"
  by (simp_all add: ScanBuckets_def LatencyBuckets_def)

text \<open>What the three maps of a histogram hold for a key after a list of observations.\<close>

definition series :: "rat list \<Rightarrow> rat list \<Rightarrow> ((rat \<rightharpoonup> counter) option \<times> rat option \<times> counter option)" where
  "series bounds ds = (if ds = [] then (None, None, None) else (Some (observed bounds ds), Some (sum_list ds), Some (of_nat (length ds))))"

definition scan_series :: "MetricsRegistry \<Rightarrow> string \<Rightarrow> ((rat \<rightharpoonup> counter) option \<times> rat option \<times> counter option)" where
  "scan_series r key = (MR_scanDurationBuckets r key, MR_scanDurationSum r key, MR_scanDurationCount r key)"

definition api_series :: "MetricsRegistry \<Rightarrow> string \<Rightarrow> ((rat \<rightharpoonup> counter) option \<times> rat option \<times> counter option)" where
  "api_series r key = (MR_apiLatencyBuckets r key, MR_apiLatencySum r key, MR_apiLatencyCount r key)"

lemma RecordScanDuration_series:
  assumes "\<And>key. scan_series r key = series ScanBuckets (h key)"
  shows "scan_series (RecordScanDuration r p d) key = series ScanBuckets (if key = label ''profile'' p then h key @ [d] else h key)"
  using assms [of "label ''profile'' p"] assms [of key]
  by (auto simp: scan_series_def series_def RecordScanDuration_def Let_def bump_observed zero_observed split: option.splits if_splits)

lemma RecordAPIRequest_series:
  assumes "\<And>key. api_series r key = series LatencyBuckets (h key)"
  shows "api_series (RecordAPIRequest r m p st d) key = series LatencyBuckets (if key = api_key m p st then h key @ [d] else h key)"
  using assms [of "api_key m p st"] assms [of key]
  by (auto simp: api_series_def series_def RecordAPIRequest_def Let_def bump_observed zero_observed split: option.splits if_splits)

datatype metric_event =
    ScanJobEvent string string | ScanDurationEvent string rat | ApiRequestEvent string string int rat
  | HeartbeatGapEvent string rat | QueueDepthEvent string int | ActiveEndpointsEvent string int | ComplianceEvent rat

fun apply_event :: "MetricsRegistry \<Rightarrow> metric_event \<Rightarrow> MetricsRegistry" where
  "apply_event r (ScanJobEvent st p) = RecordScanJob r st p"
| "apply_event r (ScanDurationEvent p d) = RecordScanDuration r p d"
| "apply_event r (ApiRequestEvent m p st d) = RecordAPIRequest r m p st d"
| "apply_event r (HeartbeatGapEvent g x) = SetGatewayHeartbeatGap r g x"
| "apply_event r (QueueDepthEvent q n) = SetQueueDepth r q n"
| "apply_event r (ActiveEndpointsEvent st n) = SetActiveEndpoints r st n"
| "apply_event r (ComplianceEvent x) = SetAverageCompliance r x"

fun scan_durations :: "string \<Rightarrow> metric_event list \<Rightarrow> rat list" where
  "scan_durations key [] = []"
| "scan_durations key (ScanDurationEvent p d # es) = (if key = label ''profile'' p then [d] else []) @ scan_durations key es"
| "scan_durations key (_ # es) = scan_durations key es"

fun api_durations :: "string \<Rightarrow> metric_event list \<Rightarrow> rat list" where
  "api_durations key [] = []"
| "api_durations key (ApiRequestEvent m p st d # es) = (if key = api_key m p st then [d] else []) @ api_durations key es"
| "api_durations key (_ # es) = api_durations key es"

lemma scan_durations_append [simp]: "scan_durations key (xs @ ys) = scan_durations key xs @ scan_durations key ys"
  by (induction xs rule: scan_durations.induct) simp_all

lemma api_durations_append [simp]: "api_durations key (xs @ ys) = api_durations key xs @ api_durations key ys"
  by (induction xs rule: api_durations.induct) simp_all

lemma other_events [simp]:
  "scan_series (RecordScanJob r a b) = scan_series r" "api_series (RecordScanJob r a b) = api_series r"
  "scan_series (SetGatewayHeartbeatGap r a x) = scan_series r" "api_series (SetGatewayHeartbeatGap r a x) = api_series r"
  "scan_series (SetQueueDepth r a n) = scan_series r" "api_series (SetQueueDepth r a n) = api_series r"
  "scan_series (SetActiveEndpoints r a n) = scan_series r" "api_series (SetActiveEndpoints r a n) = api_series r"
  "scan_series (SetAverageCompliance r x) = scan_series r" "api_series (SetAverageCompliance r x) = api_series r"
  "api_series (RecordScanDuration r a x) = api_series r" "scan_series (RecordAPIRequest r m p st x) = scan_series r"
  by (auto simp: fun_eq_iff scan_series_def api_series_def RecordScanJob_def SetGatewayHeartbeatGap_def SetQueueDepth_def SetActiveEndpoints_def
      SetAverageCompliance_def RecordScanDuration_def RecordAPIRequest_def Let_def split: option.splits)

lemma series_event:
  assumes "\<And>key. scan_series r key = series ScanBuckets (scan_durations key es)"
    and "\<And>key. api_series r key = series LatencyBuckets (api_durations key es)"
  shows "scan_series (apply_event r e) key = series ScanBuckets (scan_durations key (es @ [e]))
    \<and> api_series (apply_event r e) key' = series LatencyBuckets (api_durations key' (es @ [e]))"
  using RecordScanDuration_series [OF assms(1)] RecordAPIRequest_series [OF assms(2)] assms by (cases e) auto

lemma series_events:
  "scan_series (foldl apply_event new_registry es) key = series ScanBuckets (scan_durations key es)
    \<and> api_series (foldl apply_event new_registry es) key' = series LatencyBuckets (api_durations key' es)"
proof (induction es arbitrary: key key' rule: rev_induct)
  case Nil
  show ?case by (simp add: scan_series_def api_series_def new_registry_def series_def)
next
  case (snoc e es)
  show ?case using series_event [of "foldl apply_event new_registry es" es e] snoc by simp
qed

text \<open>C39. After any run of the registry the series of a key holds exactly the observations of that key: in the bucket of each bound
  the number of requests that took at most that long (modulo 2 to the 64), their number and the sum of their durations.\<close>

theorem api_histogram_exact:
  "api_series (foldl apply_event new_registry es) key = series LatencyBuckets (api_durations key es)"
  using series_events by blast

section \<open>Propagation of traces\<close>

lemma hex_value_dash: "hex_value CHR ''-'' = None"
  by code_simp

lemma hex_digit_no_dash: "n < 16 \<Longrightarrow> hex_digit n \<noteq> CHR ''-''"
  by (metis hex_value_digit hex_value_dash option.distinct(1))

lemma hex_no_dash: "CHR ''-'' \<notin> set (hex_encode s)"
proof -
  have "(of_char c :: nat) div 16 < 16" "(of_char c :: nat) mod 16 < 16" for c by (rule less_mult_imp_div_less, simp) simp
  then have d: "CHR ''-'' \<noteq> hex_digit (of_char c div 16)" "CHR ''-'' \<noteq> hex_digit (of_char c mod 16)" for c
    using hex_digit_no_dash by metis+
  show ?thesis by (induction s) (simp_all add: hex_encode_def Let_def d)
qed

text \<open>The identifiers that contexts get when they are made and when a span starts have the shape the receiver asks for.\<close>

lemma generated_contexts:
  assumes "\<And>n i. length (rand n i) = n"
  shows "length (TC_TraceID (NewTraceContext rand t c)) = 32" "length (TC_SpanID (NewTraceContext rand t c)) = 16"
    "CHR ''-'' \<notin> set (TC_TraceID (NewTraceContext rand t c))" "CHR ''-'' \<notin> set (TC_SpanID (NewTraceContext rand t c))"
    "TC_CorrelationID (NewTraceContext rand t c) \<noteq> []"
    "length (TC_SpanID (snd (StartSpan rand now tc name))) = 16" "CHR ''-'' \<notin> set (TC_SpanID (snd (StartSpan rand now tc name)))"
  using assms by (simp_all add: NewTraceContext_def StartSpan_def randomHex_def hex_no_dash Let_def)

text \<open>A context sent in the headers of a request and read by the receiver names the same trace, span, tenant and correlation, with
  the same sampling decision; the parent, the job and the baggage are not sent.\<close>

theorem trace_roundtrip:
  assumes "length (TC_TraceID tc) = 32" "length (TC_SpanID tc) = 16" "CHR ''-'' \<notin> set (TC_TraceID tc)" "CHR ''-'' \<notin> set (TC_SpanID tc)"
    and "TC_CorrelationID tc \<noteq> []" "TC_TenantID tc \<noteq> [] \<or> header ''X-Tenant-Id'' = None"
  shows "ExtractHTTP rand (InjectHTTP tc header) = tc\<lparr>TC_ParentSpanID := [], TC_JobID := [], TC_Baggage := Map.empty\<rparr>"
proof -
  let ?f = "if TC_Sampled tc then ''01'' else ''00''"
  let ?h = "InjectHTTP tc header"
  have "CHR ''-'' \<notin> set ?f" "CHR ''-'' \<notin> set ''00''" by simp_all
  then have "split_on CHR ''-'' (''00'' @ CHR ''-'' # TC_TraceID tc @ CHR ''-'' # TC_SpanID tc @ CHR ''-'' # ?f)
      = [''00'', TC_TraceID tc, TC_SpanID tc, ?f]"
    by (simp only: split_on_append split_on_no_sep assms(3,4) not_False_eq_True)
  moreover have "get_header ?h ''Traceparent'' = ''00-'' @ TC_TraceID tc @ ''-'' @ TC_SpanID tc @ ''-'' @ ?f"
    "get_header ?h ''X-Correlation-Id'' = TC_CorrelationID tc" "get_header ?h ''X-Tenant-Id'' = TC_TenantID tc"
    using assms(6) by (auto simp: InjectHTTP_def get_header_def Let_def)
  ultimately show ?thesis using assms(1,2,5) by (simp add: ExtractHTTP_def Let_def)
qed

text \<open>A concrete instance.\<close>

theorem trace_roundtrip_witness:
  "ExtractHTTP (\<lambda>n i. replicate n CHR ''b'') (InjectHTTP (NewTraceContext (\<lambda>n i. replicate n CHR ''a'') ''acme'' []) Map.empty)
   = NewTraceContext (\<lambda>n i. replicate n CHR ''a'') ''acme'' []"
proof -
  let ?rand = "\<lambda>n i :: nat. replicate n CHR ''a''"
  have l: "\<And>n i :: nat. length (?rand n i) = n" by simp
  show ?thesis
    using trace_roundtrip [OF generated_contexts(1-5) [OF l], of "''acme''" "[]" "Map.empty"]
    by (simp add: NewTraceContext_def)
qed

end
