(* ===== verification/Server.thy ===== *)
theory Server
  imports ApiHandlers AuthHandlers Telemetry
begin

text \<open>
  The API server: the request log (\<open>middleware/logging.go\<close>) and the routes of \<open>cmd/server/main.go\<close> with the middlewares in
  front of each. A call is the route that was picked together with its decoded body; picking a route by method and path is the
  router library's work, as are its recovery, real-address and CORS middlewares.
\<close>

section \<open>Routes\<close>

datatype call =
    C_HealthCheck | C_GetFleetMetrics
  | C_ListEndpoints | C_GetPilotHealthSummary | C_GetEndpointByID
  | C_PromoteEndpointsTier "PromoteTierRequest option" | C_BulkAssignEndpointsTier "BulkAssignTierRequest option"
  | C_UpdateEndpointRolloutTier "(string \<times> string) option" | C_DeleteEndpoint
  | C_GetRolloutSettings | C_UpdateRolloutSettings "RolloutSettings option"
  | C_ListSnapshots | C_GetSnapshotByID | C_GetSnapshotRetentionPolicy
  | C_UpdateSnapshotRetentionPolicy "SnapshotRetentionPolicy option"
  | C_DryRunSnapshotRetention SnapshotRetentionExecuteRequest | C_ExecuteSnapshotRetention SnapshotRetentionExecuteRequest
  | C_CreateScanJob "CreateScanJobRequest option" | C_ListScanJobs | C_GetScanJobByID | C_CancelScanJob
  | C_ListGateways | C_ListNetworkSubnets | C_RegisterGateway "RegisterGatewayRequest option" | C_ApproveGateway
  | C_GatewayHeartbeat "(string \<times> int) option"
  | C_ListVaultCredentials | C_CreateVaultCredential "CreateVaultCredentialRequest option"
  | C_RotateVaultCredential "string option" | C_TestVaultCredential "string option"
  | C_ListVulnerabilityFindings | C_GetVulnerabilityFindingByID
  | C_ListComplianceFrameworks | C_ListComplianceRules | C_GetHostComplianceResults | C_GetTenantComplianceSummary
  | C_DisablePolicyEnforcement string
  | C_ListDriftEvents | C_AcknowledgeDriftEvent string
  | C_ListAlertRules | C_CreateAlertRule "AlertRule option" | C_ListWebhookDeliveryLogs
  | C_SendTestAlert TestAlertRequest | C_GetAlertHealthStatus | C_GetProductionReadiness
  | C_GenerateReport "GenerateReportRequest option" | C_ListAuditLogs

text \<open>What stands in front of a handler: nothing, the protected group alone, the group and a permission, or these and the
  step-up check.\<close>

datatype guard = Public | Group | Permitted Permission | SteppedUp Permission

fun route_of :: "call \<Rightarrow> string \<times> string \<times> guard" where
  "route_of C_HealthCheck = (''GET'', ''/health'', Public)"
| "route_of C_GetFleetMetrics = (''GET'', ''/metrics'', Public)"
| "route_of C_ListEndpoints = (''GET'', ''/endpoints'', Permitted PermissionReadTelemetry)"
| "route_of C_GetPilotHealthSummary = (''GET'', ''/endpoints/pilot/summary'', Permitted PermissionReadTelemetry)"
| "route_of C_GetEndpointByID = (''GET'', ''/endpoints/{id}'', Permitted PermissionReadTelemetry)"
| "route_of (C_PromoteEndpointsTier _) = (''POST'', ''/endpoints/rollout-tier/promote'', Permitted PermissionManageTenants)"
| "route_of (C_BulkAssignEndpointsTier _) = (''POST'', ''/endpoints/rollout-tier/bulk-assign'', Permitted PermissionManageTenants)"
| "route_of (C_UpdateEndpointRolloutTier _) = (''POST'', ''/endpoints/{id}/rollout-tier'', Permitted PermissionManageTenants)"
| "route_of C_DeleteEndpoint = (''DELETE'', ''/endpoints/{id}'', SteppedUp PermissionManageTenants)"
| "route_of C_GetRolloutSettings = (''GET'', ''/admin/settings/rollout-tiers'', Permitted PermissionReadTelemetry)"
| "route_of (C_UpdateRolloutSettings _) = (''PUT'', ''/admin/settings/rollout-tiers'', Permitted PermissionManageTenants)"
| "route_of C_ListSnapshots = (''GET'', ''/snapshots'', Permitted PermissionReadTelemetry)"
| "route_of C_GetSnapshotByID = (''GET'', ''/snapshots/{id}'', Permitted PermissionReadTelemetry)"
| "route_of C_GetSnapshotRetentionPolicy = (''GET'', ''/admin/snapshots/retention/policy'', Permitted PermissionReadTelemetry)"
| "route_of (C_UpdateSnapshotRetentionPolicy _) = (''PUT'', ''/admin/snapshots/retention/policy'', Permitted PermissionManageTenants)"
| "route_of (C_DryRunSnapshotRetention _) = (''POST'', ''/admin/snapshots/retention/dry-run'', Permitted PermissionReadTelemetry)"
| "route_of (C_ExecuteSnapshotRetention _) = (''POST'', ''/admin/snapshots/retention/execute'', SteppedUp PermissionManageTenants)"
| "route_of (C_CreateScanJob _) = (''POST'', ''/scans'', Permitted PermissionTriggerScans)"
| "route_of C_ListScanJobs = (''GET'', ''/scans'', Permitted PermissionReadTelemetry)"
| "route_of C_GetScanJobByID = (''GET'', ''/scans/{id}'', Permitted PermissionReadTelemetry)"
| "route_of C_CancelScanJob = (''POST'', ''/scans/{id}/cancel'', Permitted PermissionCancelScans)"
| "route_of C_ListGateways = (''GET'', ''/gateways'', Permitted PermissionReadTelemetry)"
| "route_of C_ListNetworkSubnets = (''GET'', ''/network/subnets'', Permitted PermissionReadTelemetry)"
| "route_of (C_RegisterGateway _) = (''POST'', ''/gateways/register'', Permitted PermissionManageTenants)"
| "route_of C_ApproveGateway = (''POST'', ''/gateways/{id}/approve'', Permitted PermissionManageTenants)"
| "route_of (C_GatewayHeartbeat _) = (''POST'', ''/gateways/heartbeat'', Group)"
| "route_of C_ListVaultCredentials = (''GET'', ''/vault/credentials'', Permitted PermissionManageCredentials)"
| "route_of (C_CreateVaultCredential _) = (''POST'', ''/vault/credentials'', SteppedUp PermissionManageCredentials)"
| "route_of (C_RotateVaultCredential _) = (''POST'', ''/vault/credentials/{id}/rotate'', SteppedUp PermissionManageCredentials)"
| "route_of (C_TestVaultCredential _) = (''POST'', ''/vault/credentials/{id}/test'', Permitted PermissionManageCredentials)"
| "route_of C_ListVulnerabilityFindings = (''GET'', ''/findings'', Permitted PermissionReadFindings)"
| "route_of C_GetVulnerabilityFindingByID = (''GET'', ''/findings/{id}'', Permitted PermissionReadFindings)"
| "route_of C_ListComplianceFrameworks = (''GET'', ''/compliance/frameworks'', Permitted PermissionReadCompliance)"
| "route_of C_ListComplianceRules = (''GET'', ''/compliance/frameworks/{code}/rules'', Permitted PermissionReadCompliance)"
| "route_of C_GetHostComplianceResults = (''GET'', ''/compliance/hosts/{host_id}/results'', Permitted PermissionReadCompliance)"
| "route_of C_GetTenantComplianceSummary = (''GET'', ''/compliance/tenant/summary'', Permitted PermissionReadCompliance)"
| "route_of (C_DisablePolicyEnforcement _) = (''POST'', ''/compliance/policies/{id}/disable'', SteppedUp PermissionManageCredentials)"
| "route_of C_ListDriftEvents = (''GET'', ''/drift/events'', Permitted PermissionReadDrift)"
| "route_of (C_AcknowledgeDriftEvent _) = (''POST'', ''/drift/events/{id}/acknowledge'', Permitted PermissionAcknowledgeDrift)"
| "route_of C_ListAlertRules = (''GET'', ''/alerts/rules'', Permitted PermissionManageAlerts)"
| "route_of (C_CreateAlertRule _) = (''POST'', ''/alerts/rules'', Permitted PermissionManageAlerts)"
| "route_of C_ListWebhookDeliveryLogs = (''GET'', ''/alerts/deliveries'', Permitted PermissionManageAlerts)"
| "route_of (C_SendTestAlert _) = (''POST'', ''/admin/health/test-alert'', Permitted PermissionManageAlerts)"
| "route_of C_GetAlertHealthStatus = (''GET'', ''/admin/health/status'', Permitted PermissionReadTelemetry)"
| "route_of C_GetProductionReadiness = (''GET'', ''/admin/readiness'', Permitted PermissionReadTelemetry)"
| "route_of (C_GenerateReport _) = (''POST'', ''/reports'', Permitted PermissionGenerateReports)"
| "route_of C_ListAuditLogs = (''GET'', ''/audit-logs'', Permitted PermissionReadAuditLogs)"

definition method_of :: "call \<Rightarrow> string" where "method_of c = fst (route_of c)"

definition guard_of :: "call \<Rightarrow> guard" where "guard_of c = snd (snd (route_of c))"

text \<open>The handler of a route; \<open>provider\<close> is the vault's.\<close>

fun dispatch :: "('e, 's) SecretProvider \<Rightarrow> 'e handler_env \<Rightarrow> 's ApiState \<Rightarrow> url \<Rightarrow> call \<Rightarrow> req \<Rightarrow> resp \<Rightarrow> 's ApiState \<times> resp" where
  "dispatch p env s u C_HealthCheck r w = h_HealthCheck env s r w"
| "dispatch p env s u C_GetFleetMetrics r w = h_GetFleetMetrics env s r w"
| "dispatch p env s u C_ListEndpoints r w = h_ListEndpoints env s u r w"
| "dispatch p env s u C_GetPilotHealthSummary r w = h_GetPilotHealthSummary env s r w"
| "dispatch p env s u C_GetEndpointByID r w = h_GetEndpointByID env s u r w"
| "dispatch p env s u (C_PromoteEndpointsTier b) r w = h_PromoteEndpointsTier env s b r w"
| "dispatch p env s u (C_BulkAssignEndpointsTier b) r w = h_BulkAssignEndpointsTier env s b r w"
| "dispatch p env s u (C_UpdateEndpointRolloutTier b) r w = h_UpdateEndpointRolloutTier env s u b r w"
| "dispatch p env s u C_DeleteEndpoint r w = h_DeleteEndpoint env s u r w"
| "dispatch p env s u C_GetRolloutSettings r w = h_GetRolloutSettings s r w"
| "dispatch p env s u (C_UpdateRolloutSettings b) r w = h_UpdateRolloutSettings env s b r w"
| "dispatch p env s u C_ListSnapshots r w = h_ListSnapshots env s u r w"
| "dispatch p env s u C_GetSnapshotByID r w = h_GetSnapshotByID env s u r w"
| "dispatch p env s u C_GetSnapshotRetentionPolicy r w = h_GetSnapshotRetentionPolicy s r w"
| "dispatch p env s u (C_UpdateSnapshotRetentionPolicy b) r w = h_UpdateSnapshotRetentionPolicy env s b r w"
| "dispatch p env s u (C_DryRunSnapshotRetention b) r w = h_DryRunSnapshotRetention env s b r w"
| "dispatch p env s u (C_ExecuteSnapshotRetention b) r w = h_ExecuteSnapshotRetention env s b r w"
| "dispatch p env s u (C_CreateScanJob b) r w = h_CreateScanJob env s b r w"
| "dispatch p env s u C_ListScanJobs r w = h_ListScanJobs env s r w"
| "dispatch p env s u C_GetScanJobByID r w = h_GetScanJobByID env s u r w"
| "dispatch p env s u C_CancelScanJob r w = h_CancelScanJob env s u r w"
| "dispatch p env s u C_ListGateways r w = h_ListGateways env s r w"
| "dispatch p env s u C_ListNetworkSubnets r w = h_ListNetworkSubnets env s r w"
| "dispatch p env s u (C_RegisterGateway b) r w = h_RegisterGateway env s b r w"
| "dispatch p env s u C_ApproveGateway r w = h_ApproveGateway env s u r w"
| "dispatch p env s u (C_GatewayHeartbeat b) r w = h_GatewayHeartbeat env s b r w"
| "dispatch p env s u C_ListVaultCredentials r w = h_ListVaultCredentials env s r w"
| "dispatch p env s u (C_CreateVaultCredential b) r w = h_CreateVaultCredential p env s b r w"
| "dispatch p env s u (C_RotateVaultCredential b) r w = h_RotateVaultCredential p env s u b r w"
| "dispatch p env s u (C_TestVaultCredential b) r w = h_TestVaultCredential p env s u b r w"
| "dispatch p env s u C_ListVulnerabilityFindings r w = h_ListVulnerabilityFindings env s u r w"
| "dispatch p env s u C_GetVulnerabilityFindingByID r w = h_GetVulnerabilityFindingByID env s u r w"
| "dispatch p env s u C_ListComplianceFrameworks r w = h_ListComplianceFrameworks env s r w"
| "dispatch p env s u C_ListComplianceRules r w = h_ListComplianceRules env s u r w"
| "dispatch p env s u C_GetHostComplianceResults r w = h_GetHostComplianceResults env s u r w"
| "dispatch p env s u C_GetTenantComplianceSummary r w = h_GetTenantComplianceSummary env s u r w"
| "dispatch p env s u (C_DisablePolicyEnforcement b) r w = h_DisablePolicyEnforcement env s u b r w"
| "dispatch p env s u C_ListDriftEvents r w = h_ListDriftEvents env s u r w"
| "dispatch p env s u (C_AcknowledgeDriftEvent b) r w = h_AcknowledgeDriftEvent env s u b r w"
| "dispatch p env s u C_ListAlertRules r w = h_ListAlertRules env s r w"
| "dispatch p env s u (C_CreateAlertRule b) r w = h_CreateAlertRule env s b r w"
| "dispatch p env s u C_ListWebhookDeliveryLogs r w = h_ListWebhookDeliveryLogs env s r w"
| "dispatch p env s u (C_SendTestAlert b) r w = h_SendTestAlert env s b r w"
| "dispatch p env s u C_GetAlertHealthStatus r w = h_GetAlertHealthStatus env s r w"
| "dispatch p env s u C_GetProductionReadiness r w = h_GetProductionReadiness env s r w"
| "dispatch p env s u (C_GenerateReport b) r w = h_GenerateReport env s b r w"
| "dispatch p env s u C_ListAuditLogs r w = h_ListAuditLogs s u r w"

section \<open>Middleware chains\<close>

text \<open>The clock readings of a request, one for each middleware that takes one.\<close>

definition defaultTenant :: string where "defaultTenant = ''tenant-default-01''"

fun guarded :: "guard \<Rightarrow> (nat \<Rightarrow> time) \<Rightarrow> 'b auth_handler \<Rightarrow> 'b auth_handler" where
  "guarded Public clk next = next"
| "guarded Group clk next = next"
| "guarded (Permitted perm) clk next = RequirePermission perm (clk 3) next"
| "guarded (SteppedUp perm) clk next = RequirePermission perm (clk 3) (RequireStepUp (clk 4) next)"

definition protected_chain :: "(string \<Rightarrow> token_error + UserClaims) \<Rightarrow> (nat \<Rightarrow> time) \<Rightarrow> guard \<Rightarrow> 'b auth_handler
    \<Rightarrow> RateLimiter \<Rightarrow> req \<Rightarrow> 'b Response \<Rightarrow> RateLimiter \<times> 'b Response" where
  "protected_chain verify clk g next rl =
     OptionalAuth verify (clk 0) defaultTenant
       (RateLimitMutatingMiddleware (clk 1) (CSRFProtectionMiddleware (clk 2) (guarded g clk next)) rl)"

text \<open>A middleware's handler gives a response only. The state a call leaves is the one its handler gives for the context it runs
  in, when it runs.\<close>

definition admitted_ctx :: "(string \<Rightarrow> token_error + UserClaims) \<Rightarrow> (nat \<Rightarrow> time) \<Rightarrow> guard \<Rightarrow> RateLimiter \<Rightarrow> req \<Rightarrow> AuthCtx option" where
  "admitted_ctx verify clk g rl r =
     (case W_Body (snd (protected_chain verify clk g spy rl r new_response)) of [Data ctx] \<Rightarrow> Some ctx | _ \<Rightarrow> None)"

definition serve :: "(string \<Rightarrow> token_error + UserClaims) \<Rightarrow> (nat \<Rightarrow> time) \<Rightarrow> ('e, 's) SecretProvider \<Rightarrow> 'e handler_env
    \<Rightarrow> RateLimiter \<times> 's ApiState \<Rightarrow> url \<Rightarrow> call \<Rightarrow> req \<Rightarrow> resp \<Rightarrow> (RateLimiter \<times> 's ApiState) \<times> resp" where
  "serve verify clk p env st u c r w =
     (case st of (rl, s) \<Rightarrow>
        if guard_of c = Public then (let (s', w') = dispatch p env s u c r w in ((rl, s'), w'))
        else
          (let (rl', w') = protected_chain verify clk (guard_of c) (\<lambda>r w. snd (dispatch p env s u c r w)) rl r w;
               s' = (case admitted_ctx verify clk (guard_of c) rl r of
                       Some ctx \<Rightarrow> fst (dispatch p env s u c (r\<lparr>R_Ctx := ctx\<rparr>) w) | None \<Rightarrow> s)
           in ((rl', s'), w')))"

text \<open>The middlewares in front of the router, in their order; the log entry, the registry and the state after a request. The readings
  \<open>lclk\<close> are those of the log, formatted by \<open>lfmt\<close>, \<open>t0\<close> and \<open>t1\<close> those of the latency.\<close>

definition handle_request :: "string \<Rightarrow> string \<Rightarrow> (time \<Rightarrow> string) \<Rightarrow> (nat \<Rightarrow> time) \<Rightarrow> time \<Rightarrow> time \<Rightarrow> MetricsRegistry
    \<Rightarrow> (string \<Rightarrow> token_error + UserClaims) \<Rightarrow> (nat \<Rightarrow> time) \<Rightarrow> ('e, 's) SecretProvider \<Rightarrow> 'e handler_env
    \<Rightarrow> RateLimiter \<times> 's ApiState \<Rightarrow> url \<Rightarrow> call \<Rightarrow> req \<Rightarrow> resp \<Rightarrow> (LogEntry \<times> MetricsRegistry \<times> RateLimiter \<times> 's ApiState) \<times> resp" where
  "handle_request serviceName uid lfmt lclk t0 t1 reg verify clk p env st u c =
     StructuredLoggingMiddleware serviceName uid lfmt lclk
       (SecurityHeadersMiddleware (LatencyMiddleware t0 t1 reg (serve verify clk p env st u c)))"

section \<open>Who a call runs as\<close>

text \<open>The tenant and claims \<open>OptionalAuth\<close> gives a request.\<close>

definition caller :: "(string \<Rightarrow> token_error + UserClaims) \<Rightarrow> time \<Rightarrow> req \<Rightarrow> string \<times> UserClaims" where
  "caller verify now r =
     OptionalAuth verify now defaultTenant
       (\<lambda>r' _. (the (Ctx_Tenant (R_Ctx r')), the (Ctx_Claims (R_Ctx r')))) r ()"

lemma OptionalAuth_caller:
  "OptionalAuth verify now defaultTenant next r w
     = next (with_auth (fst (caller verify now r)) (snd (caller verify now r)) r) w"
  by (simp add: caller_def OptionalAuth_def Let_def with_auth_def split: sum.splits)

definition rate_ok :: "time \<Rightarrow> RateLimiter \<Rightarrow> req \<Rightarrow> bool" where
  "rate_ok now rl r \<longleftrightarrow> safe_method (R_Method r) \<or> fst (snd (Allow now rl (extractClientKey r)))"

definition csrf_ok :: "req \<Rightarrow> bool" where
  "csrf_ok r \<longleftrightarrow> safe_method (R_Method r)
     \<or> (case R_Cookie r ''csrf_token'' of None \<Rightarrow> True | Some v \<Rightarrow> v = [] \<or> header_get r ''X-Csrf-Token'' = v)"

fun guard_ok :: "guard \<Rightarrow> time \<Rightarrow> UserClaims \<Rightarrow> bool" where
  "guard_ok Public now c = True"
| "guard_ok Group now c = True"
| "guard_ok (Permitted perm) now c = HasPermission (UC_Role c) perm"
| "guard_ok (SteppedUp perm) now c = (HasPermission (UC_Role c) perm \<and> IsStepUpValid now (last_auth c))"

lemma header_get_ctx [simp]: "header_get (r\<lparr>R_Ctx := x\<rparr>) = header_get r"
  by (rule ext) (simp add: header_get_def)

lemma with_auth_sel [simp]:
  "R_Method (with_auth t c r) = R_Method r" "R_Cookie (with_auth t c r) = R_Cookie r" "R_RemoteAddr (with_auth t c r) = R_RemoteAddr r"
  "header_get (with_auth t c r) = header_get r" "R_Ctx (with_auth t c r) = \<lparr>Ctx_Tenant = Some t, Ctx_Claims = Some c\<rparr>"
  by (simp_all add: with_auth_def)

lemma with_auth_client [simp]: "extractClientKey (with_auth t c r) = extractClientKey r"
  by (simp only: extractClientKey_def with_auth_sel)

lemma with_auth_csrf [simp]: "csrf_ok (with_auth t c r) = csrf_ok r"
  by (simp only: csrf_ok_def with_auth_sel)

lemma correlation_with_auth [simp]: "GetCorrelationID (with_auth t c r) = GetCorrelationID r"
  by (simp add: GetCorrelationID_def with_auth_def)

text \<open>The response is one problem that carries the given correlation identifier.\<close>

definition is_problem :: "string \<Rightarrow> 'b Response \<Rightarrow> bool" where
  "is_problem cid w \<longleftrightarrow> (\<exists>p. W_Body w = [Problem p] \<and> PD_CorrelationID p = cid)"

lemma problem_is_problem [simp]:
  "is_problem cid (WriteProblemDetails now w r st ec d ps) \<longleftrightarrow> W_Body w = [] \<and> GetCorrelationID r = cid"
  by (auto simp: is_problem_def WriteProblemDetails_def Let_def encode_body_def write_header_def set_header_def split: option.splits)

lemma csrf_body:
  assumes "W_Body w = []"
  shows "if csrf_ok r then CSRFProtectionMiddleware now next r w = next r w
    else is_problem (GetCorrelationID r) (CSRFProtectionMiddleware now next r w)"
  using assms by (auto simp: CSRFProtectionMiddleware_def csrf_ok_def Let_def split: option.splits)

lemma guarded_body:
  assumes "W_Body w = []" "R_Ctx r = \<lparr>Ctx_Tenant = Some t, Ctx_Claims = Some c\<rparr>"
  shows "if guard_ok g (clk 4) c then guarded g clk next r w = next r w else is_problem (GetCorrelationID r) (guarded g clk next r w)"
  using assms by (cases g) (auto simp: RequirePermission_def RequireStepUp_def GetUserClaims_def)

lemma set_header_body [simp]: "W_Body (set_header h v w) = W_Body w"
  by (simp add: set_header_def)

lemma rate_body:
  assumes "W_Body w = []"
  shows "\<exists>w'. W_Body w' = [] \<and> (if rate_ok now rl r then snd (RateLimitMutatingMiddleware now next rl r w) = next r w'
    else is_problem (GetCorrelationID r) (snd (RateLimitMutatingMiddleware now next rl r w)))"
proof (cases "safe_method (R_Method r)")
  case True
  then show ?thesis using assms by (auto simp: RateLimitMutatingMiddleware_def rate_ok_def)
next
  case False
  obtain rl' ok rem ret where a: "Allow now rl (extractClientKey r) = (rl', ok, rem, ret)" by (metis prod_cases4)
  show ?thesis
    using False assms a
    by (cases ok) (auto simp: RateLimitMutatingMiddleware_def rate_ok_def Let_def intro!: exI [of _ "set_header _ _ (set_header _ _ w)"])
qed

text \<open>The whole chain: the handler runs in the caller's context, or the response is one problem.\<close>

definition passes :: "(string \<Rightarrow> token_error + UserClaims) \<Rightarrow> (nat \<Rightarrow> time) \<Rightarrow> guard \<Rightarrow> RateLimiter \<Rightarrow> req \<Rightarrow> bool" where
  "passes verify clk g rl r \<longleftrightarrow> rate_ok (clk 1) rl r \<and> csrf_ok r \<and> guard_ok g (clk 4) (snd (caller verify (clk 0) r))"

abbreviation as_caller :: "(string \<Rightarrow> token_error + UserClaims) \<Rightarrow> time \<Rightarrow> req \<Rightarrow> req" where
  "as_caller verify now r \<equiv> with_auth (fst (caller verify now r)) (snd (caller verify now r)) r"

lemma chain_cases:
  assumes "W_Body w = []"
  shows "\<exists>w'. W_Body w' = [] \<and>
    (if passes verify clk g rl r then snd (protected_chain verify clk g next rl r w) = next (as_caller verify (clk 0) r) w'
     else is_problem (GetCorrelationID r) (snd (protected_chain verify clk g next rl r w)))"
proof -
  let ?r = "as_caller verify (clk 0) r"
  let ?n = "CSRFProtectionMiddleware (clk 2) (guarded g clk next)"
  have e: "protected_chain verify clk g next rl r w = RateLimitMutatingMiddleware (clk 1) ?n rl ?r w"
    unfolding protected_chain_def by (rule OptionalAuth_caller)
  obtain w' where w': "W_Body w' = []"
    and ra: "if rate_ok (clk 1) rl ?r then snd (RateLimitMutatingMiddleware (clk 1) ?n rl ?r w) = ?n ?r w'
      else is_problem (GetCorrelationID r) (snd (RateLimitMutatingMiddleware (clk 1) ?n rl ?r w))"
    using rate_body [OF assms, of "clk 1" rl ?r ?n] unfolding correlation_with_auth by blast
  have rr: "rate_ok (clk 1) rl ?r = rate_ok (clk 1) rl r" by (simp add: rate_ok_def)
  note cs = csrf_body [OF w', of ?r "clk 2" "guarded g clk next", unfolded correlation_with_auth]
  have gu: "if guard_ok g (clk 4) (snd (caller verify (clk 0) r)) then guarded g clk next ?r w' = next ?r w'
      else is_problem (GetCorrelationID r) (guarded g clk next ?r w')" by (rule guarded_body [OF w' with_auth_sel(5), unfolded correlation_with_auth])
  show ?thesis unfolding e passes_def using w' ra cs gu rr
    by (auto split: if_splits)
qed

lemma admitted_ctx_eq:
  "admitted_ctx verify clk g rl r = (if passes verify clk g rl r then Some (R_Ctx (as_caller verify (clk 0) r)) else None)"
proof -
  obtain w' where "W_Body w' = []"
    "if passes verify clk g rl r then snd (protected_chain verify clk g spy rl r new_response) = spy (as_caller verify (clk 0) r) w'
     else is_problem (GetCorrelationID r) (snd (protected_chain verify clk g spy rl r new_response))"
    using chain_cases [OF new_response_body, of verify clk g rl r spy] by blast
  then show ?thesis
    by (auto simp: admitted_ctx_def is_problem_def spy_def encode_body_def write_header_def Let_def split: if_splits option.splits)
qed

lemma ctx_with_auth [simp]: "r\<lparr>R_Ctx := \<lparr>Ctx_Tenant = Some t, Ctx_Claims = Some c\<rparr>\<rparr> = with_auth t c r"
  by (simp add: with_auth_def)

lemma serve_state:
  assumes "guard_of c \<noteq> Public"
  shows "snd (fst (serve verify clk p env (rl, s) u c r w)) =
    (if passes verify clk (guard_of c) rl r then fst (dispatch p env s u c (as_caller verify (clk 0) r) w) else s)"
  using assms by (simp add: serve_def admitted_ctx_eq Let_def split: prod.splits)

section \<open>Calls and the state\<close>

lemmas read_handlers =
  h_HealthCheck_def h_GetFleetMetrics_def h_ListEndpoints_def h_GetPilotHealthSummary_def h_GetEndpointByID_def h_GetRolloutSettings_def
  h_ListSnapshots_def h_GetSnapshotByID_def h_GetSnapshotRetentionPolicy_def h_DryRunSnapshotRetention_def h_ListScanJobs_def
  h_GetScanJobByID_def h_ListGateways_def h_ListNetworkSubnets_def h_ListVaultCredentials_def h_ListVulnerabilityFindings_def
  h_GetVulnerabilityFindingByID_def h_ListComplianceFrameworks_def h_ListComplianceRules_def h_GetHostComplianceResults_def
  h_GetTenantComplianceSummary_def h_ListDriftEvents_def h_ListAlertRules_def h_ListWebhookDeliveryLogs_def h_GetAlertHealthStatus_def
  h_GetProductionReadiness_def h_GenerateReport_def h_ListAuditLogs_def h_ApproveGateway_def

text \<open>The calls whose handler only reads: those routed by \<open>GET\<close>, two by \<open>POST\<close>, and the approval, which edits a copy.\<close>

fun reads_only :: "call \<Rightarrow> bool" where
  "reads_only (C_DryRunSnapshotRetention _) = True"
| "reads_only (C_GenerateReport _) = True"
| "reads_only C_ApproveGateway = True"
| "reads_only c = (method_of c = ''GET'')"

lemma dispatch_reads: "reads_only c \<Longrightarrow> fst (dispatch p env s u c r w) = s"
  by (cases c) (simp_all add: read_handlers method_of_def Let_def split: sum.splits option.splits prod.splits)

definition write_permissions :: "Permission set" where
  "write_permissions = {PermissionManageTenants, PermissionTriggerScans, PermissionCancelScans, PermissionManageCredentials,
     PermissionAcknowledgeDrift, PermissionManageAlerts}"

lemma writes_guarded:
  assumes "\<not> reads_only c" "\<nexists>b. c = C_GatewayHeartbeat b" "guard_ok (guard_of c) now claims"
  shows "\<exists>perm \<in> write_permissions. HasPermission (UC_Role claims) perm"
  using assms by (cases c) (auto simp: guard_of_def method_of_def write_permissions_def)

lemma readers_cannot_write:
  "role = RoleViewer \<or> role = RoleAuditor \<Longrightarrow> perm \<in> write_permissions \<Longrightarrow> \<not> HasPermission role perm"
  by (elim disjE) (auto simp: write_permissions_def HasPermission_def rolePermissions_def grants_def permission_defs role_defs)

lemma super_admin_passes:
  "IsStepUpValid now (last_auth c) \<Longrightarrow> UC_Role c = RoleSuperAdmin \<Longrightarrow> guard_ok (guard_of x) now c"
  by (cases x) (simp_all add: guard_of_def HasPermission_def rolePermissions_def grants_def permission_defs role_defs)

lemma reply_status [simp]: "W_Status w = None \<Longrightarrow> W_Status (reply b w) = Some 200"
  by (simp add: reply_def encode_body_def write_header_def set_header_def)

lemma reply_created_status [simp]: "W_Status w = None \<Longrightarrow> W_Status (reply_created b w) = Some 201"
  by (simp add: reply_created_def encode_body_def write_header_def set_header_def)

definition keeps_but_vault :: "'s ApiState \<Rightarrow> 's ApiState \<Rightarrow> bool" where
  "keeps_but_vault s s' \<longleftrightarrow> (\<exists>v. s' = s\<lparr>AP_vault := v\<rparr>)"

lemma keeps_but_vault_intros [simp, intro]: "keeps_but_vault s s" "keeps_but_vault s (s\<lparr>AP_vault := v\<rparr>)"
  by (auto simp: keeps_but_vault_def intro: exI [of _ "AP_vault s"])

lemma keeps_but_vault_fleet [simp]: "f = AP_fleet s \<Longrightarrow> keeps_but_vault s (s\<lparr>AP_fleet := f\<rparr>)"
  by simp

definition failed :: "resp \<Rightarrow> bool" where
  "failed w \<longleftrightarrow> (case W_Status w of None \<Rightarrow> False | Some st \<Rightarrow> st \<ge> 400)"

lemma failed_reply [simp]: "W_Status w = None \<Longrightarrow> \<not> failed (reply b w)" "W_Status w = None \<Longrightarrow> \<not> failed (reply_created b w)"
  by (simp_all add: failed_def)

lemma failed_write_handlers:
  assumes "W_Status w = None"
  shows "failed (snd (h_PromoteEndpointsTier env s b1 r w)) \<Longrightarrow> keeps_but_vault s (fst (h_PromoteEndpointsTier env s b1 r w))"
    "failed (snd (h_BulkAssignEndpointsTier env s b2 r w)) \<Longrightarrow> keeps_but_vault s (fst (h_BulkAssignEndpointsTier env s b2 r w))"
    "failed (snd (h_UpdateEndpointRolloutTier env s u b3 r w)) \<Longrightarrow> keeps_but_vault s (fst (h_UpdateEndpointRolloutTier env s u b3 r w))"
  using assms
  by (auto simp: h_PromoteEndpointsTier_def h_BulkAssignEndpointsTier_def h_UpdateEndpointRolloutTier_def PromoteEndpointsTier_def
      BulkAssignEndpointsTier_def UpdateEndpointRolloutTier_def Let_def split: option.splits sum.splits prod.splits if_splits)

lemmas write_handlers =
  h_DeleteEndpoint_def h_UpdateRolloutSettings_def h_UpdateSnapshotRetentionPolicy_def h_CreateScanJob_def h_CancelScanJob_def
  h_RegisterGateway_def h_GatewayHeartbeat_def h_CreateVaultCredential_def h_RotateVaultCredential_def h_DisablePolicyEnforcement_def
  h_AcknowledgeDriftEvent_def h_CreateAlertRule_def h_SendTestAlert_def

text \<open>The two calls that may fail after they have changed something.\<close>

fun fails_halfway :: "call \<Rightarrow> bool" where
  "fails_halfway (C_ExecuteSnapshotRetention _) = True"
| "fails_halfway (C_TestVaultCredential _) = True"
| "fails_halfway _ = False"

lemma failed_dispatch:
  assumes "W_Status w = None" "\<not> fails_halfway c" "failed (snd (dispatch p env s u c r w))"
  shows "keeps_but_vault s (fst (dispatch p env s u c r w))"
proof (cases "reads_only c")
  case True
  then show ?thesis by (simp add: dispatch_reads)
next
  case False
  show ?thesis
    using assms False
    by (cases c)
      (auto simp: failed_write_handlers write_handlers method_of_def Let_def split: option.splits sum.splits prod.splits if_splits)
qed

section \<open>Tenants of a response\<close>

text \<open>The tenants of the records a body shows, for the records that carry their tenant.\<close>

fun body_tenants :: "api_body \<Rightarrow> string set" where
  "body_tenants (SnapshotPageBody pg) = HSE_TenantID ` set (PR_Items pg)"
| "body_tenants (SnapshotBody snap) = {HSE_TenantID snap}"
| "body_tenants (FindingsBody found) = VF_TenantID ` set (FL_Items found)"
| "body_tenants (FindingBody f) = {VF_TenantID f}"
| "body_tenants (ComplianceSummaryBody cs) = {CS_TenantID cs}"
| "body_tenants (DriftPageBody d) = DE_TenantID ` set (DL_Items d)"
| "body_tenants (AlertRulesBody rules) = AL_TenantID ` set rules"
| "body_tenants (AlertRuleBody rule) = {AL_TenantID rule}"
| "body_tenants (DeliveriesBody ls) = WL_TenantID ` set ls"
| "body_tenants (ExecutiveBody x) = {XR_TenantID x}"
| "body_tenants (AuditReportBody x) = {CAR_TenantID x}"
| "body_tenants (PostureBody x) = {VPR_TenantID x}"
| "body_tenants _ = {}"

lemma reply_Data [simp]: "W_Body w = [] \<Longrightarrow> Data b \<in> set (W_Body (reply b' w)) \<longleftrightarrow> b = b'"
  by (simp add: reply_def encode_body_def write_header_def set_header_def Let_def split: option.splits)

lemma reply_created_Data [simp]: "W_Body w = [] \<Longrightarrow> Data b \<in> set (W_Body (reply_created b' w)) \<longleftrightarrow> b = b'"
  by (simp add: reply_created_def encode_body_def write_header_def set_header_def Let_def split: option.splits)

lemma fail_with_Data [simp]: "Data b \<in> set (W_Body (fail_with env r st ec d w)) \<longleftrightarrow> Data b \<in> set (W_Body w)"
  by (simp add: fail_with_def)

lemma GetTenantID_not_empty [simp]: "GetTenantID ctx \<noteq> []"
  by (simp add: GetTenantID_def split: option.splits)

lemma snapshot_page_tenant:
  "tenantID \<noteq> [] \<Longrightarrow> snap \<in> set (PR_Items (ListSnapshotsKeyset ord fleet tenantID hostID q)) \<Longrightarrow> HSE_TenantID snap = tenantID"
  unfolding ListSnapshotsKeyset_def using subsetD [OF set_keyset_page] by (fastforce simp: snapshot_match_def)

lemma set_page: "x \<in> set (page limit off xs) \<Longrightarrow> x \<in> set xs"
  by (auto simp: page_def Let_def dest: in_set_takeD in_set_dropD split: if_splits)

lemma findings_page_tenant:
  "QueryFindings ord v tenantID opts = Inr found \<Longrightarrow> f \<in> set (FL_Items found) \<Longrightarrow> VF_TenantID f = tenantID"
  by (auto simp: QueryFindings_def Let_def dest!: set_page split: if_splits)

lemma drift_page_tenant: "ev \<in> set (DL_Items (QueryDriftEvents ord d tenantID opts)) \<Longrightarrow> DE_TenantID ev = tenantID"
  by (auto simp: QueryDriftEvents_def Let_def dest!: set_page)

lemma deliveries_tenant: "lg \<in> set (ListDeliveryLogs ord d tenantID limit) \<Longrightarrow> WL_TenantID lg = tenantID"
  by (auto simp: ListDeliveryLogs_def Let_def dest!: in_set_takeD split: if_splits)

lemma report_tenants [simp]:
  "XR_TenantID (GenerateExecutiveSummary a b c d e f g t) = t" "VPR_TenantID (GenerateVulnerabilityPosture a' e f g t) = t"
  "GenerateComplianceAudit a b e f f' g t q = Some x \<Longrightarrow> CAR_TenantID x = t" "CS_TenantID (GetTenantSummary a f m t q) = t"
  by (auto simp: GenerateExecutiveSummary_def GenerateVulnerabilityPosture_def GenerateComplianceAudit_def GetTenantSummary_def Let_def
      split: option.splits)

lemma dispatch_tenants:
  assumes "W_Body w = []" "Data b \<in> set (W_Body (snd (dispatch p env s u c r w)))" "t \<in> body_tenants b"
  shows "t = GetTenantID (R_Ctx r)"
  using assms
  by (cases c)
    (auto simp: read_handlers write_handlers h_PromoteEndpointsTier_def h_BulkAssignEndpointsTier_def h_UpdateEndpointRolloutTier_def
      h_ExecuteSnapshotRetention_def h_TestVaultCredential_def GetFindingByID_def GetSnapshotByID_def ListAlertRules_def Let_def
      dest: snapshot_page_tenant [OF GetTenantID_not_empty] findings_page_tenant drift_page_tenant deliveries_tenant
      split: option.splits sum.splits prod.splits if_splits)

section \<open>Theorems\<close>

definition bearer :: "(string \<Rightarrow> token_error + UserClaims) \<Rightarrow> req \<Rightarrow> UserClaims \<Rightarrow> bool" where
  "bearer verify r claims \<longleftrightarrow> has_prefix (to_lower (header_get r ''Authorization'')) ''bearer ''
     \<and> verify (trim_space (drop 7 (header_get r ''Authorization''))) = Inr claims"

lemma has_prefix_bearer: "has_prefix (to_lower h) ''bearer '' \<Longrightarrow> h \<noteq> []"
  by (auto simp: has_prefix_def to_lower_def)

lemma caller_bearer:
  assumes "bearer verify r claims"
  shows "caller verify now r = (UC_TenantID claims, claims)"
proof -
  have b: "has_prefix (to_lower (header_get r ''Authorization'')) ''bearer ''"
    and v: "verify (trim_space (drop 7 (header_get r ''Authorization''))) = Inr claims"
    using assms unfolding bearer_def by (rule conjunct1, rule conjunct2)
  have n: "(header_get r ''Authorization'' \<noteq> []) = True" using has_prefix_bearer [OF b] by simp
  show ?thesis unfolding caller_def OptionalAuth_def Let_def
    by (simp only: n b v simp_thms if_True sum.case with_auth_sel AuthCtx.select_convs option.sel)
qed

lemma caller_none:
  assumes "header_get r ''Authorization'' = []" "header_get r ''X-Tenant-Id'' = t" "t \<noteq> []"
  shows "caller verify now r = (t, fallback_claims now t)"
  unfolding caller_def OptionalAuth_def Let_def
  by (simp only: assms simp_thms if_False sum.case with_auth_sel AuthCtx.select_convs option.sel)

lemma fallback_stepped_up:
  assumes "0 < unix now" "now' - now \<le> 899 * Second"
  shows "IsStepUpValid now' (last_auth (fallback_claims now t))"
proof -
  have "now div 1000000000 * 1000000000 > now - 1000000000"
    using div_mult_mod_eq [of now 1000000000] pos_mod_bound [of 1000000000 now] by linarith
  moreover have "0 < now div 1000000000" using assms(1) by (simp add: unix_def)
  ultimately show ?thesis
    using assms(2) by (simp add: IsStepUpValid_iff last_auth_def fallback_claims_def unix_def Second_def zero_time_def)
qed

text \<open>A request with a token, one without, and the claims of the token.\<close>

definition sample_claims :: "Role \<Rightarrow> UserClaims" where
  "sample_claims role =
     \<lparr>UC_TenantID = ''acme'', UC_UserID = ''u1'', UC_Email = ''u1@acme.test'', UC_Role = role, UC_StepUpAuthAt = 0, UC_Issuer = [],
      UC_Subject = [], UC_Audience = [], UC_IssuedAt = 0, UC_ExpiresAt = 0\<rparr>"

definition sample_request :: "string \<Rightarrow> (string \<rightharpoonup> string) \<Rightarrow> req" where
  "sample_request m hs =
     \<lparr>R_Method = m, R_Path = [], R_RemoteAddr = ''10.0.0.1:80'', R_Header = hs, R_Cookie = Map.empty, R_CorrelationID = None,
      R_Ctx = \<lparr>Ctx_Tenant = None, Ctx_Claims = None\<rparr>\<rparr>"

lemma sample_request_sel [simp]:
  "R_Method (sample_request m hs) = m" "R_Cookie (sample_request m hs) = Map.empty" "R_Header (sample_request m hs) = hs"
  by (simp_all add: sample_request_def)

definition with_token :: "string \<Rightarrow> req" where "with_token m = sample_request m [''Authorization'' \<mapsto> ''Bearer t'']"

lemma sample_bearer: "bearer (\<lambda>_. Inr claims) (with_token m) claims"
proof -
  have "header_get (with_token m) ''Authorization'' = ''Bearer t''" by (simp add: header_get_def with_token_def)
  moreover have "has_prefix (to_lower ''Bearer t'') ''bearer ''" by code_simp
  ultimately show ?thesis unfolding bearer_def by simp
qed











section \<open>Correlation\<close>

lemma reply_Problem [simp]:
  "Problem q \<in> set (W_Body (reply b w)) \<longleftrightarrow> Problem q \<in> set (W_Body w)"
  "Problem q \<in> set (W_Body (reply_created b w)) \<longleftrightarrow> Problem q \<in> set (W_Body w)"
  by (simp_all add: reply_def reply_created_def encode_body_def write_header_def set_header_def Let_def split: option.splits)

lemma fail_with_Problem:
  "Problem q \<in> set (W_Body (fail_with env r st ec d w)) \<Longrightarrow> W_Body w = [] \<Longrightarrow> PD_CorrelationID q = GetCorrelationID r"
  by (auto simp: fail_with_def WriteProblemDetails_def encode_body_def write_header_def set_header_def Let_def split: option.splits)

lemma dispatch_problems:
  assumes "W_Body w = []" "Problem q \<in> set (W_Body (snd (dispatch p env s u c r w)))"
  shows "PD_CorrelationID q = GetCorrelationID r"
  using assms
  by (cases c)
    (auto simp: read_handlers write_handlers h_PromoteEndpointsTier_def h_BulkAssignEndpointsTier_def h_UpdateEndpointRolloutTier_def
      h_ExecuteSnapshotRetention_def h_TestVaultCredential_def Let_def
      dest: fail_with_Problem split: option.splits sum.splits prod.splits if_splits)

lemma serve_problems:
  assumes "W_Body w = []" "Problem q \<in> set (W_Body (snd (serve verify clk p env (rl, s) u c r w)))"
  shows "PD_CorrelationID q = GetCorrelationID r"
proof (cases "guard_of c = Public")
  case True
  then have "Problem q \<in> set (W_Body (snd (dispatch p env s u c r w)))" using assms(2) by (auto simp: serve_def Let_def split: prod.splits)
  then show ?thesis by (rule dispatch_problems [OF assms(1)])
next
  case False
  let ?n = "\<lambda>r w. snd (dispatch p env s u c r w)"
  have "Problem q \<in> set (W_Body (snd (protected_chain verify clk (guard_of c) ?n rl r w)))"
    using False assms(2) by (auto simp: serve_def Let_def split: prod.splits)
  moreover obtain w' where w': "W_Body w' = []" "if passes verify clk (guard_of c) rl r
      then snd (protected_chain verify clk (guard_of c) ?n rl r w) = ?n (as_caller verify (clk 0) r) w'
      else is_problem (GetCorrelationID r) (snd (protected_chain verify clk (guard_of c) ?n rl r w))"
    using chain_cases [OF assms(1), of verify clk "guard_of c" rl r ?n] by blast
  ultimately show ?thesis
    using dispatch_problems [OF w'(1), of q p env s u c "as_caller verify (clk 0) r"] by (auto simp: is_problem_def split: if_splits)
qed

lemma correlation_of_not_empty: "correlation_of uid r \<noteq> []"
  by (simp add: correlation_of_def Let_def)

lemma serve_refused:
  assumes "W_Body w = []" "guard_of c \<noteq> Public" "\<not> passes verify clk (guard_of c) rl r"
  shows "\<exists>q. W_Body (snd (serve verify clk p env (rl, s) u c r w)) = [Problem q]"
proof -
  have "\<exists>q. W_Body (snd (protected_chain verify clk (guard_of c) next rl r w)) = [Problem q]" for "next" :: "api_body auth_handler"
    using chain_cases [OF assms(1), of verify clk "guard_of c" rl r "next"] assms(3) by (auto simp: is_problem_def)
  then show ?thesis using assms(2) by (simp add: serve_def Let_def case_prod_unfold)
qed

lemma handle_response:
  assumes "W_Body w = []" "handle_request svc uid lfmt lclk t0 t1 reg verify clk p env (rl, s) u c r w = ((entry, reg', st'), w')"
  shows "\<exists>w0. W_Body w0 = [] \<and> w' = snd (serve verify clk p env (rl, s) u c (r\<lparr>R_CorrelationID := Some (correlation_of uid r)\<rparr>) w0)"
  using assms
  by (auto simp: handle_request_def StructuredLoggingMiddleware_def SecurityHeadersMiddleware_def LatencyMiddleware_def Let_def
      split: prod.splits) (metis set_header_body snd_conv)

text \<open>C9. Whatever endpoint or guard refuses a request, the problem it answers with carries the identifier under which the request is
  logged.\<close>

theorem problems_are_correlated:
  assumes "W_Body w = []"
    and "handle_request svc uid lfmt lclk t0 t1 reg verify clk p env (rl, s) u c r w = ((entry, reg', st'), w')"
    and "Problem q \<in> set (W_Body w')"
  shows "PD_CorrelationID q = LE_CorrelationID entry"
proof -
  let ?r = "r\<lparr>R_CorrelationID := Some (correlation_of uid r)\<rparr>"
  have e: "LE_CorrelationID entry = correlation_of uid r"
    using assms(2) by (auto simp: handle_request_def StructuredLoggingMiddleware_def Let_def split: prod.splits)
  obtain w0 where "W_Body w0 = []" "w' = snd (serve verify clk p env (rl, s) u c ?r w0)"
    using handle_response [OF assms(1,2)] by blast
  then have "PD_CorrelationID q = GetCorrelationID ?r" using serve_problems assms(3) by blast
  then show ?thesis using correlation_of_not_empty [of uid r] by (simp add: e GetCorrelationID_def)
qed

text \<open>Witness of C9. A viewer asks for the audit log.\<close>

theorem problems_are_correlated_witness:
  "\<forall>svc uid lfmt lclk t0 t1 reg p env s u.
     (case handle_request svc uid lfmt lclk t0 t1 reg (\<lambda>_. Inr (sample_claims RoleViewer)) (\<lambda>_. 0) p env (NewRateLimiter 60 20, s) u
             C_ListAuditLogs (with_token ''GET'') new_response of
        ((entry, _), w') \<Rightarrow> \<exists>q. W_Body w' = [Problem q] \<and> PD_CorrelationID q = LE_CorrelationID entry)"
proof (intro allI)
  fix svc uid lfmt lclk t0 t1 reg p env s u
  let ?v = "\<lambda>_ :: string. Inr (sample_claims RoleViewer)" and ?r = "with_token ''GET''"
  let ?r' = "?r\<lparr>R_CorrelationID := Some (correlation_of uid ?r)\<rparr>"
  obtain entry reg' st' w' where h: "handle_request svc uid lfmt lclk t0 t1 reg ?v (\<lambda>_. 0) p env (NewRateLimiter 60 20, s) u C_ListAuditLogs ?r new_response
      = ((entry, reg', st'), w')" by (metis surj_pair)
  obtain w0 where w0: "W_Body w0 = []" "w' = snd (serve ?v (\<lambda>_. 0) p env (NewRateLimiter 60 20, s) u C_ListAuditLogs ?r' w0)"
    using handle_response [OF new_response_body h] by blast
  have "\<not> HasPermission RoleViewer PermissionReadAuditLogs"
    by (simp add: HasPermission_def rolePermissions_def grants_def permission_defs role_defs)
  moreover have "bearer ?v ?r' (sample_claims RoleViewer)" using sample_bearer by (simp add: bearer_def header_get_def)
  ultimately have "\<not> passes ?v (\<lambda>_. 0) (guard_of C_ListAuditLogs) (NewRateLimiter 60 20) ?r'"
    by (simp add: passes_def caller_bearer guard_of_def) (simp add: sample_claims_def)
  then have "\<exists>q. W_Body w' = [Problem q]" unfolding w0(2) by (rule serve_refused [OF w0(1), rotated]) (simp add: guard_of_def)
  then obtain q where q: "W_Body w' = [Problem q]" by blast
  then have "PD_CorrelationID q = LE_CorrelationID entry"
    by (intro problems_are_correlated [OF new_response_body h]) simp
  then show "case handle_request svc uid lfmt lclk t0 t1 reg ?v (\<lambda>_. 0) p env (NewRateLimiter 60 20, s) u C_ListAuditLogs ?r new_response of
        ((entry, _), w') \<Rightarrow> \<exists>q. W_Body w' = [Problem q] \<and> PD_CorrelationID q = LE_CorrelationID entry"
    using h q by simp
qed

section \<open>What some routes do not do\<close>

text \<open>The routes of SCIM and of the step-up sit behind \<open>OptionalAuth\<close> alone: no permission, limiter or CSRF check.\<close>

definition optional_route :: "(string \<Rightarrow> token_error + UserClaims) \<Rightarrow> time \<Rightarrow> (req \<Rightarrow> 'w \<Rightarrow> 'a) \<Rightarrow> req \<Rightarrow> 'w \<Rightarrow> 'a" where
  "optional_route verify now next = OptionalAuth verify now defaultTenant next"

lemma optional_route_unauthenticated:
  assumes "header_get r ''Authorization'' = []" "header_get r ''X-Tenant-Id'' = t" "t \<noteq> []"
  shows "optional_route verify now next r w = next (with_auth t (fallback_claims now t) r) w"
  unfolding optional_route_def OptionalAuth_caller caller_none [OF assms] fst_conv snd_conv ..

lemma delete_keeps_inventory: "RP_endpoints (AP_fleet (fst (h_DeleteEndpoint env s u r w))) = RP_endpoints (AP_fleet s)"
  by (simp add: h_DeleteEndpoint_def AddAuditLog_def Let_def)

lemma approval_changes_nothing: "fst (h_ApproveGateway env s u r w) = s"
  by (simp add: h_ApproveGateway_def Let_def split: option.splits)

lemma disable_only_logs:
  "\<exists>l. fst (h_DisablePolicyEnforcement env s u j r w) = s\<lparr>AP_fleet := AP_fleet s\<lparr>RP_auditLogs := l\<rparr>\<rparr>"
  by (auto simp: h_DisablePolicyEnforcement_def AddAuditLog_def Let_def intro: exI [of _ "RP_auditLogs (AP_fleet s)"])

text \<open>A client that varies its \<open>Authorization\<close> header starts with a full bucket each time.\<close>

lemma fresh_header_is_admitted:
  assumes "RL_entries rl (''user:'' @ header_get r ''Authorization'') = None" "header_get r ''Authorization'' \<noteq> []"
  shows "rate_ok now rl r"
  using assms by (simp add: rate_ok_def extractClientKey_def Allow_def Let_def)

text \<open>Each cancelled scan has a series of its own.\<close>

lemma cancel_path_not_normalized: "normalizePath ''/api/v1/scans/7f/cancel'' = ''/api/v1/scans/7f/cancel''"
  by code_simp

text \<open>The target check looks at the base address of a block: the loopback block passes, and so does a block around the metadata
  range.\<close>

lemma target_blocks_accepted:
  assumes "ParseCIDR (trim_space a) = Some [127, 0, 0, 0]" "ParseCIDR (trim_space b) = Some [169, 0, 0, 0]"
  shows "ValidateScanTargetSubnet ParseCIDR ParseIP a = None \<and> ValidateScanTargetSubnet ParseCIDR ParseIP b = None"
  using assms by (simp add: ValidateScanTargetSubnet_def to4_def)

end
