(* ===== verification/AuthServer.thy ===== *)
theory AuthServer
  imports Server
begin

text \<open>
  The routes of authentication and SCIM of \<open>cmd/server/main.go\<close> over the handlers of \<open>handlers/auth_handlers.go\<close>, and their
  composition with the protected calls: what a login opens.
\<close>

section \<open>The handler and its wiring\<close>

record AuthHandler =
  AH_authRepo :: AuthRepo
  AH_tokenService :: TokenService
  AH_oidcService :: OIDCConfig

definition defaultTokenService :: TokenService where
  "defaultTokenService = NewTokenService ''enterprise-endpointguard-master-jwt-secret-key-32b!'' ''endpointguard-api''"

definition defaultOIDCService :: OIDCConfig where
  "defaultOIDCService = NewOIDCService
     \<lparr>OIDC_IssuerURL = ''https://login.microsoftonline.com/common/v2.0'', OIDC_ClientID = ''endpointguard-client-id'',
      OIDC_ClientSecret = [], OIDC_RedirectURI = ''https://endpointguard.local/api/v1/auth/oidc/callback'',
      OIDC_GroupRoleMap = None\<rparr>"

definition NewAuthHandler :: "(string \<Rightarrow> string) \<Rightarrow> time \<Rightarrow> AuthRepo option \<Rightarrow> TokenService option \<Rightarrow> OIDCConfig option \<Rightarrow> AuthHandler" where
  "NewAuthHandler sha now authRepo tokenService oidcService =
     \<lparr>AH_authRepo = (case authRepo of None \<Rightarrow> NewMemoryAuthRepository sha now | Some a \<Rightarrow> a),
      AH_tokenService = (case tokenService of None \<Rightarrow> defaultTokenService | Some t \<Rightarrow> t),
      AH_oidcService = (case oidcService of None \<Rightarrow> defaultOIDCService | Some c \<Rightarrow> c)\<rparr>"

text \<open>What a call meets outside: the order of the user map, the libraries, random draws, identifiers and clock readings.\<close>

record 'u auth_env =
  AE_order :: "string list"
  AE_sha :: "string \<Rightarrow> string"
  AE_hmac :: hmac_fun
  AE_marshal :: "UserClaims \<Rightarrow> string"
  AE_decode :: "string \<Rightarrow> UserClaims option"
  AE_base32 :: "string \<Rightarrow> string option"
  AE_hmac_sha1 :: hmac_fun
  AE_id_token :: "string \<Rightarrow> OIDCClaims option"
  AE_id_error :: string
  AE_url :: "'u url_lib"
  AE_sha256 :: "string \<Rightarrow> string"
  AE_state :: string
  AE_verifier :: string
  AE_draws :: draws
  AE_uid :: string
  AE_clk :: "nat \<Rightarrow> time"
  AE_now :: time

section \<open>Routes\<close>

datatype auth_call =
    A_Login "LoginRequest option" | A_VerifyMFA "MFARequest option" | A_RefreshSession string
  | A_OIDCLogin | A_OIDCCallback string | A_StepUpAuth StepUpRequest
  | A_SCIMServiceProviderConfig | A_SCIMListUsers | A_SCIMCreateUser "SCIMUser option" | A_SCIMGetUser string
  | A_SCIMDeleteUser string | A_SCIMPatchUser string

text \<open>Method, path below \<open>/api/v1\<close>, and whether \<open>OptionalAuth\<close> stands in front.\<close>

fun auth_route_of :: "auth_call \<Rightarrow> string \<times> string \<times> bool" where
  "auth_route_of (A_Login _) = (''POST'', ''/auth/login'', False)"
| "auth_route_of (A_VerifyMFA _) = (''POST'', ''/auth/mfa/verify'', False)"
| "auth_route_of (A_RefreshSession _) = (''POST'', ''/auth/refresh'', False)"
| "auth_route_of A_OIDCLogin = (''GET'', ''/auth/oidc/login'', False)"
| "auth_route_of (A_OIDCCallback _) = (''POST'', ''/auth/oidc/callback'', False)"
| "auth_route_of (A_StepUpAuth _) = (''POST'', ''/auth/step-up'', True)"
| "auth_route_of A_SCIMServiceProviderConfig = (''GET'', ''/scim/v2/ServiceProviderConfig'', True)"
| "auth_route_of A_SCIMListUsers = (''GET'', ''/scim/v2/Users'', True)"
| "auth_route_of (A_SCIMCreateUser _) = (''POST'', ''/scim/v2/Users'', True)"
| "auth_route_of (A_SCIMGetUser _) = (''GET'', ''/scim/v2/Users/{id}'', True)"
| "auth_route_of (A_SCIMDeleteUser _) = (''DELETE'', ''/scim/v2/Users/{id}'', True)"
| "auth_route_of (A_SCIMPatchUser _) = (''PATCH'', ''/scim/v2/Users/{id}'', True)"

definition token_gen_of :: "('u, 'z) auth_env_scheme \<Rightarrow> AuthHandler \<Rightarrow> token_gen" where
  "token_gen_of env h = (\<lambda>now claims ttl. GenerateToken (AE_hmac env) (AE_marshal env) (AH_tokenService h) now claims ttl)"

definition totp_of :: "('u, 'z) auth_env_scheme \<Rightarrow> string \<Rightarrow> string \<Rightarrow> time \<Rightarrow> int \<Rightarrow> bool" where
  "totp_of env = ValidateTOTPCode (AE_base32 env) (AE_hmac_sha1 env)"

definition on_repo :: "AuthHandler \<Rightarrow> AuthRepo \<times> auth_resp \<Rightarrow> AuthHandler \<times> auth_resp" where
  "on_repo h res = (h\<lparr>AH_authRepo := fst res\<rparr>, snd res)"

fun auth_dispatch :: "('u, 'z) auth_env_scheme \<Rightarrow> AuthHandler \<Rightarrow> auth_call \<Rightarrow> auth_req \<Rightarrow> auth_resp \<Rightarrow> AuthHandler \<times> auth_resp" where
  "auth_dispatch env h (A_Login b) r w =
     on_repo h (Login (AE_order env) (AE_sha env) (token_gen_of env h) (AE_draws env) (AE_uid env) (AE_clk env 0) (AE_clk env 1)
       (AE_now env) (AH_authRepo h) b r w)"
| "auth_dispatch env h (A_VerifyMFA b) r w =
     on_repo h (VerifyMFA (totp_of env) (token_gen_of env h) (AE_draws env) (AE_clk env 0) (AE_clk env 1) (AE_clk env 2) (AE_clk env 3)
       (AE_now env) (AH_authRepo h) b r w)"
| "auth_dispatch env h (A_RefreshSession b) r w =
     on_repo h (RefreshSession (token_gen_of env h) (AE_draws env) (AE_clk env 0) (AE_clk env 1) (AE_clk env 2) (AE_now env)
       (AH_authRepo h) b r w)"
| "auth_dispatch env h A_OIDCLogin r w =
     (h, OIDCLogin (BuildAuthURL (AE_url env) (AE_sha256 env) (AH_oidcService h) (AE_state env) (AE_verifier env)) (AE_now env) r w)"
| "auth_dispatch env h (A_OIDCCallback b) r w =
     on_repo h (OIDCCallback (AH_oidcService h) (AE_id_token env) (AE_id_error env) (token_gen_of env h) (AE_draws env)
       (AE_clk env 0) (AE_clk env 1) (AE_clk env 2) (AE_clk env 3) (AE_now env) (AH_authRepo h) b r w)"
| "auth_dispatch env h (A_StepUpAuth q) r w =
     (h, StepUpAuth (AE_sha env) (totp_of env) (token_gen_of env h) (AE_clk env 0) (AE_clk env 1) (AE_clk env 2) (AE_clk env 3)
       (AE_now env) (AH_authRepo h) q r w)"
| "auth_dispatch env h A_SCIMServiceProviderConfig r w = (h, SCIMServiceProviderConfig r w)"
| "auth_dispatch env h A_SCIMListUsers r w = (h, SCIMListUsers (AE_order env) (AH_authRepo h) r w)"
| "auth_dispatch env h (A_SCIMCreateUser b) r w =
     on_repo h (SCIMCreateUser (AE_uid env) (AE_clk env 0) (AE_clk env 1) (AE_now env) (AH_authRepo h) b r w)"
| "auth_dispatch env h (A_SCIMGetUser i) r w = (h, SCIMGetUser (AE_now env) (AH_authRepo h) i r w)"
| "auth_dispatch env h (A_SCIMDeleteUser i) r w =
     on_repo h (SCIMDeprovisionUser (AE_clk env 0) (AE_now env) (AH_authRepo h) i r w)"
| "auth_dispatch env h (A_SCIMPatchUser i) r w =
     on_repo h (SCIMDeprovisionUser (AE_clk env 0) (AE_now env) (AH_authRepo h) i r w)"

text \<open>The token service of the handler is also the one that the middlewares verify with.\<close>

definition verifier :: "('u, 'z) auth_env_scheme \<Rightarrow> AuthHandler \<Rightarrow> time \<Rightarrow> string \<Rightarrow> token_error + UserClaims" where
  "verifier env h now = VerifyToken (AE_hmac env) (AE_decode env) (AH_tokenService h) now"

definition serve_auth :: "('u, 'z) auth_env_scheme \<Rightarrow> time \<Rightarrow> AuthHandler \<Rightarrow> auth_call \<Rightarrow> auth_req \<Rightarrow> auth_resp
    \<Rightarrow> AuthHandler \<times> auth_resp" where
  "serve_auth env now h c =
     (if snd (snd (auth_route_of c)) then OptionalAuth (verifier env h now) now defaultTenant (auth_dispatch env h c)
      else auth_dispatch env h c)"

section \<open>Issued tokens\<close>

lemma trim_none: "(\<And>c. c \<in> set s \<Longrightarrow> \<not> p c) \<Longrightarrow> trim p s = s"
proof -
  assume h: "\<And>c. c \<in> set s \<Longrightarrow> \<not> p c"
  have "dropWhile p xs = xs" if "set xs \<subseteq> set s" for xs using that h by (cases xs) auto
  then show ?thesis by (simp add: trim_def)
qed

lemma alphabet_no_space: "b64val c \<noteq> None \<Longrightarrow> \<not> is_space c"
  by (auto simp: b64val_def is_space_def Let_def split: if_splits)

lemma trim_token [simp]: "trim_space (GenerateToken hmac marshal s now claims ttl) = GenerateToken hmac marshal s now claims ttl"
proof -
  have "\<not> is_space c" if "c \<in> set (b64encode x)" for c x using b64encode_val [OF that] by (rule alphabet_no_space)
  moreover have "\<not> is_space CHR ''.''" by code_simp
  ultimately show ?thesis unfolding trim_space_def by (intro trim_none) (auto simp: GenerateToken_def Let_def)
qed

lemma bearer_token:
  assumes "header_get r ''Authorization'' = ''Bearer '' @ GenerateToken hmac marshal s t claims ttl"
    and "decode (marshal (stamp s t ttl claims)) = Some (stamp s t ttl claims)" "unix now \<le> unix (t + ttl)"
  shows "bearer (VerifyToken hmac decode s now) r (stamp s t ttl claims)"
proof -
  have b: "to_lower ''Bearer '' = ''bearer ''" by code_simp
  have "to_lower (a @ x) = to_lower a @ to_lower x" for a x by (simp add: to_lower_def)
  then have p: "has_prefix (to_lower (''Bearer '' @ x)) ''bearer ''" for x by (simp only: b has_prefix_append)
  have d: "drop 7 (''Bearer '' @ x) = x" for x by simp
  show ?thesis
    unfolding bearer_def assms(1) d trim_token by (intro conjI p VerifyToken_roundtrip assms(2,3))
qed

lemma issue_and_send_pair:
  assumes "issue_and_send gen d t1 t2 repo u r w = (repo', w')" "W_Body w = []"
  shows "W_Body w' = [Data (PairBody \<lparr>TP_AccessToken = gen t2 (access_claims u) AccessTokenTTL,
      TP_RefreshToken = GenerateRefreshToken (D_refresh d), TP_CSRFToken = GenerateCSRFToken (D_csrf d), TP_TokenType = ''Bearer'',
      TP_ExpiresIn = quot AccessTokenTTL Second, TP_User = u\<rparr>)]"
  using assms
  by (auto simp: issue_and_send_def IssueTokenPair_def Let_def send_json_def setSessionCookies_def add_cookie_def encode_body_def
      write_header_def new_session_def split: option.splits)

text \<open>A login that answers with a token pair.\<close>

lemma problem_no_pair [simp]: "W_Body w = [] \<Longrightarrow> W_Body (WriteProblemDetails now w r st ec d ps) \<noteq> [Data b]"
  by (auto simp: WriteProblemDetails_def Let_def encode_body_def write_header_def set_header_def split: option.splits)

lemma Login_pair:
  assumes "Login ord sha gen d ch t1 t2 now repo (Some q) r w = (repo', w')" "W_Body w = []" "W_Body w' = [Data (PairBody pair)]"
  obtains u where "GetUserByUsername ord repo (LR_TenantID q) (LR_Username q) = Some u" "User_IsActive u"
    "User_PasswordHash u = HashPassword sha (LR_Password q) (User_ID u)" "\<not> User_TOTPEnabled u"
    "issue_and_send gen d t1 t2 repo u r w = (repo', w')"
  using assms
  by (auto simp: Login_def Let_def send_json_def encode_body_def write_header_def split: if_splits option.splits)

section \<open>Theorems\<close>


text \<open>Witness of C2. A viewer logs in with her password; her token does not cancel a scan.\<close>

definition sample_auth_env :: "UserClaims \<Rightarrow> unit auth_env" where
  "sample_auth_env claims =
     \<lparr>AE_order = [''u''], AE_sha = (\<lambda>_. []), AE_hmac = (\<lambda>k m. k @ m), AE_marshal = (\<lambda>_. ''c''), AE_decode = (\<lambda>_. Some claims),
      AE_base32 = (\<lambda>_. None), AE_hmac_sha1 = (\<lambda>k m. k @ m), AE_id_token = (\<lambda>_. None), AE_id_error = [],
      AE_url = \<lparr>UL_parse = (\<lambda>_. None), UL_query = (\<lambda>_. Map.empty), UL_render = (\<lambda>_ _. [])\<rparr>, AE_sha256 = (\<lambda>s. s),
      AE_state = [], AE_verifier = [], AE_draws = demo_draws ''f'', AE_uid = [], AE_clk = (\<lambda>_. Second), AE_now = Second\<rparr>"

definition sample_handler :: AuthHandler where
  "sample_handler = \<lparr>AH_authRepo = SaveUser empty_repo demo_user, AH_tokenService = defaultTokenService, AH_oidcService = defaultOIDCService\<rparr>"

lemma sample_login:
  "\<exists>h' w' pair. serve_auth (sample_auth_env claims) 0 sample_handler
      (A_Login (Some \<lparr>LR_TenantID = ''t'', LR_Username = ''n'', LR_Password = ''p''\<rparr>)) r0 new_response = (h', w')
    \<and> W_Body w' = [Data (PairBody pair)] \<and> TP_User pair = demo_user"
proof -
  let ?env = "sample_auth_env claims"
  let ?repo = "SaveUser empty_repo demo_user"
  have g: "GetUserByUsername [''u''] ?repo ''t'' ''n'' = Some demo_user"
    by (simp add: GetUserByUsername_def SaveUser_def empty_repo_def range_vals_def demo_user_def)
  have d: "User_IsActive demo_user" "User_PasswordHash demo_user = []" "\<not> User_TOTPEnabled demo_user" by (simp_all add: demo_user_def)
  obtain repo' w' where i: "issue_and_send (token_gen_of ?env sample_handler) (demo_draws ''f'') Second Second ?repo demo_user r0
      new_response = (repo', w')" by fastforce
  have "Login [''u''] (\<lambda>_. []) (token_gen_of ?env sample_handler) (demo_draws ''f'') [] Second Second Second ?repo
      (Some \<lparr>LR_TenantID = ''t'', LR_Username = ''n'', LR_Password = ''p''\<rparr>) r0 new_response = (repo', w')"
    using i g d by (simp add: Login_def HashPassword_def)
  then have "serve_auth ?env 0 sample_handler (A_Login (Some \<lparr>LR_TenantID = ''t'', LR_Username = ''n'', LR_Password = ''p''\<rparr>)) r0
      new_response = (sample_handler\<lparr>AH_authRepo := repo'\<rparr>, w')"
    by (simp add: serve_auth_def on_repo_def sample_auth_env_def sample_handler_def)
  moreover note issue_and_send_pair [OF i new_response_body]
  ultimately show ?thesis by auto
qed


text \<open>Patching a SCIM user deactivates it, whatever the patch says.\<close>

lemma patch_deactivates: "auth_dispatch env h (A_SCIMPatchUser i) = auth_dispatch env h (A_SCIMDeleteUser i)"
  by (intro ext) simp

text \<open>The callback of the identity provider checks no signature: who names the group of super-administrators is one.\<close>

lemma forged_identity_is_super_admin:
  assumes "serve_auth env t0 h (A_OIDCCallback tok) r0 new_response = (h', w')" "tok \<noteq> []" "AE_id_token env tok = Some ids"
    and "group_role (AH_oidcService h) g = Some RoleSuperAdmin" "g \<in> set (Claims_Groups ids)"
  shows "\<exists>pair. W_Body w' = [Data (PairBody pair)] \<and> User_Role (TP_User pair) = RoleSuperAdmin"
proof -
  let ?gs = "Claims_Groups ids @ Claims_Roles ids"
  obtain u where u: "ProcessMockIDToken (AH_oidcService h) (AE_clk env 0) (AE_clk env 1) (Some ids) = Some u"
    "User_Role u = MapGroupsToRole (AH_oidcService h) ?gs" by (simp add: ProcessMockIDToken_def Let_def)
  have m: "RoleSuperAdmin \<in> mapped_roles (AH_oidcService h) ?gs"
    using assms(4,5) by (auto simp: mapped_roles_def intro!: bexI [of _ g])
  have "rolePrecedence RoleSuperAdmin \<le> rolePrecedence (User_Role u)"
    using map_groups_upper m unfolding u(2) MapGroupsToRole_def by blast
  then have "User_Role u = RoleSuperAdmin"
    by (auto simp: rolePrecedence_def split: if_splits)
  moreover obtain repo' where "issue_and_send (token_gen_of env h) (AE_draws env) (AE_clk env 2) (AE_clk env 3) (SaveUser (AH_authRepo h) u)
      u r0 new_response = (repo', w')"
    using assms(1-3) u(1) by (auto simp: serve_auth_def on_repo_def OIDCCallback_def Let_def prod_eq_iff)
  ultimately show ?thesis using issue_and_send_pair new_response_body by fastforce
qed

end
