(* ===== verification/Openapi.thy ===== *)
theory Openapi
  imports Server
begin

text \<open>
  The OpenAPI document the server publishes about itself (\<open>openapi/spec.go\<close>), as a JSON value, and its agreement with the
  routes it serves.
\<close>

section \<open>The document\<close>

definition of_type :: "string \<Rightarrow> json" where "of_type t = JObj [(''type'', JStr t)]"

definition described :: "string \<Rightarrow> json" where "described t = JObj [(''description'', JStr t)]"

definition spec_info :: json where
  "spec_info =
     JObj [(''title'', JStr ''EndpointGuard ZeroAgent Scan REST API''), (''version'', JStr ''1.0.0''),
      (''description'', JStr ''Enterprise agentless remote security auditing, hardware telemetry, vulnerability scanning (NVD/CISA KEV), CIS compliance verification, and configuration drift detection API.''),
      (''contact'', JObj [(''name'', JStr ''EndpointGuard SecOps Team''), (''email'', JStr ''security@endpointguard.local'')]),
      (''license'', JObj [(''name'', JStr ''Proprietary'')])]"

definition spec_servers :: json where
  "spec_servers =
     JArr [JObj [(''url'', JStr ''/api/v1''), (''description'', JStr ''Primary API v1 gateway'')]]"

definition spec_components :: json where
  "spec_components =
     JObj [(''securitySchemes'', JObj [(''BearerAuth'', JObj [(''type'', JStr ''http''), (''scheme'', JStr ''bearer''),
      (''bearerFormat'', JStr ''JWT''), (''description'', JStr ''JWT containing tenant_id, user_id, and role claims'')]), (''mTLS'',
      JObj [(''type'', JStr ''mutualTLS''), (''description'', JStr ''Mutual TLS for Collector Gateways'')])]), (''schemas'',
      JObj [(''ProblemDetails'', JObj [(''type'', JStr ''object''), (''properties'', JObj [(''type'', of_type ''string''),
      (''title'', of_type ''string''), (''status'', of_type ''integer''), (''detail'', of_type ''string''),
      (''instance'', of_type ''string''), (''error_code'', of_type ''string''), (''correlation_id'', of_type ''string''), (''timestamp'',
      JObj [(''type'', JStr ''string''), (''format'', JStr ''date-time'')])]),
      (''required'', JArr [JStr ''type'', JStr ''title'', JStr ''status'', JStr ''detail'', JStr ''timestamp''])]), (''Endpoint'',
      JObj [(''type'', JStr ''object''), (''properties'', JObj [(''id'', JObj [(''type'', JStr ''string''),
      (''format'', JStr ''uuid'')]), (''hostname'', of_type ''string''), (''ip_address'', of_type ''string''),
      (''mac_address'', of_type ''string''), (''os_name'', of_type ''string''), (''chassis_type'', of_type ''string''),
      (''status'', of_type ''string''), (''compliance_score'', of_type ''number'')])]), (''ScanJob'', JObj [(''type'', JStr ''object''),
      (''properties'', JObj [(''id'', JObj [(''type'', JStr ''string''), (''format'', JStr ''uuid'')]), (''name'', of_type ''string''),
      (''target_cidr'', of_type ''string''), (''protocol'', of_type ''string''), (''status'', of_type ''string'')])]),
      (''VulnerabilityFinding'', JObj [(''type'', JStr ''object''), (''properties'', JObj [(''id'', of_type ''string''),
      (''cve_id'', of_type ''string''), (''title'', of_type ''string''), (''cvss_score'', of_type ''number''),
      (''severity'', of_type ''string''), (''is_kev'', of_type ''boolean'')])]), (''DriftEvent'', JObj [(''type'', JStr ''object''),
      (''properties'', JObj [(''id'', of_type ''string''), (''drift_category'', of_type ''string''),
      (''property_name'', of_type ''string''), (''baseline_value'', of_type ''string''), (''current_value'', of_type ''string''),
      (''severity'', of_type ''string'')])])])]"

definition spec_security :: json where
  "spec_security =
     JArr [JObj [(''BearerAuth'', JArr [])]]"

definition path_health :: json where
  "path_health =
     JObj [(''get'', JObj [(''summary'', JStr ''System Health Check''),
      (''description'', JStr ''Returns operational liveness and system health status''), (''responses'',
      JObj [(''200'', described ''Healthy'')])])]"

definition path_metrics :: json where
  "path_metrics =
     JObj [(''get'', JObj [(''summary'', JStr ''Fleet Telemetry Metrics''),
      (''description'', JStr ''Returns high-level aggregate fleet coverage and health statistics''), (''responses'',
      JObj [(''200'', described ''Fleet metrics'')])])]"

definition path_endpoints :: json where
  "path_endpoints =
     JObj [(''get'', JObj [(''summary'', JStr ''List Endpoints''),
      (''description'', JStr ''Returns inventory of scanned network hosts''), (''parameters'', JArr [JObj [(''name'', JStr ''search''),
      (''in'', JStr ''query''), (''schema'', of_type ''string'')], JObj [(''name'', JStr ''status''), (''in'', JStr ''query''),
      (''schema'', of_type ''string'')]]), (''responses'', JObj [(''200'', described ''List of endpoints'')])])]"

definition path_endpoints_id :: json where
  "path_endpoints_id =
     JObj [(''get'', JObj [(''summary'', JStr ''Get Endpoint Detail''),
      (''description'', JStr ''Returns full host details including hardware and security baseline''),
      (''parameters'', JArr [JObj [(''name'', JStr ''id''), (''in'', JStr ''path''), (''required'', JBool True),
      (''schema'', of_type ''string'')]]), (''responses'', JObj [(''200'', described ''Endpoint details''),
      (''404'', described ''Endpoint not found'')])])]"

definition path_snapshots :: json where
  "path_snapshots =
     JObj [(''get'', JObj [(''summary'', JStr ''List Snapshots (Keyset Paginated)''),
      (''description'', JStr ''Returns high-volume telemetry snapshots with cursor-based pagination''),
      (''parameters'', JArr [JObj [(''name'', JStr ''cursor''), (''in'', JStr ''query''), (''schema'', of_type ''string'')],
      JObj [(''name'', JStr ''limit''), (''in'', JStr ''query''), (''schema'', JObj [(''type'', JStr ''integer''),
      (''default'', JNum 20)])], JObj [(''name'', JStr ''host_id''), (''in'', JStr ''query''), (''schema'', of_type ''string'')]]),
      (''responses'', JObj [(''200'', described ''Paginated snapshots'')])])]"

definition path_scans :: json where
  "path_scans =
     JObj [(''get'', JObj [(''summary'', JStr ''List Scan Jobs''),
      (''description'', JStr ''Returns scheduled and completed agentless network scan jobs''), (''responses'',
      JObj [(''200'', described ''List of scan jobs'')])]), (''post'', JObj [(''summary'', JStr ''Create Scan Job''),
      (''description'', JStr ''Triggers a new agentless subnet or IP scan''), (''responses'',
      JObj [(''201'', described ''Scan job created''), (''400'', described ''Validation error or SSRF blocked target'')])])]"

definition path_scans_id_cancel :: json where
  "path_scans_id_cancel =
     JObj [(''post'', JObj [(''summary'', JStr ''Cancel Scan Job''), (''description'', JStr ''Cancels an in-progress scan job''),
      (''parameters'', JArr [JObj [(''name'', JStr ''id''), (''in'', JStr ''path''), (''required'', JBool True),
      (''schema'', of_type ''string'')]]), (''responses'', JObj [(''200'', described ''Scan job cancelled'')])])]"

definition path_findings :: json where
  "path_findings =
     JObj [(''get'', JObj [(''summary'', JStr ''List Vulnerabilities (KEV First, CVSS Desc)''),
      (''description'', JStr ''Returns open CVE findings with CISA KEV prioritization''),
      (''parameters'', JArr [JObj [(''name'', JStr ''severity''), (''in'', JStr ''query''), (''schema'', of_type ''string'')],
      JObj [(''name'', JStr ''kev_only''), (''in'', JStr ''query''), (''schema'', of_type ''boolean'')]]), (''responses'',
      JObj [(''200'', described ''List of findings'')])])]"

definition path_compliance_frameworks :: json where
  "path_compliance_frameworks =
     JObj [(''get'', JObj [(''summary'', JStr ''List Compliance Frameworks''),
      (''description'', JStr ''Returns supported benchmarks (CIS Windows 11 v2.0, DISA STIG)''), (''responses'',
      JObj [(''200'', described ''List of frameworks'')])])]"

definition path_compliance_tenant_summary :: json where
  "path_compliance_tenant_summary =
     JObj [(''get'', JObj [(''summary'', JStr ''Tenant Compliance Summary''),
      (''description'', JStr ''Returns fleet aggregate compliance percentage and status''), (''responses'',
      JObj [(''200'', described ''Compliance summary'')])])]"

definition path_drift_events :: json where
  "path_drift_events =
     JObj [(''get'', JObj [(''summary'', JStr ''List Drift Events''),
      (''description'', JStr ''Returns configuration drift events classified by severity''),
      (''parameters'', JArr [JObj [(''name'', JStr ''severity''), (''in'', JStr ''query''), (''schema'', of_type ''string'')]]),
      (''responses'', JObj [(''200'', described ''List of drift events'')])])]"

definition path_drift_events_id_acknowledge :: json where
  "path_drift_events_id_acknowledge =
     JObj [(''post'', JObj [(''summary'', JStr ''Acknowledge Drift Event''),
      (''description'', JStr ''Marks a configuration drift as acknowledged by an operator''),
      (''parameters'', JArr [JObj [(''name'', JStr ''id''), (''in'', JStr ''path''), (''required'', JBool True),
      (''schema'', of_type ''string'')]]), (''responses'', JObj [(''200'', described ''Event acknowledged'')])])]"

definition path_vault_credentials :: json where
  "path_vault_credentials =
     JObj [(''get'', JObj [(''summary'', JStr ''List Vault Credential References (Metadata Only)''),
      (''description'', JStr ''Returns opaque credential references without plaintext secret material''), (''responses'',
      JObj [(''200'', described ''List of credential metadata'')])]), (''post'', JObj [(''summary'', JStr ''Create Vault Credential''),
      (''description'', JStr ''Encrypts and stores a credential secret, returning an opaque reference ID''), (''responses'',
      JObj [(''201'', described ''Credential created'')])])]"

definition path_reports :: json where
  "path_reports =
     JObj [(''post'', JObj [(''summary'', JStr ''Generate Executive & Compliance Reports''),
      (''description'', JStr ''Builds on-demand CISO Executive, Compliance Audit, or Vulnerability Posture reports''), (''responses'',
      JObj [(''200'', described ''Report generated'')])])]"

definition path_audit_logs :: json where
  "path_audit_logs =
     JObj [(''get'', JObj [(''summary'', JStr ''List Security Audit Logs (Keyset Paginated)''),
      (''description'', JStr ''Returns immutable security audit entries with cursor-based pagination''),
      (''parameters'', JArr [JObj [(''name'', JStr ''cursor''), (''in'', JStr ''query''), (''schema'', of_type ''string'')],
      JObj [(''name'', JStr ''limit''), (''in'', JStr ''query''), (''schema'', JObj [(''type'', JStr ''integer''),
      (''default'', JNum 50)])]]), (''responses'', JObj [(''200'', described ''Paginated audit logs'')])])]"

definition spec_paths :: json where
  "spec_paths =
     JObj [(''/health'', path_health), (''/metrics'', path_metrics), (''/endpoints'', path_endpoints),
      (''/endpoints/{id}'', path_endpoints_id), (''/snapshots'', path_snapshots), (''/scans'', path_scans),
      (''/scans/{id}/cancel'', path_scans_id_cancel), (''/findings'', path_findings),
      (''/compliance/frameworks'', path_compliance_frameworks), (''/compliance/tenant/summary'', path_compliance_tenant_summary),
      (''/drift/events'', path_drift_events), (''/drift/events/{id}/acknowledge'', path_drift_events_id_acknowledge),
      (''/vault/credentials'', path_vault_credentials), (''/reports'', path_reports), (''/audit-logs'', path_audit_logs)]"

definition GenerateOpenAPISpec :: json where
  "GenerateOpenAPISpec =
     JObj [(''openapi'', JStr ''3.1.0''), (''info'', spec_info), (''servers'', spec_servers), (''components'', spec_components),
      (''security'', spec_security), (''paths'', spec_paths)]"

text \<open>The page, line by line.\<close>

definition swagger_lines :: "string list" where
  "swagger_lines =
     [''<!DOCTYPE html>'',
      ''<html lang=\"en\">'',
      ''<head>'',
      ''  <meta charset=\"UTF-8\">'',
      ''  <title>EndpointGuard API Docs</title>'',
      ''  <link rel=\"stylesheet\" href=\"https://unpkg.com/swagger-ui-dist@5/swagger-ui.css\" />'',
      ''  <style>'',
      ''    body { margin: 0; background: #0f172a; }'',
      ''    .swagger-ui { filter: invert(88%) hue-rotate(180deg); }'',
      ''    .swagger-ui .topbar { display: none; }'',
      ''  </style>'',
      ''</head>'',
      ''<body>'',
      ''  <div id=\"swagger-ui\"></div>'',
      ''  <script src=\"https://unpkg.com/swagger-ui-dist@5/swagger-ui-bundle.js\"></script>'',
      ''  <script>'',
      ''    window.onload = () => {'',
      ''      window.ui = SwaggerUIBundle({'',
      ''        url: '' @ [CHR 0x27] @ ''/api/v1/openapi.json'' @ [CHR 0x27] @ '','',
      ''        dom_id: '' @ [CHR 0x27] @ ''#swagger-ui'' @ [CHR 0x27] @ '','',
      ''        deepLinking: true,'',
      ''        presets: [SwaggerUIBundle.presets.apis],'',
      ''      });'',
      ''    };'',
      ''  </script>'',
      ''</body>'',
      ''</html>'']"

definition ServeOpenAPIJSON :: "('c, json) handler" where
  "ServeOpenAPIJSON r w = encode_body (Data GenerateOpenAPISpec) (set_header ''Content-Type'' ''application/json'' w)"

definition ServeSwaggerUI :: "('c, string) handler" where
  "ServeSwaggerUI r w = encode_body (Data (join [CHR 0x0A] swagger_lines)) (set_header ''Content-Type'' ''text/html; charset=utf-8'' w)"

section \<open>Agreement with the routes\<close>

fun members :: "json \<Rightarrow> (string \<times> json) list" where
  "members (JObj fs) = fs"
| "members _ = []"

definition member_of :: "json \<Rightarrow> string \<Rightarrow> json" where
  "member_of j k = (case map_of (members j) k of None \<Rightarrow> JNull | Some v \<Rightarrow> v)"

text \<open>The pairs of method and path of a document.\<close>

definition documented :: "json \<Rightarrow> (string \<times> string) list" where
  "documented spec = concat (map (\<lambda>(path, item). map (\<lambda>(meth, _). (to_upper meth, path)) (members item)) (members (member_of spec ''paths'')))"

definition path_of :: "call \<Rightarrow> string" where "path_of c = fst (snd (route_of c))"

definition documented_calls :: "call list" where
  "documented_calls =
     [C_HealthCheck, C_GetFleetMetrics, C_ListEndpoints, C_GetEndpointByID, C_ListSnapshots, C_ListScanJobs, C_CreateScanJob None,
      C_CancelScanJob, C_ListVulnerabilityFindings, C_ListComplianceFrameworks, C_GetTenantComplianceSummary, C_ListDriftEvents,
      C_AcknowledgeDriftEvent [], C_ListVaultCredentials, C_CreateVaultCredential None, C_GenerateReport None, C_ListAuditLogs]"

lemma documented_list: "documented GenerateOpenAPISpec = map (\<lambda>c. (method_of c, path_of c)) documented_calls"
  by code_simp

text \<open>Every operation the document describes is a route of the server, with that method and path.\<close>

theorem documented_operations_served:
  "set (documented GenerateOpenAPISpec) \<subseteq> range (\<lambda>c. (method_of c, path_of c))"
  by (auto simp: documented_list)

text \<open>The document asks for a bearer token everywhere, also for the two routes that have no guard.\<close>

lemma public_routes_documented_as_secured:
  "member_of GenerateOpenAPISpec ''security'' = spec_security \<and> guard_of C_HealthCheck = Public \<and> guard_of C_GetFleetMetrics = Public"
  by code_simp

text \<open>The findings query documents the flag \<open>kev_only\<close>, which the handler does not read.\<close>

lemma kev_only_ignored:
  "finding_options u = finding_options (u\<lparr>URL_query := (URL_query u)(''kev_only'' := v)\<rparr>)"
  by (simp add: finding_options_def)

end
