(* ===== verification/GatewayTypes.thy ===== *)
theory GatewayTypes
  imports Json
begin

text \<open>
  Data of the gateway's scanner (\<open>gateway/internal/scanner/types.go\<close>): targets, results and batches. Free-form
  telemetry maps are lists of pairs, a nil map being the empty one.
\<close>

type_synonym telemetry_map = "(string \<times> json) list"

record EndpointScanTarget =
  ET_IPAddress :: string
  ET_Hostname :: string
  ET_Port :: int
  ET_Protocol :: string
  ET_Username :: string
  ET_SecretValue :: string
  ET_AllowInsecureHTTP :: bool

record ComplianceException =
  CXE_Timestamp :: time
  CXE_Severity :: string
  CXE_RuleID :: string
  CXE_Description :: string
  CXE_TargetHost :: string
  CXE_Actor :: string

record HardwareTelemetry =
  HWT_CPUDetails :: telemetry_map
  HWT_MemoryDetails :: telemetry_map
  HWT_StorageDetails :: telemetry_map
  HWT_NetworkDetails :: telemetry_map
  HWT_BIOSDetails :: telemetry_map
  HWT_TPMDetails :: telemetry_map

record SecurityPostureTelemetry =
  SPT_BitLockerStatus :: telemetry_map
  SPT_DefenderStatus :: telemetry_map
  SPT_FirewallStatus :: telemetry_map
  SPT_UACStatus :: telemetry_map
  SPT_RebootPending :: telemetry_map
  SPT_CutoverReadiness :: telemetry_map
  SPT_Hotfixes :: "telemetry_map list"
  SPT_LocalAdmins :: "string list"

record CISBenchmarkResult =
  CBR_RuleID :: string
  CBR_RuleTitle :: string
  CBR_BenchmarkName :: string
  CBR_BenchmarkLevel :: string
  CBR_Category :: string
  CBR_Status :: string
  CBR_ActualValue :: string
  CBR_ExpectedValue :: string
  CBR_Rationale :: string
  CBR_RemediationScript :: string
  CBR_EvaluatedAt :: time

record EndpointScanResult =
  ER_EndpointID :: string
  ER_Hostname :: string
  ER_Domain :: string
  ER_IPAddress :: string
  ER_MACAddress :: string
  ER_OSName :: string
  ER_OSBuild :: string
  ER_SerialNumber :: string
  ER_Manufacturer :: string
  ER_Model :: string
  ER_ChassisType :: string
  ER_Status :: string
  ER_AgentlessProtocol :: string
  ER_ComplianceScore :: rat
  ER_ComplianceExceptions :: "ComplianceException list"
  ER_Hardware :: HardwareTelemetry
  ER_Security :: SecurityPostureTelemetry
  ER_CISResults :: "CISBenchmarkResult list"
  ER_ScannedAt :: time
  ER_ScanDurationMs :: int
  ER_ErrorMessage :: string

record ScanBatchResult =
  SBR_ScanJobID :: string
  SBR_GatewayID :: string
  SBR_TargetCIDR :: string
  SBR_TotalHosts :: int
  SBR_ScannedHosts :: int
  SBR_CompliantHosts :: int
  SBR_FailedHosts :: int
  SBR_Results :: "EndpointScanResult list"
  SBR_Logs :: "string list"
  SBR_PayloadHash :: string
  SBR_CompletedAt :: time

section \<open>Zero values\<close>

text \<open>The fields a Go composite literal does not name.\<close>

definition zero_hardware :: HardwareTelemetry where
  "zero_hardware = \<lparr>HWT_CPUDetails = [], HWT_MemoryDetails = [], HWT_StorageDetails = [], HWT_NetworkDetails = [],
     HWT_BIOSDetails = [], HWT_TPMDetails = []\<rparr>"

definition zero_security :: SecurityPostureTelemetry where
  "zero_security = \<lparr>SPT_BitLockerStatus = [], SPT_DefenderStatus = [], SPT_FirewallStatus = [], SPT_UACStatus = [],
     SPT_RebootPending = [], SPT_CutoverReadiness = [], SPT_Hotfixes = [], SPT_LocalAdmins = []\<rparr>"

definition zero_result :: EndpointScanResult where
  "zero_result = \<lparr>ER_EndpointID = [], ER_Hostname = [], ER_Domain = [], ER_IPAddress = [], ER_MACAddress = [],
     ER_OSName = [], ER_OSBuild = [], ER_SerialNumber = [], ER_Manufacturer = [], ER_Model = [], ER_ChassisType = [],
     ER_Status = [], ER_AgentlessProtocol = [], ER_ComplianceScore = 0, ER_ComplianceExceptions = [],
     ER_Hardware = zero_hardware, ER_Security = zero_security, ER_CISResults = [], ER_ScannedAt = zero_time,
     ER_ScanDurationMs = 0, ER_ErrorMessage = []\<rparr>"

text \<open>A result that reports a failure to reach or enter a host.\<close>

definition failure_result :: "EndpointScanTarget \<Rightarrow> string \<Rightarrow> string \<Rightarrow> time \<Rightarrow> EndpointScanResult" where
  "failure_result target status msg now =
     zero_result\<lparr>ER_IPAddress := ET_IPAddress target, ER_Hostname := ET_Hostname target, ER_Status := status,
       ER_AgentlessProtocol := ET_Protocol target, ER_ErrorMessage := msg, ER_ScannedAt := now\<rparr>"

end
