(* ===== verification/WorkerPool.thy ===== *)
theory WorkerPool
  imports GatewayTypes
begin

text \<open>
  The bounded worker pool of the gateway (\<open>scanner/workerpool.go\<close>): the retries of one task, and the pool as a
  step relation over its goroutines and channels, in every interleaving. The scan of a host, the random
  source and the clock are arguments.
\<close>

section \<open>Options and backoff\<close>

record ScanTask =
  SK_Target :: EndpointScanTarget
  SK_AttemptCount :: int

record WorkerPoolOptions =
  WO_Concurrency :: int
  WO_TargetTimeout :: duration
  WO_MaxRetries :: int
  WO_BackoffBase :: duration
  WO_MaxBackoffLimit :: duration

definition DefaultWorkerPoolOptions :: WorkerPoolOptions where
  "DefaultWorkerPoolOptions = \<lparr>WO_Concurrency = 25, WO_TargetTimeout = 15 * Second, WO_MaxRetries = 2,
     WO_BackoffBase = 300 * Millisecond, WO_MaxBackoffLimit = 3 * Second\<rparr>"

definition NewBoundedWorkerPool :: "WorkerPoolOptions \<Rightarrow> WorkerPoolOptions" where
  "NewBoundedWorkerPool opts =
     (let o1 = (if WO_Concurrency opts \<le> 0 then opts\<lparr>WO_Concurrency := 25\<rparr> else opts);
          o2 = (if WO_TargetTimeout o1 \<le> 0 then o1\<lparr>WO_TargetTimeout := 15 * Second\<rparr> else o1);
          o3 = (if WO_MaxRetries o2 < 0 then o2\<lparr>WO_MaxRetries := 2\<rparr> else o2)
      in if WO_BackoffBase o3 \<le> 0 then o3\<lparr>WO_BackoffBase := 300 * Millisecond\<rparr> else o3)"

text \<open>\<open>rnd n\<close> is \<open>rand.Int63n(n)\<close>. Shifting out of 64 bits gives 0, and products wrap.\<close>

definition calculateBackoff :: "(int \<Rightarrow> int) \<Rightarrow> int \<Rightarrow> duration \<Rightarrow> duration \<Rightarrow> duration" where
  "calculateBackoff rnd attempt base limit =
     (let multiplier = wrap64 (2 ^ nat attempt);
          backoff = wrap64 (base * multiplier);
          backoff = (if backoff > limit then limit else backoff);
          jitterRange = quot backoff 5
      in if jitterRange > 0 then wrap64 (backoff + (rnd (jitterRange * 2) - jitterRange)) else backoff)"

definition isAuthenticationFailure :: "string \<Rightarrow> bool" where
  "isAuthenticationFailure err \<longleftrightarrow>
     (let msg = to_lower err
      in contains msg ''unauthorized'' \<or> contains msg ''forbidden'' \<or> contains msg ''auth failed''
         \<or> contains msg ''invalid credentials'' \<or> contains msg ''401'' \<or> contains msg ''403'')"

section \<open>One task\<close>

datatype pool_error = ScanError string | PoolCancelled | RetriesExceeded

text \<open>What a task meets: the scan of each attempt (result and error message), and for each attempt the
  random source, whether the context ends during the pause, and the clock.\<close>

record task_env =
  TKE_scan :: "nat \<Rightarrow> EndpointScanTarget \<Rightarrow> EndpointScanResult option \<times> string option"
  TKE_rnd :: "nat \<Rightarrow> int \<Rightarrow> int"
  TKE_cancelled :: "nat \<Rightarrow> bool"
  TKE_now :: "nat \<Rightarrow> time"

definition auth_result :: "EndpointScanTarget \<Rightarrow> string \<Rightarrow> time \<Rightarrow> EndpointScanResult" where
  "auth_result target err now = failure_result target ''auth_error'' (''Authentication rejected by target host: '' @ err) now"

definition offline_result :: "EndpointScanTarget \<Rightarrow> int \<Rightarrow> string \<Rightarrow> time \<Rightarrow> EndpointScanResult" where
  "offline_result target attempts err now =
     failure_result target ''offline'' (''Host unreachable after '' @ dec_int attempts @ '' attempts: '' @ err) now"

text \<open>The loop over the attempts: the pauses made, the result and the error.\<close>

fun retry_loop :: "WorkerPoolOptions \<Rightarrow> task_env \<Rightarrow> ScanTask \<Rightarrow> nat list
    \<Rightarrow> duration list \<times> EndpointScanResult option \<times> pool_error option" where
  "retry_loop opts env task [] = ([], None, Some RetriesExceeded)"
| "retry_loop opts env task (attempt # rest) =
     (let task = task\<lparr>SK_AttemptCount := int attempt + 1\<rparr>; target = SK_Target task
      in case TKE_scan env attempt target of
           (res, None) \<Rightarrow> ([], res, None)
         | (res, Some err) \<Rightarrow>
             if isAuthenticationFailure err then
               ([], Some (case res of None \<Rightarrow> auth_result target err (TKE_now env attempt) | Some r \<Rightarrow> r), Some (ScanError err))
             else if int attempt \<ge> WO_MaxRetries opts then
               ([], Some (case res of None \<Rightarrow> offline_result target (SK_AttemptCount task) err (TKE_now env attempt) | Some r \<Rightarrow> r),
                Some (ScanError err))
             else
               (let backoff = calculateBackoff (TKE_rnd env attempt) (int attempt) (WO_BackoffBase opts) (WO_MaxBackoffLimit opts)
                in if TKE_cancelled env attempt then ([backoff], None, Some PoolCancelled)
                   else (let (pauses, out) = retry_loop opts env task rest in (backoff # pauses, out))))"

definition processTaskWithRetry :: "WorkerPoolOptions \<Rightarrow> task_env \<Rightarrow> ScanTask
    \<Rightarrow> duration list \<times> EndpointScanResult option \<times> pool_error option" where
  "processTaskWithRetry opts env task = retry_loop opts env task [0..<nat (WO_MaxRetries opts + 1)]"

section \<open>The pool\<close>

datatype feeder = Feeding | FedAll | GaveUp

datatype worker =
    WaitTask
  | GotTask ScanTask
  | Scanning ScanTask
  | Sending EndpointScanResult
  | Exited

record pool =
  PL_todo :: "EndpointScanTarget list"
  PL_feeder :: feeder
  PL_tasksCh :: "ScanTask list"
  PL_workers :: "worker list"
  PL_resultsCh :: "EndpointScanResult list"
  PL_closed :: bool
  PL_results :: "EndpointScanResult list"
  PL_returned :: bool
  PL_cancelled :: bool
  PL_completed :: nat
  PL_failed :: nat

definition channel_size :: nat where "channel_size = 1024"

definition pool_start :: "WorkerPoolOptions \<Rightarrow> EndpointScanTarget list \<Rightarrow> pool" where
  "pool_start opts targets =
     \<lparr>PL_todo = targets, PL_feeder = Feeding, PL_tasksCh = [], PL_workers = replicate (nat (WO_Concurrency opts)) WaitTask,
      PL_resultsCh = [], PL_closed = False, PL_results = [], PL_returned = False, PL_cancelled = False,
      PL_completed = 0, PL_failed = 0\<rparr>"

text \<open>A worker after \<open>processTaskWithRetry\<close>: the counters, then the result goes to the channel if there is one.\<close>

definition finish_task :: "nat \<Rightarrow> EndpointScanResult option \<times> pool_error option \<Rightarrow> pool \<Rightarrow> pool" where
  "finish_task i out s =
     (let s = (case snd out of
                 None \<Rightarrow> s\<lparr>PL_completed := PL_completed s + 1\<rparr>
               | Some _ \<Rightarrow> s\<lparr>PL_failed := PL_failed s + 1\<rparr>)
      in s\<lparr>PL_workers := (PL_workers s)[i := (case fst out of None \<Rightarrow> WaitTask | Some r \<Rightarrow> Sending r)]\<rparr>)"

text \<open>The steps of the goroutines, for the work \<open>work\<close> a task takes: feeder (send, close, give up), workers
  (receive, leave, check the context, finish, send; once the context has ended a
  scan may end in any way), the goroutine that waits for the workers, the loop of
  \<open>Execute\<close>, and the end of the context.\<close>

inductive pool_step :: "(ScanTask \<Rightarrow> EndpointScanResult option \<times> pool_error option) \<Rightarrow> pool \<Rightarrow> pool \<Rightarrow> bool"
  for work where
  feed: "PL_todo s = t # ts \<Longrightarrow> PL_feeder s = Feeding \<Longrightarrow> length (PL_tasksCh s) < channel_size
    \<Longrightarrow> pool_step work s (s\<lparr>PL_todo := ts, PL_tasksCh := PL_tasksCh s @ [\<lparr>SK_Target = t, SK_AttemptCount = 0\<rparr>]\<rparr>)"
| feed_close: "PL_todo s = [] \<Longrightarrow> PL_feeder s = Feeding \<Longrightarrow> pool_step work s (s\<lparr>PL_feeder := FedAll\<rparr>)"
| feed_give_up: "PL_todo s \<noteq> [] \<Longrightarrow> PL_feeder s = Feeding \<Longrightarrow> PL_cancelled s \<Longrightarrow> pool_step work s (s\<lparr>PL_feeder := GaveUp\<rparr>)"
| receive: "i < length (PL_workers s) \<Longrightarrow> PL_workers s ! i = WaitTask \<Longrightarrow> PL_tasksCh s = t # ts
    \<Longrightarrow> pool_step work s (s\<lparr>PL_tasksCh := ts, PL_workers := (PL_workers s)[i := GotTask t]\<rparr>)"
| leave: "i < length (PL_workers s) \<Longrightarrow> PL_workers s ! i = WaitTask \<Longrightarrow> PL_tasksCh s = [] \<Longrightarrow> PL_feeder s = FedAll
    \<Longrightarrow> pool_step work s (s\<lparr>PL_workers := (PL_workers s)[i := Exited]\<rparr>)"
| see_cancelled: "i < length (PL_workers s) \<Longrightarrow> PL_workers s ! i = GotTask t \<Longrightarrow> PL_cancelled s
    \<Longrightarrow> pool_step work s (s\<lparr>PL_workers := (PL_workers s)[i := Exited]\<rparr>)"
| begin_scan: "i < length (PL_workers s) \<Longrightarrow> PL_workers s ! i = GotTask t \<Longrightarrow> \<not> PL_cancelled s
    \<Longrightarrow> pool_step work s (s\<lparr>PL_workers := (PL_workers s)[i := Scanning t]\<rparr>)"
| finish: "i < length (PL_workers s) \<Longrightarrow> PL_workers s ! i = Scanning t
    \<Longrightarrow> pool_step work s (finish_task i (work t) s)"
| finish_cancelled: "i < length (PL_workers s) \<Longrightarrow> PL_workers s ! i = Scanning t \<Longrightarrow> PL_cancelled s
    \<Longrightarrow> pool_step work s (finish_task i out s)"
| send: "i < length (PL_workers s) \<Longrightarrow> PL_workers s ! i = Sending r \<Longrightarrow> length (PL_resultsCh s) < channel_size
    \<Longrightarrow> pool_step work s (s\<lparr>PL_resultsCh := PL_resultsCh s @ [r], PL_workers := (PL_workers s)[i := WaitTask]\<rparr>)"
| close_results: "\<forall>w \<in> set (PL_workers s). w = Exited \<Longrightarrow> \<not> PL_closed s \<Longrightarrow> pool_step work s (s\<lparr>PL_closed := True\<rparr>)"
| collect: "PL_resultsCh s = r # rs \<Longrightarrow> pool_step work s (s\<lparr>PL_resultsCh := rs, PL_results := PL_results s @ [r]\<rparr>)"
| return: "PL_resultsCh s = [] \<Longrightarrow> PL_closed s \<Longrightarrow> \<not> PL_returned s \<Longrightarrow> pool_step work s (s\<lparr>PL_returned := True\<rparr>)"
| cancel: "\<not> PL_cancelled s \<Longrightarrow> pool_step work s (s\<lparr>PL_cancelled := True\<rparr>)"

inductive_cases pool_stepE: "pool_step work s s'"

abbreviation pool_reach :: "(ScanTask \<Rightarrow> EndpointScanResult option \<times> pool_error option) \<Rightarrow> pool \<Rightarrow> pool \<Rightarrow> bool" where
  "pool_reach work \<equiv> (pool_step work)\<^sup>*\<^sup>*"

definition stuck :: "(ScanTask \<Rightarrow> EndpointScanResult option \<times> pool_error option) \<Rightarrow> pool \<Rightarrow> bool" where
  "stuck work s \<longleftrightarrow> (\<forall>s'. pool_step work s s' \<longrightarrow> PL_cancelled s' \<and> \<not> PL_cancelled s)"

section \<open>Every run ends\<close>

lemma worker_at:
  assumes "i < length ws" "ws ! i = w"
  obtains xs ys where "ws = xs @ w # ys" "\<And>v. ws[i := v] = xs @ v # ys"
  using that [of "take i ws" "drop (Suc i) ws"] assms id_take_nth_drop [OF assms(1)] upd_conv_take_nth_drop [OF assms(1)]
  by metis

fun worker_weight :: "worker \<Rightarrow> nat" where
  "worker_weight WaitTask = 1"
| "worker_weight (GotTask _) = 6"
| "worker_weight (Scanning _) = 5"
| "worker_weight (Sending _) = 4"
| "worker_weight Exited = 0"

definition pool_weight :: "pool \<Rightarrow> nat" where
  "pool_weight s = 7 * length (PL_todo s) + (if PL_feeder s = Feeding then 1 else 0) + 6 * length (PL_tasksCh s)
     + sum_list (map worker_weight (PL_workers s)) + 2 * length (PL_resultsCh s)
     + (if PL_closed s then 0 else 1) + (if PL_returned s then 0 else 1) + (if PL_cancelled s then 0 else 1)"

lemma finish_task_fields [simp]:
  "PL_todo (finish_task i out s) = PL_todo s" "PL_feeder (finish_task i out s) = PL_feeder s"
  "PL_tasksCh (finish_task i out s) = PL_tasksCh s" "PL_resultsCh (finish_task i out s) = PL_resultsCh s"
  "PL_closed (finish_task i out s) = PL_closed s" "PL_results (finish_task i out s) = PL_results s"
  "PL_returned (finish_task i out s) = PL_returned s" "PL_cancelled (finish_task i out s) = PL_cancelled s"
  "PL_workers (finish_task i out s) = (PL_workers s)[i := (case fst out of None \<Rightarrow> WaitTask | Some r \<Rightarrow> Sending r)]"
  "PL_completed (finish_task i out s) = PL_completed s + (if snd out = None then 1 else 0)"
  "PL_failed (finish_task i out s) = PL_failed s + (if snd out = None then 0 else 1)"
  by (simp_all add: finish_task_def Let_def split: option.split)

lemma pool_step_weight:
  assumes "pool_step work s s'"
  shows "pool_weight s' < pool_weight s"
  using assms
proof cases
  case (receive i t ts)
  show ?thesis by (rule worker_at [OF receive(2,3)]) (simp add: receive(1) pool_weight_def receive(4-))
next
  case (leave i)
  show ?thesis by (rule worker_at [OF leave(2,3)]) (simp add: leave(1) pool_weight_def leave(4-))
next
  case (see_cancelled i t)
  show ?thesis by (rule worker_at [OF see_cancelled(2,3)]) (simp add: see_cancelled(1) pool_weight_def see_cancelled(4-))
next
  case (begin_scan i t)
  show ?thesis by (rule worker_at [OF begin_scan(2,3)]) (simp add: begin_scan(1) pool_weight_def begin_scan(4-))
next
  case (finish i t)
  show ?thesis by (rule worker_at [OF finish(2,3)]) (simp add: finish(1) pool_weight_def split: option.split)
next
  case (finish_cancelled i t out)
  show ?thesis by (rule worker_at [OF finish_cancelled(2,3)]) (simp add: finish_cancelled(1) pool_weight_def finish_cancelled(4-) split: option.split)
next
  case (send i r)
  show ?thesis by (rule worker_at [OF send(2,3)]) (simp add: send(1) pool_weight_def)
qed (simp_all add: pool_weight_def)

lemma pool_step_wf: "wfp (\<lambda>s' s. pool_step work s s')"
  by (rule wfp_if_convertible_to_nat [of _ pool_weight]) (rule pool_step_weight)

section \<open>Nothing is lost or invented\<close>

definition task_of :: "EndpointScanTarget \<Rightarrow> ScanTask" where
  "task_of t = \<lparr>SK_Target = t, SK_AttemptCount = 0\<rparr>"

fun worker_tasks :: "worker \<Rightarrow> ScanTask list" where
  "worker_tasks (GotTask t) = [t]"
| "worker_tasks (Scanning t) = [t]"
| "worker_tasks _ = []"

fun worker_results :: "worker \<Rightarrow> EndpointScanResult list" where
  "worker_results (Sending r) = [r]"
| "worker_results _ = []"

definition open_tasks :: "pool \<Rightarrow> ScanTask list" where
  "open_tasks s = concat (map worker_tasks (PL_workers s)) @ PL_tasksCh s @ map task_of (PL_todo s)"

definition made_results :: "pool \<Rightarrow> EndpointScanResult list" where
  "made_results s = PL_results s @ PL_resultsCh s @ concat (map worker_results (PL_workers s))"

text \<open>The results a list of tasks yields.\<close>

definition yields :: "(ScanTask \<Rightarrow> EndpointScanResult option \<times> pool_error option) \<Rightarrow> ScanTask list \<Rightarrow> EndpointScanResult list" where
  "yields work ts = List.map_filter (\<lambda>t. fst (work t)) ts"

definition succeeds :: "(ScanTask \<Rightarrow> EndpointScanResult option \<times> pool_error option) \<Rightarrow> ScanTask list \<Rightarrow> nat" where
  "succeeds work ts = length (filter (\<lambda>t. snd (work t) = None) ts)"

lemma yields_simps [simp]:
  "yields work [] = []"
  "yields work (t # ts) = (case fst (work t) of None \<Rightarrow> [] | Some r \<Rightarrow> [r]) @ yields work ts"
  "yields work (ts @ us) = yields work ts @ yields work us"
  by (simp_all add: yields_def map_filter_simps map_filter_def split: option.split)

lemma succeeds_simps [simp]:
  "succeeds work [] = 0"
  "succeeds work (t # ts) = (if snd (work t) = None then 1 else 0) + succeeds work ts"
  "succeeds work (ts @ us) = succeeds work ts + succeeds work us"
  by (simp_all add: succeeds_def)

text \<open>What holds in every reachable state while the context lives.\<close>

definition pool_inv :: "(ScanTask \<Rightarrow> EndpointScanResult option \<times> pool_error option) \<Rightarrow> WorkerPoolOptions
    \<Rightarrow> EndpointScanTarget list \<Rightarrow> pool \<Rightarrow> bool" where
  "pool_inv work opts targets s \<longleftrightarrow>
     mset (made_results s) + mset (yields work (open_tasks s)) = mset (yields work (map task_of targets))
     \<and> PL_completed s + succeeds work (open_tasks s) = succeeds work (map task_of targets)
     \<and> PL_completed s + PL_failed s + length (open_tasks s) = length targets
     \<and> length (PL_workers s) = nat (WO_Concurrency opts)
     \<and> PL_feeder s \<noteq> GaveUp
     \<and> (PL_feeder s = FedAll \<longrightarrow> PL_todo s = [])
     \<and> (Exited \<in> set (PL_workers s) \<longrightarrow> PL_feeder s = FedAll \<and> PL_tasksCh s = [])
     \<and> (PL_closed s \<longrightarrow> (\<forall>w \<in> set (PL_workers s). w = Exited))
     \<and> (PL_returned s \<longrightarrow> PL_closed s \<and> PL_resultsCh s = [])"

lemma replicate_worker_empty [simp]:
  "concat (map worker_tasks (replicate n WaitTask)) = []" "concat (map worker_results (replicate n WaitTask)) = []"
  by (induction n) simp_all

lemma pool_inv_start: "pool_inv work opts targets (pool_start opts targets)"
  by (simp add: pool_inv_def pool_start_def open_tasks_def made_results_def)

lemma pool_inv_step:
  assumes "pool_step work s s'" "pool_inv work opts targets s" "\<not> PL_cancelled s'"
  shows "pool_inv work opts targets s'"
  using assms
proof cases
  case (feed t ts)
  then show ?thesis using assms(2)
    by (auto simp: pool_inv_def open_tasks_def made_results_def ac_simps task_of_def)
next
  case (receive i t ts)
  show ?thesis
    by (rule worker_at [OF receive(2,3)]) (use assms(2) receive in \<open>auto simp: pool_inv_def open_tasks_def made_results_def ac_simps\<close>)
next
  case (leave i)
  show ?thesis
    by (rule worker_at [OF leave(2,3)]) (use assms(2) leave in \<open>auto simp: pool_inv_def open_tasks_def made_results_def ac_simps\<close>)
next
  case (begin_scan i t)
  show ?thesis
    by (rule worker_at [OF begin_scan(2,3)]) (use assms(2) begin_scan in \<open>auto simp: pool_inv_def open_tasks_def made_results_def ac_simps\<close>)
next
  case (finish i t)
  show ?thesis
    by (rule worker_at [OF finish(2,3)])
      (use assms(2) finish in \<open>auto simp: pool_inv_def open_tasks_def made_results_def ac_simps split: option.splits\<close>)
next
  case (send i r)
  show ?thesis
    by (rule worker_at [OF send(2,3)]) (use assms(2) send in \<open>auto simp: pool_inv_def open_tasks_def made_results_def ac_simps\<close>)
next
  case (collect r rs)
  then show ?thesis using assms(2)
    by (auto simp: pool_inv_def open_tasks_def made_results_def ac_simps)
qed (use assms(2,3) in \<open>auto simp: pool_inv_def open_tasks_def made_results_def ac_simps\<close>)

lemma pool_step_cancelled: "pool_step work s s' \<Longrightarrow> PL_cancelled s \<Longrightarrow> PL_cancelled s'"
  by (erule pool_step.cases) simp_all

lemma pool_inv_reach:
  assumes "pool_reach work (pool_start opts targets) s" "\<not> PL_cancelled s"
  shows "pool_inv work opts targets s"
  using assms
proof (induction rule: rtranclp_induct)
  case base
  then show ?case by (simp add: pool_inv_start)
next
  case (step s s')
  then show ?case using pool_step_cancelled pool_inv_step by blast
qed

section \<open>A pool that cannot move has finished\<close>

lemma stuck_no_step:
  assumes "stuck work s" "\<not> PL_cancelled s" "pool_step work s s'" "\<not> PL_cancelled s'"
  shows False
  using assms by (auto simp: stuck_def)

lemma stuck_workers_exited:
  assumes "stuck work s" "\<not> PL_cancelled s" "pool_inv work opts targets s" "PL_resultsCh s = []" "w \<in> set (PL_workers s)"
  shows "w = Exited \<or> w = WaitTask \<and> PL_tasksCh s = [] \<and> PL_feeder s = Feeding"
proof -
  obtain i where i: "i < length (PL_workers s)" "PL_workers s ! i = w" using assms(5) by (auto simp: in_set_conv_nth)
  note no = stuck_no_step [OF assms(1,2)]
  show ?thesis
  proof (cases w)
    case WaitTask
    have "PL_tasksCh s = []"
    proof (rule ccontr)
      assume "PL_tasksCh s \<noteq> []"
      then obtain t ts where t: "PL_tasksCh s = t # ts" by (cases "PL_tasksCh s") auto
      show False using no [OF receive [OF i(1) i(2) [unfolded WaitTask] t]] assms(2) by simp
    qed
    moreover have "PL_feeder s \<noteq> FedAll"
      using no [OF leave [OF i(1) i(2) [unfolded WaitTask] calculation]] assms(2) by auto
    ultimately show ?thesis using assms(3) WaitTask by (cases "PL_feeder s") (auto simp: pool_inv_def)
  next
    case (GotTask t)
    then show ?thesis using no [OF begin_scan [OF i(1) i(2) [unfolded GotTask] assms(2)]] assms(2) by simp
  next
    case (Scanning t)
    then show ?thesis using no [OF finish [OF i(1) i(2) [unfolded Scanning]]] assms(2) by simp
  next
    case (Sending r)
    have "length (PL_resultsCh s) < channel_size" using assms(4) by (simp add: channel_size_def)
    then show ?thesis using no [OF send [OF i(1) i(2) [unfolded Sending]]] assms(2) by simp
  next
    case Exited
    then show ?thesis by simp
  qed
qed

lemma stuck_finished:
  assumes "stuck work s" "\<not> PL_cancelled s" "pool_inv work opts targets s" "1 \<le> WO_Concurrency opts"
  shows "PL_returned s \<and> open_tasks s = [] \<and> made_results s = PL_results s"
proof -
  note no = stuck_no_step [OF assms(1,2)]
  note inv = assms(3) [unfolded pool_inv_def]
  have rc: "PL_resultsCh s = []"
  proof (rule ccontr)
    assume "PL_resultsCh s \<noteq> []"
    then obtain r rs where "PL_resultsCh s = r # rs" by (cases "PL_resultsCh s") auto
    from no [OF collect [OF this]] show False using assms(2) by simp
  qed
  note we = stuck_workers_exited [OF assms(1-3) rc]
  have fed: "PL_feeder s = FedAll"
  proof (rule ccontr)
    assume "PL_feeder s \<noteq> FedAll"
    then have f: "PL_feeder s = Feeding" using inv by (cases "PL_feeder s") auto
    have t: "PL_tasksCh s = []"
    proof -
      have "PL_workers s \<noteq> []" using inv assms(4) by auto
      then obtain w where "w \<in> set (PL_workers s)" by (cases "PL_workers s") auto
      from we [OF this] this inv show ?thesis by auto
    qed
    show False
    proof (cases "PL_todo s")
      case Nil
      then show False using no [OF feed_close [OF Nil f]] assms(2) by simp
    next
      case (Cons x xs)
      have "length (PL_tasksCh s) < channel_size" by (simp add: t channel_size_def)
      from no [OF feed [OF Cons f this]] show False using assms(2) by simp
    qed
  qed
  have all: "\<forall>w \<in> set (PL_workers s). w = Exited" using we fed by fastforce
  have cl: "PL_closed s" using no [OF close_results [OF all]] assms(2) by auto
  have ret: "PL_returned s" using no [OF return [OF rc cl]] assms(2) by auto
  have ne: "PL_workers s \<noteq> []" using inv assms(4) by auto
  then have "Exited \<in> set (PL_workers s)" using all by (cases "PL_workers s") auto
  then have tk: "PL_tasksCh s = []" "PL_todo s = []" using inv by blast+
  have w: "PL_workers s = replicate (length (PL_workers s)) Exited" using all by (simp add: replicate_length_same)
  have "concat (map worker_tasks (replicate n Exited)) = []" "concat (map worker_results (replicate n Exited)) = []" for n
    by (induction n) simp_all
  with w have "concat (map worker_tasks (PL_workers s)) = []" "concat (map worker_results (PL_workers s)) = []" by metis+
  then show ?thesis using ret rc tk by (simp add: open_tasks_def made_results_def)
qed

lemma reaches_stuck:
  "\<not> PL_cancelled s \<Longrightarrow> \<exists>s'. pool_reach work s s' \<and> \<not> PL_cancelled s' \<and> stuck work s'"
proof (induction "pool_weight s" arbitrary: s rule: less_induct)
  case less
  show ?case
  proof (cases "stuck work s")
    case True
    then show ?thesis using less.prems by blast
  next
    case False
    then obtain s1 where s1: "pool_step work s s1" "\<not> PL_cancelled s1" using less.prems by (auto simp: stuck_def)
    from less.hyps [OF pool_step_weight [OF s1(1)] s1(2)] s1(1) show ?thesis by (meson converse_rtranclp_into_rtranclp)
  qed
qed

section \<open>One task, exactly\<close>

definition settles :: "task_env \<Rightarrow> EndpointScanTarget \<Rightarrow> nat \<Rightarrow> bool" where
  "settles env target k = (case TKE_scan env k target of (_, None) \<Rightarrow> True | (_, Some err) \<Rightarrow> isAuthenticationFailure err)"

definition pause_after :: "WorkerPoolOptions \<Rightarrow> task_env \<Rightarrow> nat \<Rightarrow> duration" where
  "pause_after opts env k = calculateBackoff (TKE_rnd env k) (int k) (WO_BackoffBase opts) (WO_MaxBackoffLimit opts)"

text \<open>What the attempt that decides a task makes of its scan.\<close>

definition decided :: "task_env \<Rightarrow> EndpointScanTarget \<Rightarrow> nat \<Rightarrow> EndpointScanResult option \<times> pool_error option" where
  "decided env target k =
     (case TKE_scan env k target of
        (res, None) \<Rightarrow> (res, None)
      | (res, Some err) \<Rightarrow>
          (Some (case res of
             None \<Rightarrow> if isAuthenticationFailure err then auth_result target err (TKE_now env k)
                     else offline_result target (int k + 1) err (TKE_now env k)
           | Some r \<Rightarrow> r), Some (ScanError err)))"

lemma retry_loop_exact:
  assumes "m \<le> n" "WO_MaxRetries opts = int n" "\<forall>k \<in> {m..<n}. \<not> TKE_cancelled env k"
  shows "retry_loop opts env task [m..<Suc n] =
    (let k = (case find (settles env (SK_Target task)) [m..<Suc n] of None \<Rightarrow> n | Some k \<Rightarrow> k)
     in (map (pause_after opts env) [m..<k], decided env (SK_Target task) k))"
  using assms(1,3)
proof (induction "n - m" arbitrary: m task)
  case 0
  then have m: "m = n" by simp
  have "isAuthenticationFailure e \<or> \<not> isAuthenticationFailure e" for e by simp
  then show ?case unfolding m
    by (auto simp: settles_def decided_def assms(2) Let_def split: prod.splits option.splits if_splits)
next
  case (Suc d)
  then have mn: "m < n" by linarith
  have up: "[m..<Suc n] = m # [Suc m..<Suc n]" using mn by (simp add: upt_rec)
  have nc: "\<not> TKE_cancelled env m" using Suc.prems(2) mn by simp
  obtain res err where sc: "TKE_scan env m (SK_Target task) = (res, err)" by fastforce
  show ?case
  proof (cases "settles env (SK_Target task) m")
    case True
    then show ?thesis unfolding up
      by (auto simp: sc settles_def decided_def Let_def simp del: upt_Suc split: option.splits)
  next
    case False
    then obtain e where e: "err = Some e" "\<not> isAuthenticationFailure e" using sc by (cases err) (auto simp: settles_def)
    have IH: "retry_loop opts env (task\<lparr>SK_AttemptCount := int m + 1\<rparr>) [Suc m..<Suc n] =
      (let k = (case find (settles env (SK_Target task)) [Suc m..<Suc n] of None \<Rightarrow> n | Some k \<Rightarrow> k)
       in (map (pause_after opts env) [Suc m..<k], decided env (SK_Target task) k))"
      using Suc.hyps(1) [of "Suc m" "task\<lparr>SK_AttemptCount := int m + 1\<rparr>"] Suc.hyps(2) Suc.prems mn by simp
    define k where "k = (case find (settles env (SK_Target task)) [Suc m..<Suc n] of None \<Rightarrow> n | Some k \<Rightarrow> k)"
    have km: "m < k"
      using mn by (auto simp: k_def find_Some_iff simp del: upt_Suc split: option.splits)
    then have pk: "[m..<k] = m # [Suc m..<k]" by (simp add: upt_rec)
    have fk: "(case find (settles env (SK_Target task)) [m..<Suc n] of None \<Rightarrow> n | Some k \<Rightarrow> k) = k"
      unfolding up k_def using False by (simp del: upt_Suc)
    have st: "retry_loop opts env task [m..<Suc n] =
        (let (pauses, out) = retry_loop opts env (task\<lparr>SK_AttemptCount := int m + 1\<rparr>) [Suc m..<Suc n]
         in (pause_after opts env m # pauses, out))"
      unfolding up using e sc nc mn by (simp add: assms(2) pause_after_def Let_def del: upt_Suc)
    show ?thesis unfolding st IH fk unfolding k_def [symmetric] Let_def pk by simp
  qed
qed

text \<open>A sentence in the code says that authentication failures are never retried. What the scanner reports
  for a rejected login is not recognised as one, and what it reports for a refused insecure port is.\<close>

lemma winrm_rejection_not_recognised:
  "\<not> isAuthenticationFailure ''winrm: authentication rejected by target host''"
  by code_simp

lemma winrm_insecure_taken_for_authentication:
  "isAuthenticationFailure ''winrm: unencrypted HTTP (port 5985) is strictly forbidden unless explicit subnet override AllowInsecureHTTP is enabled''"
  by code_simp

section \<open>Backoff\<close>

text \<open>As long as nothing overflows, a pause lies within a fifth of the capped exponential value.\<close>

lemma calculateBackoff_bounds:
  assumes "0 \<le> attempt" "0 \<le> base" "0 \<le> limit" "limit \<le> 2 ^ 61" "base * 2 ^ nat attempt \<le> max_int64" "2 ^ nat attempt \<le> max_int64"
    and "\<And>n. 0 < n \<Longrightarrow> 0 \<le> rnd n \<and> rnd n < n"
  shows "let b = min (base * 2 ^ nat attempt) limit; r = b div 5
    in b - r \<le> calculateBackoff rnd attempt base limit \<and> calculateBackoff rnd attempt base limit \<le> b + r"
proof -
  define b where "b = min (base * 2 ^ nat attempt) limit"
  have f: "fits64 (2 ^ nat attempt)" "fits64 (base * 2 ^ nat attempt)"
  proof -
    have nn: "fits64 x" if "0 \<le> x" "x \<le> max_int64" for x using that by (simp add: fits64_def min_int64_def)
    show "fits64 (2 ^ nat attempt)" by (rule nn [OF _ assms(6)]) simp
    show "fits64 (base * 2 ^ nat attempt)" by (rule nn [OF _ assms(5)]) (simp add: assms(2))
  qed
  have b: "0 \<le> b" "b \<le> 2 ^ 61" using assms(2-4) by (auto simp: b_def)
  have q: "quot b 5 = b div 5" using b(1) by (simp add: quot_pos)
  have e: "calculateBackoff rnd attempt base limit =
      (if b div 5 > 0 then wrap64 (b + (rnd (b div 5 * 2) - b div 5)) else b)"
    using f by (simp add: calculateBackoff_def Let_def wrap64_id b_def [symmetric] q [symmetric] min_def)
      (auto simp: b_def min_def q [unfolded b_def min_def])
  show ?thesis
  proof (cases "b div 5 > 0")
    case True
    then have r: "0 \<le> rnd (b div 5 * 2)" "rnd (b div 5 * 2) < b div 5 * 2" using assms(7) [of "b div 5 * 2"] by auto
    have "b div 5 \<le> b" using b(1) by linarith
    then have "- (2 ^ 61) \<le> b + (rnd (b div 5 * 2) - b div 5)" "b + (rnd (b div 5 * 2) - b div 5) \<le> 2 ^ 62"
      using r b by simp_all
    then have "fits64 (b + (rnd (b div 5 * 2) - b div 5))"
      by (simp add: fits64_def min_int64_def max_int64_def)
    then show ?thesis using True r e by (simp add: b_def [symmetric] wrap64_id)
  next
    case False
    then show ?thesis using e b by (simp add: b_def [symmetric])
  qed
qed

section \<open>Properties\<close>

text \<open>The work of the pool on a task, whose scans and clock are those of its environment.\<close>

definition pool_work :: "WorkerPoolOptions \<Rightarrow> (ScanTask \<Rightarrow> task_env) \<Rightarrow> ScanTask \<Rightarrow> EndpointScanResult option \<times> pool_error option" where
  "pool_work opts env task = snd (processTaskWithRetry opts (env task) task)"

lemma processTaskWithRetry_decided:
  assumes "0 \<le> WO_MaxRetries opts" "\<And>k. \<not> TKE_cancelled env k"
  shows "\<exists>k. snd (processTaskWithRetry opts env task) = decided env (SK_Target task) k"
proof -
  have n: "nat (WO_MaxRetries opts + 1) = Suc (nat (WO_MaxRetries opts))" "WO_MaxRetries opts = int (nat (WO_MaxRetries opts))"
    using assms(1) by simp_all
  show ?thesis
    unfolding processTaskWithRetry_def n(1) using retry_loop_exact [of 0 "nat (WO_MaxRetries opts)" opts env task] n(2) assms(2)
    by (auto simp: Let_def simp del: upt_Suc)
qed

lemma decided_some:
  assumes "TKE_scan env k target \<noteq> (None, None)"
  shows "fst (decided env target k) \<noteq> None"
proof (cases "TKE_scan env k target")
  case (Pair res err)
  then show ?thesis using assms by (cases err) (simp_all add: decided_def)
qed

lemma yields_all:
  assumes "\<And>t. fst (work t) \<noteq> None"
  shows "length (yields work ts) = length ts"
  using assms by (induction ts) (auto split: option.splits)

lemma pool_finished:
  assumes "1 \<le> WO_Concurrency opts" "pool_reach (pool_work opts env) (pool_start opts targets) s" "\<not> PL_cancelled s"
    "stuck (pool_work opts env) s"
  shows "PL_returned s \<and> open_tasks s = [] \<and> made_results s = PL_results s"
  by (rule stuck_finished [OF assms(4,3) pool_inv_reach [OF assms(2,3)] assms(1)])

lemma pool_final:
  assumes "1 \<le> WO_Concurrency opts" "0 \<le> WO_MaxRetries opts"
    and r: "pool_reach (pool_work opts env) (pool_start opts targets) s" and c: "\<not> PL_cancelled s"
    and st: "stuck (pool_work opts env) s"
  shows "PL_returned s \<and> mset (PL_results s) = mset (yields (pool_work opts env) (map task_of targets))
      \<and> PL_completed s = succeeds (pool_work opts env) (map task_of targets) \<and> PL_completed s + PL_failed s = length targets
      \<and> ((\<forall>t k. \<not> TKE_cancelled (env t) k \<and> TKE_scan (env t) k (SK_Target t) \<noteq> (None, None))
           \<longrightarrow> length (PL_results s) = length targets)"
proof -
  let ?work = "pool_work opts env"
  note fin = pool_finished [OF assms(1) r c st]
  have m: "mset (PL_results s) = mset (yields ?work (map task_of targets))"
      "PL_completed s = succeeds ?work (map task_of targets)" "PL_completed s + PL_failed s = length targets"
      using pool_inv_reach [OF r c] fin by (simp_all add: pool_inv_def)
    have "length (PL_results s) = length targets"
      if "\<forall>t k. \<not> TKE_cancelled (env t) k \<and> TKE_scan (env t) k (SK_Target t) \<noteq> (None, None)"
    proof -
      have "fst (?work t) \<noteq> None" for t
      proof -
        have nc: "\<not> TKE_cancelled (env t) k" and ns: "TKE_scan (env t) k (SK_Target t) \<noteq> (None, None)" for k
          using that by blast+
        obtain k where "snd (processTaskWithRetry opts (env t) t) = decided (env t) (SK_Target t) k"
          using processTaskWithRetry_decided [OF assms(2) nc] by blast
        then show ?thesis using decided_some [OF ns] by (simp add: pool_work_def)
      qed
      from yields_all [OF this] show ?thesis using arg_cong [OF m(1), of size] by simp
    qed
    then show ?thesis using fin m by blast
qed



text \<open>When the context ends before all targets are fed, the feeder leaves without closing the channel, and the
  pool can reach a state in which nothing moves and \<open>Execute\<close> has not returned.\<close>

lemma cancelled_pool_hangs:
  assumes "targets \<noteq> []" "1 \<le> WO_Concurrency opts"
  shows "\<exists>s. pool_reach work (pool_start opts targets) s \<and> \<not> PL_returned s \<and> (\<forall>s'. \<not> pool_step work s s')"
proof -
  let ?s0 = "pool_start opts targets"
  let ?s1 = "?s0\<lparr>PL_cancelled := True\<rparr>"
  let ?s2 = "?s1\<lparr>PL_feeder := GaveUp\<rparr>"
  have "pool_step work ?s0 ?s1" by (rule cancel) (simp add: pool_start_def)
  moreover have "pool_step work ?s1 ?s2"
    by (rule feed_give_up) (use assms(1) in \<open>simp_all add: pool_start_def\<close>)
  ultimately have "pool_reach work ?s0 ?s2" by (meson r_into_rtranclp rtranclp_trans)
  moreover have "\<not> PL_returned ?s2" by (simp add: pool_start_def)
  moreover have "\<not> pool_step work ?s2 s'" for s'
    using assms by (auto simp: pool_start_def elim!: pool_stepE)
  ultimately show ?thesis by blast
qed


definition demo_host :: EndpointScanTarget where
  "demo_host = \<lparr>ET_IPAddress = ''10.0.0.1'', ET_Hostname = [], ET_Port = 0, ET_Protocol = ''winrm_https'', ET_Username = ''u'',
     ET_SecretValue = ''p'', ET_AllowInsecureHTTP = False\<rparr>"


end
