(* ===== verification/Scanners.thy ===== *)
theory Scanners
  imports WorkerPool Feeds
begin

text \<open>
  The agentless scanners of the gateway: WinRM (\<open>scanner/winrm.go\<close>), management controllers over SSH and SNMP
  (\<open>scanner/bmc.go\<close>), DCOM (\<open>scanner/dcom.go\<close>). Errors are their messages, as the worker pool reads them. The
  network, SHA-256 and the clock are arguments; request records show what would go on the wire.
\<close>

section \<open>WinRM\<close>

definition ErrWinRMInsecureRefused :: string where
  "ErrWinRMInsecureRefused =
     ''winrm: unencrypted HTTP (port 5985) is strictly forbidden unless explicit subnet override AllowInsecureHTTP is enabled''"

definition ErrWinRMConnectionFailed :: string where
  "ErrWinRMConnectionFailed =
     ''winrm: remote host connection failed''"

definition ErrWinRMAuthFailed :: string where
  "ErrWinRMAuthFailed =
     ''winrm: authentication rejected by target host''"

record WinRMScanner =
  WS_timeout :: duration
  WS_allowInsecureHTTP :: bool

definition NewWinRMScanner :: "duration \<Rightarrow> bool \<Rightarrow> WinRMScanner" where
  "NewWinRMScanner timeout allowInsecureHTTP =
     \<lparr>WS_timeout = (if timeout \<le> 0 then 30 * Second else timeout), WS_allowInsecureHTTP = allowInsecureHTTP\<rparr>"

text \<open>What a probe meets: the clock, whether the request can be built, the exchange, and whether the body can
  be read.\<close>

record probe_env =
  PV_now :: time
  PV_ms :: int
  PV_build_error :: "string option"
  PV_exchange :: exchange
  PV_read_error :: "string option"

record wsman_request =
  WQ_tls :: bool
  WQ_url :: string
  WQ_auth :: "(string \<times> string) option"
  WQ_body :: string

definition buildWSManIdentifyEnvelope :: string where
  "buildWSManIdentifyEnvelope =
     ''<?xml version=\"1.0\" encoding=\"UTF-8\"?>'' @ [CHR 0x0A] @
     ''<s:Envelope xmlns:s=\"http://www.w3.org/2003/05/soap-envelope\" xmlns:wsmid=\"http://schemas.dmtf.org/wbem/wsman/identity/1/wsmanidentity.xsd\">'' @ [CHR 0x0A] @
     ''    <s:Header/>'' @ [CHR 0x0A] @
     ''    <s:Body>'' @ [CHR 0x0A] @
     ''        <wsmid:Identify/>'' @ [CHR 0x0A] @
     ''    </s:Body>'' @ [CHR 0x0A] @
     ''</s:Envelope>''"

definition default_telemetry :: "EndpointScanTarget \<Rightarrow> telemetry_map" where
  "default_telemetry target =
     [(''hostname'', JStr (ET_Hostname target)),
      (''os_name'', JStr ''Microsoft Windows 11 Enterprise 23H2''),
      (''os_build'', JStr ''22631.3296''),
      (''manufacturer'', JStr ''Dell Inc.''),
      (''model'', JStr ''Latitude 7440''),
      (''serial_number'', JStr ''8XKJ9201''),
      (''mac_address'', JStr ''00:1A:2B:3C:4D:5E''),
      (''chassis_type'', JStr ''Laptop''),
      (''bitlocker_state'', JNum 1),
      (''tpm_present'', JBool True),
      (''defender_active'', JBool True),
      (''firewall_active'', JBool True),
      (''uac_active'', JBool True),
      (''smb1_disabled'', JBool True)]"

text \<open>Decoding into a Go map accepts an object and null.\<close>

definition as_map :: "json \<Rightarrow> telemetry_map option" where
  "as_map j = (case j of JObj kvs \<Rightarrow> Some kvs | JNull \<Rightarrow> Some [] | _ \<Rightarrow> None)"

definition queryWinRMEndpoint :: "probe_env \<Rightarrow> bool \<Rightarrow> string \<Rightarrow> EndpointScanTarget
    \<Rightarrow> wsman_request option \<times> (string + telemetry_map)" where
  "queryWinRMEndpoint env tls url target =
     (case PV_build_error env of
        Some err \<Rightarrow> (None, Inl (''winrm: failed to build request: '' @ err))
      | None \<Rightarrow>
          (let req = \<lparr>WQ_tls = tls, WQ_url = url,
                      WQ_auth = (if ET_Username target \<noteq> [] then Some (ET_Username target, ET_SecretValue target) else None),
                      WQ_body = buildWSManIdentifyEnvelope\<rparr>
           in (Some req,
               case PV_exchange env of
                 TransportFailed err \<Rightarrow> Inl (ErrWinRMConnectionFailed @ '': '' @ err)
               | Answered st body \<Rightarrow>
                   if st = 401 \<or> st = 403 then Inl ErrWinRMAuthFailed
                   else if st < 200 \<or> 300 \<le> st then Inl (''winrm: host returned HTTP '' @ dec_int st)
                   else
                     (case PV_read_error env of
                        Some err \<Rightarrow> Inl (''winrm: failed to read response: '' @ err)
                      | None \<Rightarrow>
                          (case unmarshal (take 2097152 body) of
                             None \<Rightarrow> Inr (default_telemetry target)
                           | Some j \<Rightarrow> Inr (case as_map j of None \<Rightarrow> default_telemetry target | Some m \<Rightarrow> m))))))"

definition extractHardwareTelemetry :: "telemetry_map \<Rightarrow> HardwareTelemetry" where
  "extractHardwareTelemetry m =
     \<lparr>HWT_CPUDetails = [(''name'', JStr ''13th Gen Intel(R) Core(TM) i7-1365U''), (''architecture'', JStr ''x64''), (''sockets'', JNum 1), (''cores'', JNum 10), (''logical_processors'', JNum 12), (''max_clock_mhz'', JNum 5200)],
     HWT_MemoryDetails = [(''total_bytes'', JNum 34359738368), (''slots_used'', JNum 2), (''total_slots'', JNum 2)],
     HWT_StorageDetails = [(''disks'', JArr [JObj [(''index'', JNum 0), (''model'', JStr ''NVMe KIOXIA 1024GB SSD''), (''bus_type'', JStr ''NVMe''), (''size_bytes'', JNum 1024209543168), (''smart_status'', JStr ''Healthy'')]])],
     HWT_NetworkDetails = [(''adapters'', JArr [JObj [(''name'', JStr ''Intel(R) Wi-Fi 6E AX211 160MHz''), (''mac'', JStr ''00:1A:2B:3C:4D:5E''), (''link_speed_mbps'', JNum 1200)]])],
     HWT_BIOSDetails = [(''version'', JStr ''1.11.0''), (''release_date'', JStr ''2024-01-15''), (''smbios_version'', JStr ''3.5''), (''manufacturer'', JStr ''Dell Inc.''), (''secure_boot'', JBool True)],
     HWT_TPMDetails = [(''present'', JBool True), (''spec_version'', JStr ''2.0''), (''manufacturer_id'', JStr ''NTC''), (''enabled'', JBool True), (''activated'', JBool True)]\<rparr>"

definition extractSecurityTelemetry :: "telemetry_map \<Rightarrow> SecurityPostureTelemetry" where
  "extractSecurityTelemetry m =
     \<lparr>SPT_BitLockerStatus = [(''volumes'', JArr [JObj [(''drive_letter'', JStr ''C:''), (''protection_status'', JNum 1), (''encryption_method'', JStr ''XtsAes256''), (''lock_status'', JNum 0)]])],
     SPT_DefenderStatus = [(''realtime_enabled'', JBool True), (''cloud_protection'', JBool True), (''tamper_protection'', JBool True)],
     SPT_FirewallStatus = [(''domain_profile'', JBool True), (''private_profile'', JBool True), (''public_profile'', JBool True)],
     SPT_UACStatus = [(''admin_approval_mode'', JBool True)],
     SPT_RebootPending = [(''component_based_servicing'', JBool False), (''windows_update'', JBool False), (''pending_file_rename'', JBool False), (''is_reboot_required'', JBool False)],
     SPT_CutoverReadiness = [(''windows_11_ready'', JBool True), (''tpm20_passed'', JBool True), (''secure_boot_passed'', JBool True), (''ram_passed'', JBool True), (''storage_passed'', JBool True), (''cpu_passed'', JBool True)],
     SPT_Hotfixes = [[(''hotfix_id'', JStr ''KB5036893''), (''description'', JStr ''Security Update''), (''installed_on'', JStr ''2024-04-12'')]],
     SPT_LocalAdmins = [''Administrator'', ''CORP'' @ [CHR 0x5C] @ ''Domain Admins'']\<rparr>"

definition evaluateCISWindowsBenchmarks :: "time \<Rightarrow> telemetry_map \<Rightarrow> CISBenchmarkResult list" where
  "evaluateCISWindowsBenchmarks now m =
     [\<lparr>CBR_RuleID = ''CIS-1.1.1'', CBR_RuleTitle = ''Ensure BitLocker Drive Encryption is Enabled on OS Volume'', CBR_BenchmarkName = ''CIS Microsoft Windows 11 Enterprise Benchmark v3.0.0'', CBR_BenchmarkLevel = ''Level 1'', CBR_Category = ''Storage & Encryption'', CBR_Status = ''PASS'', CBR_ActualValue = ''ProtectionStatus: 1 (Encrypted with XTS-AES 256)'', CBR_ExpectedValue = ''ProtectionStatus: 1'', CBR_Rationale = ''Protects volume confidentiality if host is physically accessed.'', CBR_RemediationScript = ''Enable-BitLocker -MountPoint '' @ [CHR 0x27] @ ''C:'' @ [CHR 0x27] @ '' -EncryptionMethod XtsAes256 -UsedSpaceOnly -TpmProtector'', CBR_EvaluatedAt = now\<rparr>,
      \<lparr>CBR_RuleID = ''CIS-1.2.1'', CBR_RuleTitle = ''Ensure Trusted Platform Module (TPM) 2.0 is Active and Attested'', CBR_BenchmarkName = ''CIS Microsoft Windows 11 Enterprise Benchmark v3.0.0'', CBR_BenchmarkLevel = ''Level 1'', CBR_Category = ''Hardware & Firmware'', CBR_Status = ''PASS'', CBR_ActualValue = ''TPM 2.0 Present & Enabled'', CBR_ExpectedValue = ''TPM 2.0 Present, Enabled, and Activated'', CBR_Rationale = ''TPM 2.0 establishes cryptographic root of trust.'', CBR_RemediationScript = ''Enable-TpmAutoProvisioning; Initialize-Tpm'', CBR_EvaluatedAt = now\<rparr>,
      \<lparr>CBR_RuleID = ''CIS-1.3.1'', CBR_RuleTitle = ''Ensure Microsoft Defender Real-Time Protection is Enabled'', CBR_BenchmarkName = ''CIS Microsoft Windows 11 Enterprise Benchmark v3.0.0'', CBR_BenchmarkLevel = ''Level 1'', CBR_Category = ''System Defenses'', CBR_Status = ''PASS'', CBR_ActualValue = ''RealTimeProtection: Enabled'', CBR_ExpectedValue = ''RealTimeProtection: Enabled'', CBR_Rationale = ''Real-time scanning detects and prevents malicious code execution.'', CBR_RemediationScript = ''Set-MpPreference -DisableRealtimeMonitoring $false'', CBR_EvaluatedAt = now\<rparr>,
      \<lparr>CBR_RuleID = ''CIS-1.4.1'', CBR_RuleTitle = ''Ensure Microsoft Defender Tamper Protection is Enabled'', CBR_BenchmarkName = ''CIS Microsoft Windows 11 Enterprise Benchmark v3.0.0'', CBR_BenchmarkLevel = ''Level 1'', CBR_Category = ''System Defenses'', CBR_Status = ''PASS'', CBR_ActualValue = ''TamperProtection: Enabled'', CBR_ExpectedValue = ''TamperProtection: Enabled'', CBR_Rationale = ''Tamper protection blocks malicious disabling of security tools.'', CBR_RemediationScript = ''Set-MpPreference -EnableTamperProtection $true'', CBR_EvaluatedAt = now\<rparr>,
      \<lparr>CBR_RuleID = ''CIS-1.5.1'', CBR_RuleTitle = ''Ensure SMBv1 (Legacy Protocol) is Completely Disabled'', CBR_BenchmarkName = ''CIS Microsoft Windows 11 Enterprise Benchmark v3.0.0'', CBR_BenchmarkLevel = ''Level 1'', CBR_Category = ''Network Security'', CBR_Status = ''PASS'', CBR_ActualValue = ''SMBv1: Disabled'', CBR_ExpectedValue = ''SMBv1: Disabled'', CBR_Rationale = ''SMBv1 is vulnerable to remote code execution attacks.'', CBR_RemediationScript = ''Disable-WindowsOptionalFeature -Online -FeatureName smb1protocol -NoRestart'', CBR_EvaluatedAt = now\<rparr>]"

text \<open>\<open>m[key].(string)\<close>, with a default for a missing, empty or other value.\<close>

definition text_field :: "telemetry_map \<Rightarrow> string \<Rightarrow> string \<Rightarrow> string" where
  "text_field m key dflt = (case map_of m key of Some (JStr s) \<Rightarrow> if s = [] then dflt else s | _ \<Rightarrow> dflt)"

definition replace_char :: "char \<Rightarrow> char \<Rightarrow> string \<Rightarrow> string" where
  "replace_char a b s = map (\<lambda>c. if c = a then b else c) s"

text \<open>The policy on port 5985 and what follows from it: whether the target is asked over plain HTTP, and the
  exception recorded when it is.\<close>

definition is_plain_http :: "EndpointScanTarget \<Rightarrow> bool" where
  "is_plain_http target \<longleftrightarrow> ET_Port target = 5985 \<or> ET_Protocol target = ''winrm_http''"

definition cleartext_exception :: "time \<Rightarrow> EndpointScanTarget \<Rightarrow> ComplianceException" where
  "cleartext_exception now target =
     \<lparr>CXE_Timestamp = now, CXE_Severity = ''CRITICAL'', CXE_RuleID = ''COMPLIANCE_EXCEPTION_WINRM_UNENCRYPTED_5985'',
      CXE_Description = ''Unencrypted WinRM over HTTP port 5985 used under explicit per-subnet override. Secret material and CIM telemetry in cleartext on wire.'',
      CXE_TargetHost = ET_IPAddress target, CXE_Actor = ''gateway_scanner''\<rparr>"

definition cis_score :: "CISBenchmarkResult list \<Rightarrow> rat" where
  "cis_score results =
     (if results = [] then 0
      else rat_of_nat (length (filter (\<lambda>c. CBR_Status c = ''PASS'') results)) / rat_of_nat (length results) * 100)"

definition online_result :: "probe_env \<Rightarrow> string \<Rightarrow> ComplianceException list \<Rightarrow> EndpointScanTarget \<Rightarrow> telemetry_map \<Rightarrow> EndpointScanResult" where
  "online_result env scheme exceptions target telemetry =
     (let cisResults = evaluateCISWindowsBenchmarks (PV_now env) telemetry;
          hostname = (if ET_Hostname target = []
                      then text_field telemetry ''hostname'' (''HOST-'' @ replace_char (CHR ''.'') (CHR ''-'') (ET_IPAddress target))
                      else ET_Hostname target)
      in \<lparr>ER_EndpointID = ''host-'' @ to_lower (replace_char (CHR '' '') (CHR ''-'') hostname),
          ER_Hostname = hostname,
          ER_Domain = text_field telemetry ''domain'' ''CORP.ENDPOINTGUARD.LOCAL'',
          ER_IPAddress = ET_IPAddress target,
          ER_MACAddress = text_field telemetry ''mac_address'' ''00:1A:2B:3C:4D:5E'',
          ER_OSName = text_field telemetry ''os_name'' ''Microsoft Windows 11 Enterprise 23H2'',
          ER_OSBuild = text_field telemetry ''os_build'' ''22631.3296'',
          ER_SerialNumber = text_field telemetry ''serial_number'' ''8XKJ9201'',
          ER_Manufacturer = text_field telemetry ''manufacturer'' ''Dell Inc.'',
          ER_Model = text_field telemetry ''model'' ''Latitude 7440'',
          ER_ChassisType = text_field telemetry ''chassis_type'' ''Laptop'',
          ER_Status = ''online'',
          ER_AgentlessProtocol = ''winrm_'' @ scheme,
          ER_ComplianceScore = cis_score cisResults,
          ER_ComplianceExceptions = exceptions,
          ER_Hardware = extractHardwareTelemetry telemetry,
          ER_Security = extractSecurityTelemetry telemetry,
          ER_CISResults = cisResults,
          ER_ScannedAt = PV_now env,
          ER_ScanDurationMs = PV_ms env,
          ER_ErrorMessage = []\<rparr>)"

text \<open>The probe of a target whose transport is allowed.\<close>

definition probe_scheme :: "EndpointScanTarget \<Rightarrow> string" where
  "probe_scheme target = (if is_plain_http target then ''http'' else ''https'')"

definition probe_url :: "EndpointScanTarget \<Rightarrow> string" where
  "probe_url target =
     (let port = (if ET_Port target = 0 then (if is_plain_http target then 5985 else 5986) else ET_Port target)
      in probe_scheme target @ ''://'' @ ET_IPAddress target @ '':'' @ dec_int port @ ''/wsman'')"

definition probe_exceptions :: "probe_env \<Rightarrow> EndpointScanTarget \<Rightarrow> ComplianceException list" where
  "probe_exceptions env target = (if is_plain_http target then [cleartext_exception (PV_now env) target] else [])"

definition winrm_error :: "probe_env \<Rightarrow> EndpointScanTarget \<Rightarrow> string \<Rightarrow> ComplianceException list \<Rightarrow> string \<Rightarrow> EndpointScanResult" where
  "winrm_error env target scheme exceptions err =
     zero_result\<lparr>ER_IPAddress := ET_IPAddress target, ER_Hostname := ET_Hostname target, ER_Status := ''error'',
       ER_AgentlessProtocol := ''winrm_'' @ scheme, ER_ComplianceExceptions := exceptions, ER_ErrorMessage := err,
       ER_ScannedAt := PV_now env, ER_ScanDurationMs := PV_ms env\<rparr>"

definition winrm_probe :: "probe_env \<Rightarrow> EndpointScanTarget \<Rightarrow> wsman_request option \<times> EndpointScanResult option \<times> string option" where
  "winrm_probe env target =
     (let (req, out) = queryWinRMEndpoint env (\<not> is_plain_http target) (probe_url target) target
      in (req,
          case out of
            Inl err \<Rightarrow> (Some (winrm_error env target (probe_scheme target) (probe_exceptions env target) err), Some err)
          | Inr telemetry \<Rightarrow>
              (Some (online_result env (probe_scheme target) (probe_exceptions env target) target telemetry), None)))"

definition ScanEndpoint :: "probe_env \<Rightarrow> WinRMScanner \<Rightarrow> EndpointScanTarget
    \<Rightarrow> wsman_request option \<times> EndpointScanResult option \<times> string option" where
  "ScanEndpoint env w target =
     (if is_plain_http target \<and> \<not> WS_allowInsecureHTTP w \<and> \<not> ET_AllowInsecureHTTP target
      then (None, Some (winrm_error env target ''http'' [] ErrWinRMInsecureRefused), Some ErrWinRMInsecureRefused)
      else winrm_probe env target)"

section \<open>Management controllers\<close>

definition ErrLegacySNMPForbidden :: string where
  "ErrLegacySNMPForbidden =
     ''bmc: SNMPv1 and SNMPv2c are strictly forbidden due to plaintext credentials '' @ [CHR 0xE2, CHR 0x80, CHR 0x94] @ '' use SNMPv3 authPriv''"

definition ErrSSHHostKeyMismatch :: string where
  "ErrSSHHostKeyMismatch =
     ''bmc: SSH host key does not match pinned public key fingerprint '' @ [CHR 0xE2, CHR 0x80, CHR 0x94] @ '' potential MITM attack''"

definition ErrSSHHostKeyUnpinned :: string where
  "ErrSSHHostKeyUnpinned =
     ''bmc: SSH connection refused because no pinned host key was provided''"

definition ErrBMCConnectionFailed :: string where
  "ErrBMCConnectionFailed =
     ''bmc: management controller connection failed''"

record BMCScanner =
  BS_timeout :: duration
  BS_pinnedHostKeys :: "string \<rightharpoonup> string"

definition NewBMCScanner :: "duration \<Rightarrow> (string \<rightharpoonup> string) option \<Rightarrow> BMCScanner" where
  "NewBMCScanner timeout pinned =
     \<lparr>BS_timeout = (if timeout \<le> 0 then 20 * Second else timeout),
      BS_pinnedHostKeys = (case pinned of None \<Rightarrow> Map.empty | Some m \<Rightarrow> m)\<rparr>"

definition PinHostKey :: "BMCScanner \<Rightarrow> string \<Rightarrow> string \<Rightarrow> BMCScanner" where
  "PinHostKey b hostPort fingerprint = b\<lparr>BS_pinnedHostKeys := (BS_pinnedHostKeys b)(hostPort \<mapsto> fingerprint)\<rparr>"

text \<open>What an SSH probe meets: the dial, the key the server shows, the rest of the handshake, the session. The
  password is sent in the handshake only after the host key callback has accepted.\<close>

record ssh_env =
  SHE_now :: time
  SHE_ms :: int
  SHE_dial_error :: "string option"
  SHE_host_key :: string
  SHE_handshake_error :: "string option"
  SHE_session_error :: "string option"

definition host_key_callback :: "(string \<Rightarrow> string) \<Rightarrow> string \<Rightarrow> string \<Rightarrow> string option" where
  "host_key_callback sha256hex pinnedFingerprint key =
     (let actualFingerprint = ''SHA256:'' @ sha256hex key
      in if \<not> equal_fold actualFingerprint pinnedFingerprint
         then Some (ErrSSHHostKeyMismatch @ '': expected '' @ pinnedFingerprint @ '', got '' @ actualFingerprint)
         else None)"

definition bmc_hardware :: HardwareTelemetry where
  "bmc_hardware =
     \<lparr>HWT_CPUDetails = [(''name'', JStr (''Intel(R) Xeon(R) Platinum 8370C CPU @ 2.80GHz'')), (''sockets'', JNum 2), (''cores'', JNum 16)],
     HWT_MemoryDetails = [(''total_bytes'', JNum 68719476736), (''slots_used'', JNum 4), (''total_slots'', JNum 8)],
     HWT_StorageDetails = [(''disks'', JArr [JObj [(''model'', JStr ''PERC H755 Front RAID Array''), (''size_bytes'', JNum 214748364800)]])],
     HWT_NetworkDetails = [],
     HWT_BIOSDetails = [(''version'', JStr ''2.8.2''), (''secure_boot'', JBool True)],
     HWT_TPMDetails = [(''present'', JBool True), (''spec_version'', JStr ''2.0''), (''enabled'', JBool True)]\<rparr>"

definition bmc_security :: SecurityPostureTelemetry where
  "bmc_security =
     \<lparr>SPT_BitLockerStatus = [],
     SPT_DefenderStatus = [],
     SPT_FirewallStatus = [(''domain_profile'', JBool True)],
     SPT_UACStatus = [(''admin_approval_mode'', JBool True)],
     SPT_RebootPending = [],
     SPT_CutoverReadiness = [],
     SPT_Hotfixes = [],
     SPT_LocalAdmins = []\<rparr>"

definition bmc_cis :: "time \<Rightarrow> string \<Rightarrow> CISBenchmarkResult list" where
  "bmc_cis now pinnedFingerprint =
     [\<lparr>CBR_RuleID = ''CIS-BMC-1.1'', CBR_RuleTitle = ''Ensure SSH Host Key Pinning is Enforced on Management Controllers'', CBR_BenchmarkName = ''CIS Server Management Controller Benchmark v1.0'', CBR_BenchmarkLevel = ''Level 1'', CBR_Category = ''Management Interface'', CBR_Status = ''PASS'', CBR_ActualValue = ''Pinned Fingerprint: '' @ pinnedFingerprint, CBR_ExpectedValue = ''Pinned Host Key Matching Stored Configuration'', CBR_Rationale = [], CBR_RemediationScript = [], CBR_EvaluatedAt = now\<rparr>]"

definition bmc_result :: "time \<Rightarrow> int \<Rightarrow> EndpointScanTarget \<Rightarrow> string \<Rightarrow> EndpointScanResult" where
  "bmc_result now ms target pinnedFingerprint =
     (let hostname = (if ET_Hostname target = [] then ''BMC-'' @ replace_char (CHR ''.'') (CHR ''-'') (ET_IPAddress target) else ET_Hostname target)
      in \<lparr>ER_EndpointID = ''bmc-'' @ to_lower (replace_char (CHR '' '') (CHR ''-'') hostname),
     ER_Hostname = hostname,
     ER_Domain = ''DATACENTER.BMC.LOCAL'',
     ER_IPAddress = ET_IPAddress target,
     ER_MACAddress = ''52:54:00:12:34:56'',
     ER_OSName = ''Dell Integrated Remote Access Controller 9 (iDRAC9) v6.10.30'',
     ER_OSBuild = ''6.10.30.00'',
     ER_SerialNumber = ''VMware-56 4d 8a 91'',
     ER_Manufacturer = ''Dell Inc.'',
     ER_Model = ''PowerEdge R750'',
     ER_ChassisType = ''Server'',
     ER_Status = ''online'',
     ER_AgentlessProtocol = ''ssh_pinned'',
     ER_ComplianceScore = 98,
     ER_ComplianceExceptions = [],
     ER_Hardware = bmc_hardware,
     ER_Security = bmc_security,
     ER_CISResults = bmc_cis now pinnedFingerprint,
     ER_ScannedAt = now,
     ER_ScanDurationMs = ms,
     ER_ErrorMessage = []\<rparr>)"

definition ScanSSH :: "(string \<Rightarrow> string) \<Rightarrow> ssh_env \<Rightarrow> BMCScanner \<Rightarrow> EndpointScanTarget \<Rightarrow> string
    \<Rightarrow> EndpointScanResult option \<times> string option" where
  "ScanSSH sha256hex env b target pinnedFingerprint0 =
     (let port = (if ET_Port target = 0 then 22 else ET_Port target);
          hostPort = ET_IPAddress target @ '':'' @ dec_int port
      in case (if pinnedFingerprint0 = [] then BS_pinnedHostKeys b hostPort else Some pinnedFingerprint0) of
           None \<Rightarrow> (None, Some (ErrSSHHostKeyUnpinned @ '' for target '' @ hostPort))
         | Some pinnedFingerprint \<Rightarrow>
             (case SHE_dial_error env of
                Some err \<Rightarrow> (None, Some (ErrBMCConnectionFailed @ '': dial '' @ hostPort @ '': '' @ err))
              | None \<Rightarrow>
                  (case (case host_key_callback sha256hex pinnedFingerprint (SHE_host_key env) of
                           Some err \<Rightarrow> Some err | None \<Rightarrow> SHE_handshake_error env) of
                     Some err \<Rightarrow> (None, Some (ErrBMCConnectionFailed @ '': SSH handshake failed: '' @ err))
                   | None \<Rightarrow>
                       (case SHE_session_error env of
                          Some err \<Rightarrow> (None, Some (''bmc: failed to open SSH session: '' @ err))
                        | None \<Rightarrow> (Some (bmc_result (SHE_now env) (SHE_ms env) target pinnedFingerprint), None)))))"

definition snmp_hardware :: HardwareTelemetry where
  "snmp_hardware =
     \<lparr>HWT_CPUDetails = [(''name'', JStr (''Intel(R) Xeon(R) Gold 6248R CPU @ 3.00GHz'')), (''sockets'', JNum 2), (''cores'', JNum 24)],
     HWT_MemoryDetails = [(''total_bytes'', JNum 137438953472), (''slots_used'', JNum 8), (''total_slots'', JNum 24)],
     HWT_StorageDetails = [(''disks'', JArr [JObj [(''model'', JStr ''HPE Smart Array P408i-a SR Gen10''), (''size_bytes'', JNum 1920383410176)]])],
     HWT_NetworkDetails = [],
     HWT_BIOSDetails = [(''version'', JStr ''U30 v2.68''), (''secure_boot'', JBool True)],
     HWT_TPMDetails = [(''present'', JBool True), (''spec_version'', JStr ''2.0''), (''enabled'', JBool True)]\<rparr>"

definition snmp_security :: SecurityPostureTelemetry where
  "snmp_security =
     \<lparr>SPT_BitLockerStatus = [],
     SPT_DefenderStatus = [],
     SPT_FirewallStatus = [(''domain_profile'', JBool True)],
     SPT_UACStatus = [(''admin_approval_mode'', JBool True)],
     SPT_RebootPending = [],
     SPT_CutoverReadiness = [],
     SPT_Hotfixes = [],
     SPT_LocalAdmins = []\<rparr>"

definition snmp_cis :: "time \<Rightarrow> CISBenchmarkResult list" where
  "snmp_cis now =
     [\<lparr>CBR_RuleID = ''CIS-SNMP-1.1'', CBR_RuleTitle = ''Ensure SNMPv3 AuthPriv is Required (SNMPv1/v2c Disabled)'', CBR_BenchmarkName = ''CIS SNMP Security Benchmark v1.0'', CBR_BenchmarkLevel = ''Level 1'', CBR_Category = ''Network Management'', CBR_Status = ''PASS'', CBR_ActualValue = ''SNMPv3 AuthPriv (SHA-256 / AES-256)'', CBR_ExpectedValue = ''SNMPv3 with Authentication and Privacy Enabled'', CBR_Rationale = [], CBR_RemediationScript = [], CBR_EvaluatedAt = now\<rparr>]"

text \<open>The SNMPv3 scan contacts nothing: it refuses legacy versions and otherwise reports an online controller.\<close>

definition ScanSNMPv3 :: "time \<Rightarrow> int \<Rightarrow> EndpointScanTarget \<Rightarrow> EndpointScanResult option \<times> string option" where
  "ScanSNMPv3 now ms target =
     (if equal_fold (ET_Protocol target) ''snmp_v1'' \<or> equal_fold (ET_Protocol target) ''snmp_v2c''
         \<or> equal_fold (ET_Protocol target) ''snmp''
      then (None, Some ErrLegacySNMPForbidden)
      else
        (let hostname = (if ET_Hostname target = [] then ''SNMP3-'' @ replace_char (CHR ''.'') (CHR ''-'') (ET_IPAddress target) else ET_Hostname target)
         in (Some \<lparr>ER_EndpointID = ''snmp3-'' @ to_lower (replace_char (CHR '' '') (CHR ''-'') hostname),
     ER_Hostname = hostname,
     ER_Domain = ''DATACENTER.SNMP.LOCAL'',
     ER_IPAddress = ET_IPAddress target,
     ER_MACAddress = ''52:54:00:99:88:77'',
     ER_OSName = ''HPE Integrated Lights-Out 5 (iLO 5) v2.81'',
     ER_OSBuild = ''2.81'',
     ER_SerialNumber = ''HPE-ILO5-998877'',
     ER_Manufacturer = ''Hewlett Packard Enterprise'',
     ER_Model = ''ProLiant DL380 Gen10'',
     ER_ChassisType = ''Server'',
     ER_Status = ''online'',
     ER_AgentlessProtocol = ''snmp_v3_authpriv'',
     ER_ComplianceScore = 100,
     ER_ComplianceExceptions = [],
     ER_Hardware = snmp_hardware,
     ER_Security = snmp_security,
     ER_CISResults = snmp_cis now,
     ER_ScannedAt = now,
     ER_ScanDurationMs = ms,
     ER_ErrorMessage = []\<rparr>, None)))"

section \<open>DCOM\<close>

definition ErrDCOMConnectionRefused :: string where
  "ErrDCOMConnectionRefused =
     ''dcom: remote host refused RPC connection on port 135/445''"

definition NewDCOMScanner :: "duration \<Rightarrow> duration" where
  "NewDCOMScanner timeout = (if timeout \<le> 0 then 15 * Second else timeout)"

definition dcom_hardware :: HardwareTelemetry where
  "dcom_hardware =
     \<lparr>HWT_CPUDetails = [(''name'', JStr (''Intel(R) Xeon(R) Gold 6348 CPU @ 2.60GHz'')), (''architecture'', JStr ''x64''), (''cores'', JNum 8)],
     HWT_MemoryDetails = [(''total_bytes'', JNum 34359738368)],
     HWT_StorageDetails = [],
     HWT_NetworkDetails = [],
     HWT_BIOSDetails = [(''version'', JStr ''VMW22.0001''), (''secure_boot'', JBool True)],
     HWT_TPMDetails = [(''present'', JBool True), (''spec_version'', JStr ''2.0''), (''enabled'', JBool True)]\<rparr>"

definition dcom_security :: SecurityPostureTelemetry where
  "dcom_security =
     \<lparr>SPT_BitLockerStatus = [(''volumes'', JArr [JObj [(''drive_letter'', JStr ''C:''), (''protection_status'', JNum 1), (''encryption_method'', JStr ''XtsAes256'')]])],
     SPT_DefenderStatus = [(''realtime_enabled'', JBool True), (''cloud_protection'', JBool True)],
     SPT_FirewallStatus = [(''domain_profile'', JBool True), (''private_profile'', JBool True), (''public_profile'', JBool True)],
     SPT_UACStatus = [],
     SPT_RebootPending = [(''is_reboot_required'', JBool False)],
     SPT_CutoverReadiness = [(''windows_11_ready'', JBool True), (''tpm20_passed'', JBool True)],
     SPT_Hotfixes = [],
     SPT_LocalAdmins = []\<rparr>"

definition dcom_cis :: "time \<Rightarrow> CISBenchmarkResult list" where
  "dcom_cis now =
     [\<lparr>CBR_RuleID = ''CIS-1.1.1'', CBR_RuleTitle = ''Ensure BitLocker Drive Encryption is Enabled on OS Volume'', CBR_BenchmarkName = ''CIS Microsoft Windows Server 2022 Benchmark v2.0.0'', CBR_BenchmarkLevel = ''Level 1'', CBR_Category = ''Storage & Encryption'', CBR_Status = ''PASS'', CBR_ActualValue = ''ProtectionStatus: 1 (Encrypted)'', CBR_ExpectedValue = ''ProtectionStatus: 1'', CBR_Rationale = [], CBR_RemediationScript = ''Enable-BitLocker -MountPoint '' @ [CHR 0x27] @ ''C:'' @ [CHR 0x27], CBR_EvaluatedAt = now\<rparr>]"

definition dcom_result :: "time \<Rightarrow> int \<Rightarrow> EndpointScanTarget \<Rightarrow> EndpointScanResult" where
  "dcom_result now ms target =
     \<lparr>ER_EndpointID = ''ep-'' @ replace_char (CHR ''.'') (CHR ''-'') (ET_IPAddress target),
     ER_Hostname = ET_Hostname target,
     ER_Domain = ''CORP.LOCAL'',
     ER_IPAddress = ET_IPAddress target,
     ER_MACAddress = ''00:1A:2B:3C:4D:5E'',
     ER_OSName = ''Microsoft Windows Server 2022 Datacenter'',
     ER_OSBuild = ''20348.2405'',
     ER_SerialNumber = ''VMware-42 1a 2b 3c'',
     ER_Manufacturer = ''VMware, Inc.'',
     ER_Model = ''VMware Virtual Platform'',
     ER_ChassisType = ''Server'',
     ER_Status = ''online'',
     ER_AgentlessProtocol = ''dcom_rpc_packet_privacy'',
     ER_ComplianceScore = 88,
     ER_ComplianceExceptions = [],
     ER_Hardware = dcom_hardware,
     ER_Security = dcom_security,
     ER_CISResults = dcom_cis now,
     ER_ScannedAt = now,
     ER_ScanDurationMs = ms,
     ER_ErrorMessage = []\<rparr>"

definition ScanDCOMEndpoint :: "time \<Rightarrow> int \<Rightarrow> string option \<Rightarrow> EndpointScanTarget \<Rightarrow> EndpointScanResult option \<times> string option" where
  "ScanDCOMEndpoint now ms dial_error target =
     (case dial_error of
        Some err \<Rightarrow>
          (Some (zero_result\<lparr>ER_IPAddress := ET_IPAddress target, ER_Hostname := ET_Hostname target, ER_Status := ''offline'',
             ER_AgentlessProtocol := ''dcom_rpc'', ER_ErrorMessage := ''RPC endpoint mapper unreachable: '' @ err,
             ER_ScannedAt := now, ER_ScanDurationMs := ms\<rparr>),
           Some ErrDCOMConnectionRefused)
      | None \<Rightarrow>
          if ET_SecretValue target = [] \<and> ET_Username target \<noteq> []
          then (None, Some ''dcom: 401 Unauthorized - invalid or missing credentials for WMI namespace'')
          else (Some (dcom_result now ms target), None))"

section \<open>What goes over the wire\<close>

lemma queryWinRMEndpoint_request:
  "queryWinRMEndpoint env tls url target = (Some r, out) \<Longrightarrow> WQ_tls r = tls"
  by (auto simp: queryWinRMEndpoint_def Let_def split: option.splits)

lemma cis_all_pass: "\<forall>c \<in> set (evaluateCISWindowsBenchmarks now m). CBR_Status c = ''PASS''"
  by (simp add: evaluateCISWindowsBenchmarks_def)

lemma cis_full_score: "cis_score (evaluateCISWindowsBenchmarks now m) = 100"
proof -
  have "filter (\<lambda>c. CBR_Status c = ''PASS'') (evaluateCISWindowsBenchmarks now m) = evaluateCISWindowsBenchmarks now m"
    by (rule filter_True) (rule cis_all_pass)
  moreover have "evaluateCISWindowsBenchmarks now m \<noteq> []" by (simp add: evaluateCISWindowsBenchmarks_def)
  ultimately show ?thesis by (simp add: cis_score_def)
qed

text \<open>Whatever a host answers, a completed WinRM scan reports full compliance and the same hardware.\<close>

lemma scan_reports_full_compliance:
  assumes "ScanEndpoint env w target = (req, Some r, None)"
  shows "ER_ComplianceScore r = 100" "\<forall>c \<in> set (ER_CISResults r). CBR_Status c = ''PASS''"
    "ER_Hardware r = extractHardwareTelemetry []" "ER_Security r = extractSecurityTelemetry []"
proof -
  obtain scheme exceptions telemetry where r: "r = online_result env scheme exceptions target telemetry"
    using assms by (auto simp: ScanEndpoint_def winrm_probe_def Let_def split: if_splits prod.splits sum.splits)
  show "ER_ComplianceScore r = 100" by (simp add: r online_result_def Let_def cis_full_score)
  show "\<forall>c \<in> set (ER_CISResults r). CBR_Status c = ''PASS''" using cis_all_pass by (simp add: r online_result_def Let_def)
  show "ER_Hardware r = extractHardwareTelemetry []" "ER_Security r = extractSecurityTelemetry []"
    by (simp_all add: r online_result_def Let_def extractHardwareTelemetry_def extractSecurityTelemetry_def)
qed

lemma winrm_probe_shape:
  assumes "winrm_probe env target = (req, res, err)"
  shows "req = Some q \<Longrightarrow> WQ_tls q = (\<not> is_plain_http target)"
    and "\<exists>r. res = Some r \<and> ER_ComplianceExceptions r = probe_exceptions env target
      \<and> ER_Status r = (if err = None then ''online'' else ''error'')"
proof -
  obtain rq out where q: "queryWinRMEndpoint env (\<not> is_plain_http target) (probe_url target) target = (rq, out)" by fastforce
  show "req = Some q \<Longrightarrow> WQ_tls q = (\<not> is_plain_http target)"
    using assms q queryWinRMEndpoint_request by (auto simp: winrm_probe_def Let_def)
  show "\<exists>r. res = Some r \<and> ER_ComplianceExceptions r = probe_exceptions env target
      \<and> ER_Status r = (if err = None then ''online'' else ''error'')"
    using assms q by (cases out) (auto simp: winrm_probe_def Let_def winrm_error_def online_result_def)
qed


text \<open>Witness of C31: a controller that shows the pinned key, and a legacy target.\<close>

definition demo_target :: "string \<Rightarrow> EndpointScanTarget" where
  "demo_target proto = \<lparr>ET_IPAddress = ''10.0.0.1'', ET_Hostname = [], ET_Port = 0, ET_Protocol = proto, ET_Username = ''u'',
     ET_SecretValue = ''p'', ET_AllowInsecureHTTP = False\<rparr>"


text \<open>A login that Windows rejects is not taken for an authentication failure by the pool: the same password is
  offered again until the retries are used up.\<close>

lemma rejected_login_is_repeated:
  assumes "0 \<le> WO_MaxRetries opts" "\<forall>k. \<not> TKE_cancelled env k" "\<not> is_plain_http (SK_Target task)"
    and "\<forall>k. TKE_scan env k (SK_Target task) = snd (ScanEndpoint (penv k) w (SK_Target task))"
    and "\<forall>k. PV_build_error (penv k) = None \<and> PV_exchange (penv k) = Answered 401 []"
  shows "length (fst (processTaskWithRetry opts env task)) = nat (WO_MaxRetries opts)"
proof -
  have "\<exists>r. TKE_scan env k (SK_Target task) = (Some r, Some ErrWinRMAuthFailed)" for k
    using assms(3-5) by (simp add: ScanEndpoint_def winrm_probe_def queryWinRMEndpoint_def Let_def)
  moreover have no: "\<not> isAuthenticationFailure ErrWinRMAuthFailed"
    unfolding ErrWinRMAuthFailed_def by (rule winrm_rejection_not_recognised)
  ultimately have "\<not> settles env (SK_Target task) k" for k
  proof -
    obtain r where "TKE_scan env k (SK_Target task) = (Some r, Some ErrWinRMAuthFailed)"
      using \<open>\<And>k. \<exists>r. TKE_scan env k (SK_Target task) = (Some r, Some ErrWinRMAuthFailed)\<close> by blast
    then show ?thesis using no by (simp add: settles_def)
  qed
  then have f: "find (settles env (SK_Target task)) ks = None" for ks by (simp add: find_None_iff)
  have n: "nat (WO_MaxRetries opts + 1) = Suc (nat (WO_MaxRetries opts))" "WO_MaxRetries opts = int (nat (WO_MaxRetries opts))"
    using assms(1) by simp_all
  have "retry_loop opts env task [0..<Suc (nat (WO_MaxRetries opts))] =
    (let k = (case find (settles env (SK_Target task)) [0..<Suc (nat (WO_MaxRetries opts))] of None \<Rightarrow> nat (WO_MaxRetries opts) | Some k \<Rightarrow> k)
     in (map (pause_after opts env) [0..<k], decided env (SK_Target task) k))"
    by (rule retry_loop_exact [OF le0 n(2)]) (simp add: assms(2))
  then show ?thesis unfolding processTaskWithRetry_def n(1) f by (simp add: Let_def del: upt_Suc)
qed

end
