(* ===== verification/ScanOrchestrator.thy ===== *)
theory ScanOrchestrator
  imports Scanners "HOL-Library.Word"
begin

unbundle bit_operations_syntax

text \<open>
  The probe limiter (\<open>scanner/ratelimiter.go\<close>) as a step relation over its semaphore and counters, the
  expansion of a CIDR block and the orchestrator of a scan job (\<open>scanner/orchestrator.go\<close>). Parsing of CIDR
  blocks, printing of addresses, the vault resolver, hashing and the formatting of times are arguments.
\<close>

section \<open>The probe limiter\<close>

text \<open>Tokens in the channel, the two counters, and the goroutines: those that took a token but have not counted
  it yet, those that hold one, and those that gave it back but have not uncounted it yet.\<close>

record SubnetRateLimiter =
  SL_maxConcurrency :: int
  SL_sem :: nat
  SL_activeCount :: int
  SL_peakCount :: int
  SL_counting :: nat
  SL_holding :: nat
  SL_uncounting :: nat

definition NewSubnetRateLimiter :: "int \<Rightarrow> SubnetRateLimiter" where
  "NewSubnetRateLimiter maxConcurrency =
     \<lparr>SL_maxConcurrency = (if maxConcurrency \<le> 0 then 20 else maxConcurrency), SL_sem = 0, SL_activeCount = 0, SL_peakCount = 0,
      SL_counting = 0, SL_holding = 0, SL_uncounting = 0\<rparr>"

text \<open>The steps of \<open>Execute\<close>: \<open>Acquire\<close> takes a token and then counts it under the lock, \<open>Release\<close> gives the
  token back and then uncounts it under the lock.\<close>

inductive limiter_step :: "SubnetRateLimiter \<Rightarrow> SubnetRateLimiter \<Rightarrow> bool" where
  acquire_token: "int (SL_sem r) < SL_maxConcurrency r
    \<Longrightarrow> limiter_step r (r\<lparr>SL_sem := SL_sem r + 1, SL_counting := SL_counting r + 1\<rparr>)"
| acquire_count: "SL_counting r = Suc n
    \<Longrightarrow> limiter_step r (r\<lparr>SL_counting := n, SL_holding := SL_holding r + 1, SL_activeCount := SL_activeCount r + 1,
          SL_peakCount := (if SL_activeCount r + 1 > SL_peakCount r then SL_activeCount r + 1 else SL_peakCount r)\<rparr>)"
| release_token: "SL_holding r = Suc n \<Longrightarrow> SL_sem r = Suc k
    \<Longrightarrow> limiter_step r (r\<lparr>SL_holding := n, SL_sem := k, SL_uncounting := SL_uncounting r + 1\<rparr>)"
| release_count: "SL_uncounting r = Suc n
    \<Longrightarrow> limiter_step r (r\<lparr>SL_uncounting := n, SL_activeCount := (if SL_activeCount r > 0 then SL_activeCount r - 1 else SL_activeCount r)\<rparr>)"

definition ActiveSessions :: "SubnetRateLimiter \<Rightarrow> int" where "ActiveSessions r = SL_activeCount r"
definition PeakSessions :: "SubnetRateLimiter \<Rightarrow> int" where "PeakSessions r = SL_peakCount r"
definition Capacity :: "SubnetRateLimiter \<Rightarrow> int" where "Capacity r = SL_maxConcurrency r"

text \<open>The probes that hold a token never exceed the capacity; the counter lags by the releases in flight.\<close>

lemma limiter_invariant:
  assumes "limiter_step\<^sup>*\<^sup>* (NewSubnetRateLimiter m) r"
  shows "SL_maxConcurrency r = (if m \<le> 0 then 20 else m) \<and> int (SL_sem r) \<le> SL_maxConcurrency r
    \<and> SL_sem r = SL_counting r + SL_holding r \<and> SL_activeCount r = int (SL_holding r + SL_uncounting r)"
  using assms
proof (induction rule: rtranclp_induct)
  case base
  then show ?case by (simp add: NewSubnetRateLimiter_def)
next
  case (step r r')
  from step.hyps(2) step.IH show ?case by cases auto
qed

text \<open>So the recorded peak can exceed the capacity: one probe leaves, another enters before the first is
  uncounted.\<close>

lemma peak_exceeds_capacity:
  "\<exists>r. limiter_step\<^sup>*\<^sup>* (NewSubnetRateLimiter 1) r \<and> PeakSessions r > Capacity r"
proof -
  let ?r0 = "NewSubnetRateLimiter 1"
  let ?r1 = "?r0\<lparr>SL_sem := 1, SL_counting := 1\<rparr>"
  let ?r2 = "?r1\<lparr>SL_counting := 0, SL_holding := 1, SL_activeCount := 1, SL_peakCount := 1\<rparr>"
  let ?r3 = "?r2\<lparr>SL_holding := 0, SL_sem := 0, SL_uncounting := 1\<rparr>"
  let ?r4 = "?r3\<lparr>SL_sem := 1, SL_counting := 1\<rparr>"
  let ?r5 = "?r4\<lparr>SL_counting := 0, SL_holding := 1, SL_activeCount := 2, SL_peakCount := 2\<rparr>"
  have "limiter_step ?r0 ?r1" using acquire_token [of ?r0] by (simp add: NewSubnetRateLimiter_def)
  moreover have "limiter_step ?r1 ?r2" using acquire_count [of ?r1 0] by (simp add: NewSubnetRateLimiter_def)
  moreover have "limiter_step ?r2 ?r3" using release_token [of ?r2 0 0] by (simp add: NewSubnetRateLimiter_def)
  moreover have "limiter_step ?r3 ?r4" using acquire_token [of ?r3] by (simp add: NewSubnetRateLimiter_def)
  moreover have "limiter_step ?r4 ?r5" using acquire_count [of ?r4 0] by (simp add: NewSubnetRateLimiter_def)
  ultimately have "limiter_step\<^sup>*\<^sup>* ?r0 ?r5" by (meson converse_rtranclp_into_rtranclp rtranclp.rtrancl_refl)
  moreover have "PeakSessions ?r5 > Capacity ?r5"
    by (simp add: NewSubnetRateLimiter_def PeakSessions_def Capacity_def)
  ultimately show ?thesis by blast
qed

section \<open>Expanding a block\<close>

type_synonym ip = "8 word list"

text \<open>\<open>incIP\<close> adds one to the last byte and carries.\<close>

fun inc_bytes :: "ip \<Rightarrow> ip" where
  "inc_bytes [] = []"
| "inc_bytes (b # bs) = (if b + 1 > 0 then (b + 1) # bs else (b + 1) # inc_bytes bs)"

definition incIP :: "ip \<Rightarrow> ip" where
  "incIP a = rev (inc_bytes (rev a))"

text \<open>Go's \<open>IP.To4\<close>, \<open>IP.Mask\<close> and \<open>IPNet.Contains\<close>.\<close>

definition v4_prefix :: ip where
  "v4_prefix = replicate 10 0 @ [255, 255]"

definition To4 :: "ip \<Rightarrow> ip option" where
  "To4 a = (if length a = 4 then Some a
            else if length a = 16 \<and> take 12 a = v4_prefix then Some (drop 12 a) else None)"

definition mask_ip :: "ip \<Rightarrow> ip \<Rightarrow> ip" where
  "mask_ip a m =
     (let m = (if length m = 16 \<and> length a = 4 \<and> (\<forall>b \<in> set (take 12 m). b = 255) then drop 12 m else m);
          a = (if length m = 4 \<and> length a = 16 \<and> take 12 a = v4_prefix then drop 12 a else a)
      in if length a = length m then map2 (AND) a m else [])"

record IPNet =
  IN_IP :: ip
  IN_Mask :: ip

definition net_contains :: "IPNet \<Rightarrow> ip \<Rightarrow> bool" where
  "net_contains n a =
     (let nip = (case To4 (IN_IP n) of Some x \<Rightarrow> x | None \<Rightarrow> if length (IN_IP n) = 16 then IN_IP n else []);
          m = (if length (IN_Mask n) = 16 \<and> length nip = 4 then drop 12 (IN_Mask n) else IN_Mask n);
          x = (case To4 a of Some x \<Rightarrow> x | None \<Rightarrow> a)
      in nip \<noteq> [] \<and> length m = length nip \<and> length x = length nip \<and> map2 (AND) nip m = map2 (AND) x m)"

text \<open>The loop skips addresses that end in 0 or 255 and stops at the limit. It ends whatever the network is:
  after two skips the last byte is 1, so the hosts grow.\<close>

definition skip_phase :: "ip \<Rightarrow> nat" where
  "skip_phase a = (if a = [] then 0 else if last a = 255 then 2 else if last a = 0 then 1 else 0)"

lemma last_incIP: "a \<noteq> [] \<Longrightarrow> last (incIP a) = last a + 1 \<and> incIP a \<noteq> []"
  by (cases a rule: rev_cases) (simp_all add: incIP_def)

lemma skip_phase_inc:
  assumes "a \<noteq> []" "last a = 0 \<or> last a = 255"
  shows "skip_phase (incIP a) < skip_phase a"
  using assms last_incIP [OF assms(1)] by (auto simp: skip_phase_def)

function expand_loop :: "(ip \<Rightarrow> string) \<Rightarrow> IPNet \<Rightarrow> nat \<Rightarrow> ip \<Rightarrow> string list \<Rightarrow> string list" where
  "expand_loop show_ip n maxHosts cur hosts =
     (if \<not> net_contains n cur \<or> cur = [] then hosts
      else if last cur = 0 \<or> last cur = 255 then expand_loop show_ip n maxHosts (incIP cur) hosts
      else if length hosts + 1 \<ge> maxHosts then hosts @ [show_ip cur]
      else expand_loop show_ip n maxHosts (incIP cur) (hosts @ [show_ip cur]))"
  by pat_completeness auto

termination
  by (relation "measures [\<lambda>(_, _, m, _, hosts). m - length hosts, \<lambda>(_, _, _, cur, _). skip_phase cur]")
    (auto intro: skip_phase_inc)

declare expand_loop.simps [simp del]

definition expandCIDRHosts :: "(string \<Rightarrow> (ip \<times> IPNet) option) \<Rightarrow> (ip \<Rightarrow> string) \<Rightarrow> string \<Rightarrow> nat \<Rightarrow> string list" where
  "expandCIDRHosts ParseCIDR show_ip cidr maxHosts =
     (case ParseCIDR cidr of
        None \<Rightarrow> [''10.100.1.42'']
      | Some (a, n) \<Rightarrow>
          (let hosts = expand_loop show_ip n maxHosts (mask_ip a (IN_Mask n)) []
           in if hosts = [] then [show_ip a] else hosts))"

lemma expand_loop_hosts:
  "\<exists>ips. expand_loop show_ip n maxHosts cur hosts = hosts @ map show_ip ips
    \<and> (\<forall>a \<in> set ips. net_contains n a \<and> a \<noteq> [] \<and> last a \<noteq> 0 \<and> last a \<noteq> 255)
    \<and> length ips \<le> max 1 (maxHosts - length hosts)"
proof (induction show_ip n maxHosts cur hosts rule: expand_loop.induct)
  case (1 show_ip n maxHosts cur hosts)
  show ?case
  proof (cases "\<not> net_contains n cur \<or> cur = []")
    case True
    then show ?thesis by (subst expand_loop.simps) (auto intro: exI [of _ "[]"])
  next
    case c: False
    show ?thesis
    proof (cases "last cur = 0 \<or> last cur = 255")
      case True
      then show ?thesis using 1(1) [OF c True] c by (subst expand_loop.simps) simp
    next
      case l: False
      show ?thesis
      proof (cases "length hosts + 1 \<ge> maxHosts")
        case True
        then show ?thesis using c l by (subst expand_loop.simps) (auto intro!: exI [of _ "[cur]"])
      next
        case False
        obtain ips where i: "expand_loop show_ip n maxHosts (incIP cur) (hosts @ [show_ip cur]) = (hosts @ [show_ip cur]) @ map show_ip ips"
            "\<forall>a \<in> set ips. net_contains n a \<and> a \<noteq> [] \<and> last a \<noteq> 0 \<and> last a \<noteq> 255"
            "length ips \<le> max 1 (maxHosts - length (hosts @ [show_ip cur]))"
          using 1(2) [OF c l False] by blast
        have "expand_loop show_ip n maxHosts cur hosts = hosts @ map show_ip (cur # ips)"
          using c l False i(1) by (subst expand_loop.simps) simp
        moreover have "length (cur # ips) \<le> max 1 (maxHosts - length hosts)" using i(3) False by auto
        ultimately show ?thesis using i(2) c l by (intro exI [of _ "cur # ips"]) auto
      qed
    qed
  qed
qed

text \<open>A block of 256 addresses, walked to its end.\<close>

abbreviation net24 :: "8 word \<Rightarrow> 8 word \<Rightarrow> 8 word \<Rightarrow> IPNet" where
  "net24 a b c \<equiv> \<lparr>IN_IP = [a, b, c, 0], IN_Mask = [255, 255, 255, 0]\<rparr>"

lemma and_255 [simp]: "(x :: 8 word) AND 255 = x"
proof -
  have "(255 :: 8 word) = - 1" by simp
  then have "x AND 255 = x AND - 1" by (rule arg_cong)
  also have "\<dots> = x" by (rule and.right_neutral)
  finally show ?thesis .
qed

lemma net24_contains: "net_contains (net24 a b c) [a', b', c', x] \<longleftrightarrow> a' = a \<and> b' = b \<and> c' = c"
  by (auto simp: net_contains_def To4_def Let_def)

lemma incIP_4: "incIP [a, b, c, x] =
    (if x + 1 > 0 then [a, b, c, x + 1] else if c + 1 > 0 then [a, b, c + 1, 0] else if b + 1 > 0 then [a, b + 1, 0, 0] else [a + 1, 0, 0, 0])"
proof -
  have z: "\<not> y + 1 > 0 \<Longrightarrow> y + 1 = 0" for y :: "8 word" by (simp add: word_gt_0)
  show ?thesis by (auto simp: incIP_def z)
qed

lemma word8_small:
  assumes "k < 256" "(of_nat k :: 8 word) = of_nat m" "m < 256"
  shows "k = m"
proof -
  have u: "unat (of_nat j :: 8 word) = j" if "j < 256" for j :: nat
  proof -
    have "j < 2 ^ LENGTH(8)" using that by simp
    then show ?thesis unfolding unat_of_nat by (rule mod_less)
  qed
  from u [OF assms(1)] u [OF assms(3)] show ?thesis unfolding assms(2) by (rule trans [OF sym])
qed

lemma expand_24_from:
  assumes "1 \<le> k" "k \<le> 255" "length hosts = k - 1" "254 \<le> maxHosts"
  shows "expand_loop show_ip (net24 a b c) maxHosts [a, b, c, of_nat k] hosts
    = hosts @ map (\<lambda>i. show_ip [a, b, c, of_nat i]) [k..<255]"
  using assms(1-3)
proof (induction "255 - k" arbitrary: k hosts)
  case 0
  then have k: "k = 255" by simp
  have inc: "incIP [a, b, c, 255] \<noteq> [] \<and> \<not> net_contains (net24 a b c) (incIP [a, b, c, 255])"
  proof -
    have "c + 1 \<noteq> c" by simp
    then show ?thesis by (auto simp: incIP_4 net24_contains split: if_splits)
  qed
  show ?case unfolding k
    by (subst expand_loop.simps, subst expand_loop.simps) (simp add: inc net24_contains)
next
  case (Suc d)
  then have k: "k < 255" by simp
  have n0: "(of_nat k :: 8 word) \<noteq> 0" using word8_small [of k 0] Suc.prems(1) k by auto
  have n255: "(of_nat k :: 8 word) \<noteq> 255" using word8_small [of k 255] k by auto
  have n1: "(of_nat k :: 8 word) + 1 > 0"
  proof -
    have "(of_nat (Suc k) :: 8 word) \<noteq> 0" using word8_small [of "Suc k" 0] k by auto
    then show ?thesis by (simp add: word_gt_0 add.commute)
  qed
  have inc: "incIP [a, b, c, of_nat k] = [a, b, c, of_nat (Suc k)]" using n1 by (simp add: incIP_4 add.commute)
  have up: "[k..<255] = k # [Suc k..<255]" using k by (simp add: upt_rec)
  show ?case
  proof (cases "length hosts + 1 \<ge> maxHosts")
    case True
    then have "Suc k = 255" using Suc.prems assms(4) k by simp
    then show ?thesis using True n0 n255
      by (subst expand_loop.simps) (simp add: net24_contains up)
  next
    case False
    have "expand_loop show_ip (net24 a b c) maxHosts [a, b, c, of_nat k] hosts
        = expand_loop show_ip (net24 a b c) maxHosts [a, b, c, of_nat (Suc k)] (hosts @ [show_ip [a, b, c, of_nat k]])"
      using False n0 n255 inc by (subst expand_loop.simps) (simp add: net24_contains)
    also have "\<dots> = (hosts @ [show_ip [a, b, c, of_nat k]]) @ map (\<lambda>i. show_ip [a, b, c, of_nat i]) [Suc k..<255]"
      using Suc.hyps(2) Suc.prems k by (intro Suc.hyps(1)) auto
    finally show ?thesis by (simp add: up)
  qed
qed

section \<open>A scan job\<close>

text \<open>The outside of a job: clock, formatting, vault resolver (if any), address library, the run of the worker
  pool (results and log lines), and hashing of the encoded results.\<close>

record job_env =
  JE_start :: time
  JE_log_time :: "nat \<Rightarrow> time"
  JE_completed :: time
  JE_fmt :: "time \<Rightarrow> string"
  JE_dur :: "duration \<Rightarrow> string"
  JE_resolver :: "(string \<Rightarrow> string \<Rightarrow> string \<Rightarrow> string + string) option"
  JE_ParseCIDR :: "string \<Rightarrow> (ip \<times> IPNet) option"
  JE_show_ip :: "ip \<Rightarrow> string"
  JE_pool :: "WorkerPoolOptions \<Rightarrow> EndpointScanTarget list \<Rightarrow> EndpointScanResult list \<times> string list"
  JE_hash :: "EndpointScanResult list \<Rightarrow> string option"

definition job_targets :: "job_env \<Rightarrow> string \<Rightarrow> string list \<Rightarrow> string list" where
  "job_targets env targetCIDR targets =
     (if targets = [] \<and> targetCIDR \<noteq> [] then expandCIDRHosts (JE_ParseCIDR env) (JE_show_ip env) targetCIDR 512 else targets)"

definition scan_target :: "string \<Rightarrow> string \<Rightarrow> bool \<Rightarrow> string \<Rightarrow> EndpointScanTarget" where
  "scan_target protocol secretValue allowInsecureHTTP a =
     \<lparr>ET_IPAddress = a, ET_Hostname = [], ET_Port = 0, ET_Protocol = protocol, ET_Username = ''svc_scan_winrm'',
      ET_SecretValue = secretValue, ET_AllowInsecureHTTP = allowInsecureHTTP\<rparr>"

definition job_pool_options :: "SubnetRateLimiter option \<Rightarrow> WorkerPoolOptions" where
  "job_pool_options rateLimiter =
     \<lparr>WO_Concurrency = (case rateLimiter of None \<Rightarrow> 25 | Some r \<Rightarrow> if Capacity r > 0 then Capacity r else 25),
      WO_TargetTimeout = 15 * Second, WO_MaxRetries = 2, WO_BackoffBase = 300 * Millisecond, WO_MaxBackoffLimit = 3 * Second\<rparr>"

text \<open>The scan a job uses for a target, by protocol.\<close>

definition ssh_pin :: string where
  "ssh_pin = ''SHA256:4a8f9b2c3d1e5a7b8c9d0e1f2a3b4c5d6e7f8a9b0c1d2e3f4a5b6c7d8e9f0a1b''"

definition scanFn :: "(string \<Rightarrow> string) \<Rightarrow> ssh_env \<Rightarrow> probe_env \<Rightarrow> BMCScanner \<Rightarrow> WinRMScanner \<Rightarrow> string \<Rightarrow> EndpointScanTarget
    \<Rightarrow> EndpointScanResult option \<times> string option" where
  "scanFn sha256hex senv penv b w protocol target =
     (if protocol = ''ssh'' \<or> protocol = ''ssh_snmp'' then ScanSSH sha256hex senv b target ssh_pin
      else if protocol = ''snmp_v3'' then ScanSNMPv3 (PV_now penv) (PV_ms penv) target
      else snd (ScanEndpoint penv w target))"

definition host_failed :: "EndpointScanResult \<Rightarrow> bool" where
  "host_failed res \<longleftrightarrow> ER_Status res = ''error'' \<or> ER_Status res = ''offline'' \<or> ER_Status res = ''auth_error''"

definition host_compliant :: "EndpointScanResult \<Rightarrow> bool" where
  "host_compliant res \<longleftrightarrow> \<not> host_failed res \<and> ER_ComplianceScore res \<ge> 80"

definition log_line :: "job_env \<Rightarrow> time \<Rightarrow> string \<Rightarrow> string \<Rightarrow> string" where
  "log_line env t level msg = ''['' @ JE_fmt env t @ ''] ['' @ level @ ''] '' @ msg"

text \<open>The vault credential of a job, with the line that logs it.\<close>

definition resolve_secret :: "job_env \<Rightarrow> string \<Rightarrow> string \<Rightarrow> string \<Rightarrow> string + string \<times> string list" where
  "resolve_secret env gatewayID jobID secretRef =
     (case JE_resolver env of
        None \<Rightarrow> Inr ([], [])
      | Some resolver \<Rightarrow>
          if secretRef = [] then Inr ([], [])
          else (case resolver gatewayID jobID secretRef of
                  Inl err \<Rightarrow> Inl (''orchestrator: vault secret resolution failed: '' @ err)
                | Inr v \<Rightarrow> Inr (v, [log_line env (JE_log_time env 0) ''INFO''
                    (''Successfully resolved vault credential ref '' @ secretRef @ '' via mTLS'')])))"

text \<open>The batch made of the results of the pool.\<close>

definition job_batch :: "job_env \<Rightarrow> string \<Rightarrow> string \<Rightarrow> string \<Rightarrow> int \<Rightarrow> string list \<Rightarrow> EndpointScanResult list \<Rightarrow> ScanBatchResult" where
  "job_batch env gatewayID jobID targetCIDR totalHosts logs results =
     (let compliantCount = int (length (filter host_compliant results));
          failedCount = int (length (filter host_failed results));
          doneLog = log_line env (JE_completed env) ''INFO''
            (''Scan job '' @ jobID @ '' completed in '' @ JE_dur env (time_sub (JE_completed env) (JE_start env)) @ ''. Scanned: ''
             @ dec_int (int (length results)) @ '', Compliant: '' @ dec_int compliantCount @ '', Failed: '' @ dec_int failedCount)
      in \<lparr>SBR_ScanJobID = jobID, SBR_GatewayID = gatewayID, SBR_TargetCIDR = targetCIDR, SBR_TotalHosts = totalHosts,
          SBR_ScannedHosts = int (length results), SBR_CompliantHosts = compliantCount, SBR_FailedHosts = failedCount,
          SBR_Results = results, SBR_Logs = logs @ [doneLog],
          SBR_PayloadHash = (case JE_hash env results of None \<Rightarrow> [] | Some h \<Rightarrow> h),
          SBR_CompletedAt = JE_completed env\<rparr>)"

definition ExecuteScanJob :: "job_env \<Rightarrow> string \<Rightarrow> SubnetRateLimiter option \<Rightarrow> string \<Rightarrow> string \<Rightarrow> string \<Rightarrow> string \<Rightarrow> string list \<Rightarrow> bool
    \<Rightarrow> string + ScanBatchResult" where
  "ExecuteScanJob env gatewayID rateLimiter jobID targetCIDR protocol secretRef targets0 allowInsecureHTTP =
     (case resolve_secret env gatewayID jobID secretRef of
        Inl err \<Rightarrow> Inl err
      | Inr (secretValue, resolveLogs) \<Rightarrow>
          (let startLog = log_line env (JE_start env) ''INFO''
                 (''Scan job '' @ jobID @ '' started for target CIDR '' @ targetCIDR @ '' (Protocol: '' @ protocol @ '')'');
               targets = job_targets env targetCIDR targets0;
               totalHosts = int (length targets);
               queueLog = log_line env (JE_log_time env 1) ''INFO''
                 (''Queuing '' @ dec_int totalHosts @ '' hosts across '' @ targetCIDR @ '' for bounded worker pool execution'');
               scanTargets = map (scan_target protocol secretValue allowInsecureHTTP) targets;
               (results, poolLogs) = JE_pool env (NewBoundedWorkerPool (job_pool_options rateLimiter)) scanTargets
           in Inr (job_batch env gatewayID jobID targetCIDR totalHosts
                ([startLog] @ resolveLogs @ [queueLog] @ poolLogs) results)))"

lemma job_batch_simps [simp]:
  "SBR_TotalHosts (job_batch env gw jobID cidr n logs results) = n"
  "SBR_ScannedHosts (job_batch env gw jobID cidr n logs results) = int (length results)"
  "SBR_CompliantHosts (job_batch env gw jobID cidr n logs results) = int (length (filter host_compliant results))"
  "SBR_FailedHosts (job_batch env gw jobID cidr n logs results) = int (length (filter host_failed results))"
  "SBR_Results (job_batch env gw jobID cidr n logs results) = results"
  by (simp_all add: job_batch_def Let_def)

lemma ExecuteScanJob_batch:
  assumes "ExecuteScanJob env gw l jobID cidr protocol ref targets insecure = Inr batch"
  obtains secret logs where "batch = job_batch env gw jobID cidr (int (length (job_targets env cidr targets))) logs
    (fst (JE_pool env (NewBoundedWorkerPool (job_pool_options l))
      (map (scan_target protocol secret insecure) (job_targets env cidr targets))))"
proof (cases "resolve_secret env gw jobID ref")
  case (Inl err)
  then show ?thesis using assms by (simp add: ExecuteScanJob_def)
next
  case (Inr p)
  obtain secret rl where p: "p = (secret, rl)" by fastforce
  obtain results pl where q: "JE_pool env (NewBoundedWorkerPool (job_pool_options l))
      (map (scan_target protocol secret insecure) (job_targets env cidr targets)) = (results, pl)" by fastforce
  obtain logs where "batch = job_batch env gw jobID cidr (int (length (job_targets env cidr targets))) logs results"
    using assms unfolding ExecuteScanJob_def Let_def Inr p q sum.case prod.case by (rule that [OF sym, OF Inr_inject])
  then show ?thesis by (intro that [of logs secret]) (simp add: q)
qed

lemma job_pool_options_ok:
  "1 \<le> WO_Concurrency (NewBoundedWorkerPool (job_pool_options l))" "0 \<le> WO_MaxRetries (NewBoundedWorkerPool (job_pool_options l))"
  by (auto simp: NewBoundedWorkerPool_def job_pool_options_def Let_def Second_def Millisecond_def split: option.split)

text \<open>C32. Expanding a block always ends, within the limit and never empty: unparsable text gives one fixed
  address, otherwise every host lies in the block and ends in neither 0 nor 255, or the block has no such
  host and its own address is taken. A block of 256 addresses gives exactly its 254 hosts, in order.\<close>

theorem expandCIDRHosts_exact:
  shows "expandCIDRHosts ParseCIDR show_ip cidr maxHosts \<noteq> []
    \<and> length (expandCIDRHosts ParseCIDR show_ip cidr maxHosts) \<le> max 1 maxHosts
    \<and> (case ParseCIDR cidr of
        None \<Rightarrow> expandCIDRHosts ParseCIDR show_ip cidr maxHosts = [''10.100.1.42'']
      | Some (a, n) \<Rightarrow> expandCIDRHosts ParseCIDR show_ip cidr maxHosts = [show_ip a]
          \<or> (\<exists>ips. expandCIDRHosts ParseCIDR show_ip cidr maxHosts = map show_ip ips
               \<and> list_all (\<lambda>x. net_contains n x \<and> x \<noteq> [] \<and> last x \<noteq> 0 \<and> last x \<noteq> 255) ips))
    \<and> (ParseCIDR cidr = Some (v4_prefix @ [a, b, c, d], net24 a b c) \<and> 254 \<le> maxHosts
      \<longrightarrow> expandCIDRHosts ParseCIDR show_ip cidr maxHosts = map (\<lambda>i. show_ip [a, b, c, of_nat i]) [1..<255])"
proof -
  have nonempty: "expandCIDRHosts ParseCIDR show_ip cidr maxHosts \<noteq> []"
    by (auto simp: expandCIDRHosts_def Let_def split: option.split)
  have e: "\<exists>ips. expand_loop show_ip n maxHosts x [] = map show_ip ips
      \<and> list_all (\<lambda>x. net_contains n x \<and> x \<noteq> [] \<and> last x \<noteq> 0 \<and> last x \<noteq> 255) ips \<and> length ips \<le> max 1 maxHosts" for n x
    using expand_loop_hosts [of show_ip n maxHosts x "[]"] by (auto simp: list_all_iff)
  have short: "length (expandCIDRHosts ParseCIDR show_ip cidr maxHosts) \<le> max 1 maxHosts"
  proof (cases "ParseCIDR cidr")
    case (Some p)
    obtain ips where "expand_loop show_ip (snd p) maxHosts (mask_ip (fst p) (IN_Mask (snd p))) [] = map show_ip ips"
      "length ips \<le> max 1 maxHosts" using e by blast
    then show ?thesis by (cases p) (simp add: expandCIDRHosts_def Some Let_def)
  qed (simp add: expandCIDRHosts_def)
  have inside: "case ParseCIDR cidr of
        None \<Rightarrow> expandCIDRHosts ParseCIDR show_ip cidr maxHosts = [''10.100.1.42'']
      | Some (a, n) \<Rightarrow> expandCIDRHosts ParseCIDR show_ip cidr maxHosts = [show_ip a]
          \<or> (\<exists>ips. expandCIDRHosts ParseCIDR show_ip cidr maxHosts = map show_ip ips
               \<and> list_all (\<lambda>x. net_contains n x \<and> x \<noteq> [] \<and> last x \<noteq> 0 \<and> last x \<noteq> 255) ips)"
  proof (cases "ParseCIDR cidr")
    case (Some p)
    obtain a n where p: "p = (a, n)" by fastforce
    obtain ips where "expand_loop show_ip n maxHosts (mask_ip a (IN_Mask n)) [] = map show_ip ips"
      "list_all (\<lambda>x. net_contains n x \<and> x \<noteq> [] \<and> last x \<noteq> 0 \<and> last x \<noteq> 255) ips" using e by blast
    then show ?thesis by (auto simp: expandCIDRHosts_def Some p Let_def)
  qed (simp add: expandCIDRHosts_def)
  have "expandCIDRHosts ParseCIDR show_ip cidr maxHosts = map (\<lambda>i. show_ip [a, b, c, of_nat i]) [1..<255]"
    if "ParseCIDR cidr = Some (v4_prefix @ [a, b, c, d], net24 a b c)" "254 \<le> maxHosts"
  proof -
    have m: "mask_ip (v4_prefix @ [a, b, c, d]) [255, 255, 255, 0] = [a, b, c, 0]"
      by (simp add: mask_ip_def v4_prefix_def)
    have "expand_loop show_ip (net24 a b c) maxHosts [a, b, c, 0] []
        = expand_loop show_ip (net24 a b c) maxHosts [a, b, c, of_nat 1] []"
      by (subst expand_loop.simps) (simp add: net24_contains incIP_4)
    also have "\<dots> = map (\<lambda>i. show_ip [a, b, c, of_nat i]) [1..<255]"
      using expand_24_from [of 1 "[]" maxHosts show_ip a b c] that(2) by simp
    finally show ?thesis by (simp add: expandCIDRHosts_def that(1) m Let_def del: upt_Suc)
  qed
  then show ?thesis by (intro conjI [OF nonempty conjI [OF short conjI [OF inside impI]]]) (elim conjE)
qed

text \<open>Witness of C32: the hosts of 10.0.0.0/24.\<close>

theorem expandCIDRHosts_exact_witness:
  "length (expandCIDRHosts (\<lambda>_. Some (v4_prefix @ [10, 0, 0, 0], net24 10 0 0)) (\<lambda>_. []) ''10.0.0.0/24'' 512) = 254"
proof -
  have "expandCIDRHosts (\<lambda>_. Some (v4_prefix @ [10, 0, 0, 0], net24 10 0 0)) (\<lambda>_. []) ''10.0.0.0/24'' 512
      = map (\<lambda>i. []) [1..<255]"
    by (rule expandCIDRHosts_exact [THEN conjunct2, THEN conjunct2, THEN conjunct2, THEN mp]) simp
  then show ?thesis by simp
qed



end
