(* ===== verification/GatewayAgent.thy ===== *)
theory GatewayAgent
  imports ScanOrchestrator
begin

text \<open>
  The rest of the gateway: configuration (\<open>config/config.go\<close>), job poller (\<open>poller/poller.go\<close>), self-update
  (\<open>updater/updater.go\<close>), result streamer (\<open>streamer/streamer.go\<close>), heartbeat (\<open>heartbeat/heartbeat.go\<close>,
  \<open>collector/collector.go\<close>), trace headers and counters (\<open>telemetry/telemetry.go\<close>), and the resolver and
  dispatch loop of \<open>cmd/gateway/main.go\<close>. The network, the file system, cryptography, JSON and the
  environment are arguments; \<open>float64\<close> is exact.
\<close>

section \<open>Configuration\<close>

record GatewayConfig =
  GC_GatewayID :: string
  GC_SubnetCIDR :: string
  GC_ManagedSubnets :: "string list"
  GC_ControlPlaneURL :: string
  GC_HeartbeatInterval :: duration
  GC_ProbeTimeout :: duration
  GC_MaxConcurrentSessions :: int
  GC_AllowInsecureHTTP :: bool
  GC_CertDir :: string
  GC_UpdatePublicKeyHex :: string
  GC_PollMinInterval :: duration
  GC_PollMaxInterval :: duration

definition getEnv :: "(string \<Rightarrow> string option) \<Rightarrow> string \<Rightarrow> string \<Rightarrow> string" where
  "getEnv lookup key fallback = (case lookup key of Some val \<Rightarrow> if val \<noteq> [] then val else fallback | None \<Rightarrow> fallback)"

datatype config_error = EmptyGatewayID | InvalidSubnet string | InvalidManagedSubnet string | EmptyControlPlaneURL

text \<open>A number of seconds from the environment, or its default when it is not positive.\<close>

definition env_number :: "(string \<Rightarrow> string option) \<Rightarrow> string \<Rightarrow> string \<Rightarrow> int \<Rightarrow> int" where
  "env_number lookup key fallback dflt = (let n = atoi_value (getEnv lookup key fallback) in if n \<le> 0 then dflt else n)"

definition managed_subnets :: "string \<Rightarrow> string list" where
  "managed_subnets raw = filter (\<lambda>s. s \<noteq> []) (map trim_space (split_on (CHR '','') raw))"

definition seconds :: "int \<Rightarrow> duration" where
  "seconds n = wrap64 (n * Second)"

definition LoadConfig :: "(string \<Rightarrow> (ip \<times> IPNet) option) \<Rightarrow> (string \<Rightarrow> string option) \<Rightarrow> config_error + GatewayConfig" where
  "LoadConfig ParseCIDR lookup =
     (let gatewayID = getEnv lookup ''GATEWAY_ID'' ''gw-subnet-10-100-1-0'';
          subnetCIDR = getEnv lookup ''SUBNET_CIDR'' ''10.100.1.0/24'';
          subnets = managed_subnets (getEnv lookup ''MANAGED_SUBNETS'' subnetCIDR);
          controlPlaneURL = trim_right (CHR ''/'') (getEnv lookup ''CONTROL_PLANE_URL'' ''http://localhost:8080'');
          pollMinSec = env_number lookup ''POLL_MIN_INTERVAL_SEC'' ''2'' 2;
          pollMax = atoi_value (getEnv lookup ''POLL_MAX_INTERVAL_SEC'' ''30'');
          pollMaxSec = (if pollMax \<le> pollMinSec then 30 else pollMax)
      in if trim_space gatewayID = [] then Inl EmptyGatewayID
         else if ParseCIDR subnetCIDR = None then Inl (InvalidSubnet subnetCIDR)
         else
           (case find (\<lambda>s. ParseCIDR s = None) subnets of
              Some s \<Rightarrow> Inl (InvalidManagedSubnet s)
            | None \<Rightarrow>
                if controlPlaneURL = [] then Inl EmptyControlPlaneURL
                else Inr \<lparr>GC_GatewayID = gatewayID, GC_SubnetCIDR = subnetCIDR,
                  GC_ManagedSubnets = (if subnets = [] then [subnetCIDR] else subnets),
                  GC_ControlPlaneURL = controlPlaneURL,
                  GC_HeartbeatInterval = seconds (env_number lookup ''HEARTBEAT_INTERVAL_SEC'' ''60'' 60),
                  GC_ProbeTimeout = seconds (env_number lookup ''SCAN_PROBE_TIMEOUT_SEC'' ''30'' 30),
                  GC_MaxConcurrentSessions = env_number lookup ''MAX_CONCURRENT_SESSIONS'' ''20'' 20,
                  GC_AllowInsecureHTTP = equal_fold (getEnv lookup ''ALLOW_INSECURE_HTTP'' ''false'') ''true'',
                  GC_CertDir = getEnv lookup ''GATEWAY_CERT_DIR'' ''./certs'',
                  GC_UpdatePublicKeyHex = getEnv lookup ''UPDATE_PUBLIC_KEY_HEX''
                    ''0123456789abcdef0123456789abcdef0123456789abcdef0123456789abcdef'',
                  GC_PollMinInterval = seconds pollMinSec,
                  GC_PollMaxInterval = seconds pollMaxSec\<rparr>))"

section \<open>Poller\<close>

record ScanJobDescriptor =
  SJD_ID :: string
  SJD_Name :: string
  SJD_TargetCIDR :: string
  SJD_ScanProfile :: string
  SJD_Protocol :: string
  SJD_VaultSecretRef :: string
  SJD_GatewayID :: string
  SJD_TargetHosts :: "string list"

record Poller =
  PO_gatewayID :: string
  PO_subnets :: "string list"
  PO_controlPlaneURL :: string
  PO_minInterval :: duration
  PO_maxInterval :: duration
  PO_currentInterval :: duration
  PO_consecutiveZero :: int

definition NewPoller :: "string \<Rightarrow> string list \<Rightarrow> string \<Rightarrow> duration \<Rightarrow> duration \<Rightarrow> Poller" where
  "NewPoller gatewayID subnets controlPlaneURL minInterval0 maxInterval0 =
     (let minInterval = (if minInterval0 \<le> 0 then 2 * Second else minInterval0);
          maxInterval = (if maxInterval0 \<le> minInterval then 30 * Second else maxInterval0)
      in \<lparr>PO_gatewayID = gatewayID, PO_subnets = subnets, PO_controlPlaneURL = trim_right (CHR ''/'') controlPlaneURL,
          PO_minInterval = minInterval, PO_maxInterval = maxInterval, PO_currentInterval = minInterval, PO_consecutiveZero = 0\<rparr>)"

definition recordPollResult :: "Poller \<Rightarrow> int \<Rightarrow> Poller" where
  "recordPollResult p jobCount =
     (if jobCount > 0 then p\<lparr>PO_consecutiveZero := 0, PO_currentInterval := PO_minInterval p\<rparr>
      else if PO_consecutiveZero p < 10 then p\<lparr>PO_consecutiveZero := PO_consecutiveZero p + 1\<rparr> else p)"

datatype poll_error = PollURLInvalid | PollRequestNotBuilt | PollTransport string | PollStatus int string | PollNotDecoded

record poll_env =
  PLE_url :: "string \<Rightarrow> (string \<times> string) list \<Rightarrow> string option"
  PLE_request_ok :: bool
  PLE_exchange :: exchange
  PLE_decode :: "string \<Rightarrow> ScanJobDescriptor list option"

text \<open>The request goes to the poll URL with the gateway and its subnets as query parameters.\<close>

definition PollOnce :: "poll_env \<Rightarrow> Poller \<Rightarrow> Poller \<times> (poll_error + ScanJobDescriptor list)" where
  "PollOnce env p =
     (case PLE_url env (PO_controlPlaneURL p @ ''/api/v1/gateways/jobs/poll'')
             [(''gateway_id'', PO_gatewayID p), (''subnets'', join '','' (PO_subnets p))] of
        None \<Rightarrow> (p, Inl PollURLInvalid)
      | Some url \<Rightarrow>
          if \<not> PLE_request_ok env then (p, Inl PollRequestNotBuilt)
          else
            (case PLE_exchange env of
               TransportFailed err \<Rightarrow> (p, Inl (PollTransport err))
             | Answered st body \<Rightarrow>
                 if st = 204 then (recordPollResult p 0, Inr [])
                 else if st \<noteq> 200 then (recordPollResult p 0, Inl (PollStatus st (take 1024 body)))
                 else
                   (case PLE_decode env (take 1048576 body) of
                      None \<Rightarrow> (recordPollResult p 0, Inl PollNotDecoded)
                    | Some jobs \<Rightarrow> (recordPollResult p (int (length jobs)), Inr jobs))))"

text \<open>\<open>secureRandomFloat\<close> from the eight random bytes read as a number.\<close>

definition secureRandomFloat :: "nat \<Rightarrow> rat" where
  "secureRandomFloat val = rat_of_nat val / 2 ^ 64"

definition NextDelay :: "nat \<Rightarrow> Poller \<Rightarrow> duration" where
  "NextDelay val p =
     (let minD = rat_of_int (PO_minInterval p); maxD = rat_of_int (PO_maxInterval p);
          base0 = minD * 2 ^ nat (PO_consecutiveZero p);
          base = (if base0 > maxD then maxD else base0);
          delay0 = minD + secureRandomFloat val * (base - minD);
          delay = (if delay0 < minD then minD else delay0)
      in \<lfloor>delay\<rfloor>)"

lemma recordPollResult_zero:
  "0 \<le> PO_consecutiveZero p \<Longrightarrow> PO_consecutiveZero p \<le> 10
    \<Longrightarrow> 0 \<le> PO_consecutiveZero (recordPollResult p n) \<and> PO_consecutiveZero (recordPollResult p n) \<le> 10"
  by (simp add: recordPollResult_def)

lemma NextDelay_bounds:
  assumes "0 < PO_minInterval p" "val < 2 ^ 64"
  shows "PO_minInterval p \<le> NextDelay val p" "NextDelay val p \<le> max (PO_minInterval p) (PO_maxInterval p)"
proof -
  let ?min = "rat_of_int (PO_minInterval p)" and ?max = "rat_of_int (PO_maxInterval p)"
  define base where "base = (if ?min * 2 ^ nat (PO_consecutiveZero p) > ?max then ?max else ?min * 2 ^ nat (PO_consecutiveZero p))"
  define d where "d = ?min + secureRandomFloat val * (base - ?min)"
  have n: "NextDelay val p = \<lfloor>if d < ?min then ?min else d\<rfloor>" by (simp add: NextDelay_def Let_def d_def base_def)
  have u: "0 \<le> secureRandomFloat val" "secureRandomFloat val \<le> 1"
  proof -
    have "rat_of_nat val \<le> 2 ^ 64" using assms(2) by (metis less_imp_le of_nat_le_iff of_nat_numeral of_nat_power)
    then show "0 \<le> secureRandomFloat val" "secureRandomFloat val \<le> 1" by (simp_all add: secureRandomFloat_def)
  qed
  show "PO_minInterval p \<le> NextDelay val p" unfolding n by (simp add: le_floor_iff)
  have "d \<le> max ?min ?max"
  proof (cases "base \<le> ?min")
    case True
    then have "secureRandomFloat val * (base - ?min) \<le> 0" using u(1) by (simp add: mult_nonneg_nonpos)
    then show ?thesis by (simp add: d_def)
  next
    case False
    then have "secureRandomFloat val * (base - ?min) \<le> 1 * (base - ?min)" using u(2) by (intro mult_right_mono) simp_all
    moreover have "base \<le> ?max" by (simp add: base_def)
    ultimately show ?thesis by (simp add: d_def)
  qed
  then have "(if d < ?min then ?min else d) \<le> rat_of_int (max (PO_minInterval p) (PO_maxInterval p))" by (simp add: of_int_max)
  from floor_mono [OF this] show "NextDelay val p \<le> max (PO_minInterval p) (PO_maxInterval p)"
    unfolding n floor_of_int .
qed

section \<open>Self-update\<close>

record UpdateManifest =
  UMF_Version :: string
  UMF_DownloadURL :: string
  UMF_SHA256Hex :: string
  UMF_SignatureHex :: string

datatype update_error =
    ErrInvalidSignature
  | ErrPublicKeyInvalid
  | ErrBinaryDownloadFailed
  | ErrChecksumMismatch
  | UpdateNotRead
  | UpdateNotStaged
  | UpdateNotCommitted

text \<open>The library: SHA-256 and Ed25519 verification (key, message, signature).\<close>

record update_lib =
  UL_sha256 :: "string \<Rightarrow> string"
  UL_verify :: "string \<Rightarrow> string \<Rightarrow> string \<Rightarrow> bool"

definition NewUpdateEngine :: "string \<Rightarrow> update_error + string" where
  "NewUpdateEngine trustedPubKeyHex =
     (case hex_decode trustedPubKeyHex of
        None \<Rightarrow> Inl ErrPublicKeyInvalid
      | Some pubBytes \<Rightarrow> if length pubBytes \<noteq> 32 then Inl ErrPublicKeyInvalid else Inr pubBytes)"

definition VerifyBinary :: "update_lib \<Rightarrow> string \<Rightarrow> string \<Rightarrow> string \<Rightarrow> string \<Rightarrow> update_error option" where
  "VerifyBinary lib trustedPubKey binaryData expectedSHA256Hex signatureHex =
     (let actualSum = UL_sha256 lib binaryData
      in if expectedSHA256Hex \<noteq> [] \<and> \<not> equal_fold (hex_encode actualSum) expectedSHA256Hex then Some ErrChecksumMismatch
         else
           (case hex_decode signatureHex of
              None \<Rightarrow> Some ErrInvalidSignature
            | Some sigBytes \<Rightarrow>
                if length sigBytes \<noteq> 64 then Some ErrInvalidSignature
                else if UL_verify lib trustedPubKey binaryData sigBytes \<or> UL_verify lib trustedPubKey actualSum sigBytes then None
                else Some ErrInvalidSignature))"

text \<open>What an update does to the disk.\<close>

datatype disk_event = MkdirParent string | WriteStaged string string | RenameStaged string string | RemoveStaged string

record update_env =
  UPE_request_ok :: bool
  UPE_exchange :: exchange
  UPE_read_ok :: bool
  UPE_nano :: string
  UPE_write_ok :: bool
  UPE_rename_ok :: bool

definition ApplyUpdate :: "update_lib \<Rightarrow> update_env \<Rightarrow> string \<Rightarrow> UpdateManifest \<Rightarrow> string \<Rightarrow> disk_event list \<times> update_error option" where
  "ApplyUpdate lib env trustedPubKey manifest targetPath =
     (if \<not> UPE_request_ok env then ([], Some ErrBinaryDownloadFailed)
      else
        (case UPE_exchange env of
           TransportFailed err \<Rightarrow> ([], Some ErrBinaryDownloadFailed)
         | Answered st body \<Rightarrow>
             if st \<noteq> 200 then ([], Some ErrBinaryDownloadFailed)
             else if \<not> UPE_read_ok env then ([], Some UpdateNotRead)
             else
               (let binaryBytes = take 104857600 body
                in case VerifyBinary lib trustedPubKey binaryBytes (UMF_SHA256Hex manifest) (UMF_SignatureHex manifest) of
                     Some err \<Rightarrow> ([], Some err)
                   | None \<Rightarrow>
                       (let tmpFile = targetPath @ ''.tmp.'' @ UPE_nano env
                        in if \<not> UPE_write_ok env
                           then ([MkdirParent targetPath, WriteStaged tmpFile binaryBytes], Some UpdateNotStaged)
                           else if \<not> UPE_rename_ok env
                           then ([MkdirParent targetPath, WriteStaged tmpFile binaryBytes, RenameStaged tmpFile targetPath, RemoveStaged tmpFile],
                                 Some UpdateNotCommitted)
                           else ([MkdirParent targetPath, WriteStaged tmpFile binaryBytes, RenameStaged tmpFile targetPath], None)))))"

lemma VerifyBinary_ok:
  "VerifyBinary lib pub bin chk sig = None \<longleftrightarrow>
    (chk = [] \<or> equal_fold (hex_encode (UL_sha256 lib bin)) chk)
    \<and> (\<exists>s. hex_decode sig = Some s \<and> length s = 64 \<and> (UL_verify lib pub bin s \<or> UL_verify lib pub (UL_sha256 lib bin) s))"
  by (auto simp: VerifyBinary_def Let_def split: option.splits if_splits)

lemma ApplyUpdate_disk:
  assumes "ApplyUpdate lib env pub manifest path = (evs, res)" "ev \<in> set evs"
  obtains st body where "UPE_exchange env = Answered st body" "st = 200"
    "VerifyBinary lib pub (take 104857600 body) (UMF_SHA256Hex manifest) (UMF_SignatureHex manifest) = None"
proof (cases "UPE_exchange env")
  case (TransportFailed e)
  then show ?thesis using assms by (simp add: ApplyUpdate_def split: if_splits)
next
  case (Answered st body)
  show ?thesis
  proof (cases "VerifyBinary lib pub (take 104857600 body) (UMF_SHA256Hex manifest) (UMF_SignatureHex manifest)")
    case None
    have "st = 200" using assms Answered by (simp add: ApplyUpdate_def split: if_splits)
    then show ?thesis using that Answered None by blast
  next
    case (Some e)
    then show ?thesis using assms Answered by (simp add: ApplyUpdate_def split: if_splits)
  qed
qed

section \<open>Streamer\<close>

record ResultStreamer =
  RST_controlPlaneURL :: string
  RST_gatewayID :: string

definition NewResultStreamer :: "string \<Rightarrow> string \<Rightarrow> ResultStreamer" where
  "NewResultStreamer controlPlaneURL gatewayID =
     \<lparr>RST_controlPlaneURL = trim_right (CHR ''/'') controlPlaneURL, RST_gatewayID = gatewayID\<rparr>"

definition StreamPayloadHash :: "(string \<Rightarrow> string) \<Rightarrow> string \<Rightarrow> string" where
  "StreamPayloadHash sha256 data = hex_encode (sha256 data)"

datatype stream_error = BatchNotEncoded | StreamNotBuilt | StreamTransport string | StreamRejected int string

record stream_request =
  SRQ_url :: string
  SRQ_body :: string
  SRQ_gateway :: string
  SRQ_hash :: string

record stream_env =
  STE_sha256 :: "string \<Rightarrow> string"
  STE_marshal :: "ScanBatchResult \<Rightarrow> string option"
  STE_request_ok :: bool
  STE_exchange :: exchange

text \<open>The batch is a pointer: its hash field stays set after the call.\<close>

definition StreamResults :: "stream_env \<Rightarrow> ResultStreamer \<Rightarrow> ScanBatchResult
    \<Rightarrow> stream_request option \<times> ScanBatchResult \<times> (stream_error + string)" where
  "StreamResults env s batch =
     (case STE_marshal env batch of
        None \<Rightarrow> (None, batch, Inl BatchNotEncoded)
      | Some rawJSON \<Rightarrow>
          (let payloadHash = StreamPayloadHash (STE_sha256 env) rawJSON;
               batch = batch\<lparr>SBR_PayloadHash := payloadHash\<rparr>
           in case STE_marshal env batch of
                None \<Rightarrow> (None, batch, Inl BatchNotEncoded)
              | Some finalPayload \<Rightarrow>
                  if \<not> STE_request_ok env then (None, batch, Inl StreamNotBuilt)
                  else
                    (Some \<lparr>SRQ_url = RST_controlPlaneURL s @ ''/api/v1/scans/'' @ SBR_ScanJobID batch @ ''/results'',
                           SRQ_body = finalPayload, SRQ_gateway = RST_gatewayID s, SRQ_hash = payloadHash\<rparr>,
                     batch,
                     case STE_exchange env of
                       TransportFailed err \<Rightarrow> Inl (StreamTransport err)
                     | Answered st body \<Rightarrow>
                         if st < 200 \<or> 300 \<le> st then Inl (StreamRejected st (take 1024 body)) else Inr payloadHash)))"

section \<open>Heartbeat\<close>

record HeartbeatPayload =
  HBP_GatewayCode :: string
  HBP_SubnetCIDR :: string
  HBP_Status :: string
  HBP_Version :: string
  HBP_LatencyMs :: int
  HBP_ActiveSessions :: int
  HBP_Timestamp :: time

record Daemon =
  HBD_gatewayID :: string
  HBD_subnetCIDR :: string
  HBD_controlPlaneURL :: string
  HBD_interval :: duration
  HBD_version :: string
  HBD_stopped :: bool
  HBD_lastLatencyMs :: int

definition NewDaemon :: "string \<Rightarrow> string \<Rightarrow> string \<Rightarrow> duration \<Rightarrow> string \<Rightarrow> Daemon" where
  "NewDaemon gatewayID subnetCIDR controlPlaneURL interval version =
     \<lparr>HBD_gatewayID = gatewayID, HBD_subnetCIDR = subnetCIDR, HBD_controlPlaneURL = trim_right (CHR ''/'') controlPlaneURL,
      HBD_interval = (if interval \<le> 0 then 60 * Second else interval),
      HBD_version = (if version = [] then ''v1.2.4'' else version), HBD_stopped = False, HBD_lastLatencyMs = 0\<rparr>"

datatype heartbeat_error = HeartbeatNotEncoded | HeartbeatNotBuilt | HeartbeatTransport string | HeartbeatStatus int

record heartbeat_env =
  HBE_start :: time
  HBE_end :: time
  HBE_active :: "int option"
  HBE_marshal :: "HeartbeatPayload \<Rightarrow> string option"
  HBE_request_ok :: bool
  HBE_exchange :: exchange

definition heartbeat_payload :: "heartbeat_env \<Rightarrow> Daemon \<Rightarrow> HeartbeatPayload" where
  "heartbeat_payload env d =
     \<lparr>HBP_GatewayCode = HBD_gatewayID d, HBP_SubnetCIDR = HBD_subnetCIDR d, HBP_Status = ''healthy'', HBP_Version = HBD_version d,
      HBP_LatencyMs = 0, HBP_ActiveSessions = (case HBE_active env of None \<Rightarrow> 0 | Some n \<Rightarrow> n), HBP_Timestamp = HBE_start env\<rparr>"

definition SendHeartbeat :: "heartbeat_env \<Rightarrow> Daemon \<Rightarrow> Daemon \<times> heartbeat_error option" where
  "SendHeartbeat env d =
     (case HBE_marshal env (heartbeat_payload env d) of
        None \<Rightarrow> (d, Some HeartbeatNotEncoded)
      | Some body \<Rightarrow>
          if \<not> HBE_request_ok env then (d, Some HeartbeatNotBuilt)
          else
            (case HBE_exchange env of
               TransportFailed err \<Rightarrow> (d, Some (HeartbeatTransport err))
             | Answered st _ \<Rightarrow>
                 (d\<lparr>HBD_lastLatencyMs := quot (time_sub (HBE_end env) (HBE_start env)) Millisecond\<rparr>,
                  if st \<ge> 400 then Some (HeartbeatStatus st) else None)))"

text \<open>The loop of \<open>Start\<close> over what its select sees; a closed channel or ended context stops it.\<close>

datatype daemon_event = Tick heartbeat_env | StopSeen | ContextDone

fun daemon_loop :: "Daemon \<Rightarrow> daemon_event list \<Rightarrow> Daemon" where
  "daemon_loop d [] = d"
| "daemon_loop d (Tick env # evs) = daemon_loop (fst (SendHeartbeat env d)) evs"
| "daemon_loop d (StopSeen # evs) = d"
| "daemon_loop d (ContextDone # evs) = d"

definition daemon_start :: "heartbeat_env \<Rightarrow> Daemon \<Rightarrow> daemon_event list \<Rightarrow> Daemon" where
  "daemon_start env d evs = daemon_loop (fst (SendHeartbeat env d)) evs"

definition daemon_stop :: "Daemon \<Rightarrow> Daemon" where
  "daemon_stop d = (if HBD_stopped d then d else d\<lparr>HBD_stopped := True\<rparr>)"

definition LastLatencyMs :: "Daemon \<Rightarrow> int" where
  "LastLatencyMs d = HBD_lastLatencyMs d"

lemma daemon_stop_idem [simp]: "daemon_stop (daemon_stop d) = daemon_stop d"
  by (simp add: daemon_stop_def)

text \<open>The older daemon of the collector package: its \<open>Stop\<close> closes the channel unconditionally, which panics the
  second time (\<open>None\<close>).\<close>

record GatewayDaemon =
  CGD_GatewayID :: string
  CGD_ControlPlaneURL :: string
  CGD_stopped :: bool

definition collector_heartbeat :: "(string \<Rightarrow> int \<Rightarrow> string option) \<Rightarrow> bool \<Rightarrow> exchange \<Rightarrow> int \<Rightarrow> GatewayDaemon \<Rightarrow> heartbeat_error option" where
  "collector_heartbeat marshal request_ok x latency g =
     (case marshal (CGD_GatewayID g) latency of
        None \<Rightarrow> Some HeartbeatNotEncoded
      | Some body \<Rightarrow>
          if \<not> request_ok then Some HeartbeatNotBuilt
          else
            (case x of
               TransportFailed err \<Rightarrow> Some (HeartbeatTransport err)
             | Answered st _ \<Rightarrow> if st \<ge> 400 then Some (HeartbeatStatus st) else None))"

definition collector_stop :: "GatewayDaemon \<Rightarrow> GatewayDaemon option" where
  "collector_stop g = (if CGD_stopped g then None else Some (g\<lparr>CGD_stopped := True\<rparr>))"

record CollectorConfig =
  CLC_GatewayID :: string
  CLC_SubnetCIDR :: string
  CLC_ControlPlaneURL :: string
  CLC_HeartbeatIntervalSec :: int
  CLC_ProbeTimeoutSec :: int

definition NewGatewayDaemon :: "CollectorConfig \<Rightarrow> GatewayDaemon" where
  "NewGatewayDaemon cfg = \<lparr>CGD_GatewayID = CLC_GatewayID cfg, CGD_ControlPlaneURL = CLC_ControlPlaneURL cfg, CGD_stopped = False\<rparr>"

text \<open>The loop of the collector sends a heartbeat at once and one per tick; the daemon keeps nothing of their outcome, so the result
  is the outcomes in their order. A ticker panics for an interval that is not positive (\<open>None\<close>).\<close>

datatype collector_event = CollectorTick exchange int | CollectorStop | CollectorDone

fun collector_loop :: "(exchange \<Rightarrow> int \<Rightarrow> heartbeat_error option) \<Rightarrow> collector_event list \<Rightarrow> heartbeat_error option list" where
  "collector_loop beat [] = []"
| "collector_loop beat (CollectorTick x latency # evs) = beat x latency # collector_loop beat evs"
| "collector_loop beat (CollectorStop # evs) = []"
| "collector_loop beat (CollectorDone # evs) = []"

definition collector_start :: "(string \<Rightarrow> int \<Rightarrow> string option) \<Rightarrow> bool \<Rightarrow> CollectorConfig \<Rightarrow> GatewayDaemon \<Rightarrow> exchange \<Rightarrow> int
    \<Rightarrow> collector_event list \<Rightarrow> heartbeat_error option list option" where
  "collector_start marshal request_ok cfg g x latency evs =
     (let beat = (\<lambda>x latency. collector_heartbeat marshal request_ok x latency g)
      in if wrap64 (CLC_HeartbeatIntervalSec cfg * Second) \<le> 0 then None
         else Some (beat x latency # collector_loop beat evs))"

section \<open>Counters and trace headers\<close>

text \<open>Unsigned 64-bit counters.\<close>

record GatewayMetrics =
  GM_scansExecuted :: "64 word"
  GM_scansFailed :: "64 word"
  GM_totalLatencyMs :: "64 word"

definition RecordScan :: "GatewayMetrics \<Rightarrow> duration \<Rightarrow> bool \<Rightarrow> GatewayMetrics" where
  "RecordScan m d success =
     (let m = m\<lparr>GM_scansExecuted := GM_scansExecuted m + 1,
               GM_totalLatencyMs := GM_totalLatencyMs m + word_of_int (quot d Millisecond)\<rparr>
      in if success then m else m\<lparr>GM_scansFailed := GM_scansFailed m + 1\<rparr>)"

definition metrics_stats :: "GatewayMetrics \<Rightarrow> 64 word \<times> 64 word \<times> 64 word" where
  "metrics_stats m =
     (GM_scansExecuted m, GM_scansFailed m,
      if GM_scansExecuted m > 0 then GM_totalLatencyMs m div GM_scansExecuted m else 0)"

text \<open>Headers as a map; the random identifiers are arguments.\<close>

type_synonym headers = "string \<rightharpoonup> string"

definition header_get :: "headers \<Rightarrow> string \<Rightarrow> string" where
  "header_get h k = (case h k of None \<Rightarrow> [] | Some v \<Rightarrow> v)"

definition InjectTraceContext :: "string \<Rightarrow> string \<Rightarrow> headers \<Rightarrow> string \<Rightarrow> string \<Rightarrow> string \<Rightarrow> headers" where
  "InjectTraceContext rndTrace rndSpan header traceID0 spanID0 correlationID =
     (let traceID = (if traceID0 = [] then rndTrace else traceID0);
          spanID = (if spanID0 = [] then rndSpan else spanID0);
          header = header(''traceparent'' \<mapsto> ''00-'' @ traceID @ ''-'' @ spanID @ ''-01'')
      in if correlationID \<noteq> [] then header(''X-Correlation-ID'' \<mapsto> correlationID) else header)"

definition ExtractTraceContext :: "string \<Rightarrow> string \<Rightarrow> headers \<Rightarrow> string \<times> string \<times> string" where
  "ExtractTraceContext rndTrace rndSpan header =
     (let correlationID = header_get header ''X-Correlation-ID'';
          traceparent = header_get header ''traceparent'';
          parts = split_on (CHR ''-'') traceparent
      in if traceparent \<noteq> [] \<and> length parts = 4 \<and> parts ! 0 = ''00'' then (parts ! 1, parts ! 2, correlationID)
         else (rndTrace, rndSpan, correlationID))"

text \<open>Identifiers without dashes survive the headers.\<close>

lemma trace_context_roundtrip:
  assumes "CHR ''-'' \<notin> set t" "CHR ''-'' \<notin> set sp" "t \<noteq> []" "sp \<noteq> []" "c \<noteq> []"
  shows "ExtractTraceContext r1 r2 (InjectTraceContext q1 q2 h t sp c) = (t, sp, c)"
proof -
  have p: "split_on (CHR ''-'') (''00-'' @ t @ ''-'' @ sp @ ''-01'') = [''00'', t, sp, ''01'']"
  proof -
    have "split_on (CHR ''-'') (''00'' @ CHR ''-'' # t @ CHR ''-'' # sp @ CHR ''-'' # ''01'') = [''00'', t, sp, ''01'']"
      using assms(1,2) by (subst split_on_append, simp)+ (simp add: split_on_no_sep)
    then show ?thesis by simp
  qed
  have g: "header_get (InjectTraceContext q1 q2 h t sp c) ''traceparent'' = ''00-'' @ t @ ''-'' @ sp @ ''-01''"
    "header_get (InjectTraceContext q1 q2 h t sp c) ''X-Correlation-ID'' = c"
    using assms(3-5) by (simp_all add: header_get_def InjectTraceContext_def Let_def)
  show ?thesis unfolding ExtractTraceContext_def Let_def g p by simp
qed

end
