(* ===== verification/Enrollment.thy ===== *)
theory Enrollment
  imports GatewayAgent
begin

text \<open>
  Enrolment of a gateway (\<open>mtls/enrollment.go\<close>) and what \<open>cmd/gateway/main.go\<close> makes of the parts: the vault
  resolver and one cycle of the dispatch loop. Key generation, certificates, disk and network are arguments.
\<close>

section \<open>Enrolment\<close>

record RegistrationRequest =
  RRQ_GatewayID :: string
  RRQ_SubnetCIDR :: string
  RRQ_Hostname :: string
  RRQ_CSRPEM :: string
  RRQ_ClientVer :: string

record RegistrationResponse =
  RRS_GatewayID :: string
  RRS_Status :: string
  RRS_Fingerprint :: string
  RRS_CertificatePEM :: string
  RRS_CACertificatePEM :: string
  RRS_Message :: string

record EnrollmentManager =
  EM_gatewayID :: string
  EM_subnetCIDR :: string
  EM_controlPlaneURL :: string
  EM_certDir :: string
  EM_keyPEM :: string
  EM_clientCert :: "(string \<times> string) option"
  EM_caCertPool :: "string option"

definition NewEnrollmentManager :: "string \<Rightarrow> string \<Rightarrow> string \<Rightarrow> string \<Rightarrow> EnrollmentManager" where
  "NewEnrollmentManager gatewayID subnetCIDR controlPlaneURL certDir =
     \<lparr>EM_gatewayID = gatewayID, EM_subnetCIDR = subnetCIDR, EM_controlPlaneURL = trim_right (CHR ''/'') controlPlaneURL,
      EM_certDir = certDir, EM_keyPEM = [], EM_clientCert = None, EM_caCertPool = None\<rparr>"

datatype enrollment_error =
    ErrEnrollmentPending
  | ErrEnrollmentRejected
  | KeyNotGenerated
  | KeyNotMarshalled
  | CSRNotCreated
  | RegistrationNotEncoded
  | RegistrationNotBuilt
  | RegistrationTransport string
  | RegistrationNotRead
  | RegistrationRefused int string
  | RegistrationNotDecoded
  | InvalidKeyPair
  | CANotAppended

text \<open>The library: a fresh key (as PEM, if it can be made and encoded), a signing request for it, pairing of a
  certificate with a key, and parsing of a CA bundle. The disk is a map from file names.\<close>

record enrollment_lib =
  ENL_key :: "bool \<times> string option"
  ENL_csr :: "string \<Rightarrow> string option"
  ENL_pair_ok :: "string \<Rightarrow> string \<Rightarrow> bool"
  ENL_ca_ok :: "string \<Rightarrow> bool"
  ENL_hostname :: string
  ENL_marshal :: "RegistrationRequest \<Rightarrow> string option"
  ENL_unmarshal :: "string \<Rightarrow> RegistrationResponse option"

type_synonym disk = "string \<rightharpoonup> string"

record enrollment_env =
  ENE_request_ok :: bool
  ENE_exchange :: exchange
  ENE_read_ok :: bool

definition GenerateKeyAndCSR :: "enrollment_lib \<Rightarrow> EnrollmentManager \<Rightarrow> EnrollmentManager \<times> (enrollment_error + string \<times> string)" where
  "GenerateKeyAndCSR lib em =
     (if \<not> fst (ENL_key lib) then (em, Inl KeyNotGenerated)
      else
        (case snd (ENL_key lib) of
           None \<Rightarrow> (em, Inl KeyNotMarshalled)
         | Some keyPEM \<Rightarrow>
             (let em = em\<lparr>EM_keyPEM := keyPEM\<rparr>
              in case ENL_csr lib keyPEM of
                   None \<Rightarrow> (em, Inl CSRNotCreated)
                 | Some csrPEM \<Rightarrow> (em, Inr (csrPEM, keyPEM)))))"

definition cert_file :: "EnrollmentManager \<Rightarrow> string \<Rightarrow> string" where
  "cert_file em name = EM_certDir em @ ''/'' @ name"

text \<open>The key is the given one, else the one in memory, else the one on disk.\<close>

definition effective_key :: "disk \<Rightarrow> EnrollmentManager \<Rightarrow> string \<Rightarrow> string" where
  "effective_key dsk em keyPEM =
     (let k = (if keyPEM = [] then EM_keyPEM em else keyPEM)
      in if k = [] \<and> EM_certDir em \<noteq> [] then (case dsk (cert_file em ''gateway.key'') of None \<Rightarrow> k | Some d \<Rightarrow> d) else k)"

definition InstallCertificates :: "enrollment_lib \<Rightarrow> disk \<Rightarrow> EnrollmentManager \<Rightarrow> string \<Rightarrow> string \<Rightarrow> string
    \<Rightarrow> disk \<times> EnrollmentManager \<times> enrollment_error option" where
  "InstallCertificates lib dsk em certPEM keyPEM0 caPEM =
     (let keyPEM = effective_key dsk em keyPEM0
      in if \<not> ENL_pair_ok lib certPEM keyPEM then (dsk, em, Some InvalidKeyPair)
         else
           (let em = em\<lparr>EM_clientCert := Some (certPEM, keyPEM)\<rparr>
            in if caPEM \<noteq> [] \<and> \<not> ENL_ca_ok lib caPEM then (dsk, em, Some CANotAppended)
               else
                 (let em = (if caPEM \<noteq> [] then em\<lparr>EM_caCertPool := Some caPEM\<rparr> else em);
                      dsk = (if EM_certDir em = [] then dsk
                             else (let d = dsk(cert_file em ''gateway.crt'' \<mapsto> certPEM)
                                   in if caPEM \<noteq> [] then d(cert_file em ''ca.crt'' \<mapsto> caPEM) else d))
                  in (dsk, em, None))))"

definition RegisterAndEnroll :: "enrollment_lib \<Rightarrow> enrollment_env \<Rightarrow> disk \<Rightarrow> EnrollmentManager
    \<Rightarrow> disk \<times> EnrollmentManager \<times> (enrollment_error + RegistrationResponse)" where
  "RegisterAndEnroll lib env dsk em0 =
     (case GenerateKeyAndCSR lib em0 of
        (em, Inl err) \<Rightarrow> (dsk, em, Inl err)
      | (em, Inr (csrPEM, keyPEM)) \<Rightarrow>
          (case ENL_marshal lib \<lparr>RRQ_GatewayID = EM_gatewayID em, RRQ_SubnetCIDR = EM_subnetCIDR em, RRQ_Hostname = ENL_hostname lib,
                  RRQ_CSRPEM = csrPEM, RRQ_ClientVer = ''v1.0.0''\<rparr> of
             None \<Rightarrow> (dsk, em, Inl RegistrationNotEncoded)
           | Some payload \<Rightarrow>
               if \<not> ENE_request_ok env then (dsk, em, Inl RegistrationNotBuilt)
               else
                 (case ENE_exchange env of
                    TransportFailed err \<Rightarrow> (dsk, em, Inl (RegistrationTransport err))
                  | Answered st body0 \<Rightarrow>
                      (let body = take 1048576 body0
                       in if \<not> ENE_read_ok env then (dsk, em, Inl RegistrationNotRead)
                          else if st \<noteq> 200 \<and> st \<noteq> 202 \<and> st \<noteq> 201 then (dsk, em, Inl (RegistrationRefused st body))
                          else
                            (case ENL_unmarshal lib body of
                               None \<Rightarrow> (dsk, em, Inl RegistrationNotDecoded)
                             | Some regResp \<Rightarrow>
                                 (let dsk = (if EM_certDir em = [] then dsk
                                             else dsk(cert_file em ''gateway.key'' \<mapsto> keyPEM, cert_file em ''gateway.csr'' \<mapsto> csrPEM))
                                  in if RRS_Status regResp = ''approved'' \<and> RRS_CertificatePEM regResp \<noteq> []
                                     then (case InstallCertificates lib dsk em (RRS_CertificatePEM regResp) keyPEM (RRS_CACertificatePEM regResp) of
                                             (dsk, em, Some err) \<Rightarrow> (dsk, em, Inl err)
                                           | (dsk, em, None) \<Rightarrow> (dsk, em, Inr regResp))
                                     else (dsk, em, Inr regResp)))))))"

text \<open>Both values of the Go result: the response, if any, and the error, if any.\<close>

definition PollCertificateApproval :: "enrollment_lib \<Rightarrow> enrollment_env \<Rightarrow> disk \<Rightarrow> EnrollmentManager \<Rightarrow> string
    \<Rightarrow> disk \<times> EnrollmentManager \<times> RegistrationResponse option \<times> enrollment_error option" where
  "PollCertificateApproval lib env dsk em keyPEM =
     (if \<not> ENE_request_ok env then (dsk, em, None, Some RegistrationNotBuilt)
      else
        (case ENE_exchange env of
           TransportFailed err \<Rightarrow> (dsk, em, None, Some (RegistrationTransport err))
         | Answered st body \<Rightarrow>
             if st = 404 then (dsk, em, None, Some ErrEnrollmentPending)
             else if st \<noteq> 200 then (dsk, em, None, Some (RegistrationRefused st []))
             else
               (case ENL_unmarshal lib body of
                  None \<Rightarrow> (dsk, em, None, Some RegistrationNotDecoded)
                | Some regResp \<Rightarrow>
                    if RRS_Status regResp = ''rejected'' then (dsk, em, Some regResp, Some ErrEnrollmentRejected)
                    else if RRS_Status regResp \<noteq> ''approved'' \<or> RRS_CertificatePEM regResp = []
                    then (dsk, em, Some regResp, Some ErrEnrollmentPending)
                    else
                      (case InstallCertificates lib dsk em (RRS_CertificatePEM regResp) keyPEM (RRS_CACertificatePEM regResp) of
                         (dsk, em, Some err) \<Rightarrow> (dsk, em, None, Some err)
                       | (dsk, em, None) \<Rightarrow> (dsk, em, Some regResp, None)))))"

record tls_config =
  TLS_certificate :: "(string \<times> string) option"
  TLS_roots :: "string option"

definition BuildTLSClientConfig :: "EnrollmentManager \<Rightarrow> tls_config" where
  "BuildTLSClientConfig em = \<lparr>TLS_certificate = EM_clientCert em, TLS_roots = EM_caCertPool em\<rparr>"

definition ComputeFingerprint :: "(string \<Rightarrow> string) \<Rightarrow> string \<Rightarrow> string" where
  "ComputeFingerprint sha256 der = ''SHA256:'' @ hex_encode (sha256 der)"

text \<open>A client certificate appears only with an approved response that carries one, and matches its key. (A CA
  bundle that cannot be parsed leaves it installed although an error is returned.)\<close>

lemma InstallCertificates_pair:
  assumes "InstallCertificates lib dsk em certPEM keyPEM caPEM = (dsk', em', res)"
  shows "EM_clientCert em' = EM_clientCert em
    \<or> EM_clientCert em' = Some (certPEM, effective_key dsk em keyPEM) \<and> ENL_pair_ok lib certPEM (effective_key dsk em keyPEM)"
  using assms by (auto simp: InstallCertificates_def Let_def split: if_splits)

lemma bad_ca_leaves_certificate:
  assumes "ENL_pair_ok lib certPEM (effective_key dsk em keyPEM)" "caPEM \<noteq> []" "\<not> ENL_ca_ok lib caPEM"
  shows "\<exists>em'. InstallCertificates lib dsk em certPEM keyPEM caPEM = (dsk, em', Some CANotAppended)
    \<and> EM_clientCert em' = Some (certPEM, effective_key dsk em keyPEM)"
  using assms by (simp add: InstallCertificates_def Let_def)

section \<open>The agent\<close>

record resolve_request =
  RVQ_url :: string
  RVQ_gateway :: string
  RVQ_job :: string
  RVQ_ref :: string

text \<open>The just-in-time resolver: a request to the control plane whose body is the secret.\<close>

definition vaultResolver :: "string \<Rightarrow> (resolve_request \<Rightarrow> bool \<times> exchange \<times> string option) \<Rightarrow> string \<Rightarrow> string \<Rightarrow> string \<Rightarrow> string + string" where
  "vaultResolver controlPlaneURL http gwID scanJobID opaqueID =
     (let req = \<lparr>RVQ_url = controlPlaneURL @ ''/api/v1/vault/resolve'', RVQ_gateway = gwID, RVQ_job = scanJobID, RVQ_ref = opaqueID\<rparr>;
          (built, x, read_error) = http req
      in if \<not> built then Inl ''request not built''
         else
           (case x of
              TransportFailed err \<Rightarrow> Inl err
            | Answered st body \<Rightarrow>
                if st \<noteq> 200 then Inl (''vault resolution returned status '' @ dec_int st)
                else (case read_error of Some err \<Rightarrow> Inl err | None \<Rightarrow> Inr (take 65536 body))))"

text \<open>One cycle of the dispatch loop: poll, run every job, stream every batch, then pause. Each job is run and
  streamed before the next one.\<close>

datatype job_outcome = JobFailed string | JobStreamed string | JobNotStreamed stream_error

definition run_job :: "(ScanJobDescriptor \<Rightarrow> string + ScanBatchResult) \<Rightarrow> (ScanBatchResult \<Rightarrow> stream_request option \<times> ScanBatchResult \<times> (stream_error + string))
    \<Rightarrow> ScanJobDescriptor \<Rightarrow> job_outcome" where
  "run_job execute stream job =
     (case execute job of
        Inl err \<Rightarrow> JobFailed err
      | Inr batch \<Rightarrow> (case snd (snd (stream batch)) of Inl err \<Rightarrow> JobNotStreamed err | Inr h \<Rightarrow> JobStreamed h))"

definition execute_descriptor :: "job_env \<Rightarrow> GatewayConfig \<Rightarrow> SubnetRateLimiter option \<Rightarrow> ScanJobDescriptor \<Rightarrow> string + ScanBatchResult" where
  "execute_descriptor env cfg l job =
     ExecuteScanJob env (GC_GatewayID cfg) l (SJD_ID job) (SJD_TargetCIDR job) (SJD_Protocol job) (SJD_VaultSecretRef job)
       (SJD_TargetHosts job) (GC_AllowInsecureHTTP cfg)"

definition dispatch_cycle :: "poll_env \<Rightarrow> (ScanJobDescriptor \<Rightarrow> job_outcome) \<Rightarrow> nat \<Rightarrow> Poller \<Rightarrow> Poller \<times> job_outcome list \<times> duration" where
  "dispatch_cycle env run val p =
     (let (p, out) = PollOnce env p;
          outcomes = (case out of Inl err \<Rightarrow> [] | Inr jobs \<Rightarrow> map run jobs)
      in (p, outcomes, NextDelay val p))"

end
