(* ===== verification/Integration.thy ===== *)
theory Integration
  imports AuthServer Openapi Enrollment
begin

text \<open>
  The gateway against the API server: the JSON the one sends (field tags of \<open>mtls/enrollment.go\<close> and \<open>heartbeat/heartbeat.go\<close>) as
  the other decodes it (field tags of the request structures of \<open>handlers/handlers.go\<close>), and the requests of the gateway as
  the routes of the server take them.
\<close>

section \<open>Bodies\<close>

definition RegistrationRequest_json :: "RegistrationRequest \<Rightarrow> json" where
  "RegistrationRequest_json q =
     JObj [(''gateway_id'', JStr (RRQ_GatewayID q)), (''subnet_cidr'', JStr (RRQ_SubnetCIDR q)), (''hostname'', JStr (RRQ_Hostname q)),
       (''csr_pem'', JStr (RRQ_CSRPEM q)), (''client_version'', JStr (RRQ_ClientVer q))]"

definition HeartbeatPayload_json :: "(time \<Rightarrow> string) \<Rightarrow> HeartbeatPayload \<Rightarrow> json" where
  "HeartbeatPayload_json fmt h =
     JObj [(''gateway_code'', JStr (HBP_GatewayCode h)), (''subnet_cidr'', JStr (HBP_SubnetCIDR h)), (''status'', JStr (HBP_Status h)),
       (''version'', JStr (HBP_Version h)), (''latency_ms'', JNum (of_int (HBP_LatencyMs h))),
       (''active_sessions'', JNum (of_int (HBP_ActiveSessions h))), (''timestamp'', JStr (fmt (HBP_Timestamp h)))]"

text \<open>Decoding into a structure: a member sets the field whose tag it is up to case, the last one wins, other members are
  ignored, \<open>null\<close> leaves the field, and a value of another type is an error.\<close>

fun str_field :: "string \<Rightarrow> (string \<times> json) list \<Rightarrow> string \<Rightarrow> string option" where
  "str_field tag [] v = Some v"
| "str_field tag ((k, j) # ms) v =
     (if \<not> equal_fold k tag then str_field tag ms v
      else case j of JStr s \<Rightarrow> str_field tag ms s | JNull \<Rightarrow> str_field tag ms v | _ \<Rightarrow> None)"

fun int_field :: "string \<Rightarrow> (string \<times> json) list \<Rightarrow> int \<Rightarrow> int option" where
  "int_field tag [] v = Some v"
| "int_field tag ((k, j) # ms) v =
     (if \<not> equal_fold k tag then int_field tag ms v
      else case j of JNum q \<Rightarrow> (if of_int \<lfloor>q\<rfloor> = q \<and> fits64 \<lfloor>q\<rfloor> then int_field tag ms \<lfloor>q\<rfloor> else None)
           | JNull \<Rightarrow> int_field tag ms v | _ \<Rightarrow> None)"

definition decode_registration :: "json \<Rightarrow> RegisterGatewayRequest option" where
  "decode_registration j =
     (case j of
        JObj ms \<Rightarrow>
          (case (str_field ''gateway_code'' ms [], str_field ''name'' ms [], str_field ''subnet_cidr'' ms [], str_field ''csr_pem'' ms []) of
             (Some code, Some name, Some cidr, Some csr) \<Rightarrow>
               Some \<lparr>RGQ_GatewayCode = code, RGQ_Name = name, RGQ_SubnetCIDR = cidr, RGQ_CSRPEM = csr\<rparr>
           | _ \<Rightarrow> None)
      | JNull \<Rightarrow> Some \<lparr>RGQ_GatewayCode = [], RGQ_Name = [], RGQ_SubnetCIDR = [], RGQ_CSRPEM = []\<rparr>
      | _ \<Rightarrow> None)"

definition decode_heartbeat :: "json \<Rightarrow> (string \<times> int) option" where
  "decode_heartbeat j =
     (case j of
        JObj ms \<Rightarrow>
          (case (str_field ''gateway_code'' ms [], int_field ''latency_ms'' ms 0) of
             (Some code, Some latency) \<Rightarrow> Some (code, latency)
           | _ \<Rightarrow> None)
      | JNull \<Rightarrow> Some ([], 0)
      | _ \<Rightarrow> None)"

lemma tags_differ:
  "\<not> equal_fold ''gateway_id'' ''gateway_code''" "\<not> equal_fold ''subnet_cidr'' ''gateway_code''" "\<not> equal_fold ''hostname'' ''gateway_code''"
  "\<not> equal_fold ''csr_pem'' ''gateway_code''" "\<not> equal_fold ''client_version'' ''gateway_code''"
  "\<not> equal_fold ''status'' ''gateway_code''" "\<not> equal_fold ''version'' ''gateway_code''" "\<not> equal_fold ''latency_ms'' ''gateway_code''"
  "\<not> equal_fold ''active_sessions'' ''gateway_code''" "\<not> equal_fold ''timestamp'' ''gateway_code''"
  by code_simp+

lemma tags_differ_name:
  "\<not> equal_fold ''gateway_id'' ''name''" "\<not> equal_fold ''subnet_cidr'' ''name''" "\<not> equal_fold ''hostname'' ''name''"
  "\<not> equal_fold ''csr_pem'' ''name''" "\<not> equal_fold ''client_version'' ''name''"
  by code_simp+

lemma tags_differ_cidr:
  "\<not> equal_fold ''gateway_id'' ''subnet_cidr''" "\<not> equal_fold ''hostname'' ''subnet_cidr''"
  "\<not> equal_fold ''csr_pem'' ''subnet_cidr''" "\<not> equal_fold ''client_version'' ''subnet_cidr''"
  by code_simp+

lemma tags_differ_csr:
  "\<not> equal_fold ''gateway_id'' ''csr_pem''" "\<not> equal_fold ''subnet_cidr'' ''csr_pem''" "\<not> equal_fold ''hostname'' ''csr_pem''"
  "\<not> equal_fold ''client_version'' ''csr_pem''"
  by code_simp+

lemma tags_differ_latency:
  "\<not> equal_fold ''gateway_code'' ''latency_ms''" "\<not> equal_fold ''subnet_cidr'' ''latency_ms''" "\<not> equal_fold ''status'' ''latency_ms''"
  "\<not> equal_fold ''version'' ''latency_ms''" "\<not> equal_fold ''active_sessions'' ''latency_ms''" "\<not> equal_fold ''timestamp'' ''latency_ms''"
  by code_simp+

text \<open>The server looks for the name of the gateway under a tag the gateway does not send.\<close>

lemma registration_decoded:
  "decode_registration (RegistrationRequest_json q) =
     Some \<lparr>RGQ_GatewayCode = [], RGQ_Name = [], RGQ_SubnetCIDR = RRQ_SubnetCIDR q, RGQ_CSRPEM = RRQ_CSRPEM q\<rparr>"
  by (simp add: decode_registration_def RegistrationRequest_json_def tags_differ tags_differ_name tags_differ_cidr tags_differ_csr)

lemma heartbeat_decoded:
  "decode_heartbeat (HeartbeatPayload_json fmt (heartbeat_payload env d)) = Some (HBD_gatewayID d, 0)"
  by (simp add: decode_heartbeat_def HeartbeatPayload_json_def heartbeat_payload_def tags_differ tags_differ_latency fits64_def
      min_int64_def max_int64_def)

section \<open>Requests and routes\<close>

text \<open>A path below \<open>/api/v1\<close> fits a pattern segment by segment; a segment in braces takes any.\<close>

fun segments_match :: "string list \<Rightarrow> string list \<Rightarrow> bool" where
  "segments_match [] [] = True"
| "segments_match (p # ps) (x # xs) = ((p = x \<or> has_prefix p ''{'' \<and> x \<noteq> []) \<and> segments_match ps xs)"
| "segments_match _ _ = False"

definition path_matches :: "string \<Rightarrow> string \<Rightarrow> bool" where
  "path_matches pat path = segments_match (split_on CHR ''/'' pat) (split_on CHR ''/'' path)"

lemma segments_match_length: "segments_match ps xs \<Longrightarrow> length ps = length xs"
  by (induction ps xs rule: segments_match.induct) auto

lemma segments_match_last:
  "segments_match (ps @ [p]) (xs @ [x]) \<Longrightarrow> p = x \<or> has_prefix p ''{'' \<and> x \<noteq> []"
  by (induction ps xs rule: segments_match.induct) (auto dest: segments_match_length)

text \<open>What the gateway asks the server for: registration and heartbeat, and jobs, secrets, certificates and the acceptance of results.\<close>

definition gateway_poll :: "string \<times> string" where "gateway_poll = (''GET'', ''/gateways/jobs/poll'')"

definition gateway_resolve :: "string \<times> string" where "gateway_resolve = (''POST'', ''/vault/resolve'')"

definition gateway_cert :: "string \<Rightarrow> string \<times> string" where "gateway_cert gw = (''GET'', ''/gateways/'' @ gw @ ''/cert'')"

definition gateway_results :: "string \<Rightarrow> string \<times> string" where "gateway_results job = (''POST'', ''/scans/'' @ job @ ''/results'')"

definition routed :: "string \<times> string \<Rightarrow> bool" where
  "routed q \<longleftrightarrow> (\<exists>c. method_of c = fst q \<and> path_matches (path_of c) (snd q))
     \<or> (\<exists>c. fst (auth_route_of c) = fst q \<and> path_matches (fst (snd (auth_route_of c))) (snd q))"

lemma split_on_app: "c \<notin> set a \<Longrightarrow> split_on c (a @ c # b) = a # split_on c b"
  by (induction a) auto

lemma split_poll: "split_on CHR ''/'' ''/gateways/jobs/poll'' = [[], ''gateways'', ''jobs'', ''poll'']"
  by code_simp

lemma registration_routed: "routed (''POST'', ''/gateways/register'')"
proof -
  have "method_of (C_RegisterGateway None) = ''POST'' \<and> path_matches (path_of (C_RegisterGateway None)) ''/gateways/register''"
    by (simp add: method_of_def path_of_def) code_simp
  then show ?thesis unfolding routed_def by auto
qed

text \<open>The routes by their segments; a request that fits none of them by its segments is not routed.\<close>

lemma route_segments:
  assumes "split_on CHR ''/'' path = segs"
    and "\<And>c. \<not> (method_of c = m \<and> segments_match (split_on CHR ''/'' (path_of c)) segs)"
    and "\<And>c. \<not> (fst (auth_route_of c) = m \<and> segments_match (split_on CHR ''/'' (fst (snd (auth_route_of c)))) segs)"
  shows "\<not> routed (m, path)"
  using assms(2,3) by (auto simp: routed_def path_matches_def assms(1))

lemma poll_not_routed: "\<not> routed gateway_poll"
  unfolding gateway_poll_def
proof (rule route_segments [OF split_poll])
  show "\<not> (method_of c = ''GET'' \<and> segments_match (split_on CHR ''/'' (path_of c)) [[], ''gateways'', ''jobs'', ''poll''])" for c
    by (cases c) (simp_all add: method_of_def path_of_def has_prefix_def)
  show "\<not> (fst (auth_route_of c) = ''GET'' \<and> segments_match (split_on CHR ''/'' (fst (snd (auth_route_of c)))) [[], ''gateways'', ''jobs'', ''poll''])" for c
    by (cases c) (simp_all add: has_prefix_def)
qed

lemma resolve_not_routed: "\<not> routed gateway_resolve"
  unfolding gateway_resolve_def
proof (rule route_segments)
  show "split_on CHR ''/'' ''/vault/resolve'' = [[], ''vault'', ''resolve'']" by code_simp
  show "\<not> (method_of c = ''POST'' \<and> segments_match (split_on CHR ''/'' (path_of c)) [[], ''vault'', ''resolve''])" for c
    by (cases c) (simp_all add: method_of_def path_of_def has_prefix_def)
  show "\<not> (fst (auth_route_of c) = ''POST'' \<and> segments_match (split_on CHR ''/'' (fst (snd (auth_route_of c)))) [[], ''vault'', ''resolve''])" for c
    by (cases c) (simp_all add: has_prefix_def)
qed

lemma cert_not_routed:
  assumes "CHR ''/'' \<notin> set gw"
  shows "\<not> routed (gateway_cert gw)"
  unfolding gateway_cert_def
proof (rule route_segments)
  show "split_on CHR ''/'' (''/gateways/'' @ gw @ ''/cert'') = [[], ''gateways'', gw, ''cert'']"
    using split_on_app [OF assms, of "''cert''"] by simp
  show "\<not> (method_of c = ''GET'' \<and> segments_match (split_on CHR ''/'' (path_of c)) [[], ''gateways'', gw, ''cert''])" for c
    by (cases c) (simp_all add: method_of_def path_of_def has_prefix_def)
  show "\<not> (fst (auth_route_of c) = ''GET'' \<and> segments_match (split_on CHR ''/'' (fst (snd (auth_route_of c)))) [[], ''gateways'', gw, ''cert''])" for c
    by (cases c) (simp_all add: has_prefix_def)
qed

lemma results_not_routed:
  assumes "CHR ''/'' \<notin> set job"
  shows "\<not> routed (gateway_results job)"
  unfolding gateway_results_def
proof (rule route_segments)
  show "split_on CHR ''/'' (''/scans/'' @ job @ ''/results'') = [[], ''scans'', job, ''results'']"
    using split_on_app [OF assms, of "''results''"] by simp
  show "\<not> (method_of c = ''POST'' \<and> segments_match (split_on CHR ''/'' (path_of c)) [[], ''scans'', job, ''results''])" for c
    by (cases c) (simp_all add: method_of_def path_of_def has_prefix_def)
  show "\<not> (fst (auth_route_of c) = ''POST'' \<and> segments_match (split_on CHR ''/'' (fst (snd (auth_route_of c)))) [[], ''scans'', job, ''results''])" for c
    by (cases c) (simp_all add: has_prefix_def)
qed

section \<open>Registration\<close>

text \<open>The status the server answers a registration request with.\<close>

definition registration_status :: "(string \<Rightarrow> token_error + UserClaims) \<Rightarrow> (nat \<Rightarrow> time) \<Rightarrow> ('e, 's) SecretProvider \<Rightarrow> 'e handler_env
    \<Rightarrow> RateLimiter \<times> 's ApiState \<Rightarrow> url \<Rightarrow> req \<Rightarrow> RegistrationRequest \<Rightarrow> int option" where
  "registration_status verify clk p env st u r q =
     W_Status (snd (serve verify clk p env st u (C_RegisterGateway (decode_registration (RegistrationRequest_json q))) r new_response))"

lemma RegisterAndEnroll_refused:
  assumes "ENE_exchange env = Answered st body" "400 \<le> st"
  shows "\<exists>em' err. RegisterAndEnroll lib env dsk em = (dsk, em', Inl err) \<and> EM_clientCert em' = EM_clientCert em
    \<and> EM_caCertPool em' = EM_caCertPool em"
  using assms
  by (auto simp: RegisterAndEnroll_def GenerateKeyAndCSR_def Let_def split: option.splits prod.splits)

definition refusal :: "'b Response \<Rightarrow> bool" where
  "refusal w \<longleftrightarrow> (\<exists>st \<ge> 400. W_Status w = Some st)"

lemma problem_refusal [simp]: "W_Status w = None \<Longrightarrow> 400 \<le> st \<Longrightarrow> refusal (WriteProblemDetails now w r st ec d ps)"
  by (auto simp: refusal_def WriteProblemDetails_def Let_def encode_body_def write_header_def set_header_def split: option.splits)

lemma set_header_status [simp]: "W_Status (set_header h v w) = W_Status w"
  by (simp add: set_header_def)

text \<open>A chain in front of a handler that refuses everything refuses everything.\<close>

lemma guarded_refusal:
  assumes "\<And>r w. W_Status w = None \<Longrightarrow> refusal (next r w)" "W_Status w = None"
  shows "refusal (guarded g clk next r w)"
  using assms by (cases g) (simp_all add: RequirePermission_def RequireStepUp_def split: option.splits)

lemma csrf_refusal:
  assumes "\<And>r w. W_Status w = None \<Longrightarrow> refusal (next r w)" "W_Status w = None"
  shows "refusal (CSRFProtectionMiddleware now next r w)"
  using assms by (auto simp: CSRFProtectionMiddleware_def Let_def split: option.splits)

lemma rate_refusal:
  assumes "\<And>r w. W_Status w = None \<Longrightarrow> refusal (next r w)" "W_Status w = None"
  shows "refusal (snd (RateLimitMutatingMiddleware now next rl r w))"
  using assms by (auto simp: RateLimitMutatingMiddleware_def Let_def split: prod.splits)

lemma chain_refusal:
  assumes "\<And>r w. W_Status w = None \<Longrightarrow> refusal (next r w)" "W_Status w = None"
  shows "refusal (snd (protected_chain verify clk g next rl r w))"
  unfolding protected_chain_def OptionalAuth_caller
  by (intro rate_refusal csrf_refusal guarded_refusal assms)

lemma registration_answered: "\<exists>st \<ge> 400. registration_status verify clk p env (rl, s) u r q = Some st"
proof -
  let ?c = "C_RegisterGateway (decode_registration (RegistrationRequest_json q))"
  have h: "refusal (snd (dispatch p env s u ?c r w))" if "W_Status w = None" for r w
    using that by (simp add: registration_decoded h_RegisterGateway_def fail_with_def)
  have "refusal (snd (protected_chain verify clk (guard_of ?c) (\<lambda>r w. snd (dispatch p env s u ?c r w)) rl r new_response))"
    by (rule chain_refusal [OF h]) (simp_all add: new_response_def)
  moreover have "guard_of ?c \<noteq> Public" by (simp add: guard_of_def)
  ultimately have "refusal (snd (serve verify clk p env (rl, s) u ?c r new_response))"
    by (simp add: serve_def Let_def case_prod_beta)
  then show ?thesis by (simp add: registration_status_def refusal_def)
qed

text \<open>The heartbeat is understood; the latency it reports is zero always.\<close>

lemma heartbeat_recorded:
  assumes "passes verify clk Group rl r"
  shows "snd (fst (serve verify clk p henv (rl, s) u
      (C_GatewayHeartbeat (decode_heartbeat (HeartbeatPayload_json fmt (heartbeat_payload env d)))) r w)) =
    s\<lparr>AP_fleet := UpdateGatewayHeartbeat (VO_gateways (HE_ord henv)) (HE_clk henv 0) (AP_fleet s) (HBD_gatewayID d) 0\<rparr>"
proof -
  have "guard_of (C_GatewayHeartbeat b) = Group" for b by (simp add: guard_of_def)
  then show ?thesis using assms by (simp add: serve_state heartbeat_decoded h_GatewayHeartbeat_def)
qed

section \<open>Theorems\<close>

text \<open>C8. A gateway cannot enrol with this server: whatever the request a gateway registers with, the caller and the state of the
  server, when the exchange of \<open>RegisterAndEnroll\<close> is the server's answer the enrolment fails, writes nothing to disk and installs
  no certificate, because the server looks for the gateway's name under the tag \<open>gateway_code\<close> and the gateway sends
  \<open>gateway_id\<close>.\<close>

theorem gateway_cannot_enroll:
  assumes "registration_status verify clk p henv (rl, s) u r q = Some st" "ENE_exchange env = Answered st body"
  shows "\<exists>em' err. RegisterAndEnroll lib env dsk em = (dsk, em', Inl err) \<and> EM_clientCert em' = EM_clientCert em
    \<and> EM_caCertPool em' = EM_caCertPool em"
proof -
  have "400 \<le> st" using registration_answered [of verify clk p henv rl s u r q] unfolding assms(1) by auto
  then show ?thesis by (rule RegisterAndEnroll_refused [OF assms(2)])
qed

text \<open>Witness of C8. The first gateway that asks a fresh server is refused.\<close>

definition sample_registration :: RegistrationRequest where
  "sample_registration = \<lparr>RRQ_GatewayID = ''gw-1'', RRQ_SubnetCIDR = ''10.0.0.0/24'', RRQ_Hostname = ''h'', RRQ_CSRPEM = ''csr'',
    RRQ_ClientVer = ''v1.0.0''\<rparr>"

definition sample_enrollment :: enrollment_lib where
  "sample_enrollment = \<lparr>ENL_key = (True, Some ''key''), ENL_csr = (\<lambda>_. Some ''csr''), ENL_pair_ok = (\<lambda>_ _. True), ENL_ca_ok = (\<lambda>_. True),
    ENL_hostname = ''h'', ENL_marshal = (\<lambda>_. Some ''{}''), ENL_unmarshal = (\<lambda>_. None)\<rparr>"

theorem gateway_cannot_enroll_witness:
  "\<forall>p henv s u. \<exists>em' err. RegisterAndEnroll sample_enrollment
     \<lparr>ENE_request_ok = True,
      ENE_exchange = Answered (the (registration_status (\<lambda>_. Inl InvalidFormat) (\<lambda>_. Second) p henv (NewRateLimiter 60 20, s) u
        (sample_request ''POST'' Map.empty) sample_registration)) [], ENE_read_ok = True\<rparr>
     Map.empty (NewEnrollmentManager ''gw-1'' ''10.0.0.0/24'' ''https://api.test'' ''/certs'') = (Map.empty, em', Inl err)
   \<and> EM_clientCert em' = None"
proof (intro allI)
  fix p henv s u
  let ?st = "registration_status (\<lambda>_. Inl InvalidFormat) (\<lambda>_. Second) p henv (NewRateLimiter 60 20, s) u
        (sample_request ''POST'' Map.empty) sample_registration"
  let ?env = "\<lparr>ENE_request_ok = True, ENE_exchange = Answered (the ?st) [], ENE_read_ok = True\<rparr>"
  have "?st = Some (the ?st)" using registration_answered by (metis option.sel)
  from gateway_cannot_enroll [OF this, of ?env "[]" sample_enrollment Map.empty
      "NewEnrollmentManager ''gw-1'' ''10.0.0.0/24'' ''https://api.test'' ''/certs''"]
  show "\<exists>em' err. RegisterAndEnroll sample_enrollment ?env Map.empty
      (NewEnrollmentManager ''gw-1'' ''10.0.0.0/24'' ''https://api.test'' ''/certs'') = (Map.empty, em', Inl err) \<and> EM_clientCert em' = None"
    by (auto simp: NewEnrollmentManager_def)
qed

end
