(* ===== verification/FeedWorker.thy ===== *)
theory FeedWorker
  imports Feeds
begin

text \<open>
  The background worker of the vulnerability feeds (\<open>vulnscan/worker.go\<close>): its configuration, its construction with the two
  clients (\<open>vulnscan/nvd_client.go\<close>, \<open>vulnscan/kev_client.go\<close>) and its loop over the ticks it sees.
\<close>

section \<open>Construction\<close>

definition DefaultNVDBaseURL :: string where "DefaultNVDBaseURL = ''https://services.nvd.nist.gov/rest/json/cves/2.0''"

definition DefaultCISAKEVURL :: string where
  "DefaultCISAKEVURL = ''https://www.cisa.gov/sites/default/files/feeds/known_exploited_vulnerabilities.json''"

record NVDClient =
  NC_baseURL :: string
  NC_apiKey :: string
  NC_rateLimiter :: NVDRateLimiter

definition NewNVDClient :: "string \<Rightarrow> string \<Rightarrow> NVDClient" where
  "NewNVDClient baseURL apiKey =
     \<lparr>NC_baseURL = (if baseURL = [] then DefaultNVDBaseURL else baseURL), NC_apiKey = apiKey,
      NC_rateLimiter = NewNVDRateLimiter (apiKey \<noteq> [])\<rparr>"

record KEVClient =
  KC_baseURL :: string

definition NewKEVClient :: "string \<Rightarrow> KEVClient" where
  "NewKEVClient baseURL = \<lparr>KC_baseURL = (if baseURL = [] then DefaultCISAKEVURL else baseURL)\<rparr>"

record WorkerConfig =
  WC_NVDAPIKey :: string
  WC_NVDBaseURL :: string
  WC_CISAKEVURL :: string
  WC_SyncInterval :: duration
  WC_EnableAutoSync :: bool

text \<open>The configuration and the clients do not change, apart from the limiter; they are kept beside the worker's state.\<close>

definition NewVulnScanWorker :: "WorkerConfig \<Rightarrow> MemoryFindingRepository \<Rightarrow> NVDClient option \<Rightarrow> KEVClient option
    \<Rightarrow> WorkerConfig \<times> NVDClient \<times> KEVClient \<times> VulnScanWorker" where
  "NewVulnScanWorker cfg repo nvd kev =
     (let cfg = (if WC_SyncInterval cfg \<le> 0 then cfg\<lparr>WC_SyncInterval := Hour\<rparr> else cfg);
          nvdClient = (case nvd of None \<Rightarrow> NewNVDClient (WC_NVDBaseURL cfg) (WC_NVDAPIKey cfg) | Some c \<Rightarrow> c);
          kevClient = (case kev of None \<Rightarrow> NewKEVClient (WC_CISAKEVURL cfg) | Some c \<Rightarrow> c)
      in (cfg, nvdClient, kevClient,
          \<lparr>VW_limiter = NC_rateLimiter nvdClient, VW_repo = repo, VW_running = False, VW_lastSyncAt = zero_time\<rparr>))"

section \<open>The loop\<close>

text \<open>What the select of the loop sees, in order; the deadline of a synchronisation is part of what its attempts meet.\<close>

datatype worker_event = FeedTick sync_env | FeedStop | FeedDone

definition auto_sync :: "sync_lib \<Rightarrow> WorkerConfig \<Rightarrow> sync_env \<Rightarrow> VulnScanWorker \<Rightarrow> VulnScanWorker" where
  "auto_sync lib cfg env w = (if WC_EnableAutoSync cfg then fst (SyncFeedsNow lib env w) else w)"

fun worker_loop :: "sync_lib \<Rightarrow> WorkerConfig \<Rightarrow> VulnScanWorker \<Rightarrow> worker_event list \<Rightarrow> VulnScanWorker" where
  "worker_loop lib cfg w [] = w"
| "worker_loop lib cfg w (FeedTick env # evs) = worker_loop lib cfg (auto_sync lib cfg env w) evs"
| "worker_loop lib cfg w (FeedStop # evs) = w"
| "worker_loop lib cfg w (FeedDone # evs) = w"

text \<open>The goroutine: a synchronisation at once, then the loop. \<open>None\<close>: the worker runs already.\<close>

definition worker_run :: "sync_lib \<Rightarrow> WorkerConfig \<Rightarrow> sync_env \<Rightarrow> VulnScanWorker \<Rightarrow> worker_event list \<Rightarrow> VulnScanWorker option" where
  "worker_run lib cfg env w evs =
     (case Start w of None \<Rightarrow> None | Some w \<Rightarrow> Some (worker_loop lib cfg (auto_sync lib cfg env w) evs))"

lemma worker_loop_disabled: "\<not> WC_EnableAutoSync cfg \<Longrightarrow> worker_loop lib cfg w evs = w"
  by (induction lib cfg w evs rule: worker_loop.induct) (simp_all add: auto_sync_def)

text \<open>A worker without automatic synchronisation never fetches anything.\<close>

lemma worker_disabled:
  "\<not> WC_EnableAutoSync cfg \<Longrightarrow> worker_run lib cfg env w evs = Some w' \<Longrightarrow> VW_repo w' = VW_repo w"
  by (auto simp: worker_run_def worker_loop_disabled auto_sync_def Start_def split: if_splits)

lemma worker_loop_running: "VW_running (auto_sync lib cfg env w) = VW_running w"
  by (auto simp: auto_sync_def SyncFeedsNow_def Let_def split: sum.splits prod.splits)

end
