(* ===== verification/EnvelopeVault.thy ===== *)
theory EnvelopeVault
  imports SecretVault
begin

text \<open>
  The self-hosted provider (\<open>vault/envelope.go\<close>): every credential is sealed under a key derived from the
  master key and a fresh salt. HKDF, AES-GCM and the random source are arguments; \<open>aead\<close> states that what
  GCM sealed it opens again. The provider satisfies the contract \<open>secret_provider\<close>, and the manager over
  it refines a map from identifiers to owner and secret.
\<close>

section \<open>Data\<close>

record envelopeRecord =
  EN_TenantID :: string
  EN_Ciphertext :: string
  EN_Nonce :: string
  EN_Salt :: string
  EN_RotationVersion :: int
  EN_CredentialType :: string
  EN_Username :: string
  EN_DomainOrHost :: string
  EN_CreatedAt :: time
  EN_UpdatedAt :: time

record EnvelopeProvider =
  EV_masterKey :: string
  EV_records :: "string \<rightharpoonup> envelopeRecord"

text \<open>The library: \<open>hkdf\<close> takes key, salt and info; \<open>seal\<close> and \<open>open\<close> take key, nonce and data.\<close>

record crypto_lib =
  VC_hkdf :: "string \<Rightarrow> string \<Rightarrow> string \<Rightarrow> string option"
  VC_cipher_ok :: "string \<Rightarrow> bool"
  VC_gcm_ok :: "string \<Rightarrow> bool"
  VC_nonce_size :: nat
  VC_seal :: "string \<Rightarrow> string \<Rightarrow> string \<Rightarrow> string"
  VC_open :: "string \<Rightarrow> string \<Rightarrow> string \<Rightarrow> string option"

text \<open>What a call meets: the result of its i-th read of n random bytes, and the clock.\<close>

record envelope_env =
  EE_rand :: "nat \<Rightarrow> nat \<Rightarrow> string option"
  EE_now :: time

definition hkdfInfo :: string where "hkdfInfo = ''endpointguard-vault-envelope-v1''"

definition NewEnvelopeProvider :: "string \<Rightarrow> vault_error + EnvelopeProvider" where
  "NewEnvelopeProvider masterKey =
     (if length masterKey \<noteq> 32 then Inl (MasterKeyLength (length masterKey))
      else Inr \<lparr>EV_masterKey = masterKey, EV_records = Map.empty\<rparr>)"

section \<open>Sealing\<close>

definition deriveKey :: "crypto_lib \<Rightarrow> EnvelopeProvider \<Rightarrow> string \<Rightarrow> vault_error + string" where
  "deriveKey lib r salt =
     (case VC_hkdf lib (EV_masterKey r) salt hkdfInfo of
        None \<Rightarrow> Inl (CryptoFailed HkdfStep)
      | Some k \<Rightarrow> Inr k)"

definition encrypt :: "crypto_lib \<Rightarrow> envelope_env \<Rightarrow> EnvelopeProvider \<Rightarrow> string \<Rightarrow> vault_error + string \<times> string \<times> string" where
  "encrypt lib e r plaintext =
     (case EE_rand e 0 16 of
        None \<Rightarrow> Inl (CryptoFailed SaltStep)
      | Some salt \<Rightarrow>
          (case deriveKey lib r salt of
             Inl err \<Rightarrow> Inl err
           | Inr derivedKey \<Rightarrow>
               if \<not> VC_cipher_ok lib derivedKey then Inl (CryptoFailed CipherStep)
               else if \<not> VC_gcm_ok lib derivedKey then Inl (CryptoFailed GcmStep)
               else
                 (case EE_rand e 1 (VC_nonce_size lib) of
                    None \<Rightarrow> Inl (CryptoFailed NonceStep)
                  | Some nonce \<Rightarrow> Inr (VC_seal lib derivedKey nonce plaintext, nonce, salt))))"

definition decrypt :: "crypto_lib \<Rightarrow> EnvelopeProvider \<Rightarrow> string \<Rightarrow> string \<Rightarrow> string \<Rightarrow> vault_error + string" where
  "decrypt lib r ciphertext nonce salt =
     (case deriveKey lib r salt of
        Inl err \<Rightarrow> Inl err
      | Inr derivedKey \<Rightarrow>
          if \<not> VC_cipher_ok lib derivedKey then Inl (CryptoFailed CipherStep)
          else if \<not> VC_gcm_ok lib derivedKey then Inl (CryptoFailed GcmStep)
          else
            (case VC_open lib derivedKey nonce ciphertext of
               None \<Rightarrow> Inl (CryptoFailed OpenStep)
             | Some plaintext \<Rightarrow> Inr plaintext))"

section \<open>Operations\<close>

definition envelope_store :: "crypto_lib \<Rightarrow> envelope_env \<Rightarrow> EnvelopeProvider \<Rightarrow> CredentialRef \<Rightarrow> string
    \<Rightarrow> EnvelopeProvider \<times> vault_error option" where
  "envelope_store lib e r ref plaintext =
     (case encrypt lib e r plaintext of
        Inl err \<Rightarrow> (r, Some err)
      | Inr (ciphertext, nonce, salt) \<Rightarrow>
          (r\<lparr>EV_records := (EV_records r)(CX_OpaqueID ref \<mapsto>
              \<lparr>EN_TenantID = CX_TenantID ref, EN_Ciphertext = ciphertext, EN_Nonce = nonce, EN_Salt = salt,
               EN_RotationVersion = CX_RotationVersion ref, EN_CredentialType = CX_CredentialType ref,
               EN_Username = CX_Username ref, EN_DomainOrHost = CX_DomainOrHost ref,
               EN_CreatedAt = EE_now e, EN_UpdatedAt = EE_now e\<rparr>)\<rparr>, None))"

text \<open>The tenant check of reads and rotations: an empty tenant on either side matches everything.\<close>

definition tenant_clash :: "envelopeRecord \<Rightarrow> CredentialRef \<Rightarrow> bool" where
  "tenant_clash rec ref \<longleftrightarrow> EN_TenantID rec \<noteq> [] \<and> CX_TenantID ref \<noteq> [] \<and> EN_TenantID rec \<noteq> CX_TenantID ref"

definition envelope_resolve :: "crypto_lib \<Rightarrow> EnvelopeProvider \<Rightarrow> CredentialRef \<Rightarrow> vault_error + string" where
  "envelope_resolve lib r ref =
     (case EV_records r (CX_OpaqueID ref) of
        None \<Rightarrow> Inl (ErrSecretNotFound (CX_OpaqueID ref))
      | Some rec \<Rightarrow>
          if tenant_clash rec ref then Inl (ErrSecretNotFound (CX_OpaqueID ref))
          else
            (case decrypt lib r (EN_Ciphertext rec) (EN_Nonce rec) (EN_Salt rec) of
               Inl err \<Rightarrow> Inl (ResolveFailed (CX_OpaqueID ref) err)
             | Inr plaintext \<Rightarrow> Inr plaintext))"

definition envelope_rotate :: "crypto_lib \<Rightarrow> envelope_env \<Rightarrow> EnvelopeProvider \<Rightarrow> CredentialRef \<Rightarrow> string
    \<Rightarrow> EnvelopeProvider \<times> vault_error option" where
  "envelope_rotate lib e r ref newPlaintext =
     (case encrypt lib e r newPlaintext of
        Inl err \<Rightarrow> (r, Some err)
      | Inr (newCiphertext, newNonce, newSalt) \<Rightarrow>
          (case EV_records r (CX_OpaqueID ref) of
             None \<Rightarrow> (r, Some (ErrSecretNotFound (CX_OpaqueID ref)))
           | Some oldRec \<Rightarrow>
               if tenant_clash oldRec ref then (r, Some (ErrSecretNotFound (CX_OpaqueID ref)))
               else
                 (case decrypt lib r (EN_Ciphertext oldRec) (EN_Nonce oldRec) (EN_Salt oldRec) of
                    Inl err \<Rightarrow> (r, Some (IntegrityCheckFailed (CX_OpaqueID ref) err))
                  | Inr oldPlain \<Rightarrow>
                      (r\<lparr>EV_records := (EV_records r)(CX_OpaqueID ref \<mapsto>
                          \<lparr>EN_TenantID = [], EN_Ciphertext = newCiphertext, EN_Nonce = newNonce, EN_Salt = newSalt,
                           EN_RotationVersion = wrap64 (CX_RotationVersion ref + 1),
                           EN_CredentialType = CX_CredentialType ref, EN_Username = CX_Username ref,
                           EN_DomainOrHost = CX_DomainOrHost ref, EN_CreatedAt = EN_CreatedAt oldRec,
                           EN_UpdatedAt = EE_now e\<rparr>)\<rparr>, None))))"

definition envelope_delete :: "EnvelopeProvider \<Rightarrow> CredentialRef \<Rightarrow> EnvelopeProvider \<times> vault_error option" where
  "envelope_delete r ref =
     (case EV_records r (CX_OpaqueID ref) of
        None \<Rightarrow> (r, Some (ErrSecretNotFound (CX_OpaqueID ref)))
      | Some rec \<Rightarrow> (r\<lparr>EV_records := (EV_records r)(CX_OpaqueID ref := None)\<rparr>, None))"

definition envelope_provider :: "crypto_lib \<Rightarrow> (envelope_env, EnvelopeProvider) SecretProvider" where
  "envelope_provider lib =
     \<lparr>SP_StoreSecret = envelope_store lib,
      SP_ResolveSecret = (\<lambda>e r ref. (r, envelope_resolve lib r ref)),
      SP_RotateSecret = envelope_rotate lib,
      SP_DeleteSecret = (\<lambda>e r ref. envelope_delete r ref),
      SP_HealthCheck = (\<lambda>e r. (r, None)),
      SP_Name = ''envelope-aes256gcm''\<rparr>"

section \<open>The contract\<close>

definition aead :: "crypto_lib \<Rightarrow> bool" where
  "aead lib \<longleftrightarrow> (\<forall>k n p. VC_open lib k n (VC_seal lib k n p) = Some p)"

lemma decrypt_cong: "EV_masterKey r' = EV_masterKey r \<Longrightarrow> decrypt lib r' ct n salt = decrypt lib r ct n salt"
  by (simp add: decrypt_def deriveKey_def)

lemma decrypt_encrypt:
  assumes "aead lib" "encrypt lib e r p = Inr (ct, n, salt)" "EV_masterKey r' = EV_masterKey r"
  shows "decrypt lib r' ct n salt = Inr p"
proof -
  obtain k where k: "deriveKey lib r salt = Inr k" "VC_cipher_ok lib k" "VC_gcm_ok lib k" "ct = VC_seal lib k n p"
    using assms(2) unfolding encrypt_def by (clarsimp split: option.split_asm sum.split_asm if_split_asm)
  have "VC_open lib k n ct = Some p" using assms(1) unfolding aead_def k(4) by blast
  then have "decrypt lib r ct n salt = Inr p" unfolding decrypt_def by (simp add: k(1-3))
  then show ?thesis by (simp add: decrypt_cong [OF assms(3)])
qed

definition envelope_content :: "crypto_lib \<Rightarrow> EnvelopeProvider \<Rightarrow> CredentialRef \<Rightarrow> string option" where
  "envelope_content lib r ref = (case envelope_resolve lib r ref of Inl _ \<Rightarrow> None | Inr p \<Rightarrow> Some p)"

lemma envelope_resolve_frame:
  assumes "EV_masterKey r' = EV_masterKey r" "EV_records r' (CX_OpaqueID ref) = EV_records r (CX_OpaqueID ref)"
  shows "envelope_content lib r' ref = envelope_content lib r ref"
  unfolding envelope_content_def envelope_resolve_def assms(2) decrypt_cong [OF assms(1)] by (rule refl)

text \<open>How the operations change the records.\<close>

lemma envelope_store_cases:
  assumes "envelope_store lib e r ref p = (r', res)"
  obtains (failed) err where "res = Some err" "r' = r"
  | (stored) rec where "res = None" "r' = r\<lparr>EV_records := (EV_records r)(CX_OpaqueID ref \<mapsto> rec)\<rparr>"
      "EN_TenantID rec = CX_TenantID ref" "encrypt lib e r p = Inr (EN_Ciphertext rec, EN_Nonce rec, EN_Salt rec)"
  using assms by (fastforce simp: envelope_store_def split: sum.splits prod.splits)

lemma envelope_rotate_cases:
  assumes "envelope_rotate lib e r ref p = (r', res)"
  obtains (failed) err where "res = Some err" "r' = r"
  | (rotated) old q rec where "res = None" "r' = r\<lparr>EV_records := (EV_records r)(CX_OpaqueID ref \<mapsto> rec)\<rparr>"
      "EV_records r (CX_OpaqueID ref) = Some old" "\<not> tenant_clash old ref"
      "decrypt lib r (EN_Ciphertext old) (EN_Nonce old) (EN_Salt old) = Inr q" "EN_TenantID rec = []"
      "encrypt lib e r p = Inr (EN_Ciphertext rec, EN_Nonce rec, EN_Salt rec)"
  using assms by (fastforce simp: envelope_rotate_def split: sum.splits prod.splits option.splits if_splits)

lemma envelope_delete_cases:
  assumes "envelope_delete r ref = (r', res)"
  obtains (failed) "res = Some (ErrSecretNotFound (CX_OpaqueID ref))" "r' = r" "EV_records r (CX_OpaqueID ref) = None"
  | (deleted) rec where "res = None" "r' = r\<lparr>EV_records := (EV_records r)(CX_OpaqueID ref := None)\<rparr>"
      "EV_records r (CX_OpaqueID ref) = Some rec"
  using assms by (auto simp: envelope_delete_def split: option.splits)

lemma sealed_content:
  assumes "aead lib" "encrypt lib e r p = Inr (EN_Ciphertext rec, EN_Nonce rec, EN_Salt rec)" "\<not> tenant_clash rec ref"
  shows "envelope_content lib (r\<lparr>EV_records := m(CX_OpaqueID ref \<mapsto> rec)\<rparr>) ref = Some p"
  using assms decrypt_encrypt [OF assms(1,2)] by (simp add: envelope_content_def envelope_resolve_def)

lemma envelope_provider_simps [simp]:
  "SP_StoreSecret (envelope_provider lib) = envelope_store lib"
  "SP_ResolveSecret (envelope_provider lib) e r ref = (r, envelope_resolve lib r ref)"
  "SP_RotateSecret (envelope_provider lib) = envelope_rotate lib"
  "SP_DeleteSecret (envelope_provider lib) e r ref = envelope_delete r ref"
  by (simp_all add: envelope_provider_def)

interpretation envelope: secret_provider "envelope_provider lib" "envelope_content lib"
    "\<lambda>a b. CX_OpaqueID a \<noteq> CX_OpaqueID b" "aead lib" for lib
proof (unfold_locales, simp_all only: envelope_provider_simps)
  fix e s s' p r and ref ref' :: CredentialRef and res
  assume s: "aead lib"
  show "(s, envelope_resolve lib s ref) = (s', res) \<Longrightarrow> envelope_content lib s' ref' = envelope_content lib s ref'"
    by simp
  show "(s, envelope_resolve lib s ref) = (s', Inr p) \<Longrightarrow> envelope_content lib s ref = Some p"
    by (auto simp: envelope_content_def)
  show "envelope_store lib e s ref p = (s', None) \<Longrightarrow> envelope_content lib s' ref = Some p"
    by (erule envelope_store_cases) (simp_all add: sealed_content [OF s] tenant_clash_def)
  show "envelope_content lib s' ref' = envelope_content lib s ref'"
    if "envelope_store lib e s ref p = (s', r)" "CX_OpaqueID ref \<noteq> CX_OpaqueID ref'"
    using that(1) by (rule envelope_store_cases) (use that(2) in \<open>auto intro!: envelope_resolve_frame\<close>)
  show "envelope_content lib s' ref = Some p" if "envelope_rotate lib e s ref p = (s', None)"
    using that
  proof (rule envelope_rotate_cases)
    fix rec
    assume r: "s' = s\<lparr>EV_records := (EV_records s)(CX_OpaqueID ref \<mapsto> rec)\<rparr>" "EN_TenantID rec = []"
      "encrypt lib e s p = Inr (EN_Ciphertext rec, EN_Nonce rec, EN_Salt rec)"
    show ?thesis unfolding r(1) by (rule sealed_content [OF s r(3)]) (simp add: tenant_clash_def r(2))
  qed simp
  show "envelope_content lib s' ref' = envelope_content lib s ref'"
    if "envelope_rotate lib e s ref p = (s', r)" "CX_OpaqueID ref \<noteq> CX_OpaqueID ref'"
    using that(1) by (rule envelope_rotate_cases) (use that(2) in \<open>auto intro!: envelope_resolve_frame\<close>)
  show "envelope_delete s ref = (s', None) \<Longrightarrow> envelope_content lib s' ref = None"
    by (erule envelope_delete_cases) (simp_all add: envelope_content_def envelope_resolve_def)
  show "envelope_content lib s' ref' = envelope_content lib s ref'"
    if "envelope_delete s ref = (s', r)" "CX_OpaqueID ref \<noteq> CX_OpaqueID ref'"
    using that(1) by (rule envelope_delete_cases) (use that(2) in \<open>auto intro!: envelope_resolve_frame\<close>)
qed (auto simp: envelope_content_def envelope_resolve_def tenant_clash_def split: option.split sum.split)

section \<open>Refinement of a map\<close>

text \<open>The abstract vault: owner and secret per identifier; an unreadable record has no secret.\<close>

definition vault_abs :: "crypto_lib \<Rightarrow> EnvelopeProvider \<Rightarrow> string \<rightharpoonup> string \<times> string option" where
  "vault_abs lib r = (\<lambda>oid. map_option (\<lambda>rec. (EN_TenantID rec,
     case decrypt lib r (EN_Ciphertext rec) (EN_Nonce rec) (EN_Salt rec) of Inl _ \<Rightarrow> None | Inr p \<Rightarrow> Some p))
     (EV_records r oid))"

definition owner_matches :: "string \<Rightarrow> string \<Rightarrow> bool" where
  "owner_matches owner tenant \<longleftrightarrow> owner = [] \<or> tenant = [] \<or> owner = tenant"

lemma tenant_clash_owner: "tenant_clash rec ref \<longleftrightarrow> \<not> owner_matches (EN_TenantID rec) (CX_TenantID ref)"
  by (auto simp: tenant_clash_def owner_matches_def)

lemma vault_abs_upd:
  "vault_abs lib (r\<lparr>EV_records := (EV_records r)(oid \<mapsto> rec)\<rparr>) =
     (vault_abs lib r)(oid \<mapsto> (EN_TenantID rec,
        case decrypt lib r (EN_Ciphertext rec) (EN_Nonce rec) (EN_Salt rec) of Inl _ \<Rightarrow> None | Inr p \<Rightarrow> Some p))"
proof -
  have d: "decrypt lib (r\<lparr>EV_records := m\<rparr>) = decrypt lib r" for m
    by (intro ext decrypt_cong) simp
  show ?thesis by (auto simp: vault_abs_def d)
qed

lemma vault_abs_del:
  "vault_abs lib (r\<lparr>EV_records := (EV_records r)(oid := None)\<rparr>) = (vault_abs lib r)(oid := None)"
proof -
  have d: "decrypt lib (r\<lparr>EV_records := m\<rparr>) = decrypt lib r" for m
    by (intro ext decrypt_cong) simp
  show ?thesis by (auto simp: vault_abs_def d)
qed

lemma vault_abs_sealed:
  assumes "aead lib" "encrypt lib e r p = Inr (EN_Ciphertext rec, EN_Nonce rec, EN_Salt rec)"
  shows "vault_abs lib (r\<lparr>EV_records := (EV_records r)(oid \<mapsto> rec)\<rparr>) = (vault_abs lib r)(oid \<mapsto> (EN_TenantID rec, Some p))"
  unfolding vault_abs_upd decrypt_encrypt [OF assms refl] by simp

lemma envelope_resolve_abs:
  "(\<exists>q. envelope_resolve lib r ref = Inr q \<and> P q) \<longleftrightarrow>
     (\<exists>t q. vault_abs lib r (CX_OpaqueID ref) = Some (t, Some q) \<and> owner_matches t (CX_TenantID ref) \<and> P q)"
  by (auto simp: envelope_resolve_def vault_abs_def tenant_clash_owner split: option.splits sum.splits)


text \<open>The four calls of the manager, each on the map.\<close>

lemma StoreCredential_abs:
  assumes "aead lib" and a: "StoreCredential (envelope_provider lib) e uuid r ref p = (r', buf, sres)"
  shows "buf = replicate (length p) (CHR 0x00) \<and>
      (case sres of Inl _ \<Rightarrow> r' = r
       | Inr oid \<Rightarrow> trim_space (CX_TenantID ref) \<noteq> [] \<and> oid = CX_OpaqueID (stored_ref uuid ref)
           \<and> vault_abs lib r' = (vault_abs lib r)(oid \<mapsto> (CX_TenantID ref, Some p)))"
proof -
  have b: "buf = replicate (length p) (CHR 0x00)"
    using StoreCredential_clears [of "envelope_provider lib" e uuid r ref p] by (simp add: a)
  obtain r1 res1 where st: "envelope_store lib e r (stored_ref uuid ref) p = (r1, res1)" by fastforce
  have "case sres of Inl _ \<Rightarrow> r' = r
       | Inr oid \<Rightarrow> trim_space (CX_TenantID ref) \<noteq> [] \<and> oid = CX_OpaqueID (stored_ref uuid ref)
           \<and> vault_abs lib r' = (vault_abs lib r)(oid \<mapsto> (CX_TenantID ref, Some p))"
    using st
  proof (rule envelope_store_cases)
    fix err assume "res1 = Some err" "r1 = r"
    then show ?thesis using a st by (auto simp: StoreCredential_def Let_def simp del: stored_ref_simps split: if_splits)
  next
    fix rec
    assume r: "res1 = None" "r1 = r\<lparr>EV_records := (EV_records r)(CX_OpaqueID (stored_ref uuid ref) \<mapsto> rec)\<rparr>"
      "EN_TenantID rec = CX_TenantID (stored_ref uuid ref)"
      "encrypt lib e r p = Inr (EN_Ciphertext rec, EN_Nonce rec, EN_Salt rec)"
    have "vault_abs lib r1 = (vault_abs lib r)(CX_OpaqueID (stored_ref uuid ref) \<mapsto> (CX_TenantID ref, Some p))"
      unfolding r(2) vault_abs_sealed [OF assms(1) r(4)] r(3) by simp
    then show ?thesis using a st r(1)
      by (auto simp: StoreCredential_def Let_def simp del: stored_ref_simps(1) split: if_splits)
  qed
  with b show ?thesis by simp
qed

lemma RotateCredential_abs:
  assumes "aead lib" and a: "RotateCredential (envelope_provider lib) e r ref p = (r', buf, res)"
  shows "buf = replicate (length p) (CHR 0x00) \<and>
      (case res of Some _ \<Rightarrow> r' = r
       | None \<Rightarrow> \<exists>owner q. vault_abs lib r (CX_OpaqueID ref) = Some (owner, Some q) \<and> owner_matches owner (CX_TenantID ref)
           \<and> vault_abs lib r' = (vault_abs lib r)(CX_OpaqueID ref \<mapsto> ([], Some p)))"
proof -
  have b: "buf = replicate (length p) (CHR 0x00)"
    using RotateCredential_clears [of "envelope_provider lib" e r ref p] by (simp add: a)
  obtain r1 res1 where st: "envelope_rotate lib e r ref p = (r1, res1)" by fastforce
  have "case res of Some _ \<Rightarrow> r' = r
       | None \<Rightarrow> \<exists>owner q. vault_abs lib r (CX_OpaqueID ref) = Some (owner, Some q) \<and> owner_matches owner (CX_TenantID ref)
           \<and> vault_abs lib r' = (vault_abs lib r)(CX_OpaqueID ref \<mapsto> ([], Some p))"
    using st
  proof (rule envelope_rotate_cases)
    fix err assume "res1 = Some err" "r1 = r"
    then show ?thesis using a st by (auto simp: RotateCredential_def split: if_splits)
  next
    fix old q rec
    assume r: "res1 = None" "r1 = r\<lparr>EV_records := (EV_records r)(CX_OpaqueID ref \<mapsto> rec)\<rparr>"
      "EV_records r (CX_OpaqueID ref) = Some old" "\<not> tenant_clash old ref"
      "decrypt lib r (EN_Ciphertext old) (EN_Nonce old) (EN_Salt old) = Inr q" "EN_TenantID rec = []"
      "encrypt lib e r p = Inr (EN_Ciphertext rec, EN_Nonce rec, EN_Salt rec)"
    have "vault_abs lib r1 = (vault_abs lib r)(CX_OpaqueID ref \<mapsto> ([], Some p))"
      unfolding r(2) vault_abs_sealed [OF assms(1) r(7)] r(6) by simp
    moreover have "vault_abs lib r (CX_OpaqueID ref) = Some (EN_TenantID old, Some q)"
      by (simp add: vault_abs_def r(3,5))
    moreover have "owner_matches (EN_TenantID old) (CX_TenantID ref)" using r(4) by (simp add: tenant_clash_owner)
    ultimately show ?thesis using a st r(1) by (auto simp: RotateCredential_def split: if_splits)
  qed
  with b show ?thesis by simp
qed

lemma DeleteCredential_abs:
  assumes a: "DeleteCredential (envelope_provider lib) e r ref = (r', res)"
  shows "(case res of Some _ \<Rightarrow> r' = r
       | None \<Rightarrow> CX_OpaqueID ref \<in> dom (vault_abs lib r) \<and> vault_abs lib r' = (vault_abs lib r)(CX_OpaqueID ref := None))"
  using a by (auto simp: DeleteCredential_def vault_abs_del elim!: envelope_delete_cases split: if_splits)
    (simp add: vault_abs_def)

lemma ResolveCredential_abs:
  assumes a: "ResolveCredentialForGateway (envelope_provider lib) f e now r g j c ip ref = (r', tr, rres)"
  shows "r' = r \<and> (rres = Inr q \<longleftrightarrow>
        trim_space g \<noteq> [] \<and> trim_space (CX_OpaqueID ref) \<noteq> [] \<and> trim_space (CX_TenantID ref) \<noteq> []
        \<and> f (audit_entry now g j c ip ref) = None
        \<and> (\<exists>owner. vault_abs lib r (CX_OpaqueID ref) = Some (owner, Some q) \<and> owner_matches owner (CX_TenantID ref)))"
  using a envelope_resolve_abs [of lib r ref "\<lambda>x. x = q"]
  by (auto simp: ResolveCredentialForGateway_def Let_def split: if_splits option.splits sum.splits)

section \<open>Properties\<close>

text \<open>C27. Over a sound AEAD, the manager with the envelope provider is a map from identifiers to owner and
  secret. A store either fails and changes nothing or adds exactly the stored secret for its tenant, and
  returns the identifier; a rotation needs a readable secret whose owner matches, replaces it, and
  leaves it without owner; a deletion removes the entry whoever asks; a resolution changes nothing and
  returns the secret exactly when gateway, identifier and tenant are given, the audit entry was written
  and the owner matches. Every call that takes a secret returns its buffer cleared.\<close>

theorem vault_refines_map:
  assumes "aead lib"
  shows "(StoreCredential (envelope_provider lib) e uuid r ref p = (r', buf, sres) \<longrightarrow>
      buf = replicate (length p) (CHR 0x00) \<and>
      (case sres of Inl _ \<Rightarrow> r' = r
       | Inr oid \<Rightarrow> trim_space (CX_TenantID ref) \<noteq> [] \<and> oid = CX_OpaqueID (stored_ref uuid ref)
           \<and> vault_abs lib r' = (vault_abs lib r)(oid \<mapsto> (CX_TenantID ref, Some p))))
    \<and> (RotateCredential (envelope_provider lib) e r ref p = (r', buf, res) \<longrightarrow>
      buf = replicate (length p) (CHR 0x00) \<and>
      (case res of Some _ \<Rightarrow> r' = r
       | None \<Rightarrow> \<exists>owner q. vault_abs lib r (CX_OpaqueID ref) = Some (owner, Some q) \<and> owner_matches owner (CX_TenantID ref)
           \<and> vault_abs lib r' = (vault_abs lib r)(CX_OpaqueID ref \<mapsto> ([], Some p))))
    \<and> (DeleteCredential (envelope_provider lib) e r ref = (r', res) \<longrightarrow>
      (case res of Some _ \<Rightarrow> r' = r
       | None \<Rightarrow> CX_OpaqueID ref \<in> dom (vault_abs lib r) \<and> vault_abs lib r' = (vault_abs lib r)(CX_OpaqueID ref := None)))
    \<and> (ResolveCredentialForGateway (envelope_provider lib) f e now r g j c ip ref = (r', tr, rres) \<longrightarrow>
      r' = r \<and> (rres = Inr q \<longleftrightarrow>
        trim_space g \<noteq> [] \<and> trim_space (CX_OpaqueID ref) \<noteq> [] \<and> trim_space (CX_TenantID ref) \<noteq> []
        \<and> f (audit_entry now g j c ip ref) = None
        \<and> (\<exists>owner. vault_abs lib r (CX_OpaqueID ref) = Some (owner, Some q) \<and> owner_matches owner (CX_TenantID ref))))"
  by (intro conjI [OF impI conjI [OF impI conjI [OF impI impI]]])
    (erule StoreCredential_abs [OF assms] RotateCredential_abs [OF assms] DeleteCredential_abs ResolveCredential_abs)+

text \<open>A toy library that meets \<open>aead\<close>, for the witnesses.\<close>

definition demo_crypto :: crypto_lib where
  "demo_crypto = \<lparr>VC_hkdf = (\<lambda>k salt info. Some salt), VC_cipher_ok = (\<lambda>_. True), VC_gcm_ok = (\<lambda>_. True),
     VC_nonce_size = 12, VC_seal = (\<lambda>k n p. rev p), VC_open = (\<lambda>k n c. Some (rev c))\<rparr>"

definition demo_envelope_env :: envelope_env where
  "demo_envelope_env = \<lparr>EE_rand = (\<lambda>i n. Some (replicate n (CHR ''r''))), EE_now = 7\<rparr>"

definition demo_ref :: CredentialRef where
  "demo_ref = \<lparr>CX_OpaqueID = ''id'', CX_TenantID = ''t'', CX_CredentialType = ''laps'', CX_DomainOrHost = ''h'',
     CX_Username = ''u'', CX_VaultPath = [], CX_RotationVersion = 0\<rparr>"

lemma aead_demo_crypto: "aead demo_crypto"
  by (simp add: aead_def demo_crypto_def)

text \<open>Witness of C27: a store with the toy library succeeds, so all premises of the first part can hold.\<close>

theorem vault_refines_map_witness:
  "\<exists>r' buf oid. StoreCredential (envelope_provider demo_crypto) demo_envelope_env ''u''
       \<lparr>EV_masterKey = ''k'', EV_records = Map.empty\<rparr> demo_ref ''pw'' = (r', buf, Inr oid)
     \<and> oid = ''id'' \<and> buf = [CHR 0x00, CHR 0x00]
     \<and> vault_abs demo_crypto r' = [''id'' \<mapsto> (''t'', Some ''pw'')]"
proof -
  let ?r = "\<lparr>EV_masterKey = ''k'', EV_records = Map.empty\<rparr>"
  obtain r' buf res where s: "StoreCredential (envelope_provider demo_crypto) demo_envelope_env ''u'' ?r demo_ref ''pw''
      = (r', buf, res)" by (metis prod_cases3)
  have res: "res = Inr ''id''"
    using arg_cong [OF s, of "snd \<circ> snd"]
    by (simp add: StoreCredential_def stored_ref_def envelope_store_def encrypt_def deriveKey_def demo_crypto_def
      demo_envelope_env_def demo_ref_def trim_space_def trim_def is_space_def)
  have e: "vault_abs demo_crypto ?r = Map.empty" by (simp add: vault_abs_def fun_eq_iff)
  show ?thesis using vault_refines_map [OF aead_demo_crypto, THEN conjunct1, THEN mp, OF s] s unfolding res e
    by (auto simp: demo_ref_def numeral_2_eq_2)
qed

text \<open>Whatever happens in between to other identifiers, a stored credential is what a gateway gets: if the
  audit entry can be written, the resolution by the owning tenant returns exactly the stored bytes, after
  writing the entry; if it cannot, it returns an error without asking the provider.\<close>

theorem vault_read_after_write:
  assumes "aead lib"
    and "StoreCredential (envelope_provider lib) e uuid r ref p = (r1, buf, Inr oid)"
    and "list_all (\<lambda>op. case op_target op of None \<Rightarrow> True | Some t \<Rightarrow> CX_OpaqueID t \<noteq> oid) ops"
    and "trim_space g \<noteq> []" "trim_space oid \<noteq> []"
  shows "let ref' = ref\<lparr>CX_OpaqueID := oid\<rparr>; r2 = vault_run (envelope_provider lib) f r1 ops;
      entry = audit_entry now g j c ip ref' in
    case f' entry of
      None \<Rightarrow> ResolveCredentialForGateway (envelope_provider lib) f' e' now r2 g j c ip ref'
                = (r2, [AuditWritten entry, ProviderAsked ref'], Inr p)
    | Some err \<Rightarrow> ResolveCredentialForGateway (envelope_provider lib) f' e' now r2 g j c ip ref'
                = (r2, [], Inl (ErrAuditWriteFailed err))"
proof -
  let ?ref = "ref\<lparr>CX_OpaqueID := oid\<rparr>"
  let ?r2 = "vault_run (envelope_provider lib) f r1 ops"
  have t: "trim_space (CX_TenantID ref) \<noteq> []"
    using StoreCredential_abs [OF assms(1,2)] by simp
  have "envelope_content lib ?r2 ?ref = envelope_content lib r1 ?ref"
    by (rule envelope.run_apart [OF assms(1)]) (use assms(3) in \<open>simp cong: option.case_cong\<close>)
  also have "\<dots> = Some p" by (rule envelope.stored_content(2) [OF assms(1,2)])
  finally have "envelope_resolve lib ?r2 ?ref = Inr p" by (simp add: envelope_content_def split: sum.splits)
  then show ?thesis using t assms(4,5)
    by (simp add: ResolveCredentialForGateway_def Let_def split: option.split)
qed

text \<open>A concrete instance.\<close>

theorem vault_read_after_write_witness:
  "let r1 = fst (StoreCredential (envelope_provider demo_crypto) demo_envelope_env ''u''
         \<lparr>EV_masterKey = ''k'', EV_records = Map.empty\<rparr> demo_ref ''pw'');
      ops = [StoreOp demo_envelope_env ''u'' (demo_ref\<lparr>CX_OpaqueID := ''x''\<rparr>) ''q'', DeleteOp demo_envelope_env (demo_ref\<lparr>CX_OpaqueID := ''x''\<rparr>)]
    in snd (snd (ResolveCredentialForGateway (envelope_provider demo_crypto) (\<lambda>_. None) demo_envelope_env 9
         (vault_run (envelope_provider demo_crypto) (\<lambda>_. None) r1 ops) ''g'' ''j'' ''c'' ''ip'' demo_ref)) = Inr ''pw''"
proof -
  let ?r = "\<lparr>EV_masterKey = ''k'', EV_records = Map.empty\<rparr>"
  let ?ops = "[StoreOp demo_envelope_env ''u'' (demo_ref\<lparr>CX_OpaqueID := ''x''\<rparr>) ''q'', DeleteOp demo_envelope_env (demo_ref\<lparr>CX_OpaqueID := ''x''\<rparr>)]"
  obtain r1 buf res where s: "StoreCredential (envelope_provider demo_crypto) demo_envelope_env ''u'' ?r demo_ref ''pw''
      = (r1, buf, res)" by (metis prod_cases3)
  have res: "res = Inr ''id''"
    using arg_cong [OF s, of "snd \<circ> snd"]
    by (simp add: StoreCredential_def stored_ref_def envelope_store_def encrypt_def deriveKey_def demo_crypto_def
      demo_envelope_env_def demo_ref_def trim_space_def trim_def is_space_def)
  have ops: "list_all (\<lambda>op. case op_target op of None \<Rightarrow> True | Some t \<Rightarrow> CX_OpaqueID t \<noteq> ''id'') ?ops"
    by (simp add: demo_ref_def trim_space_def trim_def is_space_def)
  have g: "trim_space ''g'' \<noteq> []" "trim_space ''id'' \<noteq> []" by (simp_all add: trim_space_def trim_def is_space_def)
  have d: "demo_ref\<lparr>CX_OpaqueID := ''id''\<rparr> = demo_ref" by (simp add: demo_ref_def)
  show ?thesis
    using vault_read_after_write [OF aead_demo_crypto s [unfolded res] ops g,
        where f = "\<lambda>_. None" and f' = "\<lambda>_. None" and e' = demo_envelope_env and now = 9 and j = "''j''" and c = "''c''" and ip = "''ip''"]
    unfolding s d by (simp add: Let_def)
qed

text \<open>A rotated credential belongs to no tenant: any tenant's reference resolves it.\<close>

lemma rotation_forgets_owner:
  assumes "aead lib" "RotateCredential (envelope_provider lib) e r ref p = (r', buf, None)"
    and "CX_OpaqueID other = CX_OpaqueID ref"
  shows "envelope_resolve lib r' other = Inr p"
proof -
  have "vault_abs lib r' (CX_OpaqueID other) = Some ([], Some p)"
    using RotateCredential_abs [OF assms(1,2)] assms(3) by auto
  then show ?thesis using envelope_resolve_abs [of lib r' other "\<lambda>x. x = p"] by (auto simp: owner_matches_def)
qed

end
