(* ===== verification/ServerRun.thy ===== *)
theory ServerRun
  imports Integration FeedWorker EnvelopeVault
begin

text \<open>
  The running API server (\<open>main\<close> of \<open>cmd/server/main.go\<close>): what it builds at start from the environment and the arguments, and its
  life as a sequence of events: calls, authentication calls, ticks of the feed worker and of the limiter's clean-up, stages of
  simulated scans.
\<close>

section \<open>Start\<close>

text \<open>\<open>NewAPIHandler\<close>: a repository that is missing is made. The files are the disk the server runs on.\<close>

definition NewAPIHandler :: "time \<Rightarrow> Repository \<Rightarrow> 's \<Rightarrow> MemoryFindingRepository option \<Rightarrow> MemoryComplianceRepository option
    \<Rightarrow> MemoryDriftRepository option \<Rightarrow> (string \<rightharpoonup> string) \<Rightarrow> 's ApiState" where
  "NewAPIHandler now repo vm findingRepo compRepo driftRepo files =
     \<lparr>AP_fleet = repo, AP_vault = vm,
      AP_findings = (case findingRepo of None \<Rightarrow> NewMemoryFindingRepository | Some f \<Rightarrow> f),
      AP_compliance = (case compRepo of None \<Rightarrow> NewMemoryComplianceRepository now | Some c \<Rightarrow> c),
      AP_drift = (case driftRepo of None \<Rightarrow> NewMemoryDriftRepository now | Some d \<Rightarrow> d),
      AP_auth = None, AP_cfg = None, AP_files = files\<rparr>"

text \<open>The feed worker of the server: automatic synchronisation is off.\<close>

definition server_feeds :: WorkerConfig where
  "server_feeds = \<lparr>WC_NVDAPIKey = [], WC_NVDBaseURL = DefaultNVDBaseURL, WC_CISAKEVURL = DefaultCISAKEVURL, WC_SyncInterval = 24 * Hour,
     WC_EnableAutoSync = False\<rparr>"

record server_state =
  SV_limiter :: RateLimiter
  SV_api :: "EnvelopeProvider ApiState"
  SV_auth :: AuthHandler
  SV_feeds :: WorkerConfig
  SV_worker :: VulnScanWorker

record boot_env =
  BE_env :: "string \<rightharpoonup> string"
  BE_args :: "string list"
  BE_ParseIP :: "string \<Rightarrow> nat list option"
  BE_sha :: "string \<Rightarrow> string"
  BE_uid :: "nat \<Rightarrow> string"
  BE_clk :: "nat \<Rightarrow> time"
  BE_fmt :: "time \<Rightarrow> string"
  BE_ord :: "string list"
  BE_gateways :: "string list"
  BE_users :: "string list"
  BE_files :: "string \<rightharpoonup> string"

datatype boot_result = BootFails | Audited ProductionReadinessReport int | Serving server_state

definition wants_audit :: "string list \<Rightarrow> bool" where
  "wants_audit args \<longleftrightarrow> list_ex (\<lambda>arg. arg = ''--readiness-check'' \<or> arg = ''-readiness-check'') (drop 1 args)"

definition start_state :: "boot_env \<Rightarrow> ApiConfig \<Rightarrow> EnvelopeProvider \<Rightarrow> server_state" where
  "start_state b cfg vault =
     (let repo = NewRepository (BE_uid b) (BE_clk b) (BE_fmt b);
          authRepo = NewMemoryAuthRepository (BE_sha b) (BE_clk b 3);
          findingRepo = NewMemoryFindingRepository;
          api = NewAPIHandler (BE_clk b 6) repo vault (Some findingRepo) (Some (NewMemoryComplianceRepository (BE_clk b 4)))
                  (Some (NewMemoryDriftRepository (BE_clk b 5))) (BE_files b);
          (feeds, _, _, worker) = NewVulnScanWorker server_feeds findingRepo None None
      in \<lparr>SV_limiter = NewRateLimiter 60 20, SV_api = SetAuthConfig api authRepo cfg,
          SV_auth = NewAuthHandler (BE_sha b) (BE_clk b 3) (Some authRepo) (Some defaultTokenService) (Some defaultOIDCService),
          SV_feeds = feeds, SV_worker = (case Start worker of None \<Rightarrow> worker | Some w \<Rightarrow> w)\<rparr>)"

definition boot :: "boot_env \<Rightarrow> boot_result" where
  "boot b =
     (case LoadApiConfig (BE_env b) of
        None \<Rightarrow> BootFails
      | Some cfg \<Rightarrow>
          (case NewEnvelopeProvider (AC_VaultMasterKey cfg) of
             Inl _ \<Rightarrow> BootFails
           | Inr vault \<Rightarrow>
               (let repo = NewRepository (BE_uid b) (BE_clk b) (BE_fmt b);
                    authRepo = NewMemoryAuthRepository (BE_sha b) (BE_clk b 3)
                in if wants_audit (BE_args b) then
                     (let report = EvaluateProductionReadiness (BE_ParseIP b) (BE_sha b) (BE_env b) (BE_clk b 7) (BE_ord b)
                              (BE_gateways b) (BE_users b) (Some repo) (Some authRepo) (Some cfg)
                      in Audited report (if PRR_OverallVerdict report = ''PASS'' then 0 else 1))
                   else if \<not> boot_allowed (BE_ParseIP b) (BE_env b) (BE_ord b) repo cfg then BootFails
                   else Serving (start_state b cfg vault))))"

section \<open>Events\<close>

text \<open>The log entry and the registry of a call are those of \<open>handle_request\<close>. The stores are shared through
  pointers: the readiness report reads the users the authentication handler writes, and the feed worker fills the finding repository the
  endpoints read.\<close>

datatype 'u server_event =
    E_Call "'u auth_env" "nat \<Rightarrow> time" "envelope_env handler_env" url call req
  | E_Auth "'u auth_env" time auth_call req
  | E_Feed sync_lib worker_event
  | E_Cleanup time
  | E_Stage "time \<Rightarrow> string" time time bool string stage

fun feed_step :: "sync_lib \<Rightarrow> server_state \<Rightarrow> worker_event \<Rightarrow> server_state" where
  "feed_step lib sv (FeedTick env) =
     (let w = auto_sync lib (SV_feeds sv) env ((SV_worker sv)\<lparr>VW_repo := AP_findings (SV_api sv)\<rparr>)
      in sv\<lparr>SV_worker := w, SV_api := (SV_api sv)\<lparr>AP_findings := VW_repo w\<rparr>\<rparr>)"
| "feed_step lib sv FeedStop = sv"
| "feed_step lib sv FeedDone = sv"

fun server_step :: "crypto_lib \<Rightarrow> server_state \<Rightarrow> 'u server_event \<Rightarrow> server_state" where
  "server_step lib sv (E_Call aenv clk henv u c r) =
     (case serve (verifier aenv (SV_auth sv) (clk 0)) clk (envelope_provider lib) henv (SV_limiter sv, SV_api sv) u c r new_response of
        ((rl, api), _) \<Rightarrow> sv\<lparr>SV_limiter := rl, SV_api := api\<rparr>)"
| "server_step lib sv (E_Auth aenv now c r) =
     (case serve_auth aenv now (SV_auth sv) c r new_response of
        (h, _) \<Rightarrow> sv\<lparr>SV_auth := h, SV_api := (SV_api sv)\<lparr>AP_auth := Some (AH_authRepo h)\<rparr>\<rparr>)"
| "server_step lib sv (E_Feed slib ev) = feed_step slib sv ev"
| "server_step lib sv (E_Cleanup now) = sv\<lparr>SV_limiter := cleanup now (SV_limiter sv)\<rparr>"
| "server_step lib sv (E_Stage fmt ts now final jobID st) =
     (case sim_stage fmt ts now final jobID st (AP_fleet (SV_api sv)) of
        None \<Rightarrow> sv | Some fleet \<Rightarrow> sv\<lparr>SV_api := (SV_api sv)\<lparr>AP_fleet := fleet\<rparr>\<rparr>)"

definition server_run :: "crypto_lib \<Rightarrow> server_state \<Rightarrow> 'u server_event list \<Rightarrow> server_state" where
  "server_run lib sv evs = foldl (server_step lib) sv evs"

section \<open>What no event changes\<close>

definition keeps_results :: "'s ApiState \<Rightarrow> 's ApiState \<Rightarrow> bool" where
  "keeps_results s s' \<longleftrightarrow> AP_findings s' = AP_findings s \<and> AP_compliance s' = AP_compliance s \<and> AP_cfg s' = AP_cfg s \<and> AP_auth s' = AP_auth s"

lemma keeps_results_refl [simp]: "keeps_results s s"
  by (simp add: keeps_results_def)

lemma dispatch_keeps_results: "keeps_results s (fst (dispatch p env s u c r w))"
proof (cases "reads_only c")
  case True
  then show ?thesis by (simp add: dispatch_reads)
next
  case False
  then show ?thesis
    by (cases c)
      (auto simp: keeps_results_def method_of_def write_handlers h_PromoteEndpointsTier_def h_BulkAssignEndpointsTier_def
        h_UpdateEndpointRolloutTier_def h_TestVaultCredential_def h_ExecuteSnapshotRetention_def Let_def
        split: option.splits sum.splits prod.splits if_splits)
qed

lemma serve_keeps_results: "keeps_results (snd st) (snd (fst (serve verify clk p env st u c r w)))"
proof -
  obtain rl s where st: "st = (rl, s)" by fastforce
  show ?thesis
  proof (cases "guard_of c = Public")
    case True
    then have "snd (fst (serve verify clk p env st u c r w)) = fst (dispatch p env s u c r w)"
      by (simp add: serve_def st Let_def case_prod_beta)
    then show ?thesis using dispatch_keeps_results [of s p env u c r w] by (simp add: st)
  next
    case False
    then show ?thesis
      using dispatch_keeps_results [of s p env u c "as_caller verify (clk 0) r" w] by (simp add: st serve_state)
  qed
qed

text \<open>The results of scans are what the server started with, and the users that the readiness report sees are those who log in.\<close>

definition run_inv :: "MemoryFindingRepository \<Rightarrow> MemoryComplianceRepository \<Rightarrow> server_state \<Rightarrow> bool" where
  "run_inv f c sv \<longleftrightarrow> AP_findings (SV_api sv) = f \<and> AP_compliance (SV_api sv) = c \<and> \<not> WC_EnableAutoSync (SV_feeds sv)
     \<and> AP_auth (SV_api sv) = Some (AH_authRepo (SV_auth sv))"

lemma run_inv_step: "run_inv f c sv \<Longrightarrow> run_inv f c (server_step lib sv ev)"
proof (cases ev)
  case (E_Call aenv clk henv u call r)
  obtain rl api w where s: "serve (verifier aenv (SV_auth sv) (clk 0)) clk (envelope_provider lib) henv (SV_limiter sv, SV_api sv) u call r
      new_response = ((rl, api), w)" by (metis prod.exhaust)
  assume "run_inv f c sv"
  then show ?thesis
    using serve_keeps_results [of "(SV_limiter sv, SV_api sv)" "verifier aenv (SV_auth sv) (clk 0)" clk "envelope_provider lib" henv u
        call r new_response]
    by (simp add: E_Call s run_inv_def keeps_results_def)
next
  case (E_Feed slib ev')
  assume "run_inv f c sv"
  then show ?thesis by (cases ev') (simp_all add: E_Feed run_inv_def auto_sync_def Let_def)
qed (auto simp: run_inv_def split: prod.splits option.splits)

lemma run_inv_run: "run_inv f c sv \<Longrightarrow> run_inv f c (server_run lib sv evs)"
  unfolding server_run_def by (induction evs arbitrary: sv) (simp_all add: run_inv_step)

lemma boot_run_inv:
  assumes "boot b = Serving sv"
  shows "run_inv NewMemoryFindingRepository (NewMemoryComplianceRepository (BE_clk b 4)) sv"
proof -
  obtain cfg vault where "sv = start_state b cfg vault"
    using assms by (auto simp: boot_def Let_def split: option.splits sum.splits if_splits)
  then show ?thesis
    by (simp add: run_inv_def start_state_def Let_def NewVulnScanWorker_def server_feeds_def NewAPIHandler_def SetAuthConfig_def
        NewAuthHandler_def Hour_def)
qed

lemma no_findings:
  assumes "QueryFindings ord NewMemoryFindingRepository tenant opts = Inr found"
  shows "FL_Items found = []"
proof -
  have "List.map_filter (\<lambda>k. None) xs = []" for xs :: "string list" by (induction xs) (simp_all add: List.map_filter_def)
  then have "findings_in ord NewMemoryFindingRepository = []" by (simp add: findings_in_def NewMemoryFindingRepository_def)
  then show ?thesis using assms by (auto simp: QueryFindings_def Let_def sort_slice_def page_def split: if_splits)
qed

section \<open>Theorems\<close>

text \<open>C7. The server that is started never reports a vulnerability: whatever calls, authentication calls, feed ticks and simulated
  scans follow its start, every page of findings it answers with is empty, because nothing in it fills the repository of findings.\<close>

theorem served_findings_are_empty:
  assumes "boot b = Serving sv" "sv' = server_run lib sv evs"
    and "W_Body (snd (serve verify clk p henv (SV_limiter sv', SV_api sv') u C_ListVulnerabilityFindings r new_response))
      = [Data (FindingsBody found)]"
  shows "FL_Items found = []"
proof -
  have f: "AP_findings (SV_api sv') = NewMemoryFindingRepository"
    using run_inv_run [OF boot_run_inv [OF assms(1)], of lib evs] unfolding run_inv_def assms(2) by simp
  let ?c = C_ListVulnerabilityFindings
  let ?n = "\<lambda>r w. snd (dispatch p henv (SV_api sv') u ?c r w)"
  have g: "guard_of ?c \<noteq> Public" by (simp add: guard_of_def)
  have e: "snd (serve verify clk p henv (SV_limiter sv', SV_api sv') u ?c r new_response)
      = snd (protected_chain verify clk (guard_of ?c) ?n (SV_limiter sv') r new_response)"
    using g by (simp add: serve_def Let_def case_prod_beta)
  obtain w' where w': "W_Body w' = []" and c: "if passes verify clk (guard_of ?c) (SV_limiter sv') r
      then snd (protected_chain verify clk (guard_of ?c) ?n (SV_limiter sv') r new_response) = ?n (as_caller verify (clk 0) r) w'
      else is_problem (GetCorrelationID r) (snd (protected_chain verify clk (guard_of ?c) ?n (SV_limiter sv') r new_response))"
    using chain_cases [OF new_response_body] by blast
  have "W_Body (?n (as_caller verify (clk 0) r) w') = [Data (FindingsBody found)]"
    using c assms(3) unfolding e by (auto simp: is_problem_def split: if_splits)
  then obtain t o' where "QueryFindings (VO_findings (HE_ord henv)) (AP_findings (SV_api sv')) t o' = Inr found"
    using w' by (auto simp: h_ListVulnerabilityFindings_def reply_def fail_with_def encode_body_def write_header_def set_header_def
        split: sum.splits option.splits)
  then show ?thesis unfolding f by (rule no_findings)
qed

text \<open>Witness of C7. A server started without any configuration, asked by a viewer.\<close>

definition sample_boot :: boot_env where
  "sample_boot = \<lparr>BE_env = Map.empty, BE_args = [''server''], BE_ParseIP = (\<lambda>_. None), BE_sha = (\<lambda>s. s), BE_uid = (\<lambda>_. []),
     BE_clk = (\<lambda>_. Second), BE_fmt = (\<lambda>_. []), BE_ord = [], BE_gateways = [], BE_users = [], BE_files = Map.empty\<rparr>"

lemma default_key: "(case hex_decode DefaultDevMasterKeyHex of None \<Rightarrow> 0 | Some k \<Rightarrow> length k) = 32"
  by code_simp

lemma sample_boot_serves: "\<exists>sv. boot sample_boot = Serving sv"
proof -
  obtain k where k: "hex_decode DefaultDevMasterKeyHex = Some k" "length k = 32"
    using default_key by (cases "hex_decode DefaultDevMasterKeyHex") simp_all
  obtain cfg where c: "LoadApiConfig Map.empty = Some cfg" "AC_VaultMasterKey cfg = k" "AC_Environment cfg = ''development''"
    using k by (simp add: LoadApiConfig_def env_or_def Let_def)
  have "boot_allowed (\<lambda>_. None) Map.empty [] repo cfg" for repo
    unfolding boot_allowed_def c(3) by code_simp
  then show ?thesis
    using c k by (simp add: boot_def sample_boot_def NewEnvelopeProvider_def wants_audit_def Let_def)
qed

theorem served_findings_are_empty_witness:
  "\<forall>lib henv u. \<exists>sv found. boot sample_boot = Serving sv \<and> FL_Items found = []
    \<and> W_Body (snd (serve (\<lambda>_. Inr (sample_claims RoleViewer)) (\<lambda>_. 0) (envelope_provider lib) henv (SV_limiter sv, SV_api sv) u
        C_ListVulnerabilityFindings (with_token ''GET'') new_response)) = [Data (FindingsBody found)]"
proof (intro allI)
  fix lib :: crypto_lib and henv :: "envelope_env handler_env" and u :: url
  obtain sv where sv: "boot sample_boot = Serving sv" using sample_boot_serves by blast
  let ?v = "\<lambda>_. Inr (sample_claims RoleViewer)" and ?r = "with_token ''GET''" and ?c = C_ListVulnerabilityFindings
  let ?n = "\<lambda>r w. snd (dispatch (envelope_provider lib) henv (SV_api sv) u ?c r w)"
  have g: "guard_of ?c = Permitted PermissionReadFindings" by (simp add: guard_of_def)
  have cl: "caller ?v 0 ?r = (UC_TenantID (sample_claims RoleViewer), sample_claims RoleViewer)"
    by (rule caller_bearer [OF sample_bearer])
  have m: "R_Method ?r = ''GET''" by (simp add: with_token_def)
  have perm: "HasPermission RoleViewer PermissionReadFindings"
    by (simp add: HasPermission_def rolePermissions_def grants_def permission_defs role_defs)
  have "passes ?v (\<lambda>_. 0) (guard_of ?c) (SV_limiter sv) ?r"
    unfolding passes_def g cl rate_ok_def csrf_ok_def m using perm by (simp add: safe_method_def sample_claims_def)
  then obtain w' where w': "W_Body w' = []"
    "snd (protected_chain ?v (\<lambda>_. 0) (guard_of ?c) ?n (SV_limiter sv) ?r new_response) = ?n (as_caller ?v 0 ?r) w'"
    using chain_cases [OF new_response_body, of ?v "\<lambda>_. 0" "guard_of ?c" "SV_limiter sv" ?r ?n] by auto
  have "GetTenantID ctx \<noteq> []" for ctx :: AuthCtx by (simp add: GetTenantID_def split: option.splits)
  then obtain found where "QueryFindings (VO_findings (HE_ord henv)) (AP_findings (SV_api sv))
      (GetTenantID (R_Ctx (as_caller ?v 0 ?r))) (finding_options u) = Inr found"
    by (simp add: QueryFindings_def Let_def)
  then have "W_Body (?n (as_caller ?v 0 ?r) w') = [Data (FindingsBody found)]"
    using w'(1) by (simp add: h_ListVulnerabilityFindings_def reply_def encode_body_def write_header_def set_header_def split: option.splits)
  moreover have "snd (serve ?v (\<lambda>_. 0) (envelope_provider lib) henv (SV_limiter sv, SV_api sv) u ?c ?r new_response)
      = ?n (as_caller ?v 0 ?r) w'"
    unfolding w'(2) [symmetric] by (simp add: serve_def g Let_def case_prod_beta)
  ultimately have b: "W_Body (snd (serve ?v (\<lambda>_. 0) (envelope_provider lib) henv (SV_limiter sv, SV_api sv) u ?c ?r new_response))
      = [Data (FindingsBody found)]" by simp
  have "sv = server_run lib sv []" by (simp add: server_run_def)
  from served_findings_are_empty [OF sv this b] sv b
  show "\<exists>sv found. boot sample_boot = Serving sv \<and> FL_Items found = []
    \<and> W_Body (snd (serve ?v (\<lambda>_. 0) (envelope_provider lib) henv (SV_limiter sv, SV_api sv) u ?c ?r new_response)) = [Data (FindingsBody found)]"
    by blast
qed

end
