(* ===== verification/Masking.thy ===== *)
theory Masking
  imports Telemetry
begin

text \<open>
  What is done to text before it is shown: \<open>MaskSecrets\<close> of the request log (\<open>middleware/logging.go\<close>), whose regular expression is
  written out as a matcher, and \<open>SanitizeHTML\<close> (\<open>middleware/sanitization.go\<close>).
\<close>

section \<open>Masking of secrets\<close>

text \<open>The alternatives of the keyword; none begins another, and what follows each star cannot be taken by the star, so the matcher
  needs no backtracking. \<open>\s\<close> does not contain the vertical tab.\<close>

definition secret_words :: "string list" where
  "secret_words = [''password'', ''secret'', ''token'', ''key'', ''authorization'', ''bearer'']"

definition re_space :: "char \<Rightarrow> bool" where
  "re_space c \<longleftrightarrow> of_char c \<in> {9, 10, 12, 13, 32 :: nat}"

definition is_quote :: "char \<Rightarrow> bool" where
  "is_quote c \<longleftrightarrow> of_char c \<in> {34, 39 :: nat}"

definition value_char :: "char \<Rightarrow> bool" where
  "value_char c \<longleftrightarrow> \<not> is_quote c \<and> \<not> re_space c \<and> c \<noteq> CHR '',''"

definition skip_quote :: "string \<Rightarrow> string" where
  "skip_quote s = (case s of c # t \<Rightarrow> (if is_quote c then t else s) | [] \<Rightarrow> [])"

definition match_value :: "string \<Rightarrow> string option" where
  "match_value s =
     (let v = skip_quote (dropWhile re_space s); rest = dropWhile value_char v
      in if length rest = length v then None else Some (skip_quote rest))"

definition match_word :: "string \<Rightarrow> string \<Rightarrow> (string \<times> string) option" where
  "match_word s kw =
     (if to_lower (take (length kw) s) \<noteq> kw then None
      else case dropWhile re_space (drop (length kw) s) of
             c # t \<Rightarrow> (if c = CHR '':'' \<or> c = CHR ''='' then map_option (Pair (take (length kw) s)) (match_value t) else None)
           | [] \<Rightarrow> None)"

fun first_match :: "string \<Rightarrow> string list \<Rightarrow> (string \<times> string) option" where
  "first_match s [] = None"
| "first_match s (kw # kws) = (case match_word s kw of None \<Rightarrow> first_match s kws | Some m \<Rightarrow> Some m)"

lemma length_skip_quote: "length (skip_quote s) \<le> length s"
  by (simp add: skip_quote_def split: list.splits)

lemma match_value_length: "match_value s = Some r \<Longrightarrow> length r \<le> length s"
  using length_skip_quote [of "dropWhile re_space s"] length_skip_quote [of "dropWhile value_char (skip_quote (dropWhile re_space s))"]
    length_dropWhile_le [of value_char "skip_quote (dropWhile re_space s)"] length_dropWhile_le [of re_space s]
  by (auto simp: match_value_def Let_def split: if_splits)

lemma match_word_length: "match_word s kw = Some (w, r) \<Longrightarrow> length r < length s"
proof -
  assume m: "match_word s kw = Some (w, r)"
  then obtain c t where ct: "dropWhile re_space (drop (length kw) s) = c # t" and v: "match_value t = Some r"
    by (auto simp: match_word_def split: if_splits list.splits)
  have "length (c # t) \<le> length s"
    using length_dropWhile_le [of re_space "drop (length kw) s"] unfolding ct by simp
  then show ?thesis using match_value_length [OF v] by simp
qed

lemma first_match_length: "first_match s kws = Some (w, r) \<Longrightarrow> length r < length s"
  by (induction kws) (auto split: option.splits dest: match_word_length)

text \<open>\<open>ReplaceAllString\<close>: leftmost matches, one after the other.\<close>

function MaskSecrets :: "string \<Rightarrow> string" where
  "MaskSecrets [] = []"
| "MaskSecrets (c # s) =
     (case first_match (c # s) secret_words of
        None \<Rightarrow> c # MaskSecrets s
      | Some (w, rest) \<Rightarrow> w @ ''=***REDACTED***'' @ MaskSecrets rest)"
  by pat_completeness auto
termination
  by (relation "measure length") (auto dest: first_match_length)

text \<open>A value behind a keyword and an equals sign does not show.\<close>

lemma dropWhile_value: "\<forall>c \<in> set v. value_char c \<Longrightarrow> dropWhile value_char (v @ post) = dropWhile value_char post"
  by (induction v) auto

lemma skip_quote_value: "value_char c \<Longrightarrow> skip_quote (c # s) = c # s"
  by (simp add: skip_quote_def value_char_def)

lemma match_value_word:
  assumes "v \<noteq> []" "\<forall>c \<in> set v. value_char c"
  shows "match_value (v @ post) = Some (skip_quote (dropWhile value_char post))"
proof -
  obtain c v' where v: "v = c # v'" using assms(1) by (cases v) auto
  have c: "value_char c" "\<not> re_space c" using assms(2) by (auto simp: v value_char_def)
  have d: "dropWhile value_char (v @ post) = dropWhile value_char post" by (rule dropWhile_value [OF assms(2)])
  have s: "skip_quote (dropWhile re_space (v @ post)) = v @ post" using c by (simp add: v skip_quote_value)
  have "length (dropWhile value_char post) < length (v @ post)"
    using length_dropWhile_le [of value_char post] assms(1) by (cases v) simp_all
  then show ?thesis unfolding match_value_def s Let_def d by simp
qed

lemma masked_value:
  assumes "kw \<in> set secret_words" "v \<noteq> []" "\<forall>c \<in> set v. value_char c"
  shows "MaskSecrets (kw @ ''='' @ v @ post) = kw @ ''=***REDACTED***'' @ MaskSecrets (skip_quote (dropWhile value_char post))"
proof -
  have m: "match_value (v @ post) = Some (skip_quote (dropWhile value_char post))" by (rule match_value_word [OF assms(2,3)])
  have "first_match (kw @ ''='' @ v @ post) secret_words = Some (kw, skip_quote (dropWhile value_char post))"
    using assms(1) m by (auto simp: secret_words_def match_word_def to_lower_def lower_char_def re_space_def)
  moreover have "kw \<noteq> []" using assms(1) by (auto simp: secret_words_def)
  then obtain c s where "kw @ ''='' @ v @ post = c # s" by (cases kw) auto
  ultimately show ?thesis by simp
qed

text \<open>Of an authorisation header the scheme is masked and the token stays; a JSON member is not recognised at all.\<close>

lemma bearer_token_shown: "MaskSecrets ''Authorization: Bearer eyJhbGciOi'' = ''Authorization=***REDACTED*** eyJhbGciOi''"
  by code_simp

lemma json_secret_shown: "MaskSecrets ''{\"password\":\"hunter2\"}'' = ''{\"password\":\"hunter2\"}''"
  by code_simp

section \<open>HTML\<close>

text \<open>\<open>html.EscapeString\<close>.\<close>

definition escape_char :: "char \<Rightarrow> string" where
  "escape_char c =
     (if c = CHR ''&'' then ''&amp;'' else if c = CHR 0x27 then ''&#39;'' else if c = CHR ''<'' then ''&lt;''
      else if c = CHR ''>'' then ''&gt;'' else if c = CHR 0x22 then ''&#34;'' else [c])"

definition SanitizeHTML :: "string \<Rightarrow> string" where
  "SanitizeHTML input = concat (map escape_char (trim_space input))"

lemma SanitizeHTML_clean: "c \<in> set (SanitizeHTML s) \<Longrightarrow> c \<notin> {CHR ''<'', CHR ''>'', CHR 0x22, CHR 0x27}"
  by (auto simp: SanitizeHTML_def escape_char_def split: if_splits)

end
