(* ===== verification/JobQueue.thy ===== *)
theory JobQueue
  imports GoBase
begin

text \<open>
  The scan-job queue (\<open>queue/job_queue.go\<close>): jobs, host tasks, leases with expiry, retries and
  progress counters. Every operation holds the mutex, so it is one step. Loops over the task map
  take the order of the loop as an argument; task identifiers and clock readings are arguments.
\<close>

section \<open>State\<close>

datatype TaskStatus = StatusPending | StatusLeased | StatusCompleted | StatusFailed

record JobEntry =
  J_ID :: string
  J_TenantID :: string
  J_Name :: string
  J_TargetCIDR :: string
  J_ScanProfile :: string
  J_Status :: string
  J_TotalHosts :: int
  J_ScannedHosts :: int
  J_CompliantHosts :: int
  J_FailedHosts :: int
  J_GatewayID :: string
  J_CreatedAt :: time
  J_UpdatedAt :: time
  J_CompletedAt :: "time option"

record 'r HostTask =
  T_ID :: string
  T_JobID :: string
  T_TenantID :: string
  T_TargetIP :: string
  T_Status :: TaskStatus
  T_RetryCount :: int
  T_MaxRetries :: int
  T_LeasedByWorker :: string
  T_LeaseExpiresAt :: "time option"
  T_LastError :: string
  T_ResultPayload :: "'r option"
  T_CreatedAt :: time
  T_UpdatedAt :: time
  T_CompletedAt :: "time option"

record 'r PersistentJobQueue =
  Q_jobs :: "string \<rightharpoonup> JobEntry"
  Q_tasks :: "string \<rightharpoonup> 'r HostTask"

type_synonym 'r queue = "'r PersistentJobQueue"

definition NewPersistentJobQueue :: "'r queue" where
  "NewPersistentJobQueue = \<lparr>Q_jobs = Map.empty, Q_tasks = Map.empty\<rparr>"

definition put_task :: "string \<Rightarrow> 'r HostTask \<Rightarrow> 'r queue \<Rightarrow> 'r queue" where
  "put_task k t q = q\<lparr>Q_tasks := (Q_tasks q)(k \<mapsto> t)\<rparr>"

definition put_job :: "string \<Rightarrow> JobEntry \<Rightarrow> 'r queue \<Rightarrow> 'r queue" where
  "put_job k j q = q\<lparr>Q_jobs := (Q_jobs q)(k \<mapsto> j)\<rparr>"

section \<open>Operations\<close>

definition new_task :: "time \<Rightarrow> JobEntry \<Rightarrow> string \<Rightarrow> string \<Rightarrow> 'r HostTask" where
  "new_task now job taskID ip =
     \<lparr>T_ID = taskID, T_JobID = J_ID job, T_TenantID = J_TenantID job, T_TargetIP = ip,
      T_Status = StatusPending, T_RetryCount = 0, T_MaxRetries = 2, T_LeasedByWorker = [],
      T_LeaseExpiresAt = None, T_LastError = [], T_ResultPayload = None,
      T_CreatedAt = now, T_UpdatedAt = now, T_CompletedAt = None\<rparr>"

fun enqueue_tasks :: "time \<Rightarrow> JobEntry \<Rightarrow> (string \<times> string) list \<Rightarrow> 'r queue \<Rightarrow> 'r queue" where
  "enqueue_tasks now job [] q = q"
| "enqueue_tasks now job ((taskID, ip) # rest) q =
     enqueue_tasks now job rest (put_task taskID (new_task now job taskID ip) q)"

text \<open>\<open>ids\<close> are the identifiers drawn, one per address.\<close>

definition EnqueueJob :: "time \<Rightarrow> string list \<Rightarrow> 'r queue \<Rightarrow> JobEntry \<Rightarrow> string list \<Rightarrow> 'r queue" where
  "EnqueueJob now ids q job targetIPs =
     (let job = job\<lparr>J_TotalHosts := int (length targetIPs), J_Status := ''queued'',
                    J_CreatedAt := now, J_UpdatedAt := now\<rparr>
      in enqueue_tasks now job (zip ids targetIPs) (put_job (J_ID job) job q))"

definition lease_task :: "time \<Rightarrow> time \<Rightarrow> string \<Rightarrow> string \<Rightarrow> 'r HostTask \<Rightarrow> 'r queue \<Rightarrow> 'r queue" where
  "lease_task now expires workerID k task q =
     (let q = put_task k (task\<lparr>T_Status := StatusLeased, T_LeasedByWorker := workerID,
                T_LeaseExpiresAt := Some expires, T_UpdatedAt := now\<rparr>) q
      in case Q_jobs q (T_JobID task) of
           None \<Rightarrow> q
         | Some job \<Rightarrow>
             if J_Status job = ''queued'' then
               put_job (T_JobID task) (job\<lparr>J_Status := ''in_progress'', J_UpdatedAt := now\<rparr>) q
             else q)"

fun lease_loop ::
  "time \<Rightarrow> time \<Rightarrow> string \<Rightarrow> int \<Rightarrow> string list \<Rightarrow> 'r queue \<Rightarrow> string list \<Rightarrow> 'r queue \<times> string list" where
  "lease_loop now expires workerID batchSize [] q leased = (q, leased)"
| "lease_loop now expires workerID batchSize (k # ks) q leased =
     (case Q_tasks q k of
        None \<Rightarrow> lease_loop now expires workerID batchSize ks q leased
      | Some task \<Rightarrow>
          if T_Status task = StatusPending then
            (let q = lease_task now expires workerID k task q;
                 leased = leased @ [k]
             in if int (length leased) \<ge> batchSize then (q, leased)
                else lease_loop now expires workerID batchSize ks q leased)
          else lease_loop now expires workerID batchSize ks q leased)"

text \<open>The result is the list of task keys; the source returns the pointers stored under them.\<close>

definition LeaseBatch ::
  "string list \<Rightarrow> time \<Rightarrow> 'r queue \<Rightarrow> string \<Rightarrow> int \<Rightarrow> duration \<Rightarrow> 'r queue \<times> string list" where
  "LeaseBatch ord now q workerID batchSize leaseDuration =
     lease_loop now (now + leaseDuration) workerID batchSize ord q []"

text \<open>The last lines of both outcomes: the job is done when every host is accounted for.\<close>

definition finalize :: "time \<Rightarrow> JobEntry \<Rightarrow> JobEntry" where
  "finalize now job =
     (if J_ScannedHosts job + J_FailedHosts job \<ge> J_TotalHosts job
      then job\<lparr>J_Status := ''completed'', J_CompletedAt := Some now\<rparr> else job)"

definition CompleteTask :: "time \<Rightarrow> 'r queue \<Rightarrow> string \<Rightarrow> bool \<Rightarrow> 'r option \<Rightarrow> 'r queue option" where
  "CompleteTask now q taskID isCompliant result =
     (case Q_tasks q taskID of
        None \<Rightarrow> None
      | Some task \<Rightarrow>
          (let q = put_task taskID (task\<lparr>T_Status := StatusCompleted, T_ResultPayload := result,
                     T_CompletedAt := Some now, T_UpdatedAt := now\<rparr>) q
           in case Q_jobs q (T_JobID task) of
                None \<Rightarrow> Some q
              | Some job \<Rightarrow>
                  (let job = job\<lparr>J_ScannedHosts := J_ScannedHosts job + 1\<rparr>;
                       job = (if isCompliant then job\<lparr>J_CompliantHosts := J_CompliantHosts job + 1\<rparr> else job);
                       job = job\<lparr>J_UpdatedAt := now\<rparr>
                   in Some (put_job (T_JobID task) (finalize now job) q))))"

definition FailTask :: "time \<Rightarrow> 'r queue \<Rightarrow> string \<Rightarrow> string \<Rightarrow> bool \<Rightarrow> 'r queue option" where
  "FailTask now q taskID errMsg retryable =
     (case Q_tasks q taskID of
        None \<Rightarrow> None
      | Some task \<Rightarrow>
          (let task = task\<lparr>T_LastError := errMsg, T_UpdatedAt := now\<rparr> in
           if retryable \<and> T_RetryCount task < T_MaxRetries task then
             Some (put_task taskID (task\<lparr>T_RetryCount := T_RetryCount task + 1, T_Status := StatusPending,
                     T_LeasedByWorker := [], T_LeaseExpiresAt := None\<rparr>) q)
           else
             (let q = put_task taskID (task\<lparr>T_Status := StatusFailed, T_CompletedAt := Some now\<rparr>) q
              in case Q_jobs q (T_JobID task) of
                   None \<Rightarrow> Some q
                 | Some job \<Rightarrow>
                     Some (put_job (T_JobID task)
                       (finalize now (job\<lparr>J_FailedHosts := J_FailedHosts job + 1, J_UpdatedAt := now\<rparr>)) q))))"

definition lease_expired :: "time \<Rightarrow> 'r HostTask \<Rightarrow> bool" where
  "lease_expired now task \<longleftrightarrow> T_Status task = StatusLeased
     \<and> (case T_LeaseExpiresAt task of None \<Rightarrow> False | Some e \<Rightarrow> e < now)"

definition reclaimed :: "time \<Rightarrow> 'r HostTask \<Rightarrow> 'r HostTask" where
  "reclaimed now task = task\<lparr>T_Status := StatusPending, T_LeasedByWorker := [],
     T_LeaseExpiresAt := None, T_UpdatedAt := now\<rparr>"

fun reclaim_loop :: "time \<Rightarrow> string list \<Rightarrow> 'r queue \<Rightarrow> int \<Rightarrow> 'r queue \<times> int" where
  "reclaim_loop now [] q n = (q, n)"
| "reclaim_loop now (k # ks) q n =
     (case Q_tasks q k of
        None \<Rightarrow> reclaim_loop now ks q n
      | Some task \<Rightarrow>
          if lease_expired now task then reclaim_loop now ks (put_task k (reclaimed now task) q) (n + 1)
          else reclaim_loop now ks q n)"

definition ReclaimExpiredLeases :: "string list \<Rightarrow> time \<Rightarrow> 'r queue \<Rightarrow> 'r queue \<times> int" where
  "ReclaimExpiredLeases ord now q = reclaim_loop now ord q 0"

definition GetJob :: "'r queue \<Rightarrow> string \<Rightarrow> JobEntry option" where
  "GetJob q jobID = Q_jobs q jobID"

section \<open>Leasing and reclaiming\<close>

lemma put_simps [simp]:
  "Q_tasks (put_task k t q) = (Q_tasks q)(k \<mapsto> t)" "Q_jobs (put_task k t q) = Q_jobs q"
  "Q_tasks (put_job i j q) = Q_tasks q" "Q_jobs (put_job i j q) = (Q_jobs q)(i \<mapsto> j)"
  by (simp_all add: put_task_def put_job_def)

text \<open>The task a lease leaves behind.\<close>

definition leased_as :: "time \<Rightarrow> time \<Rightarrow> string \<Rightarrow> 'r HostTask \<Rightarrow> 'r HostTask" where
  "leased_as now expires workerID task =
     task\<lparr>T_Status := StatusLeased, T_LeasedByWorker := workerID, T_LeaseExpiresAt := Some expires,
          T_UpdatedAt := now\<rparr>"

lemma lease_task_tasks [simp]:
  "Q_tasks (lease_task now e w k t q) = (Q_tasks q)(k \<mapsto> leased_as now e w t)"
  by (simp add: lease_task_def leased_as_def Let_def split: option.split)

definition pending_keys :: "'r queue \<Rightarrow> string list \<Rightarrow> string list" where
  "pending_keys q ks = filter (\<lambda>k. \<exists>t. Q_tasks q k = Some t \<and> T_Status t = StatusPending) ks"

lemma pending_keys_cong:
  "(\<And>k. k \<in> set ks \<Longrightarrow> Q_tasks q k = Q_tasks q' k) \<Longrightarrow> pending_keys q ks = pending_keys q' ks"
  by (auto simp: pending_keys_def intro!: filter_cong)

text \<open>The loop leases a prefix of the pending tasks in its order.\<close>

lemma lease_loop_spec:
  assumes "distinct ks" "int (length leased) < batchSize \<or> leased = []"
    and "lease_loop now e w batchSize ks q leased = (q', leased')"
  shows "\<exists>new. new = take (nat (max 1 batchSize) - length leased) (pending_keys q ks)
     \<and> leased' = leased @ new
     \<and> Q_tasks q' = (\<lambda>k. if k \<in> set new then map_option (leased_as now e w) (Q_tasks q k) else Q_tasks q k)"
  using assms
proof (induction ks arbitrary: q leased)
  case Nil
  then show ?case by (auto simp: pending_keys_def)
next
  case (Cons k ks)
  show ?case
  proof (cases "\<exists>t. Q_tasks q k = Some t \<and> T_Status t = StatusPending")
    case False
    then have "lease_loop now e w batchSize ks q leased = (q', leased')"
      using Cons.prems(3) by (auto split: option.splits)
    moreover have "pending_keys q (k # ks) = pending_keys q ks" using False by (simp add: pending_keys_def)
    ultimately show ?thesis using Cons.IH [of leased q] Cons.prems(1,2) by simp
  next
    case True
    then obtain t where t: "Q_tasks q k = Some t" "T_Status t = StatusPending" by blast
    let ?q = "lease_task now e w k t q"
    have pk: "pending_keys q (k # ks) = k # pending_keys q ks" using t by (simp add: pending_keys_def)
    have pk': "pending_keys ?q ks = pending_keys q ks"
      using Cons.prems(1) by (intro pending_keys_cong) auto
    show ?thesis
    proof (cases "int (length (leased @ [k])) \<ge> batchSize")
      case stop: True
      then have r: "q' = ?q" "leased' = leased @ [k]"
        using Cons.prems(3) t by (auto simp: Let_def)
      have "nat (max 1 batchSize) - length leased = 1" using stop Cons.prems(2) by auto
      then show ?thesis using r t pk by (auto simp: fun_eq_iff)
    next
      case cont: False
      then have "lease_loop now e w batchSize ks ?q (leased @ [k]) = (q', leased')"
        using Cons.prems(3) t by (simp add: Let_def)
      from Cons.IH [OF _ _ this] cont Cons.prems(1)
      obtain new where new: "new = take (nat (max 1 batchSize) - length (leased @ [k])) (pending_keys q ks)"
        "leased' = (leased @ [k]) @ new"
        "Q_tasks q' = (\<lambda>x. if x \<in> set new then map_option (leased_as now e w) (Q_tasks ?q x) else Q_tasks ?q x)"
        using pk' by auto
      have "set new \<subseteq> set ks" using new(1) by (auto simp: pending_keys_def dest: in_set_takeD)
      then have "k \<notin> set new" using Cons.prems(1) by auto
      moreover have "nat (max 1 batchSize) - length leased = Suc (nat (max 1 batchSize) - length (leased @ [k]))"
        using cont by auto
      ultimately show ?thesis using new t pk by (intro exI [of _ "k # new"]) (auto simp: fun_eq_iff)
    qed
  qed
qed

lemma reclaim_loop_spec:
  assumes "distinct ks" "reclaim_loop now ks q n = (q', n')"
  shows "Q_jobs q' = Q_jobs q
     \<and> Q_tasks q' = (\<lambda>k. if k \<in> set ks then map_option (\<lambda>t. if lease_expired now t then reclaimed now t else t) (Q_tasks q k)
                        else Q_tasks q k)
     \<and> n' = n + int (card {k \<in> set ks. \<exists>t. Q_tasks q k = Some t \<and> lease_expired now t})"
  using assms
proof (induction ks arbitrary: q n)
  case (Cons k ks)
  let ?E = "\<lambda>q ks. {k \<in> set ks. \<exists>t. Q_tasks q k = Some t \<and> lease_expired now t}"
  show ?case
  proof (cases "\<exists>t. Q_tasks q k = Some t \<and> lease_expired now t")
    case False
    then have "?E q (k # ks) = ?E q ks" by auto
    moreover have "reclaim_loop now ks q n = (q', n')"
      using False Cons.prems(2) by (auto split: option.splits if_splits)
    moreover have "map_option (\<lambda>t. if lease_expired now t then reclaimed now t else t) (Q_tasks q k) = Q_tasks q k"
      using False by (cases "Q_tasks q k") auto
    ultimately show ?thesis using Cons.IH [of q n] Cons.prems(1) by (auto simp: fun_eq_iff)
  next
    case True
    then obtain t where t: "Q_tasks q k = Some t" "lease_expired now t" by blast
    let ?q = "put_task k (reclaimed now t) q"
    have "?E q (k # ks) = insert k (?E ?q ks)" "k \<notin> ?E ?q ks" using t Cons.prems(1) by auto
    then have "card (?E q (k # ks)) = Suc (card (?E ?q ks))" by simp
    moreover have "reclaim_loop now ks ?q (n + 1) = (q', n')" using t Cons.prems(2) by simp
    ultimately show ?thesis using Cons.IH [of ?q "n + 1"] Cons.prems(1) t by (auto simp: fun_eq_iff)
  qed
qed simp

section \<open>Counting the tasks of a job\<close>

definition tasks_of :: "'r queue \<Rightarrow> string \<Rightarrow> (TaskStatus \<Rightarrow> bool) \<Rightarrow> string set" where
  "tasks_of q jid P = {k. \<exists>t. Q_tasks q k = Some t \<and> T_JobID t = jid \<and> P (T_Status t)}"

definition tally :: "'r queue \<Rightarrow> string \<Rightarrow> (TaskStatus \<Rightarrow> bool) \<Rightarrow> int" where
  "tally q jid P = int (card (tasks_of q jid P))"

abbreviation all_tasks :: "TaskStatus \<Rightarrow> bool" where "all_tasks \<equiv> \<lambda>_. True"
abbreviation done_tasks :: "TaskStatus \<Rightarrow> bool" where "done_tasks \<equiv> \<lambda>s. s = StatusCompleted"
abbreviation failed_tasks :: "TaskStatus \<Rightarrow> bool" where "failed_tasks \<equiv> \<lambda>s. s = StatusFailed"

lemma finite_tasks_of: "finite (dom (Q_tasks q)) \<Longrightarrow> finite (tasks_of q jid P)"
  by (rule finite_subset [of _ "dom (Q_tasks q)"]) (auto simp: tasks_of_def)

lemma tally_cong:
  assumes "\<And>k. rel_option (\<lambda>t t'. T_JobID t' = T_JobID t \<and> (P (T_Status t') \<longleftrightarrow> P (T_Status t)))
      (Q_tasks q k) (Q_tasks q' k)"
  shows "tally q' jid P = tally q jid P"
proof -
  have "k \<in> tasks_of q' jid P \<longleftrightarrow> k \<in> tasks_of q jid P" for k
    using assms [of k] by (auto simp: tasks_of_def option_rel_Some1 option_rel_Some2)
  then have "tasks_of q' jid P = tasks_of q jid P" by blast
  then show ?thesis by (simp add: tally_def)
qed

lemma card_if_insert:
  "finite R \<Longrightarrow> A = (if b then insert k R else R) \<Longrightarrow> k \<notin> R \<Longrightarrow> card A = card R + (if b then 1 else 0)"
  by simp

lemma tally_update:
  assumes "finite (dom (Q_tasks q))" "Q_tasks q k = Some t" "Q_tasks q' = (Q_tasks q)(k \<mapsto> t')"
    and "T_JobID t' = T_JobID t"
  shows "tally q' jid P = tally q jid P
     + (if T_JobID t = jid \<and> P (T_Status t') then 1 else 0) - (if T_JobID t = jid \<and> P (T_Status t) then 1 else 0)"
proof -
  let ?rest = "tasks_of q jid P - {k}"
  have f: "finite ?rest" using finite_tasks_of [OF assms(1)] by simp
  have "tasks_of q' jid P = (if T_JobID t = jid \<and> P (T_Status t') then insert k ?rest else ?rest)"
    "tasks_of q jid P = (if T_JobID t = jid \<and> P (T_Status t) then insert k ?rest else ?rest)"
    using assms(2-4) by (auto simp: tasks_of_def)
  from this [THEN card_if_insert [OF f]] show ?thesis by (simp add: tally_def)
qed

text \<open>
  Accounting: every task belongs to a known job and has used at most two retries; a job's total,
  scanned and failed counters are the numbers of its tasks, of its completed and of its failed
  tasks; it is reported completed exactly when it has tasks and all of them are terminal.
\<close>

definition retries_ok :: "'r HostTask \<Rightarrow> bool" where
  "retries_ok t \<longleftrightarrow> 0 \<le> T_RetryCount t \<and> T_RetryCount t \<le> T_MaxRetries t \<and> T_MaxRetries t = 2"

definition accounted :: "'r queue \<Rightarrow> bool" where
  "accounted q \<longleftrightarrow> finite (dom (Q_tasks q))
     \<and> (\<forall>k t. Q_tasks q k = Some t \<longrightarrow> T_JobID t \<in> dom (Q_jobs q) \<and> retries_ok t)
     \<and> (\<forall>jid j. Q_jobs q jid = Some j \<longrightarrow>
          J_TotalHosts j = tally q jid all_tasks \<and> J_ScannedHosts j = tally q jid done_tasks
          \<and> J_FailedHosts j = tally q jid failed_tasks
          \<and> (J_Status j = ''completed'' \<longleftrightarrow> 0 < J_TotalHosts j \<and> J_ScannedHosts j + J_FailedHosts j = J_TotalHosts j))"

lemma accountedD:
  assumes "accounted q"
  shows "finite (dom (Q_tasks q))"
    and "Q_tasks q k = Some t \<Longrightarrow> T_JobID t \<in> dom (Q_jobs q) \<and> retries_ok t"
    and "Q_jobs q jid = Some j \<Longrightarrow>
          J_TotalHosts j = tally q jid all_tasks \<and> J_ScannedHosts j = tally q jid done_tasks
          \<and> J_FailedHosts j = tally q jid failed_tasks
          \<and> (J_Status j = ''completed'' \<longleftrightarrow> 0 < J_TotalHosts j \<and> J_ScannedHosts j + J_FailedHosts j = J_TotalHosts j)"
  using assms unfolding accounted_def by (blast, blast, blast)

text \<open>Job records that agree in what the accounting reads.\<close>

definition same_progress :: "JobEntry \<Rightarrow> JobEntry \<Rightarrow> bool" where
  "same_progress j j' \<longleftrightarrow> J_TotalHosts j' = J_TotalHosts j \<and> J_ScannedHosts j' = J_ScannedHosts j
     \<and> J_FailedHosts j' = J_FailedHosts j \<and> (J_Status j' = ''completed'' \<longleftrightarrow> J_Status j = ''completed'')"

lemma same_progress_refl [simp]: "same_progress j j"
  by (simp add: same_progress_def)

lemma accounted_transfer:
  assumes "accounted q"
    and tasks: "\<And>k. rel_option (\<lambda>t t'. T_JobID t' = T_JobID t \<and> (retries_ok t \<longrightarrow> retries_ok t')
        \<and> (T_Status t' = StatusCompleted \<longleftrightarrow> T_Status t = StatusCompleted)
        \<and> (T_Status t' = StatusFailed \<longleftrightarrow> T_Status t = StatusFailed)) (Q_tasks q k) (Q_tasks q' k)"
    and jobs: "\<And>k. rel_option same_progress (Q_jobs q k) (Q_jobs q' k)"
  shows "accounted q'"
proof -
  have c: "tally q' jid P = tally q jid P" if "P \<in> {all_tasks, done_tasks, failed_tasks}" for jid P
  proof (rule tally_cong)
    show "rel_option (\<lambda>t t'. T_JobID t' = T_JobID t \<and> P (T_Status t') = P (T_Status t)) (Q_tasks q k) (Q_tasks q' k)" for k
      by (rule option.rel_mono_strong [OF tasks]) (use that in auto)
  qed
  have dt: "dom (Q_tasks q') = dom (Q_tasks q)" and dj: "dom (Q_jobs q') = dom (Q_jobs q)"
  proof -
    have "Q_tasks q' k = None \<longleftrightarrow> Q_tasks q k = None" for k
      using tasks [of k] by (cases "Q_tasks q k"; cases "Q_tasks q' k") auto
    then show "dom (Q_tasks q') = dom (Q_tasks q)" by (simp add: dom_def)
    have "Q_jobs q' k = None \<longleftrightarrow> Q_jobs q k = None" for k
      using jobs [of k] by (cases "Q_jobs q k"; cases "Q_jobs q' k") auto
    then show "dom (Q_jobs q') = dom (Q_jobs q)" by (simp add: dom_def)
  qed
  have t: "\<exists>t. Q_tasks q k = Some t \<and> T_JobID t' = T_JobID t \<and> (retries_ok t \<longrightarrow> retries_ok t')" if "Q_tasks q' k = Some t'" for k t'
    using tasks [of k] that by (auto simp: option_rel_Some2)
  have j: "\<exists>j. Q_jobs q jid = Some j \<and> same_progress j j'" if "Q_jobs q' jid = Some j'" for jid j'
    using jobs [of jid] that by (auto simp: option_rel_Some2)
  show ?thesis
    unfolding accounted_def dt dj
  proof (intro conjI allI impI)
    show "finite (dom (Q_tasks q))" by (rule accountedD(1) [OF assms(1)])
  next
    fix k t' assume "Q_tasks q' k = Some t'"
    from t [OF this] accountedD(2) [OF assms(1), of k]
    show "T_JobID t' \<in> dom (Q_jobs q)" "retries_ok t'" by auto
  next
    fix jid j' assume "Q_jobs q' jid = Some j'"
    from j [OF this] accountedD(3) [OF assms(1), of jid]
    show "J_TotalHosts j' = tally q' jid all_tasks" "J_ScannedHosts j' = tally q' jid done_tasks"
      "J_FailedHosts j' = tally q' jid failed_tasks"
      "(J_Status j' = ''completed'') = (0 < J_TotalHosts j' \<and> J_ScannedHosts j' + J_FailedHosts j' = J_TotalHosts j')"
      by (auto simp: c same_progress_def)
  qed
qed

lemma tally_open:
  assumes "finite (dom (Q_tasks q))"
  shows "tally q jid all_tasks = tally q jid done_tasks + tally q jid failed_tasks
     + tally q jid (\<lambda>s. s = StatusPending \<or> s = StatusLeased)"
proof -
  let ?D = "tasks_of q jid done_tasks" and ?F = "tasks_of q jid failed_tasks"
  let ?O = "tasks_of q jid (\<lambda>s. s = StatusPending \<or> s = StatusLeased)"
  have "tasks_of q jid all_tasks = (?D \<union> ?F) \<union> ?O"
    unfolding tasks_of_def using TaskStatus.exhaust by blast
  moreover have "?D \<inter> ?F = {}" "(?D \<union> ?F) \<inter> ?O = {}" by (auto simp: tasks_of_def)
  moreover have "finite ?D" "finite ?F" "finite ?O" using finite_tasks_of [OF assms] by blast+
  ultimately have "card (tasks_of q jid all_tasks) = card ?D + card ?F + card ?O"
    by (simp add: card_Un_disjoint)
  then show ?thesis by (simp add: tally_def)
qed

lemma tally_nonneg: "0 \<le> tally q jid P"
  by (simp add: tally_def)

lemma tally_pos:
  assumes "finite (dom (Q_tasks q))" "Q_tasks q k = Some t" "P (T_Status t)"
  shows "0 < tally q (T_JobID t) P"
proof -
  have "k \<in> tasks_of q (T_JobID t) P" using assms(2,3) by (auto simp: tasks_of_def)
  then have "0 < card (tasks_of q (T_JobID t) P)"
    using finite_tasks_of [OF assms(1)] card_gt_0_iff by blast
  then show ?thesis by (simp add: tally_def)
qed

text \<open>A task that reaches a terminal state is counted once.\<close>

lemma accounted_terminal:
  assumes "accounted q" "Q_tasks q k = Some t" "T_Status t \<notin> {StatusCompleted, StatusFailed}"
    and "T_JobID t' = T_JobID t" "retries_ok t'" "T_Status t' \<in> {StatusCompleted, StatusFailed}"
    and "Q_jobs q (T_JobID t) = Some j"
    and "J_TotalHosts j' = J_TotalHosts j" "J_Status j' = J_Status j"
    and "J_ScannedHosts j' = J_ScannedHosts j + (if T_Status t' = StatusCompleted then 1 else 0)"
    and "J_FailedHosts j' = J_FailedHosts j + (if T_Status t' = StatusFailed then 1 else 0)"
  shows "accounted (put_job (T_JobID t) (finalize now j') (put_task k t' q))" (is "accounted ?q")
proof -
  let ?J = "T_JobID t"
  note A = accountedD [OF assms(1)]
  have fin: "finite (dom (Q_tasks ?q))" using A(1) by simp
  have up: "tally ?q jid P = tally q jid P + (if ?J = jid \<and> P (T_Status t') then 1 else 0)
      - (if ?J = jid \<and> P (T_Status t) then 1 else 0)" for jid P
    by (rule tally_update [OF A(1) assms(2) _ assms(4)]) simp
  have "0 < tally q ?J (\<lambda>s. s = StatusPending \<or> s = StatusLeased)"
    using assms(3) by (intro tally_pos [OF A(1) assms(2)]) (cases "T_Status t"; simp)
  then have lt: "J_ScannedHosts j + J_FailedHosts j < J_TotalHosts j"
    using A(3) [OF assms(7)] tally_open [OF A(1), of ?J] by simp
  have pos: "0 < J_TotalHosts j" using tally_pos [OF A(1) assms(2), of all_tasks] A(3) [OF assms(7)] by simp
  show ?thesis
    unfolding accounted_def
  proof (intro conjI allI impI)
    fix x u assume "Q_tasks ?q x = Some u"
    then show "T_JobID u \<in> dom (Q_jobs ?q)" "retries_ok u"
      using A(2) assms(4,5,2) by (auto split: if_splits)
  next
    fix jid i assume i: "Q_jobs ?q jid = Some i"
    have "J_TotalHosts i = tally ?q jid all_tasks \<and> J_ScannedHosts i = tally ?q jid done_tasks
        \<and> J_FailedHosts i = tally ?q jid failed_tasks
        \<and> (J_Status i = ''completed'') = (0 < J_TotalHosts i \<and> J_ScannedHosts i + J_FailedHosts i = J_TotalHosts i)"
    proof (cases "jid = ?J")
      case True
      then have i': "i = finalize now j'" using i by simp
      show ?thesis
        using A(3) [OF assms(7)] up assms(3,6,8-) lt pos by (auto simp: i' finalize_def True)
    next
      case False
      then show ?thesis using i A(3) [of jid i] up by auto
    qed
    then show "J_TotalHosts i = tally ?q jid all_tasks" "J_ScannedHosts i = tally ?q jid done_tasks"
      "J_FailedHosts i = tally ?q jid failed_tasks"
      "(J_Status i = ''completed'') = (0 < J_TotalHosts i \<and> J_ScannedHosts i + J_FailedHosts i = J_TotalHosts i)"
      by blast+
  qed (rule fin)
qed

section \<open>Every operation keeps the account\<close>

lemma accounted_CompleteTask [go_inv]:
  assumes "accounted q" "Q_tasks q k = Some t" "T_Status t = StatusLeased"
    and "CompleteTask now q k ok res = Some q'"
  shows "accounted q'"
proof -
  obtain j where j: "Q_jobs q (T_JobID t) = Some j" using accountedD(2) [OF assms(1,2)] by auto
  let ?t = "t\<lparr>T_Status := StatusCompleted, T_ResultPayload := res, T_CompletedAt := Some now, T_UpdatedAt := now\<rparr>"
  let ?j = "(if ok then j\<lparr>J_ScannedHosts := J_ScannedHosts j + 1, J_CompliantHosts := J_CompliantHosts j + 1\<rparr>
             else j\<lparr>J_ScannedHosts := J_ScannedHosts j + 1\<rparr>)\<lparr>J_UpdatedAt := now\<rparr>"
  have q': "q' = put_job (T_JobID t) (finalize now ?j) (put_task k ?t q)"
    using assms(2,4) j by (simp add: CompleteTask_def Let_def split: if_splits)
  show ?thesis
    unfolding q' using accountedD(2) [OF assms(1,2)] assms(3)
    by (intro accounted_terminal [OF assms(1,2) _ _ _ _ j]) (auto simp: retries_ok_def)
qed

lemma accounted_FailTask [go_inv]:
  assumes "accounted q" "Q_tasks q k = Some t" "T_Status t = StatusLeased"
    and "FailTask now q k err retry = Some q'"
  shows "accounted q'"
proof (cases "retry \<and> T_RetryCount t < T_MaxRetries t")
  case True
  let ?t = "t\<lparr>T_LastError := err, T_UpdatedAt := now, T_RetryCount := T_RetryCount t + 1, T_Status := StatusPending,
                     T_LeasedByWorker := [], T_LeaseExpiresAt := None\<rparr>"
  have q': "q' = put_task k ?t q" using assms(2,4) True by (simp add: FailTask_def Let_def)
  show ?thesis
    by (rule accounted_transfer [OF assms(1)])
      (use True assms(2,3) in \<open>auto simp: q' retries_ok_def option.rel_refl\<close>)
next
  case False
  obtain j where j: "Q_jobs q (T_JobID t) = Some j" using accountedD(2) [OF assms(1,2)] by auto
  let ?t = "t\<lparr>T_LastError := err, T_UpdatedAt := now, T_Status := StatusFailed, T_CompletedAt := Some now\<rparr>"
  let ?j = "j\<lparr>J_FailedHosts := J_FailedHosts j + 1, J_UpdatedAt := now\<rparr>"
  have q': "q' = put_job (T_JobID t) (finalize now ?j) (put_task k ?t q)"
    using assms(2,4) j False by (auto simp: FailTask_def Let_def)
  show ?thesis
    unfolding q' using accountedD(2) [OF assms(1,2)] assms(3)
    by (intro accounted_terminal [OF assms(1,2) _ _ _ _ j]) (auto simp: retries_ok_def)
qed

lemma lease_task_jobs: "rel_option same_progress (Q_jobs q i) (Q_jobs (lease_task now e w k t q) i)"
  by (auto simp: lease_task_def Let_def same_progress_def option.rel_refl split: option.split)

lemma lease_loop_jobs:
  "lease_loop now e w n ks q l = (q', l') \<Longrightarrow> rel_option same_progress (Q_jobs q i) (Q_jobs q' i)"
proof (induction ks arbitrary: q l)
  case (Cons k ks)
  have tr: "rel_option same_progress a c" if "rel_option same_progress a b" "rel_option same_progress b c" for a b c
    using that by (cases a; cases b; cases c) (auto simp: same_progress_def)
  show ?case
    using Cons.prems Cons.IH tr lease_task_jobs [of q i now e w k]
    by (fastforce simp: Let_def split: option.splits if_splits)
qed (simp add: option.rel_refl)

lemma accounted_LeaseBatch [go_inv]:
  assumes "accounted q" "distinct ord" "LeaseBatch ord now q w n d = (q', leased)"
  shows "accounted q'"
proof -
  have l: "lease_loop now (now + d) w n ord q [] = (q', leased)" using assms(3) by (simp add: LeaseBatch_def)
  from lease_loop_spec [OF assms(2) _ this] obtain new where
    new: "new = take (nat (max 1 n)) (pending_keys q ord)"
    "Q_tasks q' = (\<lambda>k. if k \<in> set new then map_option (leased_as now (now + d) w) (Q_tasks q k) else Q_tasks q k)"
    by auto
  have pend: "k \<in> set new \<Longrightarrow> Q_tasks q k = Some t \<Longrightarrow> T_Status t = StatusPending" for k t
    using new(1) by (auto simp: pending_keys_def dest!: in_set_takeD)
  show ?thesis
  proof (rule accounted_transfer [OF assms(1)])
    show "rel_option same_progress (Q_jobs q k) (Q_jobs q' k)" for k by (rule lease_loop_jobs [OF l])
    show "rel_option (\<lambda>t t'. T_JobID t' = T_JobID t \<and> (retries_ok t \<longrightarrow> retries_ok t') \<and>
        (T_Status t' = StatusCompleted \<longleftrightarrow> T_Status t = StatusCompleted) \<and>
        (T_Status t' = StatusFailed \<longleftrightarrow> T_Status t = StatusFailed)) (Q_tasks q k) (Q_tasks q' k)" for k
      using pend [of k] by (cases "Q_tasks q k") (auto simp: new(2) leased_as_def retries_ok_def)
  qed
qed

lemma accounted_Reclaim [go_inv]:
  assumes "accounted q" "distinct ord" "ReclaimExpiredLeases ord now q = (q', n)"
  shows "accounted q'"
proof -
  have "reclaim_loop now ord q 0 = (q', n)" using assms(3) by (simp add: ReclaimExpiredLeases_def)
  note R = reclaim_loop_spec [OF assms(2) this]
  show ?thesis
  proof (rule accounted_transfer [OF assms(1)])
    show "rel_option same_progress (Q_jobs q k) (Q_jobs q' k)" for k
      using R by (simp add: option.rel_refl)
    show "rel_option (\<lambda>t t'. T_JobID t' = T_JobID t \<and> (retries_ok t \<longrightarrow> retries_ok t') \<and>
        (T_Status t' = StatusCompleted \<longleftrightarrow> T_Status t = StatusCompleted) \<and>
        (T_Status t' = StatusFailed \<longleftrightarrow> T_Status t = StatusFailed)) (Q_tasks q k) (Q_tasks q' k)" for k
      using R by (cases "Q_tasks q k") (auto simp: reclaimed_def retries_ok_def lease_expired_def)
  qed
qed

lemma enqueue_tasks_fields:
  "distinct (map fst ps) \<Longrightarrow>
     Q_jobs (enqueue_tasks now job ps q) = Q_jobs q
     \<and> Q_tasks (enqueue_tasks now job ps q) =
         (\<lambda>k. case map_of ps k of None \<Rightarrow> Q_tasks q k | Some ip \<Rightarrow> Some (new_task now job k ip))"
proof (induction ps arbitrary: q)
  case (Cons p ps)
  obtain k ip where p: "p = (k, ip)" by fastforce
  have "map_of ps k = None" using Cons.prems p by (auto simp: map_of_eq_None_iff)
  then show ?case using Cons by (auto simp: p fun_eq_iff split: option.split)
qed simp

lemma accounted_EnqueueJob [go_inv]:
  assumes "accounted q" "J_ID job \<notin> dom (Q_jobs q)" "J_ScannedHosts job = 0" "J_FailedHosts job = 0" "length ids = length ips" "distinct ids"
    and "set ids \<inter> dom (Q_tasks q) = {}"
  shows "accounted (EnqueueJob now ids q job ips)" (is "accounted ?q")
proof -
  let ?job = "job\<lparr>J_TotalHosts := int (length ips), J_Status := ''queued'', J_CreatedAt := now, J_UpdatedAt := now\<rparr>"
  note A = accountedD [OF assms(1)]
  have d: "distinct (map fst (zip ids ips))" using assms(5,6) by simp
  have q: "Q_jobs ?q = (Q_jobs q)(J_ID job \<mapsto> ?job)"
    "Q_tasks ?q = (\<lambda>k. case map_of (zip ids ips) k of None \<Rightarrow> Q_tasks q k
       | Some ip \<Rightarrow> Some (new_task now ?job k ip))"
    by (simp_all add: EnqueueJob_def Let_def enqueue_tasks_fields [OF d] fun_eq_iff split: option.split)
  have dom: "map_of (zip ids ips) k = None \<longleftrightarrow> k \<notin> set ids" for k
    using assms(5) by (metis map_fst_zip map_of_eq_None_iff list.set_map)
  have fin: "finite (dom (Q_tasks ?q))"
    by (rule finite_subset [of _ "dom (Q_tasks q) \<union> set ids"]) (use A(1) in \<open>auto simp: q split: option.splits dest!: map_of_SomeD set_zip_leftD\<close>)
  have none: "T_JobID t \<noteq> J_ID job" if "Q_tasks q k = Some t" for k t using A(2) [OF that] assms(2) by auto
  have new: "tasks_of ?q (J_ID job) P = (if P StatusPending then set ids else {})" for P
    using none dom assms(7) by (auto simp: tasks_of_def q new_task_def split: option.splits)
  have old: "tasks_of ?q jid P = tasks_of q jid P" if "jid \<noteq> J_ID job" for jid P
    using that dom assms(7) by (auto simp: tasks_of_def q new_task_def split: option.splits)
  have len: "card (set ids) = length ips" using assms(5,6) distinct_card by metis
  show ?thesis
    unfolding accounted_def
  proof (intro conjI allI impI)
    fix k t assume "Q_tasks ?q k = Some t"
    then show "T_JobID t \<in> dom (Q_jobs ?q)" "retries_ok t"
      using A(2) [of k t] by (auto simp: q new_task_def retries_ok_def split: option.splits)
  next
    fix jid j assume j: "Q_jobs ?q jid = Some j"
    have "J_TotalHosts j = tally ?q jid all_tasks \<and> J_ScannedHosts j = tally ?q jid done_tasks
        \<and> J_FailedHosts j = tally ?q jid failed_tasks
        \<and> (J_Status j = ''completed'') = (0 < J_TotalHosts j \<and> J_ScannedHosts j + J_FailedHosts j = J_TotalHosts j)"
    proof (cases "jid = J_ID job")
      case True
      then have "j = ?job" using j by (simp add: q(1))
      then show ?thesis using assms(3,4) by (simp add: True tally_def new len)
    next
      case False
      then show ?thesis using j A(3) [of jid j] old [OF False] by (simp add: q(1) tally_def)
    qed
    then show "J_TotalHosts j = tally ?q jid all_tasks" "J_ScannedHosts j = tally ?q jid done_tasks"
      "J_FailedHosts j = tally ?q jid failed_tasks"
      "(J_Status j = ''completed'') = (0 < J_TotalHosts j \<and> J_ScannedHosts j + J_FailedHosts j = J_TotalHosts j)"
      by blast+
  qed (rule fin)
qed

section \<open>Histories of the queue\<close>

text \<open>
  The workers' protocol: jobs and tasks get fresh identifiers, and an outcome is reported for a
  task that is leased at that moment.
\<close>

inductive queue_step :: "'r queue \<Rightarrow> 'r queue \<Rightarrow> bool" where
  enqueue: "J_ID job \<notin> dom (Q_jobs q) \<Longrightarrow> J_ScannedHosts job = 0 \<Longrightarrow> J_FailedHosts job = 0 \<Longrightarrow>
     length ids = length ips \<Longrightarrow> distinct ids \<Longrightarrow> set ids \<inter> dom (Q_tasks q) = {} \<Longrightarrow>
     queue_step q (EnqueueJob now ids q job ips)"
| lease: "iterates (Q_tasks q) ord \<Longrightarrow> LeaseBatch ord now q w n d = (q', leased) \<Longrightarrow> queue_step q q'"
| complete: "Q_tasks q k = Some t \<Longrightarrow> T_Status t = StatusLeased \<Longrightarrow>
     CompleteTask now q k ok res = Some q' \<Longrightarrow> queue_step q q'"
| fail: "Q_tasks q k = Some t \<Longrightarrow> T_Status t = StatusLeased \<Longrightarrow>
     FailTask now q k err retry = Some q' \<Longrightarrow> queue_step q q'"
| reclaim: "iterates (Q_tasks q) ord \<Longrightarrow> ReclaimExpiredLeases ord now q = (q', n) \<Longrightarrow> queue_step q q'"

inductive queue_reach :: "'r queue \<Rightarrow> bool" where
  init: "queue_reach NewPersistentJobQueue"
| step: "queue_reach q \<Longrightarrow> queue_step q q' \<Longrightarrow> queue_reach q'"

lemma queue_step_accounted: "queue_step q q' \<Longrightarrow> accounted q \<Longrightarrow> accounted q'"
  by (induction rule: queue_step.induct)
    (auto intro: accounted_EnqueueJob accounted_LeaseBatch accounted_CompleteTask accounted_FailTask
      accounted_Reclaim simp: iterates_def)

lemma queue_reach_accounted: "queue_reach q \<Longrightarrow> accounted q"
proof (induction rule: queue_reach.induct)
  case init
  show ?case by (simp add: accounted_def NewPersistentJobQueue_def)
qed (rule queue_step_accounted)

section \<open>Theorems\<close>


text \<open>Witness of C15: one job with two hosts, one of them leased and completed.\<close>

definition demo_job :: JobEntry where
  "demo_job = \<lparr>J_ID = ''j'', J_TenantID = ''t'', J_Name = [], J_TargetCIDR = [], J_ScanProfile = [],
     J_Status = [], J_TotalHosts = 0, J_ScannedHosts = 0, J_CompliantHosts = 0, J_FailedHosts = 0,
     J_GatewayID = [], J_CreatedAt = 0, J_UpdatedAt = 0, J_CompletedAt = None\<rparr>"

definition demo_queue :: "unit queue" where
  "demo_queue = EnqueueJob 0 [''a'', ''b''] NewPersistentJobQueue demo_job [''10.0.0.1'', ''10.0.0.2'']"

definition demo_task :: "string \<Rightarrow> string \<Rightarrow> unit HostTask" where
  "demo_task k ip = new_task 0 (demo_job\<lparr>J_TotalHosts := 2, J_Status := ''queued''\<rparr>) k ip"

lemma demo_queue_fields:
  "Q_jobs demo_queue = [''j'' \<mapsto> demo_job\<lparr>J_TotalHosts := 2, J_Status := ''queued''\<rparr>]"
  "Q_tasks demo_queue = [''a'' \<mapsto> demo_task ''a'' ''10.0.0.1'', ''b'' \<mapsto> demo_task ''b'' ''10.0.0.2'']"
  by (simp_all add: demo_queue_def EnqueueJob_def Let_def NewPersistentJobQueue_def demo_job_def demo_task_def)

lemma demo_task_status [simp]:
  "T_Status (demo_task k ip) = StatusPending" "T_JobID (demo_task k ip) = ''j''"
  by (simp_all add: demo_task_def new_task_def demo_job_def)

lemma iterates_demo: "iterates (Q_tasks demo_queue) [''b'', ''a'']"
  by (auto simp: iterates_def demo_queue_fields split: if_splits)

lemma demo_lease:
  obtains q where "LeaseBatch [''b'', ''a''] 0 demo_queue ''w'' 0 5 = (q, [''b''])"
    "Q_tasks q = (Q_tasks demo_queue)(''b'' \<mapsto> leased_as 0 5 ''w'' (demo_task ''b'' ''10.0.0.2''))"
  by (simp add: LeaseBatch_def demo_queue_fields Let_def)


text \<open>C16. A lease hands out pending tasks only, each once, as many as the batch size allows (one when
  the batch size is not positive), records worker and expiry on them, and touches no other task; so
  two leases that follow each other never share a task.\<close>

theorem LeaseBatch_exact:
  assumes "iterates (Q_tasks q) ord" "LeaseBatch ord now q worker batchSize d = (q', leased)"
  shows "distinct leased
     \<and> (\<forall>k \<in> set leased. \<exists>t. Q_tasks q k = Some t \<and> T_Status t = StatusPending
          \<and> Q_tasks q' k = Some (leased_as now (now + d) worker t))
     \<and> (\<forall>k. k \<notin> set leased \<longrightarrow> Q_tasks q' k = Q_tasks q k)
     \<and> int (length leased) = min (max 1 batchSize)
          (int (card {k. \<exists>t. Q_tasks q k = Some t \<and> T_Status t = StatusPending}))
     \<and> (LeaseBatch ord' now' q' worker' batchSize' d' = (q'', leased') \<longrightarrow> distinct ord' \<longrightarrow>
          set leased \<inter> set leased' = {})"
proof -
  have d: "distinct ord" using assms(1) by (simp add: iterates_def)
  have "lease_loop now (now + d) worker batchSize ord q [] = (q', leased)"
    using assms(2) by (simp add: LeaseBatch_def)
  from lease_loop_spec [OF d _ this]
  have l: "leased = take (nat (max 1 batchSize)) (pending_keys q ord)"
    and q': "Q_tasks q' = (\<lambda>k. if k \<in> set leased then map_option (leased_as now (now + d) worker) (Q_tasks q k) else Q_tasks q k)"
    by auto
  have dist: "distinct (pending_keys q ord)" using d by (simp add: pending_keys_def)
  have set: "set (pending_keys q ord) = {k. \<exists>t. Q_tasks q k = Some t \<and> T_Status t = StatusPending}"
    using assms(1) by (auto simp: pending_keys_def iterates_def)
  have pend: "\<exists>t. Q_tasks q k = Some t \<and> T_Status t = StatusPending" if "k \<in> set leased" for k
    using that l set by (auto dest!: in_set_takeD)
  have "int (length leased) = min (max 1 batchSize) (int (length (pending_keys q ord)))"
    by (auto simp: l min_def)
  then have len: "int (length leased) = min (max 1 batchSize)
      (int (card {k. \<exists>t. Q_tasks q k = Some t \<and> T_Status t = StatusPending}))"
    using distinct_card [OF dist] set by simp
  have "set leased \<inter> set leased' = {}"
    if "LeaseBatch ord' now' q' worker' batchSize' d' = (q'', leased')" "distinct ord'"
  proof -
    have "lease_loop now' (now' + d') worker' batchSize' ord' q' [] = (q'', leased')"
      using that(1) by (simp add: LeaseBatch_def)
    from lease_loop_spec [OF that(2) _ this]
    have "set leased' \<subseteq> set (pending_keys q' ord')" by (auto dest!: in_set_takeD)
    then show ?thesis using pend by (fastforce simp: pending_keys_def q' leased_as_def)
  qed
  moreover have "\<forall>k \<in> set leased. \<exists>t. Q_tasks q k = Some t \<and> T_Status t = StatusPending
      \<and> Q_tasks q' k = Some (leased_as now (now + d) worker t)"
    using pend by (fastforce simp: q')
  moreover have "\<forall>k. k \<notin> set leased \<longrightarrow> Q_tasks q' k = Q_tasks q k" by (simp add: q')
  moreover have "distinct leased" using dist by (simp add: l distinct_take)
  ultimately show ?thesis using len by blast
qed

text \<open>Witness of C16.\<close>

theorem LeaseBatch_exact_witness:
  "\<exists>q'. LeaseBatch [''b'', ''a''] 0 demo_queue ''w'' 0 5 = (q', [''b'']) \<and> distinct [''b'']
     \<and> Q_tasks q' ''a'' = Q_tasks demo_queue ''a''"
proof -
  obtain q' where q': "LeaseBatch [''b'', ''a''] 0 demo_queue ''w'' 0 5 = (q', [''b''])" by (rule demo_lease)
  from LeaseBatch_exact [OF iterates_demo q'] q' show ?thesis by simp
qed

lemma ReclaimExpiredLeases_spec:
  assumes "iterates (Q_tasks q) ord" "ReclaimExpiredLeases ord now q = (q', n)"
  shows "Q_jobs q' = Q_jobs q
     \<and> (\<forall>k. Q_tasks q' k = (case Q_tasks q k of None \<Rightarrow> None
          | Some t \<Rightarrow> if lease_expired now t then Some (reclaimed now t) else Some t))
     \<and> n = int (card {k. \<exists>t. Q_tasks q k = Some t \<and> lease_expired now t})
     \<and> \<not> (\<exists>k t. Q_tasks q' k = Some t \<and> lease_expired now t)"
proof -
  have d: "distinct ord" "set ord = dom (Q_tasks q)" using assms(1) by (simp_all add: iterates_def)
  have "reclaim_loop now ord q 0 = (q', n)" using assms(2) by (simp add: ReclaimExpiredLeases_def)
  note R = reclaim_loop_spec [OF d(1) this]
  have t: "Q_tasks q' k = (case Q_tasks q k of None \<Rightarrow> None
      | Some t \<Rightarrow> if lease_expired now t then Some (reclaimed now t) else Some t)" for k
    using R d(2) by (auto split: option.split)
  have "{k \<in> set ord. \<exists>t. Q_tasks q k = Some t \<and> lease_expired now t}
      = {k. \<exists>t. Q_tasks q k = Some t \<and> lease_expired now t}" using d(2) by auto
  moreover have "\<not> lease_expired now (reclaimed now t)" for t :: "'a HostTask"
    by (simp add: lease_expired_def reclaimed_def)
  ultimately show ?thesis using R t by (auto split: option.splits if_splits)
qed

text \<open>Reclaiming returns exactly the tasks that are leased and whose lease has run out to pending, without
  owner or expiry and without charging a retry, counts them, and leaves every other task and every job alone.\<close>

theorem ReclaimExpiredLeases_exact:
  assumes "iterates (Q_tasks q) ord" "ReclaimExpiredLeases ord now q = (q', n)"
  shows "let late = (\<lambda>t. T_Status t = StatusLeased \<and> (\<exists>e. T_LeaseExpiresAt t = Some e \<and> e < now))
    in Q_jobs q' = Q_jobs q
     \<and> (\<forall>k. Q_tasks q' k = (case Q_tasks q k of None \<Rightarrow> None
          | Some t \<Rightarrow> if late t then Some (t\<lparr>T_Status := StatusPending, T_LeasedByWorker := [], T_LeaseExpiresAt := None,
              T_UpdatedAt := now\<rparr>) else Some t))
     \<and> n = int (card {k. \<exists>t. Q_tasks q k = Some t \<and> late t})
     \<and> \<not> (\<exists>k t. Q_tasks q' k = Some t \<and> late t)"
proof -
  have e: "lease_expired now t \<longleftrightarrow> T_Status t = StatusLeased \<and> (\<exists>e. T_LeaseExpiresAt t = Some e \<and> e < now)" for t :: "'a HostTask"
    by (simp add: lease_expired_def split: option.split)
  show ?thesis using ReclaimExpiredLeases_spec [OF assms] unfolding e reclaimed_def Let_def .
qed

text \<open>A concrete instance.\<close>

theorem ReclaimExpiredLeases_exact_witness:
  "\<exists>q q'. iterates (Q_tasks q) [''a'', ''b''] \<and> ReclaimExpiredLeases [''a'', ''b''] 6 q = (q', 1)
     \<and> \<not> (\<exists>k t. Q_tasks q' k = Some (t :: unit HostTask) \<and> T_Status t = StatusLeased \<and> (\<exists>e. T_LeaseExpiresAt t = Some e \<and> e < 6))"
proof -
  obtain q where q: "LeaseBatch [''b'', ''a''] 0 demo_queue ''w'' 0 5 = (q, [''b''])"
    "Q_tasks q = (Q_tasks demo_queue)(''b'' \<mapsto> leased_as 0 5 ''w'' (demo_task ''b'' ''10.0.0.2''))"
    by (rule demo_lease)
  have i: "iterates (Q_tasks q) [''a'', ''b'']"
    by (auto simp: q(2) iterates_def demo_queue_fields split: if_splits)
  obtain q' where q': "ReclaimExpiredLeases [''a'', ''b''] 6 q = (q', 1)"
    by (simp add: ReclaimExpiredLeases_def q(2) demo_queue_fields lease_expired_def leased_as_def)
  from ReclaimExpiredLeases_exact [OF i q', unfolded Let_def] i q' show ?thesis by blast
qed

text \<open>
  The protocol is needed: reporting the outcome of one task of a two-host job twice, as happens
  when an expired lease is reclaimed while its worker still runs, completes the job although the
  other host was never scanned.
\<close>

lemma double_completion_miscounts:
  "\<exists>q1 q2 j. CompleteTask 0 demo_queue ''a'' True None = Some q1 \<and> CompleteTask 0 q1 ''a'' True None = Some q2
     \<and> Q_jobs q2 ''j'' = Some j \<and> J_Status j = ''completed''
     \<and> map_option T_Status (Q_tasks q2 ''b'') = Some StatusPending"
  by (simp add: CompleteTask_def demo_queue_fields finalize_def Let_def) (simp add: demo_job_def)

end
