(* ===== verification/HashiCorpVault.thy ===== *)
theory HashiCorpVault
  imports SecretVault Base64 Feeds
begin

text \<open>
  The HashiCorp provider (\<open>vault/hashicorp.go\<close>): the KV v2 requests of each operation and how their answers
  are read. The server is a function of its state and the request; \<open>kv_v2\<close> states the documented behaviour
  of the secrets engine (reads of the latest version, versions, check-and-set, deletion of all versions),
  under which the provider satisfies the contract \<open>secret_provider\<close>. Request bodies are kept as records,
  before JSON encoding; decoding answers is an argument.
\<close>

section \<open>Requests\<close>

record vaultKVWriteRequest =
  KW_CAS :: "int option"
  KW_secret :: string
  KW_rotation_version :: int
  KW_credential_type :: string
  KW_username :: string
  KW_domain_or_host :: string

text \<open>The fields of an answer that are read: the secret when it is a string, and the version.\<close>

record vaultKVReadResponse =
  KR_secret :: "string option"
  KR_version :: int

datatype vault_method = VaultGet | VaultPut vaultKVWriteRequest | VaultDelete

record vault_request =
  VQ_method :: vault_method
  VQ_url :: string
  VQ_token :: "string option"

record HashiCorpVaultProvider =
  HV_addr :: string
  HV_token :: string
  HV_kvMountPath :: string

record ('e, 'v) vault_net =
  HN_url_ok :: "string \<Rightarrow> bool"
  HN_server :: "'e \<Rightarrow> 'v \<Rightarrow> vault_request \<Rightarrow> 'v \<times> exchange"
  HN_read_ok :: "'e \<Rightarrow> bool"
  HN_unmarshal :: "string \<Rightarrow> vaultKVReadResponse option"

definition NewHashiCorpVaultProvider :: "string \<Rightarrow> string \<Rightarrow> string \<Rightarrow> vault_error + HashiCorpVaultProvider" where
  "NewHashiCorpVaultProvider addr0 token0 kvMountPath0 =
     (let vaultAddr = trim_space addr0; token = trim_space token0;
          mount = (if kvMountPath0 = [] then ''endpointguard'' else kvMountPath0)
      in if vaultAddr = [] then Inl EmptyVaultAddress
         else if token = [] then Inl EmptyVaultToken
         else Inr \<lparr>HV_addr = trim_right (CHR ''/'') vaultAddr, HV_token = token,
                   HV_kvMountPath = trim (\<lambda>c. c = CHR ''/'') mount\<rparr>)"

definition kv_url :: "HashiCorpVaultProvider \<Rightarrow> string \<Rightarrow> string \<Rightarrow> string" where
  "kv_url h kind path = HV_addr h @ ''/v1/'' @ HV_kvMountPath h @ ''/'' @ kind @ ''/'' @ path"

definition vault_req :: "HashiCorpVaultProvider \<Rightarrow> vault_method \<Rightarrow> string \<Rightarrow> vault_request" where
  "vault_req h m url = \<lparr>VQ_method = m, VQ_url = url, VQ_token = Some (HV_token h)\<rparr>"

definition write_body :: "int option \<Rightarrow> CredentialRef \<Rightarrow> int \<Rightarrow> string \<Rightarrow> vaultKVWriteRequest" where
  "write_body cas ref version plaintext =
     \<lparr>KW_CAS = cas, KW_secret = b64std_encode plaintext, KW_rotation_version = version,
      KW_credential_type = CX_CredentialType ref, KW_username = CX_Username ref, KW_domain_or_host = CX_DomainOrHost ref\<rparr>"

text \<open>Go reads at most one megabyte of an answer.\<close>

definition read_limit :: nat where "read_limit = 1048576"

section \<open>Operations\<close>

text \<open>A write and the reading of its answer, shared by store and rotation.\<close>

definition put_secret :: "('e, 'v) vault_net \<Rightarrow> HashiCorpVaultProvider \<Rightarrow> 'e \<Rightarrow> 'v \<Rightarrow> CredentialRef \<Rightarrow> vaultKVWriteRequest
    \<Rightarrow> 'v \<times> vault_error option" where
  "put_secret net h e v ref body =
     (let url = kv_url h ''data'' (buildVaultPath ref)
      in if \<not> HN_url_ok net url then (v, Some RequestNotBuilt)
         else
           (case HN_server net e v (vault_req h (VaultPut body) url) of
              (v', TransportFailed err) \<Rightarrow> (v', Some (ErrProviderUnavailable err))
            | (v', Answered st _) \<Rightarrow>
                if st < 200 \<or> 300 \<le> st then (v', Some (VaultStatus st (CX_OpaqueID ref))) else (v', None)))"

definition hashi_store :: "('e, 'v) vault_net \<Rightarrow> HashiCorpVaultProvider \<Rightarrow> 'e \<Rightarrow> 'v \<Rightarrow> CredentialRef \<Rightarrow> string
    \<Rightarrow> 'v \<times> vault_error option" where
  "hashi_store net h e v ref plaintext = put_secret net h e v ref (write_body None ref (CX_RotationVersion ref) plaintext)"

definition hashi_resolve :: "('e, 'v) vault_net \<Rightarrow> HashiCorpVaultProvider \<Rightarrow> 'e \<Rightarrow> 'v \<Rightarrow> CredentialRef
    \<Rightarrow> 'v \<times> (vault_error + string)" where
  "hashi_resolve net h e v ref =
     (let url = kv_url h ''data'' (buildVaultPath ref)
      in if \<not> HN_url_ok net url then (v, Inl RequestNotBuilt)
         else
           (case HN_server net e v (vault_req h VaultGet url) of
              (v', TransportFailed err) \<Rightarrow> (v', Inl (ErrProviderUnavailable err))
            | (v', Answered st body) \<Rightarrow>
                (v',
                 if st = 404 then Inl (ErrSecretNotFound (CX_OpaqueID ref))
                 else if st < 200 \<or> 300 \<le> st then Inl (VaultStatus st (CX_OpaqueID ref))
                 else if \<not> HN_read_ok net e then Inl BodyNotRead
                 else
                   (case HN_unmarshal net (take read_limit body) of
                      None \<Rightarrow> Inl BodyNotParsed
                    | Some vaultResp \<Rightarrow>
                        (case KR_secret vaultResp of
                           None \<Rightarrow> Inl (ErrSecretNotFound (CX_OpaqueID ref))
                         | Some secretB64 \<Rightarrow>
                             if secretB64 = [] then Inl (ErrSecretNotFound (CX_OpaqueID ref))
                             else (case b64std_decode secretB64 of None \<Rightarrow> Inl SecretNotBase64 | Some plaintext \<Rightarrow> Inr plaintext))))))"

text \<open>The two steps of a rotation: reading the current version (0 when it cannot be read), then the
  write that is valid only for that version.\<close>

definition rotate_read :: "('e, 'v) vault_net \<Rightarrow> HashiCorpVaultProvider \<Rightarrow> 'e \<Rightarrow> 'v \<Rightarrow> CredentialRef
    \<Rightarrow> 'v \<times> (vault_error + int)" where
  "rotate_read net h e v ref =
     (let url = kv_url h ''data'' (buildVaultPath ref)
      in if \<not> HN_url_ok net url then (v, Inl RequestNotBuilt)
         else
           (case HN_server net e v (vault_req h VaultGet url) of
              (v', TransportFailed err) \<Rightarrow> (v', Inl (ErrProviderUnavailable err))
            | (v', Answered st body) \<Rightarrow>
                (v',
                 Inr (if st = 200 \<and> HN_read_ok net e
                      then (case HN_unmarshal net (take read_limit body) of None \<Rightarrow> 0 | Some vaultResp \<Rightarrow> KR_version vaultResp)
                      else 0))))"

definition rotate_write :: "('e, 'v) vault_net \<Rightarrow> HashiCorpVaultProvider \<Rightarrow> 'e \<Rightarrow> 'v \<Rightarrow> CredentialRef \<Rightarrow> int \<Rightarrow> string
    \<Rightarrow> 'v \<times> vault_error option" where
  "rotate_write net h e v ref casVersion newPlaintext =
     put_secret net h e v ref (write_body (Some casVersion) ref (wrap64 (CX_RotationVersion ref + 1)) newPlaintext)"

definition hashi_rotate :: "('e, 'v) vault_net \<Rightarrow> HashiCorpVaultProvider \<Rightarrow> 'e \<Rightarrow> 'v \<Rightarrow> CredentialRef \<Rightarrow> string
    \<Rightarrow> 'v \<times> vault_error option" where
  "hashi_rotate net h e v ref newPlaintext =
     (case rotate_read net h e v ref of
        (v', Inl err) \<Rightarrow> (v', Some err)
      | (v', Inr currentVersion) \<Rightarrow> rotate_write net h e v' ref currentVersion newPlaintext)"

definition hashi_delete :: "('e, 'v) vault_net \<Rightarrow> HashiCorpVaultProvider \<Rightarrow> 'e \<Rightarrow> 'v \<Rightarrow> CredentialRef
    \<Rightarrow> 'v \<times> vault_error option" where
  "hashi_delete net h e v ref =
     (let url = kv_url h ''metadata'' (buildVaultPath ref)
      in if \<not> HN_url_ok net url then (v, Some RequestNotBuilt)
         else
           (case HN_server net e v (vault_req h VaultDelete url) of
              (v', TransportFailed err) \<Rightarrow> (v', Some (ErrProviderUnavailable err))
            | (v', Answered st _) \<Rightarrow>
                if st = 404 then (v', Some (ErrSecretNotFound (CX_OpaqueID ref)))
                else if st < 200 \<or> 300 \<le> st then (v', Some (VaultStatus st (CX_OpaqueID ref)))
                else (v', None)))"

definition hashi_health :: "('e, 'v) vault_net \<Rightarrow> HashiCorpVaultProvider \<Rightarrow> 'e \<Rightarrow> 'v \<Rightarrow> 'v \<times> vault_error option" where
  "hashi_health net h e v =
     (let url = HV_addr h @ ''/v1/sys/health''
      in if \<not> HN_url_ok net url then (v, Some (ErrProviderUnavailable ''failed to build health check''))
         else
           (case HN_server net e v \<lparr>VQ_method = VaultGet, VQ_url = url, VQ_token = None\<rparr> of
              (v', TransportFailed err) \<Rightarrow> (v', Some (ErrProviderUnavailable err))
            | (v', Answered st _) \<Rightarrow> (v', if st \<noteq> 200 then Some (ErrProviderUnavailable ''vault health status'') else None)))"

definition hashi_provider :: "('e, 'v) vault_net \<Rightarrow> HashiCorpVaultProvider \<Rightarrow> ('e, 'v) SecretProvider" where
  "hashi_provider net h =
     \<lparr>SP_StoreSecret = hashi_store net h, SP_ResolveSecret = hashi_resolve net h, SP_RotateSecret = hashi_rotate net h,
      SP_DeleteSecret = hashi_delete net h, SP_HealthCheck = hashi_health net h, SP_Name = ''hashicorp-vault-kv2''\<rparr>"

section \<open>The secrets engine\<close>

text \<open>\<open>current look v path\<close> is the latest version at a path, 0 when there is none.\<close>

definition current :: "('v \<Rightarrow> string \<rightharpoonup> int \<times> vaultKVWriteRequest) \<Rightarrow> 'v \<Rightarrow> string \<Rightarrow> int" where
  "current look v path = (case look v path of None \<Rightarrow> 0 | Some (ver, _) \<Rightarrow> ver)"

definition accepted :: "exchange \<Rightarrow> bool" where
  "accepted x \<longleftrightarrow> (case x of TransportFailed _ \<Rightarrow> False | Answered st _ \<Rightarrow> 200 \<le> st \<and> st < 300)"

text \<open>Documented behaviour of KV v2, for a view \<open>look\<close> of the server state. A read changes nothing, and when
  accepted there is an entry and the body decodes (unless it exceeds the read limit) to its secret and
  version. A write touches only its path; when accepted it becomes the next version, and one that names
  another version than the current one is refused and changes nothing. A metadata deletion touches only
  its path, and when accepted removes it.\<close>

definition kv_reads :: "HashiCorpVaultProvider \<Rightarrow> ('e, 'v) vault_net \<Rightarrow> ('v \<Rightarrow> string \<rightharpoonup> int \<times> vaultKVWriteRequest) \<Rightarrow> bool" where
  "kv_reads h net look \<longleftrightarrow>
     (\<forall>e v v' x path. HN_server net e v (vault_req h VaultGet (kv_url h ''data'' path)) = (v', x) \<longrightarrow>
        look v' = look v \<and>
        (\<forall>st body. x = Answered st body \<and> 200 \<le> st \<and> st < 300 \<longrightarrow>
           st = 200 \<and> (\<exists>ver d. look v path = Some (ver, d) \<and>
             HN_unmarshal net (take read_limit body) \<in> {None, Some \<lparr>KR_secret = Some (KW_secret d), KR_version = ver\<rparr>})))"

definition kv_writes :: "HashiCorpVaultProvider \<Rightarrow> ('e, 'v) vault_net \<Rightarrow> ('v \<Rightarrow> string \<rightharpoonup> int \<times> vaultKVWriteRequest) \<Rightarrow> bool" where
  "kv_writes h net look \<longleftrightarrow>
     (\<forall>e v v' x path body. HN_server net e v (vault_req h (VaultPut body) (kv_url h ''data'' path)) = (v', x) \<longrightarrow>
        (\<forall>path'. path' \<noteq> path \<longrightarrow> look v' path' = look v path') \<and>
        (accepted x \<longrightarrow> look v' path = Some (current look v path + 1, body)) \<and>
        (\<forall>n. KW_CAS body = Some n \<and> n \<noteq> current look v path \<longrightarrow> \<not> accepted x \<and> look v' = look v))"

definition kv_deletes :: "HashiCorpVaultProvider \<Rightarrow> ('e, 'v) vault_net \<Rightarrow> ('v \<Rightarrow> string \<rightharpoonup> int \<times> vaultKVWriteRequest) \<Rightarrow> bool" where
  "kv_deletes h net look \<longleftrightarrow>
     (\<forall>e v v' x path. HN_server net e v (vault_req h VaultDelete (kv_url h ''metadata'' path)) = (v', x) \<longrightarrow>
        (\<forall>path'. path' \<noteq> path \<longrightarrow> look v' path' = look v path') \<and>
        (accepted x \<longrightarrow> look v' path = None))"

definition kv_v2 :: "HashiCorpVaultProvider \<Rightarrow> ('e, 'v) vault_net \<Rightarrow> ('v \<Rightarrow> string \<rightharpoonup> int \<times> vaultKVWriteRequest) \<Rightarrow> bool" where
  "kv_v2 h net look \<longleftrightarrow> kv_reads h net look \<and> kv_writes h net look \<and> kv_deletes h net look"

definition hashi_content :: "('v \<Rightarrow> string \<rightharpoonup> int \<times> vaultKVWriteRequest) \<Rightarrow> 'v \<Rightarrow> CredentialRef \<Rightarrow> string option" where
  "hashi_content look v ref = (case look v (buildVaultPath ref) of None \<Rightarrow> None | Some (_, d) \<Rightarrow> b64std_decode (KW_secret d))"

lemma put_secret_accepted:
  assumes "kv_writes h net look" "put_secret net h e v ref body = (v', res)"
  shows "(res = None \<longrightarrow> look v' (buildVaultPath ref) = Some (current look v (buildVaultPath ref) + 1, body))
    \<and> (\<forall>path. path \<noteq> buildVaultPath ref \<longrightarrow> look v' path = look v path)
    \<and> (\<forall>n. KW_CAS body = Some n \<and> n \<noteq> current look v (buildVaultPath ref) \<longrightarrow> res \<noteq> None \<and> look v' = look v)"
proof (cases "HN_url_ok net (kv_url h ''data'' (buildVaultPath ref))")
  case False
  then show ?thesis using assms(2) by (auto simp: put_secret_def Let_def)
next
  case True
  obtain v1 x where x: "HN_server net e v (vault_req h (VaultPut body) (kv_url h ''data'' (buildVaultPath ref))) = (v1, x)"
    by fastforce
  have r: "v' = v1" "res = None \<longleftrightarrow> accepted x"
    using assms(2) True x by (auto simp: put_secret_def Let_def accepted_def split: exchange.splits if_splits)
  show ?thesis using assms(1) x unfolding kv_writes_def r by blast
qed

lemma get_secret:
  assumes "kv_reads h net look"
    and "HN_server net e v (vault_req h VaultGet (kv_url h ''data'' path)) = (v', x)"
  shows "look v' = look v"
    and "x = Answered st body \<Longrightarrow> 200 \<le> st \<Longrightarrow> st < 300 \<Longrightarrow> HN_unmarshal net (take read_limit body) = Some resp
      \<Longrightarrow> \<exists>d. look v path = Some (KR_version resp, d) \<and> KR_secret resp = Some (KW_secret d)"
  using assms unfolding kv_reads_def by fastforce+

lemma hashi_resolve_content:
  assumes "kv_reads h net look" "hashi_resolve net h e v ref = (v', res)"
  shows "look v' = look v" "res = Inr p \<Longrightarrow> hashi_content look v ref = Some p"
proof -
  let ?path = "buildVaultPath ref"
  have "look v' = look v \<and> (res = Inr p \<longrightarrow> hashi_content look v ref = Some p)"
  proof (cases "HN_url_ok net (kv_url h ''data'' ?path)")
    case False
    then show ?thesis using assms(2) by (auto simp: hashi_resolve_def Let_def)
  next
    case True
    obtain v1 x where x: "HN_server net e v (vault_req h VaultGet (kv_url h ''data'' ?path)) = (v1, x)" by fastforce
    show ?thesis
    proof (cases x)
      case (TransportFailed err)
      then show ?thesis using assms(2) True x get_secret(1) [OF assms(1) x] by (auto simp: hashi_resolve_def Let_def)
    next
      case (Answered st body)
      have v: "v' = v1" using assms(2) True x Answered by (simp add: hashi_resolve_def Let_def)
      have "hashi_content look v ref = Some p" if rp: "res = Inr p"
      proof -
        obtain resp sec where r: "200 \<le> st" "st < 300" "HN_unmarshal net (take read_limit body) = Some resp"
            "KR_secret resp = Some sec" "b64std_decode sec = Some p"
          using rp assms(2) True x Answered
          by (auto simp: hashi_resolve_def Let_def split: if_splits option.splits)
        show ?thesis using get_secret(2) [OF assms(1) x Answered r(1-3)] r(4,5) by (auto simp: hashi_content_def)
      qed
      then show ?thesis using v get_secret(1) [OF assms(1) x] by blast
    qed
  qed
  then show "look v' = look v" "res = Inr p \<Longrightarrow> hashi_content look v ref = Some p" by blast+
qed

lemma rotate_read_keeps:
  assumes "kv_reads h net look" "rotate_read net h e v ref = (v', res)"
  shows "look v' = look v"
proof (cases "HN_url_ok net (kv_url h ''data'' (buildVaultPath ref))")
  case False
  then show ?thesis using assms(2) by (simp add: rotate_read_def Let_def)
next
  case True
  obtain v1 x where x: "HN_server net e v (vault_req h VaultGet (kv_url h ''data'' (buildVaultPath ref))) = (v1, x)"
    by fastforce
  have "v' = v1" using assms(2) True x by (simp add: rotate_read_def Let_def split: exchange.splits)
  then show ?thesis using get_secret(1) [OF assms(1) x] by simp
qed

lemma hashi_delete_removes:
  assumes "kv_deletes h net look" "hashi_delete net h e v ref = (v', res)"
  shows "(res = None \<longrightarrow> look v' (buildVaultPath ref) = None) \<and> (\<forall>path. path \<noteq> buildVaultPath ref \<longrightarrow> look v' path = look v path)"
proof (cases "HN_url_ok net (kv_url h ''metadata'' (buildVaultPath ref))")
  case False
  then show ?thesis using assms(2) by (auto simp: hashi_delete_def Let_def)
next
  case True
  obtain v1 x where x: "HN_server net e v (vault_req h VaultDelete (kv_url h ''metadata'' (buildVaultPath ref))) = (v1, x)"
    by fastforce
  have r: "v' = v1" "res = None \<Longrightarrow> accepted x"
    using assms(2) True x by (auto simp: hashi_delete_def Let_def accepted_def split: exchange.splits if_splits)
  have "(\<forall>path'. path' \<noteq> buildVaultPath ref \<longrightarrow> look v1 path' = look v path')
      \<and> (accepted x \<longrightarrow> look v1 (buildVaultPath ref) = None)"
    by (rule assms(1) [unfolded kv_deletes_def, THEN spec, THEN spec, THEN spec, THEN spec, THEN spec, THEN mp, OF x])
  then show ?thesis using r by simp
qed

lemma hashi_content_frame:
  "look v' (buildVaultPath ref) = look v (buildVaultPath ref) \<Longrightarrow> hashi_content look v' ref = hashi_content look v ref"
  by (simp add: hashi_content_def)

lemma hashi_put_content:
  assumes "kv_writes h net look" "put_secret net h e v ref (write_body cas ref n p) = (v', None)"
  shows "hashi_content look v' ref = Some p"
  using put_secret_accepted [OF assms] by (simp add: hashi_content_def write_body_def)

interpretation hashi: secret_provider "hashi_provider net h" "hashi_content look"
    "\<lambda>a b. buildVaultPath a \<noteq> buildVaultPath b" "kv_v2 h net look" for net h look
proof (unfold_locales, simp_all only: hashi_provider_def SecretProvider.simps)
  fix e v v' p r and ref ref' :: CredentialRef and res
  assume "kv_v2 h net look"
  then have k: "kv_reads h net look" "kv_writes h net look" "kv_deletes h net look" by (simp_all add: kv_v2_def)
  show "hashi_content look v' ref' = hashi_content look v ref'" if "hashi_resolve net h e v ref = (v', res)"
    by (rule hashi_content_frame) (simp add: hashi_resolve_content(1) [OF k(1) that])
  show "hashi_content look v ref = Some p" if "hashi_resolve net h e v ref = (v', Inr p)"
    by (rule hashi_resolve_content(2) [OF k(1) that refl])
  show "hashi_content look v' ref = Some p" if "hashi_store net h e v ref p = (v', None)"
    using that unfolding hashi_store_def by (rule hashi_put_content [OF k(2)])
  show "hashi_content look v' ref' = hashi_content look v ref'"
    if "hashi_store net h e v ref p = (v', r)" "buildVaultPath ref \<noteq> buildVaultPath ref'"
    using put_secret_accepted [OF k(2) that(1) [unfolded hashi_store_def]] that(2) by (auto intro: hashi_content_frame)
  show "hashi_content look v' ref = Some p" if "hashi_rotate net h e v ref p = (v', None)"
    using that unfolding hashi_rotate_def rotate_write_def
    by (auto split: prod.splits sum.splits intro: hashi_put_content [OF k(2)])
  show "hashi_content look v' ref' = hashi_content look v ref'"
    if "hashi_rotate net h e v ref p = (v', r)" "buildVaultPath ref \<noteq> buildVaultPath ref'"
  proof -
    obtain v1 q where q: "rotate_read net h e v ref = (v1, q)" by fastforce
    have l: "look v1 = look v" by (rule rotate_read_keeps [OF k(1) q])
    show ?thesis
    proof (cases q)
      case (Inl err)
      then show ?thesis using that q l by (auto simp: hashi_rotate_def intro!: hashi_content_frame)
    next
      case (Inr n)
      then have "put_secret net h e v1 ref (write_body (Some n) ref (wrap64 (CX_RotationVersion ref + 1)) p) = (v', r)"
        using that(1) q by (simp add: hashi_rotate_def rotate_write_def)
      from put_secret_accepted [OF k(2) this] that(2) l show ?thesis by (auto intro!: hashi_content_frame)
    qed
  qed
  show "hashi_content look v' ref = None" if "hashi_delete net h e v ref = (v', None)"
    using hashi_delete_removes [OF k(3) that] by (simp add: hashi_content_def)
  show "hashi_content look v' ref' = hashi_content look v ref'"
    if "hashi_delete net h e v ref = (v', r)" "buildVaultPath ref \<noteq> buildVaultPath ref'"
    using hashi_delete_removes [OF k(3) that(1)] that(2) by (auto intro!: hashi_content_frame)
qed (simp add: hashi_content_def buildVaultPath_def)

section \<open>Rotation\<close>

lemma rotate_read_version:
  assumes "kv_reads h net look" "rotate_read net h e v ref = (v', Inr n)" "n \<noteq> 0"
  shows "current look v (buildVaultPath ref) = n"
proof -
  let ?url = "kv_url h ''data'' (buildVaultPath ref)"
  have ok: "HN_url_ok net ?url" using assms(2) by (simp add: rotate_read_def Let_def split: if_splits)
  obtain v1 x where x: "HN_server net e v (vault_req h VaultGet ?url) = (v1, x)" by fastforce
  obtain body resp where b: "x = Answered 200 body" "HN_unmarshal net (take read_limit body) = Some resp" "KR_version resp = n"
    using assms(2,3) ok x by (auto simp: rotate_read_def Let_def split: exchange.splits if_splits option.splits)
  show ?thesis using get_secret(2) [OF assms(1) x b(1) _ _ b(2)] b(3) by (auto simp: current_def)
qed

text \<open>C28. Rotations through check-and-set lose no update. A rotation whose write is accepted found the path
  still at the version it had read, whatever other writers did in between, leaves exactly the next
  version with the new secret, and a second write made for the same version, or for any version that is
  not current, is refused and changes nothing. A gateway that then resolves the credential can only get
  the new secret.\<close>

theorem hashi_rotation_cas:
  assumes "kv_v2 h net look"
    and "rotate_read net h e v ref = (v1, Inr n)"
    and "rotate_write net h e1 v2 ref n p = (v3, None)"
  shows "look v1 = look v
    \<and> (n = 0 \<or> current look v (buildVaultPath ref) = n)
    \<and> current look v2 (buildVaultPath ref) = n
    \<and> look v3 (buildVaultPath ref) = Some (n + 1, write_body (Some n) ref (wrap64 (CX_RotationVersion ref + 1)) p)
    \<and> (rotate_write net h e2 v3 ref n q = (v4, res) \<longrightarrow> res \<noteq> None \<and> look v4 = look v3)
    \<and> (rotate_write net h e2 v5 ref n q = (v4, res) \<and> current look v5 (buildVaultPath ref) \<noteq> n
        \<longrightarrow> res \<noteq> None \<and> look v4 = look v5)
    \<and> (ResolveCredentialForGateway (hashi_provider net h) f e3 now v3 g j c ip ref = (v6, tr, Inr s) \<longrightarrow> s = p)"
proof -
  have k: "kv_reads h net look" "kv_writes h net look" using assms(1) by (simp_all add: kv_v2_def)
  have cas: "KW_CAS (write_body (Some n) ref m x) = Some n" for m x by (simp add: write_body_def)
  note put = put_secret_accepted [OF k(2), where body = "write_body (Some n) ref (wrap64 (CX_RotationVersion ref + 1)) x" for x,
      unfolded cas]
  note w = put [OF assms(3) [unfolded rotate_write_def]]
  have v1: "look v1 = look v" by (rule rotate_read_keeps [OF k(1) assms(2)])
  have v0: "n = 0 \<or> current look v (buildVaultPath ref) = n" using rotate_read_version [OF k(1) assms(2)] by blast
  have v2: "current look v2 (buildVaultPath ref) = n" using w by blast
  have v3: "look v3 (buildVaultPath ref) = Some (n + 1, write_body (Some n) ref (wrap64 (CX_RotationVersion ref + 1)) p)"
    using w unfolding v2 by blast
  have stale: "res \<noteq> None \<and> look v4 = look v5"
    if "rotate_write net h e2 v5 ref n q = (v4, res)" "current look v5 (buildVaultPath ref) \<noteq> n" for v5 v4 res
    using put [OF that(1) [unfolded rotate_write_def]] that(2) by blast
  have "current look v3 (buildVaultPath ref) \<noteq> n" by (simp add: current_def v3)
  then have again: "res \<noteq> None \<and> look v4 = look v3" if "rotate_write net h e2 v3 ref n q = (v4, res)"
    using stale [OF that] by blast
  have s: "s = p" if "ResolveCredentialForGateway (hashi_provider net h) f e3 now v3 g j c ip ref = (v6, tr, Inr s)"
    using hashi.resolved_content(1) [OF assms(1) that] v3 by (simp add: hashi_content_def write_body_def)
  show ?thesis by (intro conjI [OF v1 conjI [OF v0 conjI [OF v2 conjI [OF v3 conjI [OF impI conjI [OF impI impI]]]]]])
    (erule again stale s | erule conjE, erule (1) stale)+
qed

text \<open>Witness of C28: an engine that keeps versions in a map.\<close>

type_synonym demo_kv = "string \<rightharpoonup> nat \<times> vaultKVWriteRequest"

definition demo_look :: "demo_kv \<Rightarrow> string \<rightharpoonup> int \<times> vaultKVWriteRequest" where
  "demo_look v = (\<lambda>path. map_option (\<lambda>(n, d). (int n, d)) (v path))"

definition demo_server :: "unit \<Rightarrow> demo_kv \<Rightarrow> vault_request \<Rightarrow> demo_kv \<times> exchange" where
  "demo_server e v req =
     (case VQ_method req of
        VaultGet \<Rightarrow>
          (v, case v (drop 12 (VQ_url req)) of
                None \<Rightarrow> Answered 404 []
              | Some (n, d) \<Rightarrow> if length (dec_nat n @ CHR '','' # KW_secret d) \<le> read_limit
                               then Answered 200 (dec_nat n @ CHR '','' # KW_secret d) else Answered 500 [])
      | VaultPut body \<Rightarrow>
          (let path = drop 12 (VQ_url req); cur = (case v path of None \<Rightarrow> 0 | Some (n, _) \<Rightarrow> n)
           in if KW_CAS body = None \<or> KW_CAS body = Some (int cur) then (v(path \<mapsto> (Suc cur, body)), Answered 200 [])
              else (v, Answered 400 []))
      | VaultDelete \<Rightarrow> (v(drop 16 (VQ_url req) := None), Answered 204 []))"

definition demo_unmarshal :: "string \<Rightarrow> vaultKVReadResponse option" where
  "demo_unmarshal b = Some \<lparr>KR_secret = Some (drop 1 (dropWhile (\<lambda>c. c \<noteq> CHR '','') b)),
     KR_version = int (undec (takeWhile (\<lambda>c. c \<noteq> CHR '','') b))\<rparr>"

definition demo_net :: "(unit, demo_kv) vault_net" where
  "demo_net = \<lparr>HN_url_ok = (\<lambda>_. True), HN_server = demo_server, HN_read_ok = (\<lambda>_. True), HN_unmarshal = demo_unmarshal\<rparr>"

definition demo_hashi :: HashiCorpVaultProvider where
  "demo_hashi = \<lparr>HV_addr = ''a'', HV_token = ''t'', HV_kvMountPath = ''m''\<rparr>"

lemma demo_urls:
  "drop 12 (kv_url demo_hashi ''data'' path) = path" "drop 16 (kv_url demo_hashi ''metadata'' path) = path"
  by (simp_all add: kv_url_def demo_hashi_def)

lemma demo_unmarshal_body:
  "demo_unmarshal (dec_nat n @ CHR '','' # s) = Some \<lparr>KR_secret = Some s, KR_version = int n\<rparr>"
proof -
  have "\<forall>c \<in> set (dec_nat n). c \<noteq> CHR '',''"
  proof -
    have "\<not> is_digit (CHR '','')" by (simp add: is_digit_def)
    then show ?thesis using dec_nat_digits by blast
  qed
  then show ?thesis by (simp add: demo_unmarshal_def takeWhile_append dropWhile_append undec_dec_nat)
qed

lemma kv_v2_demo: "kv_v2 demo_hashi demo_net demo_look"
  unfolding kv_v2_def
proof (intro conjI)
  show "kv_reads demo_hashi demo_net demo_look"
    unfolding kv_reads_def
  proof (intro allI impI conjI)
    fix e v v' x path
    assume r: "HN_server demo_net e v (vault_req demo_hashi VaultGet (kv_url demo_hashi ''data'' path)) = (v', x)"
    then show "demo_look v' = demo_look v" by (simp add: demo_net_def demo_server_def vault_req_def)
    fix st body
    assume st: "x = Answered st body \<and> 200 \<le> st \<and> st < 300"
    have x: "x = (case v path of None \<Rightarrow> Answered 404 []
        | Some (n, d) \<Rightarrow> if length (dec_nat n @ CHR '','' # KW_secret d) \<le> read_limit
                         then Answered 200 (dec_nat n @ CHR '','' # KW_secret d) else Answered 500 [])"
      using r by (auto simp: demo_net_def demo_server_def vault_req_def demo_urls)
    obtain n d where n: "v path = Some (n, d)" using x st by (cases "v path") auto
    have b: "st = 200" "body = dec_nat n @ CHR '','' # KW_secret d" "length body \<le> read_limit"
      using x st n by (auto split: if_splits)
    show "st = 200" by (fact b(1))
    show "\<exists>ver d. demo_look v path = Some (ver, d) \<and>
        HN_unmarshal demo_net (take read_limit body) \<in> {None, Some \<lparr>KR_secret = Some (KW_secret d), KR_version = ver\<rparr>}"
      using n b(3) demo_unmarshal_body [of n "KW_secret d", folded b(2)] by (simp add: demo_look_def demo_net_def)
  qed
  show "kv_writes demo_hashi demo_net demo_look"
    by (auto simp: kv_writes_def demo_net_def demo_server_def vault_req_def demo_urls demo_look_def current_def accepted_def Let_def
      split: if_splits option.splits)
  show "kv_deletes demo_hashi demo_net demo_look"
    by (auto simp: kv_deletes_def demo_net_def demo_server_def vault_req_def demo_urls demo_look_def)
qed

theorem hashi_rotation_cas_witness:
  "\<exists>v1 v2 ref. rotate_read demo_net demo_hashi () [buildVaultPath ref \<mapsto> (1, write_body None ref 0 ''old'')] ref = (v1, Inr 1)
     \<and> rotate_write demo_net demo_hashi () v1 ref 1 ''new'' = (v2, None)
     \<and> snd (rotate_write demo_net demo_hashi () v2 ref 1 ''late'') \<noteq> None"
proof -
  define ref where "ref = \<lparr>CX_OpaqueID = ''id'', CX_TenantID = ''t'', CX_CredentialType = [], CX_DomainOrHost = [],
     CX_Username = [], CX_VaultPath = [], CX_RotationVersion = 0\<rparr>"
  let ?v = "[buildVaultPath ref \<mapsto> (Suc 0, write_body None ref 0 ''old'')]"
  have short: "length (dec_nat (Suc 0) @ CHR '','' # KW_secret (write_body None ref 0 ''old'')) \<le> read_limit"
    by (simp add: write_body_def read_limit_def b64std_encode_def b64encode_def Let_def dec_nat.simps [of "Suc 0"])
  have body: "demo_server () ?v (vault_req demo_hashi VaultGet (kv_url demo_hashi ''data'' (buildVaultPath ref)))
      = (?v, Answered 200 (dec_nat (Suc 0) @ CHR '','' # KW_secret (write_body None ref 0 ''old'')))"
    using short by (simp add: demo_server_def vault_req_def demo_urls)
  have r: "rotate_read demo_net demo_hashi () ?v ref = (?v, Inr 1)"
    using short demo_unmarshal_body [of "Suc 0" "KW_secret (write_body None ref 0 ''old'')"]
    by (simp add: rotate_read_def Let_def demo_net_def body)
  obtain v2 where w: "rotate_write demo_net demo_hashi () ?v ref 1 ''new'' = (v2, None)"
    by (simp add: rotate_write_def put_secret_def demo_net_def demo_server_def vault_req_def demo_urls write_body_def Let_def)
  obtain v3 res where w2: "rotate_write demo_net demo_hashi () v2 ref 1 ''late'' = (v3, res)" by fastforce
  have ne: "snd (rotate_write demo_net demo_hashi () v2 ref 1 ''late'') \<noteq> None"
    using hashi_rotation_cas [OF kv_v2_demo r w, THEN conjunct2, THEN conjunct2, THEN conjunct2, THEN conjunct2, THEN conjunct1, THEN mp, OF w2]
    unfolding w2 by simp
  show ?thesis by (rule exI [of _ ?v], rule exI [of _ v2], rule exI [of _ ref]) (use r w ne in simp)
qed

end
