(* ===== verification/Spec2Isabelle.thy ===== *)
theory Spec2Isabelle
  imports ServerRun Masking JobQueue HashiCorpVault
begin

text \<open>
  EndpointGuard (ZeroAgent-Scan), the Go services. Paths below are relative to \<open>src/apps\<close>; \<open>api\<close> stands for
  \<open>api/internal\<close> and \<open>gateway\<close> for \<open>gateway/internal\<close>.

  The program is two services. The API server (\<open>api/cmd/server/main.go\<close>) keeps every store in memory (fleet, vulnerability findings,
  compliance, drift, users and sessions, vault) and answers HTTP calls behind a chain of middlewares; a background worker can
  ingest vulnerability feeds. The gateway (\<open>gateway/cmd/gateway/main.go\<close>) runs in a customer's network: it enrols, polls for scan jobs,
  resolves the credentials of a job, scans the hosts of a block with a pool of workers, streams the results back and sends heartbeats.

  \<^bold>\<open>Conventions.\<close> The theory \<open>GoBase\<close> holds what the services use of Go. Strings are lists of bytes; upper and lower case are those of
  ASCII. A time is its distance in nanoseconds from the Unix epoch, a duration is in nanoseconds, and arithmetic that can leave 64 bits is wrapped
  where the code can reach that (\<open>wrap64\<close>, \<open>quot\<close> for truncated division); counters of the metrics are 64-bit words. A \<open>float64\<close> is a rational
  number. A struct is a record, a pointer that may be nil an option, and a store that hands out one pointer under several keys is a heap
  with addresses (\<open>Sessions\<close>, \<open>Findings\<close>). A Go map is a partial function; a loop over one takes the order of the visit as an argument,
  and the theorems hold for every order that visits each key once (\<open>iterates\<close>). Clock readings, random draws, identifiers, cryptography,
  JSON of the library where it is not written out, the file system and the network are arguments; what a theorem needs of them is one of its
  hypotheses or an assumption of a locale (\<open>aead\<close> and \<open>kv_v2\<close> state what AES-GCM and the KV v2 engine document). Errors are values: a sum with
  an error datatype, an option, or the problem response that is written. An operation that holds its lock is one step; where the code
  gives a lock up in between, the interleaving is modelled (refresh of a token, budget of the feeds, pool, session limiter).

  \<^bold>\<open>Foundations.\<close>
  \<^item> \<open>GoBase\<close>: the prelude; strings, numbers, time, sorting of slices (locale \<open>strict_weak_order\<close>, interpreted on the byte order of strings, the
    order of findings and the age of snapshots), paging, loops over maps.
  \<^item> \<open>Base64\<close>, \<open>Json\<close>: \<open>base64.RawURLEncoding\<close> with its round trip; JSON values and the decoder on ASCII documents.
  \<^item> \<open>Http\<close>, \<open>RateLimit\<close>, \<open>AuthHttp\<close>, \<open>Telemetry\<close>, \<open>Masking\<close>: \<open>api/middleware\<close>, \<open>api/auth/middleware.go\<close> and \<open>api/telemetry\<close>: problem documents,
    security headers, sanitising, the token buckets with the bound on what they admit over any history, the authentication, permission, step-up and CSRF
    checks, counters and histograms with the text exposition, traces, the request log, masking of secrets.

  \<^bold>\<open>Identity.\<close>
  \<^item> \<open>Rbac\<close>, \<open>Tokens\<close>: roles and grants, group mapping, the step-up window (\<open>api/auth/rbac.go\<close>, \<open>oidc.go\<close>, \<open>stepup.go\<close>); HS256 tokens and
    one-time codes (\<open>jwt.go\<close>, \<open>totp.go\<close>): exactly which strings verify, and that generated tokens do.
  \<^item> \<open>Sessions\<close>: users, sessions and the rotation of refresh tokens (\<open>repository.go\<close>, \<open>session.go\<close>) as a step relation; a family has one usable token
    and a replay ends it.
  \<^item> \<open>AuthHandlers\<close>, \<open>AuthServer\<close>: the endpoints of \<open>api/handlers/auth_handlers.go\<close> and \<open>scim.go\<close>, their routes, and from a login to the calls its
    token opens.

  \<^bold>\<open>Results of scans.\<close>
  \<^item> \<open>Snapshot\<close>, \<open>SnapshotJson\<close>: the host snapshot (\<open>api/models/snapshot.go\<close>), its validation and its encoding by field tags.
  \<^item> \<open>Versions\<close>, \<open>Cpe\<close>, \<open>Findings\<close>, \<open>Feeds\<close>, \<open>FeedWorker\<close>: \<open>api/vulnscan\<close>: version comparison refines the order of padded components, printing and parsing of
    CPE names, the deduplicating repository, the scan of a snapshot, the budget and retries of the feed clients, the worker.
  \<^item> \<open>Drift\<close>, \<open>Alerts\<close>: \<open>api/drift\<close>: the comparison of two snapshots, alert rules with suppression windows, signed webhooks with retries.
  \<^item> \<open>JsonLogic\<close>, \<open>CisRules\<close>, \<open>Compliance\<close>: \<open>api/compliance\<close>: the rule language with its truth tables, the built-in benchmark, evaluation and scores.
  \<^item> \<open>JobQueue\<close>: \<open>api/queue/job_queue.go\<close>: leases and retries as a step relation; the counters agree with the tasks in every reachable state.

  \<^bold>\<open>Fleet and vault.\<close>
  \<^item> \<open>FleetTypes\<close>, \<open>Keyset\<close>, \<open>Fleet\<close>, \<open>FleetSeed\<close>, \<open>FleetProps\<close>: \<open>api/models\<close> and \<open>api/repository\<close>: every operation over the invariant of all histories, the seed
    data, keyset pagination (locale \<open>keyset\<close>, interpreted for snapshots and for the audit log) whose pages cover a listing, audited tier changes.
  \<^item> \<open>Retention\<close>, \<open>RetentionProps\<close>: \<open>api/retention/engine.go\<close>: archival keeps payloads, the dry run predicts the execution.
  \<^item> \<open>SecretVault\<close>, \<open>EnvelopeVault\<close>, \<open>HashiCorpVault\<close>: \<open>api/vault\<close>: the contract of a provider is the locale \<open>secret_provider\<close>; both providers are
    interpretations of it, the manager over the envelope provider refines a map, rotation through check-and-set loses no update.

  \<^bold>\<open>The server.\<close>
  \<^item> \<open>Readiness\<close>, \<open>Reports\<close>: \<open>api/config\<close>, \<open>api/readiness\<close>, \<open>api/reports\<close>.
  \<^item> \<open>ApiHandlers\<close>: every endpoint of \<open>api/handlers/handlers.go\<close> as a function of what the call meets, the state of the server, URL, decoded body, request and
    response, to the state and the response afterwards.
  \<^item> \<open>Server\<close>: the routes and their guards, and the chain in front of a handler (\<open>serve\<close>, \<open>handle_request\<close>). A call is passed exactly when the limiter, the
    CSRF check and the guard pass it (\<open>chain_cases\<close>), it runs as the caller its token names (\<open>caller\<close>), answers stay in the caller's tenant, readers
    change nothing, a failed call leaves the state.
  \<^item> \<open>Openapi\<close>: the document of \<open>api/openapi/spec.go\<close> against the routes.
  \<^item> \<open>ServerRun\<close>: the start of the server and its life as a sequence of events over the stores it shares between handlers and workers.

  \<^bold>\<open>The gateway.\<close>
  \<^item> \<open>GatewayTypes\<close>, \<open>WorkerPool\<close>, \<open>Scanners\<close>, \<open>ScanOrchestrator\<close>: \<open>gateway/scanner\<close>: the pool as a step relation in every interleaving, with a measure under
    which it ends; retries of a probe; when credentials travel and over what; the hosts of a block; the session semaphore; a scan job.
  \<^item> \<open>GatewayAgent\<close>, \<open>Enrollment\<close>: \<open>gateway/config\<close>, \<open>poller\<close>, \<open>updater\<close>, \<open>streamer\<close>, \<open>heartbeat\<close>, \<open>collector\<close>, \<open>telemetry\<close>, \<open>mtls\<close>, and the dispatch
    loop.
  \<^item> \<open>Integration\<close>: the gateway's requests against the server's routes and decoders.

  \<^bold>\<open>Termination and bounds.\<close> Loops are structural recursion or have a measure (length of the text that is left, addresses that are left in a block, size of
  an expression). Only the JSON decoder takes fuel, one element of a list per call; it gets the document twice over, and every
  second call at the latest consumes a byte. Loops of daemons run over the list of the events they see, and retry loops over the list of
  their attempts, whose length is the configured number.

  \<^bold>\<open>Not modelled.\<close> The dashboard (TypeScript), the SQL schema (no service opens a database), the PowerShell and Python collectors, deployment
  files and the two development scripts are not part of the Go services' state. Matching of methods and paths is chi's; its recovery and
  real-address middlewares and the CORS handler are left out, as are TLS settings, connection pools and timeouts of clients, the text printed to
  the console, and the shutdown of the HTTP server. The \<open>float64\<close> roundings, non-ASCII case mappings and Unicode white space are outside the conventions above. Interface
  declarations and accessors that only return a field have no definition of their own.
\<close>

end
